(* ===== verification/Prelude.thy ===== *)
theory Prelude
  imports Main "HOL-Library.AList" "HOL-Library.Word" "HOL-Library.Multiset"
begin

unbundle bit_operations_syntax

text \<open>
  Shared vocabulary of the development.

  \<^item> The machine integers of the source: \<open>u64\<close> is a 64-bit word, \<open>i64\<close> is an \<open>int\<close> read through
    the two casts \<open>as_i64\<close> and \<open>as_u64\<close> (Rust's \<open>as\<close> between the two types keeps the bits).
  \<^item> The outcome of a Rust computation: a value, an error of the \<open>Result\<close> type, or a panic
    (\<open>unwrap\<close>, \<open>expect\<close>, \<open>panic!\<close>, \<open>todo!\<close>, \<open>unimplemented!\<close>).
  \<^item> Stateful computations as state-passing functions. An error does not roll the state back: what was
    written before the \<open>?\<close> stays written, as in the source.
  \<^item> \<open>HashMap\<close> as an association list with distinct keys. The order of the list stands for the
    iteration order, which the Rust documentation leaves unspecified, so a statement about a map that
    is iterated holds for every order of the list.
\<close>

named_theorems action_simps \<open>unfolding rules of the computations with state and errors\<close>
named_theorems perm_simps \<open>bitwise facts on permission values\<close>
named_theorems db_simps \<open>what the database operations read and write\<close>

section \<open>Machine integers\<close>

type_synonym u64 = "64 word"
type_synonym u32 = "32 word"
type_synonym i64 = int

abbreviation i64_max :: i64 where
  "i64_max \<equiv> 2 ^ 63 - 1"

definition as_i64 :: "u64 \<Rightarrow> i64" where
  "as_i64 w = sint w"

definition as_u64 :: "i64 \<Rightarrow> u64" where
  "as_u64 i = word_of_int i"

definition in_i64 :: "i64 \<Rightarrow> bool" where
  "in_i64 i \<longleftrightarrow> - (2 ^ 63) \<le> i \<and> i < 2 ^ 63"

lemma as_u64_as_i64 [simp]: "as_u64 (as_i64 w) = w"
  by (simp add: as_u64_def as_i64_def)

lemma as_i64_in_i64 [simp]: "in_i64 (as_i64 w)"
  using sint_greater_eq [of w] sint_less [of w] by (simp add: in_i64_def as_i64_def)

lemma as_i64_as_u64: "in_i64 i \<Longrightarrow> as_i64 (as_u64 i) = i"
  by (simp add: in_i64_def as_u64_def as_i64_def sint_sbintrunc' signed_take_bit_int_eq_self)

lemma as_u64_0 [simp]: "as_u64 0 = 0"
  by (simp add: as_u64_def)

section \<open>Outcomes and computations with state\<close>

datatype ('e, 'a) outcome = Ok 'a | Err 'e | Panic

type_synonym ('s, 'e, 'a) action = "'s \<Rightarrow> ('e, 'a) outcome \<times> 's"

definition ret :: "'a \<Rightarrow> ('s, 'e, 'a) action" where
  "ret x s = (Ok x, s)"

definition throw :: "'e \<Rightarrow> ('s, 'e, 'a) action" where
  "throw e s = (Err e, s)"

definition panic :: "('s, 'e, 'a) action" where
  "panic s = (Panic, s)"

definition gets :: "('s \<Rightarrow> 'a) \<Rightarrow> ('s, 'e, 'a) action" where
  "gets f s = (Ok (f s), s)"

definition modify :: "('s \<Rightarrow> 's) \<Rightarrow> ('s, 'e, unit) action" where
  "modify f s = (Ok (), f s)"

text \<open>\<open>lift r\<close> runs a computation that reads no state; \<open>andthen\<close> is the \<open>?\<close> operator followed by the
  rest of the function; \<open>attempt\<close> is \<open>if let Ok(..)\<close>, which turns an error into \<open>None\<close>.\<close>

definition lift :: "('e, 'a) outcome \<Rightarrow> ('s, 'e, 'a) action" where
  "lift r s = (r, s)"

definition andthen :: "('s, 'e, 'a) action \<Rightarrow> ('a \<Rightarrow> ('s, 'e, 'b) action) \<Rightarrow> ('s, 'e, 'b) action" where
  "andthen m f s =
     (case m s of
        (Ok x, s') \<Rightarrow> f x s'
      | (Err e, s') \<Rightarrow> (Err e, s')
      | (Panic, s') \<Rightarrow> (Panic, s'))"

definition attempt :: "('s, 'e, 'a) action \<Rightarrow> ('s, 'e, 'a option) action" where
  "attempt m s =
     (case m s of
        (Ok x, s') \<Rightarrow> (Ok (Some x), s')
      | (Err e, s') \<Rightarrow> (Ok None, s')
      | (Panic, s') \<Rightarrow> (Panic, s'))"

text \<open>\<open>map_err(|_| e)\<close>, and \<open>unwrap\<close> of an optional value.\<close>

definition map_err :: "'e \<Rightarrow> ('s, 'e, 'a) action \<Rightarrow> ('s, 'e, 'a) action" where
  "map_err e m s =
     (case m s of
        (Ok x, s') \<Rightarrow> (Ok x, s')
      | (Err _, s') \<Rightarrow> (Err e, s')
      | (Panic, s') \<Rightarrow> (Panic, s'))"

definition unwrap :: "'a option \<Rightarrow> ('s, 'e, 'a) action" where
  "unwrap x = (case x of Some y \<Rightarrow> ret y | None \<Rightarrow> panic)"

fun for_each :: "('a \<Rightarrow> ('s, 'e, unit) action) \<Rightarrow> 'a list \<Rightarrow> ('s, 'e, unit) action" where
  "for_each f [] = ret ()"
| "for_each f (x # xs) = andthen (f x) (\<lambda>_. for_each f xs)"

fun outcome_bind :: "('e, 'a) outcome \<Rightarrow> ('a \<Rightarrow> ('e, 'b) outcome) \<Rightarrow> ('e, 'b) outcome" where
  "outcome_bind (Ok x) f = f x"
| "outcome_bind (Err e) f = Err e"
| "outcome_bind Panic f = Panic"

fun is_ok :: "('e, 'a) outcome \<Rightarrow> bool" where
  "is_ok (Ok _) = True"
| "is_ok (Err _) = False"
| "is_ok Panic = False"

lemma is_okE: "is_ok (fst m) \<Longrightarrow> (\<And>x s. m = (Ok x, s) \<Longrightarrow> P) \<Longrightarrow> P"
  by (cases m; cases "fst m") auto

lemmas action_defs [action_simps] =
  ret_def throw_def panic_def gets_def modify_def lift_def

lemma andthen_ret [simp]: "andthen (ret x) f = f x"
  by (rule ext) (simp add: andthen_def ret_def)

lemma andthen_gets [simp]: "andthen (gets g) f s = f (g s) s"
  by (simp add: andthen_def gets_def)

lemma andthen_modify [simp]: "andthen (modify g) f s = f () (g s)"
  by (simp add: andthen_def modify_def)

lemma andthen_throw [simp]: "andthen (throw e) f = throw e"
  by (rule ext) (simp add: andthen_def throw_def)

lemma andthen_panic [simp]: "andthen panic f = panic"
  by (rule ext) (simp add: andthen_def panic_def)

lemma andthen_Ok: "m s = (Ok x, s') \<Longrightarrow> andthen m f s = f x s'"
  by (simp add: andthen_def)

lemma andthen_Err: "m s = (Err e, s') \<Longrightarrow> andthen m f s = (Err e, s')"
  by (simp add: andthen_def)

lemma andthen_Panic: "m s = (Panic, s') \<Longrightarrow> andthen m f s = (Panic, s')"
  by (simp add: andthen_def)

lemma andthen_step: "andthen m f s = r \<Longrightarrow> m s = (Ok x, s') \<Longrightarrow> f x s' = r"
  by (simp add: andthen_def)

lemma andthen_assoc: "andthen (andthen m f) g = andthen m (\<lambda>x. andthen (f x) g)"
  by (rule ext) (simp add: andthen_def split: prod.splits outcome.splits)

lemma andthen_OkE:
  assumes "andthen m f s = (Ok y, t)"
  obtains x s' where "m s = (Ok x, s')" and "f x s' = (Ok y, t)"
  using assms by (auto simp: andthen_def split: prod.splits outcome.splits)

text \<open>A computation keeps an invariant of the state on every outcome.\<close>

definition keeps :: "('s \<Rightarrow> bool) \<Rightarrow> ('s, 'e, 'a) action \<Rightarrow> bool" where
  "keeps P m \<longleftrightarrow> (\<forall>s. P s \<longrightarrow> P (snd (m s)))"

lemma keepsI: "(\<And>s. P s \<Longrightarrow> P (snd (m s))) \<Longrightarrow> keeps P m"
  by (simp add: keeps_def)

lemma keepsD: "keeps P m \<Longrightarrow> P s \<Longrightarrow> P (snd (m s))"
  by (simp add: keeps_def)

lemma keeps_ret [simp]: "keeps P (ret x)"
  by (simp add: keeps_def ret_def)

lemma keeps_throw [simp]: "keeps P (throw e)"
  by (simp add: keeps_def throw_def)

lemma keeps_panic [simp]: "keeps P panic"
  by (simp add: keeps_def panic_def)

lemma keeps_gets [simp]: "keeps P (gets f)"
  by (simp add: keeps_def gets_def)

lemma keeps_modify: "(\<And>s. P s \<Longrightarrow> P (f s)) \<Longrightarrow> keeps P (modify f)"
  by (simp add: keeps_def modify_def)

lemma keeps_andthen:
  assumes "keeps P m" and "\<And>x. keeps P (f x)"
  shows "keeps P (andthen m f)"
proof (rule keepsI)
  fix s assume "P s"
  with assms(1) have "P (snd (m s))" by (rule keepsD)
  with assms(2) show "P (snd (andthen m f s))"
    by (auto simp: andthen_def keeps_def split: prod.splits outcome.splits)
qed

lemma snd_andthen_keeps: "P (snd (m s)) \<Longrightarrow> (\<And>x. keeps P (f x)) \<Longrightarrow> P (snd (andthen m f s))"
  by (auto simp: andthen_def keeps_def split: prod.splits outcome.splits)

lemma keeps_attempt: "keeps P m \<Longrightarrow> keeps P (attempt m)"
  by (auto simp: keeps_def attempt_def split: prod.splits outcome.splits)

lemma keeps_for_each: "(\<And>x. keeps P (f x)) \<Longrightarrow> keeps P (for_each f xs)"
  by (induction xs) (auto intro: keeps_andthen)

text \<open>A computation leaves a part of the state alone, whatever its outcome.\<close>

definition unchanged :: "('s \<Rightarrow> 'x) \<Rightarrow> ('s, 'e, 'a) action \<Rightarrow> bool" where
  "unchanged f m \<longleftrightarrow> (\<forall>s. f (snd (m s)) = f s)"

lemma unchangedI: "(\<And>s. f (snd (m s)) = f s) \<Longrightarrow> unchanged f m"
  by (simp add: unchanged_def)

lemma unchangedD: "unchanged f m \<Longrightarrow> m s = (r, s') \<Longrightarrow> f s' = f s"
  unfolding unchanged_def by (metis snd_conv)

lemma unchanged_plain [simp]:
  "unchanged f (ret x)" "unchanged f (throw e)" "unchanged f panic" "unchanged f (gets g)" "unchanged f (lift r)" "unchanged f (unwrap y)"
  by (simp_all add: unchanged_def ret_def throw_def panic_def gets_def lift_def unwrap_def split: option.split)

lemma unchanged_andthen: "unchanged f m \<Longrightarrow> (\<And>x. unchanged f (g x)) \<Longrightarrow> unchanged f (andthen m g)"
  unfolding unchanged_def by (simp add: andthen_def split: prod.split outcome.split) (metis snd_conv)

lemma unchanged_attempt: "unchanged f m \<Longrightarrow> unchanged f (attempt m)"
  unfolding unchanged_def by (simp add: attempt_def split: prod.split outcome.split) (metis snd_conv)

lemma unchanged_map_err: "unchanged f m \<Longrightarrow> unchanged f (map_err e m)"
  unfolding unchanged_def by (simp add: map_err_def split: prod.split outcome.split) (metis snd_conv)

lemma unchanged_for_each: "(\<And>x. unchanged f (g x)) \<Longrightarrow> unchanged f (for_each g xs)"
  by (induction xs) (simp_all add: unchanged_andthen)

lemma unchanged_part: "unchanged f m \<Longrightarrow> unchanged (\<lambda>s. g (f s)) m"
  by (simp add: unchanged_def)

lemma keeps_unchanged: "unchanged f m \<Longrightarrow> keeps (\<lambda>s. P (f s)) m"
  by (simp add: keeps_def unchanged_def)

text \<open>A step that leaves \<open>f\<close> alone, and the rest from a state where \<open>f\<close> is the same.\<close>

lemma snd_andthen_unchanged:
  assumes "unchanged f m" and "\<And>x s'. f s' = f s \<Longrightarrow> P (snd (g x s'))" and "\<And>s'. f s' = f s \<Longrightarrow> P s'"
  shows "P (snd (andthen m g s))"
proof (cases "m s")
  case (Pair r s')
  with unchangedD [OF assms(1)] have "f s' = f s" by blast
  with Pair assms(2,3) show ?thesis by (cases r) (simp_all add: andthen_def)
qed

text \<open>A step that only reads.\<close>

lemma pure_OkE:
  assumes "andthen m f s = (Ok y, t)" and "unchanged (\<lambda>s. s) m"
  obtains x where "m s = (Ok x, s)" and "f x s = (Ok y, t)"
proof -
  from assms(1) obtain x s' where "m s = (Ok x, s')" "f x s' = (Ok y, t)" by (rule andthen_OkE)
  with unchangedD [OF assms(2)] that show ?thesis by blast
qed

section \<open>Hash maps\<close>

type_synonym ('k, 'v) hashmap = "('k \<times> 'v) list"

abbreviation hm_values :: "('k, 'v) hashmap \<Rightarrow> 'v list" where
  "hm_values m \<equiv> map snd m"

definition hm_wf :: "('k, 'v) hashmap \<Rightarrow> bool" where
  "hm_wf m \<longleftrightarrow> distinct (map fst m)"

definition hm_contains :: "('k, 'v) hashmap \<Rightarrow> 'k \<Rightarrow> bool" where
  "hm_contains m k \<longleftrightarrow> map_of m k \<noteq> None"

lemma hm_wf_Nil [simp]: "hm_wf []"
  by (simp add: hm_wf_def)

lemma hm_wf_update [simp]: "hm_wf m \<Longrightarrow> hm_wf (AList.update k v m)"
  by (simp add: hm_wf_def distinct_update)

lemma hm_wf_delete [simp]: "hm_wf m \<Longrightarrow> hm_wf (AList.delete k m)"
  by (simp add: hm_wf_def distinct_delete)

lemma hm_lookup_update [db_simps]: "map_of (AList.update k v m) = (map_of m)(k \<mapsto> v)"
  by (rule update_conv')

lemma hm_lookup_delete [db_simps]: "map_of (AList.delete k m) = (map_of m)(k := None)"
  by (rule delete_conv')

lemma hm_wf_map_of_iff: "hm_wf m \<Longrightarrow> (k, v) \<in> set m \<longleftrightarrow> map_of m k = Some v"
  by (auto simp: hm_wf_def dest: map_of_SomeD)

lemma hm_length: "hm_wf m \<Longrightarrow> length m = card (dom (map_of m))"
  by (metis distinct_card dom_map_of_conv_image_fst hm_wf_def length_map set_map)

lemma hm_length_delete: "hm_wf m \<Longrightarrow> map_of m k = Some v \<Longrightarrow> Suc (length (AList.delete k m)) = length m"
  using card_gt_0_iff [of "dom (map_of m)"] by (auto simp: hm_length hm_lookup_delete finite_dom_map_of domI)

text \<open>Two association lists for the same map have the same entries.\<close>

lemma hm_same_entries:
  assumes "hm_wf m" and "hm_wf m'" and "map_of m = map_of m'"
  shows "mset m = mset m'"
proof -
  have "set m = set m'"
    using assms by (auto simp: hm_wf_map_of_iff)
  moreover have "distinct m" and "distinct m'"
    using assms by (auto simp: hm_wf_def distinct_map)
  ultimately show ?thesis by (simp add: set_eq_iff_mset_eq_distinct)
qed

end
