(* ===== verification/Result.thy ===== *)
theory Result
  imports Prelude
begin

text \<open>
  The error type of the platform, \<open>crates/core/result\<close>: the enumeration \<open>ErrorType\<close>, the HTTP status
  the REST server (Rocket) answers with, and the status the micro-services (Axum) answer with. The
  \<open>location\<close> field of \<open>Error\<close> is debugging information and is left out: an error is its type.
\<close>

datatype (plugins only: ) error_type =
    LabelMe
  | AlreadyOnboarded
  | UsernameTaken
  | InvalidUsername
  | DiscriminatorChangeRatelimited
  | UnknownUser
  | AlreadyFriends
  | AlreadySentRequest
  | BlockedErr
  | BlockedByOther
  | NotFriends
  | TooManyPendingFriendRequests nat
  | UnknownChannel
  | UnknownAttachment
  | UnknownMessage
  | CannotEditMessage
  | CannotJoinCall
  | TooManyAttachments nat
  | TooManyEmbeds nat
  | TooManyReplies nat
  | TooManyChannels nat
  | EmptyMessage
  | PayloadTooLarge
  | CannotRemoveYourself
  | GroupTooLarge nat
  | AlreadyInGroup
  | NotInGroup
  | AlreadyPinned
  | NotPinned
  | InSlowmode u64
  | CantCreateServers
  | UnknownServer
  | InvalidRole
  | Banned
  | AccountBanned string "string option" "string option"
  | TooManyServers nat
  | TooManyEmoji nat
  | TooManyRoles nat
  | AlreadyInServer
  | CannotTimeoutYourself
  | ReachedMaximumBots
  | IsBot
  | IsNotBot
  | BotIsPrivate
  | CannotReportYourself
  | MissingPermission string
  | MissingUserPermission string
  | NotElevated
  | NotPrivileged
  | CannotGiveMissingPermissions
  | NotOwner
  | IsElevated
  | DatabaseError string string
  | InternalError
  | InvalidOperation
  | InvalidCredentials
  | InvalidProperty
  | InvalidSession
  | InvalidFlagValue
  | NotAuthenticated
  | DuplicateNonce
  | NotFound
  | NoEffect
  | FailedValidation string
  | LiveKitUnavailable
  | NotAVoiceChannel
  | AlreadyConnected
  | NotConnected
  | UnknownNode
  | ProxyError
  | FileTooSmall
  | FileTooLarge nat
  | FileTypeNotAllowed
  | ImageProcessingFailed
  | NoEmbedData
  | VosoUnavailable
  | FeatureDisabled string
  | MfaTicketInvalid
  | MfaAlreadyEnabled
  | MfaNotEnabled
  | Muted
  | InvalidHTTPResponse

type_synonym 'a result = "(error_type, 'a) outcome"

section \<open>HTTP statuses\<close>

datatype http_status =
    StatusOk
  | BadRequest
  | Unauthorized
  | Forbidden
  | StatusNotFound
  | Conflict
  | UnprocessableEntity
  | TooManyRequests
  | InternalServerError

primrec status_code :: "http_status \<Rightarrow> nat" where
  "status_code StatusOk = 200"
| "status_code BadRequest = 400"
| "status_code Unauthorized = 401"
| "status_code Forbidden = 403"
| "status_code StatusNotFound = 404"
| "status_code Conflict = 409"
| "status_code UnprocessableEntity = 422"
| "status_code TooManyRequests = 429"
| "status_code InternalServerError = 500"

text \<open>The match of \<open>respond_to\<close> in \<open>rocket.rs\<close>, in the order of the source.\<close>

primrec rocket_status :: "error_type \<Rightarrow> http_status" where
  "rocket_status LabelMe = InternalServerError"
| "rocket_status AlreadyOnboarded = Forbidden"
| "rocket_status UnknownUser = StatusNotFound"
| "rocket_status InvalidUsername = BadRequest"
| "rocket_status UsernameTaken = Conflict"
| "rocket_status DiscriminatorChangeRatelimited = TooManyRequests"
| "rocket_status AlreadyFriends = Conflict"
| "rocket_status AlreadySentRequest = Conflict"
| "rocket_status BlockedErr = Conflict"
| "rocket_status BlockedByOther = Forbidden"
| "rocket_status NotFriends = Forbidden"
| "rocket_status (TooManyPendingFriendRequests _) = BadRequest"
| "rocket_status UnknownChannel = StatusNotFound"
| "rocket_status UnknownMessage = StatusNotFound"
| "rocket_status UnknownAttachment = BadRequest"
| "rocket_status CannotEditMessage = Forbidden"
| "rocket_status CannotJoinCall = BadRequest"
| "rocket_status (TooManyAttachments _) = BadRequest"
| "rocket_status (TooManyReplies _) = BadRequest"
| "rocket_status EmptyMessage = UnprocessableEntity"
| "rocket_status PayloadTooLarge = UnprocessableEntity"
| "rocket_status CannotRemoveYourself = BadRequest"
| "rocket_status (GroupTooLarge _) = Forbidden"
| "rocket_status AlreadyInGroup = Conflict"
| "rocket_status NotInGroup = StatusNotFound"
| "rocket_status AlreadyPinned = BadRequest"
| "rocket_status NotPinned = BadRequest"
| "rocket_status (InSlowmode _) = TooManyRequests"
| "rocket_status InvalidFlagValue = BadRequest"
| "rocket_status CantCreateServers = Forbidden"
| "rocket_status UnknownServer = StatusNotFound"
| "rocket_status InvalidRole = StatusNotFound"
| "rocket_status Banned = Forbidden"
| "rocket_status (AccountBanned _ _ _) = Forbidden"
| "rocket_status AlreadyInServer = Conflict"
| "rocket_status CannotTimeoutYourself = BadRequest"
| "rocket_status (TooManyServers _) = BadRequest"
| "rocket_status (TooManyEmbeds _) = BadRequest"
| "rocket_status (TooManyEmoji _) = BadRequest"
| "rocket_status (TooManyChannels _) = BadRequest"
| "rocket_status (TooManyRoles _) = BadRequest"
| "rocket_status ReachedMaximumBots = BadRequest"
| "rocket_status IsBot = BadRequest"
| "rocket_status IsNotBot = BadRequest"
| "rocket_status BotIsPrivate = Forbidden"
| "rocket_status CannotReportYourself = BadRequest"
| "rocket_status (MissingPermission _) = Forbidden"
| "rocket_status (MissingUserPermission _) = Forbidden"
| "rocket_status NotElevated = Forbidden"
| "rocket_status NotPrivileged = Forbidden"
| "rocket_status CannotGiveMissingPermissions = Forbidden"
| "rocket_status NotOwner = Forbidden"
| "rocket_status IsElevated = Forbidden"
| "rocket_status Muted = Forbidden"
| "rocket_status (DatabaseError _ _) = InternalServerError"
| "rocket_status InternalError = InternalServerError"
| "rocket_status InvalidOperation = BadRequest"
| "rocket_status InvalidCredentials = Unauthorized"
| "rocket_status InvalidProperty = BadRequest"
| "rocket_status InvalidSession = Unauthorized"
| "rocket_status NotAuthenticated = Unauthorized"
| "rocket_status DuplicateNonce = Conflict"
| "rocket_status NotFound = StatusNotFound"
| "rocket_status NoEffect = StatusOk"
| "rocket_status (FailedValidation _) = BadRequest"
| "rocket_status LiveKitUnavailable = BadRequest"
| "rocket_status NotAVoiceChannel = BadRequest"
| "rocket_status AlreadyConnected = BadRequest"
| "rocket_status NotConnected = BadRequest"
| "rocket_status UnknownNode = BadRequest"
| "rocket_status (FeatureDisabled _) = BadRequest"
| "rocket_status ProxyError = BadRequest"
| "rocket_status FileTooSmall = UnprocessableEntity"
| "rocket_status (FileTooLarge _) = UnprocessableEntity"
| "rocket_status FileTypeNotAllowed = BadRequest"
| "rocket_status ImageProcessingFailed = InternalServerError"
| "rocket_status NoEmbedData = BadRequest"
| "rocket_status VosoUnavailable = BadRequest"
| "rocket_status MfaTicketInvalid = BadRequest"
| "rocket_status MfaAlreadyEnabled = Conflict"
| "rocket_status MfaNotEnabled = BadRequest"
| "rocket_status InvalidHTTPResponse = InternalServerError"

text \<open>The match of \<open>into_response\<close> in \<open>axum.rs\<close>, in the order of the source.\<close>

primrec axum_status :: "error_type \<Rightarrow> http_status" where
  "axum_status Muted = Forbidden"
| "axum_status LabelMe = InternalServerError"
| "axum_status AlreadyOnboarded = Forbidden"
| "axum_status UnknownUser = StatusNotFound"
| "axum_status InvalidUsername = BadRequest"
| "axum_status UsernameTaken = Conflict"
| "axum_status DiscriminatorChangeRatelimited = TooManyRequests"
| "axum_status AlreadyFriends = Conflict"
| "axum_status AlreadySentRequest = Conflict"
| "axum_status BlockedErr = Conflict"
| "axum_status BlockedByOther = Forbidden"
| "axum_status NotFriends = Forbidden"
| "axum_status (TooManyPendingFriendRequests _) = BadRequest"
| "axum_status UnknownChannel = StatusNotFound"
| "axum_status UnknownMessage = StatusNotFound"
| "axum_status UnknownAttachment = BadRequest"
| "axum_status CannotEditMessage = Forbidden"
| "axum_status CannotJoinCall = BadRequest"
| "axum_status (TooManyAttachments _) = BadRequest"
| "axum_status (TooManyReplies _) = BadRequest"
| "axum_status EmptyMessage = UnprocessableEntity"
| "axum_status PayloadTooLarge = UnprocessableEntity"
| "axum_status CannotRemoveYourself = BadRequest"
| "axum_status (GroupTooLarge _) = Forbidden"
| "axum_status AlreadyInGroup = Conflict"
| "axum_status NotInGroup = StatusNotFound"
| "axum_status AlreadyPinned = BadRequest"
| "axum_status NotPinned = BadRequest"
| "axum_status (InSlowmode _) = TooManyRequests"
| "axum_status CantCreateServers = Forbidden"
| "axum_status UnknownServer = StatusNotFound"
| "axum_status InvalidRole = StatusNotFound"
| "axum_status Banned = Forbidden"
| "axum_status (AccountBanned _ _ _) = Forbidden"
| "axum_status AlreadyInServer = Conflict"
| "axum_status CannotTimeoutYourself = BadRequest"
| "axum_status (TooManyServers _) = BadRequest"
| "axum_status (TooManyEmbeds _) = BadRequest"
| "axum_status (TooManyEmoji _) = BadRequest"
| "axum_status (TooManyChannels _) = BadRequest"
| "axum_status (TooManyRoles _) = BadRequest"
| "axum_status ReachedMaximumBots = BadRequest"
| "axum_status IsBot = BadRequest"
| "axum_status IsNotBot = BadRequest"
| "axum_status BotIsPrivate = Forbidden"
| "axum_status CannotReportYourself = BadRequest"
| "axum_status (MissingPermission _) = Forbidden"
| "axum_status (MissingUserPermission _) = Forbidden"
| "axum_status NotElevated = Forbidden"
| "axum_status NotPrivileged = Forbidden"
| "axum_status CannotGiveMissingPermissions = Forbidden"
| "axum_status NotOwner = Forbidden"
| "axum_status IsElevated = Forbidden"
| "axum_status (DatabaseError _ _) = InternalServerError"
| "axum_status InternalError = InternalServerError"
| "axum_status InvalidOperation = BadRequest"
| "axum_status InvalidCredentials = Unauthorized"
| "axum_status InvalidProperty = BadRequest"
| "axum_status InvalidSession = Unauthorized"
| "axum_status NotAuthenticated = Unauthorized"
| "axum_status DuplicateNonce = Conflict"
| "axum_status VosoUnavailable = BadRequest"
| "axum_status NotFound = StatusNotFound"
| "axum_status NoEffect = StatusOk"
| "axum_status (FailedValidation _) = BadRequest"
| "axum_status LiveKitUnavailable = BadRequest"
| "axum_status NotConnected = BadRequest"
| "axum_status NotAVoiceChannel = BadRequest"
| "axum_status AlreadyConnected = BadRequest"
| "axum_status UnknownNode = BadRequest"
| "axum_status InvalidFlagValue = BadRequest"
| "axum_status (FeatureDisabled _) = BadRequest"
| "axum_status ProxyError = BadRequest"
| "axum_status FileTooSmall = UnprocessableEntity"
| "axum_status (FileTooLarge _) = UnprocessableEntity"
| "axum_status FileTypeNotAllowed = BadRequest"
| "axum_status ImageProcessingFailed = InternalServerError"
| "axum_status NoEmbedData = BadRequest"
| "axum_status MfaTicketInvalid = BadRequest"
| "axum_status MfaAlreadyEnabled = Conflict"
| "axum_status MfaNotEnabled = BadRequest"
| "axum_status InvalidHTTPResponse = InternalServerError"

section \<open>Properties\<close>

text \<open>the REST server and the micro-services answer every error with the same HTTP status, although
  the two tables are written out separately.\<close>

theorem rocket_axum_same_status: "rocket_status e = axum_status e"
  by (cases e) simp_all

text \<open>The only error answered with a success status is \<open>NoEffect\<close>.\<close>

lemma rocket_status_ok_iff: "rocket_status e = StatusOk \<longleftrightarrow> e = NoEffect"
  by (cases e) simp_all

end
