(* ===== verification/Ratelimiter.thy ===== *)
theory Ratelimiter
  imports Result
begin

text \<open>
  \<open>crates/core/ratelimits/src/ratelimiter.rs\<close>, the token bucket in front of every service, and
  \<open>crates/delta/src/util/ratelimits.rs\<close>, which assigns the requests of the REST server to buckets.

  The clock is read several times during one request, and the source does not assume that it stands
  still: \<open>clk\<close> gives the successive readings (in milliseconds), and the theorems ask only that they do
  not decrease. The counters are 32-bit words, subtracted and incremented without a check; the
  theorems show that they never wrap. The hash of the standard library is a parameter.
\<close>

section \<open>Buckets\<close>

record rl_entry =
  used :: u32
  reset :: nat

type_synonym rl_map = "(u64, rl_entry) hashmap"

definition window :: nat where
  "window = 10 * 1000"

definition entry_from :: "nat \<Rightarrow> rl_map \<Rightarrow> u64 \<Rightarrow> rl_entry" where
  "entry_from t m key =
     (case map_of m key of Some e \<Rightarrow> e | None \<Rightarrow> \<lparr>used = 0, reset = t + window\<rparr>)"

definition deduct :: "nat \<Rightarrow> nat \<Rightarrow> rl_entry \<Rightarrow> rl_entry" where
  "deduct t t' e =
     (if t > reset e then \<lparr>used = 1, reset = t' + window\<rparr> else e\<lparr>used := used e + 1\<rparr>)"

definition save :: "rl_entry \<Rightarrow> u64 \<Rightarrow> rl_map \<Rightarrow> rl_map" where
  "save e key m = AList.update key e m"

definition get_remaining :: "nat \<Rightarrow> u32 \<Rightarrow> rl_entry \<Rightarrow> u32" where
  "get_remaining t limit e = (if t > reset e then limit else limit - used e)"

text \<open>\<open>saturating_sub\<close> is the subtraction of natural numbers.\<close>

definition left_until_reset :: "nat \<Rightarrow> rl_entry \<Rightarrow> nat" where
  "left_until_reset t e = reset e - t"

record ratelimiter =
  rl_key :: u64
  rl_limit :: u32
  rl_remaining :: u32
  rl_reset :: nat

section \<open>The guard\<close>

text \<open>The key: the identifier, the bucket and, if there is one, the resource, fed to the hasher.\<close>

definition bucket_key :: "(string list \<Rightarrow> u64) \<Rightarrow> string \<Rightarrow> string \<Rightarrow> string option \<Rightarrow> u64" where
  "bucket_key hash identifier bucket resource =
     hash ([identifier, bucket] @ (case resource of Some i \<Rightarrow> [i] | None \<Rightarrow> []))"

text \<open>The part of \<open>Ratelimiter::from\<close> up to the call of \<open>save\<close>: the entry is copied out of the map, so this
  part only reads the map. The left result is a rejected request; the right result is an admitted
  one with the entry to save.\<close>

definition admit :: "(nat \<Rightarrow> nat) \<Rightarrow> u32 \<Rightarrow> u64 \<Rightarrow> rl_map \<Rightarrow> ratelimiter + ratelimiter \<times> rl_entry" where
  "admit clk limit key m =
     (let e = entry_from (clk 0) m key;
          remaining = get_remaining (clk 1) limit e;
          r = \<lparr>rl_key = key, rl_limit = limit, rl_remaining = remaining, rl_reset = left_until_reset (clk 2) e\<rparr>
      in if remaining = 0 then Inl r
         else let e' = deduct (clk 3) (clk 4) e
              in Inr (r\<lparr>rl_remaining := remaining - 1, rl_reset := left_until_reset (clk 5) e'\<rparr>, e'))"

definition ratelimiter_from ::
    "(string list \<Rightarrow> u64) \<Rightarrow> (nat \<Rightarrow> nat) \<Rightarrow> string \<Rightarrow> u32 \<Rightarrow> string \<times> string option \<Rightarrow> rl_map
     \<Rightarrow> (ratelimiter + ratelimiter) \<times> rl_map" where
  "ratelimiter_from hash clk identifier limit br m =
     (let key = bucket_key hash identifier (fst br) (snd br)
      in case admit clk limit key m of
           Inl r \<Rightarrow> (Inl r, m)
         | Inr (r, e) \<Rightarrow> (Inr r, save e key m))"

section \<open>Buckets of the REST server\<close>

datatype http_method =
    MethodGet | MethodPut | MethodPost | MethodDelete | MethodOptions | MethodHead | MethodTrace
  | MethodConnect | MethodPatch

text \<open>\<open>DeltaRatelimits::resolve_bucket\<close>. The request is its method and its path segments
  (\<open>routed_segment\<close>).\<close>

definition resolve_bucket :: "http_method \<Rightarrow> (nat \<Rightarrow> string option) \<Rightarrow> string \<times> string option" where
  "resolve_bucket method seg =
     (let off = (if seg 0 = Some ''0.8'' then 1 else 0);
          resource = seg (Suc off);
          extra = seg (Suc (Suc off))
      in case seg off of
           None \<Rightarrow> (''any'', None)
         | Some segment \<Rightarrow>
             if segment = ''users'' then
               (if method = MethodPatch then (''user_edit'', resource)
                else if extra = Some ''default_avatar'' then (''default_avatar'', None)
                else (''users'', None))
             else if segment = ''bots'' then (''bots'', None)
             else if segment = ''channels'' \<and> resource \<noteq> None then
               (if method = MethodPost \<and> extra = Some ''messages'' then (''messaging'', resource)
                else (''channels'', resource))
             else if segment = ''servers'' \<and> resource \<noteq> None then (''servers'', resource)
             else if segment = ''auth'' then
               (if method = MethodDelete then (''auth_delete'', None) else (''auth'', None))
             else if segment = ''swagger'' then (''swagger'', None)
             else if segment = ''safety'' \<and> resource = Some ''report'' then (''safety_report'', Some ''report'')
             else if segment = ''safety'' then (''safety'', None)
             else (''any'', None))"

definition resolve_bucket_limit :: "string \<Rightarrow> u32" where
  "resolve_bucket_limit bucket =
     (if bucket = ''user_edit'' then 2
      else if bucket = ''users'' then 20
      else if bucket = ''bots'' then 10
      else if bucket = ''messaging'' then 10
      else if bucket = ''channels'' then 15
      else if bucket = ''servers'' then 5
      else if bucket = ''auth'' then 15
      else if bucket = ''auth_delete'' then 255
      else if bucket = ''default_avatar'' then 255
      else if bucket = ''swagger'' then 100
      else if bucket = ''safety'' then 15
      else if bucket = ''safety_report'' then 3
      else 20)"

section \<open>Invariant\<close>

text \<open>No bucket has been used more often than its limit. \<open>lim\<close> gives the limit a key is used with.\<close>

definition within_limits :: "(u64 \<Rightarrow> u32) \<Rightarrow> rl_map \<Rightarrow> bool" where
  "within_limits lim m \<longleftrightarrow> (\<forall>key e. map_of m key = Some e \<longrightarrow> used e \<le> lim key)"

lemma entry_from_within: "within_limits lim m \<Longrightarrow> used (entry_from t m key) \<le> lim key"
  by (auto simp: within_limits_def entry_from_def split: option.split)

lemma unat_inc: "x < y \<Longrightarrow> unat (x + 1) = unat (x :: u32) + 1"
  by unat_arith

lemma word_one_le: "(y :: u32) \<noteq> 0 \<Longrightarrow> 1 \<le> y"
  by unat_arith

text \<open>The readings of the clock during one request.\<close>

definition steady :: "(nat \<Rightarrow> nat) \<Rightarrow> bool" where
  "steady clk \<longleftrightarrow> (\<forall>i j. i \<le> j \<longrightarrow> clk i \<le> clk j)"

lemma steadyD: "steady clk \<Longrightarrow> i \<le> j \<Longrightarrow> clk i \<le> clk j"
  by (simp add: steady_def)

text \<open>An admitted request found room in its bucket and leaves it within the limit.\<close>

lemma admit_Inr:
  assumes "admit clk limit key m = Inr (r, e')" and "steady clk"
    and "used (entry_from (clk 0) m key) \<le> limit"
  shows "used e' \<le> limit" and "0 < limit"
    and "clk 1 \<le> reset (entry_from (clk 0) m key) \<Longrightarrow> used (entry_from (clk 0) m key) < limit"
proof -
  let ?e = "entry_from (clk 0) m key"
  have rem: "get_remaining (clk 1) limit ?e \<noteq> 0" and e': "e' = deduct (clk 3) (clk 4) ?e"
    using assms(1) by (auto simp: admit_def Let_def split: if_splits)
  have room: "used ?e < limit" if "clk 1 \<le> reset ?e"
    using rem assms(3) that by (auto simp: get_remaining_def not_less)
  show "clk 1 \<le> reset ?e \<Longrightarrow> used ?e < limit" by (rule room)
  show pos: "0 < limit"
    using rem room by (cases "clk 1 \<le> reset ?e") (auto simp: get_remaining_def word_neq_0_conv intro: le_less_trans)
  show "used e' \<le> limit"
  proof (cases "clk 3 > reset ?e")
    case True
    with pos show ?thesis by (simp add: e' deduct_def word_one_le)
  next
    case False
    with steadyD [OF assms(2), of 1 3] have "clk 1 \<le> reset ?e" by simp
    with room False show ?thesis by (simp add: e' deduct_def inc_le)
  qed
qed

text \<open>C29: no bucket ever counts more uses than its limit, so the unchecked subtraction in \<open>get_remaining\<close>
  never wraps around. The limit must be a function of the key, as it is for the buckets of one
  resolver, and the clock must not run backwards during a request.\<close>

theorem ratelimiter_keeps_limits:
  assumes "within_limits lim m" and "steady clk"
    and "lim (bucket_key hash identifier (fst br) (snd br)) = limit"
  shows "within_limits lim (snd (ratelimiter_from hash clk identifier limit br m))"
proof -
  let ?key = "bucket_key hash identifier (fst br) (snd br)"
  have le: "used (entry_from (clk 0) m ?key) \<le> limit"
    using entry_from_within [OF assms(1)] assms(3) by metis
  show ?thesis
  proof (cases "admit clk limit ?key m")
    case (Inl r)
    with assms(1) show ?thesis by (simp add: ratelimiter_from_def)
  next
    case (Inr p)
    obtain r e where p: "p = (r, e)" by (cases p)
    have "used e \<le> lim ?key"
      using admit_Inr(1) [OF Inr [unfolded p] assms(2) le] by (simp add: assms(3))
    with assms(1) Inr p show ?thesis
      by (auto simp: ratelimiter_from_def save_def within_limits_def update_conv' split: if_splits)
  qed
qed

theorem ratelimiter_keeps_limits_witness:
  "within_limits (\<lambda>_. 5) (snd (ratelimiter_from (\<lambda>_. 7) (\<lambda>i. 100 + i) ''user'' 5 (''servers'', Some ''S'') []))"
  by (rule ratelimiter_keeps_limits) (simp_all add: within_limits_def steady_def)

section \<open>Bursts\<close>

text \<open>A sequence of requests of one client to one bucket, one after the other; the result says which were
  admitted.\<close>

fun burst ::
    "(string list \<Rightarrow> u64) \<Rightarrow> string \<Rightarrow> u32 \<Rightarrow> string \<times> string option \<Rightarrow> (nat \<Rightarrow> nat) list \<Rightarrow> rl_map
     \<Rightarrow> bool list" where
  "burst hash identifier limit br [] m = []"
| "burst hash identifier limit br (clk # clks) m =
     (case ratelimiter_from hash clk identifier limit br m of
        (r, m') \<Rightarrow> (\<not> isl r) # burst hash identifier limit br clks m')"

text \<open>One request inside the window.\<close>

lemma admit_in_window:
  assumes e: "entry_from (clk 0) m key = e" and w: "\<And>i. clk i \<le> reset e"
  shows "admit clk limit key m =
    (if limit = used e
     then Inl \<lparr>rl_key = key, rl_limit = limit, rl_remaining = 0, rl_reset = reset e - clk 2\<rparr>
     else Inr (\<lparr>rl_key = key, rl_limit = limit, rl_remaining = limit - used e - 1, rl_reset = reset e - clk 5\<rparr>,
               e\<lparr>used := used e + 1\<rparr>))"
proof -
  have "\<not> reset e < clk i" for i using w [of i] by simp
  then show ?thesis by (simp add: admit_def Let_def e get_remaining_def deduct_def left_until_reset_def)
qed

lemma burst_counts:
  assumes "map_of m key = Some e" and "key = bucket_key hash identifier (fst br) (snd br)"
    and "\<forall>clk \<in> set clks. \<forall>i. clk i \<le> reset e" and "used e \<le> limit"
  shows "burst hash identifier limit br clks m =
         map (\<lambda>i. unat (used e) + i < unat limit) [0..<length clks]"
  using assms
proof (induction clks arbitrary: m e)
  case Nil
  then show ?case by simp
next
  case (Cons clk clks)
  have e: "entry_from (clk 0) m key = e" using Cons.prems(1) by (simp add: entry_from_def)
  have admit: "admit clk limit key m =
    (if limit = used e
     then Inl \<lparr>rl_key = key, rl_limit = limit, rl_remaining = 0, rl_reset = reset e - clk 2\<rparr>
     else Inr (\<lparr>rl_key = key, rl_limit = limit, rl_remaining = limit - used e - 1, rl_reset = reset e - clk 5\<rparr>,
               e\<lparr>used := used e + 1\<rparr>))"
    using Cons.prems(3) by (intro admit_in_window [where clk = clk] e) simp
  have shift: "map (\<lambda>i. f (Suc i)) [0..<n] = map f [1..<Suc n]" for f :: "nat \<Rightarrow> bool" and n
    by (simp add: map_Suc_upt [symmetric] comp_def del: upt_Suc)
  have cons: "map f [0..<Suc n] = f 0 # map (\<lambda>i. f (Suc i)) [0..<n]" for f :: "nat \<Rightarrow> bool" and n
    by (simp add: shift upt_conv_Cons del: upt_Suc)
  show ?case
  proof (cases "used e = limit")
    case True
    with Cons.IH [OF Cons.prems(1,2) _ Cons.prems(4)] Cons.prems(3) show ?thesis
      by (simp add: ratelimiter_from_def Let_def admit cons Cons.prems(2) [symmetric] del: upt_Suc)
  next
    case False
    let ?e = "e\<lparr>used := used e + 1\<rparr>"
    from False Cons.prems(4) have less: "used e < limit" by simp
    have "burst hash identifier limit br clks (AList.update key ?e m) =
          map (\<lambda>i. unat (used ?e) + i < unat limit) [0..<length clks]"
      using Cons.prems less by (intro Cons.IH) (auto simp: update_conv' inc_le)
    with False less show ?thesis
      by (simp add: ratelimiter_from_def Let_def admit save_def cons Cons.prems(2) [symmetric] unat_inc [OF less] word_less_nat_alt del: upt_Suc)
  qed
qed

text \<open>a client that meets an empty bucket is admitted exactly \<open>limit\<close> times in a row and then rejected
  for as long as the window of ten seconds lasts, however often it tries.\<close>

theorem burst_admits_exactly_limit:
  assumes "map_of m (bucket_key hash identifier (fst br) (snd br)) = None"
    and "\<forall>c \<in> set (clk # clks). \<forall>i. c i \<le> clk 0 + window" and "0 < limit"
  shows "burst hash identifier limit br (clk # clks) m =
         map (\<lambda>i. i < unat limit) [0..<length (clk # clks)]"
proof -
  let ?key = "bucket_key hash identifier (fst br) (snd br)"
  let ?e = "\<lparr>used = 0, reset = clk 0 + window\<rparr>"
  let ?m = "AList.update ?key ?e m"
  have w: "clk i \<le> reset ?e" for i using assms(2) by simp
  have "entry_from (clk 0) m ?key = ?e" and "entry_from (clk 0) ?m ?key = ?e"
    using assms(1) by (simp_all add: entry_from_def update_conv')
  note adm = admit_in_window [where clk = clk, OF this(1) w] admit_in_window [where clk = clk, OF this(2) w]
  have "ratelimiter_from hash clk identifier limit br m = ratelimiter_from hash clk identifier limit br ?m"
    using assms(3) by (auto simp: ratelimiter_from_def Let_def save_def adm)
  then have "burst hash identifier limit br (clk # clks) m = burst hash identifier limit br (clk # clks) ?m"
    by simp
  also have "\<dots> = map (\<lambda>i. unat (used ?e) + i < unat limit) [0..<length (clk # clks)]"
    using assms(2) by (intro burst_counts) (simp_all add: update_conv')
  finally show ?thesis by simp
qed

theorem burst_admits_exactly_limit_witness:
  "burst (\<lambda>_. 7) ''user'' 2 (''user_edit'', None) [\<lambda>_. 50, \<lambda>_. 60, \<lambda>_. 70] [] = [True, True, False]"
  using burst_admits_exactly_limit [of "[]" "\<lambda>_. 7" "''user''" "(''user_edit'', None)" "\<lambda>_. 50"
      "[\<lambda>_. 60, \<lambda>_. 70]" 2]
  by (simp add: window_def upt_rec)

text \<open>the map is read and written in two separate accesses, and requests run concurrently. When two
  requests of one client both read before either writes, both are admitted although only one unit
  is left, and the bucket counts one use: the limit is not enforced under concurrency.\<close>

theorem concurrent_requests_exceed_limit:
  assumes "map_of m key = Some e" and "\<forall>i. clk i \<le> reset e" and "\<forall>i. clk' i \<le> reset e"
    and "used e + 1 = limit" and "used e < limit"
  shows "\<exists>r r'. admit clk limit key m = Inr (r, e\<lparr>used := limit\<rparr>)
    \<and> admit clk' limit key m = Inr (r', e\<lparr>used := limit\<rparr>)
    \<and> map_of (save (e\<lparr>used := limit\<rparr>) key (save (e\<lparr>used := limit\<rparr>) key m)) key = Some (e\<lparr>used := limit\<rparr>)"
proof -
  have e: "entry_from (clk 0) m key = e" "entry_from (clk' 0) m key = e" using assms(1) by (simp_all add: entry_from_def)
  have w: "clk i \<le> reset e" "clk' i \<le> reset e" for i using assms(2,3) by simp_all
  note adm = admit_in_window [where clk = clk, OF e(1) w(1)] admit_in_window [where clk = clk', OF e(2) w(2)]
  from assms(4,5) show ?thesis by (auto simp: adm save_def update_conv')
qed

theorem concurrent_requests_exceed_limit_witness:
  "\<exists>r r'. admit (\<lambda>_. 5) 3 9 [(9, \<lparr>used = 2, reset = 100\<rparr>)] = Inr (r, \<lparr>used = 3, reset = 100\<rparr>)
    \<and> admit (\<lambda>_. 6) 3 9 [(9, \<lparr>used = 2, reset = 100\<rparr>)] = Inr (r', \<lparr>used = 3, reset = 100\<rparr>)"
  using concurrent_requests_exceed_limit [of "[(9, \<lparr>used = 2, reset = 100\<rparr>)]" 9 "\<lparr>used = 2, reset = 100\<rparr>"
      "\<lambda>_. 5" "\<lambda>_. 6" 3]
  by simp

section \<open>Resolver\<close>

text \<open>no request of the REST server is assigned to a bucket without capacity, and a path under the
  version prefix \<open>0.8\<close> is counted in the same bucket as the path without it.\<close>

theorem resolver_buckets:
  "0 < resolve_bucket_limit bucket
   \<and> (seg 0 \<noteq> Some ''0.8'' \<longrightarrow>
        resolve_bucket method (\<lambda>i. case i of 0 \<Rightarrow> Some ''0.8'' | Suc j \<Rightarrow> seg j) = resolve_bucket method seg)"
proof
  show "0 < resolve_bucket_limit bucket" by (simp add: resolve_bucket_limit_def)
  show "seg 0 \<noteq> Some ''0.8'' \<longrightarrow>
        resolve_bucket method (\<lambda>i. case i of 0 \<Rightarrow> Some ''0.8'' | Suc j \<Rightarrow> seg j) = resolve_bucket method seg"
    by (cases "seg 0") (simp_all add: resolve_bucket_def Let_def)
qed

theorem resolver_buckets_witness:
  "resolve_bucket MethodPost (\<lambda>i. case i of 0 \<Rightarrow> Some ''0.8'' | Suc j \<Rightarrow>
      (\<lambda>i. if i = 0 then Some ''channels'' else if i = 1 then Some ''C'' else Some ''messages'') j)
   = (''messaging'', Some ''C'')"
  using resolver_buckets [of "''any''" "\<lambda>i. if i = 0 then Some ''channels'' else if i = 1 then Some ''C'' else Some ''messages''"
      MethodPost]
  by (simp add: resolve_bucket_def)

end
