(* ===== verification/Presence.thy ===== *)
theory Presence
  imports Prelude
begin

text \<open>
  \<open>crates/core/presence\<close>: who is online. The state lives in Redis, which is not part of the repository:
  it is the parameter \<open>r\<close>, a record of the commands that are used, and the locale \<open>redis_sets\<close> states
  what its documentation promises about them. The store of the locale's interpretation keeps the sets
  in memory.

  Every user has a set of session numbers under the user's id, the set \<open>online\<close> holds the ids of all
  users with a session, and the set of a region holds the sessions started there, as
  \<open>user:session\<close>. The refinement theorems read these three as one abstract set of sessions.
\<close>

section \<open>Text of numbers\<close>

text \<open>Decimal notation and \<open>str::parse::<u32>\<close>, which takes an optional plus sign and fails on an empty
  text, on any other character and on overflow; and \<open>str::split\<close> on a character.\<close>

definition digit :: "nat \<Rightarrow> char" where
  "digit n = char_of (48 + n)"

fun show_nat :: "nat \<Rightarrow> string" where
  "show_nat n = (if n < 10 then [digit n] else show_nat (n div 10) @ [digit (n mod 10)])"

definition show_u32 :: "u32 \<Rightarrow> string" where
  "show_u32 w = show_nat (unat w)"

definition digit_value :: "char \<Rightarrow> nat option" where
  "digit_value c =
     (let n = of_char c in if 48 \<le> n \<and> n \<le> 57 then Some (n - 48) else (None :: nat option))"

fun parse_digits :: "nat \<Rightarrow> string \<Rightarrow> nat option" where
  "parse_digits acc [] = Some acc"
| "parse_digits acc (c # cs) =
     (case digit_value c of None \<Rightarrow> None | Some d \<Rightarrow> parse_digits (10 * acc + d) cs)"

definition parse_u32 :: "string \<Rightarrow> u32 option" where
  "parse_u32 s =
     (let digits = (case s of CHR ''+'' # rest \<Rightarrow> rest | _ \<Rightarrow> s)
      in if digits = [] then None
         else case parse_digits 0 digits of
                None \<Rightarrow> None
              | Some n \<Rightarrow> if n < 2 ^ 32 then Some (of_nat n) else None)"

fun split_on :: "char \<Rightarrow> string \<Rightarrow> string list" where
  "split_on c [] = [[]]"
| "split_on c (x # xs) =
     (case split_on c xs of
        [] \<Rightarrow> [[]]
      | part # parts \<Rightarrow> if x = c then [] # part # parts else (x # part) # parts)"

section \<open>Redis\<close>

record 'c redis =
  get_connection :: "'c \<Rightarrow> bool"
  sadd :: "string \<Rightarrow> string \<Rightarrow> ('c, unit, unit) action"
  srem :: "string \<Rightarrow> string \<Rightarrow> ('c, unit, unit) action"
  smembers :: "string \<Rightarrow> ('c, unit, string list) action"
  scard :: "string \<Rightarrow> ('c, unit, u32) action"
  smismember :: "string \<Rightarrow> string list \<Rightarrow> ('c, unit, bool list) action"
  exists_key :: "string \<Rightarrow> ('c, unit, bool) action"
  del :: "string \<Rightarrow> ('c, unit, unit) action"

text \<open>\<open>expect\<close> and \<open>unwrap_or\<close> on the answer of a command, and \<open>.ok()\<close> with the answer ignored.\<close>

definition expect :: "('c, unit, 'a) action \<Rightarrow> ('c, unit, 'a) action" where
  "expect m s = (case m s of (Ok x, s') \<Rightarrow> (Ok x, s') | (_, s') \<Rightarrow> (Panic, s'))"

definition unwrap_or :: "'a \<Rightarrow> ('c, unit, 'a) action \<Rightarrow> ('c, unit, 'a) action" where
  "unwrap_or d m = andthen (attempt m) (\<lambda>x. ret (case x of Some y \<Rightarrow> y | None \<Rightarrow> d))"

definition ignore :: "('c, unit, unit) action \<Rightarrow> ('c, unit, unit) action" where
  "ignore m = andthen (attempt m) (\<lambda>_. ret ())"

definition add_to_set_string :: "'c redis \<Rightarrow> string \<Rightarrow> string \<Rightarrow> ('c, unit, unit) action" where
  "add_to_set_string r key v = ignore (sadd r key v)"

definition add_to_set_u32 :: "'c redis \<Rightarrow> string \<Rightarrow> u32 \<Rightarrow> ('c, unit, unit) action" where
  "add_to_set_u32 r key v = ignore (sadd r key (show_u32 v))"

definition remove_from_set_string :: "'c redis \<Rightarrow> string \<Rightarrow> string \<Rightarrow> ('c, unit, unit) action" where
  "remove_from_set_string r key v = ignore (srem r key v)"

definition remove_from_set_u32 :: "'c redis \<Rightarrow> string \<Rightarrow> u32 \<Rightarrow> ('c, unit, unit) action" where
  "remove_from_set_u32 r key v = ignore (srem r key (show_u32 v))"

definition get_set_members_as_string :: "'c redis \<Rightarrow> string \<Rightarrow> ('c, unit, string list) action" where
  "get_set_members_as_string r key = expect (smembers r key)"

definition get_set_size :: "'c redis \<Rightarrow> string \<Rightarrow> ('c, unit, u32) action" where
  "get_set_size r key = expect (scard r key)"

definition delete_key :: "'c redis \<Rightarrow> string \<Rightarrow> ('c, unit, unit) action" where
  "delete_key r key = expect (del r key)"

section \<open>Presence\<close>

definition ONLINE_SET :: string where
  "ONLINE_SET = ''online''"

definition FLAG_BITS :: u32 where
  "FLAG_BITS = 1"

text \<open>\<open>REGION_KEY\<close>; the region number comes from the environment.\<close>

definition region_key :: "16 word \<Rightarrow> string" where
  "region_key region_id = ''region'' @ show_nat (unat region_id)"

definition session_entry :: "string \<Rightarrow> u32 \<Rightarrow> string" where
  "session_entry user_id session_id = user_id @ '':'' @ show_u32 session_id"

definition session_id_of :: "u32 \<Rightarrow> 8 word \<Rightarrow> u32" where
  "session_id_of rnd flags = (rnd AND NOT FLAG_BITS) OR (ucast flags AND FLAG_BITS)"

text \<open>\<open>rnd\<close> is the random number the function draws.\<close>

definition create_session ::
    "'c redis \<Rightarrow> string \<Rightarrow> u32 \<Rightarrow> string \<Rightarrow> 8 word \<Rightarrow> ('c, unit, bool \<times> u32) action" where
  "create_session r region rnd user_id flags =
     andthen (gets (get_connection r)) (\<lambda>up.
       if up then
         andthen (get_set_size r user_id) (\<lambda>n.
         let was_empty = (n = 0); session_id = session_id_of rnd flags in
         andthen (add_to_set_u32 r user_id session_id) (\<lambda>_.
         andthen (add_to_set_string r ONLINE_SET user_id) (\<lambda>_.
         andthen (add_to_set_string r region (session_entry user_id session_id)) (\<lambda>_.
         ret (was_empty, session_id)))))
       else ret (False, 0))"

definition delete_session_internal ::
    "'c redis \<Rightarrow> string \<Rightarrow> string \<Rightarrow> u32 \<Rightarrow> bool \<Rightarrow> ('c, unit, bool) action" where
  "delete_session_internal r region user_id session_id skip_region =
     andthen (gets (get_connection r)) (\<lambda>up.
       if up then
         andthen (remove_from_set_u32 r user_id session_id) (\<lambda>_.
         andthen (if \<not> skip_region then remove_from_set_string r region (session_entry user_id session_id)
                  else ret ()) (\<lambda>_.
         andthen (get_set_size r user_id) (\<lambda>n.
         let is_empty = (n = 0) in
         andthen (if is_empty then remove_from_set_string r ONLINE_SET user_id else ret ()) (\<lambda>_.
         ret is_empty))))
       else ret False)"

definition delete_session :: "'c redis \<Rightarrow> string \<Rightarrow> string \<Rightarrow> u32 \<Rightarrow> ('c, unit, bool) action" where
  "delete_session r region user_id session_id = delete_session_internal r region user_id session_id False"

definition is_online :: "'c redis \<Rightarrow> string \<Rightarrow> ('c, unit, bool) action" where
  "is_online r user_id =
     andthen (gets (get_connection r)) (\<lambda>up.
       if up then unwrap_or False (exists_key r user_id) else ret False)"

text \<open>The variant for a patched Redis client. \<open>data[i]\<close> panics past the end.\<close>

definition filter_online_patched :: "'c redis \<Rightarrow> string list \<Rightarrow> ('c, unit, string set) action" where
  "filter_online_patched r user_ids =
     (if user_ids = [] then ret {}
      else if length user_ids = 1 then
        andthen (is_online r (user_ids ! 0)) (\<lambda>b. ret (if b then {user_ids ! 0} else {}))
      else
        andthen (gets (get_connection r)) (\<lambda>up.
          if up then
            andthen (expect (smismember r ONLINE_SET user_ids)) (\<lambda>data.
              if data = [] then ret {}
              else if length data < length user_ids then panic
              else ret (set (map fst (filter snd (zip user_ids data)))))
          else ret {}))"

text \<open>The variant for an ordinary client.\<close>

definition filter_online :: "'c redis \<Rightarrow> string list \<Rightarrow> ('c, unit, string set) action" where
  "filter_online r user_ids =
     (if user_ids = [] then ret {}
      else
        andthen (gets (get_connection r)) (\<lambda>up.
          if up then
            andthen (unwrap_or [] (smembers r ONLINE_SET)) (\<lambda>members.
              ret (set members \<inter> set user_ids))
          else ret {}))"

definition clear_one :: "'c redis \<Rightarrow> string \<Rightarrow> string \<Rightarrow> ('c, unit, unit) action" where
  "clear_one r region session =
     (case split_on CHR '':'' session of
        user_id # session_id # _ \<Rightarrow>
          (case parse_u32 session_id of
             Some n \<Rightarrow> andthen (delete_session_internal r region user_id n True) (\<lambda>_. ret ())
           | None \<Rightarrow> ret ())
      | _ \<Rightarrow> ret ())"

definition clear_region :: "'c redis \<Rightarrow> string \<Rightarrow> string option \<Rightarrow> ('c, unit, unit) action" where
  "clear_region r own_region region_id =
     (let region = (case region_id of Some x \<Rightarrow> x | None \<Rightarrow> own_region) in
      andthen (gets (get_connection r)) (\<lambda>up.
        if up then
          andthen (get_set_members_as_string r region) (\<lambda>sessions.
            if sessions \<noteq> [] then
              andthen (for_each (clear_one r own_region) sessions) (\<lambda>_. delete_key r region)
            else ret ())
        else panic))"

section \<open>The text of a session is read back\<close>

lemma digit_value_digit: "n < 10 \<Longrightarrow> digit_value (digit n) = Some n"
  by (simp add: digit_value_def digit_def Let_def)

lemma parse_digits_append:
  "parse_digits acc (xs @ ys) = (case parse_digits acc xs of None \<Rightarrow> None | Some a \<Rightarrow> parse_digits a ys)"
  by (induction acc xs rule: parse_digits.induct) (auto split: option.split)

declare show_nat.simps [simp del]

lemma parse_digits_show: "parse_digits 0 (show_nat n) = Some n"
proof (induction n rule: show_nat.induct)
  case (1 n)
  show ?case
  proof (cases "n < 10")
    case True
    then show ?thesis by (simp add: show_nat.simps [of n] digit_value_digit)
  next
    case False
    then show ?thesis
      using 1 by (simp add: show_nat.simps [of n] parse_digits_append digit_value_digit)
  qed
qed

lemma digit_neq: "n < 10 \<Longrightarrow> digit n \<noteq> CHR '':'' \<and> digit n \<noteq> CHR ''+''"
  using digit_value_digit [of n] by (auto simp: digit_value_def Let_def)

lemma show_nat_chars: "c \<in> set (show_nat n) \<Longrightarrow> \<exists>d < 10. c = digit d"
proof (induction n rule: show_nat.induct)
  case (1 n)
  have "\<exists>d < 10. digit (n mod 10) = digit d" by (rule exI [of _ "n mod 10"]) simp
  with 1 show ?case by (subst (asm) (2) show_nat.simps) (auto split: if_splits)
qed

lemma show_nat_not_Nil [simp]: "show_nat n \<noteq> []"
  by (subst show_nat.simps) simp

lemma parse_show_u32: "parse_u32 (show_u32 w) = Some w"
proof -
  obtain c cs where s: "show_nat (unat w) = c # cs" by (cases "show_nat (unat w)") auto
  have "c \<noteq> CHR ''+''" using show_nat_chars [of c "unat w"] digit_neq s by auto
  then have "(case show_nat (unat w) of CHR ''+'' # rest \<Rightarrow> rest | _ \<Rightarrow> show_nat (unat w)) = show_nat (unat w)"
    using s by (auto split: list.split char.split bool.split)
  then show ?thesis
    using unsigned_less [of w] by (simp add: parse_u32_def show_u32_def parse_digits_show)
qed

lemma split_on_not_Nil [simp]: "split_on c xs \<noteq> []"
  by (induction xs) (auto split: list.split)

lemma split_on_sep: "c \<notin> set xs \<Longrightarrow> split_on c (xs @ c # ys) = xs # split_on c ys"
  by (induction xs) (auto split: list.split)

lemma split_on_none: "c \<notin> set xs \<Longrightarrow> split_on c xs = [xs]"
  by (induction xs) auto

lemma show_u32_no_colon: "CHR '':'' \<notin> set (show_u32 w)"
  using show_nat_chars [of "CHR '':''" "unat w"] digit_neq unfolding show_u32_def by metis

lemma split_session_entry:
  "CHR '':'' \<notin> set u \<Longrightarrow> split_on CHR '':'' (session_entry u s) = [u, show_u32 s]"
  by (simp add: session_entry_def split_on_sep split_on_none show_u32_no_colon)

lemma show_u32_inject: "show_u32 v = show_u32 w \<longleftrightarrow> v = w"
  by (metis parse_show_u32 option.inject)

lemma session_entry_inject:
  assumes "CHR '':'' \<notin> set u" and "CHR '':'' \<notin> set v"
  shows "session_entry u s = session_entry v t \<longleftrightarrow> u = v \<and> s = t"
  using split_session_entry [OF assms(1), of s] split_session_entry [OF assms(2), of t]
  by (metis list.inject show_u32_inject)

section \<open>The abstract set of sessions\<close>

text \<open>An id that cannot be confused with the other keys.\<close>

definition user_key :: "string \<Rightarrow> bool" where
  "user_key u \<longleftrightarrow> u \<noteq> ONLINE_SET \<and> take 6 u \<noteq> ''region'' \<and> CHR '':'' \<notin> set u"

text \<open>The store holds the sessions \<open>A\<close>, and \<open>R\<close> are the sessions listed for the region.\<close>

definition represents ::
    "('c \<Rightarrow> string \<Rightarrow> string set) \<Rightarrow> 16 word \<Rightarrow> (string \<times> u32) set \<Rightarrow> (string \<times> u32) set \<Rightarrow> 'c \<Rightarrow> bool" where
  "represents sets region_id A R c \<longleftrightarrow>
     finite A \<and> (\<forall>(u, s) \<in> A \<union> R. user_key u)
     \<and> (\<forall>u. user_key u \<longrightarrow> sets c u = show_u32 ` {s. (u, s) \<in> A})
     \<and> sets c ONLINE_SET = fst ` A
     \<and> sets c (region_key region_id) = (\<lambda>(u, s). session_entry u s) ` R"

lemma region_key_neq [simp]: "region_key i \<noteq> ONLINE_SET" "user_key u \<Longrightarrow> u \<noteq> region_key i" "user_key u \<Longrightarrow> u \<noteq> ONLINE_SET"
  by (auto simp: region_key_def ONLINE_SET_def user_key_def)

lemma not_user_keys [simp]:
  "ONLINE_SET \<noteq> region_key i" "\<not> user_key ONLINE_SET" "\<not> user_key (region_key i)"
  by (auto simp: region_key_def ONLINE_SET_def user_key_def)

lemma representsI:
  assumes "finite A'" and "\<And>u s. (u, s) \<in> A' \<union> R' \<Longrightarrow> user_key u"
    and "\<And>u. user_key u \<Longrightarrow> sets c' u = show_u32 ` {s. (u, s) \<in> A'}"
    and "sets c' ONLINE_SET = fst ` A'" and "sets c' (region_key i) = (\<lambda>(u, s). session_entry u s) ` R'"
  shows "represents sets i A' R' c'"
  using assms by (auto simp: represents_def)

lemma representsD:
  assumes "represents sets i A R c"
  shows "finite A" "(u, s) \<in> A \<Longrightarrow> user_key u" "(u, s) \<in> R \<Longrightarrow> user_key u"
    and "user_key u \<Longrightarrow> sets c u = show_u32 ` {s. (u, s) \<in> A}"
    and "sets c ONLINE_SET = fst ` A" "sets c (region_key i) = (\<lambda>(u, s). session_entry u s) ` R"
  using assms by (auto simp: represents_def)

lemma represents_small:
  assumes "represents sets i A R c" and "user_key u" and "card A < 2 ^ 32"
  shows "finite (sets c u)" and "card (sets c u) < 2 ^ 32"
proof -
  have A: "{s. (u, s) \<in> A} = snd ` (A \<inter> {u} \<times> UNIV)" by force
  have fin: "finite (A \<inter> {u} \<times> UNIV)" using representsD(1) [OF assms(1)] by simp
  then show "finite (sets c u)" by (simp add: representsD(4) [OF assms(1,2)] A)
  have "card (sets c u) \<le> card (A \<inter> {u} \<times> UNIV)"
    unfolding representsD(4) [OF assms(1,2)] A using fin by (meson card_image_le finite_imageI order_trans)
  also have "\<dots> \<le> card A" using representsD(1) [OF assms(1)] by (simp add: card_mono)
  finally show "card (sets c u) < 2 ^ 32" using assms(3) by simp
qed

section \<open>The contract of Redis\<close>

text \<open>What the documentation of the set commands says, for a store that is reachable: \<open>sets c key\<close> is the
  set under a key. A key with an empty set does not exist. \<open>SCARD\<close> answers the cardinality, which is
  read as a 32-bit number.\<close>

locale redis_sets =
  fixes r :: "'c redis" and sets :: "'c \<Rightarrow> string \<Rightarrow> string set"
  assumes up: "get_connection r c"
    and sadd: "\<exists>c'. sadd r k v c = (Ok (), c') \<and> sets c' = (sets c)(k := insert v (sets c k))"
    and srem: "\<exists>c'. srem r k v c = (Ok (), c') \<and> sets c' = (sets c)(k := sets c k - {v})"
    and smembers: "\<exists>xs c'. smembers r k c = (Ok xs, c') \<and> sets c' = sets c \<and> set xs = sets c k"
    and scard: "finite (sets c k) \<and> card (sets c k) < 2 ^ 32 \<Longrightarrow>
      \<exists>n c'. scard r k c = (Ok n, c') \<and> sets c' = sets c \<and> unat n = card (sets c k)"
    and smismember: "\<exists>c'. smismember r k vs c = (Ok (map (\<lambda>v. v \<in> sets c k) vs), c') \<and> sets c' = sets c"
    and exists_key: "\<exists>c'. exists_key r k c = (Ok (sets c k \<noteq> {}), c') \<and> sets c' = sets c"
    and del: "\<exists>c'. del r k c = (Ok (), c') \<and> sets c' = (sets c)(k := {})"
begin

text \<open>The wrappers of \<open>operations.rs\<close>.\<close>

lemma add_to_set_string:
  "\<exists>c'. add_to_set_string r k v c = (Ok (), c') \<and> sets c' = (sets c)(k := insert v (sets c k))"
  using sadd [of k v c] by (auto simp: add_to_set_string_def ignore_def andthen_def attempt_def ret_def)

lemma add_to_set_u32:
  "\<exists>c'. add_to_set_u32 r k w c = (Ok (), c') \<and> sets c' = (sets c)(k := insert (show_u32 w) (sets c k))"
  using sadd [of k "show_u32 w" c] by (auto simp: add_to_set_u32_def ignore_def andthen_def attempt_def ret_def)

lemma remove_from_set_string:
  "\<exists>c'. remove_from_set_string r k v c = (Ok (), c') \<and> sets c' = (sets c)(k := sets c k - {v})"
  using srem [of k v c] by (auto simp: remove_from_set_string_def ignore_def andthen_def attempt_def ret_def)

lemma remove_from_set_u32:
  "\<exists>c'. remove_from_set_u32 r k w c = (Ok (), c') \<and> sets c' = (sets c)(k := sets c k - {show_u32 w})"
  using srem [of k "show_u32 w" c] by (auto simp: remove_from_set_u32_def ignore_def andthen_def attempt_def ret_def)

lemma get_set_size:
  assumes "finite (sets c k)" and "card (sets c k) < 2 ^ 32"
  shows "\<exists>n c'. get_set_size r k c = (Ok n, c') \<and> sets c' = sets c \<and> (n = 0 \<longleftrightarrow> sets c k = {})"
proof -
  from scard [OF conjI [OF assms]] obtain n c' where
    n: "scard r k c = (Ok n, c')" "sets c' = sets c" "unat n = card (sets c k)" by blast
  moreover have "n = 0 \<longleftrightarrow> sets c k = {}" using n(3) assms(1) by (auto simp: unat_eq_zero)
  ultimately show ?thesis by (auto simp: get_set_size_def expect_def)
qed

text \<open>Both deletions in one: afterwards the user's set has lost the session, the region's set has lost
  the entry unless it is skipped, and \<open>online\<close> has lost the user when nothing is left.\<close>

lemma delete_session_internal:
  assumes "finite (sets c u)" and "card (sets c u) < 2 ^ 32" and "u \<noteq> region" and "u \<noteq> ONLINE_SET"
    and "region \<noteq> ONLINE_SET"
  shows "\<exists>c'. delete_session_internal r region u s skip c = (Ok (sets c u - {show_u32 s} = {}), c')
    \<and> sets c' = (sets c)(u := sets c u - {show_u32 s},
        region := (if skip then sets c region else sets c region - {session_entry u s}),
        ONLINE_SET := (if sets c u - {show_u32 s} = {} then sets c ONLINE_SET - {u} else sets c ONLINE_SET))"
proof -
  obtain c1 where c1: "remove_from_set_u32 r u s c = (Ok (), c1)"
    "sets c1 = (sets c)(u := sets c u - {show_u32 s})"
    using remove_from_set_u32 by blast
  obtain c2 where c2: "(if \<not> skip then remove_from_set_string r region (session_entry u s) else ret ()) c1 = (Ok (), c2)"
    "sets c2 = (sets c1)(region := (if skip then sets c region else sets c region - {session_entry u s}))"
    using remove_from_set_string [of region "session_entry u s" c1] c1(2) assms(3) by (cases skip) (auto simp: ret_def fun_eq_iff)
  have u: "sets c2 u = sets c u - {show_u32 s}" using c1(2) c2(2) assms(3) by simp
  have "card (sets c2 u) < 2 ^ 32" using assms(1,2) u by (metis card_Diff1_le order.strict_trans1)
  with assms(1) u get_set_size [of c2 u] obtain n c3 where
    c3: "get_set_size r u c2 = (Ok n, c3)" "sets c3 = sets c2" "n = 0 \<longleftrightarrow> sets c2 u = {}" by auto
  obtain c4 where c4: "(if n = 0 then remove_from_set_string r ONLINE_SET u else ret ()) c3 = (Ok (), c4)"
    "sets c4 = (sets c3)(ONLINE_SET := (if n = 0 then sets c ONLINE_SET - {u} else sets c ONLINE_SET))"
    using remove_from_set_string [of ONLINE_SET u c3] c1(2) c2(2) c3(2) assms(4,5) by (cases "n = 0") (auto simp: ret_def fun_eq_iff)
  have "delete_session_internal r region u s skip c = (Ok (n = 0), c4)"
    using c1(1) c2(1) c3(1) c4(1) by (simp add: delete_session_internal_def up andthen_Ok Let_def ret_def)
  with u c1(2) c2(2) c3(2,3) c4(2) show ?thesis by (intro exI [of _ c4]) simp
qed

lemma create_session_refines:
  assumes rep: "represents sets i A R c" and u: "user_key u" and small: "card A < 2 ^ 32"
    and s: "s = session_id_of rnd flags"
  shows "\<exists>c'. create_session r (region_key i) rnd u flags c = (Ok (u \<notin> fst ` A, s), c')
    \<and> represents sets i (insert (u, s) A) (insert (u, s) R) c'"
proof -
  obtain n c1 where c1: "get_set_size r u c = (Ok n, c1)" "sets c1 = sets c" "n = 0 \<longleftrightarrow> sets c u = {}"
    using get_set_size represents_small [OF rep u small] by blast
  obtain c2 where c2: "add_to_set_u32 r u s c1 = (Ok (), c2)" "sets c2 = (sets c)(u := insert (show_u32 s) (sets c u))"
    using add_to_set_u32 [of u s c1] c1(2) by auto
  obtain c3 where c3: "add_to_set_string r ONLINE_SET u c2 = (Ok (), c3)"
    "sets c3 = (sets c2)(ONLINE_SET := insert u (sets c2 ONLINE_SET))"
    using add_to_set_string by blast
  obtain c4 where c4: "add_to_set_string r (region_key i) (session_entry u s) c3 = (Ok (), c4)"
    "sets c4 = (sets c3)(region_key i := insert (session_entry u s) (sets c3 (region_key i)))"
    using add_to_set_string by blast
  have "create_session r (region_key i) rnd u flags c = (Ok (n = 0, s), c4)"
    using c1(1) c2(1) c3(1) c4(1) by (simp add: create_session_def up andthen_Ok Let_def ret_def s)
  moreover have "n = 0 \<longleftrightarrow> u \<notin> fst ` A"
    using c1(3) representsD(4) [OF rep u] by force
  moreover have "represents sets i (insert (u, s) A) (insert (u, s) R) c4"
    by (rule representsI)
      (use u representsD [OF rep] in \<open>auto simp: c4(2) c3(2) c2(2)\<close>)
  ultimately show ?thesis by simp
qed

lemma delete_session_internal_refines:
  assumes rep: "represents sets i A R c" and u: "user_key u" and small: "card A < 2 ^ 32"
  shows "\<exists>c'. delete_session_internal r (region_key i) u s skip c = (Ok (u \<notin> fst ` (A - {(u, s)})), c')
    \<and> represents sets i (A - {(u, s)}) (if skip then R else R - {(u, s)}) c'"
proof -
  let ?A = "A - {(u, s)}"
  have left: "sets c u - {show_u32 s} = show_u32 ` {t. (u, t) \<in> ?A}"
    unfolding representsD(4) [OF rep u] by (auto simp: show_u32_inject)
  have empty: "show_u32 ` {t. (u, t) \<in> ?A} = {} \<longleftrightarrow> u \<notin> fst ` ?A" by force
  have inj: "inj_on (\<lambda>(v, t). session_entry v t) (insert (u, s) R)"
    using representsD(3) [OF rep] u by (intro inj_onI) (metis (no_types, lifting) case_prod_conv insert_iff prod.collapse
      session_entry_inject user_key_def)
  then have entries: "(\<lambda>(v, t). session_entry v t) ` R - {session_entry u s} = (\<lambda>(v, t). session_entry v t) ` (R - {(u, s)})"
    using inj_on_image_set_diff [OF inj, of R "{(u, s)}"] by auto
  have "fst ` ?A \<subseteq> fst ` A" and "fst ` A \<subseteq> insert u (fst ` ?A)" by (auto simp: image_iff)
  then have online: "(if u \<notin> fst ` ?A then fst ` A - {u} else fst ` A) = fst ` ?A" by (cases "u \<in> fst ` ?A") (simp, blast)+
  have region: "(if skip then sets c (region_key i) else sets c (region_key i) - {session_entry u s})
      = (\<lambda>(v, t). session_entry v t) ` (if skip then R else R - {(u, s)})"
    by (simp add: entries representsD(6) [OF rep])
  from delete_session_internal [OF represents_small [OF rep u small] region_key_neq(2) [OF u] region_key_neq(3) [OF u]
      region_key_neq(1), of i s skip]
  obtain c' where "delete_session_internal r (region_key i) u s skip c = (Ok (u \<notin> fst ` ?A), c')"
    and c': "sets c' = (sets c)(u := show_u32 ` {t. (u, t) \<in> ?A},
        region_key i := (\<lambda>(v, t). session_entry v t) ` (if skip then R else R - {(u, s)}), ONLINE_SET := fst ` ?A)"
    unfolding left empty region representsD(5) [OF rep] online by blast
  moreover have "represents sets i ?A (if skip then R else R - {(u, s)}) c'"
  proof (rule representsI)
    show "sets c' v = show_u32 ` {t. (v, t) \<in> ?A}" if "user_key v" for v
      using that representsD(4) [OF rep that] by (cases "v = u") (auto simp: c')
  qed (use u representsD(1,2,3) [OF rep] in \<open>auto simp: c' split: if_splits\<close>)
  ultimately show ?thesis by blast
qed

lemma clear_one_refines:
  assumes "represents sets i A R c" and "card A < 2 ^ 32" and "user_key u"
  shows "\<exists>c'. clear_one r (region_key i) (session_entry u s) c = (Ok (), c') \<and> represents sets i (A - {(u, s)}) R c'"
  using delete_session_internal_refines [OF assms(1,3,2), of s True] assms(3)
  by (auto simp: clear_one_def user_key_def split_session_entry parse_show_u32 andthen_Ok ret_def)

lemma clear_loop_refines:
  assumes "represents sets i A R c" and "card A < 2 ^ 32" and "set xs \<subseteq> (\<lambda>(u, s). session_entry u s) ` R"
  shows "\<exists>c'. for_each (clear_one r (region_key i)) xs c = (Ok (), c')
    \<and> represents sets i (A - {(u, s) \<in> R. session_entry u s \<in> set xs}) R c'"
  using assms
proof (induction xs arbitrary: A c)
  case Nil
  then show ?case by (simp add: ret_def)
next
  case (Cons x xs)
  then obtain u s where x: "(u, s) \<in> R" "x = session_entry u s" by auto
  note key = representsD(3) [OF Cons.prems(1)]
  from clear_one_refines [OF Cons.prems(1,2) key [OF x(1)]] obtain c1 where
    c1: "clear_one r (region_key i) x c = (Ok (), c1)" "represents sets i (A - {(u, s)}) R c1"
    unfolding x(2) by blast
  have "card (A - {(u, s)}) < 2 ^ 32"
    using Cons.prems(2) representsD(1) [OF Cons.prems(1)] by (metis card_Diff1_le order.strict_trans1)
  from Cons.IH [OF c1(2) this] Cons.prems(3) obtain c2 where
    c2: "for_each (clear_one r (region_key i)) xs c1 = (Ok (), c2)"
    "represents sets i (A - {(u, s)} - {(u, s) \<in> R. session_entry u s \<in> set xs}) R c2" by auto
  have "A - {(u, s)} - {(u, s) \<in> R. session_entry u s \<in> set xs} = A - {(u, s) \<in> R. session_entry u s \<in> set (x # xs)}"
    using key x by (auto simp: user_key_def session_entry_inject)
  with c1(1) c2 show ?case by (auto simp: andthen_Ok)
qed

lemma clear_region_refines:
  assumes rep: "represents sets i A R c" and small: "card A < 2 ^ 32"
  shows "\<exists>c'. clear_region r (region_key i) None c = (Ok (), c') \<and> represents sets i (A - R) {} c'"
proof -
  obtain xs c1 where c1: "get_set_members_as_string r (region_key i) c = (Ok xs, c1)" "sets c1 = sets c"
    "set xs = (\<lambda>(u, s). session_entry u s) ` R"
    using smembers [of "region_key i" c] representsD(6) [OF rep] by (auto simp: get_set_members_as_string_def expect_def)
  have rep1: "represents sets i A R c1" using rep by (simp add: represents_def c1(2))
  show ?thesis
  proof (cases "xs = []")
    case True
    with c1(3) have "R = {}" by simp
    with True c1(1) rep1 show ?thesis by (simp add: clear_region_def up andthen_Ok Let_def ret_def)
  next
    case False
    obtain c2 where c2: "for_each (clear_one r (region_key i)) xs c1 = (Ok (), c2)"
      "represents sets i (A - {(u, s) \<in> R. session_entry u s \<in> set xs}) R c2"
      using clear_loop_refines [OF rep1 small] c1(3) by blast
    have R: "{(u, s) \<in> R. session_entry u s \<in> set xs} = R" unfolding c1(3) by auto
    obtain c3 where c3: "delete_key r (region_key i) c2 = (Ok (), c3)" "sets c3 = (sets c2)(region_key i := {})"
      using del [of "region_key i" c2] by (auto simp: delete_key_def expect_def)
    have "represents sets i (A - R) {} c3"
      using c2(2) by (auto simp: R represents_def c3(2))
    with False c1(1) c2(1) c3(1) show ?thesis by (simp add: clear_region_def up andthen_Ok Let_def)
  qed
qed

lemma is_online_refines:
  assumes rep: "represents sets i A R c" and u: "user_key u"
  shows "\<exists>c'. is_online r u c = (Ok (u \<in> fst ` A), c') \<and> sets c' = sets c"
proof -
  have "sets c u \<noteq> {} \<longleftrightarrow> u \<in> fst ` A" using representsD(4) [OF rep u] by force
  then show ?thesis
    using exists_key [of u c] by (auto simp: is_online_def up unwrap_or_def andthen_def attempt_def ret_def gets_def)
qed

lemma filter_online_refines:
  assumes rep: "represents sets i A R c"
  shows "\<exists>c'. filter_online r us c = (Ok (fst ` A \<inter> set us), c') \<and> sets c' = sets c"
  using smembers [of ONLINE_SET c] representsD(5) [OF rep]
  by (auto simp: filter_online_def up unwrap_or_def andthen_def attempt_def ret_def gets_def)

lemma filter_online_patched_refines:
  assumes rep: "represents sets i A R c" and us: "\<forall>u \<in> set us. user_key u"
  shows "\<exists>c'. filter_online_patched r us c = (Ok (fst ` A \<inter> set us), c') \<and> sets c' = sets c"
proof -
  consider "us = []" | u where "us = [u]" | "2 \<le> length us"
    by (cases us; cases "tl us") auto
  then show ?thesis
  proof cases
    case (2 u)
    with is_online_refines [OF rep, of u] us show ?thesis
      by (auto simp: filter_online_patched_def andthen_Ok ret_def)
  next
    case 3
    have "set (map fst (filter snd (zip us (map P us)))) = {u \<in> set us. P u}" for P by (induction us) auto
    with 3 smismember [of ONLINE_SET us c] representsD(5) [OF rep] show ?thesis
      by (auto simp: filter_online_patched_def up andthen_def expect_def gets_def ret_def)
  qed (simp add: filter_online_patched_def ret_def)
qed

end

section \<open>Sequences of operations\<close>

datatype presence_op = CreateSession string u32 "8 word" | DeleteSession string u32 | ClearRegion

datatype presence_answer = Created bool u32 | Deleted bool | Cleared

fun op_ok :: "presence_op \<Rightarrow> bool" where
  "op_ok (CreateSession u rnd flags) = user_key u"
| "op_ok (DeleteSession u s) = user_key u"
| "op_ok ClearRegion = True"

text \<open>The operations as the events server calls them, in a sequence.\<close>

fun presence_step :: "'c redis \<Rightarrow> 16 word \<Rightarrow> presence_op \<Rightarrow> ('c, unit, presence_answer) action" where
  "presence_step r i (CreateSession u rnd flags) =
     andthen (create_session r (region_key i) rnd u flags) (\<lambda>(first, s). ret (Created first s))"
| "presence_step r i (DeleteSession u s) =
     andthen (delete_session r (region_key i) u s) (\<lambda>last. ret (Deleted last))"
| "presence_step r i ClearRegion =
     andthen (clear_region r (region_key i) None) (\<lambda>_. ret Cleared)"

fun presence_run :: "'c redis \<Rightarrow> 16 word \<Rightarrow> presence_op list \<Rightarrow> ('c, unit, presence_answer list) action" where
  "presence_run r i [] = ret []"
| "presence_run r i (x # xs) =
     andthen (presence_step r i x) (\<lambda>a. andthen (presence_run r i xs) (\<lambda>as. ret (a # as)))"

text \<open>The specification: a set of sessions and its subset of the region.\<close>

type_synonym sessions = "(string \<times> u32) set \<times> (string \<times> u32) set"

fun spec_step :: "presence_op \<Rightarrow> sessions \<Rightarrow> presence_answer \<times> sessions" where
  "spec_step (CreateSession u rnd flags) (A, R) =
     (let s = session_id_of rnd flags in (Created (u \<notin> fst ` A) s, (insert (u, s) A, insert (u, s) R)))"
| "spec_step (DeleteSession u s) (A, R) =
     (Deleted (u \<notin> fst ` (A - {(u, s)})), (A - {(u, s)}, R - {(u, s)}))"
| "spec_step ClearRegion (A, R) = (Cleared, (A - R, {}))"

fun spec_run :: "presence_op list \<Rightarrow> sessions \<Rightarrow> presence_answer list \<times> sessions" where
  "spec_run [] S = ([], S)"
| "spec_run (x # xs) S =
     (case spec_step x S of (a, S') \<Rightarrow> (case spec_run xs S' of (as, S'') \<Rightarrow> (a # as, S'')))"

context redis_sets
begin

lemma presence_step_refines:
  assumes rep: "represents sets i A R c" and small: "card A < 2 ^ 32" and ok: "op_ok x"
  shows "\<exists>a A' R' c'. spec_step x (A, R) = (a, (A', R')) \<and> presence_step r i x c = (Ok a, c')
    \<and> represents sets i A' R' c' \<and> card A' \<le> Suc (card A)"
proof -
  have fin: "finite A" using representsD(1) [OF rep] .
  have le: "card (A - X) \<le> Suc (card A)" for X using card_mono [OF fin, of "A - X"] by auto
  show ?thesis
  proof (cases x)
    case (CreateSession u rnd flags)
    then show ?thesis
      using create_session_refines [OF rep _ small refl, of u rnd flags] ok fin
      by (auto simp: Let_def andthen_Ok ret_def card_insert_if)
  next
    case (DeleteSession u s)
    then show ?thesis
      using delete_session_internal_refines [OF rep _ small, of u s False] ok le
      by (auto simp: delete_session_def andthen_Ok ret_def)
  next
    case ClearRegion
    then show ?thesis
      using clear_region_refines [OF rep small] le by (auto simp: andthen_Ok ret_def)
  qed
qed

lemma presence_run_refines:
  assumes "represents sets i A R c" and "card A + length xs < 2 ^ 32" and "\<forall>x \<in> set xs. op_ok x"
  shows "\<exists>as A' R' c'. spec_run xs (A, R) = (as, (A', R')) \<and> presence_run r i xs c = (Ok as, c')
    \<and> represents sets i A' R' c'"
  using assms
proof (induction xs arbitrary: A R c)
  case Nil
  then show ?case by (simp add: ret_def)
next
  case (Cons x xs)
  from Cons.prems have "card A < 2 ^ 32" and "op_ok x" by auto
  from presence_step_refines [OF Cons.prems(1) this] obtain a A' R' c' where
    step: "spec_step x (A, R) = (a, (A', R'))" "presence_step r i x c = (Ok a, c')"
    "represents sets i A' R' c'" "card A' \<le> Suc (card A)" by blast
  with Cons.prems(2,3) Cons.IH [OF step(3)] show ?case by (fastforce simp: andthen_Ok ret_def)
qed

end

section \<open>A store in memory\<close>

type_synonym mem_store = "string \<Rightarrow> string list"

definition mem_redis :: "mem_store redis" where
  "mem_redis = \<lparr>
     get_connection = (\<lambda>_. True),
     sadd = (\<lambda>k v. modify (\<lambda>m. m(k := List.insert v (m k)))),
     srem = (\<lambda>k v. modify (\<lambda>m. m(k := removeAll v (m k)))),
     smembers = (\<lambda>k. gets (\<lambda>m. m k)),
     scard = (\<lambda>k m. (if card (set (m k)) < 2 ^ 32 then Ok (of_nat (card (set (m k)))) else Err (), m)),
     smismember = (\<lambda>k vs. gets (\<lambda>m. map (\<lambda>v. v \<in> set (m k)) vs)),
     exists_key = (\<lambda>k. gets (\<lambda>m. m k \<noteq> [])),
     del = (\<lambda>k. modify (\<lambda>m. m(k := [])))\<rparr>"

definition mem_sets :: "mem_store \<Rightarrow> string \<Rightarrow> string set" where
  "mem_sets m k = set (m k)"

lemma mem_sets_upd [simp]: "mem_sets (m(k := xs)) = (mem_sets m)(k := set xs)"
  by (simp add: mem_sets_def fun_eq_iff)

interpretation mem: redis_sets mem_redis mem_sets
proof
  fix c :: mem_store and k
  assume "finite (mem_sets c k) \<and> card (mem_sets c k) < 2 ^ 32"
  then show "\<exists>n c'. scard mem_redis k c = (Ok n, c') \<and> mem_sets c' = mem_sets c \<and> unat n = card (mem_sets c k)"
    by (auto simp: mem_redis_def mem_sets_def unat_of_nat)
qed (simp_all add: mem_redis_def modify_def gets_def, simp_all add: mem_sets_def)

section \<open>Properties\<close>

text \<open>C3: every sequence of creations, deletions and region resets, started on an empty store, gives the
  answers of the specification (first session, last session) and ends in a store that represents the
  specification's set of sessions: users are listed as online exactly while they have a session, and
  a reset of the region removes the sessions started there and no others. The bound is that of the
  32-bit session count.\<close>

theorem presence_refines_sessions:
  assumes "redis_sets r sets" and "\<forall>k. sets c k = {}"
    and "\<forall>x \<in> set xs. op_ok x" and "length xs < 2 ^ 32"
  shows "\<exists>as A R c'. spec_run xs ({}, {}) = (as, (A, R)) \<and> presence_run r i xs c = (Ok as, c')
    \<and> represents sets i A R c'"
proof -
  have "represents sets i {} {} c" using assms(2) by (simp add: represents_def)
  from redis_sets.presence_run_refines [OF assms(1) this] assms(3,4) show ?thesis by simp
qed

theorem presence_refines_sessions_witness:
  "\<exists>as A R c'. spec_run [CreateSession ''A'' 4 1, CreateSession ''A'' 8 0, DeleteSession ''A'' 5] ({}, {}) = (as, (A, R))
    \<and> presence_run mem_redis 0 [CreateSession ''A'' 4 1, CreateSession ''A'' 8 0, DeleteSession ''A'' 5] (\<lambda>_. []) = (Ok as, c')
    \<and> represents mem_sets 0 A R c'"
  by (rule presence_refines_sessions [OF mem.redis_sets_axioms])
    (simp_all add: mem_sets_def user_key_def ONLINE_SET_def)

text \<open>both variants of \<open>filter_online\<close> and the single query \<open>is_online\<close> agree: they answer the users
  of the list that have a session.\<close>

theorem online_queries_agree:
  assumes "redis_sets r sets" and "represents sets i A R c" and "\<forall>u \<in> set us. user_key u"
  shows "fst (filter_online r us c) = Ok (fst ` A \<inter> set us)
    \<and> fst (filter_online_patched r us c) = Ok (fst ` A \<inter> set us)
    \<and> (\<forall>u \<in> set us. fst (is_online r u c) = Ok (u \<in> fst ` A))"
  using redis_sets.filter_online_refines [OF assms(1,2), of us]
    redis_sets.filter_online_patched_refines [OF assms(1-3)]
    redis_sets.is_online_refines [OF assms(1,2)] assms(3)
  by (metis fst_conv)

theorem online_queries_agree_witness:
  "fst (filter_online mem_redis [''A'', ''B''] (\<lambda>k. if k = ''A'' then [''5''] else if k = ''online'' then [''A''] else [])) = Ok {''A''}"
proof -
  have show5: "show_u32 5 = ''5''" by (simp add: show_u32_def show_nat.simps digit_def char_of_eq_iff)
  have reg: "region_key i \<noteq> ''A''" for i by (simp add: region_key_def)
  have "represents mem_sets 0 {(''A'', 5)} {} (\<lambda>k. if k = ''A'' then [''5''] else if k = ''online'' then [''A''] else [])"
    by (rule representsI) (auto simp: mem_sets_def show5 reg user_key_def ONLINE_SET_def region_key_def)
  from online_queries_agree [OF mem.redis_sets_axioms this, of "[''A'', ''B'']"] show ?thesis
    by (simp add: user_key_def ONLINE_SET_def)
qed

text \<open>a session number carries the flag of the client in its lowest bit and random data in the others,
  and the entry written for a region is read back by the reset as the same user and session.\<close>

theorem session_numbers_roundtrip:
  "session_id_of rnd flags AND FLAG_BITS = ucast flags AND FLAG_BITS
   \<and> session_id_of rnd flags AND NOT FLAG_BITS = rnd AND NOT FLAG_BITS
   \<and> (CHR '':'' \<notin> set u \<longrightarrow>
        split_on CHR '':'' (session_entry u s) = [u, show_u32 s] \<and> parse_u32 (show_u32 s) = Some s)"
proof (intro conjI)
  show "session_id_of rnd flags AND FLAG_BITS = ucast flags AND FLAG_BITS"
    and "session_id_of rnd flags AND NOT FLAG_BITS = rnd AND NOT FLAG_BITS"
    by (rule bit_eqI, auto simp: session_id_of_def FLAG_BITS_def bit_simps)+
qed (simp add: split_session_entry parse_show_u32)

theorem session_numbers_roundtrip_witness:
  "split_on CHR '':'' (session_entry ''A'' 77) = [''A'', show_u32 77] \<and> parse_u32 (show_u32 77) = Some 77"
  using session_numbers_roundtrip [of 0 0 "''A''" 77] by simp

end
