(* ===== verification/Permissions.thy ===== *)
theory Permissions
  imports Result
begin

text \<open>
  The permission values of \<open>crates/core/permissions\<close>: the bits of \<open>ChannelPermission\<close> and
  \<open>UserPermission\<close>, the default sets, \<open>Override\<close> and its database form \<open>OverrideField\<close>, and the
  operations of \<open>PermissionValue\<close>. A \<open>PermissionValue\<close> is its \<open>u64\<close>; a method that takes
  \<open>&mut self\<close> returns the new value.

  The lemmas read a value bit by bit (\<open>bit p n\<close>): that is the abstract view of a permission value as
  a set of granted permissions, and every operation has a one-line characterisation in it.
\<close>

section \<open>Permission bits\<close>

datatype (plugins only: ) channel_permission =
    ManageChannel | ManageServer | ManagePermissions | ManageRole | ManageCustomisation
  | KickMembers | BanMembers | TimeoutMembers | AssignRoles | ChangeNickname | ManageNicknames
  | ChangeAvatar | RemoveAvatars
  | ViewChannel | ReadMessageHistory | SendMessage | ManageMessages | ManageWebhooks | InviteOthers
  | SendEmbeds | UploadFiles | Masquerade | React | BypassSlowmode
  | Connect | Speak | Video | MuteMembers | DeafenMembers | MoveMembers | Listen
  | MentionEveryone | MentionRoles
  | GrantAllSafe | GrantAll

text \<open>\<open>p as u64\<close> for a \<open>ChannelPermission\<close>.\<close>

primrec channel_permission_bits :: "channel_permission \<Rightarrow> u64" where
  "channel_permission_bits ManageChannel = push_bit 0 1"
| "channel_permission_bits ManageServer = push_bit 1 1"
| "channel_permission_bits ManagePermissions = push_bit 2 1"
| "channel_permission_bits ManageRole = push_bit 3 1"
| "channel_permission_bits ManageCustomisation = push_bit 4 1"
| "channel_permission_bits KickMembers = push_bit 6 1"
| "channel_permission_bits BanMembers = push_bit 7 1"
| "channel_permission_bits TimeoutMembers = push_bit 8 1"
| "channel_permission_bits AssignRoles = push_bit 9 1"
| "channel_permission_bits ChangeNickname = push_bit 10 1"
| "channel_permission_bits ManageNicknames = push_bit 11 1"
| "channel_permission_bits ChangeAvatar = push_bit 12 1"
| "channel_permission_bits RemoveAvatars = push_bit 13 1"
| "channel_permission_bits ViewChannel = push_bit 20 1"
| "channel_permission_bits ReadMessageHistory = push_bit 21 1"
| "channel_permission_bits SendMessage = push_bit 22 1"
| "channel_permission_bits ManageMessages = push_bit 23 1"
| "channel_permission_bits ManageWebhooks = push_bit 24 1"
| "channel_permission_bits InviteOthers = push_bit 25 1"
| "channel_permission_bits SendEmbeds = push_bit 26 1"
| "channel_permission_bits UploadFiles = push_bit 27 1"
| "channel_permission_bits Masquerade = push_bit 28 1"
| "channel_permission_bits React = push_bit 29 1"
| "channel_permission_bits BypassSlowmode = push_bit 39 1"
| "channel_permission_bits Connect = push_bit 30 1"
| "channel_permission_bits Speak = push_bit 31 1"
| "channel_permission_bits Video = push_bit 32 1"
| "channel_permission_bits MuteMembers = push_bit 33 1"
| "channel_permission_bits DeafenMembers = push_bit 34 1"
| "channel_permission_bits MoveMembers = push_bit 35 1"
| "channel_permission_bits Listen = push_bit 36 1"
| "channel_permission_bits MentionEveryone = push_bit 37 1"
| "channel_permission_bits MentionRoles = push_bit 38 1"
| "channel_permission_bits GrantAllSafe = 0x000FFFFFFFFFFFFF"
| "channel_permission_bits GrantAll = - 1"

text \<open>\<open>permission.to_string()\<close>: the \<open>Display\<close> implementation prints the \<open>Debug\<close> form, the name of the
  constructor.\<close>

primrec channel_permission_to_string :: "channel_permission \<Rightarrow> string" where
  "channel_permission_to_string ManageChannel = ''ManageChannel''"
| "channel_permission_to_string ManageServer = ''ManageServer''"
| "channel_permission_to_string ManagePermissions = ''ManagePermissions''"
| "channel_permission_to_string ManageRole = ''ManageRole''"
| "channel_permission_to_string ManageCustomisation = ''ManageCustomisation''"
| "channel_permission_to_string KickMembers = ''KickMembers''"
| "channel_permission_to_string BanMembers = ''BanMembers''"
| "channel_permission_to_string TimeoutMembers = ''TimeoutMembers''"
| "channel_permission_to_string AssignRoles = ''AssignRoles''"
| "channel_permission_to_string ChangeNickname = ''ChangeNickname''"
| "channel_permission_to_string ManageNicknames = ''ManageNicknames''"
| "channel_permission_to_string ChangeAvatar = ''ChangeAvatar''"
| "channel_permission_to_string RemoveAvatars = ''RemoveAvatars''"
| "channel_permission_to_string ViewChannel = ''ViewChannel''"
| "channel_permission_to_string ReadMessageHistory = ''ReadMessageHistory''"
| "channel_permission_to_string SendMessage = ''SendMessage''"
| "channel_permission_to_string ManageMessages = ''ManageMessages''"
| "channel_permission_to_string ManageWebhooks = ''ManageWebhooks''"
| "channel_permission_to_string InviteOthers = ''InviteOthers''"
| "channel_permission_to_string SendEmbeds = ''SendEmbeds''"
| "channel_permission_to_string UploadFiles = ''UploadFiles''"
| "channel_permission_to_string Masquerade = ''Masquerade''"
| "channel_permission_to_string React = ''React''"
| "channel_permission_to_string BypassSlowmode = ''BypassSlowmode''"
| "channel_permission_to_string Connect = ''Connect''"
| "channel_permission_to_string Speak = ''Speak''"
| "channel_permission_to_string Video = ''Video''"
| "channel_permission_to_string MuteMembers = ''MuteMembers''"
| "channel_permission_to_string DeafenMembers = ''DeafenMembers''"
| "channel_permission_to_string MoveMembers = ''MoveMembers''"
| "channel_permission_to_string Listen = ''Listen''"
| "channel_permission_to_string MentionEveryone = ''MentionEveryone''"
| "channel_permission_to_string MentionRoles = ''MentionRoles''"
| "channel_permission_to_string GrantAllSafe = ''GrantAllSafe''"
| "channel_permission_to_string GrantAll = ''GrantAll''"

datatype user_permission = Access | ViewProfile | SendUserMessage | InviteUser

primrec user_permission_bits :: "user_permission \<Rightarrow> u64" where
  "user_permission_bits Access = push_bit 0 1"
| "user_permission_bits ViewProfile = push_bit 1 1"
| "user_permission_bits SendUserMessage = push_bit 2 1"
| "user_permission_bits InviteUser = push_bit 3 1"

primrec user_permission_to_string :: "user_permission \<Rightarrow> string" where
  "user_permission_to_string Access = ''Access''"
| "user_permission_to_string ViewProfile = ''ViewProfile''"
| "user_permission_to_string SendUserMessage = ''SendMessage''"
| "user_permission_to_string InviteUser = ''Invite''"

text \<open>The operator \<open>+\<close> of the source on permissions is a bitwise or (\<open>impl_op_ex!\<close>), between two
  permissions and between a \<open>u64\<close> and a permission.\<close>

definition perm_add :: "channel_permission \<Rightarrow> channel_permission \<Rightarrow> u64" where
  "perm_add a b = channel_permission_bits a OR channel_permission_bits b"

definition perm_plus :: "u64 \<Rightarrow> channel_permission \<Rightarrow> u64" where
  "perm_plus a b = a OR channel_permission_bits b"

section \<open>Default sets\<close>

definition ALLOW_IN_TIMEOUT :: u64 where
  "ALLOW_IN_TIMEOUT = perm_add ViewChannel ReadMessageHistory"

definition DEFAULT_PERMISSION_VIEW_ONLY :: u64 where
  "DEFAULT_PERMISSION_VIEW_ONLY = perm_add ViewChannel ReadMessageHistory"

text \<open>\<open>DEFAULT_PERMISSION_VIEW_ONLY.add(..)\<close> is \<open>Add::add\<close> on two \<open>u64\<close>: an arithmetic sum, not the
  bitwise or of the permission operator. The sums below add disjoint sets, so nothing carries.\<close>

definition DEFAULT_PERMISSION :: u64 where
  "DEFAULT_PERMISSION = DEFAULT_PERMISSION_VIEW_ONLY +
     (perm_plus (perm_plus (perm_plus (perm_plus (perm_plus (perm_plus
       (perm_add SendMessage InviteOthers) SendEmbeds) UploadFiles) Connect) Speak) Listen) Video)"

definition DEFAULT_PERMISSION_SAVED_MESSAGES :: u64 where
  "DEFAULT_PERMISSION_SAVED_MESSAGES = channel_permission_bits GrantAllSafe"

definition DEFAULT_PERMISSION_DIRECT_MESSAGE :: u64 where
  "DEFAULT_PERMISSION_DIRECT_MESSAGE =
     DEFAULT_PERMISSION + perm_plus (perm_add ManageChannel React) Masquerade"

definition DEFAULT_PERMISSION_SERVER :: u64 where
  "DEFAULT_PERMISSION_SERVER =
     DEFAULT_PERMISSION + perm_plus (perm_add React ChangeNickname) ChangeAvatar"

definition DEFAULT_WEBHOOK_PERMISSIONS :: u64 where
  "DEFAULT_WEBHOOK_PERMISSIONS = perm_plus (perm_plus (perm_add SendMessage SendEmbeds) Masquerade) React"

section \<open>Overrides\<close>

record override =
  allow :: u64
  deny :: u64

record override_field =
  field_a :: i64
  field_d :: i64

definition allows :: "override \<Rightarrow> u64" where
  "allows v = allow v"

definition denies :: "override \<Rightarrow> u64" where
  "denies v = deny v"

definition override_default :: override where
  "override_default = \<lparr>allow = 0, deny = 0\<rparr>"

definition override_field_default :: override_field where
  "override_field_default = \<lparr>field_a = 0, field_d = 0\<rparr>"

definition override_to_field :: "override \<Rightarrow> override_field" where
  "override_to_field v = \<lparr>field_a = as_i64 (allow v), field_d = as_i64 (deny v)\<rparr>"

definition field_to_override :: "override_field \<Rightarrow> override" where
  "field_to_override v = \<lparr>allow = as_u64 (field_a v), deny = as_u64 (field_d v)\<rparr>"

section \<open>Permission values\<close>

definition pv_allow :: "u64 \<Rightarrow> u64 \<Rightarrow> u64" where
  "pv_allow p v = p OR v"

definition pv_revoke :: "u64 \<Rightarrow> u64 \<Rightarrow> u64" where
  "pv_revoke p v = p AND NOT v"

definition pv_apply :: "u64 \<Rightarrow> override \<Rightarrow> u64" where
  "pv_apply p v = pv_revoke (pv_allow p (allow v)) (deny v)"

definition pv_revoke_all :: "u64 \<Rightarrow> u64" where
  "pv_revoke_all p = 0"

definition pv_restrict :: "u64 \<Rightarrow> u64 \<Rightarrow> u64" where
  "pv_restrict p v = p AND v"

definition pv_has :: "u64 \<Rightarrow> u64 \<Rightarrow> bool" where
  "pv_has p v \<longleftrightarrow> p AND v = v"

definition has_user_permission :: "u64 \<Rightarrow> user_permission \<Rightarrow> bool" where
  "has_user_permission p perm = pv_has p (user_permission_bits perm)"

definition has_channel_permission :: "u64 \<Rightarrow> channel_permission \<Rightarrow> bool" where
  "has_channel_permission p perm = pv_has p (channel_permission_bits perm)"

definition throw_if_lacking_user_permission :: "u64 \<Rightarrow> user_permission \<Rightarrow> unit result" where
  "throw_if_lacking_user_permission p perm =
     (if has_user_permission p perm then Ok ()
      else Err (MissingPermission (user_permission_to_string perm)))"

definition throw_if_lacking_channel_permission :: "u64 \<Rightarrow> channel_permission \<Rightarrow> unit result" where
  "throw_if_lacking_channel_permission p perm =
     (if has_channel_permission p perm then Ok ()
      else Err (MissingPermission (channel_permission_to_string perm)))"

definition throw_permission_override :: "u64 \<Rightarrow> override option \<Rightarrow> override \<Rightarrow> unit result" where
  "throw_permission_override p current next_value =
     (case current of
        Some cur \<Rightarrow>
          if \<not> pv_has p (NOT (allows cur) AND allows next_value)
             \<or> \<not> pv_has p (denies cur AND NOT (denies next_value))
          then Err CannotGiveMissingPermissions else Ok ()
      | None \<Rightarrow>
          if \<not> pv_has p (allows next_value) then Err CannotGiveMissingPermissions else Ok ())"

section \<open>Values read bit by bit\<close>

lemma bit_push_bit_one: "bit (push_bit m (1 :: u64)) n \<longleftrightarrow> n = m \<and> n < 64"
  by (auto simp: bit_simps)

lemma pv_has_iff [perm_simps]: "pv_has p v \<longleftrightarrow> (\<forall>n < 64. bit v n \<longrightarrow> bit p n)"
  unfolding pv_has_def by (auto simp: bit_eq_iff bit_and_iff)

lemma bit_pv_allow [perm_simps]: "bit (pv_allow p v) n \<longleftrightarrow> bit p n \<or> bit v n"
  by (simp add: pv_allow_def bit_or_iff)

lemma bit_pv_revoke [perm_simps]: "bit (pv_revoke p v) n \<longleftrightarrow> bit p n \<and> \<not> bit v n"
  by (auto simp: pv_revoke_def bit_and_iff bit_not_iff dest: bit_imp_le_length)

lemma bit_pv_restrict [perm_simps]: "bit (pv_restrict p v) n \<longleftrightarrow> bit p n \<and> bit v n"
  by (simp add: pv_restrict_def bit_and_iff)

lemma bit_pv_apply [perm_simps]:
  "bit (pv_apply p v) n \<longleftrightarrow> (bit p n \<or> bit (allow v) n) \<and> \<not> bit (deny v) n"
  by (simp add: pv_apply_def perm_simps)

lemma bit_pv_revoke_all [perm_simps]: "\<not> bit (pv_revoke_all p) n"
  by (simp add: pv_revoke_all_def)

lemma perm_eqI: "(\<And>n. n < 64 \<Longrightarrow> bit p n \<longleftrightarrow> bit q n) \<Longrightarrow> p = (q :: u64)"
  by (rule bit_word_eqI) simp

text \<open>The bit of a single permission, \<open>None\<close> for the two composite values.\<close>

primrec permission_bit :: "channel_permission \<Rightarrow> nat option" where
  "permission_bit ManageChannel = Some 0"
| "permission_bit ManageServer = Some 1"
| "permission_bit ManagePermissions = Some 2"
| "permission_bit ManageRole = Some 3"
| "permission_bit ManageCustomisation = Some 4"
| "permission_bit KickMembers = Some 6"
| "permission_bit BanMembers = Some 7"
| "permission_bit TimeoutMembers = Some 8"
| "permission_bit AssignRoles = Some 9"
| "permission_bit ChangeNickname = Some 10"
| "permission_bit ManageNicknames = Some 11"
| "permission_bit ChangeAvatar = Some 12"
| "permission_bit RemoveAvatars = Some 13"
| "permission_bit ViewChannel = Some 20"
| "permission_bit ReadMessageHistory = Some 21"
| "permission_bit SendMessage = Some 22"
| "permission_bit ManageMessages = Some 23"
| "permission_bit ManageWebhooks = Some 24"
| "permission_bit InviteOthers = Some 25"
| "permission_bit SendEmbeds = Some 26"
| "permission_bit UploadFiles = Some 27"
| "permission_bit Masquerade = Some 28"
| "permission_bit React = Some 29"
| "permission_bit BypassSlowmode = Some 39"
| "permission_bit Connect = Some 30"
| "permission_bit Speak = Some 31"
| "permission_bit Video = Some 32"
| "permission_bit MuteMembers = Some 33"
| "permission_bit DeafenMembers = Some 34"
| "permission_bit MoveMembers = Some 35"
| "permission_bit Listen = Some 36"
| "permission_bit MentionEveryone = Some 37"
| "permission_bit MentionRoles = Some 38"
| "permission_bit GrantAllSafe = None"
| "permission_bit GrantAll = None"

lemma permission_bit_less: "permission_bit c = Some n \<Longrightarrow> n < 52"
  by (cases c) auto

lemma channel_permission_bits_eq:
  "permission_bit c = Some n \<Longrightarrow> channel_permission_bits c = push_bit n 1"
  by (cases c) auto

lemma bit_channel_permission_bits:
  assumes "permission_bit c = Some m"
  shows "bit (channel_permission_bits c) n \<longleftrightarrow> n = m"
  using permission_bit_less [OF assms]
  unfolding channel_permission_bits_eq [OF assms] bit_push_bit_one by auto

lemma has_channel_permission_iff:
  "permission_bit c = Some m \<Longrightarrow> has_channel_permission p c \<longleftrightarrow> bit p m"
  by (auto simp: has_channel_permission_def perm_simps bit_channel_permission_bits
      dest: permission_bit_less)

lemma bit_ViewChannel [perm_simps]: "has_channel_permission p ViewChannel \<longleftrightarrow> bit p 20"
  by (simp add: has_channel_permission_iff)

lemma bit_user_SendMessage [perm_simps]: "has_user_permission p SendUserMessage \<longleftrightarrow> bit p 2"
proof -
  have "bit (user_permission_bits SendUserMessage) n \<longleftrightarrow> n = 2" for n
    unfolding user_permission_bits.simps bit_push_bit_one by auto
  then show ?thesis by (auto simp: has_user_permission_def pv_has_iff simp del: user_permission_bits.simps)
qed

lemma bit_ALLOW_IN_TIMEOUT [perm_simps]: "bit ALLOW_IN_TIMEOUT n \<longleftrightarrow> n = 20 \<or> n = 21"
  by (simp add: ALLOW_IN_TIMEOUT_def perm_add_def bit_or_iff bit_channel_permission_bits
      del: channel_permission_bits.simps)

section \<open>Properties\<close>

text \<open>An override changes a base value to a new value. What a change of the override from \<open>cur\<close> to
  \<open>nxt\<close> can newly grant, over all base values, is what the editor must hold.\<close>

definition newly_grants :: "override \<Rightarrow> override \<Rightarrow> nat \<Rightarrow> bool" where
  "newly_grants cur nxt n \<longleftrightarrow>
     (\<exists>base. bit (pv_apply base nxt) n \<and> \<not> bit (pv_apply base cur) n)"

lemma newly_grants_iff:
  assumes "n < 64"
  shows "newly_grants cur nxt n \<longleftrightarrow>
     \<not> bit (deny nxt) n \<and> (bit (deny cur) n \<or> bit (allow nxt) n \<and> \<not> bit (allow cur) n)"
proof
  assume "newly_grants cur nxt n"
  then show "\<not> bit (deny nxt) n \<and> (bit (deny cur) n \<or> bit (allow nxt) n \<and> \<not> bit (allow cur) n)"
    by (auto simp: newly_grants_def bit_pv_apply)
next
  assume *: "\<not> bit (deny nxt) n \<and> (bit (deny cur) n \<or> bit (allow nxt) n \<and> \<not> bit (allow cur) n)"
  define base where "base = (if bit (deny cur) n then - 1 else 0 :: u64)"
  from * assms have "bit (pv_apply base nxt) n \<and> \<not> bit (pv_apply base cur) n"
    by (auto simp: base_def bit_pv_apply)
  then show "newly_grants cur nxt n" unfolding newly_grants_def by blast
qed

text \<open>An editor who passes the check holds every permission that the change newly grants.\<close>

lemma override_check_grants:
  assumes "throw_permission_override p (Some cur) nxt = Ok ()" and "n < 64" and "newly_grants cur nxt n"
  shows "bit p n"
  using assms
  by (auto simp: throw_permission_override_def pv_has_iff bit_and_iff bit_not_iff allows_def denies_def
      newly_grants_iff split: if_splits)

text \<open>the check is not stricter than needed for an override that does not allow and deny the same
  permission: it passes exactly when the editor holds everything the change can newly grant. An
  override that is set for the first time is checked like a change from the empty one.\<close>

theorem override_check_exact:
  assumes "allow nxt AND deny nxt = 0"
  shows "(throw_permission_override p (Some cur) nxt = Ok () \<longleftrightarrow>
            (\<forall>n < 64. newly_grants cur nxt n \<longrightarrow> bit p n))
         \<and> throw_permission_override p None nxt = throw_permission_override p (Some override_default) nxt"
proof
  have disj: "\<not> (bit (allow nxt) n \<and> bit (deny nxt) n)" for n
    using assms by (metis bit_and_iff bit_0_eq bot_apply bot_bool_def)
  then show "throw_permission_override p (Some cur) nxt = Ok () \<longleftrightarrow> (\<forall>n < 64. newly_grants cur nxt n \<longrightarrow> bit p n)"
    by (auto simp: throw_permission_override_def pv_has_iff bit_and_iff bit_not_iff allows_def denies_def
        newly_grants_iff)
  show "throw_permission_override p None nxt = throw_permission_override p (Some override_default) nxt"
    by (simp add: throw_permission_override_def override_default_def allows_def denies_def pv_has_def)
qed

theorem override_check_exact_witness:
  "throw_permission_override 4 (Some \<lparr>allow = 1, deny = 2\<rparr>) \<lparr>allow = 5, deny = 2\<rparr> = Ok ()
     \<longleftrightarrow> (\<forall>n < 64. newly_grants \<lparr>allow = 1, deny = 2\<rparr> \<lparr>allow = 5, deny = 2\<rparr> n \<longrightarrow> bit (4 :: u64) n)"
  by (rule override_check_exact [THEN conjunct1]) simp

text \<open>storing an override in the database form and reading it back gives the same override, and so
  does the other direction for every pair of \<open>i64\<close> values.\<close>

theorem override_field_roundtrip:
  "field_to_override (override_to_field v) = v
   \<and> (in_i64 (field_a f) \<and> in_i64 (field_d f) \<longrightarrow> override_to_field (field_to_override f) = f)"
  by (simp add: field_to_override_def override_to_field_def as_i64_as_u64)

theorem override_field_roundtrip_witness:
  "override_to_field (field_to_override \<lparr>field_a = - 1, field_d = 5\<rparr>) = \<lparr>field_a = - 1, field_d = 5\<rparr>"
  using override_field_roundtrip [of undefined "\<lparr>field_a = - 1, field_d = 5\<rparr>"] by (simp add: in_i64_def)

text \<open>the permissions are different bits, all inside the 52 bits of \<open>GrantAllSafe\<close>, so a value that
  holds \<open>GrantAllSafe\<close> holds every permission and granting one permission never grants another.\<close>

theorem permission_bits_independent:
  "permission_bit c = Some n \<Longrightarrow> permission_bit c' = Some n' \<Longrightarrow>
   (has_channel_permission (channel_permission_bits c) c' \<longleftrightarrow> c = c')
   \<and> has_channel_permission (channel_permission_bits GrantAllSafe) c"
proof -
  assume c: "permission_bit c = Some n" and c': "permission_bit c' = Some n'"
  have inj: "c = c'" if "n = n'" using c c' that by (cases c; cases c') simp_all
  have safe: "channel_permission_bits GrantAllSafe = mask 52" by (simp add: mask_eq_exp_minus_1)
  have "has_channel_permission (channel_permission_bits c) c' \<longleftrightarrow> c = c'"
    using inj c c' by (auto simp: has_channel_permission_iff [OF c'] bit_channel_permission_bits [OF c])
  moreover have "has_channel_permission (channel_permission_bits GrantAllSafe) c"
    using permission_bit_less [OF c] unfolding has_channel_permission_iff [OF c] safe
    by (simp add: bit_mask_iff)
  ultimately show ?thesis ..
qed

theorem permission_bits_independent_witness:
  "\<not> has_channel_permission (channel_permission_bits KickMembers) BanMembers
   \<and> has_channel_permission (channel_permission_bits GrantAllSafe) KickMembers"
  using permission_bits_independent [of KickMembers 6 BanMembers 7] by simp

end
