(* ===== verification/Models.thy ===== *)
theory Models
  imports Permissions
begin

text \<open>
  The data of \<open>crates/core/database/src/models\<close> that the modelled operations work on: users,
  servers and roles, members and bans, channels, invites, messages, files, bots, webhooks and unreads, with the fields of the Rust
  structs (a field is prefixed by a short form of its struct, because record fields are global
  names). Identifiers are strings, timestamps are milliseconds since the epoch.

  The small accessors of \<open>Channel\<close>, \<open>Member\<close>, \<open>Invite\<close> and \<open>User\<close> that only read one value are here
  too.
\<close>

type_synonym timestamp = int

section \<open>Files\<close>

datatype metadata =
    FileMeta
  | TextMeta
  | ImageMeta int int "nat list option" "bool option"
  | VideoMeta int int
  | AudioMeta

datatype file_used_for_type =
    UsedMessage | UsedServerBanner | UsedEmoji | UsedUserAvatar | UsedWebhookAvatar
  | UsedUserProfileBackground | UsedLegacyGroupIcon | UsedChannelIcon | UsedServerIcon

record file_used_for =
  object_type :: file_used_for_type
  used_id :: string

record stored_file =
  file_id :: string
  file_tag :: string
  file_filename :: string
  file_hash :: "string option"
  file_uploaded_at :: "timestamp option"
  file_uploader_id :: "string option"
  file_used_for :: "file_used_for option"
  file_deleted :: "bool option"
  file_reported :: "bool option"
  file_metadata :: metadata
  file_content_type :: string
  file_size :: int
  file_message_id :: "string option"
  file_user_id :: "string option"
  file_server_id :: "string option"
  file_object_id :: "string option"

section \<open>Users\<close>

datatype relationship_status =
    NoRelation | RelUser | Friend | Outgoing | Incoming | Blocked | BlockedOther

record relationship =
  rel_id :: string
  rel_status :: relationship_status

datatype presence = Online | Idle | Focus | Busy | Invisible

record user_status =
  status_text :: "string option"
  status_presence :: "presence option"

record user_profile =
  profile_content :: "string option"
  profile_background :: "stored_file option"

record bot_information =
  bot_owner :: string

record user =
  user_id :: string
  username :: string
  discriminator :: string
  display_name :: "string option"
  user_avatar :: "stored_file option"
  relations :: "relationship list option"
  badges :: "int option"
  user_status :: "user_status option"
  user_profile :: "user_profile option"
  user_flags :: "int option"
  privileged :: bool
  user_bot :: "bot_information option"
  suspended_until :: "timestamp option"
  suspension_reason :: "string option"
  ban_reason :: "string option"
  last_acknowledged_policy_change :: timestamp

text \<open>\<open>Default for User\<close>.\<close>

definition user_default :: user where
  "user_default =
     \<lparr>user_id = '''', username = '''', discriminator = '''', display_name = None, user_avatar = None,
      relations = None, badges = None, user_status = None, user_profile = None, user_flags = None,
      privileged = False, user_bot = None, suspended_until = None, suspension_reason = None,
      ban_reason = None, last_acknowledged_policy_change = 0\<rparr>"

section \<open>Servers and roles\<close>

record role =
  role_id :: string
  role_name :: string
  role_permissions :: override_field
  role_colour :: "string option"
  role_hoist :: bool
  role_rank :: i64

record category =
  category_id :: string
  category_title :: string
  category_channels :: "string list"

record system_message_channels =
  smc_user_joined :: "string option"
  smc_user_left :: "string option"
  smc_user_kicked :: "string option"
  smc_user_banned :: "string option"

record server =
  server_id :: string
  server_owner :: string
  server_name :: string
  server_description :: "string option"
  server_channels :: "string list"
  server_categories :: "category list option"
  server_system_messages :: "system_message_channels option"
  server_roles :: "(string, role) hashmap"
  server_default_permissions :: i64
  server_icon :: "stored_file option"
  server_banner :: "stored_file option"
  server_flags :: "int option"
  server_nsfw :: bool
  server_analytics :: bool
  server_discoverable :: bool

text \<open>\<open>SystemMessageChannels::into_channel_ids\<close>.\<close>

definition into_channel_ids :: "system_message_channels \<Rightarrow> string set" where
  "into_channel_ids s =
     set_option (smc_user_joined s) \<union> set_option (smc_user_left s) \<union>
     set_option (smc_user_kicked s) \<union> set_option (smc_user_banned s)"

section \<open>Members and bans\<close>

record member_composite_key =
  key_server :: string
  key_user :: string

record member =
  member_id :: member_composite_key
  joined_at :: timestamp
  nickname :: "string option"
  member_avatar :: "stored_file option"
  member_roles :: "string list"
  member_timeout :: "timestamp option"
  can_publish :: bool
  can_receive :: bool

text \<open>\<open>Member::default\<close> at the time \<open>now\<close>, with the id.\<close>

definition member_new :: "timestamp \<Rightarrow> member_composite_key \<Rightarrow> member" where
  "member_new now k = \<lparr>member_id = k, joined_at = now, nickname = None, member_avatar = None, member_roles = [], member_timeout = None,
     can_publish = True, can_receive = True\<rparr>"

datatype removal_intention = Leave | Kick | Ban

datatype fields_member =
    MemberNickname | MemberAvatar | MemberRoles | MemberTimeout | MemberCanReceive
  | MemberCanPublish | MemberJoinedAt | MemberVoiceChannel

record server_ban =
  ban_id :: member_composite_key
  server_ban_reason :: "string option"

text \<open>\<open>Member::get_ranking\<close>: the smallest rank among the roles the member has, \<open>i64::MAX\<close> without one.
  A role id the server does not know is skipped.\<close>

definition get_ranking :: "member \<Rightarrow> server \<Rightarrow> i64" where
  "get_ranking m s =
     fold (\<lambda>rid value.
             case map_of (server_roles s) rid of
               Some r \<Rightarrow> if role_rank r < value then role_rank r else value
             | None \<Rightarrow> value)
       (member_roles m) i64_max"

text \<open>\<open>Member::in_timeout\<close>, at the time \<open>now\<close>.\<close>

definition in_timeout :: "timestamp \<Rightarrow> member \<Rightarrow> bool" where
  "in_timeout now m = (case member_timeout m of Some t \<Rightarrow> t > now | None \<Rightarrow> False)"

text \<open>\<open>Member::remove_field\<close>.\<close>

primrec member_remove_field :: "fields_member \<Rightarrow> member \<Rightarrow> member" where
  "member_remove_field MemberJoinedAt m = m"
| "member_remove_field MemberAvatar m = m\<lparr>member_avatar := None\<rparr>"
| "member_remove_field MemberNickname m = m\<lparr>nickname := None\<rparr>"
| "member_remove_field MemberRoles m = m\<lparr>member_roles := []\<rparr>"
| "member_remove_field MemberTimeout m = m\<lparr>member_timeout := None\<rparr>"
| "member_remove_field MemberCanReceive m = m\<lparr>can_receive := True\<rparr>"
| "member_remove_field MemberCanPublish m = m\<lparr>can_publish := True\<rparr>"
| "member_remove_field MemberVoiceChannel m = m"

section \<open>Channels\<close>

record voice_information =
  max_users :: "nat option"

record group_channel =
  grp_name :: string
  grp_owner :: string
  grp_description :: "string option"
  grp_recipients :: "string list"
  grp_icon :: "stored_file option"
  grp_last_message_id :: "string option"
  grp_permissions :: "i64 option"
  grp_nsfw :: bool

record text_channel =
  txt_server :: string
  txt_name :: string
  txt_description :: "string option"
  txt_icon :: "stored_file option"
  txt_last_message_id :: "string option"
  txt_default_permissions :: "override_field option"
  txt_role_permissions :: "(string, override_field) hashmap"
  txt_nsfw :: bool
  txt_voice :: "voice_information option"
  txt_slowmode :: "u64 option"

text \<open>The variants of \<open>Channel\<close>. The first argument is the channel id; a variant with many named fields
  carries them in a record.\<close>

datatype channel =
    SavedMessages (channel_id: string) string
  | DirectMessage (channel_id: string) bool "string list" "string option"
  | Group (channel_id: string) group_channel
  | TextChannel (channel_id: string) text_channel

text \<open>\<open>Channel::id\<close> is the selector \<open>channel_id\<close>. The other accessors:\<close>

fun is_direct_dm :: "channel \<Rightarrow> bool" where
  "is_direct_dm (DirectMessage _ _ _ _) = True"
| "is_direct_dm _ = False"

fun contains_user :: "channel \<Rightarrow> string \<Rightarrow> bool" where
  "contains_user (Group _ g) u = (u \<in> set (grp_recipients g))"
| "contains_user _ u = False"

fun channel_users :: "channel \<Rightarrow> string list result" where
  "channel_users (Group _ g) = Ok (grp_recipients g)"
| "channel_users _ = Err NotFound"

fun channel_server :: "channel \<Rightarrow> string option" where
  "channel_server (TextChannel _ t) = Some (txt_server t)"
| "channel_server _ = None"

fun channel_voice :: "channel \<Rightarrow> voice_information option" where
  "channel_voice (DirectMessage _ _ _ _) = Some \<lparr>max_users = None\<rparr>"
| "channel_voice (Group _ _) = Some \<lparr>max_users = None\<rparr>"
| "channel_voice (TextChannel _ t) = txt_voice t"
| "channel_voice (SavedMessages _ _) = None"

section \<open>Invites\<close>

datatype invite =
    ServerInvite (invite_code: string) string (invite_creator: string) string
  | GroupInvite (invite_code: string) (invite_creator: string) string

text \<open>\<open>Invite::code\<close> and \<open>Invite::creator\<close> are the selectors \<open>invite_code\<close> and \<open>invite_creator\<close>.\<close>

section \<open>Messages\<close>

text \<open>\<open>SystemMessage\<close>, and the parts of \<open>Message\<close>. An embed that is only stored and passed on is kept as its
  serialised text.\<close>

datatype system_message =
    SysText string
  | SysUserAdded string string
  | SysUserRemove string string
  | SysUserJoined string
  | SysUserLeft string
  | SysUserKicked string
  | SysUserBanned string
  | SysChannelRenamed string string
  | SysChannelDescriptionChanged string
  | SysChannelIconChanged string
  | SysChannelOwnershipChanged string string
  | SysMessagePinned string string
  | SysMessageUnpinned string string
  | SysCallStarted string "timestamp option"

record text_embed =
  emb_icon_url :: "string option"
  emb_url :: "string option"
  emb_title :: "string option"
  emb_description :: "string option"
  emb_media :: "stored_file option"
  emb_colour :: "string option"

datatype embed = EmbedText text_embed | EmbedOther string

record masquerade =
  masq_name :: "string option"
  masq_avatar :: "string option"
  masq_colour :: "string option"

record interactions =
  inter_reactions :: "string list option"
  restrict_reactions :: bool

record message_webhook =
  hook_name :: string
  hook_avatar :: "string option"

text \<open>The reactions are an \<open>IndexMap\<close> of \<open>IndexSet\<close>s, both kept in the order of the list.\<close>

record message =
  msg_id :: string
  msg_nonce :: "string option"
  msg_channel :: string
  msg_author :: string
  msg_webhook :: "message_webhook option"
  msg_content :: "string option"
  msg_system :: "system_message option"
  msg_attachments :: "stored_file list option"
  msg_edited :: "timestamp option"
  msg_embeds :: "embed list option"
  msg_mentions :: "string list option"
  msg_role_mentions :: "string list option"
  msg_replies :: "string list option"
  msg_reactions :: "(string, string list) hashmap"
  msg_interactions :: interactions
  msg_masquerade :: "masquerade option"
  msg_pinned :: "bool option"
  msg_flags :: "u32 option"

definition interactions_default :: interactions where
  "interactions_default = \<lparr>inter_reactions = None, restrict_reactions = False\<rparr>"

text \<open>\<open>Default for Message\<close>.\<close>

definition message_default :: message where
  "message_default =
     \<lparr>msg_id = [], msg_nonce = None, msg_channel = [], msg_author = [], msg_webhook = None,
      msg_content = None, msg_system = None, msg_attachments = None, msg_edited = None,
      msg_embeds = None, msg_mentions = None, msg_role_mentions = None, msg_replies = None,
      msg_reactions = [], msg_interactions = interactions_default, msg_masquerade = None,
      msg_pinned = None, msg_flags = None\<rparr>"

section \<open>Emojis\<close>

datatype emoji_parent = EmojiServer string | EmojiDetached

record emoji =
  emoji_id :: string
  emoji_parent :: emoji_parent
  emoji_creator_id :: string
  emoji_name :: string
  emoji_animated :: bool
  emoji_nsfw :: bool

text \<open>\<open>Emoji::parent\<close>.\<close>

definition emoji_parent_id :: "emoji \<Rightarrow> string" where
  "emoji_parent_id e = (case emoji_parent e of EmojiServer i \<Rightarrow> i | EmojiDetached \<Rightarrow> [])"

section \<open>Bots and webhooks\<close>

record bot_account =
  botacc_id :: string
  botacc_owner :: string
  botacc_token :: string
  botacc_public :: bool
  botacc_analytics :: bool
  botacc_discoverable :: bool
  botacc_interactions_url :: string
  botacc_terms_of_service_url :: string
  botacc_privacy_policy_url :: string
  botacc_flags :: "int option"
  botacc_oauth2_client_id :: "string option"
  botacc_oauth2_client_secret :: "string option"
  botacc_oauth2_redirect_uris :: "string list option"
  botacc_oauth2_scopes :: "string list option"

text \<open>\<open>Default for Bot\<close>.\<close>

definition bot_account_default :: bot_account where
  "bot_account_default =
     \<lparr>botacc_id = [], botacc_owner = [], botacc_token = [], botacc_public = False, botacc_analytics = False,
      botacc_discoverable = False, botacc_interactions_url = [], botacc_terms_of_service_url = [],
      botacc_privacy_policy_url = [], botacc_flags = None, botacc_oauth2_client_id = None,
      botacc_oauth2_client_secret = None, botacc_oauth2_redirect_uris = None, botacc_oauth2_scopes = None\<rparr>"

record webhook =
  webhook_id :: string
  webhook_name :: string
  webhook_avatar :: "stored_file option"
  webhook_creator_id :: string
  webhook_channel_id :: string
  webhook_permissions :: u64
  webhook_token :: "string option"

text \<open>\<open>Webhook::assert_token\<close>.\<close>

definition assert_token :: "webhook \<Rightarrow> string \<Rightarrow> unit result" where
  "assert_token h token = (if webhook_token h = Some token then Ok () else Err NotAuthenticated)"

section \<open>Unreads, settings and policy changes\<close>

record channel_composite_key =
  ckey_channel :: string
  ckey_user :: string

record channel_unread =
  unread_id :: channel_composite_key
  unread_last_id :: "string option"
  unread_mentions :: "string list option"

type_synonym user_settings = "(string, i64 \<times> string) hashmap"

record policy_change =
  policy_id :: string
  policy_created_time :: timestamp
  policy_effective_time :: timestamp
  policy_description :: string
  policy_url :: string

datatype ratelimit_event_type = DiscriminatorChange

record ratelimit_event =
  rlevent_id :: string
  rlevent_target_id :: string
  rlevent_type :: ratelimit_event_type

section \<open>Rank and timeout\<close>

lemma Min_insert_min:
  "finite S \<Longrightarrow> Min (insert (min x v) S) = Min (insert v (insert x S))" for v :: "'a :: linorder"
  by (cases "S = {}") (simp_all add: min.assoc min.left_commute min.commute)

lemma get_ranking_fold_le:
  "fold (\<lambda>rid value.
          case map_of rs rid of
            Some r \<Rightarrow> if role_rank r < value then role_rank r else value
          | None \<Rightarrow> value) ids v = Min (insert v {role_rank r | r rid. rid \<in> set ids \<and> map_of rs rid = Some r})"
proof (induction ids arbitrary: v)
  case Nil
  then show ?case by simp
next
  case (Cons x xs)
  let ?L = "fold (\<lambda>rid value.
          case map_of rs rid of
            Some r \<Rightarrow> if role_rank r < value then role_rank r else value
          | None \<Rightarrow> value)"
  let ?S = "\<lambda>ids. {role_rank r | r rid. rid \<in> set ids \<and> map_of rs rid = Some r}"
  have fin: "finite (?S xs)" for xs
  proof -
    have "?S xs \<subseteq> (\<lambda>rid. role_rank (the (map_of rs rid))) ` set xs" by force
    then show ?thesis by (rule finite_subset) simp
  qed
  show ?case
  proof (cases "map_of rs x")
    case None
    then have "?S (x # xs) = ?S xs" by auto
    with None Cons.IH show ?thesis by simp
  next
    case (Some r)
    then have eq: "?S (x # xs) = insert (role_rank r) (?S xs)" by auto
    have m: "(if role_rank r < v then role_rank r else v) = min (role_rank r) v"
      by (simp add: min_def)
    have "?L (x # xs) v = ?L xs (min (role_rank r) v)"
      by (simp add: Some m)
    also have "\<dots> = Min (insert (min (role_rank r) v) (?S xs))"
      by (rule Cons.IH)
    also have "\<dots> = Min (insert v (?S (x # xs)))"
      unfolding eq by (rule Min_insert_min [OF fin])
    finally show ?thesis .
  qed
qed

text \<open>The ranking of a member is the minimum of the ranks of the roles it has.\<close>

lemma get_ranking_Min:
  "get_ranking m s =
     Min (insert i64_max {role_rank r | r rid. rid \<in> set (member_roles m) \<and> map_of (server_roles s) rid = Some r})"
  unfolding get_ranking_def by (rule get_ranking_fold_le)

section \<open>Sample data\<close>

text \<open>Small concrete values at which the properties are instantiated.\<close>

definition sample_user :: "string \<Rightarrow> user" where
  "sample_user i = user_default\<lparr>user_id := i\<rparr>"

definition sample_role :: "string \<Rightarrow> i64 \<Rightarrow> i64 \<Rightarrow> i64 \<Rightarrow> role" where
  "sample_role i rank al de =
     \<lparr>role_id = i, role_name = i, role_permissions = \<lparr>field_a = al, field_d = de\<rparr>, role_colour = None,
      role_hoist = False, role_rank = rank\<rparr>"

definition sample_server :: "string \<Rightarrow> string \<Rightarrow> (string, role) hashmap \<Rightarrow> i64 \<Rightarrow> server" where
  "sample_server i owner roles perms =
     \<lparr>server_id = i, server_owner = owner, server_name = i, server_description = None,
      server_channels = [], server_categories = None, server_system_messages = None,
      server_roles = roles, server_default_permissions = perms, server_icon = None,
      server_banner = None, server_flags = None, server_nsfw = False, server_analytics = False,
      server_discoverable = False\<rparr>"

definition sample_member :: "string \<Rightarrow> string \<Rightarrow> string list \<Rightarrow> timestamp option \<Rightarrow> member" where
  "sample_member srv u roles until =
     \<lparr>member_id = \<lparr>key_server = srv, key_user = u\<rparr>, joined_at = 0, nickname = None,
      member_avatar = None, member_roles = roles, member_timeout = until, can_publish = True,
      can_receive = True\<rparr>"

definition sample_text_channel :: "string \<Rightarrow> string \<Rightarrow> (string, override_field) hashmap \<Rightarrow> channel" where
  "sample_text_channel i srv perms =
     TextChannel i
       \<lparr>txt_server = srv, txt_name = i, txt_description = None, txt_icon = None,
        txt_last_message_id = None, txt_default_permissions = None, txt_role_permissions = perms,
        txt_nsfw = False, txt_voice = None, txt_slowmode = None\<rparr>"

definition sample_group :: "string \<Rightarrow> string \<Rightarrow> string list \<Rightarrow> channel" where
  "sample_group i owner recipients =
     Group i
       \<lparr>grp_name = i, grp_owner = owner, grp_description = None, grp_recipients = recipients,
        grp_icon = None, grp_last_message_id = None, grp_permissions = None, grp_nsfw = False\<rparr>"

lemmas sample_defs = sample_user_def sample_role_def sample_server_def sample_member_def
  sample_text_channel_def sample_group_def user_default_def

end
