(* ===== verification/Partials.thy ===== *)
theory Partials
  imports Models
begin

text \<open>
  Partial updates: the \<open>Partial*\<close> structs, the enumerations of removable fields and the functions
  \<open>remove_field\<close> and \<open>apply_options\<close> of \<open>crates/core/database/src/models\<close>.

  \<open>Channel::apply_options\<close> is written by hand and modelled here. For the other structs the function is
  generated by the external derive macro \<open>OptionalStruct\<close>: it is a parameter, the record
  \<open>optional_structs\<close>, and the locale \<open>optional_struct_laws\<close> states what the macro documents, that the
  fields which are set in the partial struct replace those of the struct and the others stay.
\<close>

section \<open>Partial structs\<close>

record partial_user =
  pu_id :: "string option"
  pu_username :: "string option"
  pu_discriminator :: "string option"
  pu_display_name :: "string option"
  pu_avatar :: "stored_file option"
  pu_relations :: "relationship list option"
  pu_badges :: "int option"
  pu_status :: "user_status option"
  pu_profile :: "user_profile option"
  pu_flags :: "int option"
  pu_privileged :: "bool option"
  pu_bot :: "bot_information option"
  pu_suspended_until :: "timestamp option"
  pu_suspension_reason :: "string option"
  pu_ban_reason :: "string option"
  pu_last_acknowledged_policy_change :: "timestamp option"

record partial_role =
  pr_id :: "string option"
  pr_name :: "string option"
  pr_permissions :: "override_field option"
  pr_colour :: "string option"
  pr_hoist :: "bool option"
  pr_rank :: "i64 option"

record partial_server =
  ps_id :: "string option"
  ps_owner :: "string option"
  ps_name :: "string option"
  ps_description :: "string option"
  ps_channels :: "string list option"
  ps_categories :: "category list option"
  ps_system_messages :: "system_message_channels option"
  ps_roles :: "(string, role) hashmap option"
  ps_default_permissions :: "i64 option"
  ps_icon :: "stored_file option"
  ps_banner :: "stored_file option"
  ps_flags :: "int option"
  ps_nsfw :: "bool option"
  ps_analytics :: "bool option"
  ps_discoverable :: "bool option"

record partial_member =
  pm_id :: "member_composite_key option"
  pm_joined_at :: "timestamp option"
  pm_nickname :: "string option"
  pm_avatar :: "stored_file option"
  pm_roles :: "string list option"
  pm_timeout :: "timestamp option"
  pm_can_publish :: "bool option"
  pm_can_receive :: "bool option"

record partial_message =
  pg_id :: "string option"
  pg_nonce :: "string option"
  pg_channel :: "string option"
  pg_author :: "string option"
  pg_webhook :: "message_webhook option"
  pg_content :: "string option"
  pg_system :: "system_message option"
  pg_attachments :: "stored_file list option"
  pg_edited :: "timestamp option"
  pg_embeds :: "embed list option"
  pg_mentions :: "string list option"
  pg_role_mentions :: "string list option"
  pg_replies :: "string list option"
  pg_reactions :: "(string, string list) hashmap option"
  pg_interactions :: "interactions option"
  pg_masquerade :: "masquerade option"
  pg_pinned :: "bool option"
  pg_flags :: "u32 option"

record partial_channel =
  pc_name :: "string option"
  pc_owner :: "string option"
  pc_description :: "string option"
  pc_icon :: "stored_file option"
  pc_nsfw :: "bool option"
  pc_active :: "bool option"
  pc_permissions :: "i64 option"
  pc_role_permissions :: "(string, override_field) hashmap option"
  pc_default_permissions :: "override_field option"
  pc_last_message_id :: "string option"
  pc_voice :: "voice_information option"
  pc_slowmode :: "u64 option"

record partial_bot =
  pb_id :: "string option"
  pb_owner :: "string option"
  pb_token :: "string option"
  pb_public :: "bool option"
  pb_analytics :: "bool option"
  pb_discoverable :: "bool option"
  pb_interactions_url :: "string option"
  pb_terms_of_service_url :: "string option"
  pb_privacy_policy_url :: "string option"
  pb_flags :: "int option"
  pb_oauth2_client_id :: "string option"
  pb_oauth2_client_secret :: "string option"
  pb_oauth2_redirect_uris :: "string list option"
  pb_oauth2_scopes :: "string list option"

record partial_webhook =
  pw_id :: "string option"
  pw_name :: "string option"
  pw_avatar :: "stored_file option"
  pw_creator_id :: "string option"
  pw_channel_id :: "string option"
  pw_permissions :: "u64 option"
  pw_token :: "string option"

text \<open>\<open>..Default::default()\<close>: nothing is set.\<close>

definition partial_user_default :: partial_user where
  "partial_user_default =
     \<lparr>pu_id = None, pu_username = None, pu_discriminator = None, pu_display_name = None, pu_avatar = None,
      pu_relations = None, pu_badges = None, pu_status = None, pu_profile = None, pu_flags = None,
      pu_privileged = None, pu_bot = None, pu_suspended_until = None, pu_suspension_reason = None,
      pu_ban_reason = None, pu_last_acknowledged_policy_change = None\<rparr>"

definition partial_role_default :: partial_role where
  "partial_role_default =
     \<lparr>pr_id = None, pr_name = None, pr_permissions = None, pr_colour = None, pr_hoist = None, pr_rank = None\<rparr>"

definition partial_server_default :: partial_server where
  "partial_server_default =
     \<lparr>ps_id = None, ps_owner = None, ps_name = None, ps_description = None, ps_channels = None,
      ps_categories = None, ps_system_messages = None, ps_roles = None, ps_default_permissions = None,
      ps_icon = None, ps_banner = None, ps_flags = None, ps_nsfw = None, ps_analytics = None,
      ps_discoverable = None\<rparr>"

definition partial_member_default :: partial_member where
  "partial_member_default =
     \<lparr>pm_id = None, pm_joined_at = None, pm_nickname = None, pm_avatar = None, pm_roles = None,
      pm_timeout = None, pm_can_publish = None, pm_can_receive = None\<rparr>"

definition partial_channel_default :: partial_channel where
  "partial_channel_default =
     \<lparr>pc_name = None, pc_owner = None, pc_description = None, pc_icon = None, pc_nsfw = None,
      pc_active = None, pc_permissions = None, pc_role_permissions = None,
      pc_default_permissions = None, pc_last_message_id = None, pc_voice = None, pc_slowmode = None\<rparr>"

definition partial_message_default :: partial_message where
  "partial_message_default =
     \<lparr>pg_id = None, pg_nonce = None, pg_channel = None, pg_author = None, pg_webhook = None,
      pg_content = None, pg_system = None, pg_attachments = None, pg_edited = None, pg_embeds = None,
      pg_mentions = None, pg_role_mentions = None, pg_replies = None, pg_reactions = None,
      pg_interactions = None, pg_masquerade = None, pg_pinned = None, pg_flags = None\<rparr>"

definition partial_bot_default :: partial_bot where
  "partial_bot_default =
     \<lparr>pb_id = None, pb_owner = None, pb_token = None, pb_public = None, pb_analytics = None, pb_discoverable = None,
      pb_interactions_url = None, pb_terms_of_service_url = None, pb_privacy_policy_url = None, pb_flags = None,
      pb_oauth2_client_id = None, pb_oauth2_client_secret = None, pb_oauth2_redirect_uris = None,
      pb_oauth2_scopes = None\<rparr>"

definition partial_webhook_default :: partial_webhook where
  "partial_webhook_default =
     \<lparr>pw_id = None, pw_name = None, pw_avatar = None, pw_creator_id = None, pw_channel_id = None, pw_permissions = None,
      pw_token = None\<rparr>"

lemmas partial_defaults = partial_user_default_def partial_role_default_def partial_server_default_def
  partial_member_default_def partial_channel_default_def partial_message_default_def
  partial_bot_default_def partial_webhook_default_def

section \<open>Removable fields\<close>

datatype fields_user =
    UserAvatar | UserStatusText | UserStatusPresence | UserProfileContent | UserProfileBackground
  | UserDisplayName | UserSuspension | UserNone

datatype fields_server = ServerDescription | ServerCategories | ServerSystemMessages | ServerIcon | ServerBanner

datatype fields_role = RoleColour

datatype fields_message = MessagePinned

datatype fields_channel = ChannelDescription | ChannelIcon | ChannelDefaultPermissions | ChannelVoice

datatype fields_bot = BotToken | BotInteractionsURL

datatype fields_webhook = WebhookAvatar

primrec user_remove_field :: "fields_user \<Rightarrow> user \<Rightarrow> user" where
  "user_remove_field UserAvatar u = u\<lparr>user_avatar := None\<rparr>"
| "user_remove_field UserStatusText u =
     u\<lparr>user_status := map_option (\<lambda>x. x\<lparr>status_text := None\<rparr>) (user_status u)\<rparr>"
| "user_remove_field UserStatusPresence u =
     u\<lparr>user_status := map_option (\<lambda>x. x\<lparr>status_presence := None\<rparr>) (user_status u)\<rparr>"
| "user_remove_field UserProfileContent u =
     u\<lparr>user_profile := map_option (\<lambda>x. x\<lparr>profile_content := None\<rparr>) (user_profile u)\<rparr>"
| "user_remove_field UserProfileBackground u =
     u\<lparr>user_profile := map_option (\<lambda>x. x\<lparr>profile_background := None\<rparr>) (user_profile u)\<rparr>"
| "user_remove_field UserDisplayName u = u\<lparr>display_name := None\<rparr>"
| "user_remove_field UserSuspension u = u\<lparr>suspended_until := None\<rparr>"
| "user_remove_field UserNone u = u"

primrec server_remove_field :: "fields_server \<Rightarrow> server \<Rightarrow> server" where
  "server_remove_field ServerDescription s = s\<lparr>server_description := None\<rparr>"
| "server_remove_field ServerCategories s = s\<lparr>server_categories := None\<rparr>"
| "server_remove_field ServerSystemMessages s = s\<lparr>server_system_messages := None\<rparr>"
| "server_remove_field ServerIcon s = s\<lparr>server_icon := None\<rparr>"
| "server_remove_field ServerBanner s = s\<lparr>server_banner := None\<rparr>"

primrec role_remove_field :: "fields_role \<Rightarrow> role \<Rightarrow> role" where
  "role_remove_field RoleColour r = r\<lparr>role_colour := None\<rparr>"

primrec message_remove_field :: "fields_message \<Rightarrow> message \<Rightarrow> message" where
  "message_remove_field MessagePinned m = m\<lparr>msg_pinned := None\<rparr>"

text \<open>Removing the token of a bot puts a fresh one in its place, here the argument \<open>fresh\<close>.\<close>

primrec bot_remove_field :: "string \<Rightarrow> fields_bot \<Rightarrow> bot_account \<Rightarrow> bot_account" where
  "bot_remove_field fresh BotToken b = b\<lparr>botacc_token := fresh\<rparr>"
| "bot_remove_field fresh BotInteractionsURL b = b\<lparr>botacc_interactions_url := []\<rparr>"

primrec webhook_remove_field :: "fields_webhook \<Rightarrow> webhook \<Rightarrow> webhook" where
  "webhook_remove_field WebhookAvatar h = h\<lparr>webhook_avatar := None\<rparr>"

fun channel_remove_field :: "fields_channel \<Rightarrow> channel \<Rightarrow> channel" where
  "channel_remove_field ChannelDescription (Group i g) = Group i (g\<lparr>grp_description := None\<rparr>)"
| "channel_remove_field ChannelDescription (TextChannel i t) = TextChannel i (t\<lparr>txt_description := None\<rparr>)"
| "channel_remove_field ChannelIcon (Group i g) = Group i (g\<lparr>grp_icon := None\<rparr>)"
| "channel_remove_field ChannelIcon (TextChannel i t) = TextChannel i (t\<lparr>txt_icon := None\<rparr>)"
| "channel_remove_field ChannelDefaultPermissions (TextChannel i t) = TextChannel i (t\<lparr>txt_default_permissions := None\<rparr>)"
| "channel_remove_field ChannelVoice (TextChannel i t) = TextChannel i (t\<lparr>txt_voice := None\<rparr>)"
| "channel_remove_field f c = c"

definition channel_remove_fields :: "fields_channel list \<Rightarrow> channel \<Rightarrow> channel" where
  "channel_remove_fields fs c = fold channel_remove_field fs c"

section \<open>Application of a partial channel\<close>

text \<open>\<open>set_if v x\<close> is \<open>if let Some(v) = .. { *x = v }\<close>; on an optional field the assignment is
  \<open>x.replace(v)\<close>.\<close>

definition set_if :: "'a option \<Rightarrow> 'a \<Rightarrow> 'a" where
  "set_if v x = (case v of Some y \<Rightarrow> y | None \<Rightarrow> x)"

definition replace_if :: "'a option \<Rightarrow> 'a option \<Rightarrow> 'a option" where
  "replace_if v x = (case v of Some y \<Rightarrow> Some y | None \<Rightarrow> x)"

fun channel_apply_options :: "partial_channel \<Rightarrow> channel \<Rightarrow> channel" where
  "channel_apply_options p (SavedMessages i u) = SavedMessages i u"
| "channel_apply_options p (DirectMessage i active rs l) = DirectMessage i (set_if (pc_active p) active) rs l"
| "channel_apply_options p (Group i g) =
     Group i (g\<lparr>grp_name := set_if (pc_name p) (grp_name g),
                grp_owner := set_if (pc_owner p) (grp_owner g),
                grp_description := replace_if (pc_description p) (grp_description g),
                grp_icon := replace_if (pc_icon p) (grp_icon g),
                grp_nsfw := set_if (pc_nsfw p) (grp_nsfw g),
                grp_permissions := replace_if (pc_permissions p) (grp_permissions g)\<rparr>)"
| "channel_apply_options p (TextChannel i t) =
     TextChannel i (t\<lparr>txt_name := set_if (pc_name p) (txt_name t),
                txt_description := replace_if (pc_description p) (txt_description t),
                txt_icon := replace_if (pc_icon p) (txt_icon t),
                txt_nsfw := set_if (pc_nsfw p) (txt_nsfw t),
                txt_role_permissions := set_if (pc_role_permissions p) (txt_role_permissions t),
                txt_default_permissions := replace_if (pc_default_permissions p) (txt_default_permissions t),
                txt_voice := replace_if (pc_voice p) (txt_voice t)\<rparr>)"

section \<open>The generated functions\<close>

record optional_structs =
  apply_user :: "partial_user \<Rightarrow> user \<Rightarrow> user"
  apply_role :: "partial_role \<Rightarrow> role \<Rightarrow> role"
  apply_server :: "partial_server \<Rightarrow> server \<Rightarrow> server"
  apply_member :: "partial_member \<Rightarrow> member \<Rightarrow> member"
  apply_message :: "partial_message \<Rightarrow> message \<Rightarrow> message"
  apply_bot :: "partial_bot \<Rightarrow> bot_account \<Rightarrow> bot_account"
  apply_webhook :: "partial_webhook \<Rightarrow> webhook \<Rightarrow> webhook"

locale optional_struct_laws =
  fixes OS :: optional_structs
  assumes apply_user: "apply_user OS pu u = u\<lparr>
      user_id := set_if (pu_id pu) (user_id u),
      username := set_if (pu_username pu) (username u),
      discriminator := set_if (pu_discriminator pu) (discriminator u),
      display_name := replace_if (pu_display_name pu) (display_name u),
      user_avatar := replace_if (pu_avatar pu) (user_avatar u),
      relations := replace_if (pu_relations pu) (relations u),
      badges := replace_if (pu_badges pu) (badges u),
      user_status := replace_if (pu_status pu) (user_status u),
      user_profile := replace_if (pu_profile pu) (user_profile u),
      user_flags := replace_if (pu_flags pu) (user_flags u),
      privileged := set_if (pu_privileged pu) (privileged u),
      user_bot := replace_if (pu_bot pu) (user_bot u),
      suspended_until := replace_if (pu_suspended_until pu) (suspended_until u),
      suspension_reason := replace_if (pu_suspension_reason pu) (suspension_reason u),
      ban_reason := replace_if (pu_ban_reason pu) (ban_reason u),
      last_acknowledged_policy_change :=
        set_if (pu_last_acknowledged_policy_change pu) (last_acknowledged_policy_change u)\<rparr>"
    and apply_role: "apply_role OS pr r = r\<lparr>
      role_id := set_if (pr_id pr) (role_id r),
      role_name := set_if (pr_name pr) (role_name r),
      role_permissions := set_if (pr_permissions pr) (role_permissions r),
      role_colour := replace_if (pr_colour pr) (role_colour r),
      role_hoist := set_if (pr_hoist pr) (role_hoist r),
      role_rank := set_if (pr_rank pr) (role_rank r)\<rparr>"
    and apply_server: "apply_server OS ps s = s\<lparr>
      server_id := set_if (ps_id ps) (server_id s),
      server_owner := set_if (ps_owner ps) (server_owner s),
      server_name := set_if (ps_name ps) (server_name s),
      server_description := replace_if (ps_description ps) (server_description s),
      server_channels := set_if (ps_channels ps) (server_channels s),
      server_categories := replace_if (ps_categories ps) (server_categories s),
      server_system_messages := replace_if (ps_system_messages ps) (server_system_messages s),
      server_roles := set_if (ps_roles ps) (server_roles s),
      server_default_permissions := set_if (ps_default_permissions ps) (server_default_permissions s),
      server_icon := replace_if (ps_icon ps) (server_icon s),
      server_banner := replace_if (ps_banner ps) (server_banner s),
      server_flags := replace_if (ps_flags ps) (server_flags s),
      server_nsfw := set_if (ps_nsfw ps) (server_nsfw s),
      server_analytics := set_if (ps_analytics ps) (server_analytics s),
      server_discoverable := set_if (ps_discoverable ps) (server_discoverable s)\<rparr>"
    and apply_member: "apply_member OS pm m = m\<lparr>
      member_id := set_if (pm_id pm) (member_id m),
      joined_at := set_if (pm_joined_at pm) (joined_at m),
      nickname := replace_if (pm_nickname pm) (nickname m),
      member_avatar := replace_if (pm_avatar pm) (member_avatar m),
      member_roles := set_if (pm_roles pm) (member_roles m),
      member_timeout := replace_if (pm_timeout pm) (member_timeout m),
      can_publish := set_if (pm_can_publish pm) (can_publish m),
      can_receive := set_if (pm_can_receive pm) (can_receive m)\<rparr>"
    and apply_message: "apply_message OS pg mg = mg\<lparr>
      msg_id := set_if (pg_id pg) (msg_id mg),
      msg_nonce := replace_if (pg_nonce pg) (msg_nonce mg),
      msg_channel := set_if (pg_channel pg) (msg_channel mg),
      msg_author := set_if (pg_author pg) (msg_author mg),
      msg_webhook := replace_if (pg_webhook pg) (msg_webhook mg),
      msg_content := replace_if (pg_content pg) (msg_content mg),
      msg_system := replace_if (pg_system pg) (msg_system mg),
      msg_attachments := replace_if (pg_attachments pg) (msg_attachments mg),
      msg_edited := replace_if (pg_edited pg) (msg_edited mg),
      msg_embeds := replace_if (pg_embeds pg) (msg_embeds mg),
      msg_mentions := replace_if (pg_mentions pg) (msg_mentions mg),
      msg_role_mentions := replace_if (pg_role_mentions pg) (msg_role_mentions mg),
      msg_replies := replace_if (pg_replies pg) (msg_replies mg),
      msg_reactions := set_if (pg_reactions pg) (msg_reactions mg),
      msg_interactions := set_if (pg_interactions pg) (msg_interactions mg),
      msg_masquerade := replace_if (pg_masquerade pg) (msg_masquerade mg),
      msg_pinned := replace_if (pg_pinned pg) (msg_pinned mg),
      msg_flags := replace_if (pg_flags pg) (msg_flags mg)\<rparr>"
    and apply_bot: "apply_bot OS pb b = b\<lparr>
      botacc_id := set_if (pb_id pb) (botacc_id b),
      botacc_owner := set_if (pb_owner pb) (botacc_owner b),
      botacc_token := set_if (pb_token pb) (botacc_token b),
      botacc_public := set_if (pb_public pb) (botacc_public b),
      botacc_analytics := set_if (pb_analytics pb) (botacc_analytics b),
      botacc_discoverable := set_if (pb_discoverable pb) (botacc_discoverable b),
      botacc_interactions_url := set_if (pb_interactions_url pb) (botacc_interactions_url b),
      botacc_terms_of_service_url := set_if (pb_terms_of_service_url pb) (botacc_terms_of_service_url b),
      botacc_privacy_policy_url := set_if (pb_privacy_policy_url pb) (botacc_privacy_policy_url b),
      botacc_flags := replace_if (pb_flags pb) (botacc_flags b),
      botacc_oauth2_client_id := replace_if (pb_oauth2_client_id pb) (botacc_oauth2_client_id b),
      botacc_oauth2_client_secret := replace_if (pb_oauth2_client_secret pb) (botacc_oauth2_client_secret b),
      botacc_oauth2_redirect_uris := replace_if (pb_oauth2_redirect_uris pb) (botacc_oauth2_redirect_uris b),
      botacc_oauth2_scopes := replace_if (pb_oauth2_scopes pb) (botacc_oauth2_scopes b)\<rparr>"
    and apply_webhook: "apply_webhook OS pw h = h\<lparr>
      webhook_id := set_if (pw_id pw) (webhook_id h),
      webhook_name := set_if (pw_name pw) (webhook_name h),
      webhook_avatar := replace_if (pw_avatar pw) (webhook_avatar h),
      webhook_creator_id := set_if (pw_creator_id pw) (webhook_creator_id h),
      webhook_channel_id := set_if (pw_channel_id pw) (webhook_channel_id h),
      webhook_permissions := set_if (pw_permissions pw) (webhook_permissions h),
      webhook_token := replace_if (pw_token pw) (webhook_token h)\<rparr>"

text \<open>An instance of the parameter.\<close>

definition merge_structs :: optional_structs where
  "merge_structs = \<lparr>
     apply_user = (\<lambda>pu u. u\<lparr>
      user_id := set_if (pu_id pu) (user_id u),
      username := set_if (pu_username pu) (username u),
      discriminator := set_if (pu_discriminator pu) (discriminator u),
      display_name := replace_if (pu_display_name pu) (display_name u),
      user_avatar := replace_if (pu_avatar pu) (user_avatar u),
      relations := replace_if (pu_relations pu) (relations u),
      badges := replace_if (pu_badges pu) (badges u),
      user_status := replace_if (pu_status pu) (user_status u),
      user_profile := replace_if (pu_profile pu) (user_profile u),
      user_flags := replace_if (pu_flags pu) (user_flags u),
      privileged := set_if (pu_privileged pu) (privileged u),
      user_bot := replace_if (pu_bot pu) (user_bot u),
      suspended_until := replace_if (pu_suspended_until pu) (suspended_until u),
      suspension_reason := replace_if (pu_suspension_reason pu) (suspension_reason u),
      ban_reason := replace_if (pu_ban_reason pu) (ban_reason u),
      last_acknowledged_policy_change :=
        set_if (pu_last_acknowledged_policy_change pu) (last_acknowledged_policy_change u)\<rparr>),
     apply_role = (\<lambda>pr r. r\<lparr>
      role_id := set_if (pr_id pr) (role_id r),
      role_name := set_if (pr_name pr) (role_name r),
      role_permissions := set_if (pr_permissions pr) (role_permissions r),
      role_colour := replace_if (pr_colour pr) (role_colour r),
      role_hoist := set_if (pr_hoist pr) (role_hoist r),
      role_rank := set_if (pr_rank pr) (role_rank r)\<rparr>),
     apply_server = (\<lambda>ps s. s\<lparr>
      server_id := set_if (ps_id ps) (server_id s),
      server_owner := set_if (ps_owner ps) (server_owner s),
      server_name := set_if (ps_name ps) (server_name s),
      server_description := replace_if (ps_description ps) (server_description s),
      server_channels := set_if (ps_channels ps) (server_channels s),
      server_categories := replace_if (ps_categories ps) (server_categories s),
      server_system_messages := replace_if (ps_system_messages ps) (server_system_messages s),
      server_roles := set_if (ps_roles ps) (server_roles s),
      server_default_permissions := set_if (ps_default_permissions ps) (server_default_permissions s),
      server_icon := replace_if (ps_icon ps) (server_icon s),
      server_banner := replace_if (ps_banner ps) (server_banner s),
      server_flags := replace_if (ps_flags ps) (server_flags s),
      server_nsfw := set_if (ps_nsfw ps) (server_nsfw s),
      server_analytics := set_if (ps_analytics ps) (server_analytics s),
      server_discoverable := set_if (ps_discoverable ps) (server_discoverable s)\<rparr>),
     apply_member = (\<lambda>pm m. m\<lparr>
      member_id := set_if (pm_id pm) (member_id m),
      joined_at := set_if (pm_joined_at pm) (joined_at m),
      nickname := replace_if (pm_nickname pm) (nickname m),
      member_avatar := replace_if (pm_avatar pm) (member_avatar m),
      member_roles := set_if (pm_roles pm) (member_roles m),
      member_timeout := replace_if (pm_timeout pm) (member_timeout m),
      can_publish := set_if (pm_can_publish pm) (can_publish m),
      can_receive := set_if (pm_can_receive pm) (can_receive m)\<rparr>),
     apply_message = (\<lambda>pg m. m\<lparr>
      msg_id := set_if (pg_id pg) (msg_id m),
      msg_nonce := replace_if (pg_nonce pg) (msg_nonce m),
      msg_channel := set_if (pg_channel pg) (msg_channel m),
      msg_author := set_if (pg_author pg) (msg_author m),
      msg_webhook := replace_if (pg_webhook pg) (msg_webhook m),
      msg_content := replace_if (pg_content pg) (msg_content m),
      msg_system := replace_if (pg_system pg) (msg_system m),
      msg_attachments := replace_if (pg_attachments pg) (msg_attachments m),
      msg_edited := replace_if (pg_edited pg) (msg_edited m),
      msg_embeds := replace_if (pg_embeds pg) (msg_embeds m),
      msg_mentions := replace_if (pg_mentions pg) (msg_mentions m),
      msg_role_mentions := replace_if (pg_role_mentions pg) (msg_role_mentions m),
      msg_replies := replace_if (pg_replies pg) (msg_replies m),
      msg_reactions := set_if (pg_reactions pg) (msg_reactions m),
      msg_interactions := set_if (pg_interactions pg) (msg_interactions m),
      msg_masquerade := replace_if (pg_masquerade pg) (msg_masquerade m),
      msg_pinned := replace_if (pg_pinned pg) (msg_pinned m),
      msg_flags := replace_if (pg_flags pg) (msg_flags m)\<rparr>),
     apply_bot = (\<lambda>pb b. b\<lparr>
      botacc_id := set_if (pb_id pb) (botacc_id b),
      botacc_owner := set_if (pb_owner pb) (botacc_owner b),
      botacc_token := set_if (pb_token pb) (botacc_token b),
      botacc_public := set_if (pb_public pb) (botacc_public b),
      botacc_analytics := set_if (pb_analytics pb) (botacc_analytics b),
      botacc_discoverable := set_if (pb_discoverable pb) (botacc_discoverable b),
      botacc_interactions_url := set_if (pb_interactions_url pb) (botacc_interactions_url b),
      botacc_terms_of_service_url := set_if (pb_terms_of_service_url pb) (botacc_terms_of_service_url b),
      botacc_privacy_policy_url := set_if (pb_privacy_policy_url pb) (botacc_privacy_policy_url b),
      botacc_flags := replace_if (pb_flags pb) (botacc_flags b),
      botacc_oauth2_client_id := replace_if (pb_oauth2_client_id pb) (botacc_oauth2_client_id b),
      botacc_oauth2_client_secret := replace_if (pb_oauth2_client_secret pb) (botacc_oauth2_client_secret b),
      botacc_oauth2_redirect_uris := replace_if (pb_oauth2_redirect_uris pb) (botacc_oauth2_redirect_uris b),
      botacc_oauth2_scopes := replace_if (pb_oauth2_scopes pb) (botacc_oauth2_scopes b)\<rparr>),
     apply_webhook = (\<lambda>pw h. h\<lparr>
      webhook_id := set_if (pw_id pw) (webhook_id h),
      webhook_name := set_if (pw_name pw) (webhook_name h),
      webhook_avatar := replace_if (pw_avatar pw) (webhook_avatar h),
      webhook_creator_id := set_if (pw_creator_id pw) (webhook_creator_id h),
      webhook_channel_id := set_if (pw_channel_id pw) (webhook_channel_id h),
      webhook_permissions := set_if (pw_permissions pw) (webhook_permissions h),
      webhook_token := replace_if (pw_token pw) (webhook_token h)\<rparr>)\<rparr>"

interpretation merged: optional_struct_laws merge_structs
  by unfold_locales (simp_all add: merge_structs_def)

lemma set_if_simps [simp]: "set_if None x = x" "set_if (Some y) x = y"
  by (simp_all add: set_if_def)

lemma replace_if_simps [simp]: "replace_if None x = x" "replace_if (Some y) x = Some y"
  by (simp_all add: replace_if_def)

lemma channel_apply_id [simp]: "channel_id (channel_apply_options p c) = channel_id c"
  by (cases c) simp_all

lemma channel_remove_field_id [simp]: "channel_id (channel_remove_field f c) = channel_id c"
  by (cases f; cases c) simp_all

lemma channel_remove_fields_id [simp]: "channel_id (channel_remove_fields fs c) = channel_id c"
  unfolding channel_remove_fields_def by (induction fs arbitrary: c) simp_all

end
