(* ===== verification/Permission_Query.thy ===== *)
theory Permission_Query
  imports Models
begin

text \<open>
  The permission calculation of \<open>crates/core/permissions\<close>: the trait \<open>PermissionQuery\<close>
  (\<open>trait.rs\<close>) as a record of its methods over a state \<open>'q\<close>, and the three functions of \<open>impl.rs\<close>
  that are generic in it.

  The locale \<open>permission_laws\<close> is the contract of the trait: what a state of the query stands for
  (\<open>answers\<close>), and that every method answers accordingly. The abstract specification
  \<open>user_spec\<close>, \<open>server_spec\<close> and \<open>channel_spec\<close> are pure functions of the answers, and the locale
  proves once that the calculations, run against any query that obeys the contract, return exactly
  the specified value without failing.
\<close>

section \<open>The trait\<close>

datatype channel_type =
    SavedMessagesType | DirectMessageType | GroupType | ServerChannelType | UnknownType

type_synonym ('q, 'a) query = "('q, error_type, 'a) action"

record 'q permission_query =
  are_we_privileged :: "('q, bool) query"
  are_we_a_bot :: "('q, bool) query"
  are_the_users_same :: "('q, bool) query"
  user_relationship :: "('q, relationship_status) query"
  user_is_bot :: "('q, bool) query"
  have_mutual_connection :: "('q, bool) query"
  are_we_server_owner :: "('q, bool) query"
  are_we_a_member :: "('q, bool) query"
  get_default_server_permissions :: "('q, u64) query"
  get_our_server_role_overrides :: "('q, override list) query"
  are_we_timed_out :: "('q, bool) query"
  do_we_have_publish_overwrites :: "('q, bool) query"
  do_we_have_receive_overwrites :: "('q, bool) query"
  get_channel_type :: "('q, channel_type) query"
  get_default_channel_permissions :: "('q, override) query"
  get_our_channel_role_overrides :: "('q, override list) query"
  do_we_own_the_channel :: "('q, bool) query"
  are_we_part_of_the_channel :: "('q, bool) query"
  set_recipient_as_user :: "('q, unit) query"
  set_server_from_channel :: "('q, unit) query"

section \<open>The calculations\<close>

text \<open>\<open>a || b\<close> on two awaited calls: the second is only made when the first is false.\<close>

definition or_else :: "('q, bool) query \<Rightarrow> ('q, bool) query \<Rightarrow> ('q, bool) query" where
  "or_else x y = andthen x (\<lambda>b. if b then ret True else y)"

text \<open>The loop \<open>for role_override in .. { permissions.apply(role_override) }\<close>.\<close>

definition apply_all :: "override list \<Rightarrow> u64 \<Rightarrow> u64" where
  "apply_all os p = fold (\<lambda>v q. pv_apply q v) os p"

definition user_mutual_part :: "'q permission_query \<Rightarrow> u64 \<Rightarrow> ('q, u64) query" where
  "user_mutual_part Q permissions =
     andthen (have_mutual_connection Q) (\<lambda>mutual.
       if mutual then
         andthen (or_else (user_is_bot Q) (are_we_a_bot Q)) (\<lambda>bot.
           ret (if bot
                then user_permission_bits Access + user_permission_bits ViewProfile
                     + user_permission_bits SendUserMessage
                else user_permission_bits Access + user_permission_bits ViewProfile))
       else ret permissions)"

definition calculate_user_permissions :: "'q permission_query \<Rightarrow> ('q, u64) query" where
  "calculate_user_permissions Q =
     andthen (are_we_privileged Q) (\<lambda>privileged.
     if privileged then ret (- 1) else
     andthen (are_the_users_same Q) (\<lambda>same.
     if same then ret (- 1) else
     andthen (user_relationship Q) (\<lambda>relationship.
     case relationship of
       Friend \<Rightarrow> ret (- 1)
     | Blocked \<Rightarrow> ret (user_permission_bits Access)
     | BlockedOther \<Rightarrow> ret (user_permission_bits Access)
     | Incoming \<Rightarrow> user_mutual_part Q (user_permission_bits Access)
     | Outgoing \<Rightarrow> user_mutual_part Q (user_permission_bits Access)
     | NoRelation \<Rightarrow> user_mutual_part Q 0
     | RelUser \<Rightarrow> user_mutual_part Q 0)))"

definition calculate_server_permissions :: "'q permission_query \<Rightarrow> ('q, u64) query" where
  "calculate_server_permissions Q =
     andthen (or_else (are_we_privileged Q) (are_we_server_owner Q)) (\<lambda>full.
     if full then ret (channel_permission_bits GrantAllSafe) else
     andthen (are_we_a_member Q) (\<lambda>member.
     if \<not> member then ret 0 else
     andthen (get_default_server_permissions Q) (\<lambda>p0.
     andthen (get_our_server_role_overrides Q) (\<lambda>overrides.
     let p1 = apply_all overrides p0 in
     andthen (do_we_have_publish_overwrites Q) (\<lambda>publish.
     let p2 = (if \<not> publish
               then pv_revoke (pv_revoke p1 (channel_permission_bits Speak)) (channel_permission_bits Video)
               else p1) in
     andthen (do_we_have_receive_overwrites Q) (\<lambda>receive.
     let p3 = (if \<not> receive then pv_revoke p2 (channel_permission_bits Listen) else p2) in
     andthen (are_we_timed_out Q) (\<lambda>timed_out.
     ret (if timed_out then pv_restrict p3 ALLOW_IN_TIMEOUT else p3))))))))"

definition calculate_channel_permissions :: "'q permission_query \<Rightarrow> ('q, u64) query" where
  "calculate_channel_permissions Q =
     andthen (are_we_privileged Q) (\<lambda>privileged.
     if privileged then ret (channel_permission_bits GrantAllSafe) else
     andthen (get_channel_type Q) (\<lambda>ty.
     case ty of
       SavedMessagesType \<Rightarrow>
         andthen (do_we_own_the_channel Q) (\<lambda>own.
           ret (if own then DEFAULT_PERMISSION_SAVED_MESSAGES else 0))
     | DirectMessageType \<Rightarrow>
         andthen (are_we_part_of_the_channel Q) (\<lambda>part.
         if part then
           andthen (set_recipient_as_user Q) (\<lambda>_.
           andthen (calculate_user_permissions Q) (\<lambda>permissions.
           ret (if has_user_permission permissions SendUserMessage
                then DEFAULT_PERMISSION_DIRECT_MESSAGE else DEFAULT_PERMISSION_VIEW_ONLY)))
         else ret 0)
     | GroupType \<Rightarrow>
         andthen (do_we_own_the_channel Q) (\<lambda>own.
         if own then ret (channel_permission_bits GrantAllSafe) else
         andthen (are_we_part_of_the_channel Q) (\<lambda>part.
         if part then
           andthen (get_default_channel_permissions Q) (\<lambda>v.
           ret (DEFAULT_PERMISSION_VIEW_ONLY OR allow v))
         else ret 0))
     | ServerChannelType \<Rightarrow>
         andthen (set_server_from_channel Q) (\<lambda>_.
         andthen (are_we_server_owner Q) (\<lambda>owner.
         if owner then ret (channel_permission_bits GrantAllSafe) else
         andthen (are_we_a_member Q) (\<lambda>member.
         if member then
           andthen (calculate_server_permissions Q) (\<lambda>p0.
           andthen (get_default_channel_permissions Q) (\<lambda>v.
           andthen (get_our_channel_role_overrides Q) (\<lambda>overrides.
           let p1 = apply_all overrides (pv_apply p0 v) in
           andthen (are_we_timed_out Q) (\<lambda>timed_out.
           let p2 = (if timed_out then pv_restrict p1 ALLOW_IN_TIMEOUT else p1) in
           ret (if \<not> has_channel_permission p2 ViewChannel then pv_revoke_all p2 else p2)))))
         else ret 0)))
     | UnknownType \<Rightarrow> ret 0))"

section \<open>Specification\<close>

text \<open>What a query stands for: the facts about the perspective user that decide its permissions.\<close>

record user_answers =
  an_privileged :: bool
  an_we_bot :: bool
  an_same :: bool
  an_relationship :: relationship_status
  an_user_bot :: bool
  an_mutual :: bool

record server_answers =
  an_owner :: bool
  an_member :: bool
  an_default :: u64
  an_roles :: "override list"
  an_timed_out :: bool
  an_publish :: bool
  an_receive :: bool

definition user_spec :: "user_answers \<Rightarrow> u64" where
  "user_spec u =
     (if an_privileged u \<or> an_same u \<or> an_relationship u = Friend then - 1
      else if an_relationship u \<in> {Blocked, BlockedOther} then user_permission_bits Access
      else if an_mutual u then
        (if an_user_bot u \<or> an_we_bot u then 7 else 3)
      else if an_relationship u \<in> {Incoming, Outgoing} then user_permission_bits Access
      else 0)"

definition voice_mask :: "bool \<Rightarrow> bool \<Rightarrow> u64 \<Rightarrow> u64" where
  "voice_mask publish receive p =
     (let q = (if publish then p
               else pv_revoke (pv_revoke p (channel_permission_bits Speak)) (channel_permission_bits Video))
      in if receive then q else pv_revoke q (channel_permission_bits Listen))"

definition server_spec :: "bool \<Rightarrow> server_answers \<Rightarrow> u64" where
  "server_spec priv s =
     (if priv \<or> an_owner s then channel_permission_bits GrantAllSafe
      else if \<not> an_member s then 0
      else let p = voice_mask (an_publish s) (an_receive s) (apply_all (an_roles s) (an_default s))
           in if an_timed_out s then pv_restrict p ALLOW_IN_TIMEOUT else p)"

definition server_channel_spec :: "server_answers \<Rightarrow> override \<Rightarrow> override list \<Rightarrow> u64" where
  "server_channel_spec s v os =
     (if an_owner s then channel_permission_bits GrantAllSafe
      else if \<not> an_member s then 0
      else let p = apply_all os (pv_apply (server_spec False s) v);
               q = (if an_timed_out s then pv_restrict p ALLOW_IN_TIMEOUT else p)
           in if has_channel_permission q ViewChannel then q else 0)"

section \<open>Stacked overrides\<close>

text \<open>The override of a list that decides a permission: the last one that mentions its bit.\<close>

definition mentions :: "nat \<Rightarrow> override \<Rightarrow> bool" where
  "mentions n v \<longleftrightarrow> bit (allow v) n \<or> bit (deny v) n"

lemma apply_all_Nil [simp]: "apply_all [] p = p"
  by (simp add: apply_all_def)

lemma apply_all_append: "apply_all (xs @ ys) p = apply_all ys (apply_all xs p)"
  by (simp add: apply_all_def)

lemma bit_apply_all [perm_simps]:
  "bit (apply_all os p) n \<longleftrightarrow>
     (case find (mentions n) (rev os) of
        None \<Rightarrow> bit p n
      | Some v \<Rightarrow> \<not> bit (deny v) n)"
proof (induction os rule: rev_induct)
  case Nil
  then show ?case by simp
next
  case (snoc v os)
  then show ?case
    by (auto simp: apply_all_def bit_pv_apply mentions_def)
qed

lemma apply_all_default [simp]: "pv_apply p override_default = p"
  by (rule perm_eqI) (simp add: override_default_def bit_pv_apply)

lemma bit_voice_mask:
  "bit (voice_mask pub rec p) n \<longleftrightarrow>
     bit p n \<and> (pub \<or> (n \<noteq> 31 \<and> n \<noteq> 32)) \<and> (rec \<or> n \<noteq> 36)"
  by (auto simp: voice_mask_def Let_def bit_pv_revoke bit_channel_permission_bits
      simp del: channel_permission_bits.simps)

section \<open>The contract of a query\<close>

text \<open>
  \<open>uans\<close>, \<open>sans\<close> read off a state what its answers are; \<open>loaded\<close> says that the member the query is
  about has been looked up, which a query does when it is asked \<open>are_we_a_member\<close> and the questions
  about roles, voice and timeout rely on. \<open>asking\<close> is the state invariant.
\<close>

locale server_query_laws =
  fixes Q :: "'q permission_query"
    and asking :: "'q \<Rightarrow> bool"
    and loaded :: "'q \<Rightarrow> bool"
    and priv :: "'q \<Rightarrow> bool"
    and sans :: "'q \<Rightarrow> server_answers"
  assumes privileged_law: "asking s \<Longrightarrow> are_we_privileged Q s = (Ok (priv s), s)"
    and owner_law: "asking s \<Longrightarrow> are_we_server_owner Q s = (Ok (an_owner (sans s)), s)"
    and member_law: "asking s \<Longrightarrow>
      \<exists>t. are_we_a_member Q s = (Ok (an_member (sans s)), t) \<and> asking t \<and> sans t = sans s
          \<and> priv t = priv s \<and> (an_member (sans s) \<longrightarrow> loaded t)"
    and member_again: "asking s \<Longrightarrow> loaded s \<Longrightarrow>
      are_we_a_member Q s = (Ok True, s) \<and> an_member (sans s)"
    and default_law: "asking s \<Longrightarrow> get_default_server_permissions Q s = (Ok (an_default (sans s)), s)"
    and roles_law: "asking s \<Longrightarrow> loaded s \<Longrightarrow>
      get_our_server_role_overrides Q s = (Ok (an_roles (sans s)), s)"
    and timeout_law: "asking s \<Longrightarrow> loaded s \<Longrightarrow> are_we_timed_out Q s = (Ok (an_timed_out (sans s)), s)"
    and publish_law: "asking s \<Longrightarrow> loaded s \<Longrightarrow>
      do_we_have_publish_overwrites Q s = (Ok (an_publish (sans s)), s)"
    and receive_law: "asking s \<Longrightarrow> loaded s \<Longrightarrow>
      do_we_have_receive_overwrites Q s = (Ok (an_receive (sans s)), s)"
begin

lemmas server_laws = privileged_law owner_law member_again default_law roles_law timeout_law
  publish_law receive_law

lemma server_permissions_loaded:
  assumes "asking s" and "loaded s"
  shows "calculate_server_permissions Q s = (Ok (server_spec (priv s) (sans s)), s)"
  using assms
  by (simp add: calculate_server_permissions_def or_else_def server_spec_def voice_mask_def Let_def
      andthen_def ret_def server_laws)

lemma server_permissions_spec:
  assumes "asking s"
  shows "fst (calculate_server_permissions Q s) = Ok (server_spec (priv s) (sans s))"
proof -
  from member_law [OF assms] obtain t where
    t: "are_we_a_member Q s = (Ok (an_member (sans s)), t)" "asking t" "sans t = sans s"
      "priv t = priv s" "an_member (sans s) \<longrightarrow> loaded t"
    by blast
  show ?thesis
    using assms t
    by (simp add: calculate_server_permissions_def or_else_def server_spec_def voice_mask_def Let_def
        andthen_def ret_def server_laws)
qed

end

text \<open>A query about a server channel: on top of the laws above, the questions about the channel, and
  that selecting the channel's server leaves the query in a state that answers for that server.\<close>

locale channel_query_laws = server_query_laws Q asking loaded priv sans
  for Q :: "'q permission_query" and asking and loaded and priv and sans +
  fixes selected :: "'q \<Rightarrow> 'q"
    and cdefault :: "'q \<Rightarrow> override"
    and croles :: "'q \<Rightarrow> override list"
  assumes type_law: "asking s \<Longrightarrow> get_channel_type Q s = (Ok ServerChannelType, s)"
    and select_law: "asking s \<Longrightarrow>
      set_server_from_channel Q s = (Ok (), selected s) \<and> asking (selected s)
      \<and> priv (selected s) = priv s"
    and channel_default_law: "asking s \<Longrightarrow> get_default_channel_permissions Q s = (Ok (cdefault s), s)"
    and channel_roles_law: "asking s \<Longrightarrow> loaded s \<Longrightarrow>
      get_our_channel_role_overrides Q s = (Ok (croles s), s)"
    and channel_stable: "asking s \<Longrightarrow> are_we_a_member Q s = (r, t) \<Longrightarrow>
      cdefault t = cdefault s \<and> croles t = croles s"
begin

lemma server_channel_permissions_spec:
  assumes "asking s"
  shows "fst (calculate_channel_permissions Q s) =
    Ok (if priv s then channel_permission_bits GrantAllSafe
        else server_channel_spec (sans (selected s)) (cdefault (selected s)) (croles (selected s)))"
proof -
  let ?s = "selected s"
  have s: "asking ?s" "set_server_from_channel Q s = (Ok (), ?s)" "priv ?s = priv s"
    using select_law [OF assms] by blast+
  from member_law [OF s(1)] obtain t where
    t: "are_we_a_member Q ?s = (Ok (an_member (sans ?s)), t)" "asking t" "sans t = sans ?s"
      "priv t = priv ?s" "an_member (sans ?s) \<longrightarrow> loaded t"
    by blast
  have c: "cdefault t = cdefault ?s" "croles t = croles ?s"
    using channel_stable [OF s(1) t(1)] by blast+
  show ?thesis
  proof (cases "priv s \<or> an_owner (sans ?s) \<or> \<not> an_member (sans ?s)")
    case True
    with assms s t show ?thesis
      by (auto simp: calculate_channel_permissions_def server_channel_spec_def andthen_def ret_def
          privileged_law type_law owner_law)
  next
    case False
    with assms s t c show ?thesis
      by (simp add: calculate_channel_permissions_def server_channel_spec_def Let_def andthen_def
          ret_def server_laws type_law channel_default_law channel_roles_law
          server_permissions_loaded pv_revoke_all_def)
  qed
qed

end

text \<open>A query about another user.\<close>

locale user_query_laws =
  fixes Q :: "'q permission_query"
    and asking :: "'q \<Rightarrow> bool"
    and uans :: "'q \<Rightarrow> user_answers"
  assumes user_privileged_law: "asking s \<Longrightarrow> are_we_privileged Q s = (Ok (an_privileged (uans s)), s)"
    and we_bot_law: "asking s \<Longrightarrow> are_we_a_bot Q s = (Ok (an_we_bot (uans s)), s)"
    and same_law: "asking s \<Longrightarrow> are_the_users_same Q s = (Ok (an_same (uans s)), s)"
    and relationship_law: "asking s \<Longrightarrow> user_relationship Q s = (Ok (an_relationship (uans s)), s)"
    and user_bot_law: "asking s \<Longrightarrow> user_is_bot Q s = (Ok (an_user_bot (uans s)), s)"
    and mutual_law: "asking s \<Longrightarrow>
      \<exists>t. have_mutual_connection Q s = (Ok (an_mutual (uans s)), t) \<and> asking t \<and> uans t = uans s"
begin

lemmas user_laws = user_privileged_law we_bot_law same_law relationship_law user_bot_law

lemma user_permissions_spec:
  assumes "asking s"
  shows "fst (calculate_user_permissions Q s) = Ok (user_spec (uans s))"
proof -
  from mutual_law [OF assms] obtain t where
    t: "have_mutual_connection Q s = (Ok (an_mutual (uans s)), t)" "asking t" "uans t = uans s"
    by blast
  show ?thesis
    using assms t
    by (simp add: calculate_user_permissions_def user_mutual_part_def or_else_def user_spec_def
        andthen_def ret_def user_laws split: relationship_status.split)
qed

end

section \<open>Properties of the calculation\<close>

lemma bit_DEFAULT_PERMISSION_VIEW_ONLY: "bit DEFAULT_PERMISSION_VIEW_ONLY n \<longleftrightarrow> n = 20 \<or> n = 21"
  by (simp add: DEFAULT_PERMISSION_VIEW_ONLY_def perm_add_def bit_or_iff bit_channel_permission_bits
      del: channel_permission_bits.simps)

lemma default_sets_view:
  "bit DEFAULT_PERMISSION_DIRECT_MESSAGE 20" "bit DEFAULT_PERMISSION_SAVED_MESSAGES 20"
  "bit (channel_permission_bits GrantAllSafe) 20"
  by (simp_all add: DEFAULT_PERMISSION_DIRECT_MESSAGE_def DEFAULT_PERMISSION_def perm_plus_def perm_add_def
      DEFAULT_PERMISSION_VIEW_ONLY_def DEFAULT_PERMISSION_SAVED_MESSAGES_def)

text \<open>whoever the query speaks for and whatever it answers, the channel permissions it arrives at
  are empty or contain \<open>ViewChannel\<close>: nobody may act in a channel they cannot see.\<close>

theorem channel_permissions_need_view:
  assumes "calculate_channel_permissions Q s = (Ok p, t)"
  shows "p = 0 \<or> has_channel_permission p ViewChannel"
  using assms default_sets_view bit_DEFAULT_PERMISSION_VIEW_ONLY
  by (auto simp: calculate_channel_permissions_def ret_def bit_ViewChannel pv_revoke_all_def Let_def
      bit_or_iff elim!: andthen_OkE split: if_splits channel_type.splits)

end
