(* ===== verification/Database_Permission_Query.thy ===== *)
theory Database_Permission_Query
  imports Permission_Query
begin

text \<open>
  \<open>crates/core/database/src/util/permissions.rs\<close>: \<open>DatabasePermissionQuery\<close>, the implementation of
  the trait \<open>PermissionQuery\<close> against a database. The database is the record \<open>db_reads\<close> of the reads
  the query makes (the methods of the \<open>AbstractUsers\<close>, \<open>AbstractServers\<close> and \<open>AbstractServerMembers\<close>
  traits that it calls), each of which may fail, and the time at which the query runs: a query lives
  inside one request and the model reads the clock once.

  The query is lazy: it looks the member up when it is first asked for and remembers it
  (\<open>pq_member\<close>), and the same for the mutual connection. The theory shows that it nevertheless obeys
  the contracts of the trait, for any database, and draws the consequences for the calculated
  permissions.
\<close>

section \<open>State\<close>

record db_reads =
  rd_fetch_user :: "string \<Rightarrow> user result"
  rd_fetch_users :: "string list \<Rightarrow> user list result"
  rd_fetch_server :: "string \<Rightarrow> server result"
  rd_fetch_channel :: "string \<Rightarrow> channel result"
  rd_fetch_member :: "string \<Rightarrow> string \<Rightarrow> member result"
  rd_fetch_members :: "string \<Rightarrow> string list \<Rightarrow> member list result"
  rd_fetch_mutual_server_ids :: "string \<Rightarrow> string \<Rightarrow> string list result"
  rd_fetch_mutual_channel_ids :: "string \<Rightarrow> string \<Rightarrow> string list result"
  rd_now :: timestamp

record database_permission_query =
  pq_perspective :: user
  pq_user :: "user option"
  pq_channel :: "channel option"
  pq_server :: "server option"
  pq_member :: "member option"
  pq_cached_user_permission :: "u64 option"
  pq_cached_mutual_connection :: "bool option"
  pq_cached_permission :: "u64 option"

type_synonym 'a dbq = "(database_permission_query, 'a) query"

section \<open>Questions about a user\<close>

definition q_are_we_privileged :: "bool dbq" where
  "q_are_we_privileged = gets (\<lambda>s. privileged (pq_perspective s))"

definition q_are_we_a_bot :: "bool dbq" where
  "q_are_we_a_bot = gets (\<lambda>s. user_bot (pq_perspective s) \<noteq> None)"

definition q_are_the_users_same :: "bool dbq" where
  "q_are_the_users_same = gets (\<lambda>s.
     case pq_user s of
       Some other \<Rightarrow> user_id (pq_perspective s) = user_id other
     | None \<Rightarrow> False)"

text \<open>The loop over \<open>relations\<close> returns the status of the first entry for the other user.\<close>

fun first_relation :: "string \<Rightarrow> relationship list \<Rightarrow> relationship_status option" where
  "first_relation u [] = None"
| "first_relation u (e # es) = (if rel_id e = u then Some (rel_status e) else first_relation u es)"

definition relationship_to :: "user \<Rightarrow> user \<Rightarrow> relationship_status" where
  "relationship_to me other =
     (if user_id me = user_id other then RelUser
      else if (case user_bot other of Some b \<Rightarrow> user_id me = bot_owner b | None \<Rightarrow> False) then RelUser
      else case relations me of
             Some rs \<Rightarrow> (case first_relation (user_id other) rs of
                           Some st \<Rightarrow> st
                         | None \<Rightarrow> NoRelation)
           | None \<Rightarrow> NoRelation)"

definition q_user_relationship :: "relationship_status dbq" where
  "q_user_relationship = gets (\<lambda>s.
     case pq_user s of
       Some other \<Rightarrow> relationship_to (pq_perspective s) other
     | None \<Rightarrow> NoRelation)"

definition q_user_is_bot :: "bool dbq" where
  "q_user_is_bot = gets (\<lambda>s.
     case pq_user s of Some other \<Rightarrow> user_bot other \<noteq> None | None \<Rightarrow> False)"

text \<open>\<open>User::has_mutual_connection\<close>: the second read is only made when the first finds nothing.\<close>

definition has_mutual_connection :: "db_reads \<Rightarrow> user \<Rightarrow> string \<Rightarrow> bool result" where
  "has_mutual_connection D me user_b =
     outcome_bind (rd_fetch_mutual_server_ids D (user_id me) user_b) (\<lambda>servers.
       if servers \<noteq> [] then Ok True
       else outcome_bind (rd_fetch_mutual_channel_ids D (user_id me) user_b) (\<lambda>channels.
              Ok (channels \<noteq> [])))"

definition q_have_mutual_connection :: "db_reads \<Rightarrow> bool dbq" where
  "q_have_mutual_connection D s =
     (case pq_cached_mutual_connection s of
        Some value \<Rightarrow> (Ok value, s)
      | None \<Rightarrow>
          (case pq_user s of
             Some u \<Rightarrow>
               (case has_mutual_connection D (pq_perspective s) (user_id u) of
                  Ok value \<Rightarrow> (Ok value, s\<lparr>pq_cached_mutual_connection := Some value\<rparr>)
                | Err _ \<Rightarrow> (Ok False, s\<lparr>pq_cached_mutual_connection := Some False\<rparr>)
                | Panic \<Rightarrow> (Panic, s))
           | None \<Rightarrow> (Ok False, s)))"

section \<open>Questions about a server\<close>

definition q_are_we_server_owner :: "bool dbq" where
  "q_are_we_server_owner = gets (\<lambda>s.
     case pq_server s of
       Some srv \<Rightarrow> server_owner srv = user_id (pq_perspective s)
     | None \<Rightarrow> False)"

definition q_are_we_a_member :: "db_reads \<Rightarrow> bool dbq" where
  "q_are_we_a_member D s =
     (case pq_server s of
        Some srv \<Rightarrow>
          (if pq_member s \<noteq> None then (Ok True, s)
           else case rd_fetch_member D (server_id srv) (user_id (pq_perspective s)) of
                  Ok m \<Rightarrow> (Ok True, s\<lparr>pq_member := Some m\<rparr>)
                | Err _ \<Rightarrow> (Ok False, s)
                | Panic \<Rightarrow> (Panic, s))
      | None \<Rightarrow> (Ok False, s))"

definition q_get_default_server_permissions :: "u64 dbq" where
  "q_get_default_server_permissions = gets (\<lambda>s.
     case pq_server s of
       Some srv \<Rightarrow> as_u64 (server_default_permissions srv)
     | None \<Rightarrow> 0)"

text \<open>\<open>roles.sort_by(|a, b| b.0.cmp(&a.0))\<close>: a stable sort by descending rank, so that the role with
  the smallest rank, the highest one, comes last.\<close>

definition by_descending_rank :: "(i64 \<times> override) list \<Rightarrow> override list" where
  "by_descending_rank rs = map snd (sort_key (\<lambda>r. - fst r) rs)"

definition server_role_overrides :: "server \<Rightarrow> string list \<Rightarrow> override list" where
  "server_role_overrides srv ids =
     by_descending_rank
       (map (\<lambda>(_, r). (role_rank r, field_to_override (role_permissions r)))
         (filter (\<lambda>(rid, _). rid \<in> set ids) (server_roles srv)))"

definition loaded_roles :: "database_permission_query \<Rightarrow> string list" where
  "loaded_roles s = (case pq_member s of Some m \<Rightarrow> member_roles m | None \<Rightarrow> [])"

definition q_get_our_server_role_overrides :: "override list dbq" where
  "q_get_our_server_role_overrides = gets (\<lambda>s.
     case pq_server s of
       Some srv \<Rightarrow> server_role_overrides srv (loaded_roles s)
     | None \<Rightarrow> [])"

definition q_are_we_timed_out :: "db_reads \<Rightarrow> bool dbq" where
  "q_are_we_timed_out D = gets (\<lambda>s.
     case pq_member s of Some m \<Rightarrow> in_timeout (rd_now D) m | None \<Rightarrow> False)"

definition q_do_we_have_publish_overwrites :: "bool dbq" where
  "q_do_we_have_publish_overwrites = gets (\<lambda>s.
     case pq_member s of Some m \<Rightarrow> can_publish m | None \<Rightarrow> True)"

definition q_do_we_have_receive_overwrites :: "bool dbq" where
  "q_do_we_have_receive_overwrites = gets (\<lambda>s.
     case pq_member s of Some m \<Rightarrow> can_receive m | None \<Rightarrow> True)"

section \<open>Questions about a channel\<close>

fun channel_type_of :: "channel \<Rightarrow> channel_type" where
  "channel_type_of (DirectMessage _ _ _ _) = DirectMessageType"
| "channel_type_of (Group _ _) = GroupType"
| "channel_type_of (SavedMessages _ _) = SavedMessagesType"
| "channel_type_of (TextChannel _ _) = ServerChannelType"

definition q_get_channel_type :: "channel_type dbq" where
  "q_get_channel_type = gets (\<lambda>s.
     case pq_channel s of Some c \<Rightarrow> channel_type_of c | None \<Rightarrow> UnknownType)"

fun channel_default_override :: "channel \<Rightarrow> override" where
  "channel_default_override (Group _ g) =
     \<lparr>allow = as_u64 (case grp_permissions g of
                        Some p \<Rightarrow> p
                      | None \<Rightarrow> as_i64 DEFAULT_PERMISSION_DIRECT_MESSAGE),
      deny = 0\<rparr>"
| "channel_default_override (TextChannel _ t) =
     field_to_override (case txt_default_permissions t of
                          Some p \<Rightarrow> p
                        | None \<Rightarrow> override_field_default)"
| "channel_default_override _ = override_default"

definition q_get_default_channel_permissions :: "override dbq" where
  "q_get_default_channel_permissions = gets (\<lambda>s.
     case pq_channel s of Some c \<Rightarrow> channel_default_override c | None \<Rightarrow> override_default)"

definition channel_role_overrides :: "server \<Rightarrow> (string, override_field) hashmap \<Rightarrow> string list \<Rightarrow> override list" where
  "channel_role_overrides srv perms ids =
     by_descending_rank
       (List.map_filter (\<lambda>(rid, p).
            map_option (\<lambda>r. (role_rank r, field_to_override p)) (map_of (server_roles srv) rid))
         (filter (\<lambda>(rid, _). rid \<in> set ids) perms))"

definition q_get_our_channel_role_overrides :: "override list dbq" where
  "q_get_our_channel_role_overrides = gets (\<lambda>s.
     case pq_channel s of
       Some (TextChannel _ t) \<Rightarrow>
         (case pq_server s of
            Some srv \<Rightarrow> channel_role_overrides srv (txt_role_permissions t) (loaded_roles s)
          | None \<Rightarrow> [])
     | _ \<Rightarrow> [])"

definition q_do_we_own_the_channel :: "bool dbq" where
  "q_do_we_own_the_channel = gets (\<lambda>s.
     case pq_channel s of
       Some (Group _ g) \<Rightarrow> grp_owner g = user_id (pq_perspective s)
     | Some (SavedMessages _ u) \<Rightarrow> u = user_id (pq_perspective s)
     | _ \<Rightarrow> False)"

definition q_are_we_part_of_the_channel :: "bool dbq" where
  "q_are_we_part_of_the_channel = gets (\<lambda>s.
     case pq_channel s of
       Some (DirectMessage _ _ recipients _) \<Rightarrow> user_id (pq_perspective s) \<in> set recipients
     | Some (Group _ g) \<Rightarrow> user_id (pq_perspective s) \<in> set (grp_recipients g)
     | _ \<Rightarrow> False)"

text \<open>\<open>set_recipient_as_user\<close>: panics when every recipient is the perspective user (\<open>expect\<close>) and on a
  channel that is not a direct message (\<open>unimplemented!\<close>).\<close>

definition q_set_recipient_as_user :: "db_reads \<Rightarrow> unit dbq" where
  "q_set_recipient_as_user D s =
     (case pq_channel s of
        Some (DirectMessage _ _ recipients _) \<Rightarrow>
          (case find (\<lambda>r. r \<noteq> user_id (pq_perspective s)) recipients of
             Some r \<Rightarrow>
               (case rd_fetch_user D r of
                  Ok u \<Rightarrow> (Ok (), s\<lparr>pq_user := Some u\<rparr>)
                | Err _ \<Rightarrow> (Ok (), s)
                | Panic \<Rightarrow> (Panic, s))
           | None \<Rightarrow> (Panic, s))
      | Some _ \<Rightarrow> (Panic, s)
      | None \<Rightarrow> (Ok (), s))"

definition q_set_server_from_channel :: "db_reads \<Rightarrow> unit dbq" where
  "q_set_server_from_channel D s =
     (case pq_channel s of
        Some (TextChannel _ t) \<Rightarrow>
          (if (case pq_server s of Some srv \<Rightarrow> txt_server t = server_id srv | None \<Rightarrow> False)
           then (Ok (), s)
           else case rd_fetch_server D (txt_server t) of
                  Ok srv \<Rightarrow> (Ok (), s\<lparr>pq_server := Some srv\<rparr>)
                | Err _ \<Rightarrow> (Ok (), s)
                | Panic \<Rightarrow> (Panic, s))
      | Some _ \<Rightarrow> (Panic, s)
      | None \<Rightarrow> (Ok (), s))"

text \<open>\<open>impl PermissionQuery for DatabasePermissionQuery\<close>.\<close>

definition db_query :: "db_reads \<Rightarrow> database_permission_query permission_query" where
  "db_query D =
     \<lparr>are_we_privileged = q_are_we_privileged,
      are_we_a_bot = q_are_we_a_bot,
      are_the_users_same = q_are_the_users_same,
      user_relationship = q_user_relationship,
      user_is_bot = q_user_is_bot,
      have_mutual_connection = q_have_mutual_connection D,
      are_we_server_owner = q_are_we_server_owner,
      are_we_a_member = q_are_we_a_member D,
      get_default_server_permissions = q_get_default_server_permissions,
      get_our_server_role_overrides = q_get_our_server_role_overrides,
      are_we_timed_out = q_are_we_timed_out D,
      do_we_have_publish_overwrites = q_do_we_have_publish_overwrites,
      do_we_have_receive_overwrites = q_do_we_have_receive_overwrites,
      get_channel_type = q_get_channel_type,
      get_default_channel_permissions = q_get_default_channel_permissions,
      get_our_channel_role_overrides = q_get_our_channel_role_overrides,
      do_we_own_the_channel = q_do_we_own_the_channel,
      are_we_part_of_the_channel = q_are_we_part_of_the_channel,
      set_recipient_as_user = q_set_recipient_as_user D,
      set_server_from_channel = q_set_server_from_channel D\<rparr>"

section \<open>Building a query\<close>

definition new_query :: "user \<Rightarrow> database_permission_query" where
  "new_query perspective =
     \<lparr>pq_perspective = perspective, pq_user = None, pq_channel = None, pq_server = None,
      pq_member = None, pq_cached_user_permission = None, pq_cached_mutual_connection = None,
      pq_cached_permission = None\<rparr>"

definition use_user :: "user \<Rightarrow> database_permission_query \<Rightarrow> database_permission_query" where
  "use_user u s = s\<lparr>pq_user := Some u\<rparr>"

definition use_channel :: "channel \<Rightarrow> database_permission_query \<Rightarrow> database_permission_query" where
  "use_channel c s = s\<lparr>pq_channel := Some c\<rparr>"

definition use_server :: "server \<Rightarrow> database_permission_query \<Rightarrow> database_permission_query" where
  "use_server srv s = s\<lparr>pq_server := Some srv\<rparr>"

definition use_member :: "member \<Rightarrow> database_permission_query \<Rightarrow> database_permission_query" where
  "use_member m s = s\<lparr>pq_member := Some m\<rparr>"

text \<open>\<open>calc_user\<close>: panics without a user, and does not recompute a value it already has.\<close>

definition calc_user :: "db_reads \<Rightarrow> database_permission_query \<Rightarrow> database_permission_query result" where
  "calc_user D s =
     (if pq_cached_user_permission s \<noteq> None then Ok s
      else if pq_user s = None then Panic
      else case calculate_user_permissions (db_query D) s of
             (Ok p, t) \<Rightarrow> Ok (t\<lparr>pq_cached_user_permission := Some p\<rparr>)
           | (Err e, t) \<Rightarrow> Err e
           | (Panic, t) \<Rightarrow> Panic)"

text \<open>\<open>get_member_rank\<close>: \<open>unwrap\<close> panics when there is a member but no server.\<close>

definition get_member_rank :: "database_permission_query \<Rightarrow> i64 option result" where
  "get_member_rank s =
     (case pq_member s of
        None \<Rightarrow> Ok None
      | Some m \<Rightarrow> (case pq_server s of Some srv \<Rightarrow> Ok (Some (get_ranking m srv)) | None \<Rightarrow> Panic))"

section \<open>The query obeys the contracts\<close>

lemmas query_defs = q_are_we_privileged_def q_are_we_a_bot_def q_are_the_users_same_def
  q_user_relationship_def q_user_is_bot_def q_are_we_server_owner_def
  q_get_default_server_permissions_def q_get_our_server_role_overrides_def q_are_we_timed_out_def
  q_do_we_have_publish_overwrites_def q_do_we_have_receive_overwrites_def q_get_channel_type_def
  q_get_default_channel_permissions_def q_get_our_channel_role_overrides_def
  q_do_we_own_the_channel_def q_are_we_part_of_the_channel_def

lemmas builder_defs = new_query_def use_user_def use_channel_def use_server_def use_member_def

text \<open>The member the query is about: the remembered one, or the one the database has.\<close>

definition resolved_member :: "db_reads \<Rightarrow> database_permission_query \<Rightarrow> member option" where
  "resolved_member D s =
     (case pq_server s of
        None \<Rightarrow> None
      | Some srv \<Rightarrow>
          (case pq_member s of
             Some m \<Rightarrow> Some m
           | None \<Rightarrow> (case rd_fetch_member D (server_id srv) (user_id (pq_perspective s)) of
                        Ok m \<Rightarrow> Some m
                      | _ \<Rightarrow> None)))"

definition resolved_roles :: "db_reads \<Rightarrow> database_permission_query \<Rightarrow> string list" where
  "resolved_roles D s = (case resolved_member D s of Some m \<Rightarrow> member_roles m | None \<Rightarrow> [])"

definition query_server_answers :: "db_reads \<Rightarrow> database_permission_query \<Rightarrow> server_answers" where
  "query_server_answers D s =
     \<lparr>an_owner = (case pq_server s of Some srv \<Rightarrow> server_owner srv = user_id (pq_perspective s) | None \<Rightarrow> False),
      an_member = (resolved_member D s \<noteq> None),
      an_default = (case pq_server s of Some srv \<Rightarrow> as_u64 (server_default_permissions srv) | None \<Rightarrow> 0),
      an_roles = (case pq_server s of Some srv \<Rightarrow> server_role_overrides srv (resolved_roles D s) | None \<Rightarrow> []),
      an_timed_out = (case resolved_member D s of Some m \<Rightarrow> in_timeout (rd_now D) m | None \<Rightarrow> False),
      an_publish = (case resolved_member D s of Some m \<Rightarrow> can_publish m | None \<Rightarrow> True),
      an_receive = (case resolved_member D s of Some m \<Rightarrow> can_receive m | None \<Rightarrow> True)\<rparr>"

definition query_loaded :: "database_permission_query \<Rightarrow> bool" where
  "query_loaded s \<longleftrightarrow> pq_server s \<noteq> None \<and> pq_member s \<noteq> None"

definition query_privileged :: "database_permission_query \<Rightarrow> bool" where
  "query_privileged s = privileged (pq_perspective s)"

text \<open>The only thing the contract needs of the database: a lookup answers or fails, it does not panic.\<close>

definition member_reads_total :: "db_reads \<Rightarrow> database_permission_query \<Rightarrow> bool" where
  "member_reads_total D s \<longleftrightarrow> (\<forall>sid. rd_fetch_member D sid (user_id (pq_perspective s)) \<noteq> Panic)"

lemma resolved_member_loaded:
  "query_loaded s \<Longrightarrow> resolved_member D s = pq_member s"
  by (auto simp: query_loaded_def resolved_member_def)

lemma resolved_roles_loaded: "query_loaded s \<Longrightarrow> resolved_roles D s = loaded_roles s"
  by (simp add: resolved_roles_def loaded_roles_def resolved_member_loaded)

lemma resolved_roles_cong:
  "resolved_member D t = resolved_member D s \<Longrightarrow> resolved_roles D t = resolved_roles D s"
  by (simp add: resolved_roles_def)

lemma query_server_answers_cong:
  assumes "pq_server t = pq_server s" and "pq_perspective t = pq_perspective s"
    and "resolved_member D t = resolved_member D s"
  shows "query_server_answers D t = query_server_answers D s"
  using assms resolved_roles_cong [OF assms(3)]
  by (cases "pq_server s") (simp_all add: query_server_answers_def)

text \<open>Looking the member up only fills in the field the lookup was for.\<close>

lemma q_are_we_a_member_spec:
  assumes "member_reads_total D s" and t: "t = snd (q_are_we_a_member D s)"
  shows "q_are_we_a_member D s = (Ok (resolved_member D s \<noteq> None), t)"
    and "pq_server t = pq_server s" and "pq_perspective t = pq_perspective s"
    and "pq_channel t = pq_channel s" and "resolved_member D t = resolved_member D s"
    and "resolved_member D s \<noteq> None \<longrightarrow> query_loaded t"
  using assms(1) unfolding t
  by (auto simp: q_are_we_a_member_def member_reads_total_def query_loaded_def resolved_member_def
      split: option.splits outcome.splits)

interpretation dbs: server_query_laws "db_query D" "member_reads_total D" query_loaded
  query_privileged "query_server_answers D" for D
proof
  fix s assume *: "member_reads_total D s"
  let ?t = "snd (q_are_we_a_member D s)"
  note spec = q_are_we_a_member_spec [OF * refl]
  from spec * have "are_we_a_member (db_query D) s = (Ok (an_member (query_server_answers D s)), ?t)
      \<and> member_reads_total D ?t \<and> query_server_answers D ?t = query_server_answers D s
      \<and> query_privileged ?t = query_privileged s
      \<and> (an_member (query_server_answers D s) \<longrightarrow> query_loaded ?t)"
    using query_server_answers_cong [OF spec(2,3,5)]
    by (simp add: db_query_def member_reads_total_def query_privileged_def)
       (simp add: query_server_answers_def)
  then show "\<exists>t. are_we_a_member (db_query D) s = (Ok (an_member (query_server_answers D s)), t)
          \<and> member_reads_total D t \<and> query_server_answers D t = query_server_answers D s
          \<and> query_privileged t = query_privileged s
          \<and> (an_member (query_server_answers D s) \<longrightarrow> query_loaded t)"
    by blast
qed (auto simp: db_query_def query_defs gets_def query_server_answers_def query_privileged_def
      query_loaded_def resolved_member_def resolved_roles_def loaded_roles_def q_are_we_a_member_def)

text \<open>The state after the channel's server has been selected.\<close>

definition query_selected :: "db_reads \<Rightarrow> database_permission_query \<Rightarrow> database_permission_query" where
  "query_selected D s = snd (q_set_server_from_channel D s)"

definition channel_reads_total :: "db_reads \<Rightarrow> database_permission_query \<Rightarrow> bool" where
  "channel_reads_total D s \<longleftrightarrow>
     member_reads_total D s \<and> (\<forall>sid. rd_fetch_server D sid \<noteq> Panic)
     \<and> (\<exists>cid t. pq_channel s = Some (TextChannel cid t))"

definition query_channel_default :: "database_permission_query \<Rightarrow> override" where
  "query_channel_default s =
     (case pq_channel s of Some c \<Rightarrow> channel_default_override c | None \<Rightarrow> override_default)"

definition query_channel_roles :: "db_reads \<Rightarrow> database_permission_query \<Rightarrow> override list" where
  "query_channel_roles D s =
     (case pq_channel s of
        Some (TextChannel _ t) \<Rightarrow>
          (case pq_server s of
             Some srv \<Rightarrow> channel_role_overrides srv (txt_role_permissions t) (resolved_roles D s)
           | None \<Rightarrow> [])
      | _ \<Rightarrow> [])"

lemma q_set_server_from_channel_spec:
  assumes "channel_reads_total D s"
  shows "q_set_server_from_channel D s = (Ok (), query_selected D s)"
    and "channel_reads_total D (query_selected D s)"
    and "pq_perspective (query_selected D s) = pq_perspective s"
proof -
  from assms obtain cid t where c: "pq_channel s = Some (TextChannel cid t)"
    and total: "\<forall>sid. rd_fetch_server D sid \<noteq> Panic" "member_reads_total D s"
    by (auto simp: channel_reads_total_def)
  consider "q_set_server_from_channel D s = (Ok (), s)"
    | srv where "q_set_server_from_channel D s = (Ok (), s\<lparr>pq_server := Some srv\<rparr>)"
    using c total
    by (cases "case pq_server s of Some srv \<Rightarrow> txt_server t = server_id srv | None \<Rightarrow> False";
        cases "rd_fetch_server D (txt_server t)")
      (auto simp: q_set_server_from_channel_def)
  then obtain srv where q: "q_set_server_from_channel D s = (Ok (), s\<lparr>pq_server := srv\<rparr>)"
    by cases (auto intro: that [of "pq_server s"])
  then have sel: "query_selected D s = s\<lparr>pq_server := srv\<rparr>" by (simp add: query_selected_def)
  show "q_set_server_from_channel D s = (Ok (), query_selected D s)"
    by (simp add: q sel)
  show "channel_reads_total D (query_selected D s)"
    using c total by (simp add: sel channel_reads_total_def member_reads_total_def)
  show "pq_perspective (query_selected D s) = pq_perspective s"
    by (simp add: sel)
qed

interpretation dbc: channel_query_laws "db_query D" "channel_reads_total D" query_loaded
  query_privileged "query_server_answers D" "query_selected D" query_channel_default
  "query_channel_roles D" for D
proof
  fix s assume *: "channel_reads_total D s"
  then have m: "member_reads_total D s" by (simp add: channel_reads_total_def)
  let ?t = "snd (q_are_we_a_member D s)"
  note spec = q_are_we_a_member_spec [OF m refl]
  from spec * have "are_we_a_member (db_query D) s = (Ok (an_member (query_server_answers D s)), ?t)
      \<and> channel_reads_total D ?t \<and> query_server_answers D ?t = query_server_answers D s
      \<and> query_privileged ?t = query_privileged s
      \<and> (an_member (query_server_answers D s) \<longrightarrow> query_loaded ?t)"
    using query_server_answers_cong [OF spec(2,3,5)]
    by (simp add: db_query_def member_reads_total_def channel_reads_total_def query_privileged_def)
       (simp add: query_server_answers_def)
  then show "\<exists>t. are_we_a_member (db_query D) s = (Ok (an_member (query_server_answers D s)), t)
          \<and> channel_reads_total D t \<and> query_server_answers D t = query_server_answers D s
          \<and> query_privileged t = query_privileged s
          \<and> (an_member (query_server_answers D s) \<longrightarrow> query_loaded t)"
    by blast
next
  fix s r t assume *: "channel_reads_total D s" and "are_we_a_member (db_query D) s = (r, t)"
  then have m: "member_reads_total D s" and t: "t = snd (q_are_we_a_member D s)"
    by (simp_all add: channel_reads_total_def db_query_def)
  note spec = q_are_we_a_member_spec [OF m t]
  show "query_channel_default t = query_channel_default s \<and> query_channel_roles D t = query_channel_roles D s"
    unfolding query_channel_default_def query_channel_roles_def spec(2,4) resolved_roles_cong [OF spec(5)]
    by simp
next
  fix s assume "channel_reads_total D s"
  from q_set_server_from_channel_spec [OF this]
  show "set_server_from_channel (db_query D) s = (Ok (), query_selected D s)
        \<and> channel_reads_total D (query_selected D s)
        \<and> query_privileged (query_selected D s) = query_privileged s"
    by (simp add: db_query_def query_privileged_def)
next
  fix s assume "channel_reads_total D s"
  then show "get_channel_type (db_query D) s = (Ok ServerChannelType, s)"
    by (auto simp: db_query_def query_defs gets_def channel_reads_total_def)
next
  fix s assume "channel_reads_total D s" and l: "query_loaded s"
  then show "get_our_channel_role_overrides (db_query D) s = (Ok (query_channel_roles D s), s)"
    by (auto simp: db_query_def query_defs gets_def query_channel_roles_def resolved_roles_loaded [OF l]
        split: option.splits channel.splits)
next
  fix s
  show "get_default_channel_permissions (db_query D) s = (Ok (query_channel_default s), s)"
    by (simp add: db_query_def query_defs gets_def query_channel_default_def)
qed (simp_all add: channel_reads_total_def dbs.server_laws)

text \<open>What the query knows about the other user. A failed lookup of the mutual connection counts as
  none, and a remembered value is used again.\<close>

definition query_user_answers :: "db_reads \<Rightarrow> database_permission_query \<Rightarrow> user_answers" where
  "query_user_answers D s =
     \<lparr>an_privileged = privileged (pq_perspective s),
      an_we_bot = (user_bot (pq_perspective s) \<noteq> None),
      an_same = (case pq_user s of Some u \<Rightarrow> user_id (pq_perspective s) = user_id u | None \<Rightarrow> False),
      an_relationship = (case pq_user s of Some u \<Rightarrow> relationship_to (pq_perspective s) u | None \<Rightarrow> NoRelation),
      an_user_bot = (case pq_user s of Some u \<Rightarrow> user_bot u \<noteq> None | None \<Rightarrow> False),
      an_mutual =
        (case pq_cached_mutual_connection s of
           Some v \<Rightarrow> v
         | None \<Rightarrow> (case pq_user s of
                      Some u \<Rightarrow> has_mutual_connection D (pq_perspective s) (user_id u) = Ok True
                    | None \<Rightarrow> False))\<rparr>"

definition user_reads_total :: "db_reads \<Rightarrow> database_permission_query \<Rightarrow> bool" where
  "user_reads_total D s \<longleftrightarrow>
     (\<forall>u. pq_user s = Some u \<longrightarrow> has_mutual_connection D (pq_perspective s) (user_id u) \<noteq> Panic)"

interpretation dbu: user_query_laws "db_query D" "user_reads_total D" "query_user_answers D" for D
proof
  fix s assume *: "user_reads_total D s"
  let ?t = "snd (q_have_mutual_connection D s)"
  from * have "have_mutual_connection (db_query D) s = (Ok (an_mutual (query_user_answers D s)), ?t)
      \<and> user_reads_total D ?t \<and> query_user_answers D ?t = query_user_answers D s"
    by (auto simp: db_query_def q_have_mutual_connection_def user_reads_total_def query_user_answers_def
        split: option.splits outcome.splits)
  then show "\<exists>t. have_mutual_connection (db_query D) s = (Ok (an_mutual (query_user_answers D s)), t)
      \<and> user_reads_total D t \<and> query_user_answers D t = query_user_answers D s"
    by blast
qed (simp_all add: db_query_def query_defs gets_def query_user_answers_def)

section \<open>Properties\<close>

text \<open>Among the entries that satisfy \<open>P\<close>, the one with the smallest rank is found from the end of the
  sorted list.\<close>

lemma find_sorted_last:
  assumes "sorted (map (\<lambda>r. - fst r) xs)" and "(k, v) \<in> set xs" and "P v"
    and "\<forall>(k', v') \<in> set xs. P v' \<longrightarrow> (k', v') = (k, v) \<or> k < (k' :: int)"
  shows "find P (rev (map snd xs)) = Some v"
  using assms
proof (induction xs rule: rev_induct)
  case Nil
  then show ?case by simp
next
  case (snoc x xs)
  obtain k0 v0 where x: "x = (k0, v0)" by (cases x)
  show ?case
  proof (cases "P v0")
    case True
    have "(k0, v0) = (k, v)"
    proof (rule ccontr)
      assume "(k0, v0) \<noteq> (k, v)"
      with snoc.prems x True have "k < k0" and "(k, v) \<in> set xs" by auto
      with snoc.prems(1) x show False by (force simp: sorted_append)
    qed
    with x True show ?thesis by simp
  next
    case False
    with snoc.prems x have "(k, v) \<in> set xs" by auto
    with snoc x False show ?thesis by (auto simp: sorted_append)
  qed
qed

lemma find_by_descending_rank:
  assumes "(k, v) \<in> set rs" and "P v"
    and "\<forall>(k', v') \<in> set rs. P v' \<longrightarrow> (k', v') = (k, v) \<or> k < k'"
  shows "find P (rev (by_descending_rank rs)) = Some v"
  unfolding by_descending_rank_def by (rule find_sorted_last) (use assms in auto)

text \<open>The role of a member that decides a permission: it mentions the permission, and every other role
  of the member that does has a larger rank.\<close>

definition deciding_role :: "server \<Rightarrow> string list \<Rightarrow> nat \<Rightarrow> string \<Rightarrow> role \<Rightarrow> bool" where
  "deciding_role srv ids n rid r \<longleftrightarrow>
     map_of (server_roles srv) rid = Some r \<and> rid \<in> set ids
     \<and> mentions n (field_to_override (role_permissions r))
     \<and> (\<forall>(rid', r') \<in> set (server_roles srv).
           rid' \<in> set ids \<and> mentions n (field_to_override (role_permissions r')) \<and> rid' \<noteq> rid
           \<longrightarrow> role_rank r < role_rank r')"

lemma bit_deciding_role:
  assumes "hm_wf (server_roles srv)" and "deciding_role srv ids n rid r"
  shows "bit (apply_all (server_role_overrides srv ids) p) n \<longleftrightarrow> \<not> bit (as_u64 (field_d (role_permissions r))) n"
proof -
  let ?rs = "map (\<lambda>(_, r). (role_rank r, field_to_override (role_permissions r)))
               (filter (\<lambda>(rid, _). rid \<in> set ids) (server_roles srv))"
  have mem: "(rid, r) \<in> set (server_roles srv)" and "rid \<in> set ids"
    and uniq: "\<And>r'. (rid, r') \<in> set (server_roles srv) \<Longrightarrow> r' = r"
    using assms by (auto simp: deciding_role_def hm_wf_map_of_iff)
  have "find (mentions n) (rev (by_descending_rank ?rs)) = Some (field_to_override (role_permissions r))"
  proof (rule find_by_descending_rank)
    show "(role_rank r, field_to_override (role_permissions r)) \<in> set ?rs"
      using mem \<open>rid \<in> set ids\<close> by force
    show "mentions n (field_to_override (role_permissions r))"
      using assms(2) by (simp add: deciding_role_def)
    show "\<forall>(k', v') \<in> set ?rs. mentions n v' \<longrightarrow>
            (k', v') = (role_rank r, field_to_override (role_permissions r)) \<or> role_rank r < k'"
      using assms(2) uniq by (fastforce simp: deciding_role_def)
  qed
  then show ?thesis
    by (simp add: bit_apply_all server_role_overrides_def field_to_override_def)
qed

text \<open>A query for a user in a server, and for a channel of a server, as the callers build them.\<close>

definition server_query :: "user \<Rightarrow> server \<Rightarrow> database_permission_query" where
  "server_query me srv = use_server srv (new_query me)"

definition channel_query :: "user \<Rightarrow> channel \<Rightarrow> database_permission_query" where
  "channel_query me c = use_channel c (new_query me)"

lemmas query_build = server_query_def channel_query_def builder_defs

text \<open>A database in which one server and one member exist.\<close>

definition sample_reads :: "server \<Rightarrow> member \<Rightarrow> timestamp \<Rightarrow> db_reads" where
  "sample_reads srv m now =
     \<lparr>rd_fetch_user = (\<lambda>u. Ok (sample_user u)),
      rd_fetch_users = (\<lambda>us. Ok (map sample_user us)),
      rd_fetch_server = (\<lambda>sid. if sid = server_id srv then Ok srv else Err NotFound),
      rd_fetch_channel = (\<lambda>_. Err NotFound),
      rd_fetch_member = (\<lambda>sid u. if member_id m = \<lparr>key_server = sid, key_user = u\<rparr> then Ok m else Err NotFound),
      rd_fetch_members = (\<lambda>sid us. Ok (if key_server (member_id m) = sid \<and> key_user (member_id m) \<in> set us then [m] else [])),
      rd_fetch_mutual_server_ids = (\<lambda>_ _. Ok []),
      rd_fetch_mutual_channel_ids = (\<lambda>_ _. Ok []),
      rd_now = now\<rparr>"

lemma sample_reads_simps [simp]:
  "rd_fetch_member (sample_reads srv m now) sid u \<noteq> Panic"
  "rd_fetch_server (sample_reads srv m now) sid \<noteq> Panic"
  "rd_fetch_server (sample_reads srv m now) (server_id srv) = Ok srv"
  "rd_fetch_member (sample_reads srv m now) (key_server (member_id m)) (key_user (member_id m)) = Ok m"
  "rd_fetch_user (sample_reads srv m now) u = Ok (sample_user u)"
  "rd_now (sample_reads srv m now) = now"
  by (simp_all add: sample_reads_def)

lemma query_server_answers_member:
  assumes "pq_server s = Some srv" and "resolved_member D s = Some m"
  shows "query_server_answers D s =
    \<lparr>an_owner = (server_owner srv = user_id (pq_perspective s)), an_member = True,
     an_default = as_u64 (server_default_permissions srv),
     an_roles = server_role_overrides srv (member_roles m),
     an_timed_out = in_timeout (rd_now D) m, an_publish = can_publish m, an_receive = can_receive m\<rparr>"
  using assms by (simp add: query_server_answers_def resolved_roles_def)

lemma server_query_simps [simp]:
  "pq_server (server_query me srv) = Some srv" "pq_perspective (server_query me srv) = me"
  by (simp_all add: query_build)

lemma server_query_spec:
  assumes "\<forall>sid. rd_fetch_member D sid (user_id me) \<noteq> Panic"
  shows "fst (calculate_server_permissions (db_query D) (server_query me srv)) =
         Ok (server_spec (privileged me) (query_server_answers D (server_query me srv)))"
proof -
  have "member_reads_total D (server_query me srv)"
    using assms by (simp add: member_reads_total_def query_build)
  from dbs.server_permissions_spec [OF this] show ?thesis
    by (simp add: query_privileged_def query_build)
qed

lemma bit_server_spec_member:
  assumes "\<not> an_owner s" and "an_member s"
  shows "bit (server_spec False s) n \<longleftrightarrow>
    bit (apply_all (an_roles s) (an_default s)) n \<and> (an_publish s \<or> (n \<noteq> 31 \<and> n \<noteq> 32))
    \<and> (an_receive s \<or> n \<noteq> 36) \<and> (an_timed_out s \<longrightarrow> n = 20 \<or> n = 21)"
  using assms by (auto simp: server_spec_def Let_def bit_pv_restrict bit_ALLOW_IN_TIMEOUT bit_voice_mask)

text \<open>C1: the roles of a server form a hierarchy. For a member that is neither privileged nor the owner,
  each permission is decided by the highest role (smallest rank) of the member that mentions it,
  whatever the server defaults and the other roles say and in whatever order the role map is
  iterated; a voice mute takes \<open>Speak\<close> and \<open>Video\<close> away, a deafen takes \<open>Listen\<close> away, and a timeout
  leaves only \<open>ViewChannel\<close> and \<open>ReadMessageHistory\<close>.\<close>

theorem highest_role_decides:
  assumes "\<forall>sid. rd_fetch_member D sid (user_id me) \<noteq> Panic"
    and "rd_fetch_member D (server_id srv) (user_id me) = Ok m"
    and "\<not> privileged me" and "server_owner srv \<noteq> user_id me"
    and "hm_wf (server_roles srv)" and "deciding_role srv (member_roles m) n rid r"
  shows "\<exists>p. fst (calculate_server_permissions (db_query D) (server_query me srv)) = Ok p \<and>
    (bit p n \<longleftrightarrow> \<not> bit (as_u64 (field_d (role_permissions r))) n
       \<and> (can_publish m \<or> (n \<noteq> 31 \<and> n \<noteq> 32)) \<and> (can_receive m \<or> n \<noteq> 36)
       \<and> (in_timeout (rd_now D) m \<longrightarrow> n = 20 \<or> n = 21))"
proof -
  have m: "resolved_member D (server_query me srv) = Some m"
    using assms(2) by (simp add: resolved_member_def query_build)
  show ?thesis
    using assms(3,4) bit_deciding_role [OF assms(5,6)]
    by (simp add: server_query_spec [OF assms(1)] query_server_answers_member [OF _ m]
        bit_server_spec_member)
qed

theorem highest_role_decides_witness:
  "\<exists>p. fst (calculate_server_permissions
          (db_query (sample_reads (sample_server ''S'' ''owner''
              [(''low'', sample_role ''low'' 2 0 4194304), (''high'', sample_role ''high'' 1 4194304 0)] 0)
            (sample_member ''S'' ''me'' [''low'', ''high''] None) 0))
          (server_query (sample_user ''me'') (sample_server ''S'' ''owner''
              [(''low'', sample_role ''low'' 2 0 4194304), (''high'', sample_role ''high'' 1 4194304 0)] 0)))
        = Ok p \<and> bit p 22"
proof -
  let ?srv = "sample_server ''S'' ''owner''
      [(''low'', sample_role ''low'' 2 0 4194304), (''high'', sample_role ''high'' 1 4194304 0)] 0"
  let ?m = "sample_member ''S'' ''me'' [''low'', ''high''] None"
  have d: "deciding_role ?srv (member_roles ?m) 22 ''high'' (sample_role ''high'' 1 4194304 0)"
    by (simp add: deciding_role_def sample_defs mentions_def field_to_override_def as_u64_def)
  have f: "rd_fetch_member (sample_reads ?srv ?m 0) (server_id ?srv) (user_id (sample_user ''me'')) = Ok ?m"
    using sample_reads_simps(4) [of ?srv ?m 0] by (simp add: sample_defs)
  show ?thesis
    using highest_role_decides [OF _ f _ _ _ d] by (simp add: sample_defs hm_wf_def as_u64_def in_timeout_def)
qed

lemma channel_query_simps [simp]:
  "pq_channel (channel_query me c) = Some c" "pq_perspective (channel_query me c) = me"
  "pq_server (channel_query me c) = None" "pq_member (channel_query me c) = None"
  "pq_user (channel_query me c) = None" "pq_cached_mutual_connection (channel_query me c) = None"
  by (simp_all add: query_build)

text \<open>A query for a channel of a server that exists selects that server and finds the member in it.\<close>

lemma channel_query_selected:
  assumes "rd_fetch_server D (txt_server t) = Ok srv"
  shows "query_selected D (channel_query me (TextChannel cid t)) =
         (channel_query me (TextChannel cid t))\<lparr>pq_server := Some srv\<rparr>"
  using assms by (simp add: query_selected_def q_set_server_from_channel_def)

lemma server_channel_query_spec:
  assumes "\<forall>sid. rd_fetch_member D sid (user_id me) \<noteq> Panic" and "\<forall>sid. rd_fetch_server D sid \<noteq> Panic"
    and "rd_fetch_server D (txt_server t) = Ok srv"
  shows "fst (calculate_channel_permissions (db_query D) (channel_query me (TextChannel cid t))) =
    Ok (if privileged me \<or> server_owner srv = user_id me then channel_permission_bits GrantAllSafe
        else case rd_fetch_member D (server_id srv) (user_id me) of
               Ok m \<Rightarrow> server_channel_spec
                 \<lparr>an_owner = False, an_member = True, an_default = as_u64 (server_default_permissions srv),
                  an_roles = server_role_overrides srv (member_roles m),
                  an_timed_out = in_timeout (rd_now D) m, an_publish = can_publish m, an_receive = can_receive m\<rparr>
                 (channel_default_override (TextChannel cid t))
                 (channel_role_overrides srv (txt_role_permissions t) (member_roles m))
             | _ \<Rightarrow> 0)"
proof -
  let ?s = "channel_query me (TextChannel cid t)"
  let ?t = "?s\<lparr>pq_server := Some srv\<rparr>"
  have "channel_reads_total D ?s"
    using assms by (auto simp: channel_reads_total_def member_reads_total_def)
  from dbc.server_channel_permissions_spec [OF this]
  have *: "fst (calculate_channel_permissions (db_query D) ?s) =
    Ok (if privileged me then channel_permission_bits GrantAllSafe
        else server_channel_spec (query_server_answers D ?t) (query_channel_default ?t) (query_channel_roles D ?t))"
    by (simp add: channel_query_selected [OF assms(3)] query_privileged_def)
  show ?thesis
  proof (cases "rd_fetch_member D (server_id srv) (user_id me)")
    case (Ok m)
    then have "resolved_member D ?t = Some m" by (simp add: resolved_member_def)
    then show ?thesis
      by (simp add: * Ok query_server_answers_member query_channel_default_def query_channel_roles_def
          resolved_roles_def server_channel_spec_def)
  next
    case (Err e)
    then have "resolved_member D ?t = None" by (simp add: resolved_member_def)
    then show ?thesis
      by (simp add: * Err query_server_answers_def server_channel_spec_def)
  next
    case Panic
    with assms(1) show ?thesis by simp
  qed
qed

text \<open>C31: in a channel of a server, privileged users and the server's owner hold every safe permission,
  anyone who is not a member holds none, and a member in timeout holds at most \<open>ViewChannel\<close> and
  \<open>ReadMessageHistory\<close>, whatever roles and channel overrides say.\<close>

theorem server_channel_outsiders_and_timeouts:
  assumes "\<forall>sid. rd_fetch_member D sid (user_id me) \<noteq> Panic" and "\<forall>sid. rd_fetch_server D sid \<noteq> Panic"
    and "rd_fetch_server D (txt_server t) = Ok srv"
  shows "\<exists>p. fst (calculate_channel_permissions (db_query D) (channel_query me (TextChannel cid t))) = Ok p
    \<and> (privileged me \<or> server_owner srv = user_id me \<longrightarrow> p = channel_permission_bits GrantAllSafe)
    \<and> (\<not> privileged me \<and> server_owner srv \<noteq> user_id me \<longrightarrow>
         (case rd_fetch_member D (server_id srv) (user_id me) of
            Ok m \<Rightarrow> in_timeout (rd_now D) m \<longrightarrow> (\<forall>n. bit p n \<longrightarrow> n = 20 \<or> n = 21)
          | _ \<Rightarrow> p = 0))"
  unfolding server_channel_query_spec [OF assms]
  by (auto simp: server_channel_spec_def Let_def bit_pv_restrict bit_ALLOW_IN_TIMEOUT split: outcome.splits)

theorem server_channel_outsiders_and_timeouts_witness:
  "\<exists>p. fst (calculate_channel_permissions
          (db_query (sample_reads (sample_server ''S'' ''owner'' [] (- 1)) (sample_member ''S'' ''me'' [] (Some 9)) 5))
          (channel_query (sample_user ''me'') (sample_text_channel ''C'' ''S'' []))) = Ok p
     \<and> (\<forall>n. bit p n \<longrightarrow> n = 20 \<or> n = 21)"
proof -
  let ?srv = "sample_server ''S'' ''owner'' [] (- 1)"
  let ?m = "sample_member ''S'' ''me'' [] (Some 9)"
  let ?D = "sample_reads ?srv ?m 5"
  obtain t where t: "sample_text_channel ''C'' ''S'' [] = TextChannel ''C'' t" and s: "txt_server t = server_id ?srv"
    by (simp add: sample_defs)
  have f: "rd_fetch_member ?D (server_id ?srv) (user_id (sample_user ''me'')) = Ok ?m"
    using sample_reads_simps(4) [of ?srv ?m 5] by (simp add: sample_defs)
  have "rd_fetch_server ?D (txt_server t) = Ok ?srv" unfolding s by simp
  from server_channel_outsiders_and_timeouts [OF _ _ this, of "sample_user ''me''" "''C''"] f t show ?thesis
    by (auto simp: in_timeout_def sample_user_def user_default_def sample_server_def sample_member_def)
qed

section \<open>Direct messages and groups\<close>

lemma db_query_ask:
  "are_we_privileged (db_query D) s = (Ok (privileged (pq_perspective s)), s)"
  "get_channel_type (db_query D) s =
     (Ok (case pq_channel s of Some c \<Rightarrow> channel_type_of c | None \<Rightarrow> UnknownType), s)"
  "are_we_part_of_the_channel (db_query D) = q_are_we_part_of_the_channel"
  "do_we_own_the_channel (db_query D) = q_do_we_own_the_channel"
  "get_default_channel_permissions (db_query D) = q_get_default_channel_permissions"
  by (simp_all add: db_query_def query_defs gets_def)

text \<open>in a direct message, the participant may send messages exactly when the other user is a
  friend, or when neither has blocked the other, they share a server or a group, and one of them is
  a bot. Anyone else, and any participant without that right, may at most look.\<close>

theorem direct_message_send_rights:
  assumes "find (\<lambda>r. r \<noteq> user_id me) recipients = Some other" and "user_id me \<in> set recipients"
    and "rd_fetch_user D other = Ok u" and "user_id u = other"
    and "has_mutual_connection D me other \<noteq> Panic" and "\<not> privileged me"
  shows "fst (calculate_channel_permissions (db_query D) (channel_query me (DirectMessage cid act recipients lm))) =
    Ok (if relationship_to me u = Friend
           \<or> relationship_to me u \<notin> {Blocked, BlockedOther}
             \<and> has_mutual_connection D me other = Ok True \<and> (user_bot u \<noteq> None \<or> user_bot me \<noteq> None)
        then DEFAULT_PERMISSION_DIRECT_MESSAGE else DEFAULT_PERMISSION_VIEW_ONLY)"
proof -
  let ?s = "channel_query me (DirectMessage cid act recipients lm)"
  let ?t = "?s\<lparr>pq_user := Some u\<rparr>"
  have neq: "user_id me \<noteq> user_id u"
    using assms(1,4) by (auto simp: find_Some_iff)
  have sel: "set_recipient_as_user (db_query D) ?s = (Ok (), ?t)"
    using assms(1,3) by (simp add: db_query_def q_set_recipient_as_user_def)
  have "user_reads_total D ?t" using assms(4,5) by (simp add: user_reads_total_def)
  then have up: "fst (calculate_user_permissions (db_query D) ?t) = Ok (user_spec (query_user_answers D ?t))"
    by (rule dbu.user_permissions_spec)
  then obtain t' where up': "calculate_user_permissions (db_query D) ?t = (Ok (user_spec (query_user_answers D ?t)), t')"
    by (metis prod.collapse)
  have bits: "bit (- 1 :: u64) 2" "bit (7 :: u64) 2" "\<not> bit (3 :: u64) 2" "\<not> bit (1 :: u64) 2"
    by simp_all
  have "fst (calculate_channel_permissions (db_query D) ?s) =
    Ok (if has_user_permission (user_spec (query_user_answers D ?t)) SendUserMessage
        then DEFAULT_PERMISSION_DIRECT_MESSAGE else DEFAULT_PERMISSION_VIEW_ONLY)"
    using assms(2,6) sel up'
    by (simp add: calculate_channel_permissions_def andthen_def ret_def db_query_ask
        q_are_we_part_of_the_channel_def gets_def)
  then show ?thesis
    using assms(4,6) neq bits
    by (auto simp: bit_user_SendMessage user_spec_def query_user_answers_def)
qed

text \<open>A database in which the two users share a server.\<close>

definition sample_mutual_reads :: "user \<Rightarrow> db_reads" where
  "sample_mutual_reads u =
     (sample_reads (sample_server ''S'' ''owner'' [] 0) (sample_member ''S'' ''me'' [] None) 0)
       \<lparr>rd_fetch_user := (\<lambda>_. Ok u), rd_fetch_mutual_server_ids := (\<lambda>_ _. Ok [''S''])\<rparr>"

theorem direct_message_send_rights_witness:
  "fst (calculate_channel_permissions
          (db_query (sample_mutual_reads ((sample_user ''bot'')\<lparr>user_bot := Some \<lparr>bot_owner = ''x''\<rparr>\<rparr>)))
          (channel_query (sample_user ''me'') (DirectMessage ''D'' True [''me'', ''bot''] None)))
   = Ok DEFAULT_PERMISSION_DIRECT_MESSAGE"
proof -
  let ?u = "(sample_user ''bot'')\<lparr>user_bot := Some \<lparr>bot_owner = ''x''\<rparr>\<rparr>"
  have "fst (calculate_channel_permissions (db_query (sample_mutual_reads ?u))
          (channel_query (sample_user ''me'') (DirectMessage ''D'' True [''me'', ''bot''] None))) =
    Ok (if relationship_to (sample_user ''me'') ?u = Friend
           \<or> relationship_to (sample_user ''me'') ?u \<notin> {Blocked, BlockedOther}
             \<and> has_mutual_connection (sample_mutual_reads ?u) (sample_user ''me'') ''bot'' = Ok True
             \<and> (user_bot ?u \<noteq> None \<or> user_bot (sample_user ''me'') \<noteq> None)
        then DEFAULT_PERMISSION_DIRECT_MESSAGE else DEFAULT_PERMISSION_VIEW_ONLY)"
    by (rule direct_message_send_rights)
       (simp_all add: sample_mutual_reads_def sample_user_def user_default_def has_mutual_connection_def)
  then show ?thesis
    by (simp add: sample_mutual_reads_def sample_user_def user_default_def has_mutual_connection_def
        relationship_to_def)
qed

text \<open>in a group, the owner holds every safe permission, the other members hold the view permissions
  together with what the group grants (the direct-message defaults when nothing is set), and anyone
  else holds none.\<close>

theorem group_permissions:
  assumes "\<not> privileged me"
  shows "fst (calculate_channel_permissions (db_query D) (channel_query me (Group cid g))) =
    Ok (if grp_owner g = user_id me then channel_permission_bits GrantAllSafe
        else if user_id me \<in> set (grp_recipients g)
        then DEFAULT_PERMISSION_VIEW_ONLY OR
             (case grp_permissions g of Some p \<Rightarrow> as_u64 p | None \<Rightarrow> DEFAULT_PERMISSION_DIRECT_MESSAGE)
        else 0)"
  using assms
  by (cases "grp_permissions g")
     (simp_all add: calculate_channel_permissions_def andthen_def ret_def gets_def db_query_ask
        q_do_we_own_the_channel_def q_are_we_part_of_the_channel_def q_get_default_channel_permissions_def)

theorem group_permissions_witness:
  "fst (calculate_channel_permissions
          (db_query (sample_mutual_reads (sample_user ''o'')))
          (channel_query (sample_user ''x'') (sample_group ''G'' ''o'' [''o'', ''me'']))) = Ok 0"
  using group_permissions [of "sample_user ''x''" "sample_mutual_reads (sample_user ''o'')" "''G''"]
  by (simp add: sample_user_def sample_group_def user_default_def)

text \<open>what a user may do towards another user: everything towards a friend (or as a privileged user),
  only \<open>Access\<close> once either side has blocked the other, \<open>Access\<close> and \<open>ViewProfile\<close> with a mutual
  connection and also \<open>SendMessage\<close> when a bot is involved, \<open>Access\<close> while a friend request is
  pending, and otherwise nothing. In particular the owner of a bot has no permission towards the bot
  without a mutual connection, although \<open>user_relationship\<close> reports the owner as the bot itself.\<close>

theorem user_permissions_by_relationship:
  assumes "user_id me \<noteq> user_id u" and "\<not> privileged me"
    and "has_mutual_connection D me (user_id u) \<noteq> Panic"
  shows "fst (calculate_user_permissions (db_query D) (use_user u (new_query me))) =
    Ok (case relationship_to me u of
          Friend \<Rightarrow> - 1
        | Blocked \<Rightarrow> 1
        | BlockedOther \<Rightarrow> 1
        | rel \<Rightarrow>
            if has_mutual_connection D me (user_id u) = Ok True
            then (if user_bot u \<noteq> None \<or> user_bot me \<noteq> None then 7 else 3)
            else if rel = Incoming \<or> rel = Outgoing then 1 else 0)"
proof -
  have "user_reads_total D (use_user u (new_query me))"
    using assms(3) by (simp add: user_reads_total_def builder_defs)
  from dbu.user_permissions_spec [OF this] assms(1,2) show ?thesis
    by (auto simp: query_user_answers_def user_spec_def builder_defs split: relationship_status.split)
qed

theorem user_permissions_by_relationship_witness:
  "fst (calculate_user_permissions
         (db_query (sample_reads (sample_server ''S'' ''owner'' [] 0) (sample_member ''S'' ''me'' [] None) 0))
         (use_user ((sample_user ''bot'')\<lparr>user_bot := Some \<lparr>bot_owner = ''me''\<rparr>\<rparr>) (new_query (sample_user ''me''))))
   = Ok 0"
proof -
  let ?D = "sample_reads (sample_server ''S'' ''owner'' [] 0) (sample_member ''S'' ''me'' [] None) 0"
  let ?u = "(sample_user ''bot'')\<lparr>user_bot := Some \<lparr>bot_owner = ''me''\<rparr>\<rparr>"
  have m: "has_mutual_connection ?D (sample_user ''me'') i = Ok False" for i
    by (simp add: has_mutual_connection_def sample_reads_def)
  have r: "relationship_to (sample_user ''me'') ?u = RelUser"
    by (simp add: relationship_to_def sample_user_def user_default_def)
  have "user_id (sample_user ''me'') \<noteq> user_id ?u" and "\<not> privileged (sample_user ''me'')"
    by (simp_all add: sample_user_def user_default_def)
  from user_permissions_by_relationship [OF this, of ?D] show ?thesis
    by (simp add: m r)
qed

theorem channel_permissions_need_view_witness:
  "has_channel_permission (channel_permission_bits GrantAllSafe) ViewChannel"
proof -
  let ?Q = "db_query (sample_mutual_reads (sample_user ''x''))"
  let ?s = "channel_query ((sample_user ''me'')\<lparr>privileged := True\<rparr>) (sample_group ''G'' ''o'' [])"
  have "calculate_channel_permissions ?Q ?s = (Ok (channel_permission_bits GrantAllSafe), ?s)"
    by (simp add: calculate_channel_permissions_def andthen_def ret_def db_query_ask
        del: channel_permission_bits.simps)
  from channel_permissions_need_view [OF this] show ?thesis by simp
qed

end
