(* ===== verification/Reference_Db.thy ===== *)
theory Reference_Db
  imports Partials Database_Permission_Query "HOL-Library.List_Lexorder" "HOL-Library.Char_ord"
begin

text \<open>
  The database in memory that the repository ships beside the MongoDB driver:
  \<open>crates/core/database/src/drivers/reference.rs\<close> and \<open>models/*/ops/reference.rs\<close>. It is the executable
  meaning of the \<open>Abstract*\<close> traits, and the state that the operations of the models change.

  Each collection is a hash map behind a lock; a method takes the lock once, so a method is one
  atomic step. The section on tables defines the four accesses that the methods are made of and the
  locale \<open>table\<close> states their laws once; it is interpreted on each collection.
\<close>

section \<open>Tables\<close>

text \<open>A collection is given by its field of the state: \<open>get\<close> and \<open>upd\<close> are the selector and the update
  function of the record. The accesses: insert under a new key, \<open>get(..).cloned().ok_or(..)\<close>,
  \<open>get_mut\<close> followed by a change, and \<open>remove(..).is_some()\<close>.\<close>

type_synonym ('d, 'k, 'v) table_get = "'d \<Rightarrow> ('k, 'v) hashmap"
type_synonym ('d, 'k, 'v) table_upd = "(('k, 'v) hashmap \<Rightarrow> ('k, 'v) hashmap) \<Rightarrow> 'd \<Rightarrow> 'd"

definition table_insert ::
    "('d, 'k, 'v) table_get \<Rightarrow> ('d, 'k, 'v) table_upd \<Rightarrow> error_type \<Rightarrow> 'k \<Rightarrow> 'v \<Rightarrow> ('d, error_type, unit) action" where
  "table_insert get upd e k v =
     andthen (gets get) (\<lambda>t. if hm_contains t k then throw e else modify (upd (AList.update k v)))"

definition table_fetch ::
    "('d, 'k, 'v) table_get \<Rightarrow> error_type \<Rightarrow> 'k \<Rightarrow> ('d, error_type, 'v) action" where
  "table_fetch get e k =
     andthen (gets get) (\<lambda>t. case map_of t k of Some v \<Rightarrow> ret v | None \<Rightarrow> throw e)"

definition table_change ::
    "('d, 'k, 'v) table_get \<Rightarrow> ('d, 'k, 'v) table_upd \<Rightarrow> error_type \<Rightarrow> 'k \<Rightarrow> ('v \<Rightarrow> 'v) \<Rightarrow> ('d, error_type, unit) action" where
  "table_change get upd e k f =
     andthen (gets get) (\<lambda>t.
       case map_of t k of
         Some v \<Rightarrow> modify (upd (AList.update k (f v)))
       | None \<Rightarrow> throw e)"

definition table_remove ::
    "('d, 'k, 'v) table_get \<Rightarrow> ('d, 'k, 'v) table_upd \<Rightarrow> error_type \<Rightarrow> 'k \<Rightarrow> ('d, error_type, unit) action" where
  "table_remove get upd e k =
     andthen (gets get) (\<lambda>t. if hm_contains t k then modify (upd (AList.delete k)) else throw e)"

text \<open>\<open>ids.iter().map(|id| ..get(id)..).collect()\<close>: the first id that is not found is the error.\<close>

fun lookup_all :: "('k, 'v) hashmap \<Rightarrow> error_type \<Rightarrow> 'k list \<Rightarrow> 'v list result" where
  "lookup_all t e [] = Ok []"
| "lookup_all t e (k # ks) =
     (case map_of t k of
        None \<Rightarrow> Err e
      | Some v \<Rightarrow> outcome_bind (lookup_all t e ks) (\<lambda>vs. Ok (v # vs)))"

locale table =
  fixes get :: "('d, 'k, 'v) table_get" and upd :: "('d, 'k, 'v) table_upd"
  assumes get_upd [simp]: "get (upd f d) = f (get d)"
    and upd_upd: "upd f (upd g d) = upd (f \<circ> g) d"
begin

lemma insert_new:
  "map_of (get d) k = None \<Longrightarrow>
   table_insert get upd e k v d = (Ok (), upd (AList.update k v) d)"
  by (simp add: table_insert_def hm_contains_def modify_def)

lemma insert_taken:
  "map_of (get d) k \<noteq> None \<Longrightarrow> table_insert get upd e k v d = (Err e, d)"
  by (simp add: table_insert_def hm_contains_def throw_def)

lemma fetch: "table_fetch get e k d = (case map_of (get d) k of Some v \<Rightarrow> Ok v | None \<Rightarrow> Err e, d)"
  by (simp add: table_fetch_def ret_def throw_def split: option.split)

lemma insert_fetch:
  assumes "table_insert get upd e k v d = (Ok (), d')"
  shows "table_fetch get e' k' d' = (if k' = k then (Ok v, d') else (fst (table_fetch get e' k' d), d'))"
  using assms by (auto simp: table_insert_def fetch modify_def throw_def db_simps split: if_splits option.split)

lemma change_fetch:
  assumes "table_change get upd e k f d = (Ok (), d')"
  shows "table_fetch get e' k' d' =
    (if k' = k then (Ok (f (the (map_of (get d) k))), d') else (fst (table_fetch get e' k' d), d'))"
  using assms by (auto simp: table_change_def fetch modify_def throw_def db_simps split: option.splits if_splits)

lemma remove_fetch:
  assumes "table_remove get upd e k d = (Ok (), d')"
  shows "table_fetch get e' k' d' = (if k' = k then (Err e', d') else (fst (table_fetch get e' k' d), d'))"
  using assms by (auto simp: table_remove_def fetch modify_def throw_def db_simps split: if_splits option.split)

lemma keeps_wf:
  "keeps (\<lambda>d. hm_wf (get d)) (table_insert get upd e k v)"
  "keeps (\<lambda>d. hm_wf (get d)) (table_change get upd e k f)"
  "keeps (\<lambda>d. hm_wf (get d)) (table_remove get upd e k)"
  by (auto simp: keeps_def table_insert_def table_change_def table_remove_def modify_def throw_def split: option.split)

end

section \<open>State\<close>

record ref_db =
  db_users :: "(string, user) hashmap"
  db_servers :: "(string, server) hashmap"
  db_server_members :: "(member_composite_key, member) hashmap"
  db_server_bans :: "(member_composite_key, server_ban) hashmap"
  db_channels :: "(string, channel) hashmap"
  db_channel_invites :: "(string, invite) hashmap"
  db_messages :: "(string, message) hashmap"
  db_files :: "(string, stored_file) hashmap"
  db_emojis :: "(string, emoji) hashmap"
  db_bots :: "(string, bot_account) hashmap"
  db_channel_webhooks :: "(string, webhook) hashmap"
  db_channel_unreads :: "(channel_composite_key, channel_unread) hashmap"
  db_user_settings :: "(string, user_settings) hashmap"
  db_policy_changes :: "(string, policy_change) hashmap"
  db_ratelimit_events :: "(string, ratelimit_event) hashmap"

type_synonym 'a db_action = "(ref_db, error_type, 'a) action"

interpretation users: table db_users db_users_update
  by unfold_locales simp_all

interpretation servers: table db_servers db_servers_update
  by unfold_locales simp_all

interpretation server_members: table db_server_members db_server_members_update
  by unfold_locales simp_all

interpretation server_bans: table db_server_bans db_server_bans_update
  by unfold_locales simp_all

interpretation channels: table db_channels db_channels_update
  by unfold_locales simp_all

interpretation channel_invites: table db_channel_invites db_channel_invites_update
  by unfold_locales simp_all

interpretation messages: table db_messages db_messages_update
  by unfold_locales simp_all

interpretation files: table db_files db_files_update
  by unfold_locales simp_all

interpretation emojis: table db_emojis db_emojis_update
  by unfold_locales simp_all

interpretation bots: table db_bots db_bots_update
  by unfold_locales simp_all

interpretation channel_webhooks: table db_channel_webhooks db_channel_webhooks_update
  by unfold_locales simp_all

interpretation ratelimit_events: table db_ratelimit_events db_ratelimit_events_update
  by unfold_locales simp_all

definition empty_db :: ref_db where
  "empty_db = \<lparr>db_users = [], db_servers = [], db_server_members = [], db_server_bans = [],
     db_channels = [], db_channel_invites = [], db_messages = [], db_files = [], db_emojis = [],
     db_bots = [], db_channel_webhooks = [], db_channel_unreads = [], db_user_settings = [], db_policy_changes = [],
     db_ratelimit_events = []\<rparr>"

section \<open>Users\<close>

definition insert_user :: "user \<Rightarrow> unit db_action" where
  "insert_user u = table_insert db_users db_users_update (DatabaseError ''insert'' ''user'') (user_id u) u"

definition fetch_user :: "string \<Rightarrow> user db_action" where
  "fetch_user i = table_fetch db_users NotFound i"

text \<open>\<open>to_lowercase\<close> of the standard library (Unicode lower case) is left abstract: \<open>lower\<close>.\<close>

definition fetch_user_by_username :: "(string \<Rightarrow> string) \<Rightarrow> string \<Rightarrow> string \<Rightarrow> user db_action" where
  "fetch_user_by_username lower name discrim =
     andthen (gets db_users) (\<lambda>t.
       case List.find (\<lambda>u. lower (username u) = lower name \<and> discriminator u = discrim) (hm_values t) of
         Some u \<Rightarrow> ret u
       | None \<Rightarrow> throw NotFound)"

definition fetch_users :: "string list \<Rightarrow> user list db_action" where
  "fetch_users ids = andthen (gets db_users) (\<lambda>t. lift (lookup_all t NotFound ids))"

definition fetch_discriminators_in_use :: "(string \<Rightarrow> string) \<Rightarrow> string \<Rightarrow> string list db_action" where
  "fetch_discriminators_in_use lower name =
     gets (\<lambda>d. map discriminator (filter (\<lambda>u. lower (username u) = lower name) (hm_values (db_users d))))"

text \<open>Methods with the body \<open>todo!()\<close> panic.\<close>

definition fetch_mutual_user_ids :: "string \<Rightarrow> string \<Rightarrow> string list db_action" where
  "fetch_mutual_user_ids a b = panic"

definition fetch_mutual_channel_ids :: "string \<Rightarrow> string \<Rightarrow> string list db_action" where
  "fetch_mutual_channel_ids a b = panic"

definition fetch_mutual_server_ids :: "string \<Rightarrow> string \<Rightarrow> string list db_action" where
  "fetch_mutual_server_ids a b = panic"

definition update_user :: "optional_structs \<Rightarrow> string \<Rightarrow> partial_user \<Rightarrow> fields_user list \<Rightarrow> unit db_action" where
  "update_user OS i partial remove =
     table_change db_users db_users_update NotFound i (\<lambda>u. apply_user OS partial (fold user_remove_field remove u))"

text \<open>The entry for \<open>target\<close> in a list of relationships: removed, or replaced by a new one at the end.\<close>

definition retain_relations :: "string \<Rightarrow> user \<Rightarrow> user" where
  "retain_relations target u =
     (case relations u of
        Some rs \<Rightarrow> u\<lparr>relations := Some (filter (\<lambda>r. rel_id r \<noteq> target) rs)\<rparr>
      | None \<Rightarrow> u)"

definition push_relation :: "string \<Rightarrow> relationship_status \<Rightarrow> user \<Rightarrow> user" where
  "push_relation target status u =
     (let relation = \<lparr>rel_id = target, rel_status = status\<rparr> in
      case relations u of
        Some rs \<Rightarrow> u\<lparr>relations := Some (filter (\<lambda>r. rel_id r \<noteq> target) rs @ [relation])\<rparr>
      | None \<Rightarrow> u\<lparr>relations := Some [relation]\<rparr>)"

definition pull_relationship :: "string \<Rightarrow> string \<Rightarrow> unit db_action" where
  "pull_relationship uid target = table_change db_users db_users_update NotFound uid (retain_relations target)"

definition db_set_relationship :: "string \<Rightarrow> string \<Rightarrow> relationship_status \<Rightarrow> unit db_action" where
  "db_set_relationship uid target status =
     (if status = RelUser \<or> status = NoRelation then pull_relationship uid target
      else table_change db_users db_users_update NotFound uid (push_relation target status))"

definition delete_user :: "string \<Rightarrow> unit db_action" where
  "delete_user i = table_remove db_users db_users_update NotFound i"

section \<open>Servers\<close>

definition insert_server :: "server \<Rightarrow> unit db_action" where
  "insert_server s = table_insert db_servers db_servers_update (DatabaseError ''insert'' ''server'') (server_id s) s"

definition fetch_server :: "string \<Rightarrow> server db_action" where
  "fetch_server i = table_fetch db_servers NotFound i"

definition fetch_servers :: "string list \<Rightarrow> server list db_action" where
  "fetch_servers ids = andthen (gets db_servers) (\<lambda>t. lift (lookup_all t NotFound ids))"

definition update_server :: "optional_structs \<Rightarrow> string \<Rightarrow> partial_server \<Rightarrow> fields_server list \<Rightarrow> unit db_action" where
  "update_server OS i partial remove =
     table_change db_servers db_servers_update NotFound i
       (\<lambda>s. apply_server OS partial (fold server_remove_field remove s))"

definition delete_server :: "string \<Rightarrow> unit db_action" where
  "delete_server i = table_remove db_servers db_servers_update NotFound i"

definition insert_role :: "string \<Rightarrow> role \<Rightarrow> unit db_action" where
  "insert_role sid r =
     table_change db_servers db_servers_update NotFound sid
       (\<lambda>s. s\<lparr>server_roles := AList.update (role_id r) r (server_roles s)\<rparr>)"

definition update_role ::
    "optional_structs \<Rightarrow> string \<Rightarrow> string \<Rightarrow> partial_role \<Rightarrow> fields_role list \<Rightarrow> unit db_action" where
  "update_role OS sid rid partial remove =
     andthen (fetch_server sid) (\<lambda>s.
       case map_of (server_roles s) rid of
         Some r \<Rightarrow>
           table_change db_servers db_servers_update NotFound sid
             (\<lambda>s. s\<lparr>server_roles :=
                AList.update rid (apply_role OS partial (fold role_remove_field remove r)) (server_roles s)\<rparr>)
       | None \<Rightarrow> throw NotFound)"

definition delete_role :: "string \<Rightarrow> string \<Rightarrow> unit db_action" where
  "delete_role sid rid =
     andthen (fetch_server sid) (\<lambda>s.
       if hm_contains (server_roles s) rid then
         table_change db_servers db_servers_update NotFound sid
           (\<lambda>s. s\<lparr>server_roles := AList.delete rid (server_roles s)\<rparr>)
       else throw NotFound)"

section \<open>Members\<close>

definition insert_or_merge_member :: "member \<Rightarrow> member option db_action" where
  "insert_or_merge_member m =
     andthen (table_insert db_server_members db_server_members_update (DatabaseError ''insert'' ''member'') (member_id m) m)
       (\<lambda>_. ret None)"

definition fetch_member :: "string \<Rightarrow> string \<Rightarrow> member db_action" where
  "fetch_member sid uid = table_fetch db_server_members NotFound \<lparr>key_server = sid, key_user = uid\<rparr>"

definition fetch_all_members :: "string \<Rightarrow> member list db_action" where
  "fetch_all_members sid =
     gets (\<lambda>d. filter (\<lambda>m. key_server (member_id m) = sid) (hm_values (db_server_members d)))"

definition fetch_all_members_with_roles :: "string \<Rightarrow> string list \<Rightarrow> member list db_action" where
  "fetch_all_members_with_roles sid roles =
     gets (\<lambda>d. filter (\<lambda>m. key_server (member_id m) = sid \<and> filter (\<lambda>p. p \<in> set roles) (member_roles m) \<noteq> [])
                 (hm_values (db_server_members d)))"

definition fetch_all_memberships :: "string \<Rightarrow> member list db_action" where
  "fetch_all_memberships uid =
     gets (\<lambda>d. filter (\<lambda>m. key_user (member_id m) = uid) (hm_values (db_server_members d)))"

definition fetch_members :: "string \<Rightarrow> string list \<Rightarrow> member list db_action" where
  "fetch_members sid ids =
     gets (\<lambda>d. List.map_filter (\<lambda>i. map_of (db_server_members d) \<lparr>key_server = sid, key_user = i\<rparr>) ids)"

definition fetch_member_count :: "string \<Rightarrow> nat db_action" where
  "fetch_member_count sid =
     gets (\<lambda>d. length (filter (\<lambda>m. key_server (member_id m) = sid) (hm_values (db_server_members d))))"

definition fetch_server_count :: "string \<Rightarrow> nat db_action" where
  "fetch_server_count uid =
     gets (\<lambda>d. length (filter (\<lambda>m. key_user (member_id m) = uid) (hm_values (db_server_members d))))"

definition update_member ::
    "optional_structs \<Rightarrow> member_composite_key \<Rightarrow> partial_member \<Rightarrow> fields_member list \<Rightarrow> unit db_action" where
  "update_member OS k partial remove =
     table_change db_server_members db_server_members_update NotFound k
       (\<lambda>m. apply_member OS partial (fold member_remove_field remove m))"

definition soft_delete_member :: "timestamp \<Rightarrow> member_composite_key \<Rightarrow> unit db_action" where
  "soft_delete_member now k =
     andthen (gets db_server_members) (\<lambda>t.
       case map_of t k of
         Some m \<Rightarrow>
           if in_timeout now m then panic
           else table_remove db_server_members db_server_members_update NotFound k
       | None \<Rightarrow> throw NotFound)"

definition force_delete_member :: "member_composite_key \<Rightarrow> unit db_action" where
  "force_delete_member k = table_remove db_server_members db_server_members_update NotFound k"

section \<open>Bans\<close>

definition insert_ban :: "server_ban \<Rightarrow> unit db_action" where
  "insert_ban b = table_insert db_server_bans db_server_bans_update (DatabaseError ''insert'' ''ban'') (ban_id b) b"

definition fetch_ban :: "string \<Rightarrow> string \<Rightarrow> server_ban db_action" where
  "fetch_ban sid uid = table_fetch db_server_bans NotFound \<lparr>key_server = sid, key_user = uid\<rparr>"

definition fetch_bans :: "string \<Rightarrow> server_ban list db_action" where
  "fetch_bans sid = gets (\<lambda>d. filter (\<lambda>b. key_server (ban_id b) = sid) (hm_values (db_server_bans d)))"

definition delete_ban :: "member_composite_key \<Rightarrow> unit db_action" where
  "delete_ban k = table_remove db_server_bans db_server_bans_update NotFound k"

section \<open>Channels\<close>

definition insert_channel :: "channel \<Rightarrow> unit db_action" where
  "insert_channel c =
     table_insert db_channels db_channels_update (DatabaseError ''insert'' ''channel'') (channel_id c) c"

definition fetch_channel :: "string \<Rightarrow> channel db_action" where
  "fetch_channel i = table_fetch db_channels NotFound i"

definition fetch_channels :: "string list \<Rightarrow> channel list db_action" where
  "fetch_channels ids = andthen (gets db_channels) (\<lambda>t. lift (lookup_all t NotFound ids))"

definition find_direct_messages :: "string \<Rightarrow> channel list db_action" where
  "find_direct_messages uid = gets (\<lambda>d. filter (\<lambda>c. contains_user c uid) (hm_values (db_channels d)))"

definition find_saved_messages_channel :: "string \<Rightarrow> channel db_action" where
  "find_saved_messages_channel uid = table_fetch db_channels (DatabaseError ''fetch'' ''channel'') uid"

definition find_direct_message_channel :: "string \<Rightarrow> string \<Rightarrow> channel db_action" where
  "find_direct_message_channel a b =
     andthen (gets db_channels) (\<lambda>t.
       case List.find (\<lambda>c. contains_user c a \<and> contains_user c b) (hm_values t) of
         Some c \<Rightarrow> ret c
       | None \<Rightarrow> throw NotFound)"

definition db_add_user_to_group :: "string \<Rightarrow> string \<Rightarrow> unit db_action" where
  "db_add_user_to_group cid uid =
     andthen (gets db_channels) (\<lambda>t.
       case map_of t cid of
         Some (Group i g) \<Rightarrow>
           modify (db_channels_update (AList.update cid (Group i (g\<lparr>grp_recipients := grp_recipients g @ [uid]\<rparr>))))
       | _ \<Rightarrow> throw InvalidOperation)"

definition set_channel_role_permission :: "string \<Rightarrow> string \<Rightarrow> override_field \<Rightarrow> unit db_action" where
  "set_channel_role_permission cid rid permissions =
     andthen (gets db_channels) (\<lambda>t.
       case map_of t cid of
         Some (TextChannel i c) \<Rightarrow>
           if hm_contains (txt_role_permissions c) rid then
             modify (db_channels_update (AList.update cid
               (TextChannel i (c\<lparr>txt_role_permissions :=
                  AList.update rid permissions (AList.delete rid (txt_role_permissions c))\<rparr>))))
           else throw NotFound
       | _ \<Rightarrow> throw NotFound)"

text \<open>The partial struct is applied first and the fields are removed after it.\<close>

definition update_channel :: "string \<Rightarrow> partial_channel \<Rightarrow> fields_channel list \<Rightarrow> unit db_action" where
  "update_channel i partial remove =
     table_change db_channels db_channels_update NotFound i
       (\<lambda>c. channel_remove_fields remove (channel_apply_options partial c))"

text \<open>\<open>users()\<close> answers a copy of the recipients, and \<open>retain\<close> works on that copy: the stored channel
  stays as it is.\<close>

definition db_remove_user_from_group :: "string \<Rightarrow> string \<Rightarrow> unit db_action" where
  "db_remove_user_from_group cid uid =
     andthen (gets db_channels) (\<lambda>t.
       case map_of t cid of
         Some c \<Rightarrow>
           andthen (lift (channel_users c)) (\<lambda>us.
             if uid \<in> set us then andthen (lift (channel_users c)) (\<lambda>us'. ret ())
             else throw NotFound)
       | None \<Rightarrow> throw NotFound)"

definition delete_channel :: "channel \<Rightarrow> unit db_action" where
  "delete_channel c = table_remove db_channels db_channels_update NotFound (channel_id c)"

section \<open>Invites\<close>

definition insert_invite :: "invite \<Rightarrow> unit db_action" where
  "insert_invite i =
     table_insert db_channel_invites db_channel_invites_update (DatabaseError ''insert'' ''invite'') (invite_code i) i"

definition fetch_invite :: "string \<Rightarrow> invite db_action" where
  "fetch_invite code = table_fetch db_channel_invites NotFound code"

fun invite_of_server :: "string \<Rightarrow> invite \<Rightarrow> bool" where
  "invite_of_server sid (ServerInvite _ s _ _) = (s = sid)"
| "invite_of_server sid (GroupInvite _ _ _) = False"

definition fetch_invites_for_server :: "string \<Rightarrow> invite list db_action" where
  "fetch_invites_for_server sid = gets (\<lambda>d. filter (invite_of_server sid) (hm_values (db_channel_invites d)))"

definition delete_invite :: "string \<Rightarrow> unit db_action" where
  "delete_invite code = table_remove db_channel_invites db_channel_invites_update NotFound code"

section \<open>Files\<close>

definition insert_attachment :: "stored_file \<Rightarrow> unit db_action" where
  "insert_attachment f =
     table_insert db_files db_files_update (DatabaseError ''insert'' ''attachment'') (file_id f) f"

definition fetch_attachment :: "string \<Rightarrow> string \<Rightarrow> stored_file db_action" where
  "fetch_attachment tag i =
     andthen (gets db_files) (\<lambda>t.
       case map_of t i of
         Some f \<Rightarrow> if file_tag f = tag then ret f else throw NotFound
       | None \<Rightarrow> throw NotFound)"

definition fetch_deleted_attachments :: "stored_file list db_action" where
  "fetch_deleted_attachments =
     gets (\<lambda>d. filter (\<lambda>f. file_deleted f = Some True \<and> file_reported f \<noteq> Some True) (hm_values (db_files d)))"

definition fetch_dangling_files :: "stored_file list db_action" where
  "fetch_dangling_files =
     gets (\<lambda>d. filter (\<lambda>f. file_used_for f = None \<and> file_deleted f \<noteq> Some True) (hm_values (db_files d)))"

definition count_file_hash_references :: "string \<Rightarrow> nat db_action" where
  "count_file_hash_references h =
     gets (\<lambda>d. length (filter (\<lambda>f. file_hash f = Some h) (hm_values (db_files d))))"

definition find_and_use_attachment :: "string \<Rightarrow> string \<Rightarrow> file_used_for \<Rightarrow> string \<Rightarrow> stored_file db_action" where
  "find_and_use_attachment i tag used uploader =
     andthen (gets db_files) (\<lambda>t.
       case map_of t i of
         Some f \<Rightarrow>
           if file_tag f = tag then
             let f' = f\<lparr>file_uploader_id := Some uploader, file_used_for := Some used\<rparr>
             in andthen (modify (db_files_update (AList.update i f'))) (\<lambda>_. ret f')
           else throw NotFound
       | None \<Rightarrow> throw NotFound)"

definition mark_attachment_as_reported :: "string \<Rightarrow> unit db_action" where
  "mark_attachment_as_reported i =
     table_change db_files db_files_update NotFound i (\<lambda>f. f\<lparr>file_reported := Some True\<rparr>)"

definition mark_attachment_as_deleted :: "string \<Rightarrow> unit db_action" where
  "mark_attachment_as_deleted i =
     table_change db_files db_files_update NotFound i (\<lambda>f. f\<lparr>file_deleted := Some True\<rparr>)"

text \<open>The loop sets \<open>reported\<close>.\<close>

definition mark_attachments_as_deleted :: "string list \<Rightarrow> unit db_action" where
  "mark_attachments_as_deleted ids =
     andthen (gets db_files) (\<lambda>t.
       if list_all (hm_contains t) ids then
         modify (db_files_update (fold (\<lambda>i t.
           case map_of t i of
             Some f \<Rightarrow> AList.update i (f\<lparr>file_reported := Some True\<rparr>) t
           | None \<Rightarrow> t) ids))
       else throw NotFound)"

definition delete_attachment :: "string \<Rightarrow> unit db_action" where
  "delete_attachment i = table_remove db_files db_files_update NotFound i"

section \<open>Messages\<close>

record message_filter =
  filter_channel :: "string option"
  filter_author :: "string option"
  filter_query :: "string option"
  filter_pinned :: "bool option"

definition insert_message :: "message \<Rightarrow> unit db_action" where
  "insert_message m =
     table_insert db_messages db_messages_update (DatabaseError ''insert'' ''message'') (msg_id m) m"

definition fetch_message :: "string \<Rightarrow> message db_action" where
  "fetch_message i = table_fetch db_messages NotFound i"

text \<open>The filter of \<open>fetch_messages\<close>; the limit and the time period of the query are not used. \<open>contains\<close> is
  the substring test.\<close>

definition contains_str :: "string \<Rightarrow> string \<Rightarrow> bool" where
  "contains_str s sub \<longleftrightarrow> (\<exists>i \<in> set [0..<Suc (length s)]. take (length sub) (drop i s) = sub)"

definition message_matches :: "(string \<Rightarrow> string) \<Rightarrow> message_filter \<Rightarrow> message \<Rightarrow> bool" where
  "message_matches lower f m =
     (if (case filter_channel f of Some c \<Rightarrow> msg_channel m \<noteq> c | None \<Rightarrow> False) then False
      else if (case filter_author f of Some a \<Rightarrow> msg_author m \<noteq> a | None \<Rightarrow> False) then False
      else if (case filter_query f of
                 Some q \<Rightarrow> (case msg_content m of Some c \<Rightarrow> \<not> contains_str (lower c) q | None \<Rightarrow> True)
               | None \<Rightarrow> False) then False
      else if (case filter_pinned f of
                 Some p \<Rightarrow> (case msg_pinned m of Some x \<Rightarrow> x | None \<Rightarrow> False) = p
               | None \<Rightarrow> False) then False
      else True)"

definition fetch_messages :: "(string \<Rightarrow> string) \<Rightarrow> message_filter \<Rightarrow> message list db_action" where
  "fetch_messages lower f = gets (\<lambda>d. filter (message_matches lower f) (hm_values (db_messages d)))"

definition fetch_messages_by_id :: "string list \<Rightarrow> message list db_action" where
  "fetch_messages_by_id ids = andthen (gets db_messages) (\<lambda>t. lift (lookup_all t NotFound ids))"

definition update_message :: "optional_structs \<Rightarrow> string \<Rightarrow> partial_message \<Rightarrow> fields_message list \<Rightarrow> unit db_action" where
  "update_message OS i partial remove =
     table_change db_messages db_messages_update NotFound i
       (\<lambda>m. fold message_remove_field remove (apply_message OS partial m))"

definition append_message :: "string \<Rightarrow> embed list option \<Rightarrow> unit db_action" where
  "append_message i append_embeds =
     table_change db_messages db_messages_update NotFound i
       (\<lambda>m. case append_embeds of
              Some es \<Rightarrow>
                if es \<noteq> [] then
                  (case msg_embeds m of
                     Some old \<Rightarrow> m\<lparr>msg_embeds := Some (old @ es)\<rparr>
                   | None \<Rightarrow> m\<lparr>msg_embeds := Some es\<rparr>)
                else m
            | None \<Rightarrow> m)"

text \<open>\<open>IndexSet::insert\<close> appends a new element; \<open>swap_remove\<close> fills the hole with the last one.\<close>

definition index_insert :: "'a \<Rightarrow> 'a list \<Rightarrow> 'a list" where
  "index_insert x xs = (if x \<in> set xs then xs else xs @ [x])"

fun swap_remove :: "('a \<Rightarrow> bool) \<Rightarrow> 'a list \<Rightarrow> 'a list" where
  "swap_remove P [] = []"
| "swap_remove P (x # xs) = (if P x then (if xs = [] then [] else last xs # butlast xs) else x # swap_remove P xs)"

definition db_add_reaction :: "string \<Rightarrow> string \<Rightarrow> string \<Rightarrow> unit db_action" where
  "db_add_reaction i emoji uid =
     table_change db_messages db_messages_update NotFound i
       (\<lambda>m. m\<lparr>msg_reactions :=
          (case map_of (msg_reactions m) emoji of
             Some us \<Rightarrow> AList.update emoji (index_insert uid us) (msg_reactions m)
           | None \<Rightarrow> AList.update emoji [uid] (msg_reactions m))\<rparr>)"

definition db_remove_reaction :: "string \<Rightarrow> string \<Rightarrow> string \<Rightarrow> unit db_action" where
  "db_remove_reaction i emoji uid =
     table_change db_messages db_messages_update NotFound i
       (\<lambda>m. case map_of (msg_reactions m) emoji of
              Some us \<Rightarrow> m\<lparr>msg_reactions := AList.update emoji (swap_remove (\<lambda>x. x = uid) us) (msg_reactions m)\<rparr>
            | None \<Rightarrow> m)"

definition db_clear_reaction :: "string \<Rightarrow> string \<Rightarrow> unit db_action" where
  "db_clear_reaction i emoji =
     table_change db_messages db_messages_update NotFound i
       (\<lambda>m. m\<lparr>msg_reactions := swap_remove (\<lambda>(e, us). e = emoji) (msg_reactions m)\<rparr>)"

definition delete_message :: "string \<Rightarrow> unit db_action" where
  "delete_message i = table_remove db_messages db_messages_update NotFound i"

definition delete_messages :: "string \<Rightarrow> string list \<Rightarrow> unit db_action" where
  "delete_messages channel ids =
     modify (db_messages_update (filter (\<lambda>(i, m). msg_channel m \<noteq> channel \<and> i \<notin> set ids)))"

text \<open>\<open>threshold\<close> is the text of the ULID made from the time; ids are compared as texts.\<close>

definition written_since :: "string list \<Rightarrow> string \<Rightarrow> string \<Rightarrow> string \<times> message \<Rightarrow> bool" where
  "written_since channels author threshold =
     (\<lambda>(i, m). msg_author m = author \<and> msg_channel m \<in> set channels \<and> threshold \<le> i)"

definition group_by_channel :: "(string \<times> message) list \<Rightarrow> (string, string list) hashmap" where
  "group_by_channel ms =
     fold (\<lambda>(i, m) acc. AList.update (msg_channel m)
             ((case map_of acc (msg_channel m) of Some ids \<Rightarrow> ids | None \<Rightarrow> []) @ [i]) acc) ms []"

definition delete_messages_by_author_since ::
    "string list \<Rightarrow> string \<Rightarrow> string \<Rightarrow> (string, string list) hashmap db_action" where
  "delete_messages_by_author_since channels author threshold =
     andthen (gets db_messages) (\<lambda>t.
       let gone = filter (written_since channels author threshold) t;
           files = concat (map (\<lambda>(i, m). case msg_attachments m of Some fs \<Rightarrow> map file_id fs | None \<Rightarrow> []) gone)
       in andthen (modify (db_files_update (map (\<lambda>(i, f). if i \<in> set files then (i, f\<lparr>file_deleted := Some True\<rparr>) else (i, f)))))
            (\<lambda>_. andthen (modify (db_messages_update (filter (\<lambda>e. \<not> written_since channels author threshold e))))
            (\<lambda>_. ret (group_by_channel gone))))"

section \<open>Emojis\<close>

definition insert_emoji :: "emoji \<Rightarrow> unit db_action" where
  "insert_emoji e = table_insert db_emojis db_emojis_update (DatabaseError ''insert'' ''emoji'') (emoji_id e) e"

definition fetch_emoji :: "string \<Rightarrow> emoji db_action" where
  "fetch_emoji i = table_fetch db_emojis NotFound i"

definition fetch_emoji_by_parent_id :: "string \<Rightarrow> emoji list db_action" where
  "fetch_emoji_by_parent_id p = gets (\<lambda>d. filter (\<lambda>e. emoji_parent e = EmojiServer p) (hm_values (db_emojis d)))"

definition fetch_emoji_by_parent_ids :: "string list \<Rightarrow> emoji list db_action" where
  "fetch_emoji_by_parent_ids ps =
     gets (\<lambda>d. filter (\<lambda>e. case emoji_parent e of EmojiServer i \<Rightarrow> i \<in> set ps | EmojiDetached \<Rightarrow> False)
                 (hm_values (db_emojis d)))"

definition detach_emoji :: "emoji \<Rightarrow> unit db_action" where
  "detach_emoji e =
     table_change db_emojis db_emojis_update NotFound (emoji_id e) (\<lambda>x. x\<lparr>emoji_parent := EmojiDetached\<rparr>)"

section \<open>Bots\<close>

definition insert_bot :: "bot_account \<Rightarrow> unit db_action" where
  "insert_bot b = table_insert db_bots db_bots_update (DatabaseError ''insert'' ''bot'') (botacc_id b) b"

definition fetch_bot :: "string \<Rightarrow> bot_account db_action" where
  "fetch_bot i = table_fetch db_bots NotFound i"

definition find_bot :: "(bot_account \<Rightarrow> bool) \<Rightarrow> bot_account db_action" where
  "find_bot P =
     andthen (gets db_bots) (\<lambda>t. case List.find P (hm_values t) of Some b \<Rightarrow> ret b | None \<Rightarrow> throw NotFound)"

definition fetch_bot_by_token :: "string \<Rightarrow> bot_account db_action" where
  "fetch_bot_by_token token = find_bot (\<lambda>b. botacc_token b = token)"

definition fetch_bot_by_oauth2_client_id :: "string \<Rightarrow> bot_account db_action" where
  "fetch_bot_by_oauth2_client_id client_id = find_bot (\<lambda>b. botacc_oauth2_client_id b = Some client_id)"

definition fetch_bots_by_user :: "string \<Rightarrow> bot_account list db_action" where
  "fetch_bots_by_user uid = gets (\<lambda>d. filter (\<lambda>b. botacc_owner b = uid) (hm_values (db_bots d)))"

definition get_number_of_bots_by_user :: "string \<Rightarrow> nat db_action" where
  "get_number_of_bots_by_user uid = gets (\<lambda>d. length (filter (\<lambda>b. botacc_owner b = uid) (hm_values (db_bots d))))"

definition update_bot :: "optional_structs \<Rightarrow> string \<Rightarrow> string \<Rightarrow> partial_bot \<Rightarrow> fields_bot list \<Rightarrow> unit db_action" where
  "update_bot OS fresh i partial remove =
     table_change db_bots db_bots_update NotFound i (\<lambda>b. apply_bot OS partial (fold (bot_remove_field fresh) remove b))"

definition delete_bot :: "string \<Rightarrow> unit db_action" where
  "delete_bot i = table_remove db_bots db_bots_update NotFound i"

section \<open>Webhooks\<close>

definition insert_webhook :: "webhook \<Rightarrow> unit db_action" where
  "insert_webhook h =
     table_insert db_channel_webhooks db_channel_webhooks_update (DatabaseError ''insert'' ''webhook'') (webhook_id h) h"

definition fetch_webhook :: "string \<Rightarrow> webhook db_action" where
  "fetch_webhook i = table_fetch db_channel_webhooks NotFound i"

definition fetch_webhooks_for_channel :: "string \<Rightarrow> webhook list db_action" where
  "fetch_webhooks_for_channel cid =
     gets (\<lambda>d. filter (\<lambda>h. webhook_channel_id h = cid) (hm_values (db_channel_webhooks d)))"

definition update_webhook :: "optional_structs \<Rightarrow> string \<Rightarrow> partial_webhook \<Rightarrow> fields_webhook list \<Rightarrow> unit db_action" where
  "update_webhook OS i partial remove =
     table_change db_channel_webhooks db_channel_webhooks_update NotFound i
       (\<lambda>h. apply_webhook OS partial (fold webhook_remove_field remove h))"

definition delete_webhook :: "string \<Rightarrow> unit db_action" where
  "delete_webhook i = table_remove db_channel_webhooks db_channel_webhooks_update NotFound i"

section \<open>Unreads\<close>

definition acknowledge_message :: "string \<Rightarrow> string \<Rightarrow> string \<Rightarrow> channel_unread option db_action" where
  "acknowledge_message cid uid message_id =
     (let key = \<lparr>ckey_channel = cid, ckey_user = uid\<rparr> in
      andthen (modify (db_channel_unreads_update (\<lambda>t.
        case map_of t key of
          Some unread \<Rightarrow> AList.update key (unread\<lparr>unread_mentions := None, unread_last_id := Some message_id\<rparr>) t
        | None \<Rightarrow> AList.update key \<lparr>unread_id = key, unread_last_id = Some message_id, unread_mentions = None\<rparr> t))) (\<lambda>_.
      gets (\<lambda>d. map_of (db_channel_unreads d) key)))"

text \<open>\<open>current_time\<close> is the text of a new ULID.\<close>

definition acknowledge_channels :: "string \<Rightarrow> string \<Rightarrow> string list \<Rightarrow> unit db_action" where
  "acknowledge_channels current_time uid cids =
     for_each (\<lambda>cid. andthen (acknowledge_message cid uid current_time) (\<lambda>_. ret ())) cids"

definition put_mentions :: "string \<Rightarrow> string list \<Rightarrow> string \<Rightarrow> ref_db \<Rightarrow> ref_db" where
  "put_mentions cid message_ids uid =
     (let key = \<lparr>ckey_channel = cid, ckey_user = uid\<rparr> in
      db_channel_unreads_update (\<lambda>t.
        case map_of t key of
          Some unread \<Rightarrow> AList.update key (unread\<lparr>unread_mentions := Some message_ids\<rparr>) t
        | None \<Rightarrow> AList.update key \<lparr>unread_id = key, unread_last_id = None, unread_mentions = Some message_ids\<rparr> t))"

definition add_mention_to_unread :: "string \<Rightarrow> string \<Rightarrow> string list \<Rightarrow> unit db_action" where
  "add_mention_to_unread cid uid message_ids = modify (put_mentions cid message_ids uid)"

definition add_mention_to_many_unreads :: "string \<Rightarrow> string list \<Rightarrow> string list \<Rightarrow> unit db_action" where
  "add_mention_to_many_unreads cid uids message_ids = modify (fold (put_mentions cid message_ids) uids)"

definition fetch_unread_mentions :: "string \<Rightarrow> channel_unread list db_action" where
  "fetch_unread_mentions uid =
     gets (\<lambda>d. filter (\<lambda>r. ckey_user (unread_id r) = uid \<and> unread_mentions r \<noteq> None) (hm_values (db_channel_unreads d)))"

definition fetch_unreads :: "string \<Rightarrow> channel_unread list db_action" where
  "fetch_unreads uid = gets (\<lambda>d. filter (\<lambda>r. ckey_user (unread_id r) = uid) (hm_values (db_channel_unreads d)))"

definition fetch_unread :: "string \<Rightarrow> string \<Rightarrow> channel_unread option db_action" where
  "fetch_unread uid cid = gets (\<lambda>d. map_of (db_channel_unreads d) \<lparr>ckey_channel = cid, ckey_user = uid\<rparr>)"

section \<open>Settings, policy changes and rate limit events\<close>

definition fetch_user_settings :: "string \<Rightarrow> string list \<Rightarrow> user_settings db_action" where
  "fetch_user_settings i keys =
     andthen (gets db_user_settings) (\<lambda>t.
       case map_of t i of
         Some settings \<Rightarrow> ret (filter (\<lambda>(k, v). k \<in> set keys) settings)
       | None \<Rightarrow> throw NotFound)"

text \<open>In the first branch the name \<open>settings\<close> is bound to the stored map, which is extended with a copy of
  itself: the new settings are not used.\<close>

definition set_user_settings :: "string \<Rightarrow> user_settings \<Rightarrow> unit db_action" where
  "set_user_settings i new_settings =
     modify (db_user_settings_update (\<lambda>t.
       case map_of t i of
         Some settings \<Rightarrow> AList.update i (fold (\<lambda>(k, v). AList.update k v) settings settings) t
       | None \<Rightarrow> AList.update i new_settings t))"

definition delete_user_settings :: "string \<Rightarrow> unit db_action" where
  "delete_user_settings i = table_remove db_user_settings db_user_settings_update NotFound i"

definition fetch_policy_changes :: "policy_change list db_action" where
  "fetch_policy_changes = gets (\<lambda>d. hm_values (db_policy_changes d))"

definition acknowledge_policy_changes :: "string \<Rightarrow> unit db_action" where
  "acknowledge_policy_changes uid =
     andthen (gets db_users) (\<lambda>us.
       case map_of us uid of
         None \<Rightarrow> panic
       | Some u \<Rightarrow>
           andthen fetch_policy_changes (\<lambda>ps.
           modify (db_users_update (AList.update uid (u\<lparr>last_acknowledged_policy_change :=
             (if ps = [] then 0 else Max (set (map policy_created_time ps)))\<rparr>)))))"

definition insert_ratelimit_event :: "ratelimit_event \<Rightarrow> unit db_action" where
  "insert_ratelimit_event e =
     table_insert db_ratelimit_events db_ratelimit_events_update (DatabaseError ''insert'' ''message'') (rlevent_id e) e"

text \<open>\<open>threshold\<close> is the ULID of the start of the period; ids are compared as texts.\<close>

definition has_ratelimited :: "string \<Rightarrow> string \<Rightarrow> ratelimit_event_type \<Rightarrow> nat \<Rightarrow> bool db_action" where
  "has_ratelimited threshold target ty limit =
     gets (\<lambda>d. length (filter (\<lambda>(i, e). threshold < i \<and> rlevent_target_id e = target \<and> rlevent_type e = ty)
                         (db_ratelimit_events d)) \<ge> limit)"

section \<open>Files in use\<close>

text \<open>The functions \<open>File::use_*\<close>: each claims a file with the tag of its purpose for a parent object.\<close>

definition use_attachment :: "string \<Rightarrow> string \<Rightarrow> string \<Rightarrow> stored_file db_action" where
  "use_attachment i parent uploader =
     find_and_use_attachment i ''attachments'' \<lparr>object_type = UsedMessage, used_id = parent\<rparr> uploader"

definition use_background :: "string \<Rightarrow> string \<Rightarrow> string \<Rightarrow> stored_file db_action" where
  "use_background i parent uploader =
     find_and_use_attachment i ''backgrounds'' \<lparr>object_type = UsedUserProfileBackground, used_id = parent\<rparr> uploader"

definition use_user_avatar :: "string \<Rightarrow> string \<Rightarrow> string \<Rightarrow> stored_file db_action" where
  "use_user_avatar i parent uploader =
     find_and_use_attachment i ''avatars'' \<lparr>object_type = UsedUserAvatar, used_id = parent\<rparr> uploader"

definition use_webhook_avatar :: "string \<Rightarrow> string \<Rightarrow> string \<Rightarrow> stored_file db_action" where
  "use_webhook_avatar i parent uploader =
     find_and_use_attachment i ''avatars'' \<lparr>object_type = UsedWebhookAvatar, used_id = parent\<rparr> uploader"

definition use_server_icon :: "string \<Rightarrow> string \<Rightarrow> string \<Rightarrow> stored_file db_action" where
  "use_server_icon i parent uploader =
     find_and_use_attachment i ''icons'' \<lparr>object_type = UsedServerIcon, used_id = parent\<rparr> uploader"

definition use_channel_icon :: "string \<Rightarrow> string \<Rightarrow> string \<Rightarrow> stored_file db_action" where
  "use_channel_icon i parent uploader =
     find_and_use_attachment i ''icons'' \<lparr>object_type = UsedChannelIcon, used_id = parent\<rparr> uploader"

definition use_server_banner :: "string \<Rightarrow> string \<Rightarrow> string \<Rightarrow> stored_file db_action" where
  "use_server_banner i parent uploader =
     find_and_use_attachment i ''banners'' \<lparr>object_type = UsedServerBanner, used_id = parent\<rparr> uploader"

definition use_emoji :: "string \<Rightarrow> string \<Rightarrow> string \<Rightarrow> stored_file db_action" where
  "use_emoji i parent uploader =
     find_and_use_attachment i ''emojis'' \<lparr>object_type = UsedEmoji, used_id = parent\<rparr> uploader"

end
