(* ===== verification/Parser.thy ===== *)
theory Parser
  imports Prelude
begin

text \<open>
  \<open>crates/core/parser/src/lib.rs\<close>: which mentions a message contains. The lexer is generated by the crate
  \<open>logos\<close> from the regular expressions on \<open>MessageToken\<close>; it is the parameter \<open>lexer\<close>, a function from the
  text to the list of its tokens, in which a character that starts no token is an error
  (\<open>Inl ()\<close>). Everything behind the lexer is modelled: the iterator with its queue, and the collection
  of the results.
\<close>

section \<open>Tokens and the iterator\<close>

datatype message_token =
    Escape
  | CodeblockMarker nat
  | UserMention string
  | RoleMention string
  | ChannelMention string
  | Emoji string
  | MentionEveryone
  | MentionOnline

record message_results =
  user_mentions :: "string set"
  role_mentions :: "string set"
  channel_mentions :: "string set"
  emojis :: "string set"
  mentions_everyone :: bool
  mentions_online :: bool

definition message_results_default :: message_results where
  "message_results_default =
     \<lparr>user_mentions = {}, role_mentions = {}, channel_mentions = {}, emojis = {},
      mentions_everyone = False, mentions_online = False\<rparr>"

record parser_iterator =
  inner :: "message_token list"
  temp :: "message_token list"

text \<open>The loop behind a code block marker: it collects tokens in the queue until the closing marker or
  the end of the text.\<close>

fun scan_block :: "nat \<Rightarrow> message_token list \<Rightarrow> message_token list \<Rightarrow> message_token option \<times> parser_iterator" where
  "scan_block ty [] queue = (Some (CodeblockMarker ty), \<lparr>inner = [], temp = queue\<rparr>)"
| "scan_block ty (token # rest) queue =
     (if token = CodeblockMarker ty
      then (Some token, \<lparr>inner = rest, temp = [CodeblockMarker ty]\<rparr>)
      else scan_block ty rest (queue @ [token]))"

text \<open>\<open>Iterator::next\<close>.\<close>

definition parser_next :: "parser_iterator \<Rightarrow> message_token option \<times> parser_iterator" where
  "parser_next it =
     (case temp it of
        token # queue \<Rightarrow> (Some token, it\<lparr>temp := queue\<rparr>)
      | [] \<Rightarrow>
          (case inner it of
             [] \<Rightarrow> (None, it)
           | Escape # rest \<Rightarrow> (Some Escape, it\<lparr>inner := drop 1 rest\<rparr>)
           | CodeblockMarker ty # rest \<Rightarrow> scan_block ty rest (temp it)
           | token # rest \<Rightarrow> (Some token, it\<lparr>inner := rest\<rparr>)))"

definition pending :: "parser_iterator \<Rightarrow> nat" where
  "pending it = length (inner it) + length (temp it)"

lemma scan_block_pending:
  "pending (snd (scan_block ty rest queue)) \<le> length rest + length queue"
  by (induction ty rest queue rule: scan_block.induct) (auto simp: pending_def)

lemma parser_next_pending: "parser_next it = (Some token, it') \<Longrightarrow> pending it' < pending it"
  using scan_block_pending [of _ "tl (inner it)" "temp it"]
  by (auto simp: parser_next_def pending_def split: list.splits message_token.splits) (metis snd_conv le_imp_less_Suc add_0_right)+

text \<open>Running the iterator to its end.\<close>

function collect_tokens :: "parser_iterator \<Rightarrow> message_token list" where
  "collect_tokens it =
     (case parser_next it of (Some token, it') \<Rightarrow> token # collect_tokens it' | (None, _) \<Rightarrow> [])"
  by pat_completeness auto
termination
  by (relation "measure pending") (auto dest!: sym [THEN parser_next_pending])

declare collect_tokens.simps [simp del]

text \<open>\<open>MessageToken::lexer(text).flatten()\<close> drops the errors.\<close>

definition flatten :: "(unit + message_token) list \<Rightarrow> message_token list" where
  "flatten xs = List.map_filter (\<lambda>r. case r of Inl _ \<Rightarrow> None | Inr token \<Rightarrow> Some token) xs"

lemma flatten_simps [simp]:
  "flatten [] = []" "flatten (Inl u # xs) = flatten xs" "flatten (Inr t # xs) = t # flatten xs"
  by (simp_all add: flatten_def map_filter_simps)

lemma flatten_append [simp]: "flatten (map Inr ts @ xs) = ts @ flatten xs"
  by (induction ts) simp_all

lemma flatten_errors [simp]: "flatten (replicate n (Inl ()) @ xs) = flatten xs"
  by (induction n) simp_all

definition parse_message_iter :: "(string \<Rightarrow> (unit + message_token) list) \<Rightarrow> string \<Rightarrow> message_token list" where
  "parse_message_iter lexer txt = collect_tokens \<lparr>inner = flatten (lexer txt), temp = []\<rparr>"

fun add_token :: "message_token \<Rightarrow> message_results \<Rightarrow> message_results" where
  "add_token Escape r = r"
| "add_token (CodeblockMarker _) r = r"
| "add_token (UserMention i) r = r\<lparr>user_mentions := insert i (user_mentions r)\<rparr>"
| "add_token (RoleMention i) r = r\<lparr>role_mentions := insert i (role_mentions r)\<rparr>"
| "add_token (ChannelMention i) r = r\<lparr>channel_mentions := insert i (channel_mentions r)\<rparr>"
| "add_token (Emoji i) r = r\<lparr>emojis := insert i (emojis r)\<rparr>"
| "add_token MentionEveryone r = r\<lparr>mentions_everyone := True\<rparr>"
| "add_token MentionOnline r = r\<lparr>mentions_online := True\<rparr>"

definition parse_message :: "(string \<Rightarrow> (unit + message_token) list) \<Rightarrow> string \<Rightarrow> message_results" where
  "parse_message lexer txt = fold add_token (parse_message_iter lexer txt) message_results_default"

section \<open>What the iterator emits\<close>

text \<open>A reference definition on the token list, without a queue: an escape hides the next token, a closed
  code block hides its contents, and an unclosed marker lets everything behind it through as it
  stands.\<close>

function (sequential) emitted :: "message_token list \<Rightarrow> message_token list" where
  "emitted [] = []"
| "emitted (Escape # rest) = Escape # emitted (drop 1 rest)"
| "emitted (CodeblockMarker ty # rest) =
     (if CodeblockMarker ty \<in> set rest
      then CodeblockMarker ty # CodeblockMarker ty # emitted (tl (dropWhile (\<lambda>t. t \<noteq> CodeblockMarker ty) rest))
      else CodeblockMarker ty # rest)"
| "emitted (token # rest) = token # emitted rest"
  by pat_completeness auto
termination
proof (relation "measure length", goal_cases)
  case (3 ty rest)
  show ?case by (simp add: less_Suc_eq_le) (meson diff_le_self length_dropWhile_le order_trans)
qed simp_all

lemma scan_block_eq:
  "scan_block ty rest queue =
     (Some (CodeblockMarker ty),
      if CodeblockMarker ty \<in> set rest
      then \<lparr>inner = tl (dropWhile (\<lambda>t. t \<noteq> CodeblockMarker ty) rest), temp = [CodeblockMarker ty]\<rparr>
      else \<lparr>inner = [], temp = queue @ rest\<rparr>)"
  by (induction ty rest queue rule: scan_block.induct) auto

lemma collect_queue: "collect_tokens \<lparr>inner = xs, temp = q\<rparr> = q @ collect_tokens \<lparr>inner = xs, temp = []\<rparr>"
proof (induction q)
  case (Cons token q)
  have "collect_tokens \<lparr>inner = xs, temp = token # q\<rparr> = token # collect_tokens \<lparr>inner = xs, temp = q\<rparr>"
    by (subst collect_tokens.simps) (simp add: parser_next_def)
  with Cons show ?case by simp
qed simp

lemma collect_emitted: "collect_tokens \<lparr>inner = xs, temp = []\<rparr> = emitted xs"
proof (induction xs rule: emitted.induct)
  case (3 ty rest)
  then show ?case
    by (subst collect_tokens.simps)
      (simp add: parser_next_def scan_block_eq collect_queue [of _ "[_]"] collect_queue [of "[]" rest]
        collect_tokens.simps [of "\<lparr>inner = [], temp = []\<rparr>"])
qed (subst collect_tokens.simps, simp add: parser_next_def)+

text \<open>C30: the iterator with its queue emits exactly the tokens of the reference definition, for every text
  and every lexer.\<close>

theorem parse_message_iter_emitted:
  "parse_message_iter lexer txt = emitted (flatten (lexer txt))"
  by (simp add: parse_message_iter_def collect_emitted)

section \<open>Mentions\<close>

lemma fold_add_token:
  "user_mentions (fold add_token ts r) = user_mentions r \<union> {i. UserMention i \<in> set ts}"
  "role_mentions (fold add_token ts r) = role_mentions r \<union> {i. RoleMention i \<in> set ts}"
  "channel_mentions (fold add_token ts r) = channel_mentions r \<union> {i. ChannelMention i \<in> set ts}"
  "emojis (fold add_token ts r) = emojis r \<union> {i. Emoji i \<in> set ts}"
  "mentions_everyone (fold add_token ts r) \<longleftrightarrow> mentions_everyone r \<or> MentionEveryone \<in> set ts"
  "mentions_online (fold add_token ts r) \<longleftrightarrow> mentions_online r \<or> MentionOnline \<in> set ts"
proof (induction ts arbitrary: r)
  case (Cons t ts)
  { case 1 show ?case using Cons.IH(1) by (cases t) auto }
  { case 2 show ?case using Cons.IH(2) by (cases t) auto }
  { case 3 show ?case using Cons.IH(3) by (cases t) auto }
  { case 4 show ?case using Cons.IH(4) by (cases t) auto }
  { case 5 show ?case using Cons.IH(5) by (cases t) auto }
  { case 6 show ?case using Cons.IH(6) by (cases t) auto }
qed auto

text \<open>The tokens that count; the others never change the results.\<close>

fun is_mention :: "message_token \<Rightarrow> bool" where
  "is_mention Escape = False"
| "is_mention (CodeblockMarker _) = False"
| "is_mention _ = True"

lemma fold_add_token_cong:
  assumes "\<And>t. is_mention t \<Longrightarrow> t \<in> set xs \<longleftrightarrow> t \<in> set ys"
  shows "fold add_token xs r = fold add_token ys r"
  by (rule message_results.equality) (simp_all add: fold_add_token assms)

lemma emitted_append:
  "\<forall>t \<in> set pre. is_mention t \<Longrightarrow> emitted (pre @ xs) = pre @ emitted xs"
proof (induction pre)
  case (Cons t pre)
  then show ?case by (cases t) auto
qed simp

lemma dropWhile_to_marker:
  "CodeblockMarker ty \<notin> set body \<Longrightarrow>
   tl (dropWhile (\<lambda>t. t \<noteq> CodeblockMarker ty) (body @ CodeblockMarker ty # post)) = post"
  by (induction body) auto

text \<open>nothing between two code block markers of the same kind is a mention, whatever it is: the message
  has the results of the text with the whole block taken out.\<close>

theorem code_block_hides_mentions:
  assumes "flatten (lexer txt) = pre @ CodeblockMarker ty # body @ CodeblockMarker ty # post"
    and "\<forall>t \<in> set pre. is_mention t" and "CodeblockMarker ty \<notin> set body"
    and "flatten (lexer txt') = pre @ post"
  shows "parse_message lexer txt = parse_message lexer txt'"
  unfolding parse_message_def parse_message_iter_def collect_emitted
proof (rule fold_add_token_cong)
  fix t assume "is_mention t"
  moreover have "emitted (pre @ ys) = pre @ emitted ys" for ys using assms(2) by (rule emitted_append)
  ultimately show "t \<in> set (emitted (flatten (lexer txt))) \<longleftrightarrow> t \<in> set (emitted (flatten (lexer txt')))"
    using dropWhile_to_marker [OF assms(3)] by (auto simp: assms(1,4))
qed

theorem code_block_hides_mentions_witness:
  "parse_message (\<lambda>s. if s = ''a'' then [Inr (UserMention ''A''), Inr (CodeblockMarker 1), Inl (), Inr MentionEveryone,
       Inr (CodeblockMarker 1), Inr (UserMention ''B'')] else [Inr (UserMention ''A''), Inr (UserMention ''B'')]) ''a''
   = message_results_default\<lparr>user_mentions := {''A'', ''B''}\<rparr>"
  by (subst code_block_hides_mentions [where txt' = "''b''" and pre = "[UserMention ''A'']" and ty = 1
        and body = "[MentionEveryone]" and post = "[UserMention ''B'']"])
    (simp_all add: parse_message_def parse_message_iter_def collect_emitted
      message_results_default_def insert_commute)

text \<open>an escape hides the next token of the message, no matter how much plain text stands between them,
  because the errors of the lexer are dropped before the iterator sees them.\<close>

theorem escape_hides_next_token:
  assumes "lexer txt = map Inr pre @ Inr Escape # replicate n (Inl ()) @ Inr token # rest"
    and "\<forall>t \<in> set pre. is_mention t"
  shows "parse_message lexer txt = parse_message (\<lambda>_. map Inr pre @ rest) txt"
proof -
  have "flatten (lexer txt) = pre @ Escape # token # flatten rest" by (simp add: assms(1))
  moreover have "emitted (pre @ ys) = pre @ emitted ys" for ys using assms(2) by (rule emitted_append)
  ultimately show ?thesis
    unfolding parse_message_def parse_message_iter_def collect_emitted
    by (intro fold_add_token_cong) auto
qed

theorem escape_hides_next_token_witness:
  "parse_message (\<lambda>_. map Inr [] @ Inr Escape # replicate 40 (Inl ()) @ Inr MentionEveryone # []) ''a'' = message_results_default"
  by (subst escape_hides_next_token [OF refl])
    (simp_all add: parse_message_def parse_message_iter_def collect_emitted)

text \<open>behind a code block marker that is never closed every token counts, also one that is escaped or
  stands inside a closed code block of another kind.\<close>

theorem unclosed_marker_emits_all:
  assumes "flatten (lexer txt) = pre @ CodeblockMarker ty # rest"
    and "\<forall>t \<in> set pre. is_mention t" and "CodeblockMarker ty \<notin> set rest"
  shows "user_mentions (parse_message lexer txt) = {i. UserMention i \<in> set (pre @ rest)}
    \<and> (mentions_everyone (parse_message lexer txt) \<longleftrightarrow> MentionEveryone \<in> set (pre @ rest))"
proof -
  have "emitted (flatten (lexer txt)) = pre @ CodeblockMarker ty # rest"
    using assms by (simp add: emitted_append)
  then show ?thesis
    by (auto simp: parse_message_def parse_message_iter_def collect_emitted fold_add_token message_results_default_def)
qed

theorem unclosed_marker_emits_all_witness:
  "mentions_everyone (parse_message (\<lambda>_. [Inr (CodeblockMarker 3), Inr Escape, Inr MentionEveryone]) ''a'')"
  using unclosed_marker_emits_all [of "\<lambda>_. [Inr (CodeblockMarker 3), Inr Escape, Inr MentionEveryone]" "''a''" "[]" 3
      "[Escape, MentionEveryone]"]
  by simp

end
