(* ===== verification/World.thy ===== *)
theory World
  imports Reference_Db Parser
begin

text \<open>
  The state that the operations of the models change: the database, the events published to the
  clients (\<open>crates/core/database/src/events/client.rs\<close>), the messages handed to the push daemon
  (\<open>amqp/amqp.rs\<close>), the entries of the background task queues, the keys in Redis that hold the voice states and
  the calls made to the LiveKit servers. Publishing is modelled as appending to a log; the topic is the string the source
  passes to Redis. An event carries the database objects; the conversion to the wire format of
  \<open>crates/core/models\<close> reads but changes nothing and is left out.

  \<open>env\<close> collects what the operations read from outside: the clock, the configured limits, the functions
  of the derive macro, the time inside an ULID and the ULID of a time, the list of Unicode emojis, the commands of the Redis client and
  the answers of the LiveKit servers, whether a user is online (\<open>revolt_presence::is_online\<close>), the lexer of
  the message parser, the order in which a hash set is iterated and two settings.
\<close>

section \<open>Events\<close>

text \<open>The voice state of a user (\<open>UserVoiceState\<close> of \<open>crates/core/models/src/v0/users.rs\<close>) and a change of it.\<close>

record user_voice_state =
  vs_id :: string
  vs_joined_at :: timestamp
  vs_is_receiving :: bool
  vs_is_publishing :: bool
  vs_screensharing :: bool
  vs_camera :: bool

record partial_voice_state =
  pvs_id :: "string option"
  pvs_joined_at :: "timestamp option"
  pvs_is_receiving :: "bool option"
  pvs_is_publishing :: "bool option"
  pvs_screensharing :: "bool option"
  pvs_camera :: "bool option"

text \<open>The variants of \<open>EventV1\<close> that the modelled operations publish. \<open>UserRelationship\<close> carries the user
  and the user from whose perspective it is rendered.\<close>

datatype event_v1 =
    ServerCreate string server "channel list" "emoji list" "(string \<times> user_voice_state list) list"
  | ServerUpdate string partial_server "fields_server list"
  | ServerDelete string
  | ServerMemberUpdate member_composite_key partial_member "fields_member list"
  | ServerMemberJoin string string member
  | ServerMemberLeave string string removal_intention
  | ServerRoleUpdate string string partial_role "fields_role list"
  | ServerRoleDelete string string
  | ServerRoleRanksUpdate string "string list"
  | UserUpdate string partial_user "fields_user list" "string option"
  | UserRelationship string user user
  | ChannelCreate channel
  | ChannelUpdate string partial_channel "fields_channel list"
  | ChannelDelete string
  | ChannelGroupJoin string string
  | ChannelGroupLeave string string
  | MessageCreate message
  | MessageUpdate string string partial_message "fields_message list"
  | MessageAppend string string "embed list option"
  | MessageDelete string string
  | MessageReact string string string string
  | MessageUnreact string string string string
  | MessageRemoveReaction string string string
  | BulkMessageDelete string "string list"
  | EmojiCreate emoji
  | EmojiDelete string
  | ChannelAck string string string
  | WebhookCreate webhook
  | WebhookUpdate string partial_webhook "fields_webhook list"
  | WebhookDelete string
  | UserSettingsUpdate string user_settings
  | UserPlatformWipe string int
  | Logout
  | VoiceChannelJoin string user_voice_state
  | VoiceChannelLeave string string
  | VoiceChannelMove string string string user_voice_state
  | UserVoiceStateUpdate string string partial_voice_state
  | UserMoveVoiceChannel string string string string

datatype amqp_payload =
    FRAcceptedPayload user string
  | FRReceivedPayload user string
  | AckPayload string string string
  | MessageSentPayload "string list" message
  | MassMentionPayload string "message list"

text \<open>The entries of the background task queues (\<open>tasks/last_message_id.rs\<close>, \<open>tasks/ack.rs\<close>,
  \<open>tasks/process_embeds.rs\<close>). An \<open>AckMessage\<close> entry has the recipients, whether a push notification is
  attached and whether the mentions are silenced.\<close>

datatype task =
    TaskLastMessageId string string bool
  | TaskAckMessage string message "string list" bool bool
  | TaskProcessEmbeds string string string
  | TaskAck string string string

text \<open>What a key of Redis holds, and the commands that the voice code sends: \<open>SADD\<close>, \<open>SREM\<close>, \<open>SET\<close>, \<open>SETEX\<close>
  and \<open>DEL\<close>, alone or in a pipeline. The conversions of the Redis client between Rust values and bytes are
  not part of the sources; a value is what was stored.\<close>

datatype redis_value =
    RString string
  | RBool bool
  | RInt int
  | RStrings "string list"
  | RSet "string list"

type_synonym keyspace = "string \<Rightarrow> redis_value option"

datatype redis_command =
    Sadd string string
  | Srem string string
  | SetKey string redis_value
  | SetEx string redis_value nat
  | Del "string list"
  | Smove string string string

text \<open>The calls to a LiveKit server: the node, the room (the id of the channel) and what the call is about. The
  three flags of \<open>UpdateParticipant\<close> are \<open>can_subscribe\<close>, \<open>can_publish\<close> and \<open>can_publish_data\<close>.\<close>

datatype livekit_call =
    CreateRoom string string "string option"
  | UpdateParticipant string string string bool bool bool
  | RemoveParticipant string string string
  | DeleteRoom string string

record world =
  db :: ref_db
  events :: "(string \<times> event_v1) list"
  amqp :: "amqp_payload list"
  tasks :: "task list"
  redis :: keyspace
  livekit :: "livekit_call list"
  nonce_cache :: "string list"

type_synonym 'a world_action = "(world, error_type, 'a) action"

definition on_db :: "'a db_action \<Rightarrow> 'a world_action" where
  "on_db m w = (case m (db w) of (r, d) \<Rightarrow> (r, w\<lparr>db := d\<rparr>))"

text \<open>\<open>EventV1::p\<close>, \<open>private\<close>, \<open>server\<close> and \<open>p_user\<close>.\<close>

definition publish :: "event_v1 \<Rightarrow> string \<Rightarrow> unit world_action" where
  "publish ev topic = modify (\<lambda>w. w\<lparr>events := events w @ [(topic, ev)]\<rparr>)"

definition publish_private :: "event_v1 \<Rightarrow> string \<Rightarrow> unit world_action" where
  "publish_private ev i = publish ev (i @ ''!'')"

definition publish_server :: "event_v1 \<Rightarrow> string \<Rightarrow> unit world_action" where
  "publish_server ev i = publish ev (i @ ''u'')"

definition publish_user :: "event_v1 \<Rightarrow> string \<Rightarrow> unit world_action" where
  "publish_user ev i =
     andthen (publish ev i) (\<lambda>_.
     andthen (attempt (on_db (fetch_all_memberships i))) (\<lambda>members.
       case members of
         Some ms \<Rightarrow> for_each (\<lambda>m. publish_server ev (key_server (member_id m))) ms
       | None \<Rightarrow> ret ()))"

definition queue_task :: "task \<Rightarrow> unit world_action" where
  "queue_task t = modify (\<lambda>w. w\<lparr>tasks := tasks w @ [t]\<rparr>)"

text \<open>\<open>AMQP::friend_request_accepted\<close> and \<open>friend_request_received\<close>; the callers ignore the result.\<close>

definition friend_request_accepted :: "user \<Rightarrow> user \<Rightarrow> unit world_action" where
  "friend_request_accepted accepted_user sent_user =
     modify (\<lambda>w. w\<lparr>amqp := amqp w @ [FRAcceptedPayload accepted_user (user_id sent_user)]\<rparr>)"

definition friend_request_received :: "user \<Rightarrow> user \<Rightarrow> unit world_action" where
  "friend_request_received received_user sent_user =
     modify (\<lambda>w. w\<lparr>amqp := amqp w @ [FRReceivedPayload sent_user (user_id received_user)]\<rparr>)"

section \<open>Configuration\<close>

record features_limits =
  outgoing_friend_requests :: nat
  limit_bots :: nat
  message_length :: nat
  message_attachments :: nat
  limit_servers :: nat
  limit_video :: bool

record global_limits =
  group_size :: nat
  message_embeds :: nat
  message_replies :: nat
  message_reactions :: nat
  server_emoji :: nat
  limit_server_roles :: nat
  limit_server_channels :: nat
  new_user_hours :: nat
  restrict_server_creation :: "string list"

text \<open>The Redis client: a connection may be refused, and a command may fail (\<open>None\<close>), which the callers turn into
  \<open>InternalError\<close>. The LiveKit client: the configured nodes, whether a server accepts a call after the
  calls made before, and the token it signs.\<close>

record redis_client =
  redis_connect :: "keyspace \<Rightarrow> bool"
  redis_exec :: "redis_command list \<Rightarrow> keyspace \<Rightarrow> unit option \<times> keyspace"
  redis_get :: "string \<Rightarrow> keyspace \<Rightarrow> redis_value option option"
  redis_get_del :: "string \<Rightarrow> keyspace \<Rightarrow> redis_value option option \<times> keyspace"
  redis_sismember :: "string \<Rightarrow> string \<Rightarrow> keyspace \<Rightarrow> bool option"
  redis_scard :: "string \<Rightarrow> keyspace \<Rightarrow> nat option"
  redis_smembers :: "string \<Rightarrow> keyspace \<Rightarrow> string list option"
  redis_set_nx :: "string \<Rightarrow> redis_value \<Rightarrow> nat \<Rightarrow> keyspace \<Rightarrow> bool option \<times> keyspace"
  redis_ttl :: "string \<Rightarrow> keyspace \<Rightarrow> int option"

record livekit_client =
  livekit_nodes :: "string list"
  livekit_accepts :: "livekit_call list \<Rightarrow> livekit_call \<Rightarrow> bool"
  livekit_token :: "string \<Rightarrow> user \<Rightarrow> string list \<Rightarrow> bool \<Rightarrow> string \<Rightarrow> string option"

record env =
  env_now :: timestamp
  env_structs :: optional_structs
  env_ulid_datetime :: "string \<Rightarrow> timestamp option"
  env_ulid_at :: "timestamp \<Rightarrow> string"
  env_global :: global_limits
  env_new_user :: features_limits
  env_default :: features_limits
  env_unicode_emoji :: "string set"
  env_redis :: redis_client
  env_livekit :: livekit_client
  env_online :: "string \<Rightarrow> bool"
  env_lexer :: "string \<Rightarrow> (unit + message_token) list"
  env_iteration :: "string set \<Rightarrow> string list"
  env_mass_mentions :: bool
  env_process_delay_limit :: nat

text \<open>\<open>User::limits\<close>. Both \<open>expect\<close>s panic: an id that is not an ULID, and an ULID from the future.\<close>

definition user_limits :: "env \<Rightarrow> user \<Rightarrow> features_limits world_action" where
  "user_limits E u =
     (case env_ulid_datetime E (user_id u) of
        None \<Rightarrow> panic
      | Some t \<Rightarrow>
          if t > env_now E then panic
          else if env_now E - t \<le> 1000 * (3600 * int (new_user_hours (env_global E)))
          then ret (env_new_user E) else ret (env_default E))"

section \<open>Permissions on the database\<close>

text \<open>The reads of the permission query, answered by the reference database.\<close>

definition reads_of :: "timestamp \<Rightarrow> ref_db \<Rightarrow> db_reads" where
  "reads_of now d =
     \<lparr>rd_fetch_user = (\<lambda>i. fst (fetch_user i d)),
      rd_fetch_users = (\<lambda>ids. fst (fetch_users ids d)),
      rd_fetch_server = (\<lambda>i. fst (fetch_server i d)),
      rd_fetch_channel = (\<lambda>i. fst (fetch_channel i d)),
      rd_fetch_member = (\<lambda>sid uid. fst (fetch_member sid uid d)),
      rd_fetch_members = (\<lambda>sid ids. fst (fetch_members sid ids d)),
      rd_fetch_mutual_server_ids = (\<lambda>a b. fst (fetch_mutual_server_ids a b d)),
      rd_fetch_mutual_channel_ids = (\<lambda>a b. fst (fetch_mutual_channel_ids a b d)),
      rd_now = now\<rparr>"

text \<open>\<open>calculate_server_permissions(&mut query)\<close> for a query built from the user and the server; the query is
  returned with what it has cached.\<close>

definition query_server_permissions :: "env \<Rightarrow> database_permission_query \<Rightarrow> (u64 \<times> database_permission_query) world_action" where
  "query_server_permissions E q w =
     (case calculate_server_permissions (db_query (reads_of (env_now E) (db w))) q of
        (Ok p, q') \<Rightarrow> (Ok (p, q'), w)
      | (Err e, q') \<Rightarrow> (Err e, w)
      | (Panic, q') \<Rightarrow> (Panic, w))"

definition server_permissions :: "env \<Rightarrow> user \<Rightarrow> server \<Rightarrow> (u64 \<times> database_permission_query) world_action" where
  "server_permissions E u srv = query_server_permissions E (server_query u srv)"

text \<open>\<open>calculate_channel_permissions(&mut query)\<close>.\<close>

definition channel_permissions :: "env \<Rightarrow> database_permission_query \<Rightarrow> (u64 \<times> database_permission_query) world_action" where
  "channel_permissions E q w =
     (case calculate_channel_permissions (db_query (reads_of (env_now E) (db w))) q of
        (Ok p, q') \<Rightarrow> (Ok (p, q'), w)
      | (Err e, q') \<Rightarrow> (Err e, w)
      | (Panic, q') \<Rightarrow> (Panic, w))"

text \<open>\<open>query.get_member_rank().unwrap_or(i64::MIN)\<close>.\<close>

definition rank_or_min :: "database_permission_query \<Rightarrow> i64 world_action" where
  "rank_or_min q = andthen (lift (get_member_rank q)) (\<lambda>r. ret (case r of Some x \<Rightarrow> x | None \<Rightarrow> - (2 ^ 63)))"

section \<open>Reading and writing through the database\<close>

lemma on_db_ret [simp]: "on_db (ret x) = ret x"
  by (rule ext) (simp add: on_db_def ret_def)

lemma on_db_throw [simp]: "on_db (throw e) = throw e"
  by (rule ext) (simp add: on_db_def throw_def)

lemma on_db_gets [simp]: "on_db (gets f) = gets (\<lambda>w. f (db w))"
  by (rule ext) (simp add: on_db_def gets_def)

lemma attempt_gets [simp]: "attempt (gets f) = gets (\<lambda>s. Some (f s))"
  by (rule ext) (simp add: attempt_def gets_def)

lemma on_db_Ok: "m (db w) = (Ok x, d) \<Longrightarrow> on_db m w = (Ok x, w\<lparr>db := d\<rparr>)"
  by (simp add: on_db_def)

lemma on_db_Err: "m (db w) = (Err e, d) \<Longrightarrow> on_db m w = (Err e, w\<lparr>db := d\<rparr>)"
  by (simp add: on_db_def)

lemma keeps_on_db: "keeps P m \<Longrightarrow> keeps (\<lambda>w. P (db w)) (on_db m)"
  by (auto simp: keeps_def on_db_def split: prod.splits)

text \<open>What a request is checked against, as functions of the database: the permissions of the acting user in
  a server, and the rank it acts with. A privileged user and the owner act without a rank.\<close>

definition acting_permissions :: "env \<Rightarrow> world \<Rightarrow> user \<Rightarrow> server \<Rightarrow> u64" where
  "acting_permissions E w u s =
     server_spec (privileged u) (query_server_answers (reads_of (env_now E) (db w)) (server_query u s))"

definition acting_rank :: "world \<Rightarrow> user \<Rightarrow> server \<Rightarrow> i64 option" where
  "acting_rank w u s =
     (if privileged u \<or> server_owner s = user_id u then None
      else map_option (\<lambda>m. get_ranking m s)
        (map_of (db_server_members (db w)) \<lparr>key_server = server_id s, key_user = user_id u\<rparr>))"

lemma reads_of_member [simp]:
  "rd_fetch_member (reads_of now d) sid uid =
     (case map_of (db_server_members d) \<lparr>key_server = sid, key_user = uid\<rparr> of Some m \<Rightarrow> Ok m | None \<Rightarrow> Err NotFound)"
  by (simp add: reads_of_def fetch_member_def server_members.fetch)

lemma server_permissions_run:
  "\<exists>q. server_permissions E u s w = (Ok (acting_permissions E w u s, q), w) \<and> get_member_rank q = Ok (acting_rank w u s)"
proof -
  let ?D = "reads_of (env_now E) (db w)"
  have "fst (calculate_server_permissions (db_query ?D) (server_query u s)) = Ok (acting_permissions E w u s)"
    unfolding acting_permissions_def by (rule server_query_spec) (simp split: option.split)
  moreover have "get_member_rank (snd (calculate_server_permissions (db_query ?D) (server_query u s))) = Ok (acting_rank w u s)"
    by (cases "map_of (db_server_members (db w)) \<lparr>key_server = server_id s, key_user = user_id u\<rparr>")
      (simp_all add: calculate_server_permissions_def or_else_def db_query_def query_defs query_build q_are_we_a_member_def
        andthen_def gets_def ret_def get_member_rank_def acting_rank_def Let_def)
  ultimately show ?thesis
    by (cases "calculate_server_permissions (db_query ?D) (server_query u s)") (simp add: server_permissions_def query_server_permissions_def)
qed

lemma server_permissions_owner:
  "server_owner s = user_id u \<Longrightarrow> server_permissions E u s w = (Ok (channel_permission_bits GrantAllSafe, server_query u s), w)"
  by (cases "privileged u") (simp_all add: server_permissions_def query_server_permissions_def calculate_server_permissions_def or_else_def db_query_def
      query_defs query_build andthen_def gets_def ret_def)

lemma rank_of_server_query [simp]: "get_member_rank (server_query u s) = Ok None"
  by (simp add: get_member_rank_def query_build)

lemma query_server_permissions_total:
  "\<exists>q'. query_server_permissions E q w
     = (Ok (server_spec (query_privileged q) (query_server_answers (reads_of (env_now E) (db w)) q), q'), w)"
proof -
  let ?D = "reads_of (env_now E) (db w)"
  have "member_reads_total ?D q" by (simp add: member_reads_total_def split: option.split)
  from dbs.server_permissions_spec [OF this] show ?thesis
    by (cases "calculate_server_permissions (db_query ?D) q") (simp add: query_server_permissions_def)
qed

text \<open>A step of a request that needs the permissions goes on with these.\<close>

lemma server_permissions_OkE:
  assumes "andthen (server_permissions E u s) f w = (Ok x, w')"
  obtains q where "get_member_rank q = Ok (acting_rank w u s)" and "f (acting_permissions E w u s, q) w = (Ok x, w')"
proof -
  obtain q where q: "server_permissions E u s w = (Ok (acting_permissions E w u s, q), w)"
      "get_member_rank q = Ok (acting_rank w u s)" using server_permissions_run by blast
  with assms that show ?thesis by (simp add: andthen_Ok)
qed

lemma andthen_lift: "andthen (lift r) f w = (case r of Ok x \<Rightarrow> f x w | Err e \<Rightarrow> (Err e, w) | Panic \<Rightarrow> (Panic, w))"
  by (simp add: andthen_def lift_def split: outcome.split)

lemma rank_or_min_run:
  "get_member_rank q = Ok r \<Longrightarrow> andthen (rank_or_min q) f w = f (case r of Some x \<Rightarrow> x | None \<Rightarrow> - (2 ^ 63)) w"
  by (simp add: rank_or_min_def andthen_assoc andthen_lift)

lemma andthen_lacking_OkE:
  assumes "andthen (lift (throw_if_lacking_channel_permission p perm)) f w = (Ok x, w')"
  shows "has_channel_permission p perm" and "f () w = (Ok x, w')"
  using assms by (auto simp: andthen_lift throw_if_lacking_channel_permission_def split: if_splits)

text \<open>What is logged does not touch the database.\<close>

lemma andthen_queue_task [simp]: "andthen (queue_task t) f w = f () (w\<lparr>tasks := tasks w @ [t]\<rparr>)"
  by (simp add: queue_task_def)


lemma publish_db [simp]: "db (snd (publish ev topic w)) = db w" "fst (publish ev topic w) = Ok ()"
  by (simp_all add: publish_def modify_def)

lemma andthen_publish [simp]: "andthen (publish ev topic) f w = f () (w\<lparr>events := events w @ [(topic, ev)]\<rparr>)"
  by (simp add: publish_def)

lemma andthen_publish_private [simp]:
  "andthen (publish_private ev i) f w = f () (w\<lparr>events := events w @ [(i @ ''!'', ev)]\<rparr>)"
  by (simp add: publish_private_def)

lemma for_each_publish_db:
  "db (snd (for_each (\<lambda>x. publish_server ev (g x)) xs w)) = db w \<and> fst (for_each (\<lambda>x. publish_server ev (g x)) xs w) = Ok ()"
  by (induction xs arbitrary: w) (simp_all add: ret_def publish_server_def)

lemma publish_user_db [simp]: "db (snd (publish_user ev i w)) = db w" "fst (publish_user ev i w) = Ok ()"
  by (simp_all add: publish_user_def fetch_all_memberships_def for_each_publish_db)

section \<open>Redis\<close>

text \<open>The documented effect of the commands; an empty set is a key that does not exist. A command on a key of the
  wrong type fails; the laws speak of keys that hold what the command expects. The expiry of \<open>SETEX\<close> is not
  a step of the model: the laws hold until it.\<close>

definition set_at :: "keyspace \<Rightarrow> string \<Rightarrow> string list" where
  "set_at s k = (case s k of Some (RSet xs) \<Rightarrow> xs | _ \<Rightarrow> [])"

definition put_set :: "string \<Rightarrow> string list \<Rightarrow> keyspace \<Rightarrow> keyspace" where
  "put_set k xs s = s(k := (if xs = [] then None else Some (RSet xs)))"

fun command_effect :: "redis_command \<Rightarrow> keyspace \<Rightarrow> keyspace" where
  "command_effect (Sadd k v) s = put_set k (List.insert v (set_at s k)) s"
| "command_effect (Srem k v) s = put_set k (removeAll v (set_at s k)) s"
| "command_effect (SetKey k v) s = s(k \<mapsto> v)"
| "command_effect (SetEx k v n) s = s(k \<mapsto> v)"
| "command_effect (Del ks) s = s |` (- set ks)"
| "command_effect (Smove k l v) s =
     (if v \<in> set (set_at s k)
      then (let s' = put_set k (removeAll v (set_at s k)) s in put_set l (List.insert v (set_at s' l)) s')
      else s)"

definition holds_set :: "keyspace \<Rightarrow> string \<Rightarrow> bool" where
  "holds_set s k = (case s k of None \<Rightarrow> True | Some (RSet xs) \<Rightarrow> True | _ \<Rightarrow> False)"

fun command_typed :: "redis_command \<Rightarrow> keyspace \<Rightarrow> bool" where
  "command_typed (Sadd k v) s \<longleftrightarrow> holds_set s k"
| "command_typed (Srem k v) s \<longleftrightarrow> holds_set s k"
| "command_typed (Smove k l v) s \<longleftrightarrow> holds_set s k \<and> holds_set s l"
| "command_typed c s \<longleftrightarrow> True"

fun commands_typed :: "redis_command list \<Rightarrow> keyspace \<Rightarrow> bool" where
  "commands_typed [] s \<longleftrightarrow> True"
| "commands_typed (c # cs) s \<longleftrightarrow> command_typed c s \<and> commands_typed cs (command_effect c s)"

locale redis_laws =
  fixes R :: redis_client
  assumes connect: "redis_connect R s"
    and exec: "commands_typed cs s \<Longrightarrow> redis_exec R cs s = (Some (), fold command_effect cs s)"
    and get: "redis_get R k s = Some (s k)"
    and get_del: "redis_get_del R k s = (Some (s k), s(k := None))"
    and sismember: "redis_sismember R k v s = Some (v \<in> set (set_at s k))"
    and smembers: "\<exists>xs. redis_smembers R k s = Some xs \<and> set xs = set (set_at s k) \<and> distinct xs"
    and scard: "redis_scard R k s = Some (card (set (set_at s k)))"
    and set_nx: "redis_set_nx R k x secs s = (if s k = None then (Some True, s(k \<mapsto> x)) else (Some False, s))"
    and ttl: "\<exists>n. redis_ttl R k s = Some n \<and> (if s k = None then n = - 2 else n \<ge> - 1)"

text \<open>An instance of the parameter.\<close>

definition mem_client :: redis_client where
  "mem_client = \<lparr>redis_connect = (\<lambda>s. True), redis_exec = (\<lambda>cs s. (Some (), fold command_effect cs s)),
     redis_get = (\<lambda>k s. Some (s k)), redis_get_del = (\<lambda>k s. (Some (s k), s(k := None))),
     redis_sismember = (\<lambda>k v s. Some (v \<in> set (set_at s k))), redis_scard = (\<lambda>k s. Some (card (set (set_at s k)))),
     redis_smembers = (\<lambda>k s. Some (remdups (set_at s k))),
     redis_set_nx = (\<lambda>k v n s. if s k = None then (Some True, s(k \<mapsto> v)) else (Some False, s)),
     redis_ttl = (\<lambda>k s. Some (if s k = None then - 2 else 1))\<rparr>"

interpretation mem_client: redis_laws mem_client
  by unfold_locales (simp_all add: mem_client_def)

section \<open>Iteration\<close>

text \<open>The order in which a \<open>HashSet\<close> is iterated is unspecified; it visits every element once.\<close>

locale iteration_laws =
  fixes order :: "string set \<Rightarrow> string list"
  assumes order_set: "finite S \<Longrightarrow> set (order S) = S" and order_distinct: "finite S \<Longrightarrow> distinct (order S)"
begin

lemma order_empty: "finite S \<Longrightarrow> order S = [] \<longleftrightarrow> S = {}"
  using order_set [of S] by (metis set_empty)

end

interpretation sorted_iteration: iteration_laws sorted_list_of_set
  by unfold_locales simp_all

section \<open>Sample data\<close>


definition sample_env :: env where
  "sample_env = \<lparr>env_now = 100000000, env_structs = merge_structs, env_ulid_datetime = (\<lambda>_. Some 0), env_ulid_at = (\<lambda>_. ''0''),
     env_global = \<lparr>group_size = 3, message_embeds = 5, message_replies = 5, message_reactions = 20, server_emoji = 100,
       limit_server_roles = 200, limit_server_channels = 200, new_user_hours = 1, restrict_server_creation = []\<rparr>,
     env_new_user = \<lparr>outgoing_friend_requests = 1, limit_bots = 1, message_length = 2000, message_attachments = 5, limit_servers = 2, limit_video = True\<rparr>,
     env_default = \<lparr>outgoing_friend_requests = 2, limit_bots = 5, message_length = 2000, message_attachments = 5, limit_servers = 2, limit_video = True\<rparr>,
     env_unicode_emoji = {''x''},
     env_redis = mem_client, env_livekit = \<lparr>livekit_nodes = [''n''], livekit_accepts = (\<lambda>_ _. True),
       livekit_token = (\<lambda>_ _ _ _ _. Some ''t'')\<rparr>,
     env_online = (\<lambda>_. False), env_lexer = (\<lambda>s. if s = ''@everyone'' then [Inr Parser.MentionEveryone] else []),
     env_iteration = sorted_list_of_set, env_mass_mentions = True, env_process_delay_limit = 5\<rparr>"

definition sample_world :: "ref_db \<Rightarrow> world" where
  "sample_world d = \<lparr>db = d, events = [], amqp = [], tasks = [], redis = Map.empty, livekit = [], nonce_cache = []\<rparr>"

end
