(* ===== verification/Messages.thy ===== *)
theory Messages
  imports World
begin

text \<open>
  \<open>crates/core/database/src/models/messages/model.rs\<close> and \<open>models/emojis/model.rs\<close>: flags, system messages, sending, reactions,
  appending and deletion. The rest of \<open>Message::create_from_api\<close> is in the theory \<open>Messaging\<close>; the queries that join messages with
  users only render an answer and are left out.
\<close>

section \<open>Flags\<close>

text \<open>\<open>MessageFlags\<close> numbers the flags, and \<open>MessageFlagsValue\<close> reads a flag as the bit with that number.\<close>

datatype message_flag = SuppressNotifications | MentionsEveryone | MentionsOnline

primrec message_flag_value :: "message_flag \<Rightarrow> nat" where
  "message_flag_value SuppressNotifications = 1"
| "message_flag_value MentionsEveryone = 2"
| "message_flag_value MentionsOnline = 3"

definition flags_has_value :: "u32 \<Rightarrow> nat \<Rightarrow> bool" where
  "flags_has_value v b \<longleftrightarrow> (let mask = push_bit b 1 in v AND mask = mask)"

definition flags_set_value :: "nat \<Rightarrow> bool \<Rightarrow> u32 \<Rightarrow> u32" where
  "flags_set_value b toggle v = (if toggle then v OR push_bit b 1 else v AND NOT (push_bit b 1))"

definition flags_has :: "u32 \<Rightarrow> message_flag \<Rightarrow> bool" where
  "flags_has v flag = flags_has_value v (message_flag_value flag)"

definition flags_set :: "message_flag \<Rightarrow> bool \<Rightarrow> u32 \<Rightarrow> u32" where
  "flags_set flag toggle v = flags_set_value (message_flag_value flag) toggle v"

text \<open>The flags of a message as \<open>create_from_api\<close> reads them from the request: the answer is
  \<open>(suppress_notifications, mentions_everyone, mentions_online)\<close>. \<open>is_human\<close> says that the author is a user
  who is not a bot.\<close>

definition request_flags :: "u32 option \<Rightarrow> bool \<Rightarrow> bool \<Rightarrow> (bool \<times> bool \<times> bool) result" where
  "request_flags data_flags allow_mentions is_human =
     (case data_flags of
        None \<Rightarrow> Ok (False, False, False)
      | Some raw \<Rightarrow>
          if raw > 7 then Err InvalidProperty
          else
            let suppress = flags_has raw SuppressNotifications;
                everyone = allow_mentions \<and> flags_has raw MentionsEveryone;
                online = allow_mentions \<and> flags_has raw MentionsOnline
            in if is_human \<and> (everyone \<or> online) then Err IsNotBot
               else if everyone \<and> online then Err InvalidFlagValue
               else Ok (suppress, everyone, online))"

text \<open>``Calculate final message flags''.\<close>

definition final_flags :: "bool \<Rightarrow> bool \<Rightarrow> bool \<Rightarrow> u32" where
  "final_flags suppress everyone online =
     flags_set MentionsOnline online (flags_set MentionsEveryone everyone (flags_set SuppressNotifications suppress 0))"

definition has_suppressed_notifications :: "message \<Rightarrow> bool" where
  "has_suppressed_notifications m =
     (case msg_flags m of
        Some flags \<Rightarrow> flags AND of_nat (message_flag_value SuppressNotifications) = of_nat (message_flag_value SuppressNotifications)
      | None \<Rightarrow> False)"

definition contains_mass_push_mention :: "message \<Rightarrow> bool" where
  "contains_mass_push_mention m \<longleftrightarrow>
     (case msg_flags m of Some flags \<Rightarrow> flags_has flags MentionsEveryone | None \<Rightarrow> False)
     \<or> msg_role_mentions m \<noteq> None"

section \<open>Sending\<close>

definition validate_sum :: "string option \<Rightarrow> string option list \<Rightarrow> nat \<Rightarrow> unit result" where
  "validate_sum content embed_descriptions max_length =
     (let total = (case content of Some c \<Rightarrow> length c | None \<Rightarrow> 0)
            + sum_list (map (\<lambda>d. case d of Some s \<Rightarrow> length s | None \<Rightarrow> 0) embed_descriptions)
      in if total \<le> max_length then Ok () else Err PayloadTooLarge)"

definition system_author :: string where
  "system_author = replicate 26 CHR ''0''"

text \<open>\<open>SystemMessage::into_message\<close>; the new id is an argument.\<close>

definition into_message :: "string \<Rightarrow> system_message \<Rightarrow> string \<Rightarrow> message" where
  "into_message new_id sys channel =
     message_default\<lparr>msg_id := new_id, msg_channel := channel, msg_author := system_author, msg_system := Some sys\<rparr>"

definition send_without_notifications :: "message \<Rightarrow> bool \<Rightarrow> bool \<Rightarrow> bool \<Rightarrow> unit world_action" where
  "send_without_notifications m is_dm generate_embeds mentions_elsewhere =
     andthen (on_db (insert_message m)) (\<lambda>_.
     andthen (publish (MessageCreate m) (msg_channel m)) (\<lambda>_.
     andthen (queue_task (TaskLastMessageId (msg_channel m) (msg_id m) is_dm)) (\<lambda>_.
     andthen (case msg_mentions m of
                Some us \<Rightarrow>
                  if \<not> mentions_elsewhere
                  then queue_task (TaskAckMessage (msg_channel m) m us False (has_suppressed_notifications m))
                  else ret ()
              | None \<Rightarrow> ret ()) (\<lambda>_.
     (case msg_content m of
        Some content \<Rightarrow>
          if generate_embeds then queue_task (TaskProcessEmbeds (msg_channel m) (msg_id m) content) else ret ()
      | None \<Rightarrow> ret ())))))"

fun is_dm_or_group :: "channel \<Rightarrow> bool" where
  "is_dm_or_group (DirectMessage _ _ _ _) = True"
| "is_dm_or_group (Group _ _) = True"
| "is_dm_or_group _ = False"

fun push_recipients :: "channel \<Rightarrow> string \<Rightarrow> message \<Rightarrow> string list" where
  "push_recipients (DirectMessage _ _ recipients _) author m = filter (\<lambda>u. u \<noteq> author) recipients"
| "push_recipients (Group _ g) author m = filter (\<lambda>u. u \<noteq> author) (grp_recipients g)"
| "push_recipients (TextChannel _ _) author m = (case msg_mentions m of Some us \<Rightarrow> us | None \<Rightarrow> [])"
| "push_recipients (SavedMessages _ _) author m = []"

text \<open>\<open>Message::send\<close>; of the author only the id matters.\<close>

definition send :: "message \<Rightarrow> string \<Rightarrow> channel \<Rightarrow> bool \<Rightarrow> unit world_action" where
  "send m author channel generate_embeds =
     andthen (send_without_notifications m (is_direct_dm channel) generate_embeds True) (\<lambda>_.
       if \<not> has_suppressed_notifications m
          \<and> (is_dm_or_group channel \<or> msg_mentions m \<noteq> None \<or> contains_mass_push_mention m)
       then queue_task (TaskAckMessage (msg_channel m) m (push_recipients channel author m) True False)
       else ret ())"

section \<open>Changing messages\<close>

definition message_update :: "env \<Rightarrow> message \<Rightarrow> partial_message \<Rightarrow> fields_message list \<Rightarrow> message world_action" where
  "message_update E self partial remove =
     (let self' = fold message_remove_field remove (apply_message (env_structs E) partial self) in
      andthen (on_db (update_message (env_structs E) (msg_id self') partial remove)) (\<lambda>_.
      andthen (publish (MessageUpdate (msg_id self') (msg_channel self') partial remove) (msg_channel self')) (\<lambda>_.
      ret self')))"

definition message_append :: "string \<Rightarrow> string \<Rightarrow> embed list option \<Rightarrow> unit world_action" where
  "message_append i channel append_embeds =
     andthen (on_db (append_message i append_embeds)) (\<lambda>_.
     publish (MessageAppend i channel append_embeds) channel)"

text \<open>\<open>attach_sendable_embed\<close>: the embed of the request with the file it names.\<close>

definition attach_sendable_embed :: "message \<Rightarrow> text_embed \<Rightarrow> string option \<Rightarrow> message world_action" where
  "attach_sendable_embed self emb media_id =
     andthen (case media_id of
                Some i \<Rightarrow> andthen (on_db (use_attachment i (msg_id self) (msg_author self))) (\<lambda>f. ret (Some f))
              | None \<Rightarrow> ret None) (\<lambda>media.
       let e = EmbedText (emb\<lparr>emb_media := media\<rparr>) in
       ret (case msg_embeds self of
              Some es \<Rightarrow> self\<lparr>msg_embeds := Some (es @ [e])\<rparr>
            | None \<Rightarrow> self\<lparr>msg_embeds := Some [e]\<rparr>))"

section \<open>Emojis and reactions\<close>

definition emoji_create :: "emoji \<Rightarrow> unit world_action" where
  "emoji_create e =
     andthen (on_db (insert_emoji e)) (\<lambda>_. publish (EmojiCreate e) (emoji_parent_id e))"

definition emoji_delete :: "emoji \<Rightarrow> unit world_action" where
  "emoji_delete e =
     andthen (publish (EmojiDelete (emoji_id e)) (emoji_parent_id e)) (\<lambda>_. on_db (detach_emoji e))"

text \<open>\<open>Emoji::can_use\<close>: a text that parses as an ULID must be a stored emoji, any other one a Unicode emoji.\<close>

definition emoji_can_use :: "env \<Rightarrow> string \<Rightarrow> bool world_action" where
  "emoji_can_use E emoji =
     (if env_ulid_datetime E emoji \<noteq> None
      then andthen (on_db (fetch_emoji emoji)) (\<lambda>_. ret True)
      else ret (emoji \<in> env_unicode_emoji E))"

definition interactions_can_use :: "interactions \<Rightarrow> string \<Rightarrow> bool" where
  "interactions_can_use i emoji =
     (if restrict_reactions i
      then (case inter_reactions i of Some rs \<Rightarrow> emoji \<in> set rs | None \<Rightarrow> False)
      else True)"

definition interactions_is_default :: "interactions \<Rightarrow> bool" where
  "interactions_is_default i \<longleftrightarrow> \<not> restrict_reactions i \<and> inter_reactions i = None"

fun all_usable :: "env \<Rightarrow> string list \<Rightarrow> unit world_action" where
  "all_usable E [] = ret ()"
| "all_usable E (x # xs) =
     andthen (emoji_can_use E x) (\<lambda>ok. if ok then all_usable E xs else throw InvalidOperation)"

text \<open>\<open>Interactions::validate\<close>.\<close>

definition interactions_validate :: "env \<Rightarrow> u64 \<Rightarrow> interactions \<Rightarrow> unit world_action" where
  "interactions_validate E permissions i =
     (case inter_reactions i of
        Some reactions \<Rightarrow>
          andthen (lift (throw_if_lacking_channel_permission permissions React)) (\<lambda>_.
            if length reactions > message_reactions (env_global E) then throw InvalidOperation
            else all_usable E reactions)
      | None \<Rightarrow> ret ())"

definition add_reaction :: "env \<Rightarrow> message \<Rightarrow> user \<Rightarrow> string \<Rightarrow> unit world_action" where
  "add_reaction E m u emoji =
     (if length (msg_reactions m) \<ge> message_reactions (env_global E) \<and> \<not> hm_contains (msg_reactions m) emoji
      then throw InvalidOperation
      else if \<not> interactions_can_use (msg_interactions m) emoji then throw InvalidOperation
      else
        andthen (emoji_can_use E emoji) (\<lambda>ok.
          if \<not> ok then throw InvalidOperation
          else
            andthen (publish (MessageReact (msg_id m) (msg_channel m) (user_id u) emoji) (msg_channel m)) (\<lambda>_.
            on_db (db_add_reaction (msg_id m) emoji (user_id u)))))"

definition remove_reaction :: "message \<Rightarrow> string \<Rightarrow> string \<Rightarrow> unit world_action" where
  "remove_reaction m uid emoji =
     (case map_of (msg_reactions m) emoji of
        Some us \<Rightarrow>
          if uid \<notin> set us then throw NotFound
          else
            andthen (publish (MessageUnreact (msg_id m) (msg_channel m) uid emoji) (msg_channel m)) (\<lambda>_.
              if length us = 1 then on_db (db_clear_reaction (msg_id m) emoji)
              else on_db (db_remove_reaction (msg_id m) emoji uid))
      | None \<Rightarrow> throw NotFound)"

definition clear_reaction :: "message \<Rightarrow> string \<Rightarrow> unit world_action" where
  "clear_reaction m emoji =
     andthen (publish (MessageRemoveReaction (msg_id m) (msg_channel m) emoji) (msg_channel m)) (\<lambda>_.
     on_db (db_clear_reaction (msg_id m) emoji))"

section \<open>Deletion\<close>

definition message_delete :: "message \<Rightarrow> unit world_action" where
  "message_delete m =
     (let files = (case msg_attachments m of Some fs \<Rightarrow> map file_id fs | None \<Rightarrow> []) in
      andthen (if files \<noteq> [] then on_db (mark_attachments_as_deleted files) else ret ()) (\<lambda>_.
      andthen (on_db (delete_message (msg_id m))) (\<lambda>_.
      publish (MessageDelete (msg_id m) (msg_channel m)) (msg_channel m))))"

definition bulk_delete :: "string \<Rightarrow> string list \<Rightarrow> unit world_action" where
  "bulk_delete channel ids =
     andthen (on_db (fetch_messages_by_id ids)) (\<lambda>ms.
       let valid_ids = map msg_id (filter (\<lambda>m. msg_channel m = channel) ms) in
       andthen (on_db (delete_messages channel valid_ids)) (\<lambda>_.
       publish (BulkMessageDelete channel valid_ids) channel))"

definition bulk_delete_by_author_since :: "string list \<Rightarrow> string \<Rightarrow> string \<Rightarrow> unit world_action" where
  "bulk_delete_by_author_since channels author threshold =
     andthen (on_db (delete_messages_by_author_since channels author threshold)) (\<lambda>groups.
       for_each (\<lambda>(channel, ids). if ids \<noteq> [] then publish (BulkMessageDelete channel ids) channel else ret ()) groups)"

section \<open>Properties of the flags\<close>

lemma final_flags_bit0: "\<not> bit (final_flags suppress everyone online) 0"
  by (simp add: final_flags_def flags_set_def flags_set_value_def bit_simps)

text \<open>the flag that suppresses notifications has no effect on a message made from a request. It is stored
  as bit 1, where \<open>MessageFlagsValue\<close> puts the flag with the number 1, but \<open>has_suppressed_notifications\<close> tests
  bit 0. Besides, the bound of 7 on the request rejects every value with the bit of \<open>MentionsOnline\<close>.\<close>

theorem suppress_flag_has_no_effect:
  assumes "request_flags (Some raw) allow_mentions is_human = Ok (suppress, everyone, online)"
  shows "\<not> has_suppressed_notifications (m\<lparr>msg_flags := Some (final_flags suppress everyone online)\<rparr>)
    \<and> flags_has (final_flags suppress everyone online) SuppressNotifications = suppress \<and> \<not> online"
proof (intro conjI)
  show "\<not> has_suppressed_notifications (m\<lparr>msg_flags := Some (final_flags suppress everyone online)\<rparr>)"
  proof
    assume "has_suppressed_notifications (m\<lparr>msg_flags := Some (final_flags suppress everyone online)\<rparr>)"
    then have "final_flags suppress everyone online AND 1 = 1" by (simp add: has_suppressed_notifications_def)
    then have "bit (final_flags suppress everyone online AND 1) 0" by (simp add: bit_simps)
    with final_flags_bit0 show False by (simp add: bit_simps)
  qed
  show "flags_has (final_flags suppress everyone online) SuppressNotifications = suppress"
    by (cases suppress; cases everyone; cases online)
      (simp_all add: flags_has_def flags_has_value_def final_flags_def flags_set_def flags_set_value_def)
  have "raw \<le> 7" using assms by (auto simp: request_flags_def split: if_splits)
  have "raw AND 8 \<noteq> 8"
  proof
    assume "raw AND 8 = 8"
    then have "8 \<le> raw" by (metis word_and_le2)
    from order_trans [OF this \<open>raw \<le> 7\<close>] show False by simp
  qed
  then show "\<not> online"
    using assms by (auto simp: request_flags_def flags_has_def flags_has_value_def Let_def split: if_splits)
qed

theorem suppress_flag_has_no_effect_witness:
  "\<not> has_suppressed_notifications (message_default\<lparr>msg_flags := Some (final_flags True False False)\<rparr>)"
  using suppress_flag_has_no_effect [of 2 True True True False False message_default]
  by (simp add: request_flags_def flags_has_def flags_has_value_def Let_def)

section \<open>Properties of reactions\<close>

lemma swap_remove_mset:
  "distinct (map f xs) \<Longrightarrow> mset (swap_remove (\<lambda>y. f y = a) xs) = mset (filter (\<lambda>y. f y \<noteq> a) xs)"
proof (induction xs)
  case (Cons x xs)
  show ?case
  proof (cases "f x = a")
    case True
    with Cons.prems have "filter (\<lambda>y. f y \<noteq> a) xs = xs" by (intro filter_True ballI) (metis distinct.simps(2) image_eqI list.simps(9) set_map)
    moreover have "mset (last xs # butlast xs) = mset xs" if "xs \<noteq> []"
      using that by (metis append_butlast_last_id mset_append mset.simps union_commute add_mset_add_single)
    ultimately show ?thesis using True by simp
  qed (use Cons in simp)
qed simp

lemma swap_remove_set:
  "distinct (map f xs) \<Longrightarrow> set (swap_remove (\<lambda>y. f y = a) xs) = {y \<in> set xs. f y \<noteq> a}"
  using mset_eq_setD [OF swap_remove_mset [of f xs a]] by simp

lemma swap_remove_distinct:
  assumes "distinct (map f xs)"
  shows "distinct (map f (swap_remove (\<lambda>y. f y = a) xs))"
proof -
  have "mset (map f (swap_remove (\<lambda>y. f y = a) xs)) = mset (map f (filter (\<lambda>y. f y \<noteq> a) xs))"
    by (simp add: swap_remove_mset [OF assms])
  then show ?thesis using distinct_map_filter [OF assms] mset_eq_imp_distinct_iff by blast
qed

lemma swap_remove_length: "length (swap_remove P xs) \<le> length xs"
  by (induction xs) auto

lemma swap_remove_elem:
  assumes "distinct us"
  shows "set (swap_remove (\<lambda>x. x = u) us) = set us - {u}" "distinct (swap_remove (\<lambda>x. x = u) us)"
  using swap_remove_set [of id us u] swap_remove_distinct [of id us u] assms by auto

lemma option_eqI: "(\<And>v. x = Some v \<longleftrightarrow> y = Some v) \<Longrightarrow> x = y"
  by (cases x; cases y) auto

lemma swap_remove_key:
  assumes "hm_wf rs"
  shows "map_of (swap_remove (\<lambda>(e, us). e = a) rs) = (map_of rs)(a := None)" "hm_wf (swap_remove (\<lambda>(e, us). e = a) rs)"
proof -
  have eq: "(\<lambda>(e, us). e = a) = (\<lambda>y. fst y = a)" by auto
  have d: "distinct (map fst rs)" using assms by (simp add: hm_wf_def)
  show wf: "hm_wf (swap_remove (\<lambda>(e, us). e = a) rs)" unfolding eq hm_wf_def by (rule swap_remove_distinct [OF d])
  have "(k, v) \<in> set (swap_remove (\<lambda>(e, us). e = a) rs) \<longleftrightarrow> k \<noteq> a \<and> (k, v) \<in> set rs" for k v
    unfolding eq swap_remove_set [OF d] by auto
  then show "map_of (swap_remove (\<lambda>(e, us). e = a) rs) = (map_of rs)(a := None)"
    using hm_wf_map_of_iff [OF wf] hm_wf_map_of_iff [OF assms] by (intro ext option_eqI) auto
qed

text \<open>The reactions of a stored message: one entry per emoji, at most as many as configured, each with at
  least one user and no user twice.\<close>

definition reactions_ok :: "nat \<Rightarrow> (string, string list) hashmap \<Rightarrow> bool" where
  "reactions_ok limit rs \<longleftrightarrow>
     hm_wf rs \<and> length rs \<le> limit \<and> (\<forall>e us. map_of rs e = Some us \<longrightarrow> us \<noteq> [] \<and> distinct us)"

lemma reactions_okI:
  "hm_wf rs \<Longrightarrow> length rs \<le> limit \<Longrightarrow> (\<And>e us. map_of rs e = Some us \<Longrightarrow> us \<noteq> [] \<and> distinct us) \<Longrightarrow> reactions_ok limit rs"
  unfolding reactions_ok_def by blast

lemma reactions_okD:
  assumes "reactions_ok limit rs"
  shows "hm_wf rs" "length rs \<le> limit" "map_of rs e = Some us \<Longrightarrow> us \<noteq> []" "map_of rs e = Some us \<Longrightarrow> distinct us"
  using assms unfolding reactions_ok_def by blast+

definition reacted :: "message \<Rightarrow> string \<Rightarrow> string \<Rightarrow> bool" where
  "reacted m emoji uid \<longleftrightarrow> (case map_of (msg_reactions m) emoji of Some us \<Rightarrow> uid \<in> set us | None \<Rightarrow> False)"

text \<open>The requests on one stored message, each made on a fresh copy of it.\<close>

datatype reaction_op = AddReaction user string | Unreact string string | ClearReaction string

primrec reaction_request :: "env \<Rightarrow> reaction_op \<Rightarrow> message \<Rightarrow> unit world_action" where
  "reaction_request E (AddReaction u emoji) m = add_reaction E m u emoji"
| "reaction_request E (Unreact uid emoji) m = remove_reaction m uid emoji"
| "reaction_request E (ClearReaction emoji) m = clear_reaction m emoji"

fun reacted_after :: "reaction_op \<Rightarrow> (string \<Rightarrow> string \<Rightarrow> bool) \<Rightarrow> string \<Rightarrow> string \<Rightarrow> bool" where
  "reacted_after (AddReaction u emoji) r e x = (r e x \<or> e = emoji \<and> x = user_id u)"
| "reacted_after (Unreact uid emoji) r e x = (r e x \<and> \<not> (e = emoji \<and> x = uid))"
| "reacted_after (ClearReaction emoji) r e x = (r e x \<and> e \<noteq> emoji)"

lemma length_update: "length (AList.update k v m) = (if hm_contains m k then length m else Suc (length m))"
  by (induction m) (auto simp: hm_contains_def)

lemma change_message:
  assumes "map_of (db_messages (db w)) i = Some m"
  shows "on_db (table_change db_messages db_messages_update NotFound i f) w
       = (Ok (), w\<lparr>db := db_messages_update (AList.update i (f m)) (db w)\<rparr>)"
  using assms by (simp add: on_db_def table_change_def modify_def)

lemma emoji_can_use_state: "snd (emoji_can_use E emoji w) = w"
  by (auto simp: emoji_can_use_def andthen_def on_db_def fetch_emoji_def emojis.fetch ret_def split: option.splits)

lemma add_reaction_ok:
  assumes cur: "map_of (db_messages (db w)) (msg_id m) = Some m" and ok: "reactions_ok (message_reactions (env_global E)) (msg_reactions m)"
    and res: "add_reaction E m u emoji w = (Ok (), w')"
  shows "\<exists>m'. map_of (db_messages (db w')) (msg_id m) = Some m' \<and> reactions_ok (message_reactions (env_global E)) (msg_reactions m')
    \<and> (\<forall>e x. reacted m' e x = (reacted m e x \<or> e = emoji \<and> x = user_id u))"
proof -
  let ?rs = "msg_reactions m"
  let ?us = "case map_of ?rs emoji of Some us \<Rightarrow> index_insert (user_id u) us | None \<Rightarrow> [user_id u]"
  let ?m = "m\<lparr>msg_reactions := AList.update emoji ?us ?rs\<rparr>"
  have room: "length ?rs < message_reactions (env_global E) \<or> hm_contains ?rs emoji"
    using res by (auto simp: add_reaction_def throw_def split: if_splits)
  obtain ok' w1 where can: "emoji_can_use E emoji w = (ok', w1)" by fastforce
  with emoji_can_use_state [of E emoji w] have "w1 = w" by simp
  have "w' = w\<lparr>events := events w @ [(msg_channel m, MessageReact (msg_id m) (msg_channel m) (user_id u) emoji)],
      db := db_messages_update (AList.update (msg_id m) ?m) (db w)\<rparr>"
    using res can \<open>w1 = w\<close> cur
    by (cases ok'; cases "map_of ?rs emoji")
      (auto simp: add_reaction_def andthen_Ok andthen_Err andthen_Panic throw_def db_add_reaction_def change_message split: if_splits)
  then have "map_of (db_messages (db w')) (msg_id m) = Some ?m" by (simp add: db_simps)
  moreover have "reactions_ok (message_reactions (env_global E)) (msg_reactions ?m)"
  proof (rule reactions_okI)
    show "us \<noteq> [] \<and> distinct us" if "map_of (msg_reactions ?m) e = Some us" for e us
    proof (cases "e = emoji")
      case True
      with that have "us = ?us" by (simp add: db_simps)
      then show ?thesis
        using reactions_okD(3,4) [OF ok, of emoji] by (cases "map_of ?rs emoji") (auto simp: index_insert_def)
    next
      case False
      with that have "map_of ?rs e = Some us" by (simp add: db_simps)
      then show ?thesis using reactions_okD(3,4) [OF ok] by blast
    qed
  qed (use reactions_okD(1,2) [OF ok] room in \<open>auto simp: length_update\<close>)
  moreover have "reacted ?m e x = (reacted m e x \<or> e = emoji \<and> x = user_id u)" for e x
    by (auto simp: reacted_def db_simps index_insert_def split: option.splits)
  ultimately show ?thesis by blast
qed

lemma clear_reaction_ok:
  assumes cur: "map_of (db_messages (db w)) (msg_id m) = Some m" and ok: "reactions_ok limit (msg_reactions m)"
  shows "\<exists>m'. map_of (db_messages (db (snd (on_db (db_clear_reaction (msg_id m) emoji) w)))) (msg_id m) = Some m'
    \<and> reactions_ok limit (msg_reactions m') \<and> (\<forall>e x. reacted m' e x = (reacted m e x \<and> e \<noteq> emoji))"
proof -
  let ?m = "m\<lparr>msg_reactions := swap_remove (\<lambda>(e, us). e = emoji) (msg_reactions m)\<rparr>"
  have wf: "hm_wf (msg_reactions m)" by (rule reactions_okD(1) [OF ok])
  have "map_of (db_messages (db (snd (on_db (db_clear_reaction (msg_id m) emoji) w)))) (msg_id m) = Some ?m"
    using cur by (simp add: db_clear_reaction_def change_message db_simps)
  moreover have "reactions_ok limit (msg_reactions ?m)"
  proof (rule reactions_okI)
    show "us \<noteq> [] \<and> distinct us" if "map_of (msg_reactions ?m) e = Some us" for e us
      using that reactions_okD(3,4) [OF ok, of e us] by (simp add: swap_remove_key [OF wf] split: if_splits)
  qed (use swap_remove_length [of "\<lambda>(e, us). e = emoji" "msg_reactions m"] reactions_okD(2) [OF ok] swap_remove_key(2) [OF wf]
      in \<open>simp_all\<close>)
  moreover have "reacted ?m e x = (reacted m e x \<and> e \<noteq> emoji)" for e x
    by (auto simp: reacted_def swap_remove_key [OF wf])
  ultimately show ?thesis by blast
qed

lemma remove_reaction_ok:
  assumes cur: "map_of (db_messages (db w)) (msg_id m) = Some m" and ok: "reactions_ok limit (msg_reactions m)"
    and res: "remove_reaction m uid emoji w = (Ok (), w')"
  shows "\<exists>m'. map_of (db_messages (db w')) (msg_id m) = Some m' \<and> reactions_ok limit (msg_reactions m')
    \<and> (\<forall>e x. reacted m' e x = (reacted m e x \<and> \<not> (e = emoji \<and> x = uid)))"
proof -
  obtain us where us: "map_of (msg_reactions m) emoji = Some us" "uid \<in> set us"
    using res by (auto simp: remove_reaction_def throw_def split: option.splits if_splits)
  have d: "distinct us" by (rule reactions_okD(4) [OF ok us(1)])
  let ?w = "w\<lparr>events := events w @ [(msg_channel m, MessageUnreact (msg_id m) (msg_channel m) uid emoji)]\<rparr>"
  show ?thesis
  proof (cases "length us = 1")
    case True
    then have "us = [uid]" using us(2) by (cases us) auto
    moreover have "w' = snd (on_db (db_clear_reaction (msg_id m) emoji) ?w)"
      using res us True by (simp add: remove_reaction_def)
    ultimately show ?thesis
      using clear_reaction_ok [of ?w m limit emoji] cur ok us by (auto simp: reacted_def)
  next
    case False
    let ?us = "swap_remove (\<lambda>x. x = uid) us"
    let ?m = "m\<lparr>msg_reactions := AList.update emoji ?us (msg_reactions m)\<rparr>"
    have "us \<noteq> [uid]" using False by auto
    with us(2) d have ne: "set us - {uid} \<noteq> {}" by (cases us; cases "tl us") auto
    have "w' = ?w\<lparr>db := db_messages_update (AList.update (msg_id m) ?m) (db w)\<rparr>"
      using res us False cur by (simp add: remove_reaction_def db_remove_reaction_def change_message)
    then have "map_of (db_messages (db w')) (msg_id m) = Some ?m" by (simp add: db_simps)
    moreover have "?us \<noteq> []" using ne swap_remove_elem(1) [OF d, of uid] by force
    have "reactions_ok limit (msg_reactions ?m)"
    proof (rule reactions_okI)
      show "vs \<noteq> [] \<and> distinct vs" if "map_of (msg_reactions ?m) e = Some vs" for e vs
        using that \<open>?us \<noteq> []\<close> swap_remove_elem(2) [OF d, of uid] reactions_okD(3,4) [OF ok, of e vs]
        by (auto simp: db_simps split: if_splits)
    qed (use reactions_okD(1,2) [OF ok] us(1) in \<open>simp_all add: length_update hm_contains_def\<close>)
    moreover have "reacted ?m e x = (reacted m e x \<and> \<not> (e = emoji \<and> x = uid))" for e x
      using us(1) by (auto simp: reacted_def db_simps swap_remove_elem [OF d])
    ultimately show ?thesis by blast
  qed
qed

text \<open>C28: a successful request on a message changes exactly the reaction it is about, and the reactions stay
  well-formed: never more emojis than configured, an emoji without users is gone, and no user counts
  twice.\<close>

theorem reaction_requests:
  assumes "map_of (db_messages (db w)) (msg_id m) = Some m"
    and "reactions_ok (message_reactions (env_global E)) (msg_reactions m)"
    and "reaction_request E q m w = (Ok (), w')"
  shows "\<exists>m'. map_of (db_messages (db w')) (msg_id m) = Some m'
    \<and> reactions_ok (message_reactions (env_global E)) (msg_reactions m')
    \<and> (\<forall>e x. reacted m' e x = reacted_after q (reacted m) e x)"
proof (cases q)
  case (AddReaction u emoji)
  with assms add_reaction_ok [OF assms(1,2)] show ?thesis by simp
next
  case (Unreact uid emoji)
  with assms remove_reaction_ok [OF assms(1,2)] show ?thesis by simp
next
  case (ClearReaction emoji)
  let ?w = "w\<lparr>events := events w @ [(msg_channel m, MessageRemoveReaction (msg_id m) (msg_channel m) emoji)]\<rparr>"
  have "w' = snd (on_db (db_clear_reaction (msg_id m) emoji) ?w)"
    using assms(3) ClearReaction by (simp add: clear_reaction_def)
  then show ?thesis using clear_reaction_ok [of ?w m _ emoji] assms(1,2) ClearReaction by simp
qed

definition sample_message :: "string \<Rightarrow> string \<Rightarrow> (string, string list) hashmap \<Rightarrow> message" where
  "sample_message i channel rs = message_default\<lparr>msg_id := i, msg_channel := channel, msg_reactions := rs\<rparr>"

theorem reaction_requests_witness:
  "\<exists>m'. map_of (db_messages (db (snd (reaction_request sample_env (Unreact ''B'' ''x'') (sample_message ''M'' ''C'' [(''x'', [''A'', ''B''])])
       (sample_world (empty_db\<lparr>db_messages := [(''M'', sample_message ''M'' ''C'' [(''x'', [''A'', ''B''])])]\<rparr>)))))) ''M'' = Some m'
    \<and> \<not> reacted m' ''x'' ''B'' \<and> reacted m' ''x'' ''A''"
proof -
  let ?m = "sample_message ''M'' ''C'' [(''x'', [''A'', ''B''])]"
  let ?w = "sample_world (empty_db\<lparr>db_messages := [(''M'', ?m)]\<rparr>)"
  have "reactions_ok (message_reactions (env_global sample_env)) (msg_reactions ?m)"
    by (rule reactions_okI) (auto simp: hm_wf_def sample_message_def sample_env_def split: if_splits)
  moreover have "reaction_request sample_env (Unreact ''B'' ''x'') ?m ?w
      = (Ok (), snd (reaction_request sample_env (Unreact ''B'' ''x'') ?m ?w))"
    by (simp add: remove_reaction_def sample_message_def db_remove_reaction_def table_change_def on_db_def modify_def sample_world_def)
  moreover have "map_of (db_messages (db ?w)) (msg_id ?m) = Some ?m" by (simp add: sample_message_def sample_world_def)
  ultimately obtain m' where "map_of (db_messages (db (snd (reaction_request sample_env (Unreact ''B'' ''x'') ?m ?w)))) (msg_id ?m) = Some m'"
    and re: "\<forall>e x. reacted m' e x = reacted_after (Unreact ''B'' ''x'') (reacted ?m) e x"
    using reaction_requests by blast
  moreover have "\<not> reacted m' ''x'' ''B'' \<and> reacted m' ''x'' ''A''"
    unfolding re [rule_format] by (simp add: sample_message_def reacted_def)
  moreover have "msg_id ?m = ''M''" by (simp add: sample_message_def)
  ultimately show ?thesis by metis
qed

section \<open>Properties of deletion\<close>

lemma lookup_all_Ok: "lookup_all t e ks = Ok vs \<Longrightarrow> map (map_of t) ks = map Some vs"
proof (induction ks arbitrary: vs)
  case (Cons k ks)
  from Cons.prems obtain v vs' where "map_of t k = Some v" "lookup_all t e ks = Ok vs'" "vs = v # vs'"
    by (cases "map_of t k"; cases "lookup_all t e ks") auto
  with Cons.IH show ?case by simp
qed simp

text \<open>the bulk deletion on the reference database deletes too much: after it succeeds, no message of the
  channel is left, whichever ids were asked for. The condition in \<open>delete_messages\<close> keeps a message only if
  it is in another channel and not in the list, where one of the two should be enough.\<close>

theorem bulk_delete_empties_channel:
  assumes "bulk_delete channel ids w = (Ok (), w')"
  shows "filter (\<lambda>m. msg_channel m = channel) (hm_values (db_messages (db w'))) = []"
proof -
  obtain ms where "lookup_all (db_messages (db w)) NotFound ids = Ok ms"
    using assms by (cases "lookup_all (db_messages (db w)) NotFound ids")
      (auto simp: bulk_delete_def fetch_messages_by_id_def andthen_def on_db_def lift_def gets_def)
  with assms have "db_messages (db w') = filter (\<lambda>(i, m). msg_channel m \<noteq> channel \<and> i \<notin> set (map msg_id (filter (\<lambda>m. msg_channel m = channel) ms))) (db_messages (db w))"
    by (auto simp: bulk_delete_def fetch_messages_by_id_def andthen_def on_db_def lift_def gets_def Let_def delete_messages_def modify_def publish_def)
  then show ?thesis by (auto simp: filter_empty_conv)
qed

theorem bulk_delete_empties_channel_witness:
  "db_messages (db (snd (bulk_delete ''C'' [''M''] (sample_world (empty_db\<lparr>db_messages :=
      [(''M'', sample_message ''M'' ''C'' []), (''N'', sample_message ''N'' ''C'' [])]\<rparr>))))) = []"
proof -
  let ?w = "sample_world (empty_db\<lparr>db_messages := [(''M'', sample_message ''M'' ''C'' []), (''N'', sample_message ''N'' ''C'' [])]\<rparr>)"
  have "bulk_delete ''C'' [''M''] ?w = (Ok (), snd (bulk_delete ''C'' [''M''] ?w))"
    by (simp add: bulk_delete_def fetch_messages_by_id_def on_db_def lift_def gets_def Let_def delete_messages_def modify_def
        publish_def sample_world_def andthen_def)
  from bulk_delete_empties_channel [OF this] show ?thesis
    by (simp add: bulk_delete_def fetch_messages_by_id_def on_db_def lift_def gets_def Let_def delete_messages_def modify_def
        publish_def sample_world_def andthen_def sample_message_def)
qed

lemma group_step:
  "map_of (fold (\<lambda>(i, m) acc. AList.update (msg_channel m)
             ((case map_of acc (msg_channel m) of Some ids \<Rightarrow> ids | None \<Rightarrow> []) @ [i]) acc) ms acc) c
   = (let old = (case map_of acc c of Some ids \<Rightarrow> ids | None \<Rightarrow> []);
          new = map fst (filter (\<lambda>(i, m). msg_channel m = c) ms)
      in if map_of acc c = None \<and> new = [] then None else Some (old @ new))"
  by (induction ms arbitrary: acc) (auto simp: Let_def db_simps split: option.splits)

lemma group_by_channel_lookup:
  "map_of (group_by_channel ms) c =
     (let ids = map fst (filter (\<lambda>(i, m). msg_channel m = c) ms) in if ids = [] then None else Some ids)"
  using group_step [of ms "[]" c] by (simp add: group_by_channel_def Let_def)

lemma group_by_channel_wf: "hm_wf (group_by_channel ms)"
proof -
  have "hm_wf (fold (\<lambda>(i, m) acc. AList.update (msg_channel m)
             ((case map_of acc (msg_channel m) of Some ids \<Rightarrow> ids | None \<Rightarrow> []) @ [i]) acc) ms acc)" if "hm_wf acc" for acc
    using that by (induction ms arbitrary: acc) (auto split: prod.split)
  then show ?thesis by (simp add: group_by_channel_def)
qed

lemma publish_groups:
  assumes "\<forall>(c, ids) \<in> set gs. ids \<noteq> []"
  shows "for_each (\<lambda>(channel, ids). if ids \<noteq> [] then publish (BulkMessageDelete channel ids) channel else ret ()) gs w
    = (Ok (), w\<lparr>events := events w @ map (\<lambda>(c, ids). (c, BulkMessageDelete c ids)) gs\<rparr>)"
  using assms by (induction gs arbitrary: w) (auto simp: ret_def)

text \<open>the sweep of a banned author's messages removes exactly the messages of that author, in those channels
  and from that time on, and announces to each channel exactly the ids that were removed from it.\<close>

theorem author_sweep_exact:
  "let gone = filter (written_since channels author threshold) (db_messages (db w)) in
    fst (bulk_delete_by_author_since channels author threshold w) = Ok ()
    \<and> db_messages (db (snd (bulk_delete_by_author_since channels author threshold w)))
      = filter (\<lambda>(i, m). \<not> (msg_author m = author \<and> msg_channel m \<in> set channels \<and> threshold \<le> i)) (db_messages (db w))
    \<and> events (snd (bulk_delete_by_author_since channels author threshold w))
      = events w @ map (\<lambda>(c, ids). (c, BulkMessageDelete c ids)) (group_by_channel gone)
    \<and> map_of (group_by_channel gone) c
      = (let ids = map fst (filter (\<lambda>(i, m). msg_channel m = c) gone) in if ids = [] then None else Some ids)"
proof -
  define gone where "gone = filter (written_since channels author threshold) (db_messages (db w))"
  have "\<forall>(c, ids) \<in> set (group_by_channel gone). ids \<noteq> []"
    using hm_wf_map_of_iff [OF group_by_channel_wf [of gone]] by (auto simp: group_by_channel_lookup Let_def split: if_splits)
  note pub = publish_groups [OF this]
  obtain d where e: "delete_messages_by_author_since channels author threshold (db w) = (Ok (group_by_channel gone), d)"
    and d: "d = snd (delete_messages_by_author_since channels author threshold (db w))"
    by (simp add: delete_messages_by_author_since_def Let_def ret_def gone_def)
  have "db_messages d
      = filter (\<lambda>(i, m). \<not> (msg_author m = author \<and> msg_channel m \<in> set channels \<and> threshold \<le> i)) (db_messages (db w))"
    by (auto simp: d delete_messages_by_author_since_def Let_def ret_def written_since_def intro!: filter_cong)
  then show ?thesis
    by (simp add: bulk_delete_by_author_since_def andthen_def on_db_def e pub group_by_channel_lookup Let_def gone_def [symmetric])
qed

end
