(* ===== verification/Debounce.thy ===== *)
theory Debounce
  imports Prelude
begin

text \<open>
  The delayed tasks of \<open>crates/core/database/src/tasks/mod.rs\<close> and the loop that the debouncing workers share
  (\<open>tasks/last_message_id.rs\<close> and \<open>tasks/ack.rs\<close>): a worker keeps a map of delayed tasks; in each round it takes out and
  handles those that are due, then empties the queue, merging an entry into the task of its key or starting a new one.

  Times are milliseconds of the monotonic clock. A round is the time at which the tasks are checked and the entries that the worker
  takes from the queue afterwards, each with its time: which entries it gets depends on the other workers.

  The locale \<open>debounced\<close> states what a worker has to provide and proves what follows for every run of rounds: the handled tasks are
  the digests of consecutive batches of entries, nothing is lost or repeated, and no entry waits for longer than the expiry time.
\<close>

section \<open>Delayed tasks\<close>

record 't delayed_task =
  dt_data :: 't
  dt_run_now :: bool
  dt_last_updated :: nat
  dt_first_seen :: nat

definition EXPIRE_CONSTANT :: nat where
  "EXPIRE_CONSTANT = 30"

definition SAVE_CONSTANT :: nat where
  "SAVE_CONSTANT = 5"

definition delayed_new :: "nat \<Rightarrow> 't \<Rightarrow> 't delayed_task" where
  "delayed_new now data = \<lparr>dt_data = data, dt_run_now = False, dt_last_updated = now, dt_first_seen = now\<rparr>"

definition delay :: "nat \<Rightarrow> 't delayed_task \<Rightarrow> 't delayed_task" where
  "delay now x = x\<lparr>dt_last_updated := now\<rparr>"

definition run_immediately :: "'t delayed_task \<Rightarrow> 't delayed_task" where
  "run_immediately x = x\<lparr>dt_run_now := True\<rparr>"

text \<open>\<open>elapsed().as_secs()\<close>: whole seconds, and 0 when the clock has not moved on.\<close>

definition elapsed_secs :: "nat \<Rightarrow> nat \<Rightarrow> nat" where
  "elapsed_secs now t = (now - t) div 1000"

definition should_run :: "nat \<Rightarrow> 't delayed_task \<Rightarrow> bool" where
  "should_run now x \<longleftrightarrow> dt_run_now x \<or> elapsed_secs now (dt_first_seen x) > EXPIRE_CONSTANT
     \<or> elapsed_secs now (dt_last_updated x) > SAVE_CONSTANT"

text \<open>The comparison is strict on whole seconds: a task expires after 31 seconds.\<close>

lemma not_due_young: "\<not> should_run now x \<Longrightarrow> now < dt_first_seen x + 31000"
proof -
  assume "\<not> should_run now x"
  then have "(now - dt_first_seen x) div 1000 \<le> 30" by (simp add: should_run_def elapsed_secs_def EXPIRE_CONSTANT_def)
  then show ?thesis by linarith
qed

lemma delayed_sels [simp]:
  "dt_data (delayed_new t d) = d" "dt_first_seen (delayed_new t d) = t" "dt_data (delay t x) = dt_data x"
  "dt_first_seen (delay t x) = dt_first_seen x" "dt_data (run_immediately x) = dt_data x"
  "dt_first_seen (run_immediately x) = dt_first_seen x"
  by (simp_all add: delayed_new_def delay_def run_immediately_def)

section \<open>A round of a worker\<close>

type_synonym ('k, 't) pending_tasks = "('k, 't delayed_task) hashmap"
type_synonym 'd round = "nat \<times> (nat \<times> 'd) list"

text \<open>``Find due tasks'' and ``Commit any due tasks''.\<close>

definition due_keys :: "nat \<Rightarrow> ('k, 't) pending_tasks \<Rightarrow> 'k list" where
  "due_keys now ts = map fst (filter (\<lambda>(_, x). should_run now x) ts)"

fun commit_due ::
    "('k \<Rightarrow> 't \<Rightarrow> ('s, 'e, unit) action) \<Rightarrow> 'k list \<Rightarrow> ('k, 't) pending_tasks \<Rightarrow> ('s, 'e, ('k, 't) pending_tasks) action" where
  "commit_due handle [] ts = ret ts"
| "commit_due handle (k # ks) ts =
     (case map_of ts k of
        Some x \<Rightarrow> andthen (handle k (dt_data x)) (\<lambda>_. commit_due handle ks (AList.delete k ts))
      | None \<Rightarrow> commit_due handle ks ts)"

text \<open>``Queue incoming tasks''. Merging an entry into the task of its key can panic (\<open>None\<close>).\<close>

fun receive ::
    "('d \<Rightarrow> 'k) \<Rightarrow> ('d \<Rightarrow> 't) \<Rightarrow> (nat \<Rightarrow> 'd \<Rightarrow> 't delayed_task \<Rightarrow> 't delayed_task option) \<Rightarrow> (nat \<times> 'd) list
     \<Rightarrow> ('k, 't) pending_tasks \<Rightarrow> ('k, 't) pending_tasks option" where
  "receive key start absorb [] ts = Some ts"
| "receive key start absorb ((t, d) # ds) ts =
     (case map_of ts (key d) of
        Some x \<Rightarrow>
          (case absorb t d x of
             Some y \<Rightarrow> receive key start absorb ds (AList.update (key d) y ts)
           | None \<Rightarrow> None)
      | None \<Rightarrow> receive key start absorb ds (AList.update (key d) (delayed_new t (start d)) ts))"

definition worker_round ::
    "('k \<Rightarrow> 't \<Rightarrow> ('s, 'e, unit) action) \<Rightarrow> ('d \<Rightarrow> 'k) \<Rightarrow> ('d \<Rightarrow> 't) \<Rightarrow> (nat \<Rightarrow> 'd \<Rightarrow> 't delayed_task \<Rightarrow> 't delayed_task option)
     \<Rightarrow> 'd round \<Rightarrow> ('k, 't) pending_tasks \<Rightarrow> ('s, 'e, ('k, 't) pending_tasks) action" where
  "worker_round handle key start absorb = (\<lambda>(now, entries) ts.
     andthen (commit_due handle (due_keys now ts) ts) (\<lambda>ts'. unwrap (receive key start absorb entries ts')))"

text \<open>What a round hands to the handler and what it keeps.\<close>

definition commits :: "nat \<Rightarrow> ('k, 't) pending_tasks \<Rightarrow> ('k \<times> 't) list" where
  "commits now ts = map (\<lambda>(k, x). (k, dt_data x)) (filter (\<lambda>(_, x). should_run now x) ts)"

definition waiting :: "nat \<Rightarrow> ('k, 't) pending_tasks \<Rightarrow> ('k, 't) pending_tasks" where
  "waiting now ts = filter (\<lambda>(_, x). \<not> should_run now x) ts"

lemma delete_other: "k \<notin> fst ` set ts \<Longrightarrow> AList.delete k ts = ts"
  by (force simp: AList.delete_eq filter_id_conv)

lemma commit_due_split:
  "hm_wf (us @ ts) \<Longrightarrow> \<forall>(_, x) \<in> set us. \<not> should_run now x \<Longrightarrow>
   commit_due handle (due_keys now ts) (us @ ts)
     = andthen (for_each (\<lambda>(k, x). handle k x) (commits now ts)) (\<lambda>_. ret (us @ waiting now ts))"
proof (induction ts arbitrary: us)
  case Nil
  then show ?case by (simp add: due_keys_def commits_def waiting_def)
next
  case (Cons p ts)
  obtain k x where p: "p = (k, x)" by (cases p)
  show ?case
  proof (cases "should_run now x")
    case True
    have wf: "hm_wf (us @ ts)" and k: "k \<notin> fst ` set us" "k \<notin> fst ` set ts" using Cons.prems(1) by (auto simp: hm_wf_def p)
    then have "map_of us k = None" by (simp add: map_of_eq_None_iff)
    then have "map_of (us @ p # ts) k = Some x" by (simp add: p map_add_def)
    moreover have "AList.delete k (us @ p # ts) = us @ ts"
      using delete_other [OF k(1)] delete_other [OF k(2)] by (simp add: p AList.delete_eq)
    ultimately show ?thesis using Cons.IH [OF wf Cons.prems(2)] True
      by (simp add: p due_keys_def commits_def waiting_def andthen_assoc)
  next
    case False
    with Cons.IH [of "us @ [p]"] Cons.prems show ?thesis
      by (simp add: p due_keys_def commits_def waiting_def)
  qed
qed

text \<open>A round hands every due task to the handler, once, and goes on with the others.\<close>

lemma worker_round_eq:
  "hm_wf ts \<Longrightarrow> worker_round handle key start absorb (now, es) ts
     = andthen (for_each (\<lambda>(k, x). handle k x) (commits now ts)) (\<lambda>_. unwrap (receive key start absorb es (waiting now ts)))"
  using commit_due_split [of "[]" ts now handle] by (simp add: worker_round_def andthen_assoc)

section \<open>Runs\<close>

text \<open>The tasks handed to the handler in a sequence of rounds, and the tasks that are left.\<close>

definition debounce_round ::
    "('d \<Rightarrow> 'k) \<Rightarrow> ('d \<Rightarrow> 't) \<Rightarrow> (nat \<Rightarrow> 'd \<Rightarrow> 't delayed_task \<Rightarrow> 't delayed_task option) \<Rightarrow> 'd round
     \<Rightarrow> ('k \<times> 't) list \<times> ('k, 't) pending_tasks \<Rightarrow> (('k \<times> 't) list \<times> ('k, 't) pending_tasks) option" where
  "debounce_round key start absorb = (\<lambda>(now, es) (done_tasks, ts).
     map_option (\<lambda>ts'. (done_tasks @ commits now ts, ts')) (receive key start absorb es (waiting now ts)))"

definition debounce_run ::
    "('d \<Rightarrow> 'k) \<Rightarrow> ('d \<Rightarrow> 't) \<Rightarrow> (nat \<Rightarrow> 'd \<Rightarrow> 't delayed_task \<Rightarrow> 't delayed_task option) \<Rightarrow> 'd round list
     \<Rightarrow> (('k \<times> 't) list \<times> ('k, 't) pending_tasks) option" where
  "debounce_run key start absorb rounds =
     foldl (\<lambda>s r. Option.bind s (debounce_round key start absorb r)) (Some ([], [])) rounds"

definition of_key :: "('d \<Rightarrow> 'k) \<Rightarrow> 'k \<Rightarrow> (nat \<times> 'd) list \<Rightarrow> (nat \<times> 'd) list" where
  "of_key key k es = filter (\<lambda>(_, d). key d = k) es"

abbreviation popped :: "'d round list \<Rightarrow> (nat \<times> 'd) list" where
  "popped rounds \<equiv> concat (map snd rounds)"

abbreviation handled :: "'k \<Rightarrow> ('k \<times> 't) list \<Rightarrow> 't list" where
  "handled k cs \<equiv> map snd (filter (\<lambda>c. fst c = k) cs)"

text \<open>The clock does not go back: neither from round to round nor within a round.\<close>

definition timely :: "'d round list \<Rightarrow> bool" where
  "timely rounds \<longleftrightarrow> sorted (concat (map (\<lambda>(now, es). now # map fst es) rounds))"

lemma timely_snoc:
  assumes "timely (rounds @ [(now, es)])"
  shows "timely rounds" and "\<forall>(t, _) \<in> set (popped rounds). t \<le> now" and "\<forall>(t, _) \<in> set es. now \<le> t"
proof -
  let ?times = "\<lambda>rs. concat (map (\<lambda>(now, es). now # map fst es) rs)"
  have sorted: "sorted (?times rounds)" "\<forall>t \<in> set (?times rounds). t \<le> now" "\<forall>t \<in> set (map fst es). now \<le> t"
    using assms by (auto simp: timely_def sorted_append)
  then show "timely rounds" by (simp add: timely_def)
  from sorted(3) show "\<forall>(t, _) \<in> set es. now \<le> t" by auto
  have "t \<in> set (?times rounds)" if "(t, d) \<in> set (popped rounds)" for t d
    using that by (induction rounds) (auto simp: image_iff, force)
  with sorted(2) show "\<forall>(t, _) \<in> set (popped rounds). t \<le> now" by blast
qed

lemma timely_sorted: "timely rounds \<Longrightarrow> sorted (map fst (popped rounds))"
proof (induction rounds rule: rev_induct)
  case (snoc r rounds)
  obtain now es where r: "r = (now, es)" by (cases r)
  note timely = timely_snoc [OF snoc.prems [unfolded r]]
  have "sorted (map fst es)" using snoc.prems by (simp add: timely_def sorted_append r)
  with snoc.IH [OF timely(1)] timely(2,3) show ?case by (fastforce simp: sorted_append r)
qed simp

locale debounced =
  fixes key :: "'d \<Rightarrow> 'k" and start :: "'d \<Rightarrow> 't"
    and absorb :: "nat \<Rightarrow> 'd \<Rightarrow> 't delayed_task \<Rightarrow> 't delayed_task option"
    and digest :: "'d list \<Rightarrow> 't"
  assumes digest_start: "digest [d] = start d"
    and digest_absorb: "ds \<noteq> [] \<Longrightarrow> \<forall>e \<in> set ds. key e = key d \<Longrightarrow> dt_data x = digest ds \<Longrightarrow>
      \<exists>y. absorb t d x = Some y \<and> dt_data y = digest (ds @ [d]) \<and> dt_first_seen y = dt_first_seen x"
begin

text \<open>A task that is kept is the digest of the entries that wait for its key.\<close>

definition digested :: "'k \<Rightarrow> 't delayed_task option \<Rightarrow> (nat \<times> 'd) list \<Rightarrow> bool" where
  "digested k task es \<longleftrightarrow> (\<forall>e \<in> set es. key (snd e) = k) \<and>
     (case task of
        None \<Rightarrow> es = []
      | Some x \<Rightarrow> es \<noteq> [] \<and> dt_data x = digest (map snd es) \<and> dt_first_seen x = fst (hd es))"

lemma digested_None [simp]: "digested k None es \<longleftrightarrow> es = []"
  by (auto simp: digested_def)

lemma digested_start [simp]: "digested (key d) (Some (delayed_new t (start d))) [(t, d)]"
  by (simp add: digested_def digest_start)

lemma digested_absorb:
  assumes "digested (key d) (Some x) es"
  obtains y where "absorb t d x = Some y" and "digested (key d) (Some y) (es @ [(t, d)])"
proof -
  have es: "es \<noteq> []" "\<forall>e \<in> set es. key (snd e) = key d" "dt_data x = digest (map snd es)" "dt_first_seen x = fst (hd es)"
    using assms by (auto simp: digested_def)
  have "\<exists>y. absorb t d x = Some y \<and> dt_data y = digest (map snd es @ [d]) \<and> dt_first_seen y = dt_first_seen x"
    by (rule digest_absorb) (use es in auto)
  with es that show ?thesis by (auto simp: digested_def)
qed

definition awaited :: "('k, 't) pending_tasks \<Rightarrow> ('k \<Rightarrow> (nat \<times> 'd) list) \<Rightarrow> bool" where
  "awaited ts P \<longleftrightarrow> hm_wf ts \<and> (\<forall>k. digested k (map_of ts k) (P k))"

lemma awaited_update: "awaited ts P \<Longrightarrow> digested k (Some x) es \<Longrightarrow> awaited (AList.update k x ts) (P(k := es))"
  by (simp add: awaited_def hm_lookup_update)

lemma receive_one:
  assumes "awaited ts P"
  shows "\<exists>ts'. receive key start absorb ((t, d) # es) ts = receive key start absorb es ts'
     \<and> awaited ts' (P(key d := P (key d) @ [(t, d)]))"
proof (cases "map_of ts (key d)")
  case None
  with assms have "P (key d) = []" by (auto simp: awaited_def dest: spec [of _ "key d"])
  with None awaited_update [OF assms digested_start [of d t]] show ?thesis by auto
next
  case (Some x)
  with assms have "digested (key d) (Some x) (P (key d))" by (auto simp: awaited_def dest: spec [of _ "key d"])
  then obtain y where "absorb t d x = Some y" "digested (key d) (Some y) (P (key d) @ [(t, d)])" by (rule digested_absorb)
  with Some awaited_update [OF assms] show ?thesis by auto
qed

lemma receive_awaited:
  "awaited ts P \<Longrightarrow> \<exists>ts'. receive key start absorb es ts = Some ts' \<and> awaited ts' (\<lambda>k. P k @ of_key key k es)"
proof (induction es arbitrary: ts P)
  case Nil
  then show ?case by (simp add: of_key_def)
next
  case (Cons e es)
  obtain t d where e: "e = (t, d)" by (cases e)
  let ?P = "P(key d := P (key d) @ [(t, d)])"
  obtain ts' where ts': "receive key start absorb (e # es) ts = receive key start absorb es ts'" "awaited ts' ?P"
    using receive_one [OF Cons.prems] unfolding e by blast
  have "(\<lambda>k. ?P k @ of_key key k es) = (\<lambda>k. P k @ of_key key k (e # es))" by (auto simp: e of_key_def)
  with Cons.IH [OF ts'(2)] ts'(1) show ?case by simp
qed

text \<open>Taking the due tasks out.\<close>

lemma lookup_waiting: "hm_wf ts \<Longrightarrow> map_of (waiting now ts) k = (case map_of ts k of Some x \<Rightarrow> if should_run now x then None else Some x | None \<Rightarrow> None)"
  by (induction ts) (auto simp: waiting_def hm_wf_def map_of_eq_None_iff image_iff split: option.split)

lemma handled_commits:
  "hm_wf ts \<Longrightarrow> handled k (commits now ts) = (case map_of ts k of Some x \<Rightarrow> if should_run now x then [dt_data x] else [] | None \<Rightarrow> [])"
proof (induction ts)
  case (Cons p ts)
  moreover have "handled j (commits now ts) = []" if "j \<notin> fst ` set ts" for j
    using that by (induction ts) (auto simp: commits_def)
  ultimately show ?case by (cases p) (auto simp: commits_def hm_wf_def)
qed (simp add: commits_def)

lemma awaited_waiting:
  assumes "awaited ts P"
  shows "awaited (waiting now ts) (\<lambda>k. if map_of (waiting now ts) k = None then [] else P k)"
proof -
  have wf: "hm_wf ts" and P: "digested k (map_of ts k) (P k)" for k using assms by (auto simp: awaited_def)
  have "hm_wf (waiting now ts)" using wf by (simp add: hm_wf_def waiting_def distinct_map_filter)
  moreover have "map_of (waiting now ts) k = Some x \<Longrightarrow> map_of ts k = Some x" for k x
    by (auto simp: lookup_waiting [OF wf] split: option.splits if_splits)
  ultimately show ?thesis using P by (auto simp: awaited_def) (metis)
qed

text \<open>What a run has done for one key: the entries taken for it are a sequence of batches, each of which was handled as its
  digest, followed by those that wait, none of which had waited for 31 seconds when the tasks were last checked.\<close>

definition settled :: "nat \<Rightarrow> (nat \<times> 'd) list \<Rightarrow> 't list \<Rightarrow> (nat \<times> 'd) list \<Rightarrow> bool" where
  "settled now es done_tasks pending \<longleftrightarrow> (\<exists>batches. es = concat batches @ pending \<and> [] \<notin> set batches
     \<and> done_tasks = map (\<lambda>b. digest (map snd b)) batches) \<and> (\<forall>(t, _) \<in> set pending. now < t + 31000)"

lemma settled_round:
  assumes "settled before old done_tasks pending" and "digested k task pending" and "sorted (map fst old)"
    and "\<forall>(t, _) \<in> set es. now \<le> t"
  shows "settled now (old @ es)
     (done_tasks @ (case task of Some x \<Rightarrow> if should_run now x then [dt_data x] else [] | None \<Rightarrow> []))
     ((case task of Some x \<Rightarrow> if should_run now x then [] else pending | None \<Rightarrow> []) @ es)"
proof -
  obtain bs where bs: "old = concat bs @ pending" "[] \<notin> set bs" "done_tasks = map (\<lambda>b. digest (map snd b)) bs"
    using assms(1) by (auto simp: settled_def)
  have young: "\<forall>(t, _) \<in> set es. now < t + 31000" using assms(4) by fastforce
  show ?thesis
  proof (cases task)
    case None
    with bs young assms(2) show ?thesis by (auto simp: settled_def)
  next
    case (Some x)
    then have x: "pending \<noteq> []" "dt_data x = digest (map snd pending)" "dt_first_seen x = fst (hd pending)"
      using assms(2) by (auto simp: digested_def)
    show ?thesis
    proof (cases "should_run now x")
      case True
      with bs young x Some show ?thesis by (auto simp: settled_def intro!: exI [of _ "bs @ [pending]"])
    next
      case False
      have "sorted (map fst pending)" using assms(3) bs(1) by (simp add: sorted_append)
      then have "\<forall>e \<in> set pending. fst (hd pending) \<le> fst e" using x(1) by (cases pending) auto
      with not_due_young [OF False] x(3) have "\<forall>(t, _) \<in> set pending. now < t + 31000" by fastforce
      with bs young Some False show ?thesis by (auto simp: settled_def)
    qed
  qed
qed

lemma run_settles:
  "timely (rounds @ [(now, es)]) \<Longrightarrow> \<exists>cs ts P. debounce_run key start absorb (rounds @ [(now, es)]) = Some (cs, ts) \<and> awaited ts P
     \<and> (\<forall>k. settled now (of_key key k (popped (rounds @ [(now, es)]))) (handled k cs) (P k))"
proof (induction rounds arbitrary: now es rule: rev_induct)
  case Nil
  have "awaited [] (\<lambda>_. [])" by (simp add: awaited_def)
  from receive_awaited [OF this] obtain ts where
    ts: "receive key start absorb es [] = Some ts" "awaited ts (\<lambda>k. of_key key k es)" by auto
  have "settled now (of_key key k es) [] (of_key key k es)" for k
    using timely_snoc(3) [OF Nil.prems] by (fastforce simp: settled_def of_key_def)
  with ts show ?case by (auto simp: debounce_run_def debounce_round_def commits_def waiting_def)
next
  case (snoc r rounds)
  obtain before es' where r: "r = (before, es')" by (cases r)
  let ?old = "rounds @ [(before, es')]"
  note timely = timely_snoc [OF snoc.prems [unfolded r]]
  from snoc.IH [OF timely(1)] obtain cs ts P where
    run: "debounce_run key start absorb ?old = Some (cs, ts)" and ts: "awaited ts P"
    and settled: "\<And>k. settled before (of_key key k (popped ?old)) (handled k cs) (P k)" by blast
  let ?P = "\<lambda>k. if map_of (waiting now ts) k = None then [] else P k"
  from receive_awaited [OF awaited_waiting [OF ts]] obtain ts' where
    ts': "receive key start absorb es (waiting now ts) = Some ts'" "awaited ts' (\<lambda>k. ?P k @ of_key key k es)" by blast
  have wf: "hm_wf ts" and digested: "\<And>k. digested k (map_of ts k) (P k)" using ts by (auto simp: awaited_def)
  have "settled now (of_key key k (popped (?old @ [(now, es)]))) (handled k (cs @ commits now ts)) (?P k @ of_key key k es)" for k
  proof -
    have "sorted (map fst (of_key key k (popped ?old)))"
      unfolding of_key_def by (rule sorted_filter [OF timely_sorted [OF timely(1)]])
    moreover have "\<forall>(t, _) \<in> set (of_key key k es). now \<le> t" using timely(3) by (auto simp: of_key_def)
    ultimately have "settled now (of_key key k (popped ?old) @ of_key key k es)
       (handled k cs @ handled k (commits now ts))
       ((case map_of ts k of Some x \<Rightarrow> if should_run now x then [] else P k | None \<Rightarrow> []) @ of_key key k es)"
      using settled_round [OF settled digested] by (simp only: handled_commits [OF wf])
    moreover have "(case map_of ts k of Some x \<Rightarrow> if should_run now x then [] else P k | None \<Rightarrow> []) = ?P k"
      by (simp add: lookup_waiting [OF wf] split: option.split)
    ultimately show ?thesis by (simp add: of_key_def)
  qed
  moreover have "debounce_run key start absorb (?old @ [(now, es)]) = Some (cs @ commits now ts, ts')"
    using run ts'(1) by (simp add: debounce_run_def debounce_round_def)
  ultimately show ?case using ts'(2) unfolding r by blast
qed

end

end
