(* ===== verification/Tasks.thy ===== *)
theory Tasks
  imports Messages Debounce
begin

text \<open>
  The background workers of \<open>crates/core/database/src/tasks\<close>: \<open>last_message_id.rs\<close> writes the latest message of a channel,
  \<open>ack.rs\<close> records mentions and acknowledgements and hands push notifications on, \<open>process_embeds.rs\<close> adds the embeds of links to a
  message. The first two are instances of the debouncing loop of \<open>Debounce\<close>; the interpretations of its locale below give what
  every run of a worker does.

  The entries come from the queues, which requests fill (\<open>tasks\<close> of the state is the log of what they push). A queue holds
  10,000 entries; what is pushed onto a full queue is dropped.
\<close>

section \<open>Queues\<close>

definition QUEUE_CAPACITY :: nat where
  "QUEUE_CAPACITY = 10000"

definition try_push :: "'d \<Rightarrow> 'd list \<Rightarrow> 'd list" where
  "try_push d q = (if length q < QUEUE_CAPACITY then q @ [d] else q)"

section \<open>The latest message of a channel\<close>

record last_message_data =
  lmd_channel :: string
  lmd_id :: string
  lmd_is_dm :: bool

record last_message_task =
  lmt_id :: string
  lmt_is_dm :: bool

definition last_message_start :: "last_message_data \<Rightarrow> last_message_task" where
  "last_message_start d = \<lparr>lmt_id = lmd_id d, lmt_is_dm = lmd_is_dm d\<rparr>"

definition last_message_absorb ::
    "nat \<Rightarrow> last_message_data \<Rightarrow> last_message_task delayed_task \<Rightarrow> last_message_task delayed_task option" where
  "last_message_absorb now d x = Some (delay now (x\<lparr>dt_data := (dt_data x)\<lparr>lmt_id := lmd_id d\<rparr>\<rparr>))"

text \<open>An error of the database is only logged.\<close>

definition commit_last_message_id :: "string \<Rightarrow> last_message_task \<Rightarrow> unit world_action" where
  "commit_last_message_id cid x =
     andthen (attempt (on_db (update_channel cid
       (partial_channel_default\<lparr>pc_last_message_id := Some (lmt_id x), pc_active := (if lmt_is_dm x then Some True else None)\<rparr>) [])))
     (\<lambda>_. ret ())"

definition last_message_id_round ::
    "last_message_data round \<Rightarrow> (string, last_message_task) pending_tasks \<Rightarrow> (string, last_message_task) pending_tasks world_action" where
  "last_message_id_round = worker_round commit_last_message_id lmd_channel last_message_start last_message_absorb"

definition last_message_id_run ::
    "last_message_data round list \<Rightarrow> ((string \<times> last_message_task) list \<times> (string, last_message_task) pending_tasks) option" where
  "last_message_id_run = debounce_run lmd_channel last_message_start last_message_absorb"

section \<open>Mentions and acknowledgements\<close>

text \<open>A message to process comes with its push notification (which carries the message), the users it is for, and whether the push
  is silenced.\<close>

type_synonym queued_message = "message option \<times> message \<times> string list \<times> bool"

datatype ack_event =
    ProcessMessage "queued_message list"
  | AckMessage string

record ack_data =
  ack_channel :: string
  ack_user :: "string option"
  ack_event :: ack_event

text \<open>\<open>queue_ack\<close> and \<open>queue_message\<close>: what the entries of the log put into the queue.\<close>

definition queue_ack :: "string \<Rightarrow> string \<Rightarrow> ack_event \<Rightarrow> ack_data list \<Rightarrow> ack_data list" where
  "queue_ack cid uid e = try_push \<lparr>ack_channel = cid, ack_user = Some uid, ack_event = e\<rparr>"

definition queue_message :: "string \<Rightarrow> ack_event \<Rightarrow> ack_data list \<Rightarrow> ack_data list" where
  "queue_message cid e = try_push \<lparr>ack_channel = cid, ack_user = None, ack_event = e\<rparr>"

fun queue_entry :: "task \<Rightarrow> ack_data list \<Rightarrow> ack_data list" where
  "queue_entry (TaskAckMessage cid m recipients has_push silenced) q =
     queue_message cid (ProcessMessage [(if has_push then Some m else None, m, recipients, silenced)]) q"
| "queue_entry (TaskAck cid uid mid) q = queue_ack cid uid (AckMessage mid) q"
| "queue_entry (TaskLastMessageId _ _ _) q = q"
| "queue_entry (TaskProcessEmbeds _ _ _) q = q"

text \<open>\<open>AMQP::ack_message\<close>, \<open>message_sent\<close> and \<open>mass_mention_message_sent\<close>; their errors are captured by the caller.\<close>

definition send_amqp :: "amqp_payload \<Rightarrow> unit world_action" where
  "send_amqp p = modify (\<lambda>w. w\<lparr>amqp := amqp w @ [p]\<rparr>)"

definition ack_message :: "string \<Rightarrow> string \<Rightarrow> string \<Rightarrow> unit world_action" where
  "ack_message uid cid mid = send_amqp (AckPayload uid cid mid)"

definition message_sent :: "env \<Rightarrow> string list \<Rightarrow> message \<Rightarrow> unit world_action" where
  "message_sent E recipients m =
     (if recipients = [] then ret ()
      else send_amqp (MessageSentPayload (env_iteration E {u \<in> set recipients. \<not> env_online E u}) m))"

definition mass_mention_message_sent :: "string \<Rightarrow> message list \<Rightarrow> unit world_action" where
  "mass_mention_message_sent sid ms = send_amqp (MassMentionPayload sid ms)"

definition mention_count :: "channel_unread \<Rightarrow> nat" where
  "mention_count r = (case unread_mentions r of Some ms \<Rightarrow> length ms | None \<Rightarrow> 0)"

definition handle_ack_message :: "string option \<Rightarrow> string \<Rightarrow> string \<Rightarrow> unit world_action" where
  "handle_ack_message u cid mid =
     andthen (unwrap u) (\<lambda>uid.
     andthen (on_db (fetch_unread uid cid)) (\<lambda>unread.
     andthen (on_db (acknowledge_message cid uid mid)) (\<lambda>updated.
       case (unread, updated) of
         (Some before, Some after) \<Rightarrow>
           if mention_count before < mention_count after then panic
           else if mention_count before - mention_count after > 0 then ack_message uid cid mid else ret ()
       | _ \<Rightarrow> ret ())))"

definition notified_users :: "queued_message list \<Rightarrow> string set" where
  "notified_users ms = (\<Union>(_, _, recipients, _) \<in> set ms. set recipients)"

definition mentions_of :: "queued_message list \<Rightarrow> string \<Rightarrow> string list" where
  "mentions_of ms u = map (\<lambda>(_, m, _, _). msg_id m) (filter (\<lambda>(_, _, recipients, _). u \<in> set recipients) ms)"

text \<open>``Rejecting push''.\<close>

fun wants_push :: "queued_message \<Rightarrow> bool" where
  "wants_push (push, m, recipients, silenced) \<longleftrightarrow>
     \<not> (silenced \<or> push = None \<or> (recipients = [] \<and> \<not> contains_mass_push_mention m))"

definition push_message :: "env \<Rightarrow> queued_message \<Rightarrow> unit world_action" where
  "push_message E = (\<lambda>(push, m, recipients, silenced).
     case push of Some p \<Rightarrow> message_sent E recipients p | None \<Rightarrow> ret ())"

definition mass_mentions :: "queued_message list \<Rightarrow> message list" where
  "mass_mentions ms = List.map_filter (\<lambda>(push, m, _, _). if contains_mass_push_mention m then push else None) (filter wants_push ms)"

text \<open>The log line at the start reads the first message.\<close>

definition handle_process_message :: "env \<Rightarrow> string \<Rightarrow> queued_message list \<Rightarrow> unit world_action" where
  "handle_process_message E cid ms =
     (if ms = [] then panic
      else
        andthen (for_each (\<lambda>u. on_db (add_mention_to_unread cid u (mentions_of ms u))) (env_iteration E (notified_users ms))) (\<lambda>_.
        andthen (for_each (push_message E) (filter wants_push ms)) (\<lambda>_.
          case mass_mentions ms of
            [] \<Rightarrow> ret ()
          | m # _ \<Rightarrow>
              andthen (attempt (on_db (fetch_channel (msg_channel m)))) (\<lambda>found.
                case found of
                  Some (TextChannel _ t) \<Rightarrow> mass_mention_message_sent (txt_server t) (mass_mentions ms)
                | _ \<Rightarrow> panic))))"

definition handle_ack_event :: "env \<Rightarrow> ack_event \<Rightarrow> string option \<Rightarrow> string \<Rightarrow> unit world_action" where
  "handle_ack_event E e u cid =
     (case e of
        AckMessage mid \<Rightarrow> handle_ack_message u cid mid
      | ProcessMessage ms \<Rightarrow> handle_process_message E cid ms)"

text \<open>The key of a task: the user, the channel and the kind of event.\<close>

type_synonym ack_key = "string option \<times> string \<times> bool"

definition ack_key_of :: "ack_data \<Rightarrow> ack_key" where
  "ack_key_of d = (ack_user d, ack_channel d, case ack_event d of AckMessage _ \<Rightarrow> False | ProcessMessage _ \<Rightarrow> True)"

text \<open>Only the last message of an entry is added to an existing task. A mass mention makes the task due at once; otherwise it is
  put back in time, unless it has grown to the limit. The length is cast to 16 bits for the comparison.\<close>

definition ack_absorb :: "nat \<Rightarrow> nat \<Rightarrow> ack_data \<Rightarrow> ack_event delayed_task \<Rightarrow> ack_event delayed_task option" where
  "ack_absorb limit now d x =
     (case ack_event d of
        ProcessMessage new_data \<Rightarrow>
          (case dt_data x of
             ProcessMessage existing \<Rightarrow>
               if new_data = [] then Some x
               else
                 let e = last new_data; y = x\<lparr>dt_data := ProcessMessage (existing @ [e])\<rparr> in
                 Some (if contains_mass_push_mention (fst (snd e)) then run_immediately y
                       else if (length existing + 1) mod 65536 < limit then delay now y
                       else y)
           | AckMessage _ \<Rightarrow> None)
      | AckMessage mid \<Rightarrow> Some (delay now (x\<lparr>dt_data := ack_event d\<rparr>)))"

text \<open>An error of the handler is captured.\<close>

definition commit_ack :: "env \<Rightarrow> ack_key \<Rightarrow> ack_event \<Rightarrow> unit world_action" where
  "commit_ack E = (\<lambda>(u, cid, _) e. andthen (attempt (handle_ack_event E e u cid)) (\<lambda>_. ret ()))"

definition ack_round ::
    "env \<Rightarrow> ack_data round \<Rightarrow> (ack_key, ack_event) pending_tasks \<Rightarrow> (ack_key, ack_event) pending_tasks world_action" where
  "ack_round E = worker_round (commit_ack E) ack_key_of ack_event (ack_absorb (env_process_delay_limit E))"

definition ack_run ::
    "nat \<Rightarrow> ack_data round list \<Rightarrow> ((ack_key \<times> ack_event) list \<times> (ack_key, ack_event) pending_tasks) option" where
  "ack_run limit = debounce_run ack_key_of ack_event (ack_absorb limit)"

section \<open>Embeds of links\<close>

text \<open>What the regular expressions, the link finder, the order of a hash set and the metadata service answer.\<close>

record link_tools =
  strip_code :: "string \<Rightarrow> string"
  strip_ignored :: "string \<Rightarrow> string"
  find_links :: "string \<Rightarrow> string list"
  link_order :: "string set \<Rightarrow> string list"
  fetch_embed :: "string \<Rightarrow> embed option"

text \<open>\<open>split\<close> at a character, and \<open>join\<close>.\<close>

fun split_lines :: "string \<Rightarrow> string \<Rightarrow> string list" where
  "split_lines current [] = [rev current]"
| "split_lines current (c # cs) =
     (if c = CHR 0x0A then rev current # split_lines [] cs else split_lines (c # current) cs)"

fun join_lines :: "string list \<Rightarrow> string" where
  "join_lines [] = []"
| "join_lines [l] = l"
| "join_lines (l # ls) = l @ CHR 0x0A # join_lines ls"

definition drop_quote :: "string \<Rightarrow> string" where
  "drop_quote l = (case l of c # _ \<Rightarrow> if c = CHR ''>'' then [] else l | [] \<Rightarrow> l)"

definition links_of :: "link_tools \<Rightarrow> string \<Rightarrow> nat \<Rightarrow> string list" where
  "links_of T content max_embeds =
     take max_embeds (link_order T (set (map (takeWhile (\<lambda>c. c \<noteq> CHR ''#''))
       (find_links T (join_lines (map drop_quote (split_lines [] (strip_ignored T (strip_code T content)))))))))"

definition generate :: "link_tools \<Rightarrow> string \<Rightarrow> nat \<Rightarrow> embed list result" where
  "generate T content max_embeds =
     (let links = links_of T content max_embeds;
          embeds = List.map_filter (fetch_embed T) links in
      if links = [] then Err LabelMe else if embeds = [] then Err LabelMe else Ok embeds)"

definition process_embeds_step :: "env \<Rightarrow> link_tools \<Rightarrow> string \<Rightarrow> string \<Rightarrow> string \<Rightarrow> unit world_action" where
  "process_embeds_step E T cid mid content =
     (case generate T content (message_embeds (env_global E)) of
        Ok embeds \<Rightarrow> andthen (attempt (message_append mid cid (Some embeds))) (\<lambda>_. ret ())
      | Err _ \<Rightarrow> ret ()
      | Panic \<Rightarrow> panic)"

section \<open>What the debouncing workers do\<close>

interpretation last_message: debounced lmd_channel last_message_start last_message_absorb
  "\<lambda>ds. \<lparr>lmt_id = lmd_id (last ds), lmt_is_dm = lmd_is_dm (hd ds)\<rparr>"
  by unfold_locales (auto simp: last_message_start_def last_message_absorb_def)

text \<open>the worker for the latest messages makes progress. It never stops, and of the entries taken for a channel every one is
  accounted for: they are a sequence of batches, each written once with the id of its newest message, and a rest that waits; an entry
  that was taken 31 seconds before the tasks are checked waits no longer.\<close>

theorem latest_message_written_in_time:
  assumes "timely (rounds @ [(now, es)])"
  shows "\<exists>cs ts. last_message_id_run (rounds @ [(now, es)]) = Some (cs, ts) \<and> (\<forall>c. \<exists>batches pending.
     of_key lmd_channel c (popped (rounds @ [(now, es)])) = concat batches @ pending \<and> [] \<notin> set batches
     \<and> handled c cs = map (\<lambda>b. \<lparr>lmt_id = lmd_id (snd (last b)), lmt_is_dm = lmd_is_dm (snd (hd b))\<rparr>) batches
     \<and> (\<forall>(t, _) \<in> set pending. now < t + 31000))"
proof -
  obtain cs ts P where run: "last_message_id_run (rounds @ [(now, es)]) = Some (cs, ts)"
    and settled: "\<And>c. last_message.settled now (of_key lmd_channel c (popped (rounds @ [(now, es)]))) (handled c cs) (P c)"
    using last_message.run_settles [OF assms] unfolding last_message_id_run_def by blast
  have digest: "map (\<lambda>b. \<lparr>lmt_id = lmd_id (last (map snd b)), lmt_is_dm = lmd_is_dm (hd (map snd b))\<rparr>) bs
      = map (\<lambda>b. \<lparr>lmt_id = lmd_id (snd (last b)), lmt_is_dm = lmd_is_dm (snd (hd b))\<rparr>) bs"
    if "[] \<notin> set bs" for bs :: "(nat \<times> last_message_data) list list"
  proof (rule map_cong [OF refl])
    fix b assume "b \<in> set bs"
    with that have "b \<noteq> []" by blast
    then show "\<lparr>lmt_id = lmd_id (last (map snd b)), lmt_is_dm = lmd_is_dm (hd (map snd b))\<rparr>
       = \<lparr>lmt_id = lmd_id (snd (last b)), lmt_is_dm = lmd_is_dm (snd (hd b))\<rparr>" by (simp add: last_map hd_map)
  qed
  have "\<exists>batches. of_key lmd_channel c (popped (rounds @ [(now, es)])) = concat batches @ P c \<and> [] \<notin> set batches
     \<and> handled c cs = map (\<lambda>b. \<lparr>lmt_id = lmd_id (snd (last b)), lmt_is_dm = lmd_is_dm (snd (hd b))\<rparr>) batches
     \<and> (\<forall>(t, _) \<in> set (P c). now < t + 31000)" for c
  proof -
    from settled [of c] obtain bs where bs: "of_key lmd_channel c (popped (rounds @ [(now, es)])) = concat bs @ P c" "[] \<notin> set bs"
        "handled c cs = map (\<lambda>b. \<lparr>lmt_id = lmd_id (last (map snd b)), lmt_is_dm = lmd_is_dm (hd (map snd b))\<rparr>) bs"
      and young: "\<forall>(t, _) \<in> set (P c). now < t + 31000" unfolding last_message.settled_def by auto
    from bs(3) have "handled c cs = map (\<lambda>b. \<lparr>lmt_id = lmd_id (snd (last b)), lmt_is_dm = lmd_is_dm (snd (hd b))\<rparr>) bs"
      unfolding digest [OF bs(2)] .
    with bs(1,2) young show ?thesis by blast
  qed
  with run show ?thesis by blast
qed

definition two_rounds :: "last_message_data round list" where
  "two_rounds = [(1000, [(1010, \<lparr>lmd_channel = ''c'', lmd_id = ''m1'', lmd_is_dm = False\<rparr>)]),
     (2020, [(2030, \<lparr>lmd_channel = ''c'', lmd_id = ''m2'', lmd_is_dm = False\<rparr>)])]"

theorem latest_message_written_in_time_witness:
  "\<exists>cs ts. last_message_id_run (two_rounds @ [(40000, [])]) = Some (cs, ts) \<and> handled ''c'' cs = [\<lparr>lmt_id = ''m2'', lmt_is_dm = False\<rparr>]
     \<and> (\<exists>batches pending. of_key lmd_channel ''c'' (popped (two_rounds @ [(40000, [])])) = concat batches @ pending \<and> pending = [])"
proof -
  have "timely (two_rounds @ [(40000, [])])" by (simp add: two_rounds_def timely_def)
  from latest_message_written_in_time [OF this] obtain cs ts batches pending where
    run: "last_message_id_run (two_rounds @ [(40000, [])]) = Some (cs, ts)"
    and rest: "of_key lmd_channel ''c'' (popped (two_rounds @ [(40000, [])])) = concat batches @ pending"
      "\<forall>(t, _) \<in> set pending. (40000::nat) < t + 31000" by blast
  have "set pending \<subseteq> set (popped two_rounds)" using arg_cong [OF rest(1), of set] by (auto simp: of_key_def two_rounds_def)
  with rest(2) have "pending = []" by (cases pending) (auto simp: two_rounds_def)
  moreover have "handled ''c'' cs = [\<lparr>lmt_id = ''m2'', lmt_is_dm = False\<rparr>]"
    using run by (auto simp: two_rounds_def last_message_id_run_def debounce_run_def debounce_round_def commits_def waiting_def
        should_run_def elapsed_secs_def EXPIRE_CONSTANT_def SAVE_CONSTANT_def delayed_new_def last_message_start_def
        last_message_absorb_def delay_def)
  ultimately show ?thesis using run rest(1) by (intro exI conjI)
qed

text \<open>The entries of one key together: the newest acknowledgement, or the messages of the first entry and the last message of each
  later one.\<close>

definition event_messages :: "ack_event \<Rightarrow> queued_message list" where
  "event_messages e = (case e of ProcessMessage ms \<Rightarrow> ms | AckMessage _ \<Rightarrow> [])"

definition newest_message :: "ack_data \<Rightarrow> queued_message list" where
  "newest_message d = (case event_messages (ack_event d) of [] \<Rightarrow> [] | ms \<Rightarrow> [last ms])"

definition ack_digest :: "ack_data list \<Rightarrow> ack_event" where
  "ack_digest ds =
     (case ack_event (hd ds) of
        AckMessage _ \<Rightarrow> ack_event (last ds)
      | ProcessMessage ms \<Rightarrow> ProcessMessage (ms @ concat (map newest_message (tl ds))))"

lemma ack_key_kind: "ack_key_of a = ack_key_of b \<Longrightarrow> (\<exists>m. ack_event a = AckMessage m) \<longleftrightarrow> (\<exists>m. ack_event b = AckMessage m)"
  by (auto simp: ack_key_of_def split: ack_event.splits)

lemma ack_digest_absorb:
  assumes "ds \<noteq> []" and "\<forall>e \<in> set ds. ack_key_of e = ack_key_of d" and "dt_data x = ack_digest ds"
  shows "\<exists>y. ack_absorb limit t d x = Some y \<and> dt_data y = ack_digest (ds @ [d]) \<and> dt_first_seen y = dt_first_seen x"
proof (cases "ack_event d")
  case (AckMessage m)
  with assms ack_key_kind [of "hd ds" d] obtain m' where "ack_event (hd ds) = AckMessage m'" by auto
  with AckMessage assms(1) show ?thesis by (auto simp: ack_absorb_def ack_digest_def)
next
  case (ProcessMessage ms)
  with assms ack_key_kind [of "hd ds" d] obtain ms' where "ack_event (hd ds) = ProcessMessage ms'" by (cases "ack_event (hd ds)") auto
  with ProcessMessage assms(1,3) show ?thesis
    by (cases ms) (auto simp: ack_absorb_def ack_digest_def newest_message_def event_messages_def Let_def)
qed

interpretation ack: debounced ack_key_of ack_event "ack_absorb limit" ack_digest for limit
  by unfold_locales (simp add: ack_digest_def newest_message_def event_messages_def split: ack_event.split, rule ack_digest_absorb)

lemma digest_messages:
  assumes "b \<noteq> []" and "\<forall>d \<in> set b. length (event_messages (ack_event d)) = 1"
  shows "event_messages (ack_digest b) = concat (map (event_messages \<circ> ack_event) b)"
proof -
  have newest: "newest_message d = event_messages (ack_event d)" if "d \<in> set b" for d
    using assms(2) that by (auto simp: newest_message_def length_Suc_conv split: list.split)
  obtain d ds where b: "b = d # ds" using assms(1) by (cases b) auto
  obtain ms where d: "ack_event d = ProcessMessage ms"
    using assms(2) by (cases "ack_event d") (auto simp: b event_messages_def)
  have eq: "map newest_message ds = map (event_messages \<circ> ack_event) ds" by (rule map_cong) (simp_all add: newest b)
  have "ack_digest b = ProcessMessage (ms @ concat (map (event_messages \<circ> ack_event) ds))"
    by (simp only: ack_digest_def b d list.sel ack_event.case eq)
  then show ?thesis by (simp only: b) (simp add: d event_messages_def)
qed

text \<open>C6: every message is processed once. If each entry carries one message, as the documentation of the queue asks, then the
  messages that a worker has handed to the handler for a channel are, in order and without repetition or loss, those of the entries it
  took, up to a rest that waits; an entry that was taken 31 seconds before the tasks are checked waits no longer, however many
  messages follow it and put the task back.\<close>

theorem messages_processed_once:
  assumes "timely (rounds @ [(now, es)])"
    and "\<forall>(t, d) \<in> set (of_key ack_key_of (None, c, True) (popped (rounds @ [(now, es)]))). length (event_messages (ack_event d)) = 1"
  shows "\<exists>cs ts processed pending. ack_run limit (rounds @ [(now, es)]) = Some (cs, ts)
     \<and> of_key ack_key_of (None, c, True) (popped (rounds @ [(now, es)])) = processed @ pending
     \<and> concat (map event_messages (handled (None, c, True) cs)) = concat (map (\<lambda>(_, d). event_messages (ack_event d)) processed)
     \<and> (\<forall>(t, _) \<in> set pending. now < t + 31000)"
proof -
  let ?k = "(None, c, True) :: ack_key"
  let ?taken = "of_key ack_key_of ?k (popped (rounds @ [(now, es)]))"
  obtain cs ts P where run: "ack_run limit (rounds @ [(now, es)]) = Some (cs, ts)"
    and settled: "ack.settled now ?taken (handled ?k cs) (P ?k)"
    using ack.run_settles [OF assms(1)] unfolding ack_run_def by blast
  from settled obtain bs where bs: "?taken = concat bs @ P ?k" "[] \<notin> set bs" "handled ?k cs = map (\<lambda>b. ack_digest (map snd b)) bs"
    and young: "\<forall>(t, _) \<in> set (P ?k). now < t + 31000" unfolding ack.settled_def by auto
  have "event_messages (ack_digest (map snd b)) = concat (map (\<lambda>(_, d). event_messages (ack_event d)) b)" if b: "b \<in> set bs" for b
  proof -
    from b bs(2) have "b \<noteq> []" by blast
    moreover have "length (event_messages (ack_event d)) = 1" if "d \<in> set (map snd b)" for d
      using assms(2) that b unfolding bs(1) by fastforce
    ultimately have "event_messages (ack_digest (map snd b)) = concat (map (event_messages \<circ> ack_event) (map snd b))"
      by (intro digest_messages) auto
    then show ?thesis by (simp add: comp_def case_prod_unfold)
  qed
  then have "concat (map event_messages (handled ?k cs)) = concat (map (\<lambda>b. concat (map (\<lambda>(_, d). event_messages (ack_event d)) b)) bs)"
    unfolding bs(3) by (simp add: comp_def cong: map_cong)
  also have "\<dots> = concat (map (\<lambda>(_, d). event_messages (ack_event d)) (concat bs))" by (induction bs) simp_all
  finally show ?thesis using run bs(1) young by blast
qed

definition sample_entry :: "string \<Rightarrow> string list \<Rightarrow> ack_data" where
  "sample_entry mid us = \<lparr>ack_channel = ''c'', ack_user = None,
     ack_event = ProcessMessage [(None, message_default\<lparr>msg_id := mid, msg_channel := ''c''\<rparr>, us, False)]\<rparr>"

theorem messages_processed_once_witness:
  "\<exists>cs ts. ack_run 5 ([(0, [(10, sample_entry ''m1'' [''a''])]), (1020, [(1030, sample_entry ''m2'' [''b''])])] @ [(40000, [])]) = Some (cs, ts)
     \<and> map (\<lambda>(_, m, _, _). msg_id m) (concat (map event_messages (handled (None, ''c'', True) cs))) = [''m1'', ''m2'']"
proof -
  let ?rounds = "[(0, [(10, sample_entry ''m1'' [''a''])]), (1020, [(1030, sample_entry ''m2'' [''b''])])]"
  let ?taken = "of_key ack_key_of (None, ''c'', True) (popped (?rounds @ [(40000, [])]))"
  have taken: "?taken = [(10, sample_entry ''m1'' [''a'']), (1030, sample_entry ''m2'' [''b''])]"
    by (simp add: of_key_def ack_key_of_def sample_entry_def)
  have "timely (?rounds @ [(40000, [])])" by (simp add: timely_def)
  moreover have "\<forall>(t, d) \<in> set ?taken. length (event_messages (ack_event d)) = 1"
    unfolding taken by (simp add: sample_entry_def event_messages_def)
  ultimately obtain cs ts processed pending where run: "ack_run 5 (?rounds @ [(40000, [])]) = Some (cs, ts)"
    and split: "?taken = processed @ pending"
    and done_messages: "concat (map event_messages (handled (None, ''c'', True) cs))
       = concat (map (\<lambda>(_, d). event_messages (ack_event d)) processed)"
    and young: "\<forall>(t, _) \<in> set pending. 40000 < t + (31000 :: nat)"
    using messages_processed_once by blast
  have "set pending \<subseteq> set ?taken" unfolding split by simp
  with young have "pending = []" unfolding taken by (cases pending) auto
  with split taken done_messages run show ?thesis by (auto simp: sample_entry_def event_messages_def message_default_def)
qed

section \<open>Mass mentions\<close>

text \<open>A computation that always succeeds and leaves the channels alone.\<close>

definition quiet :: "unit world_action \<Rightarrow> bool" where
  "quiet m \<longleftrightarrow> (\<forall>w. fst (m w) = Ok () \<and> db_channels (db (snd (m w))) = db_channels (db w))"

lemma quiet_for_each: "(\<And>x. quiet (f x)) \<Longrightarrow> quiet (for_each f xs)"
proof (induction xs)
  case (Cons x xs)
  show ?case unfolding quiet_def
  proof (intro allI)
    fix w
    obtain w1 where 1: "f x w = (Ok (), w1)" "db_channels (db w1) = db_channels (db w)"
      using Cons.prems [of x] unfolding quiet_def by (metis prod.collapse)
    with Cons.IH [OF Cons.prems] show "fst (for_each f (x # xs) w) = Ok () \<and> db_channels (db (snd (for_each f (x # xs) w))) = db_channels (db w)"
      by (simp add: andthen_Ok [of "f x" w "()" w1] quiet_def)
  qed
qed (simp add: quiet_def ret_def)

lemma andthen_quiet:
  assumes "quiet m"
  obtains w' where "andthen m f w = f () w'" and "db_channels (db w') = db_channels (db w)"
proof -
  obtain w' where "m w = (Ok (), w')" "db_channels (db w') = db_channels (db w)"
    using assms unfolding quiet_def by (metis prod.collapse)
  with that show ?thesis by (simp add: andthen_def)
qed

lemma quiet_steps: "quiet (on_db (add_mention_to_unread cid u is))" "quiet (push_message E x)"
  by (auto simp: quiet_def on_db_def add_mention_to_unread_def put_mentions_def modify_def Let_def push_message_def message_sent_def
      send_amqp_def ret_def split: option.split prod.split)

text \<open>A message with a mass mention in a channel outside a server makes the handler panic.\<close>

lemma mass_mention_panics:
  assumes "contains_mass_push_mention m" and "map_of (db_channels (db w)) (msg_channel m) = Some c" and "channel_server c = None"
  shows "fst (handle_process_message E cid [(Some m, m, recipients, False)] w) = Panic"
proof -
  let ?ms = "[(Some m, m, recipients, False)] :: queued_message list"
  let ?mark = "for_each (\<lambda>u. on_db (add_mention_to_unread cid u (mentions_of ?ms u))) (env_iteration E (notified_users ?ms))"
  let ?push = "for_each (push_message E) (filter wants_push ?ms)"
  let ?last = "\<lambda>_. andthen (attempt (on_db (fetch_channel (msg_channel m)))) (\<lambda>found.
                case found of
                  Some (TextChannel _ t) \<Rightarrow> mass_mention_message_sent (txt_server t) [m]
                | _ \<Rightarrow> panic)"
  have "mass_mentions ?ms = [m]" using assms(1) by (simp add: mass_mentions_def List.map_filter_def)
  then have run: "handle_process_message E cid ?ms w = andthen ?mark (\<lambda>_. andthen ?push ?last) w"
    by (simp add: handle_process_message_def)
  have last: "fst (?last () w') = Panic" if "db_channels (db w') = db_channels (db w)" for w'
    using assms(2,3) that
    by (cases c) (simp_all add: andthen_def attempt_def on_db_def fetch_channel_def channels.fetch panic_def)
  have "quiet ?mark" by (intro quiet_for_each quiet_steps)
  then obtain w1 where 1: "andthen ?mark (\<lambda>_. andthen ?push ?last) w = andthen ?push ?last w1" "db_channels (db w1) = db_channels (db w)"
    by (rule andthen_quiet)
  have "quiet ?push" by (intro quiet_for_each quiet_steps)
  then obtain w2 where 2: "andthen ?push ?last w1 = ?last () w2" "db_channels (db w2) = db_channels (db w1)" by (rule andthen_quiet)
  have "fst (?last () w2) = Panic" by (rule last) (simp only: 1(2) 2(2))
  then show ?thesis by (simp only: run 1(1) 2(1))
qed

end
