(* ===== verification/Voice.thy ===== *)
theory Voice
  imports World
begin

text \<open>
  The voice layer, \<open>crates/core/database/src/voice/mod.rs\<close> and \<open>voice/voice_client.rs\<close>: who is in which voice
  channel, kept in Redis under the keys \<open>vc:\<close>, \<open>vc_members:\<close>, \<open>node:\<close> and one key per field of a voice state, and the
  calls to the LiveKit servers. The Redis commands and the answers of LiveKit are parameters (\<open>env_redis\<close>,
  \<open>env_livekit\<close>); the laws of Redis are the locale \<open>redis_laws\<close>.
\<close>

section \<open>Voice channels\<close>

record user_voice_channel =
  uvc_id :: string
  uvc_server_id :: "string option"

text \<open>\<open>Display\<close>, and \<open>from_string\<close> with \<open>splitn(2, '-')\<close>.\<close>

definition uvc_to_string :: "user_voice_channel \<Rightarrow> string" where
  "uvc_to_string c = uvc_id c @ (case uvc_server_id c of Some s \<Rightarrow> ''-'' @ s | None \<Rightarrow> [])"

definition uvc_from_string :: "string \<Rightarrow> user_voice_channel" where
  "uvc_from_string input =
     (let i = takeWhile (\<lambda>c. c \<noteq> CHR ''-'') input; rest = dropWhile (\<lambda>c. c \<noteq> CHR ''-'') input
      in \<lparr>uvc_id = i, uvc_server_id = (if rest = [] then None else Some (tl rest))\<rparr>)"

definition uvc_from_channel :: "channel \<Rightarrow> user_voice_channel" where
  "uvc_from_channel c = \<lparr>uvc_id = channel_id c, uvc_server_id = channel_server c\<rparr>"

definition parent_of :: "user_voice_channel \<Rightarrow> string" where
  "parent_of c = (case uvc_server_id c of Some s \<Rightarrow> s | None \<Rightarrow> uvc_id c)"

text \<open>\<open>unique_key\<close>: one voice state per user and server, or per user and channel outside servers.\<close>

definition unique_key :: "user_voice_channel \<Rightarrow> string \<Rightarrow> string" where
  "unique_key c uid = uid @ '':'' @ parent_of c"

section \<open>Access to Redis\<close>

text \<open>\<open>get_connection\<close> and a command; every failure becomes \<open>InternalError\<close>.\<close>

definition exec :: "env \<Rightarrow> redis_command list \<Rightarrow> unit world_action" where
  "exec E cs w =
     (if \<not> redis_connect (env_redis E) (redis w) then (Err InternalError, w)
      else case redis_exec (env_redis E) cs (redis w) of
             (Some _, s) \<Rightarrow> (Ok (), w\<lparr>redis := s\<rparr>)
           | (None, s) \<Rightarrow> (Err InternalError, w\<lparr>redis := s\<rparr>))"

definition query_redis :: "env \<Rightarrow> (redis_client \<Rightarrow> keyspace \<Rightarrow> 'a option) \<Rightarrow> 'a world_action" where
  "query_redis E q w =
     (if \<not> redis_connect (env_redis E) (redis w) then (Err InternalError, w)
      else case q (env_redis E) (redis w) of
             Some x \<Rightarrow> (Ok x, w)
           | None \<Rightarrow> (Err InternalError, w))"

definition take_key :: "env \<Rightarrow> string \<Rightarrow> redis_value option world_action" where
  "take_key E k w =
     (if \<not> redis_connect (env_redis E) (redis w) then (Err InternalError, w)
      else case redis_get_del (env_redis E) k (redis w) of
             (Some v, s) \<Rightarrow> (Ok v, w\<lparr>redis := s\<rparr>)
           | (None, s) \<Rightarrow> (Err InternalError, w\<lparr>redis := s\<rparr>))"

text \<open>The conversion of an answer to the type that the caller expects.\<close>

definition as_string :: "redis_value option \<Rightarrow> string option world_action" where
  "as_string v =
     (case v of
        None \<Rightarrow> ret None
      | Some (RString s) \<Rightarrow> ret (Some s)
      | Some _ \<Rightarrow> throw InternalError)"

definition as_strings :: "redis_value option \<Rightarrow> string list option world_action" where
  "as_strings v =
     (case v of
        None \<Rightarrow> ret None
      | Some (RStrings xs) \<Rightarrow> ret (Some xs)
      | Some _ \<Rightarrow> throw InternalError)"

definition raise_if_in_voice :: "env \<Rightarrow> user \<Rightarrow> user_voice_channel \<Rightarrow> unit world_action" where
  "raise_if_in_voice E u c =
     (if user_bot u \<noteq> None then
        andthen (query_redis E (\<lambda>R. redis_sismember R (''vc:'' @ user_id u) (uvc_to_string c))) (\<lambda>b.
          if b then throw AlreadyConnected else ret ())
      else
        andthen (query_redis E (\<lambda>R. redis_scard R (''vc:'' @ user_id u))) (\<lambda>n.
          if n > 0 then throw AlreadyConnected else ret ()))"

definition set_channel_node :: "env \<Rightarrow> string \<Rightarrow> string \<Rightarrow> unit world_action" where
  "set_channel_node E cid node = exec E [SetKey (''node:'' @ cid) (RString node)]"

definition get_channel_node :: "env \<Rightarrow> string \<Rightarrow> string option world_action" where
  "get_channel_node E cid = andthen (query_redis E (\<lambda>R. redis_get R (''node:'' @ cid))) as_string"

definition delete_channel_node :: "env \<Rightarrow> string \<Rightarrow> unit world_action" where
  "delete_channel_node E cid = exec E [Del [''node:'' @ cid]]"

definition get_user_voice_channels :: "env \<Rightarrow> string \<Rightarrow> user_voice_channel list world_action" where
  "get_user_voice_channels E uid =
     andthen (query_redis E (\<lambda>R. redis_smembers R (''vc:'' @ uid))) (\<lambda>xs. ret (map uvc_from_string xs))"

definition set_user_moved_from_voice :: "env \<Rightarrow> string \<Rightarrow> user_voice_channel \<Rightarrow> string \<Rightarrow> unit world_action" where
  "set_user_moved_from_voice E old_channel_id new_channel uid =
     exec E [SetEx (''moved_from:'' @ uid @ '':'' @ old_channel_id) (RString (uvc_to_string new_channel)) 10]"

definition get_user_moved_from_voice :: "env \<Rightarrow> string \<Rightarrow> string \<Rightarrow> string option world_action" where
  "get_user_moved_from_voice E cid uid = andthen (take_key E (''moved_from:'' @ uid @ '':'' @ cid)) as_string"

definition set_user_moved_to_voice :: "env \<Rightarrow> string \<Rightarrow> user_voice_channel \<Rightarrow> string \<Rightarrow> unit world_action" where
  "set_user_moved_to_voice E new_channel_id old_channel uid =
     exec E [SetEx (''moved_to:'' @ uid @ '':'' @ new_channel_id) (RString (uvc_to_string old_channel)) 10]"

definition get_user_moved_to_voice :: "env \<Rightarrow> string \<Rightarrow> string \<Rightarrow> user_voice_channel option world_action" where
  "get_user_moved_to_voice E cid uid =
     andthen (take_key E (''moved_to:'' @ uid @ '':'' @ cid)) (\<lambda>v.
     andthen (as_string v) (\<lambda>s. ret (map_option uvc_from_string s)))"

definition is_in_voice_channel :: "env \<Rightarrow> string \<Rightarrow> user_voice_channel \<Rightarrow> bool world_action" where
  "is_in_voice_channel E uid c = query_redis E (\<lambda>R. redis_sismember R (''vc:'' @ uid) (uvc_to_string c))"

definition get_user_voice_channel_in_server :: "env \<Rightarrow> string \<Rightarrow> string \<Rightarrow> string option world_action" where
  "get_user_voice_channel_in_server E uid sid = andthen (query_redis E (\<lambda>R. redis_get R (uid @ '':'' @ sid))) as_string"

definition get_allowed_sources :: "features_limits \<Rightarrow> u64 \<Rightarrow> string list" where
  "get_allowed_sources limits permissions =
     (if pv_has permissions (channel_permission_bits Speak) then [''microphone''] else [])
     @ (if pv_has permissions (channel_permission_bits Video) \<and> limit_video limits
        then [''camera'', ''screen_share'', ''screen_share_audio''] else [])"

section \<open>Voice states\<close>

definition create_voice_state :: "env \<Rightarrow> user_voice_channel \<Rightarrow> string \<Rightarrow> timestamp \<Rightarrow> user_voice_state world_action" where
  "create_voice_state E c uid joined =
     (let k = unique_key c uid;
          v = \<lparr>vs_id = uid, vs_joined_at = joined, vs_is_receiving = True, vs_is_publishing = False,
               vs_screensharing = False, vs_camera = False\<rparr> in
      andthen (exec E
        [Sadd (''vc_members:'' @ uvc_id c) uid, Sadd (''vc:'' @ uid) (uvc_to_string c), SetKey k (RString (uvc_id c)),
         SetKey (''joined_at:'' @ k) (RInt joined), SetKey (''is_publishing:'' @ k) (RBool (vs_is_publishing v)),
         SetKey (''is_receiving:'' @ k) (RBool (vs_is_receiving v)), SetKey (''screensharing:'' @ k) (RBool (vs_screensharing v)),
         SetKey (''camera:'' @ k) (RBool (vs_camera v))]) (\<lambda>_.
      ret v))"

definition state_keys :: "string \<Rightarrow> string list" where
  "state_keys k = [''joined_at:'' @ k, ''is_publishing:'' @ k, ''is_receiving:'' @ k, ''screensharing:'' @ k, ''camera:'' @ k, k]"

definition delete_voice_state :: "env \<Rightarrow> user_voice_channel \<Rightarrow> string \<Rightarrow> unit world_action" where
  "delete_voice_state E c uid =
     exec E [Srem (''vc_members:'' @ uvc_id c) uid, Srem (''vc:'' @ uid) (uvc_to_string c), Del (state_keys (unique_key c uid))]"

definition delete_channel_voice_state :: "env \<Rightarrow> user_voice_channel \<Rightarrow> string list \<Rightarrow> unit world_action" where
  "delete_channel_voice_state E c uids =
     exec E ([Del [''vc_members:'' @ uvc_id c], Del [''node:'' @ uvc_id c]]
       @ concat (map (\<lambda>uid. [Srem (''vc:'' @ uid) (uvc_to_string c), Del (state_keys (uid @ '':'' @ parent_of c))]) uids))"

definition partial_voice_default :: partial_voice_state where
  "partial_voice_default = \<lparr>pvs_id = None, pvs_joined_at = None, pvs_is_receiving = None, pvs_is_publishing = None,
     pvs_screensharing = None, pvs_camera = None\<rparr>"

definition set_flag :: "string \<Rightarrow> bool option \<Rightarrow> redis_command list" where
  "set_flag k v = (case v of Some b \<Rightarrow> [SetKey k (RBool b)] | None \<Rightarrow> [])"

definition update_voice_state :: "env \<Rightarrow> user_voice_channel \<Rightarrow> string \<Rightarrow> partial_voice_state \<Rightarrow> unit world_action" where
  "update_voice_state E c uid partial =
     (let k = unique_key c uid in
      exec E (set_flag (''camera:'' @ k) (pvs_camera partial) @ set_flag (''is_publishing:'' @ k) (pvs_is_publishing partial)
        @ set_flag (''is_receiving:'' @ k) (pvs_is_receiving partial) @ set_flag (''screensharing:'' @ k) (pvs_screensharing partial)))"

text \<open>The number of a track source of LiveKit; an unknown number is \<open>unreachable!\<close>.\<close>

definition update_voice_state_tracks ::
    "env \<Rightarrow> user_voice_channel \<Rightarrow> string \<Rightarrow> bool \<Rightarrow> int \<Rightarrow> partial_voice_state world_action" where
  "update_voice_state_tracks E c uid added track =
     (let go = (\<lambda>partial. andthen (update_voice_state E c uid partial) (\<lambda>_. ret partial)) in
      if track = 0 then go partial_voice_default
      else if track = 1 then go (partial_voice_default\<lparr>pvs_camera := Some added\<rparr>)
      else if track = 2 then go (partial_voice_default\<lparr>pvs_is_publishing := Some added\<rparr>)
      else if track = 3 \<or> track = 4 then go (partial_voice_default\<lparr>pvs_screensharing := Some added\<rparr>)
      else panic)"

definition get_voice_channel_members :: "env \<Rightarrow> user_voice_channel \<Rightarrow> string list option world_action" where
  "get_voice_channel_members E c =
     andthen (query_redis E (\<lambda>R. redis_smembers R (''vc_members:'' @ uvc_id c))) (\<lambda>xs.
       ret (if xs = [] then None else Some xs))"

definition mget5 :: "string \<Rightarrow> redis_client \<Rightarrow> keyspace \<Rightarrow> redis_value option list option" where
  "mget5 k R s = those (map (\<lambda>p. redis_get R (p @ k) s) [''joined_at:'', ''is_publishing:'', ''is_receiving:'', ''screensharing:'', ''camera:''])"

text \<open>Each of the five values is absent or of the type of its field; otherwise the conversion fails.\<close>

definition int_or_none :: "redis_value option \<Rightarrow> bool" where
  "int_or_none v = (case v of None \<Rightarrow> True | Some (RInt _) \<Rightarrow> True | _ \<Rightarrow> False)"

definition bool_or_none :: "redis_value option \<Rightarrow> bool" where
  "bool_or_none v = (case v of None \<Rightarrow> True | Some (RBool _) \<Rightarrow> True | _ \<Rightarrow> False)"

definition decode_voice_state :: "string \<Rightarrow> redis_value option list \<Rightarrow> user_voice_state option result" where
  "decode_voice_state uid vs =
     (case vs of
        [j, p, r, s, c] \<Rightarrow>
          if \<not> (int_or_none j \<and> bool_or_none p \<and> bool_or_none r \<and> bool_or_none s \<and> bool_or_none c) then Err InternalError
          else (case (j, p, r, s, c) of
                  (Some (RInt joined), Some (RBool publishing), Some (RBool receiving), Some (RBool screen), Some (RBool cam)) \<Rightarrow>
                    Ok (Some \<lparr>vs_id = uid, vs_joined_at = joined, vs_is_receiving = receiving, vs_is_publishing = publishing,
                      vs_screensharing = screen, vs_camera = cam\<rparr>)
                | _ \<Rightarrow> Ok None)
      | _ \<Rightarrow> Err InternalError)"

definition get_voice_state :: "env \<Rightarrow> user_voice_channel \<Rightarrow> string \<Rightarrow> user_voice_state option world_action" where
  "get_voice_state E c uid = andthen (query_redis E (mget5 (unique_key c uid))) (\<lambda>vs. lift (decode_voice_state uid vs))"

fun voice_participants :: "env \<Rightarrow> user_voice_channel \<Rightarrow> string list \<Rightarrow> user_voice_state list world_action" where
  "voice_participants E c [] = ret []"
| "voice_participants E c (uid # uids) =
     andthen (get_voice_state E c uid) (\<lambda>v.
       case v of
         Some s \<Rightarrow> andthen (voice_participants E c uids) (\<lambda>rest. ret (s # rest))
       | None \<Rightarrow> andthen (delete_voice_state E c uid) (\<lambda>_. voice_participants E c uids))"

text \<open>\<open>ChannelVoiceState\<close> is the id of the channel and the participants.\<close>

definition get_channel_voice_state :: "env \<Rightarrow> user_voice_channel \<Rightarrow> (string \<times> user_voice_state list) option world_action" where
  "get_channel_voice_state E c =
     andthen (get_voice_channel_members E c) (\<lambda>ms.
       case ms of
         Some uids \<Rightarrow> andthen (voice_participants E c uids) (\<lambda>ps. ret (Some (uvc_id c, ps)))
       | None \<Rightarrow> ret None)"

definition move_user :: "env \<Rightarrow> string \<Rightarrow> string \<Rightarrow> string \<Rightarrow> unit world_action" where
  "move_user E uid from_channel_id to_channel_id =
     exec E [Smove (''vc_members:'' @ from_channel_id) (''vc_members:'' @ to_channel_id) uid]"

section \<open>The LiveKit client\<close>

definition voice_is_enabled :: "env \<Rightarrow> bool" where
  "voice_is_enabled E \<longleftrightarrow> livekit_nodes (env_livekit E) \<noteq> []"

definition get_node :: "env \<Rightarrow> string \<Rightarrow> unit result" where
  "get_node E name = (if name \<in> set (livekit_nodes (env_livekit E)) then Ok () else Err UnknownNode)"

text \<open>A call is logged whether it succeeds or not.\<close>

definition call_livekit :: "env \<Rightarrow> string \<Rightarrow> livekit_call \<Rightarrow> unit world_action" where
  "call_livekit E node c =
     andthen (lift (get_node E node)) (\<lambda>_ w.
       (if livekit_accepts (env_livekit E) (livekit w) c then Ok () else Err InternalError, w\<lparr>livekit := livekit w @ [c]\<rparr>))"

definition create_room :: "env \<Rightarrow> string \<Rightarrow> channel \<Rightarrow> unit world_action" where
  "create_room E node c = call_livekit E node (CreateRoom node (channel_id c) (channel_server c))"

definition update_permissions :: "env \<Rightarrow> string \<Rightarrow> user \<Rightarrow> string \<Rightarrow> bool \<Rightarrow> bool \<Rightarrow> bool \<Rightarrow> unit world_action" where
  "update_permissions E node u cid subscribe publish_media publish_data =
     call_livekit E node (UpdateParticipant node cid (user_id u) subscribe publish_media publish_data)"

definition remove_user :: "env \<Rightarrow> string \<Rightarrow> string \<Rightarrow> string \<Rightarrow> unit world_action" where
  "remove_user E node uid cid = call_livekit E node (RemoveParticipant node cid uid)"

definition delete_room :: "env \<Rightarrow> string \<Rightarrow> string \<Rightarrow> unit world_action" where
  "delete_room E node cid = call_livekit E node (DeleteRoom node cid)"

text \<open>\<open>create_token\<close>: the token grants the allowed sources, subscription by \<open>Listen\<close>, and the room.\<close>

definition create_token :: "env \<Rightarrow> string \<Rightarrow> user \<Rightarrow> u64 \<Rightarrow> channel \<Rightarrow> string world_action" where
  "create_token E node u permissions c =
     andthen (lift (get_node E node)) (\<lambda>_.
     andthen (user_limits E u) (\<lambda>limits.
       case livekit_token (env_livekit E) node u (get_allowed_sources limits permissions)
              (has_channel_permission permissions Listen) (channel_id c) of
         Some token \<Rightarrow> ret token
       | None \<Rightarrow> throw InternalError))"

section \<open>Permissions in voice channels\<close>

definition then_some :: "bool \<Rightarrow> 'a \<Rightarrow> 'a option" where
  "then_some b x = (if b then Some x else None)"

definition sync_user_voice_permissions ::
    "env \<Rightarrow> string \<Rightarrow> user \<Rightarrow> channel \<Rightarrow> server option \<Rightarrow> string option \<Rightarrow> unit world_action" where
  "sync_user_voice_permissions E node u c srv rid =
     andthen (case srv of
                Some s \<Rightarrow> andthen (on_db (fetch_member (server_id s) (user_id u))) (\<lambda>m. ret (Some m))
              | None \<Rightarrow> ret None) (\<lambda>member.
       if (case rid of None \<Rightarrow> True | Some r \<Rightarrow> (case member of None \<Rightarrow> True | Some m \<Rightarrow> r \<in> set (member_roles m))) then
         andthen (get_voice_state E (uvc_from_channel c) (user_id u)) (\<lambda>state.
           case state of
             None \<Rightarrow> ret ()
           | Some voice_state \<Rightarrow>
               let q0 = use_user u (use_channel c (new_query u));
                   q = (case (srv, member) of (Some s, Some m) \<Rightarrow> use_server s (use_member m q0) | _ \<Rightarrow> q0) in
               andthen (channel_permissions E q) (\<lambda>(permissions, _).
               andthen (user_limits E u) (\<lambda>limits.
                 let before = partial_voice_default\<lparr>pvs_id := Some (user_id u)\<rparr>;
                     can_video = (limit_video limits \<and> has_channel_permission permissions Video);
                     can_speak = has_channel_permission permissions Speak;
                     can_listen = has_channel_permission permissions Listen;
                     update_event = before\<lparr>pvs_camera := then_some (vs_camera voice_state) can_video,
                       pvs_screensharing := then_some (vs_screensharing voice_state) can_video,
                       pvs_is_publishing := then_some (vs_is_publishing voice_state) can_speak\<rparr> in
                 andthen (update_voice_state E (uvc_from_channel c) (user_id u) update_event) (\<lambda>_.
                 andthen (update_permissions E node u (channel_id c) can_listen can_speak can_speak) (\<lambda>_.
                   if update_event \<noteq> before
                   then publish (UserVoiceStateUpdate (user_id u) (channel_id c) update_event) (channel_id c)
                   else ret ())))))
       else ret ())"

definition sync_voice_permissions :: "env \<Rightarrow> channel \<Rightarrow> server option \<Rightarrow> string option \<Rightarrow> unit world_action" where
  "sync_voice_permissions E c srv rid =
     andthen (get_channel_node E (channel_id c)) (\<lambda>node.
       case node of
         None \<Rightarrow> ret ()
       | Some n \<Rightarrow>
           andthen (get_voice_channel_members E (uvc_from_channel c)) (\<lambda>ms.
             for_each (\<lambda>uid.
               andthen (on_db (fetch_user uid)) (\<lambda>u. sync_user_voice_permissions E n u c srv rid))
               (case ms of Some uids \<Rightarrow> uids | None \<Rightarrow> [])))"

section \<open>Calls\<close>

definition set_channel_call_started_system_message :: "env \<Rightarrow> string \<Rightarrow> string \<Rightarrow> unit world_action" where
  "set_channel_call_started_system_message E cid mid = exec E [SetKey (''call_started_message:'' @ cid) (RString mid)]"

definition take_channel_call_started_system_message :: "env \<Rightarrow> string \<Rightarrow> string option world_action" where
  "take_channel_call_started_system_message E cid = andthen (take_key E (''call_started_message:'' @ cid)) as_string"

definition set_call_notification_recipients :: "env \<Rightarrow> string \<Rightarrow> string \<Rightarrow> string list \<Rightarrow> unit world_action" where
  "set_call_notification_recipients E cid uid recipients =
     exec E [SetEx (''call_notification_recipients:'' @ cid @ ''-'' @ uid) (RStrings recipients) 10]"

definition get_call_notification_recipients :: "env \<Rightarrow> string \<Rightarrow> string \<Rightarrow> string list option world_action" where
  "get_call_notification_recipients E cid uid =
     andthen (take_key E (''call_notification_recipients:'' @ cid @ ''-'' @ uid)) as_strings"

section \<open>Leaving\<close>

text \<open>The result of the call to LiveKit is dropped (\<open>let _ = ..\<close>).\<close>

definition remove_user_from_voice_channel :: "env \<Rightarrow> user_voice_channel \<Rightarrow> string \<Rightarrow> unit world_action" where
  "remove_user_from_voice_channel E c uid =
     andthen (get_channel_node E (uvc_id c)) (\<lambda>node.
     andthen (case node of Some n \<Rightarrow> andthen (attempt (remove_user E n uid (uvc_id c))) (\<lambda>_. ret ()) | None \<Rightarrow> ret ()) (\<lambda>_.
     delete_voice_state E c uid))"

definition remove_user_from_voice_channels :: "env \<Rightarrow> string \<Rightarrow> unit world_action" where
  "remove_user_from_voice_channels E uid =
     andthen (get_user_voice_channels E uid) (\<lambda>cs. for_each (\<lambda>c. remove_user_from_voice_channel E c uid) cs)"

definition delete_voice_channel :: "env \<Rightarrow> user_voice_channel \<Rightarrow> unit world_action" where
  "delete_voice_channel E c =
     andthen (get_voice_channel_members E c) (\<lambda>ms.
       case ms of
         Some users \<Rightarrow>
           andthen (get_channel_node E (uvc_id c)) (\<lambda>node.
             case node of
               None \<Rightarrow> panic
             | Some n \<Rightarrow>
                 andthen (delete_room E n (uvc_id c)) (\<lambda>_.
                 delete_channel_voice_state E c users))
       | None \<Rightarrow> ret ())"

section \<open>The voice layer leaves the database alone\<close>

text \<open>\<open>db_kept m\<close>: the computation does not change the database, whatever its outcome.\<close>

definition db_kept :: "'a world_action \<Rightarrow> bool" where
  "db_kept m \<longleftrightarrow> (\<forall>w. db (snd (m w)) = db w)"

lemma db_kept_unchanged: "db_kept m \<longleftrightarrow> unchanged db m"
  by (simp add: db_kept_def unchanged_def)

lemma db_kept_andthen: "db_kept m \<Longrightarrow> (\<And>x. db_kept (f x)) \<Longrightarrow> db_kept (andthen m f)"
  by (simp add: db_kept_unchanged unchanged_andthen)

lemma db_kept_for_each: "(\<And>x. db_kept (f x)) \<Longrightarrow> db_kept (for_each f xs)"
  by (simp add: db_kept_unchanged unchanged_for_each)

lemma db_kept_plain [simp]:
  "db_kept (ret x)" "db_kept (throw e)" "db_kept panic" "db_kept (lift r)" "db_kept (publish ev t)"
  by (simp_all add: db_kept_def ret_def throw_def panic_def lift_def)

lemma db_kept_fetch [simp]:
  "db_kept (on_db (fetch_user i))" "db_kept (on_db (fetch_member a b))" "db_kept (on_db (fetch_channel i))"
  by (simp_all add: db_kept_def on_db_def fetch_user_def users.fetch fetch_member_def server_members.fetch fetch_channel_def
      channels.fetch)

lemma db_kept_redis [simp]: "db_kept (exec E cs)" "db_kept (query_redis E q)" "db_kept (take_key E k)"
proof -
  have "db (snd (exec E cs w)) = db w" for w
    by (cases "redis_exec (env_redis E) cs (redis w)"; cases "fst (redis_exec (env_redis E) cs (redis w))") (simp_all add: exec_def)
  moreover have "db (snd (query_redis E q w)) = db w" for w
    by (cases "q (env_redis E) (redis w)") (simp_all add: query_redis_def)
  moreover have "db (snd (take_key E k w)) = db w" for w
    by (cases "redis_get_del (env_redis E) k (redis w)"; cases "fst (redis_get_del (env_redis E) k (redis w))") (simp_all add: take_key_def)
  ultimately show "db_kept (exec E cs)" "db_kept (query_redis E q)" "db_kept (take_key E k)" by (simp_all add: db_kept_def)
qed

lemma db_kept_permissions [simp]: "db_kept (channel_permissions E q)"
proof -
  have "db (snd (channel_permissions E q w)) = db w" for w
    by (cases "calculate_channel_permissions (db_query (reads_of (env_now E) (db w))) q";
        cases "fst (calculate_channel_permissions (db_query (reads_of (env_now E) (db w))) q)") (simp_all add: channel_permissions_def)
  then show ?thesis by (simp add: db_kept_def)
qed

lemma db_kept_limits [simp]: "db_kept (user_limits E u)"
  by (cases "env_ulid_datetime E (user_id u)") (simp_all add: user_limits_def)

lemma db_kept_attempt: "db_kept m \<Longrightarrow> db_kept (attempt m)"
  by (simp add: db_kept_unchanged unchanged_attempt)

lemma db_kept_call_livekit [simp]: "db_kept (call_livekit E node c)"
  unfolding call_livekit_def by (rule db_kept_andthen, simp) (simp add: db_kept_def)

lemma db_kept_sync_user: "db_kept (sync_user_voice_permissions E node u c srv rid)"
  unfolding sync_user_voice_permissions_def get_voice_state_def update_voice_state_def update_permissions_def Let_def
  by (auto intro!: db_kept_andthen split: option.split)

lemma db_kept_sync_voice: "db_kept (sync_voice_permissions E c srv rid)"
  unfolding sync_voice_permissions_def get_channel_node_def as_string_def get_voice_channel_members_def
  by (auto intro!: db_kept_andthen db_kept_for_each db_kept_sync_user split: option.split redis_value.split)

lemma db_kept_voice [simp]:
  "db_kept (get_channel_node E i)" "db_kept (get_voice_channel_members E c)" "db_kept (get_voice_state E c i)"
  "db_kept (delete_voice_state E c i)" "db_kept (remove_user E n i j)" "db_kept (get_user_voice_channel_in_server E i j)"
  "db_kept (delete_room E n i)" "db_kept (delete_channel_voice_state E c is)" "db_kept (set_channel_node E i n)"
  "db_kept (set_user_moved_from_voice E i c j)" "db_kept (set_user_moved_to_voice E i c j)" "db_kept (create_room E n ch)"
  by (simp_all add: get_channel_node_def as_string_def get_voice_channel_members_def get_voice_state_def delete_voice_state_def
      remove_user_def get_user_voice_channel_in_server_def delete_room_def delete_channel_voice_state_def set_channel_node_def
      set_user_moved_from_voice_def set_user_moved_to_voice_def create_room_def db_kept_andthen split: option.split redis_value.split)

lemma db_kept_create_token [simp]: "db_kept (create_token E n u p c)"
  unfolding create_token_def by (intro db_kept_andthen) (simp_all split: option.split)

lemma db_kept_remove_user_from_voice_channel [simp]: "db_kept (remove_user_from_voice_channel E c i)"
  unfolding remove_user_from_voice_channel_def by (intro db_kept_andthen) (simp_all add: db_kept_andthen db_kept_attempt split: option.split)

lemma db_kept_delete_voice_channel [simp]: "db_kept (delete_voice_channel E c)"
  unfolding delete_voice_channel_def by (intro db_kept_andthen) (simp_all add: db_kept_andthen split: option.split)

lemma db_kept_voice_participants: "db_kept (voice_participants E c is)"
  by (induction "is") (auto intro!: db_kept_andthen split: option.split)

section \<open>Keys\<close>

text \<open>Ids are ULIDs: without a colon, and none of the words that start a key.\<close>

definition key_words :: "string list" where
  "key_words = [''vc'', ''vc_members'', ''node'', ''joined_at'', ''is_publishing'', ''is_receiving'', ''screensharing'', ''camera'']"

definition plain_id :: "string \<Rightarrow> bool" where
  "plain_id i \<longleftrightarrow> CHR '':'' \<notin> set i \<and> i \<notin> set key_words"

lemma split_at_colon:
  assumes "CHR '':'' \<notin> set p" and "CHR '':'' \<notin> set q" and "p @ CHR '':'' # x = q @ CHR '':'' # y"
  shows "p = q"
proof -
  have "takeWhile (\<lambda>c. c \<noteq> CHR '':'') (p @ CHR '':'' # x) = p" using assms(1) by (induction p) auto
  moreover have "takeWhile (\<lambda>c. c \<noteq> CHR '':'') (q @ CHR '':'' # y) = q" using assms(2) by (induction q) auto
  ultimately show ?thesis using assms(3) by simp
qed

lemma word_key_neq: "plain_id i \<Longrightarrow> p \<in> set key_words \<Longrightarrow> p @ CHR '':'' # x \<noteq> i @ CHR '':'' # y"
  using split_at_colon [of p i x y] by (auto simp: plain_id_def key_words_def)

lemma key_neq:
  assumes "plain_id i"
  shows "''vc:'' @ x \<noteq> i @ CHR '':'' # y" "''vc_members:'' @ x \<noteq> i @ CHR '':'' # y" "''node:'' @ x \<noteq> i @ CHR '':'' # y"
    "''joined_at:'' @ x \<noteq> i @ CHR '':'' # y" "''is_publishing:'' @ x \<noteq> i @ CHR '':'' # y"
    "''is_receiving:'' @ x \<noteq> i @ CHR '':'' # y" "''screensharing:'' @ x \<noteq> i @ CHR '':'' # y" "''camera:'' @ x \<noteq> i @ CHR '':'' # y"
proof -
  have "\<forall>p \<in> set key_words. p @ CHR '':'' # x \<noteq> i @ CHR '':'' # y" using word_key_neq [OF assms] by blast
  then show "''vc:'' @ x \<noteq> i @ CHR '':'' # y" "''vc_members:'' @ x \<noteq> i @ CHR '':'' # y" "''node:'' @ x \<noteq> i @ CHR '':'' # y"
    "''joined_at:'' @ x \<noteq> i @ CHR '':'' # y" "''is_publishing:'' @ x \<noteq> i @ CHR '':'' # y"
    "''is_receiving:'' @ x \<noteq> i @ CHR '':'' # y" "''screensharing:'' @ x \<noteq> i @ CHR '':'' # y" "''camera:'' @ x \<noteq> i @ CHR '':'' # y"
    by (simp_all add: key_words_def)
qed

lemmas key_neqs [simp] = key_neq [simplified] key_neq [simplified, THEN not_sym]

lemma holds_set_put [simp]: "holds_set (put_set k xs s) l = (l = k \<or> holds_set s l)"
  by (simp add: put_set_def holds_set_def)

lemma set_at_put [simp]: "set_at (put_set k xs s) l = (if l = k then xs else set_at s l)"
  by (simp add: put_set_def set_at_def)

lemma put_set_other [simp]: "l \<noteq> k \<Longrightarrow> put_set k xs s l = s l"
  by (simp add: put_set_def)

lemma upd_set_simps [simp]:
  "l \<noteq> k \<Longrightarrow> set_at (s(k := v)) l = set_at s l" "l \<noteq> k \<Longrightarrow> holds_set (s(k := v)) l = holds_set s l"
  "set_at (s |` A) l = (if l \<in> A then set_at s l else [])"
  by (simp_all add: set_at_def holds_set_def restrict_map_def)

section \<open>Properties\<close>

definition put_flag :: "string \<Rightarrow> bool option \<Rightarrow> keyspace \<Rightarrow> keyspace" where
  "put_flag k v s = (case v of Some b \<Rightarrow> s(k \<mapsto> RBool b) | None \<Rightarrow> s)"

definition voice_flags :: "string \<Rightarrow> partial_voice_state \<Rightarrow> keyspace \<Rightarrow> keyspace" where
  "voice_flags k partial s =
     put_flag (''screensharing:'' @ k) (pvs_screensharing partial) (put_flag (''is_receiving:'' @ k) (pvs_is_receiving partial)
       (put_flag (''is_publishing:'' @ k) (pvs_is_publishing partial) (put_flag (''camera:'' @ k) (pvs_camera partial) s)))"

lemma decode_voice_state_Some:
  "decode_voice_state uid [j, p, r, s, c] = Ok (Some v) \<longleftrightarrow>
     j = Some (RInt (vs_joined_at v)) \<and> p = Some (RBool (vs_is_publishing v)) \<and> r = Some (RBool (vs_is_receiving v))
     \<and> s = Some (RBool (vs_screensharing v)) \<and> c = Some (RBool (vs_camera v)) \<and> vs_id v = uid"
  by (auto simp: decode_voice_state_def int_or_none_def bool_or_none_def split: option.splits redis_value.splits)

context redis_laws
begin

lemma exec_run:
  "env_redis E = R \<Longrightarrow> commands_typed cs (redis w) \<Longrightarrow> exec E cs w = (Ok (), w\<lparr>redis := fold command_effect cs (redis w)\<rparr>)"
  by (simp add: exec_def connect local.exec)

lemma query_run: "env_redis E = R \<Longrightarrow> q R (redis w) = Some x \<Longrightarrow> query_redis E q w = (Ok x, w)"
  by (simp add: query_redis_def connect)

lemma get_run: "env_redis E = R \<Longrightarrow> andthen (query_redis E (\<lambda>R. redis_get R k)) f w = f (redis w k) w"
  by (simp add: query_redis_def connect get andthen_def)

lemma get_voice_state_run:
  "env_redis E = R \<Longrightarrow> get_voice_state E c uid w =
     (decode_voice_state uid (map (\<lambda>p. redis w (p @ unique_key c uid))
        [''joined_at:'', ''is_publishing:'', ''is_receiving:'', ''screensharing:'', ''camera:'']), w)"
  by (simp add: get_voice_state_def andthen_Ok [OF query_run] mget5_def get lift_def)

text \<open>The keyspace after a change of the flags of a voice state.\<close>

lemma update_voice_state_run:
  "env_redis E = R \<Longrightarrow>
   update_voice_state E c uid partial w = (Ok (), w\<lparr>redis := voice_flags (unique_key c uid) partial (redis w)\<rparr>)"
  unfolding update_voice_state_def Let_def
  by (cases w, subst exec_run) (auto simp: voice_flags_def put_flag_def set_flag_def split: option.split)

end

text \<open>the name under which a voice channel is stored is read back as the same channel.\<close>

theorem voice_channel_roundtrip:
  "CHR ''-'' \<notin> set (uvc_id c) \<Longrightarrow> uvc_from_string (uvc_to_string c) = c"
proof -
  assume "CHR ''-'' \<notin> set (uvc_id c)"
  then have "takeWhile (\<lambda>c. c \<noteq> CHR ''-'') (uvc_id c) = uvc_id c" "dropWhile (\<lambda>c. c \<noteq> CHR ''-'') (uvc_id c) = []"
    "takeWhile (\<lambda>c. c \<noteq> CHR ''-'') (uvc_id c @ CHR ''-'' # x) = uvc_id c"
    "dropWhile (\<lambda>c. c \<noteq> CHR ''-'') (uvc_id c @ CHR ''-'' # x) = CHR ''-'' # x" for x
    by (auto simp: takeWhile_append dropWhile_append takeWhile_eq_all_conv)
  then show ?thesis by (cases "uvc_server_id c") (simp_all add: uvc_to_string_def uvc_from_string_def)
qed

theorem voice_channel_roundtrip_witness:
  "uvc_from_string (uvc_to_string \<lparr>uvc_id = ''C'', uvc_server_id = Some ''S-1''\<rparr>) = \<lparr>uvc_id = ''C'', uvc_server_id = Some ''S-1''\<rparr>"
  by (rule voice_channel_roundtrip) simp


definition plain_world :: world where
  "plain_world = sample_world empty_db"

lemma sample_env_redis [simp]: "env_redis sample_env = mem_client" "redis_laws mem_client"
  by (simp_all add: sample_env_def mem_client.redis_laws_axioms)


text \<open>The query that \<open>sync_user_voice_permissions\<close> builds for a member.\<close>

definition sync_query :: "user \<Rightarrow> channel \<Rightarrow> server \<Rightarrow> member \<Rightarrow> database_permission_query" where
  "sync_query u c s m = use_server s (use_member m (use_user u (use_channel c (new_query u))))"

text \<open>synchronising a member with its permissions takes away what it may no longer do and grants nothing:
  a camera, a shared screen or a microphone that is on stays on exactly if the permission is there, one that
  is off stays off, and the LiveKit server is told to let the member listen and speak as the permissions say.\<close>

theorem sync_revokes_media:
  assumes laws: "redis_laws (env_redis E)"
    and m: "map_of (db_server_members (db w)) \<lparr>key_server = server_id s, key_user = user_id u\<rparr> = Some m"
    and rid: "\<forall>r. rid = Some r \<longrightarrow> r \<in> set (member_roles m)"
    and state: "get_voice_state E (uvc_from_channel c) (user_id u) w = (Ok (Some v), w)"
    and perms: "channel_permissions E (sync_query u c s m) w = (Ok (p, q), w)" and limits: "user_limits E u w = (Ok lims, w)"
    and node: "node \<in> set (livekit_nodes (env_livekit E))" and run: "sync_user_voice_permissions E node u c (Some s) rid w = (Ok (), w')"
  shows "get_voice_state E (uvc_from_channel c) (user_id u) w' =
      (Ok (Some (v\<lparr>vs_camera := vs_camera v \<and> limit_video lims \<and> has_channel_permission p Video,
                   vs_screensharing := vs_screensharing v \<and> limit_video lims \<and> has_channel_permission p Video,
                   vs_is_publishing := vs_is_publishing v \<and> has_channel_permission p Speak\<rparr>)), w')
    \<and> livekit w' = livekit w @ [UpdateParticipant node (channel_id c) (user_id u) (has_channel_permission p Listen)
                     (has_channel_permission p Speak) (has_channel_permission p Speak)]
    \<and> db w' = db w"
proof -
  let ?c = "uvc_from_channel c" and ?uid = "user_id u"
  let ?video = "limit_video lims \<and> has_channel_permission p Video" and ?speak = "has_channel_permission p Speak"
  let ?before = "partial_voice_default\<lparr>pvs_id := Some ?uid\<rparr>"
  let ?ev = "?before\<lparr>pvs_camera := then_some (vs_camera v) ?video, pvs_screensharing := then_some (vs_screensharing v) ?video,
     pvs_is_publishing := then_some (vs_is_publishing v) ?speak\<rparr>"
  let ?call = "UpdateParticipant node (channel_id c) ?uid (has_channel_permission p Listen) ?speak ?speak"
  note upd = redis_laws.update_voice_state_run [OF laws refl, of ?c ?uid ?ev w]
  have "on_db (fetch_member (server_id s) ?uid) w = (Ok m, w)" using m by (simp add: on_db_def fetch_member_def server_members.fetch)
  moreover have "(case rid of None \<Rightarrow> True | Some r \<Rightarrow> r \<in> set (member_roles m))" using rid by (cases rid) simp_all
  ultimately have "andthen (update_permissions E node u (channel_id c) (has_channel_permission p Listen) ?speak ?speak) (\<lambda>_.
      if ?ev \<noteq> ?before then publish (UserVoiceStateUpdate ?uid (channel_id c) ?ev) (channel_id c) else ret ())
      (w\<lparr>redis := voice_flags (unique_key ?c ?uid) ?ev (redis w)\<rparr>) = (Ok (), w')"
    using run state perms limits upd
    by (cases rid) (simp_all add: sync_user_voice_permissions_def andthen_Ok andthen_assoc sync_query_def Let_def)
  then have w': "redis w' = voice_flags (unique_key ?c ?uid) ?ev (redis w)" "livekit w' = livekit w @ [?call]" "db w' = db w"
    using node
    by (auto simp: update_permissions_def call_livekit_def andthen_def lift_def get_node_def publish_def modify_def ret_def split: if_splits)
  have keys: "map (\<lambda>p. redis w (p @ unique_key ?c ?uid)) [''joined_at:'', ''is_publishing:'', ''is_receiving:'', ''screensharing:'', ''camera:'']
      = [Some (RInt (vs_joined_at v)), Some (RBool (vs_is_publishing v)), Some (RBool (vs_is_receiving v)), Some (RBool (vs_screensharing v)),
         Some (RBool (vs_camera v))]" "vs_id v = ?uid"
    using state by (simp_all add: redis_laws.get_voice_state_run [OF laws refl] decode_voice_state_Some)
  have "get_voice_state E ?c ?uid w' =
      (Ok (Some (v\<lparr>vs_camera := vs_camera v \<and> ?video, vs_screensharing := vs_screensharing v \<and> ?video,
                   vs_is_publishing := vs_is_publishing v \<and> ?speak\<rparr>)), w')"
    using keys
    by (simp add: redis_laws.get_voice_state_run [OF laws refl] decode_voice_state_Some w' voice_flags_def put_flag_def then_some_def
        partial_voice_default_def)
  then show ?thesis by (simp add: w')
qed

definition voice_world :: world where
  "voice_world = (sample_world (empty_db\<lparr>db_server_members := [(\<lparr>key_server = ''S'', key_user = ''o''\<rparr>, sample_member ''S'' ''o'' [] None)]\<rparr>))
     \<lparr>redis := [''joined_at:o:S'' \<mapsto> RInt 5, ''is_publishing:o:S'' \<mapsto> RBool True, ''is_receiving:o:S'' \<mapsto> RBool True,
       ''screensharing:o:S'' \<mapsto> RBool False, ''camera:o:S'' \<mapsto> RBool True]\<rparr>"

theorem sync_revokes_media_witness:
  "\<exists>v w'. sync_user_voice_permissions sample_env ''n'' (sample_user ''o'') (sample_text_channel ''C'' ''S'' []) (Some (sample_server ''S'' ''o'' [] 0))
      None voice_world = (Ok (), w')
    \<and> get_voice_state sample_env \<lparr>uvc_id = ''C'', uvc_server_id = Some ''S''\<rparr> ''o'' w' = (Ok (Some v), w') \<and> vs_camera v \<and> \<not> vs_screensharing v"
proof -
  let ?u = "sample_user ''o''" and ?c = "sample_text_channel ''C'' ''S'' []" and ?s = "sample_server ''S'' ''o'' [] 0"
  let ?m = "sample_member ''S'' ''o'' [] None" and ?p = "channel_permission_bits GrantAllSafe"
  let ?v = "\<lparr>vs_id = ''o'', vs_joined_at = 5, vs_is_receiving = True, vs_is_publishing = True, vs_screensharing = False, vs_camera = True\<rparr>"
  let ?run = "sync_user_voice_permissions sample_env ''n'' ?u ?c (Some ?s) None voice_world"
  have uvc: "uvc_from_channel ?c = \<lparr>uvc_id = ''C'', uvc_server_id = Some ''S''\<rparr>" "user_id ?u = ''o''" "server_id ?s = ''S''" "channel_id ?c = ''C''"
    by (simp_all add: uvc_from_channel_def sample_defs)
  have m: "map_of (db_server_members (db voice_world)) \<lparr>key_server = server_id ?s, key_user = user_id ?u\<rparr> = Some ?m"
    by (simp add: voice_world_def sample_world_def uvc)
  have state: "get_voice_state sample_env (uvc_from_channel ?c) (user_id ?u) voice_world = (Ok (Some ?v), voice_world)"
    by (simp add: mem_client.get_voice_state_run uvc decode_voice_state_Some unique_key_def parent_of_def) (simp add: voice_world_def)
  obtain q where perms: "channel_permissions sample_env (sync_query ?u ?c ?s ?m) voice_world = (Ok (?p, q), voice_world)"
    by (simp add: channel_permissions_def calculate_channel_permissions_def db_query_def query_defs sync_query_def query_build sample_defs
        q_set_server_from_channel_def andthen_def gets_def ret_def)
  have limits: "user_limits sample_env ?u voice_world = (Ok (env_default sample_env), voice_world)"
    by (simp add: user_limits_def sample_env_def ret_def)
  have "on_db (fetch_member ''S'' ''o'') voice_world = (Ok ?m, voice_world)"
    using m by (simp add: on_db_def fetch_member_def server_members.fetch uvc)
  then have "\<exists>w'. ?run = (Ok (), w')"
    using state perms limits
    by (simp add: sync_user_voice_permissions_def andthen_Ok andthen_assoc uvc sync_query_def Let_def mem_client.update_voice_state_run)
      (simp add: update_permissions_def call_livekit_def get_node_def andthen_def lift_def publish_def modify_def ret_def sample_env_def)
  then obtain w' where run: "?run = (Ok (), w')" by blast
  have "has_channel_permission ?p Video" "limit_video (env_default sample_env)"
    by (simp_all add: has_channel_permission_def pv_has_def sample_env_def)
  with sync_revokes_media [OF _ m _ state perms limits _ run] run show ?thesis by (auto simp: uvc sample_env_def)
qed

end
