(* ===== verification/Servers.thy ===== *)
theory Servers
  imports Voice
begin

text \<open>
  Servers, roles and server channels: \<open>crates/core/database/src/models/servers/model.rs\<close>,
  \<open>Channel::create_server_channel\<close>, and the routes of \<open>crates/delta/src/routes/servers\<close> that change roles and
  permissions. New ids (\<open>Ulid::new\<close>) and the outcome of the request validation (\<open>data.validate()\<close>, code of
  an external macro) are arguments.
\<close>

section \<open>Servers\<close>

definition server_update :: "env \<Rightarrow> server \<Rightarrow> partial_server \<Rightarrow> fields_server list \<Rightarrow> server world_action" where
  "server_update E self partial remove =
     (let self' = apply_server (env_structs E) partial (fold server_remove_field remove self) in
      andthen (on_db (update_server (env_structs E) (server_id self') partial remove)) (\<lambda>_.
      andthen (publish (ServerUpdate (server_id self') partial remove) (server_id self')) (\<lambda>_.
      ret self')))"

definition server_delete :: "server \<Rightarrow> unit world_action" where
  "server_delete self =
     andthen (publish (ServerDelete (server_id self)) (server_id self)) (\<lambda>_.
     on_db (delete_server (server_id self)))"

text \<open>\<open>ordered_roles\<close>: \<open>sort_by\<close> is stable.\<close>

definition ordered_roles :: "server \<Rightarrow> (string \<times> role) list" where
  "ordered_roles s = sort_key (\<lambda>(i, r). role_rank r) (server_roles s)"

section \<open>Roles\<close>

definition role_into_optional :: "role \<Rightarrow> partial_role" where
  "role_into_optional r =
     \<lparr>pr_id = Some (role_id r), pr_name = Some (role_name r), pr_permissions = Some (role_permissions r),
      pr_colour = role_colour r, pr_hoist = Some (role_hoist r), pr_rank = Some (role_rank r)\<rparr>"

definition role_create :: "string \<Rightarrow> server \<Rightarrow> string \<Rightarrow> role world_action" where
  "role_create new_id s name =
     (let r = \<lparr>role_id = new_id, role_name = name, role_permissions = \<lparr>field_a = 0, field_d = 0\<rparr>,
               role_colour = None, role_hoist = False, role_rank = int (length (server_roles s))\<rparr> in
      andthen (on_db (insert_role (server_id s) r)) (\<lambda>_.
      andthen (publish (ServerRoleUpdate (server_id s) (role_id r) (role_into_optional r) []) (server_id s)) (\<lambda>_.
      ret r)))"

definition role_update :: "env \<Rightarrow> role \<Rightarrow> string \<Rightarrow> partial_role \<Rightarrow> fields_role list \<Rightarrow> role world_action" where
  "role_update E self sid partial remove =
     (let self' = apply_role (env_structs E) partial (fold role_remove_field remove self) in
      andthen (on_db (update_role (env_structs E) sid (role_id self') partial remove)) (\<lambda>_.
      andthen (publish (ServerRoleUpdate sid (role_id self') partial remove) sid) (\<lambda>_.
      ret self')))"

definition role_delete :: "role \<Rightarrow> string \<Rightarrow> unit world_action" where
  "role_delete self sid =
     andthen (publish (ServerRoleDelete sid (role_id self)) sid) (\<lambda>_.
     on_db (delete_role sid (role_id self)))"

definition server_set_role_permission :: "env \<Rightarrow> server \<Rightarrow> string \<Rightarrow> override_field \<Rightarrow> server world_action" where
  "server_set_role_permission E self rid permissions =
     (case map_of (server_roles self) rid of
        Some r \<Rightarrow>
          andthen (role_update E r (server_id self) (partial_role_default\<lparr>pr_permissions := Some permissions\<rparr>) [])
            (\<lambda>r'. ret (self\<lparr>server_roles := AList.update rid r' (server_roles self)\<rparr>))
      | None \<Rightarrow> throw NotFound)"

text \<open>The loop of \<open>set_role_ordering\<close>: \<open>get_mut(id).unwrap()\<close> panics on an unknown id.\<close>

fun assign_ranks :: "nat \<Rightarrow> string list \<Rightarrow> (string, role) hashmap \<Rightarrow> (string, role) hashmap option" where
  "assign_ranks n [] rs = Some rs"
| "assign_ranks n (i # is) rs =
     (case map_of rs i of
        Some r \<Rightarrow> assign_ranks (Suc n) is (AList.update i (r\<lparr>role_rank := int n\<rparr>) rs)
      | None \<Rightarrow> None)"

definition set_role_ordering :: "env \<Rightarrow> server \<Rightarrow> string list \<Rightarrow> server world_action" where
  "set_role_ordering E self new_order =
     (case assign_ranks 0 new_order (server_roles self) of
        None \<Rightarrow> panic
      | Some rs \<Rightarrow>
          andthen (on_db (update_server (env_structs E) (server_id self) (partial_server_default\<lparr>ps_roles := Some rs\<rparr>) [])) (\<lambda>_.
          andthen (publish (ServerRoleRanksUpdate (server_id self) new_order) (server_id self)) (\<lambda>_.
          ret (self\<lparr>server_roles := rs\<rparr>))))"

section \<open>Server channels\<close>

record create_channel_data =
  ccd_voice_type :: bool
  ccd_name :: string
  ccd_description :: "string option"
  ccd_nsfw :: "bool option"
  ccd_voice :: "voice_information option"

definition new_server_channel :: "string \<Rightarrow> server \<Rightarrow> create_channel_data \<Rightarrow> channel" where
  "new_server_channel new_id s data =
     TextChannel new_id
       \<lparr>txt_server = server_id s, txt_name = ccd_name data, txt_description = ccd_description data, txt_icon = None,
        txt_last_message_id = None, txt_default_permissions = None, txt_role_permissions = [],
        txt_nsfw = (case ccd_nsfw data of Some b \<Rightarrow> b | None \<Rightarrow> False),
        txt_voice = (if ccd_voice_type data
                     then Some (case ccd_voice data of Some v \<Rightarrow> v | None \<Rightarrow> \<lparr>max_users = None\<rparr>)
                     else ccd_voice data),
        txt_slowmode = None\<rparr>"

definition create_server_channel ::
    "env \<Rightarrow> string \<Rightarrow> server \<Rightarrow> create_channel_data \<Rightarrow> bool \<Rightarrow> (channel \<times> server) world_action" where
  "create_server_channel E new_id s data do_update =
     (if length (server_channels s) > limit_server_channels (env_global E)
      then throw (TooManyChannels (limit_server_channels (env_global E)))
      else
        let c = new_server_channel new_id s data in
        andthen (on_db (insert_channel c)) (\<lambda>_.
          if do_update then
            andthen (server_update E s (partial_server_default\<lparr>ps_channels := Some (server_channels s @ [new_id])\<rparr>) []) (\<lambda>s'.
            andthen (publish (ChannelCreate c) (server_id s')) (\<lambda>_.
            ret (c, s')))
          else ret (c, s)))"

definition server_create ::
    "env \<Rightarrow> string \<Rightarrow> string \<Rightarrow> string \<Rightarrow> string option \<Rightarrow> bool option \<Rightarrow> user \<Rightarrow> bool
     \<Rightarrow> (server \<times> channel list) world_action" where
  "server_create E server_id' channel_id' name description nsfw owner create_default_channels =
     (let s = \<lparr>server_id = server_id', server_owner = user_id owner, server_name = name,
               server_description = description, server_channels = [], server_categories = None,
               server_system_messages = None, server_roles = [],
               server_default_permissions = as_i64 DEFAULT_PERMISSION_SERVER, server_icon = None,
               server_banner = None, server_flags = None,
               server_nsfw = (case nsfw of Some b \<Rightarrow> b | None \<Rightarrow> False), server_analytics = False,
               server_discoverable = False\<rparr> in
      andthen (if create_default_channels
               then andthen (create_server_channel E channel_id' s
                      \<lparr>ccd_voice_type = False, ccd_name = ''General'', ccd_description = None, ccd_nsfw = None,
                       ccd_voice = None\<rparr> False) (\<lambda>(c, s). ret [c])
               else ret []) (\<lambda>channels.
      let s = s\<lparr>server_channels := map channel_id channels\<rparr> in
      andthen (on_db (insert_server s)) (\<lambda>_.
      ret (s, channels))))"

section \<open>Routes\<close>

text \<open>After a change of roles every channel of the server is synchronised with the voice server.\<close>

definition sync_channels :: "env \<Rightarrow> server \<Rightarrow> string option \<Rightarrow> unit world_action" where
  "sync_channels E s rid =
     for_each (\<lambda>cid.
       andthen (on_db (fetch_channel cid)) (\<lambda>c. sync_voice_permissions E c (Some s) rid)) (server_channels s)"

definition route_roles_create :: "env \<Rightarrow> unit result \<Rightarrow> string \<Rightarrow> user \<Rightarrow> string \<Rightarrow> string \<Rightarrow> role world_action" where
  "route_roles_create E validation new_id u target name =
     andthen (lift validation) (\<lambda>_.
     andthen (on_db (fetch_server target)) (\<lambda>s.
     andthen (server_permissions E u s) (\<lambda>(p, q).
     andthen (lift (throw_if_lacking_channel_permission p ManageRole)) (\<lambda>_.
       if length (server_roles s) \<ge> limit_server_roles (env_global E)
       then throw (TooManyRoles (limit_server_roles (env_global E)))
       else role_create new_id s name))))"

definition route_roles_delete :: "env \<Rightarrow> user \<Rightarrow> string \<Rightarrow> string \<Rightarrow> unit world_action" where
  "route_roles_delete E u target rid =
     andthen (on_db (fetch_server target)) (\<lambda>s.
     andthen (server_permissions E u s) (\<lambda>(p, q).
     andthen (lift (throw_if_lacking_channel_permission p ManageRole)) (\<lambda>_.
     andthen (rank_or_min q) (\<lambda>member_rank.
       case map_of (server_roles s) rid of
         None \<Rightarrow> throw NotFound
       | Some r \<Rightarrow>
           if role_rank r \<le> member_rank then throw NotElevated
           else
             andthen (role_delete r (server_id s)) (\<lambda>_.
             sync_channels E (s\<lparr>server_roles := AList.delete rid (server_roles s)\<rparr>) (Some rid))))))"

definition route_roles_edit ::
    "env \<Rightarrow> unit result \<Rightarrow> user \<Rightarrow> string \<Rightarrow> string \<Rightarrow> string option \<Rightarrow> string option \<Rightarrow> bool option \<Rightarrow> fields_role list
     \<Rightarrow> role world_action" where
  "route_roles_edit E validation u target rid name colour hoist remove =
     andthen (lift validation) (\<lambda>_.
     andthen (on_db (fetch_server target)) (\<lambda>s.
     andthen (server_permissions E u s) (\<lambda>(p, q).
     andthen (lift (throw_if_lacking_channel_permission p ManageRole)) (\<lambda>_.
     andthen (rank_or_min q) (\<lambda>member_rank.
       case map_of (server_roles s) rid of
         None \<Rightarrow> throw NotFound
       | Some r \<Rightarrow>
           if role_rank r \<le> member_rank then throw NotElevated
           else
             andthen (role_update E r (server_id s)
               (partial_role_default\<lparr>pr_name := name, pr_colour := colour, pr_hoist := hoist\<rparr>) remove) (\<lambda>r'.
             andthen (sync_channels E (s\<lparr>server_roles := AList.delete rid (server_roles s)\<rparr>) (Some rid)) (\<lambda>_.
             ret r')))))))"

text \<open>\<open>position\<close> of an id in a list.\<close>

fun position :: "string \<Rightarrow> string list \<Rightarrow> nat option" where
  "position x [] = None"
| "position x (y # ys) = (if x = y then Some 0 else map_option Suc (position x ys))"

definition route_edit_role_ranks :: "env \<Rightarrow> user \<Rightarrow> string \<Rightarrow> string list \<Rightarrow> server world_action" where
  "route_edit_role_ranks E u target ranks =
     andthen (on_db (fetch_server target)) (\<lambda>s.
     andthen (server_permissions E u s) (\<lambda>(p, q).
     andthen (lift (throw_if_lacking_channel_permission p ManageRole)) (\<lambda>_.
       let existing_order = map fst (ordered_roles s) in
       if length ranks \<noteq> length (server_roles s) \<or> \<not> list_all (\<lambda>(i, r). i \<in> set ranks) (server_roles s)
       then throw InvalidOperation
       else
         andthen (if server_owner s \<noteq> user_id u then lift (get_member_rank q) else ret None) (\<lambda>member_top_rank.
           if server_owner s \<noteq> user_id u
              \<and> list_ex (\<lambda>(i, r). position i existing_order \<noteq> position i ranks)
                  (filter (\<lambda>(i, r). case member_top_rank of Some top_rank \<Rightarrow> role_rank r \<le> top_rank | None \<Rightarrow> True) (server_roles s))
           then throw NotElevated
           else
             andthen (set_role_ordering E s ranks) (\<lambda>s'.
             andthen (sync_channels E s' None) (\<lambda>_.
             ret s'))))))"

definition route_set_role_permission ::
    "env \<Rightarrow> user \<Rightarrow> string \<Rightarrow> string \<Rightarrow> override \<Rightarrow> server world_action" where
  "route_set_role_permission E u target rid new_value =
     andthen (on_db (fetch_server target)) (\<lambda>s.
       case map_of (server_roles s) rid of
         None \<Rightarrow> throw NotFound
       | Some r \<Rightarrow>
           andthen (server_permissions E u s) (\<lambda>(p, q).
           andthen (lift (throw_if_lacking_channel_permission p ManagePermissions)) (\<lambda>_.
           andthen (rank_or_min q) (\<lambda>member_rank.
             if role_rank r \<le> member_rank then throw NotElevated
             else
               andthen (lift (throw_permission_override p (Some (field_to_override (role_permissions r))) new_value)) (\<lambda>_.
               andthen (server_set_role_permission E s rid (override_to_field new_value)) (\<lambda>s'.
               andthen (sync_channels E s' (Some rid)) (\<lambda>_.
               ret s')))))))"

definition route_set_default_server_permissions :: "env \<Rightarrow> user \<Rightarrow> string \<Rightarrow> u64 \<Rightarrow> server world_action" where
  "route_set_default_server_permissions E u target permissions =
     andthen (on_db (fetch_server target)) (\<lambda>s.
     andthen (server_permissions E u s) (\<lambda>(p, q).
     andthen (lift (throw_if_lacking_channel_permission p ManagePermissions)) (\<lambda>_.
     andthen (lift (throw_permission_override p None \<lparr>allow = permissions, deny = 0\<rparr>)) (\<lambda>_.
     andthen (server_update E s (partial_server_default\<lparr>ps_default_permissions := Some (as_i64 permissions)\<rparr>) []) (\<lambda>s'.
     andthen (sync_channels E s' None) (\<lambda>_.
     ret s'))))))"

definition route_create_server_channel ::
    "env \<Rightarrow> unit result \<Rightarrow> string \<Rightarrow> user \<Rightarrow> string \<Rightarrow> create_channel_data \<Rightarrow> channel world_action" where
  "route_create_server_channel E validation new_id u target data =
     andthen (lift validation) (\<lambda>_.
     andthen (on_db (fetch_server target)) (\<lambda>s.
     andthen (server_permissions E u s) (\<lambda>(p, q).
     andthen (lift (throw_if_lacking_channel_permission p ManageChannel)) (\<lambda>_.
     andthen (create_server_channel E new_id s data True) (\<lambda>(c, s').
     ret c)))))"

section \<open>Steps of a request\<close>

lemma andthen_fetch_server:
  "andthen (on_db (fetch_server i)) f w =
     (case map_of (db_servers (db w)) i of Some s \<Rightarrow> f s w | None \<Rightarrow> (Err NotFound, w))"
  by (simp add: andthen_def on_db_def fetch_server_def servers.fetch split: option.split)

lemma db_kept_sync_channels: "db_kept (sync_channels E s rid)"
  unfolding sync_channels_def by (intro db_kept_for_each db_kept_andthen db_kept_sync_voice) simp

lemma andthen_sync_channels_Ok:
  assumes "andthen (sync_channels E s rid) f w = (Ok x, w')"
  shows "\<exists>w1. db w1 = db w \<and> f () w1 = (Ok x, w')"
  using assms db_kept_sync_channels [of E s rid] by (fastforce elim!: andthen_OkE simp: db_kept_def)

text \<open>What \<open>apply_options\<close> does to the server when one field is set.\<close>

lemma apply_server_roles:
  "optional_struct_laws OS \<Longrightarrow> apply_server OS (partial_server_default\<lparr>ps_roles := Some rs\<rparr>) s = s\<lparr>server_roles := rs\<rparr>"
  by (simp add: optional_struct_laws.apply_server partial_defaults)

lemma apply_role_permissions:
  "optional_struct_laws OS \<Longrightarrow>
   apply_role OS (partial_role_default\<lparr>pr_permissions := Some v\<rparr>) r = r\<lparr>role_permissions := v\<rparr>"
  by (simp add: optional_struct_laws.apply_role partial_defaults)

section \<open>The order of the roles\<close>

lemma position_bound: "position x xs = Some k \<Longrightarrow> k < length xs \<and> xs ! k = x"
  by (induction xs arbitrary: k) (auto split: if_splits)

lemma position_Some: "x \<in> set xs \<Longrightarrow> \<exists>k. position x xs = Some k"
  by (induction xs) auto

lemma position_None: "position x xs = None \<longleftrightarrow> x \<notin> set xs"
  by (induction xs) auto

lemma position_nth: "distinct xs \<Longrightarrow> k < length xs \<Longrightarrow> position (xs ! k) xs = Some k"
  by (metis nth_eq_iff_index_eq nth_mem position_Some position_bound)

lemma assign_ranks_spec:
  assumes "distinct is" and "set is \<subseteq> dom (map_of rs)"
  shows "\<exists>rs'. assign_ranks n is rs = Some rs' \<and>
    (\<forall>i. map_of rs' i = (case position i is of
        Some k \<Rightarrow> map_option (\<lambda>r. r\<lparr>role_rank := int (n + k)\<rparr>) (map_of rs i)
      | None \<Rightarrow> map_of rs i))"
  using assms
proof (induction "is" arbitrary: n rs)
  case (Cons x xs)
  then obtain r where r: "map_of rs x = Some r" by auto
  let ?rs = "AList.update x (r\<lparr>role_rank := int n\<rparr>) rs"
  have "set xs \<subseteq> dom (map_of ?rs)" using Cons.prems by (auto simp: db_simps)
  with Cons.IH [of ?rs "Suc n"] Cons.prems(1) obtain rs' where
    rs': "assign_ranks (Suc n) xs ?rs = Some rs'"
    "\<And>i. map_of rs' i = (case position i xs of
        Some k \<Rightarrow> map_option (\<lambda>r. r\<lparr>role_rank := int (Suc n + k)\<rparr>) (map_of ?rs i)
      | None \<Rightarrow> map_of ?rs i)" by auto
  have "position x xs = None" using Cons.prems(1) by (simp add: position_None)
  with rs' r show ?case by (auto simp: db_simps ac_simps split: option.split)
qed simp

lemma sorted_positions:
  assumes "hm_wf (server_roles s)" and "map_of (server_roles s) i = Some r" and "map_of (server_roles s) j = Some r'"
    and "position i (map fst (ordered_roles s)) = Some a" and "position j (map fst (ordered_roles s)) = Some b" and "a \<le> b"
  shows "role_rank r \<le> role_rank r'"
proof -
  let ?O = "ordered_roles s"
  have set: "set ?O = set (server_roles s)" by (simp add: ordered_roles_def)
  have nth: "?O ! k = (x, y)" if "position x (map fst ?O) = Some k" and "map_of (server_roles s) x = Some y" for x y k
  proof -
    from position_bound [OF that(1)] have k: "k < length ?O" "fst (?O ! k) = x" by auto
    then have "?O ! k \<in> set (server_roles s)" using set nth_mem by metis
    then have "map_of (server_roles s) (fst (?O ! k)) = Some (snd (?O ! k))"
      using assms(1) by (simp add: hm_wf_def)
    with k(2) that(2) show ?thesis by (metis option.inject prod.collapse)
  qed
  have "sorted (map (\<lambda>(i, r). role_rank r) ?O)" by (simp add: ordered_roles_def)
  moreover have "b < length ?O" using position_bound [OF assms(5)] by simp
  ultimately have "(\<lambda>(i, r). role_rank r) (?O ! a) \<le> (\<lambda>(i, r). role_rank r) (?O ! b)"
    using sorted_nth_mono [of "map (\<lambda>(i, r). role_rank r) ?O" a b] \<open>a \<le> b\<close> by simp
  then show ?thesis by (simp add: nth [OF assms(4,2)] nth [OF assms(5,3)])
qed

text \<open>If the roles up to a rank keep their positions, the others stay behind them.\<close>

lemma protected_stay_ahead:
  assumes wf: "hm_wf (server_roles s)" and ranks: "distinct ranks" "set ranks = set (map fst (ordered_roles s))"
    and keep: "\<And>i r. map_of (server_roles s) i = Some r \<Longrightarrow> role_rank r \<le> top_rank \<Longrightarrow> position i (map fst (ordered_roles s)) = position i ranks"
    and i: "map_of (server_roles s) i = Some r" "role_rank r \<le> top_rank"
    and j: "map_of (server_roles s) j = Some r'" "top_rank < role_rank r'"
    and pos: "position i ranks = Some a" "position j ranks = Some b"
  shows "a < b"
proof (rule ccontr)
  let ?O = "map fst (ordered_roles s)"
  assume "\<not> a < b"
  have "mset ?O = mset (map fst (server_roles s))" by (simp add: ordered_roles_def)
  then have d: "distinct ?O" using wf mset_eq_imp_distinct_iff unfolding hm_wf_def by blast
  have "i \<noteq> j" using i j by auto
  with pos have "a \<noteq> b" by (metis position_bound)
  with \<open>\<not> a < b\<close> have "b < a" by simp
  have iO: "position i ?O = Some a" using keep [OF i] pos(1) by simp
  then have "b < length ?O" using \<open>b < a\<close> position_bound by fastforce
  let ?k = "?O ! b"
  have kO: "position ?k ?O = Some b" using d \<open>b < length ?O\<close> by (rule position_nth)
  have "?k \<in> fst ` set (server_roles s)" using \<open>b < length ?O\<close> nth_mem [of b ?O] by (simp add: ordered_roles_def)
  then obtain rk where rk: "map_of (server_roles s) ?k = Some rk" by (auto simp: weak_map_of_SomeI dest: weak_map_of_SomeI)
  have "role_rank rk \<le> role_rank r" using sorted_positions [OF wf rk i(1) kO iO] \<open>b < a\<close> by simp
  with i(2) have "position ?k ranks = Some b" using keep [OF rk] kO by simp
  with pos(2) have "?k = j" by (metis position_bound)
  with rk j(1) have "rk = r'" by simp
  with \<open>role_rank rk \<le> role_rank r\<close> i(2) j(2) show False by simp
qed

section \<open>Properties\<close>

lemma update_server_run:
  "map_of (db_servers (db w)) i = Some s \<Longrightarrow>
   on_db (update_server OS i ps fs) w =
     (Ok (), w\<lparr>db := db_servers_update (AList.update i (apply_server OS ps (fold server_remove_field fs s))) (db w)\<rparr>)"
  by (simp add: on_db_def update_server_def table_change_def modify_def)

lemma update_role_run:
  "map_of (db_servers (db w)) sid = Some s \<Longrightarrow> map_of (server_roles s) rid = Some r \<Longrightarrow>
   on_db (update_role OS sid rid pr fs) w =
     (Ok (), w\<lparr>db := db_servers_update (AList.update sid
        (s\<lparr>server_roles := AList.update rid (apply_role OS pr (fold role_remove_field fs r)) (server_roles s)\<rparr>)) (db w)\<rparr>)"
  by (simp add: on_db_def update_role_def table_change_def modify_def fetch_server_def table_fetch_def andthen_assoc)

lemma delete_role_run:
  "map_of (db_servers (db w)) sid = Some s \<Longrightarrow> map_of (server_roles s) rid = Some r \<Longrightarrow>
   on_db (delete_role sid rid) w =
     (Ok (), w\<lparr>db := db_servers_update (AList.update sid (s\<lparr>server_roles := AList.delete rid (server_roles s)\<rparr>)) (db w)\<rparr>)"
  by (simp add: on_db_def delete_role_def table_change_def modify_def fetch_server_def table_fetch_def andthen_assoc hm_contains_def)

lemma insert_role_run:
  "map_of (db_servers (db w)) sid = Some s \<Longrightarrow>
   on_db (insert_role sid r) w =
     (Ok (), w\<lparr>db := db_servers_update (AList.update sid (s\<lparr>server_roles := AList.update (role_id r) r (server_roles s)\<rparr>)) (db w)\<rparr>)"
  by (simp add: on_db_def insert_role_def table_change_def modify_def)

lemma role_update_run:
  assumes "map_of (db_servers (db w)) sid = Some s" and "map_of (server_roles s) (role_id r') = Some r"
    and "r' = apply_role (env_structs E) pr (fold role_remove_field fs r)"
  shows "role_update E r sid pr fs w =
    (Ok r', w\<lparr>db := db_servers_update (AList.update sid
        (s\<lparr>server_roles := AList.update (role_id r') r' (server_roles s)\<rparr>)) (db w),
      events := events w @ [(sid, ServerRoleUpdate sid (role_id r') pr fs)]\<rparr>)"
  using assms by (simp add: role_update_def Let_def andthen_Ok [OF update_role_run] ret_def)

text \<open>C8: setting the permissions of a role is safe. When it succeeds, the editor holds \<open>ManagePermissions\<close>,
  acts with a rank strictly above the role (an owner acts without a rank), and itself holds every
  permission that the new override can grant and the old one could not; the only thing that changes in the
  database are the permissions of that role.\<close>

theorem role_permission_route_safe:
  assumes laws: "optional_struct_laws (env_structs E)"
    and s: "map_of (db_servers (db w)) target = Some s" "server_id s = target"
    and r: "map_of (server_roles s) rid = Some r" "role_id r = rid"
    and run: "route_set_role_permission E u target rid v w = (Ok s', w')"
  shows "has_channel_permission (acting_permissions E w u s) ManagePermissions
    \<and> (\<forall>k. acting_rank w u s = Some k \<longrightarrow> k < role_rank r)
    \<and> (\<forall>n < 64. newly_grants (field_to_override (role_permissions r)) v n \<longrightarrow> bit (acting_permissions E w u s) n)
    \<and> s' = s\<lparr>server_roles := AList.update rid (r\<lparr>role_permissions := override_to_field v\<rparr>) (server_roles s)\<rparr>
    \<and> db w' = db_servers_update (AList.update target s') (db w)"
proof -
  let ?p = "acting_permissions E w u s" and ?cur = "field_to_override (role_permissions r)"
  let ?r = "r\<lparr>role_permissions := override_to_field v\<rparr>"
  from run s r obtain q where q: "get_member_rank q = Ok (acting_rank w u s)"
    and 1: "andthen (lift (throw_if_lacking_channel_permission ?p ManagePermissions)) (\<lambda>_. andthen (rank_or_min q) (\<lambda>member_rank.
         if role_rank r \<le> member_rank then throw NotElevated
         else andthen (lift (throw_permission_override ?p (Some ?cur) v)) (\<lambda>_.
              andthen (server_set_role_permission E s rid (override_to_field v)) (\<lambda>s'.
              andthen (sync_channels E s' (Some rid)) (\<lambda>_. ret s'))))) w = (Ok s', w')"
    by (simp add: route_set_role_permission_def andthen_fetch_server) (erule server_permissions_OkE, simp)
  note held = andthen_lacking_OkE [OF 1]
  have rank: "\<not> role_rank r \<le> (case acting_rank w u s of Some x \<Rightarrow> x | None \<Rightarrow> - (2 ^ 63))"
    using held(2) by (auto simp: rank_or_min_run [OF q] throw_def split: if_splits)
  with held(2) have check: "throw_permission_override ?p (Some ?cur) v = Ok ()"
    and 2: "andthen (server_set_role_permission E s rid (override_to_field v)) (\<lambda>s'.
              andthen (sync_channels E s' (Some rid)) (\<lambda>_. ret s')) w = (Ok s', w')"
    by (auto simp: rank_or_min_run [OF q] andthen_lift split: outcome.splits)
  let ?s = "s\<lparr>server_roles := AList.update rid ?r (server_roles s)\<rparr>"
  let ?pr = "partial_role_default\<lparr>pr_permissions := Some (override_to_field v)\<rparr>"
  let ?w = "w\<lparr>db := db_servers_update (AList.update target ?s) (db w),
        events := events w @ [(target, ServerRoleUpdate target rid ?pr [])]\<rparr>"
  have "map_of (server_roles s) (role_id ?r) = Some r" and "?r = apply_role (env_structs E) ?pr (fold role_remove_field [] r)"
    and "role_id ?r = rid" by (simp_all add: r apply_role_permissions [OF laws])
  from role_update_run [OF s(1) this(1,2)] this(3) have "role_update E r target ?pr [] w = (Ok ?r, ?w)" by simp
  then have "server_set_role_permission E s rid (override_to_field v) w = (Ok ?s, ?w)"
    by (simp add: server_set_role_permission_def r s(2) andthen_Ok ret_def)
  from andthen_sync_channels_Ok [OF andthen_step [OF 2 this]]
  have "s' = ?s \<and> db w' = db_servers_update (AList.update target s') (db w)" by (auto simp: ret_def)
  moreover have "k < role_rank r" if "acting_rank w u s = Some k" for k using rank that by simp
  ultimately show ?thesis using held(1) override_check_grants [OF check] by blast
qed

text \<open>A server with two roles and a member, for the witnesses.\<close>

definition two_roles :: server where
  "two_roles = sample_server ''S'' ''o'' [(''a'', sample_role ''a'' 0 0 0), (''b'', sample_role ''b'' 1 0 0)] 0"

definition role_world :: world where
  "role_world = sample_world (empty_db\<lparr>db_servers := [(''S'', two_roles)]\<rparr>)"

lemma two_roles_simps [simp]:
  "server_id two_roles = ''S''" "server_owner two_roles = ''o''" "server_channels two_roles = []"
  "server_roles two_roles = [(''a'', sample_role ''a'' 0 0 0), (''b'', sample_role ''b'' 1 0 0)]"
  "db_servers (db role_world) = [(''S'', two_roles)]" "user_id (sample_user i) = i"
  "role_id (sample_role i k x y) = i" "role_rank (sample_role i k x y) = k"
  "optional_struct_laws (env_structs sample_env)"
  by (simp_all add: two_roles_def sample_server_def role_world_def sample_world_def sample_user_def sample_role_def
      sample_env_def merged.optional_struct_laws_axioms)

theorem role_permission_route_safe_witness:
  "\<exists>s'. fst (route_set_role_permission sample_env (sample_user ''o'') ''S'' ''b'' \<lparr>allow = 1, deny = 0\<rparr> role_world) = Ok s'
     \<and> map_of (server_roles s') ''b'' = Some ((sample_role ''b'' 1 0 0)\<lparr>role_permissions := \<lparr>field_a = 1, field_d = 0\<rparr>\<rparr>)"
proof -
  let ?run = "route_set_role_permission sample_env (sample_user ''o'') ''S'' ''b'' \<lparr>allow = 1, deny = 0\<rparr> role_world"
  have "throw_permission_override (channel_permission_bits GrantAllSafe) (Some (field_to_override (role_permissions (sample_role ''b'' 1 0 0))))
      \<lparr>allow = 1, deny = 0\<rparr> = Ok ()"
    by (simp add: throw_permission_override_def allows_def denies_def field_to_override_def sample_role_def pv_has_def)
  then have "\<exists>s' w'. ?run = (Ok s', w')"
    by (simp add: route_set_role_permission_def andthen_fetch_server andthen_Ok [OF server_permissions_owner] andthen_lift
        throw_if_lacking_channel_permission_def has_channel_permission_def pv_has_def rank_or_min_run server_set_role_permission_def
        role_update_def Let_def apply_role_permissions andthen_Ok [OF update_role_run [where s = two_roles]] sync_channels_def andthen_assoc)
      (simp add: ret_def)
  then obtain s' w' where run: "?run = (Ok s', w')" by blast
  have "s' = two_roles\<lparr>server_roles := AList.update ''b'' ((sample_role ''b'' 1 0 0)\<lparr>role_permissions :=
      override_to_field \<lparr>allow = 1, deny = 0\<rparr>\<rparr>) (server_roles two_roles)\<rparr>"
    using role_permission_route_safe [OF _ _ _ _ _ run, of two_roles "sample_role ''b'' 1 0 0"] by simp
  then show ?thesis using run by (simp add: override_to_field_def as_i64_def)
qed

lemma complete_order_distinct:
  assumes "hm_wf rs" and "length ranks = length rs" and "list_all (\<lambda>(i, r). i \<in> set ranks) rs"
  shows "distinct ranks" and "set ranks = fst ` set rs"
proof -
  have sub: "fst ` set rs \<subseteq> set ranks" using assms(3) by (auto simp: list_all_iff)
  have card: "card (fst ` set rs) = length ranks"
    using assms(1,2) by (metis distinct_card hm_wf_def length_map set_map)
  then have le: "card (set ranks) \<le> card (fst ` set rs)" using card_length [of ranks] by simp
  show "set ranks = fst ` set rs" using card_seteq [OF _ sub le] by simp
  then show "distinct ranks" using card by (simp add: card_distinct)
qed

lemma set_role_ordering_run:
  assumes laws: "optional_struct_laws (env_structs E)" and s: "map_of (db_servers (db w)) (server_id s) = Some s"
    and order: "distinct ranks" "set ranks = fst ` set (server_roles s)"
    and run: "set_role_ordering E s ranks w = (Ok s', w')"
  shows "db w' = db_servers_update (AList.update (server_id s) s') (db w)"
    and "map_of (server_roles s') i = map_option (\<lambda>r. r\<lparr>role_rank := int (the (position i ranks))\<rparr>) (map_of (server_roles s) i)"
proof -
  have "set ranks \<subseteq> dom (map_of (server_roles s))" by (simp add: order(2) dom_map_of_conv_image_fst)
  from assign_ranks_spec [OF order(1) this, of 0, unfolded add_0] obtain rs where rs: "assign_ranks 0 ranks (server_roles s) = Some rs"
    and lookup: "\<And>i. map_of rs i = (case position i ranks of
        Some k \<Rightarrow> map_option (\<lambda>r. r\<lparr>role_rank := int k\<rparr>) (map_of (server_roles s) i) | None \<Rightarrow> map_of (server_roles s) i)"
    by blast
  have w': "s' = s\<lparr>server_roles := rs\<rparr> \<and> db w' = db_servers_update (AList.update (server_id s) s') (db w)"
    using run by (auto simp: set_role_ordering_def rs andthen_Ok update_server_run [OF s] apply_server_roles [OF laws] ret_def)
  then show "db w' = db_servers_update (AList.update (server_id s) s') (db w)" by simp
  show "map_of (server_roles s') i = map_option (\<lambda>r. r\<lparr>role_rank := int (the (position i ranks))\<rparr>) (map_of (server_roles s) i)"
  proof (cases "position i ranks")
    case None
    then have "map_of (server_roles s) i = None" by (simp add: position_None order(2) map_of_eq_None_iff)
    with None w' show ?thesis by (simp add: lookup)
  qed (use w' in \<open>simp add: lookup\<close>)
qed

text \<open>C7: reordering the roles of a server respects the hierarchy. When a member that is neither owner nor
  privileged succeeds, every role it does not stand above keeps its place in the order, and every role
  below it stays behind all of those; the ranks in the database become the positions in the new order and
  nothing else of the roles changes.\<close>

theorem role_ranks_respect_hierarchy:
  assumes laws: "optional_struct_laws (env_structs E)"
    and s: "map_of (db_servers (db w)) target = Some s" "server_id s = target" and wf: "hm_wf (server_roles s)"
    and rank: "acting_rank w u s = Some top_rank"
    and run: "route_edit_role_ranks E u target ranks w = (Ok s', w')"
  shows "has_channel_permission (acting_permissions E w u s) ManageRole
    \<and> db w' = db_servers_update (AList.update target s') (db w)
    \<and> (\<forall>i. map_of (server_roles s') i
          = map_option (\<lambda>r. r\<lparr>role_rank := int (the (position i ranks))\<rparr>) (map_of (server_roles s) i))
    \<and> (\<forall>i r. map_of (server_roles s) i = Some r \<and> role_rank r \<le> top_rank
          \<longrightarrow> position i ranks = position i (map fst (ordered_roles s)))
    \<and> (\<forall>i r j r' a b. map_of (server_roles s) i = Some r \<and> role_rank r \<le> top_rank
          \<and> map_of (server_roles s) j = Some r' \<and> top_rank < role_rank r'
          \<and> position i ranks = Some a \<and> position j ranks = Some b \<longrightarrow> a < b)"
proof -
  let ?order = "map fst (ordered_roles s)"
  let ?moved = "list_ex (\<lambda>(i, r). position i ?order \<noteq> position i ranks) (filter (\<lambda>(i, r). role_rank r \<le> top_rank) (server_roles s))"
  have owner: "server_owner s \<noteq> user_id u" using rank by (auto simp: acting_rank_def split: if_splits)
  let ?rest = "\<lambda>s'. andthen (sync_channels E s' None) (\<lambda>_. ret s')"
  obtain q where q: "get_member_rank q = Ok (acting_rank w u s)"
    and 1: "andthen (lift (throw_if_lacking_channel_permission (acting_permissions E w u s) ManageRole)) (\<lambda>_.
       if length ranks \<noteq> length (server_roles s) \<or> \<not> list_all (\<lambda>(i, r). i \<in> set ranks) (server_roles s)
       then throw InvalidOperation
       else andthen (lift (get_member_rank q)) (\<lambda>member_top_rank.
           if list_ex (\<lambda>(i, r). position i ?order \<noteq> position i ranks)
                  (filter (\<lambda>(i, r). case member_top_rank of Some top_rank \<Rightarrow> role_rank r \<le> top_rank | None \<Rightarrow> True) (server_roles s))
           then throw NotElevated
           else andthen (set_role_ordering E s ranks) ?rest)) w = (Ok s', w')"
    using run s(1) owner
    by (simp add: route_edit_role_ranks_def andthen_fetch_server Let_def cong: if_cong) (erule server_permissions_OkE, simp cong: if_cong)
  note held = andthen_lacking_OkE [OF 1]
  have complete: "length ranks = length (server_roles s)" "list_all (\<lambda>(i, r). i \<in> set ranks) (server_roles s)"
    and unmoved: "\<not> ?moved" and 2: "andthen (set_role_ordering E s ranks) ?rest w = (Ok s', w')"
    using held(2) by (simp_all add: andthen_lift q rank throw_def split: if_splits)
  note order = complete_order_distinct [OF wf complete]
  obtain s1 w1 where 3: "set_role_ordering E s ranks w = (Ok s1, w1)" "?rest s1 w1 = (Ok s', w')"
    using andthen_OkE [OF 2] by blast
  from andthen_sync_channels_Ok [OF 3(2)] have "s1 = s'" "db w1 = db w'" by (auto simp: ret_def)
  note result = set_role_ordering_run [OF laws _ order 3(1)]
  have keep: "\<forall>i r. map_of (server_roles s) i = Some r \<and> role_rank r \<le> top_rank \<longrightarrow> position i ranks = position i ?order"
    using unmoved by (fastforce simp: list_ex_iff dest: map_of_SomeD)
  have "set ranks = set ?order" by (simp add: order(2) ordered_roles_def)
  then have behind: "\<forall>i r j r' a b. map_of (server_roles s) i = Some r \<and> role_rank r \<le> top_rank
          \<and> map_of (server_roles s) j = Some r' \<and> top_rank < role_rank r'
          \<and> position i ranks = Some a \<and> position j ranks = Some b \<longrightarrow> a < b"
    using protected_stay_ahead [where top_rank = top_rank, OF wf order(1)] keep [rule_format, symmetric] by blast
  have "db w' = db_servers_update (AList.update target s') (db w)"
    and "\<forall>i. map_of (server_roles s') i = map_option (\<lambda>r. r\<lparr>role_rank := int (the (position i ranks))\<rparr>) (map_of (server_roles s) i)"
    using result s \<open>s1 = s'\<close> \<open>db w1 = db w'\<close> by simp_all
  with held(1) keep behind show ?thesis by (intro conjI)
qed

text \<open>A server in which the holder of the highest role may manage roles.\<close>

definition managed_roles :: server where
  "managed_roles = sample_server ''S'' ''o'' [(''a'', sample_role ''a'' 0 8 0), (''b'', sample_role ''b'' 1 0 0),
     (''c'', sample_role ''c'' 2 0 0)] 0"

definition managed_world :: world where
  "managed_world = sample_world (empty_db\<lparr>db_servers := [(''S'', managed_roles)],
     db_server_members := [(\<lparr>key_server = ''S'', key_user = ''m''\<rparr>, sample_member ''S'' ''m'' [''a''] None)]\<rparr>)"

theorem role_ranks_respect_hierarchy_witness:
  "\<exists>s'. fst (route_edit_role_ranks sample_env (sample_user ''m'') ''S'' [''a'', ''c'', ''b''] managed_world) = Ok s'
     \<and> map_of (server_roles s') ''c'' = Some (sample_role ''c'' 1 0 0)"
proof -
  let ?run = "route_edit_role_ranks sample_env (sample_user ''m'') ''S'' [''a'', ''c'', ''b''] managed_world"
  let ?m = "sample_member ''S'' ''m'' [''a''] None"
  have s: "map_of (db_servers (db managed_world)) ''S'' = Some managed_roles" and "hm_wf (server_roles managed_roles)"
    and i: "server_id managed_roles = ''S''" and owner: "server_owner managed_roles = ''o''" and u: "\<not> privileged (sample_user ''m'')"
    and m: "map_of (db_server_members (db managed_world)) \<lparr>key_server = ''S'', key_user = ''m''\<rparr> = Some ?m"
    by (simp_all add: managed_world_def managed_roles_def sample_world_def sample_defs hm_wf_def)
  have rank: "acting_rank managed_world (sample_user ''m'') managed_roles = Some 0"
    using m by (simp add: acting_rank_def i owner u) (simp add: get_ranking_def managed_roles_def sample_defs)
  have "bit (acting_permissions sample_env managed_world (sample_user ''m'') managed_roles) 3"
    using u owner m i
    by (simp add: acting_permissions_def query_server_answers_def resolved_member_def resolved_roles_def bit_server_spec_member query_build)
      (simp add: server_role_overrides_def by_descending_rank_def managed_roles_def sample_defs field_to_override_def apply_all_def
        bit_pv_apply as_u64_def in_timeout_def)
  then have "throw_if_lacking_channel_permission (acting_permissions sample_env managed_world (sample_user ''m'') managed_roles) ManageRole = Ok ()"
    by (simp add: throw_if_lacking_channel_permission_def has_channel_permission_iff)
  moreover obtain q where "server_permissions sample_env (sample_user ''m'') managed_roles managed_world
      = (Ok (acting_permissions sample_env managed_world (sample_user ''m'') managed_roles, q), managed_world)" "get_member_rank q = Ok (Some 0)"
    using server_permissions_run [of sample_env "sample_user ''m''" managed_roles managed_world] rank by auto
  moreover have roles: "server_roles managed_roles = [(''a'', sample_role ''a'' 0 8 0), (''b'', sample_role ''b'' 1 0 0),
     (''c'', sample_role ''c'' 2 0 0)]" "map fst (ordered_roles managed_roles) = [''a'', ''b'', ''c'']" "server_channels managed_roles = []"
    by (simp_all add: managed_roles_def sample_server_def ordered_roles_def sample_role_def)
  moreover obtain s' w' where "set_role_ordering sample_env managed_roles [''a'', ''c'', ''b''] managed_world = (Ok s', w')"
      and "server_channels s' = []"
    using s roles i by (simp add: set_role_ordering_def andthen_Ok update_server_run apply_server_roles) (simp add: ret_def)
  ultimately have "\<exists>s' w'. ?run = (Ok s', w')"
    by (simp add: route_edit_role_ranks_def andthen_fetch_server s andthen_Ok andthen_lift Let_def owner sync_channels_def)
      (simp add: ret_def)
  then obtain s' w' where run: "?run = (Ok s', w')" by blast
  have "map_of (server_roles s') ''c''
      = map_option (\<lambda>r. r\<lparr>role_rank := int (the (position ''c'' [''a'', ''c'', ''b'']))\<rparr>) (map_of (server_roles managed_roles) ''c'')"
    using role_ranks_respect_hierarchy [OF _ s i \<open>hm_wf _\<close> rank run] by simp
  then show ?thesis using run by (simp add: managed_roles_def sample_server_def sample_role_def)
qed

text \<open>a new role is meant to be the lowest one (\<open>Role::create\<close>), but its rank is the number of roles. In a
  server whose ranks are the numbers \<open>0\<close> to \<open>n - 1\<close>, as a reordering leaves them, after deleting any role but
  the lowest one the next role that is created has the same rank as a role that is already there.\<close>

theorem new_role_rank_collides:
  assumes s: "map_of (db_servers (db w)) (server_id s) = Some s" and wf: "hm_wf (server_roles s)"
    and dense: "\<forall>k < length (server_roles s). \<exists>i r. map_of (server_roles s) i = Some r \<and> role_rank r = int k"
    and r: "map_of (server_roles s) (role_id r) = Some r" "role_rank r + 1 < int (length (server_roles s))"
    and fresh: "map_of (server_roles s) new_id = None"
  shows "\<exists>x w' j r'.
    andthen (role_delete r (server_id s)) (\<lambda>_.
      andthen (on_db (fetch_server (server_id s))) (\<lambda>s'. role_create new_id s' name)) w = (Ok x, w')
    \<and> map_of (server_roles (the (map_of (db_servers (db w')) (server_id s)))) j = Some r'
    \<and> j \<noteq> role_id x \<and> role_rank r' = role_rank x"
proof -
  let ?n = "length (server_roles s)"
  let ?s = "s\<lparr>server_roles := AList.delete (role_id r) (server_roles s)\<rparr>"
  from r(1) have "(role_id r, r) \<in> set (server_roles s)" by (rule map_of_SomeD)
  then have "0 < ?n" by (cases "server_roles s") auto
  then obtain j r' where j: "map_of (server_roles s) j = Some r'" "role_rank r' = int (?n - 1)"
    using dense by (metis diff_less zero_less_one)
  then have "j \<noteq> role_id r" using r \<open>0 < ?n\<close> by (auto simp: of_nat_diff)
  have n: "Suc (length (AList.delete (role_id r) (server_roles s))) = ?n" by (rule hm_length_delete [OF wf r(1)])
  let ?x = "\<lparr>role_id = new_id, role_name = name, role_permissions = \<lparr>field_a = 0, field_d = 0\<rparr>, role_colour = None,
     role_hoist = False, role_rank = int (length (server_roles ?s))\<rparr>"
  obtain w' where "andthen (role_delete r (server_id s)) (\<lambda>_.
      andthen (on_db (fetch_server (server_id s))) (\<lambda>s'. role_create new_id s' name)) w = (Ok ?x, w')"
    and "map_of (db_servers (db w')) (server_id s) = Some (?s\<lparr>server_roles := AList.update new_id ?x (server_roles ?s)\<rparr>)"
    using s r(1)
    by (simp add: role_delete_def andthen_assoc andthen_Ok [OF delete_role_run] andthen_fetch_server db_simps role_create_def Let_def
        andthen_Ok insert_role_run ret_def)
  moreover have "map_of (AList.update new_id ?x (server_roles ?s)) j = Some r'" "j \<noteq> new_id" "role_rank r' = role_rank ?x"
    using j \<open>j \<noteq> role_id r\<close> fresh n by (auto simp: db_simps)
  ultimately show ?thesis by (intro exI [of _ ?x] exI [of _ w'] exI [of _ j] exI [of _ r']) simp
qed

theorem new_role_rank_collides_witness:
  "\<exists>x w' j r'.
    andthen (role_delete (sample_role ''a'' 0 0 0) ''S'') (\<lambda>_.
      andthen (on_db (fetch_server ''S'')) (\<lambda>s'. role_create ''n'' s' ''New'')) role_world = (Ok x, w')
    \<and> map_of (server_roles (the (map_of (db_servers (db w')) ''S''))) j = Some r' \<and> j \<noteq> role_id x \<and> role_rank r' = role_rank x"
proof -
  have "\<exists>i r. map_of (server_roles two_roles) i = Some r \<and> role_rank r = int k" if "k < length (server_roles two_roles)" for k
    using that by (cases "k = 0") (auto intro: exI [of _ "''a''"] exI [of _ "''b''"] simp: less_Suc_eq)
  then show ?thesis
    using new_role_rank_collides [of role_world two_roles "sample_role ''a'' 0 0 0" "''n''" "''New''"] by (simp add: hm_wf_def)
qed

end
