(* ===== verification/Members.thy ===== *)
theory Members
  imports Servers Messages
begin

text \<open>
  Members of servers and bans: \<open>crates/core/database/src/models/server_members/model.rs\<close> and
  \<open>server_bans/model.rs\<close>, the check of the number of servers of a user, and the routes of
  \<open>crates/delta/src/routes/servers\<close> that create, edit, join, leave and police a server.

  The properties say that the rank of a member protects it from members of lower or equal rank, that a banned
  user does not come back, and what the routes get wrong.
\<close>

section \<open>Membership\<close>

definition can_acquire_server :: "env \<Rightarrow> user \<Rightarrow> unit world_action" where
  "can_acquire_server E u =
     andthen (on_db (fetch_server_count (user_id u))) (\<lambda>n.
     andthen (user_limits E u) (\<lambda>lims.
       if n \<le> limit_servers lims then ret () else throw (TooManyServers (limit_servers lims))))"

text \<open>The loop over the channels of the server that keeps those the new member can see.\<close>

fun visible_channels :: "env \<Rightarrow> database_permission_query \<Rightarrow> channel list \<Rightarrow> channel list world_action" where
  "visible_channels E q [] = ret []"
| "visible_channels E q (c # cs) =
     andthen (channel_permissions E (use_channel c q)) (\<lambda>(p, _).
     andthen (visible_channels E q cs) (\<lambda>rest.
       ret (if has_channel_permission p ViewChannel then c # rest else rest)))"

fun voice_states_of :: "env \<Rightarrow> channel list \<Rightarrow> (string \<times> user_voice_state list) list world_action" where
  "voice_states_of E [] = ret []"
| "voice_states_of E (c # cs) =
     andthen (attempt (get_channel_voice_state E (uvc_from_channel c))) (\<lambda>v.
     andthen (voice_states_of E cs) (\<lambda>rest.
       ret (case v of Some (Some s) \<Rightarrow> s # rest | _ \<Rightarrow> rest)))"

text \<open>A system message in the channel that the server has set for it; a failure is ignored.\<close>

definition send_system_message :: "string \<Rightarrow> string option \<Rightarrow> system_message \<Rightarrow> unit world_action" where
  "send_system_message new_id target sys =
     (case target of
        Some cid \<Rightarrow> andthen (attempt (send_without_notifications (into_message new_id sys cid) False False False)) (\<lambda>_. ret ())
      | None \<Rightarrow> ret ())"

definition member_create ::
    "env \<Rightarrow> string \<Rightarrow> server \<Rightarrow> user \<Rightarrow> channel list option \<Rightarrow> (member \<times> channel list) world_action" where
  "member_create E message_id s u channels =
     andthen (attempt (on_db (fetch_ban (server_id s) (user_id u)))) (\<lambda>ban.
       if ban \<noteq> None then throw Banned else
     andthen (attempt (on_db (fetch_member (server_id s) (user_id u)))) (\<lambda>old.
       if old \<noteq> None then throw AlreadyInServer else
       let m0 = member_new (env_now E) \<lparr>key_server = server_id s, key_user = user_id u\<rparr> in
     andthen (on_db (insert_or_merge_member m0)) (\<lambda>updated.
       let m = (case updated of Some x \<Rightarrow> x | None \<Rightarrow> m0) in
     andthen (case channels of
                Some cs \<Rightarrow> ret cs
              | None \<Rightarrow>
                  andthen (on_db (fetch_channels (server_channels s))) (\<lambda>existing.
                  visible_channels E (server_query u s) existing)) (\<lambda>cs.
     andthen (on_db (fetch_emoji_by_parent_id (server_id s))) (\<lambda>emojis.
     andthen (voice_states_of E cs) (\<lambda>voice_states.
     andthen (publish (ServerMemberJoin (server_id s) (user_id u) m) (server_id s)) (\<lambda>_.
     andthen (publish_private (ServerCreate (server_id s) s cs emojis voice_states) (user_id u)) (\<lambda>_.
     andthen (send_system_message message_id (Option.bind (server_system_messages s) smc_user_joined) (SysUserJoined (user_id u))) (\<lambda>_.
     ret (m, cs))))))))))"

definition member_update :: "env \<Rightarrow> member \<Rightarrow> partial_member \<Rightarrow> fields_member list \<Rightarrow> member world_action" where
  "member_update E self partial remove =
     (let self' = apply_member (env_structs E) partial (fold member_remove_field remove self) in
      andthen (on_db (update_member (env_structs E) (member_id self') partial remove)) (\<lambda>_.
      andthen (publish (ServerMemberUpdate (member_id self') partial remove) (key_server (member_id self'))) (\<lambda>_.
      ret self')))"

primrec removal_channel :: "removal_intention \<Rightarrow> system_message_channels \<Rightarrow> string option" where
  "removal_channel Leave x = smc_user_left x"
| "removal_channel Kick x = smc_user_kicked x"
| "removal_channel Ban x = smc_user_banned x"

primrec removal_message :: "removal_intention \<Rightarrow> string \<Rightarrow> system_message" where
  "removal_message Leave uid = SysUserLeft uid"
| "removal_message Kick uid = SysUserKicked uid"
| "removal_message Ban uid = SysUserBanned uid"

definition member_remove :: "env \<Rightarrow> string \<Rightarrow> member \<Rightarrow> server \<Rightarrow> removal_intention \<Rightarrow> bool \<Rightarrow> unit world_action" where
  "member_remove E message_id self s intention silent =
     andthen (on_db (soft_delete_member (env_now E) (member_id self))) (\<lambda>_.
     andthen (publish (ServerMemberLeave (key_server (member_id self)) (key_user (member_id self)) intention) (key_server (member_id self))) (\<lambda>_.
       if \<not> silent
       then send_system_message message_id (Option.bind (server_system_messages s) (removal_channel intention))
              (removal_message intention (key_user (member_id self)))
       else ret ()))"

definition ban_create :: "server \<Rightarrow> string \<Rightarrow> string option \<Rightarrow> server_ban world_action" where
  "ban_create s uid reason =
     (let b = \<lparr>ban_id = \<lparr>key_server = server_id s, key_user = uid\<rparr>, server_ban_reason = reason\<rparr> in
      andthen (on_db (insert_ban b)) (\<lambda>_. ret b))"

section \<open>Routes\<close>

text \<open>When a member leaves by any of the routes, it is taken out of the voice channel of the server it is in.\<close>

definition leave_voice :: "env \<Rightarrow> string \<Rightarrow> server \<Rightarrow> unit world_action" where
  "leave_voice E uid s =
     andthen (get_user_voice_channel_in_server E uid (server_id s)) (\<lambda>c.
       case c of
         Some cid \<Rightarrow> remove_user_from_voice_channel E \<lparr>uvc_id = cid, uvc_server_id = Some (server_id s)\<rparr> uid
       | None \<Rightarrow> ret ())"

definition route_kick :: "env \<Rightarrow> string \<Rightarrow> user \<Rightarrow> string \<Rightarrow> string \<Rightarrow> unit world_action" where
  "route_kick E message_id u sid uid =
     andthen (on_db (fetch_server sid)) (\<lambda>s.
       if uid = user_id u then throw CannotRemoveYourself
       else if uid = server_owner s then throw InvalidOperation
       else
     andthen (server_permissions E u s) (\<lambda>(p, q).
     andthen (lift (throw_if_lacking_channel_permission p KickMembers)) (\<lambda>_.
     andthen (on_db (fetch_member (server_id s) uid)) (\<lambda>m.
     andthen (rank_or_min q) (\<lambda>our_rank.
       if get_ranking m s \<le> our_rank then throw NotElevated
       else
         andthen (member_remove E message_id m s Kick False) (\<lambda>_.
         leave_voice E uid s))))))"

definition route_ban ::
    "env \<Rightarrow> unit result \<Rightarrow> string \<Rightarrow> user \<Rightarrow> string \<Rightarrow> string \<Rightarrow> string option \<Rightarrow> nat option \<Rightarrow> server_ban world_action" where
  "route_ban E validation message_id u sid uid reason delete_message_seconds =
     andthen (lift validation) (\<lambda>_.
     andthen (on_db (fetch_server sid)) (\<lambda>s.
       if uid = user_id u then throw CannotRemoveYourself
       else if uid = server_owner s then throw InvalidOperation
       else
     andthen (server_permissions E u s) (\<lambda>(p, q).
     andthen (lift (throw_if_lacking_channel_permission p BanMembers)) (\<lambda>_.
     andthen (attempt (on_db (fetch_member (server_id s) uid))) (\<lambda>target.
     andthen (case target of
                Some m \<Rightarrow>
                  andthen (rank_or_min q) (\<lambda>our_rank.
                    if get_ranking m s \<le> our_rank then throw NotElevated
                    else
                      andthen (member_remove E message_id m s Ban False) (\<lambda>_.
                      leave_voice E uid s))
              | None \<Rightarrow> ret ()) (\<lambda>_.
     andthen (case delete_message_seconds of
                Some seconds \<Rightarrow>
                  if seconds > 0
                  then bulk_delete_by_author_since (server_channels s) uid (env_ulid_at E (env_now E - 1000 * int seconds))
                  else ret ()
              | None \<Rightarrow> ret ()) (\<lambda>_.
     ban_create s uid reason)))))))"

definition route_unban :: "env \<Rightarrow> user \<Rightarrow> string \<Rightarrow> string \<Rightarrow> unit world_action" where
  "route_unban E u sid uid =
     andthen (on_db (fetch_server sid)) (\<lambda>s.
     andthen (server_permissions E u s) (\<lambda>(p, q).
     andthen (lift (throw_if_lacking_channel_permission p BanMembers)) (\<lambda>_.
     andthen (on_db (fetch_ban (server_id s) uid)) (\<lambda>b.
     on_db (delete_ban (ban_id b))))))"

definition route_server_delete :: "env \<Rightarrow> string \<Rightarrow> user \<Rightarrow> string \<Rightarrow> bool option \<Rightarrow> unit world_action" where
  "route_server_delete E message_id u target leave_silently =
     andthen (on_db (fetch_server target)) (\<lambda>s.
     andthen (on_db (fetch_member target (user_id u))) (\<lambda>m.
       if server_owner s = user_id u then
         andthen (for_each (\<lambda>cid. delete_voice_channel E \<lparr>uvc_id = cid, uvc_server_id = Some (server_id s)\<rparr>) (server_channels s)) (\<lambda>_.
         server_delete s)
       else
         andthen (leave_voice E (user_id u) s) (\<lambda>_.
         member_remove E message_id m s Leave (case leave_silently of Some b \<Rightarrow> b | None \<Rightarrow> False))))"

definition route_server_create ::
    "env \<Rightarrow> unit result \<Rightarrow> string \<Rightarrow> string \<Rightarrow> string \<Rightarrow> user \<Rightarrow> string \<Rightarrow> string option \<Rightarrow> bool option
     \<Rightarrow> (server \<times> channel list) world_action" where
  "route_server_create E validation server_id' channel_id' message_id u name description nsfw =
     (if user_bot u \<noteq> None then throw IsBot
      else if restrict_server_creation (env_global E) \<noteq> [] \<and> user_id u \<notin> set (restrict_server_creation (env_global E))
      then throw CantCreateServers
      else
        andthen (lift validation) (\<lambda>_.
        andthen (can_acquire_server E u) (\<lambda>_.
        andthen (server_create E server_id' channel_id' name description nsfw u True) (\<lambda>(s, channels).
        andthen (member_create E message_id s u (Some channels)) (\<lambda>(m, channels).
        ret (s, channels))))))"

section \<open>Editing a member\<close>

record data_member_edit =
  dme_nickname :: "string option"
  dme_avatar :: "string option"
  dme_roles :: "string list option"
  dme_timeout :: "timestamp option"
  dme_remove :: "fields_member list"
  dme_can_publish :: "bool option"
  dme_can_receive :: "bool option"
  dme_voice_channel :: "string option"

definition check_lacking :: "u64 \<Rightarrow> channel_permission \<Rightarrow> unit world_action" where
  "check_lacking p perm = lift (throw_if_lacking_channel_permission p perm)"

definition when_do :: "bool \<Rightarrow> unit world_action \<Rightarrow> unit world_action" where
  "when_do b m = (if b then m else ret ())"

text \<open>The checks on the fields, in their order. \<open>p\<close> are the permissions of the editor and \<open>tp\<close> those of the target.\<close>

definition member_edit_checks :: "env \<Rightarrow> u64 \<Rightarrow> u64 \<Rightarrow> user \<Rightarrow> member \<Rightarrow> data_member_edit \<Rightarrow> unit world_action" where
  "member_edit_checks E p tp u m data =
     (let self = (user_id u = key_user (member_id m)); removes = (\<lambda>f. f \<in> set (dme_remove data)) in
      andthen (when_do (dme_nickname data \<noteq> None \<or> removes MemberNickname)
        (check_lacking p (if self then ChangeNickname else ManageNicknames))) (\<lambda>_.
      andthen (when_do (dme_avatar data \<noteq> None \<or> removes MemberAvatar)
        (if self then check_lacking p ChangeAvatar
         else if removes MemberAvatar then check_lacking p RemoveAvatars
         else throw InvalidOperation)) (\<lambda>_.
      andthen (when_do (dme_roles data \<noteq> None \<or> removes MemberRoles) (check_lacking p AssignRoles)) (\<lambda>_.
      andthen (when_do (dme_timeout data \<noteq> None \<or> removes MemberTimeout)
        (if dme_timeout data \<noteq> None \<and> self then throw CannotTimeoutYourself
         else if dme_timeout data \<noteq> None \<and> has_channel_permission tp TimeoutMembers then throw IsElevated
         else check_lacking p TimeoutMembers)) (\<lambda>_.
      andthen (when_do (dme_can_publish data \<noteq> None) (check_lacking p MuteMembers)) (\<lambda>_.
      andthen (when_do (dme_can_receive data \<noteq> None) (check_lacking p DeafenMembers)) (\<lambda>_.
      andthen (when_do (dme_voice_channel data \<noteq> None \<and> removes MemberVoiceChannel) (throw InvalidOperation)) (\<lambda>_.
      when_do (dme_voice_channel data \<noteq> None \<or> removes MemberVoiceChannel)
        (if \<not> voice_is_enabled E then throw LiveKitUnavailable
         else when_do (\<not> self) (check_lacking p MoveMembers))))))))))"

definition resolve_voice_channel ::
    "env \<Rightarrow> database_permission_query \<Rightarrow> server \<Rightarrow> user \<Rightarrow> member \<Rightarrow> string option \<Rightarrow> channel option world_action" where
  "resolve_voice_channel E q s target m voice_channel =
     (case voice_channel of
        None \<Rightarrow> ret None
      | Some cid \<Rightarrow>
          andthen (map_err UnknownChannel (on_db (fetch_channel cid))) (\<lambda>c.
            if channel_server c \<noteq> Some (key_server (member_id m)) then throw UnknownChannel
            else
          andthen (channel_permissions E (use_channel c q)) (\<lambda>(p, _).
          andthen (check_lacking p Connect) (\<lambda>_.
          andthen (get_user_voice_channel_in_server E (user_id target) (server_id s)) (\<lambda>current.
            if current = None then throw NotConnected else ret (Some c))))))"

text \<open>The roles that are added must exist and rank below the editor. Each is taken out of the copy of the
  server; the order of a difference of hash sets is unspecified, here it is that of the request.\<close>

fun take_added_roles :: "i64 \<Rightarrow> string list \<Rightarrow> (string, role) hashmap \<Rightarrow> (string, role) hashmap result" where
  "take_added_roles our_ranking [] rs = Ok rs"
| "take_added_roles our_ranking (rid # rids) rs =
     (case map_of rs rid of
        Some r \<Rightarrow>
          if role_rank r \<le> our_ranking then Err NotElevated
          else take_added_roles our_ranking rids (AList.delete rid rs)
      | None \<Rightarrow> Err InvalidRole)"

definition added_roles :: "string list \<Rightarrow> member \<Rightarrow> string list" where
  "added_roles roles m = remdups (filter (\<lambda>r. r \<notin> set (member_roles m)) roles)"

text \<open>Moving a member that is connected to another channel.\<close>

definition move_member :: "env \<Rightarrow> user \<Rightarrow> server \<Rightarrow> channel \<Rightarrow> unit world_action" where
  "move_member E target s new_channel =
     andthen (get_user_voice_channel_in_server E (user_id target) (server_id s)) (\<lambda>current.
       case current of
         None \<Rightarrow> ret ()
       | Some cid \<Rightarrow>
     andthen (get_channel_node E cid) (\<lambda>n.
     andthen (unwrap n) (\<lambda>old_node.
     andthen (get_channel_node E (channel_id new_channel)) (\<lambda>n'.
     andthen (case n' of
                Some node \<Rightarrow> ret node
              | None \<Rightarrow> andthen (set_channel_node E (channel_id new_channel) old_node) (\<lambda>_. ret old_node)) (\<lambda>new_node.
       let new_uvc = uvc_from_channel new_channel;
           old_uvc = \<lparr>uvc_id = cid, uvc_server_id = uvc_server_id new_uvc\<rparr> in
     andthen (set_user_moved_from_voice E cid new_uvc (user_id target)) (\<lambda>_.
     andthen (set_user_moved_to_voice E (channel_id new_channel) old_uvc (user_id target)) (\<lambda>_.
     andthen (channel_permissions E (channel_query target new_channel)) (\<lambda>(p, _).
     andthen (create_room E new_node new_channel) (\<lambda>_.
     andthen (create_token E new_node target p new_channel) (\<lambda>token.
     andthen (remove_user E old_node (user_id target) cid) (\<lambda>_.
     publish_private (UserMoveVoiceChannel new_node cid (channel_id new_channel) token) (user_id target))))))))))))"

text \<open>What the edit does to the voice channels. The source passes the acting user \<open>u\<close>, not the target, to
  \<open>sync_user_voice_permissions\<close> and to \<open>remove_user\<close>, and the server without the roles that were added.\<close>

definition member_edit_voice ::
    "env \<Rightarrow> user \<Rightarrow> user \<Rightarrow> server \<Rightarrow> channel option \<Rightarrow> data_member_edit \<Rightarrow> unit world_action" where
  "member_edit_voice E u target s new_channel data =
     andthen (case new_channel of
                Some c \<Rightarrow> move_member E target s c
              | None \<Rightarrow>
                  when_do (dme_can_publish data \<noteq> None \<or> dme_can_receive data \<noteq> None
                        \<or> MemberCanPublish \<in> set (dme_remove data) \<or> MemberCanReceive \<in> set (dme_remove data))
                    (andthen (get_user_voice_channel_in_server E (user_id target) (server_id s)) (\<lambda>current.
                       case current of
                         None \<Rightarrow> ret ()
                       | Some cid \<Rightarrow>
                           andthen (get_channel_node E cid) (\<lambda>n.
                           andthen (unwrap n) (\<lambda>node.
                           andthen (on_db (fetch_channel cid)) (\<lambda>c.
                           sync_user_voice_permissions E node u c (Some s) None)))))) (\<lambda>_.
     when_do (MemberVoiceChannel \<in> set (dme_remove data))
       (andthen (get_user_voice_channel_in_server E (user_id target) (server_id s)) (\<lambda>current.
          case current of
            None \<Rightarrow> ret ()
          | Some cid \<Rightarrow>
              andthen (get_channel_node E cid) (\<lambda>n.
              andthen (unwrap n) (\<lambda>node.
              remove_user E node (user_id u) cid)))))"

definition member_edit_partial :: "data_member_edit \<Rightarrow> stored_file option \<Rightarrow> partial_member" where
  "member_edit_partial data avatar =
     partial_member_default\<lparr>pm_nickname := dme_nickname data, pm_avatar := avatar, pm_roles := dme_roles data,
       pm_timeout := dme_timeout data, pm_can_publish := dme_can_publish data, pm_can_receive := dme_can_receive data\<rparr>"

definition route_member_edit ::
    "env \<Rightarrow> unit result \<Rightarrow> user \<Rightarrow> string \<Rightarrow> string \<Rightarrow> data_member_edit \<Rightarrow> member world_action" where
  "route_member_edit E validation u sid uid data =
     andthen (lift validation) (\<lambda>_.
     andthen (on_db (fetch_server sid)) (\<lambda>s.
     andthen (on_db (fetch_user uid)) (\<lambda>target.
     andthen (on_db (fetch_member (server_id s) uid)) (\<lambda>m.
     andthen (server_permissions E u s) (\<lambda>(p, q).
     andthen (query_server_permissions E (use_member m (server_query target s))) (\<lambda>(tp, _).
     andthen (member_edit_checks E p tp u m data) (\<lambda>_.
     andthen (resolve_voice_channel E q s target m (dme_voice_channel data)) (\<lambda>new_channel.
     andthen (rank_or_min q) (\<lambda>our_ranking.
       if key_user (member_id m) \<noteq> user_id u \<and> get_ranking m s \<le> our_ranking then throw NotElevated
       else
     andthen (lift (case dme_roles data of
                      Some roles \<Rightarrow> take_added_roles our_ranking (added_roles roles m) (server_roles s)
                    | None \<Rightarrow> Ok (server_roles s))) (\<lambda>rs.
     andthen (when_do (MemberAvatar \<in> set (dme_remove data))
       (case member_avatar m of Some f \<Rightarrow> on_db (mark_attachment_as_deleted (file_id f)) | None \<Rightarrow> ret ())) (\<lambda>_.
     andthen (case dme_avatar data of
                Some i \<Rightarrow> andthen (on_db (use_user_avatar i (user_id u) (user_id u))) (\<lambda>f. ret (Some f))
              | None \<Rightarrow> ret None) (\<lambda>avatar.
     andthen (member_update E m (member_edit_partial data avatar) (dme_remove data)) (\<lambda>m'.
     andthen (member_edit_voice E u target (s\<lparr>server_roles := rs\<rparr>) new_channel data) (\<lambda>_.
     ret m'))))))))))))))"

section \<open>What a request leaves alone\<close>

text \<open>\<open>members_kept m\<close>: the computation changes neither the members nor the bans.\<close>

definition members_kept :: "'a world_action \<Rightarrow> bool" where
  "members_kept m \<longleftrightarrow> (\<forall>w. db_server_members (db (snd (m w))) = db_server_members (db w)
     \<and> db_server_bans (db (snd (m w))) = db_server_bans (db w))"

lemma members_kept_db: "db_kept m \<Longrightarrow> members_kept m"
  by (simp add: db_kept_def members_kept_def)

lemma members_kept_unchanged: "members_kept m \<longleftrightarrow> unchanged (\<lambda>w. (db_server_members (db w), db_server_bans (db w))) m"
  by (simp add: members_kept_def unchanged_def)

lemma members_kept_andthen: "members_kept m \<Longrightarrow> (\<And>x. members_kept (f x)) \<Longrightarrow> members_kept (andthen m f)"
  by (simp add: members_kept_unchanged unchanged_andthen)

lemma members_kept_attempt: "members_kept m \<Longrightarrow> members_kept (attempt m)"
  by (simp add: members_kept_unchanged unchanged_attempt)

lemma members_kept_for_each: "(\<And>x. members_kept (f x)) \<Longrightarrow> members_kept (for_each f xs)"
  by (simp add: members_kept_unchanged unchanged_for_each)

lemma members_keptD:
  assumes "members_kept m" and "m w = (r, w')"
  shows "db_server_members (db w') = db_server_members (db w)" and "db_server_bans (db w') = db_server_bans (db w)"
  using assms unfolding members_kept_def by (metis snd_conv)+

lemma members_kept_writes [simp]:
  "members_kept (on_db (insert_message m))" "members_kept (on_db (delete_server i))" "members_kept (queue_task t)"
  "members_kept (on_db (fetch_emoji_by_parent_id i))" "members_kept (on_db (fetch_channels ids))"
  "members_kept (on_db (delete_messages_by_author_since cs a th))" "members_kept (on_db (fetch_server i))"
  "members_kept (on_db (fetch_ban i j))" "members_kept (on_db (mark_attachment_as_deleted i))"
  by (auto simp: members_kept_def on_db_def insert_message_def table_insert_def throw_def modify_def delete_server_def table_remove_def
      queue_task_def fetch_emoji_by_parent_id_def gets_def fetch_channels_def andthen_def lift_def delete_messages_by_author_since_def
      Let_def ret_def fetch_server_def servers.fetch fetch_ban_def server_bans.fetch mark_attachment_as_deleted_def table_change_def
      split: option.split)

lemma db_kept_leave_voice [simp]: "db_kept (leave_voice E i s)"
  unfolding leave_voice_def by (intro db_kept_andthen) (simp_all split: option.split)

lemma db_kept_server_permissions [simp]: "db_kept (query_server_permissions E q)" "db_kept (server_permissions E u s)"
proof -
  have "db (snd (query_server_permissions E q w)) = db w" for q w
    by (cases "calculate_server_permissions (db_query (reads_of (env_now E) (db w))) q";
        cases "fst (calculate_server_permissions (db_query (reads_of (env_now E) (db w))) q)") (simp_all add: query_server_permissions_def)
  then show "db_kept (query_server_permissions E q)" "db_kept (server_permissions E u s)"
    by (simp_all add: db_kept_def server_permissions_def)
qed

lemma db_kept_rank [simp]: "db_kept (rank_or_min q)"
  unfolding rank_or_min_def by (simp add: db_kept_andthen)

lemma db_kept_voice_states [simp]: "db_kept (voice_states_of E cs)"
proof (induction cs)
  case (Cons c cs)
  have "db_kept (get_channel_voice_state E (uvc_from_channel c))"
    unfolding get_channel_voice_state_def by (intro db_kept_andthen) (simp_all add: db_kept_andthen db_kept_voice_participants split: option.split)
  with Cons show ?case by (simp add: db_kept_andthen db_kept_attempt)
qed simp

lemma db_kept_visible_channels [simp]: "db_kept (visible_channels E q cs)"
  by (induction cs) (auto intro!: db_kept_andthen)

lemma db_kept_unwrap [simp]: "db_kept (unwrap x)"
  by (simp add: unwrap_def split: option.split)

lemma db_kept_map_err: "db_kept m \<Longrightarrow> db_kept (map_err e m)"
  by (simp add: db_kept_unchanged unchanged_map_err)

lemma db_kept_when [simp]: "db_kept m \<Longrightarrow> db_kept (when_do b m)"
  by (simp add: when_do_def)

lemma db_kept_check [simp]: "db_kept (check_lacking p perm)"
  by (simp add: check_lacking_def)

lemma db_kept_edit_steps [simp]:
  "db_kept (member_edit_checks E p tp u m data)" "db_kept (resolve_voice_channel E q s target m vc)" "db_kept (move_member E target s ch)"
  "db_kept (member_edit_voice E u target s nc data)"
proof -
  show "db_kept (member_edit_checks E p tp u m data)"
    unfolding member_edit_checks_def Let_def by (intro db_kept_andthen) simp_all
  show "db_kept (resolve_voice_channel E q s target m vc)"
    unfolding resolve_voice_channel_def
    by (cases vc) (auto intro!: db_kept_andthen db_kept_map_err)
  show move: "db_kept (move_member E target s ch)" for ch
    unfolding move_member_def Let_def by (auto intro!: db_kept_andthen simp: publish_private_def split: option.split)
  show "db_kept (member_edit_voice E u target s nc data)"
    unfolding member_edit_voice_def
    by (cases nc) (auto intro!: db_kept_andthen move db_kept_when db_kept_sync_user split: option.split)
qed

lemma members_kept_system_message [simp]: "members_kept (send_system_message i target sys)"
proof -
  have "members_kept (send_without_notifications m a b c)" for m a b c
    unfolding send_without_notifications_def
    by (cases "msg_mentions m"; cases "msg_content m")
      (auto intro!: members_kept_andthen simp: members_kept_db)
  then show ?thesis unfolding send_system_message_def
    by (cases target) (simp_all add: members_kept_andthen members_kept_attempt members_kept_db)
qed

lemma members_kept_sweep [simp]: "members_kept (bulk_delete_by_author_since cs a th)"
  unfolding bulk_delete_by_author_since_def
  by (auto intro!: members_kept_andthen members_kept_for_each simp: members_kept_db)

lemma members_kept_avatar [simp]: "members_kept (on_db (use_user_avatar i a b))"
  by (auto simp: members_kept_def on_db_def use_user_avatar_def find_and_use_attachment_def andthen_def gets_def modify_def ret_def throw_def
      Let_def split: option.split)

section \<open>Bans\<close>

text \<open>Bans and members are stored under their own ids.\<close>

definition memberships_wf :: "ref_db \<Rightarrow> bool" where
  "memberships_wf d \<longleftrightarrow> (\<forall>k m. map_of (db_server_members d) k = Some m \<longrightarrow> member_id m = k)
     \<and> (\<forall>k b. map_of (db_server_bans d) k = Some b \<longrightarrow> ban_id b = k)"

definition shut_out :: "member_composite_key \<Rightarrow> world \<Rightarrow> bool" where
  "shut_out k w \<longleftrightarrow> (\<forall>k b. map_of (db_server_bans (db w)) k = Some b \<longrightarrow> ban_id b = k)
     \<and> map_of (db_server_bans (db w)) k \<noteq> None \<and> map_of (db_server_members (db w)) k = None"

lemma keeps_members_kept: "members_kept m \<Longrightarrow> keeps (shut_out k) m"
  unfolding members_kept_def keeps_def shut_out_def by metis

lemma keeps_db_kept: "db_kept m \<Longrightarrow> keeps (shut_out k) m"
  by (rule keeps_members_kept [OF members_kept_db])

lemma keeps_when: "keeps P m \<Longrightarrow> keeps P (when_do b m)"
  by (simp add: when_do_def)

lemma keeps_shut_out_writes:
  "keeps (shut_out k) (on_db (soft_delete_member now l))" "keeps (shut_out k) (on_db (insert_ban b))"
  "keeps (shut_out k) (on_db (update_member OS l pm fs))"
  by (auto simp: keeps_def shut_out_def on_db_def soft_delete_member_def insert_ban_def update_member_def table_remove_def table_insert_def
      table_change_def andthen_def gets_def throw_def panic_def modify_def db_simps split: option.splits if_splits)

lemma keeps_member_create: "keeps (shut_out k) (member_create E i s u cs)"
proof (rule keepsI)
  fix w assume out: "shut_out k w"
  let ?k = "\<lparr>key_server = server_id s, key_user = user_id u\<rparr>"
  show "shut_out k (snd (member_create E i s u cs w))"
  proof (cases "map_of (db_server_bans (db w)) ?k")
    case (Some b)
    then have "attempt (on_db (fetch_ban (server_id s) (user_id u))) w = (Ok (Some b), w)"
      by (simp add: attempt_def on_db_def fetch_ban_def server_bans.fetch)
    with out show ?thesis by (simp add: member_create_def andthen_Ok throw_def)
  next
    case None
    with out have "?k \<noteq> k" by (auto simp: shut_out_def)
    then have "keeps (shut_out k) (on_db (insert_or_merge_member (member_new (env_now E) ?k)))"
      by (auto simp: keeps_def shut_out_def on_db_def insert_or_merge_member_def table_insert_def andthen_def gets_def throw_def modify_def
          ret_def member_new_def db_simps)
    then have "keeps (shut_out k) (member_create E i s u cs)"
      unfolding member_create_def Let_def
      by (auto intro!: keeps_andthen keeps_attempt simp: keeps_db_kept keeps_members_kept publish_private_def split: option.split)
    then show ?thesis using out by (rule keepsD)
  qed
qed

lemma keeps_member_remove: "keeps (shut_out k) (member_remove E i m s r silent)"
  unfolding member_remove_def
  by (auto intro!: keeps_andthen keeps_shut_out_writes simp: keeps_db_kept keeps_members_kept)

lemma keeps_route_kick: "keeps (shut_out k) (route_kick E i u sid uid)"
  unfolding route_kick_def
  by (auto intro!: keeps_andthen keeps_member_remove simp: keeps_db_kept keeps_members_kept)

lemma keeps_route_ban: "keeps (shut_out k) (route_ban E v i u sid uid reason secs)"
  unfolding route_ban_def ban_create_def Let_def
  by (auto intro!: keeps_andthen keeps_attempt keeps_member_remove keeps_shut_out_writes simp: keeps_db_kept keeps_members_kept split: option.split)

lemma keeps_route_server_delete: "keeps (shut_out k) (route_server_delete E i u sid silent)"
  unfolding route_server_delete_def server_delete_def
  by (auto intro!: keeps_andthen keeps_for_each keeps_member_remove simp: keeps_db_kept keeps_members_kept)

lemma keeps_route_member_edit: "keeps (shut_out k) (route_member_edit E v u sid uid data)"
  unfolding route_member_edit_def member_update_def Let_def
  by (auto intro!: keeps_andthen keeps_when keeps_shut_out_writes simp: keeps_db_kept keeps_members_kept split: option.split)

lemma keeps_route_unban:
  assumes "\<forall>s. map_of (db_servers (db w)) sid = Some s \<longrightarrow> \<lparr>key_server = server_id s, key_user = uid\<rparr> \<noteq> k" and out: "shut_out k w"
  shows "shut_out k (snd (route_unban E u sid uid w))"
proof (cases "map_of (db_servers (db w)) sid")
  case None
  with out show ?thesis by (simp add: route_unban_def andthen_fetch_server)
next
  case (Some s)
  let ?k = "\<lparr>key_server = server_id s, key_user = uid\<rparr>"
  have "?k \<noteq> k" using assms(1) Some by simp
  have "keeps (shut_out k) (andthen (on_db (fetch_ban (server_id s) uid)) (\<lambda>b. on_db (delete_ban (ban_id b))))"
    using \<open>?k \<noteq> k\<close>
    by (auto simp: keeps_def shut_out_def andthen_def on_db_def fetch_ban_def server_bans.fetch delete_ban_def table_remove_def gets_def
        throw_def modify_def db_simps split: option.split)
  then have "keeps (shut_out k) (andthen (server_permissions E u s) (\<lambda>(p, q).
     andthen (lift (throw_if_lacking_channel_permission p BanMembers)) (\<lambda>_.
     andthen (on_db (fetch_ban (server_id s) uid)) (\<lambda>b. on_db (delete_ban (ban_id b))))))"
    by (auto intro!: keeps_andthen simp: keeps_db_kept)
  with out Some show ?thesis by (simp add: route_unban_def andthen_fetch_server keepsD)
qed

text \<open>What users and moderators can do to the members of servers, except lifting the ban \<open>k\<close>.\<close>

inductive membership_traffic :: "member_composite_key \<Rightarrow> world \<Rightarrow> world \<Rightarrow> bool" for k where
  start: "membership_traffic k w w"
| join: "membership_traffic k w w' \<Longrightarrow> membership_traffic k w (snd (member_create E i s u cs w'))"
| kick: "membership_traffic k w w' \<Longrightarrow> membership_traffic k w (snd (route_kick E i u sid uid w'))"
| ban: "membership_traffic k w w' \<Longrightarrow> membership_traffic k w (snd (route_ban E v i u sid uid reason secs w'))"
| leave: "membership_traffic k w w' \<Longrightarrow> membership_traffic k w (snd (route_server_delete E i u sid silent w'))"
| edit: "membership_traffic k w w' \<Longrightarrow> membership_traffic k w (snd (route_member_edit E v u sid uid data w'))"
| unban: "membership_traffic k w w' \<Longrightarrow>
    \<forall>s. map_of (db_servers (db w')) sid = Some s \<longrightarrow> \<lparr>key_server = server_id s, key_user = uid\<rparr> \<noteq> k \<Longrightarrow>
    membership_traffic k w (snd (route_unban E u sid uid w'))"

lemma shut_out_traffic: "membership_traffic k w w' \<Longrightarrow> shut_out k w \<Longrightarrow> shut_out k w'"
  by (induction rule: membership_traffic.induct)
    (auto intro: keepsD [OF keeps_member_create] keepsD [OF keeps_route_kick] keepsD [OF keeps_route_ban]
      keepsD [OF keeps_route_server_delete] keepsD [OF keeps_route_member_edit] keeps_route_unban)

section \<open>Properties\<close>

lemma member_remove_effect:
  assumes "member_remove E i m s r silent w = (Ok (), w')"
  shows "map_of (db_server_members (db w')) = (map_of (db_server_members (db w)))(member_id m := None)"
    and "db_server_bans (db w') = db_server_bans (db w)"
proof -
  from assms obtain w1 where 1: "on_db (soft_delete_member (env_now E) (member_id m)) w = (Ok (), w1)"
    and 2: "andthen (publish (ServerMemberLeave (key_server (member_id m)) (key_user (member_id m)) r) (key_server (member_id m))) (\<lambda>_.
       if \<not> silent then send_system_message i (Option.bind (server_system_messages s) (removal_channel r)) (removal_message r (key_user (member_id m)))
       else ret ()) w1 = (Ok (), w')"
    unfolding member_remove_def by (auto elim: andthen_OkE)
  have "members_kept (andthen (publish (ServerMemberLeave (key_server (member_id m)) (key_user (member_id m)) r) (key_server (member_id m))) (\<lambda>_.
       if \<not> silent then send_system_message i (Option.bind (server_system_messages s) (removal_channel r)) (removal_message r (key_user (member_id m)))
       else ret ()))" by (intro members_kept_andthen) (simp_all add: members_kept_db)
  note kept = members_keptD [OF this 2]
  have "db w1 = db_server_members_update (AList.delete (member_id m)) (db w)"
    using 1 by (auto simp: on_db_def soft_delete_member_def table_remove_def andthen_def gets_def throw_def panic_def modify_def
        split: option.splits if_splits)
  with kept show "map_of (db_server_members (db w')) = (map_of (db_server_members (db w)))(member_id m := None)"
    and "db_server_bans (db w') = db_server_bans (db w)" by (simp_all add: db_simps)
qed

text \<open>C19: kicking respects the hierarchy. When it succeeds, the moderator holds \<open>KickMembers\<close>, the target is neither
  the owner nor the moderator itself and ranks strictly below the moderator, and afterwards exactly that
  membership is gone.\<close>

theorem kick_respects_hierarchy:
  assumes s: "map_of (db_servers (db w)) sid = Some s" and wf: "memberships_wf (db w)"
    and run: "route_kick E i u sid uid w = (Ok (), w')"
  shows "\<exists>m. map_of (db_server_members (db w)) \<lparr>key_server = server_id s, key_user = uid\<rparr> = Some m
    \<and> has_channel_permission (acting_permissions E w u s) KickMembers \<and> uid \<noteq> server_owner s \<and> uid \<noteq> user_id u
    \<and> (\<forall>k. acting_rank w u s = Some k \<longrightarrow> k < get_ranking m s)
    \<and> map_of (db_server_members (db w')) = (map_of (db_server_members (db w)))(\<lparr>key_server = server_id s, key_user = uid\<rparr> := None)
    \<and> db_server_bans (db w') = db_server_bans (db w)"
proof -
  let ?k = "\<lparr>key_server = server_id s, key_user = uid\<rparr>"
  have target: "uid \<noteq> user_id u" "uid \<noteq> server_owner s"
    using run s by (auto simp: route_kick_def andthen_fetch_server throw_def split: if_splits)
  with run s obtain q where q: "get_member_rank q = Ok (acting_rank w u s)"
    and 1: "andthen (lift (throw_if_lacking_channel_permission (acting_permissions E w u s) KickMembers)) (\<lambda>_.
     andthen (on_db (fetch_member (server_id s) uid)) (\<lambda>m.
     andthen (rank_or_min q) (\<lambda>our_rank.
       if get_ranking m s \<le> our_rank then throw NotElevated
       else andthen (member_remove E i m s Kick False) (\<lambda>_. leave_voice E uid s)))) w = (Ok (), w')"
    by (simp add: route_kick_def andthen_fetch_server) (erule server_permissions_OkE, simp)
  note held = andthen_lacking_OkE [OF 1]
  obtain m where m: "map_of (db_server_members (db w)) ?k = Some m"
    and 2: "andthen (rank_or_min q) (\<lambda>our_rank.
       if get_ranking m s \<le> our_rank then throw NotElevated
       else andthen (member_remove E i m s Kick False) (\<lambda>_. leave_voice E uid s)) w = (Ok (), w')"
    using held(2) by (auto simp: andthen_def on_db_def fetch_member_def server_members.fetch split: option.splits)
  have rank: "\<not> get_ranking m s \<le> (case acting_rank w u s of Some x \<Rightarrow> x | None \<Rightarrow> - (2 ^ 63))"
    using 2 by (auto simp: rank_or_min_run [OF q] throw_def split: if_splits)
  with 2 have "andthen (member_remove E i m s Kick False) (\<lambda>_. leave_voice E uid s) w = (Ok (), w')"
    by (simp add: rank_or_min_run [OF q])
  then obtain w1 where w1: "member_remove E i m s Kick False w = (Ok (), w1)" "leave_voice E uid s w1 = (Ok (), w')"
    by (auto elim: andthen_OkE)
  have "member_id m = ?k" using wf m by (auto simp: memberships_wf_def)
  moreover have "db w' = db w1" using db_kept_leave_voice [of E uid s] w1(2) unfolding db_kept_def by (metis snd_conv)
  moreover have "k < get_ranking m s" if "acting_rank w u s = Some k" for k using rank that by simp
  ultimately show ?thesis using m target held(1) member_remove_effect [OF w1(1)] by (intro exI [of _ m]) simp
qed

text \<open>C18: a ban holds. After a successful ban the user is not a member and is banned, and stays so through any
  sequence of joins, leaves, kicks, edits and bans by anybody, as long as this ban is not lifted.\<close>

theorem banned_users_stay_out:
  assumes s: "map_of (db_servers (db w)) sid = Some s" and wf: "memberships_wf (db w)"
    and run: "route_ban E v i u sid uid reason secs w = (Ok b, w')"
    and traffic: "membership_traffic \<lparr>key_server = server_id s, key_user = uid\<rparr> w' w''"
  shows "map_of (db_server_members (db w'')) \<lparr>key_server = server_id s, key_user = uid\<rparr> = None
    \<and> map_of (db_server_bans (db w'')) \<lparr>key_server = server_id s, key_user = uid\<rparr> \<noteq> None"
proof -
  let ?k = "\<lparr>key_server = server_id s, key_user = uid\<rparr>"
  let ?remove = "\<lambda>q target. case target of
        Some m \<Rightarrow> andthen (rank_or_min q) (\<lambda>our_rank.
            if get_ranking m s \<le> our_rank then throw NotElevated
            else andthen (member_remove E i m s Ban False) (\<lambda>_. leave_voice E uid s))
      | None \<Rightarrow> ret ()"
  let ?sweep = "case secs of
        Some seconds \<Rightarrow> if seconds > 0 then bulk_delete_by_author_since (server_channels s) uid (env_ulid_at E (env_now E - 1000 * int seconds)) else ret ()
      | None \<Rightarrow> ret ()"
  let ?found = "map_of (db_server_members (db w)) ?k"
  have found: "attempt (on_db (fetch_member (server_id s) uid)) w = (Ok ?found, w)"
    by (cases ?found) (simp_all add: attempt_def on_db_def fetch_member_def server_members.fetch)
  have "uid \<noteq> user_id u" "uid \<noteq> server_owner s" and val: "v = Ok ()"
    using run s by (auto simp: route_ban_def andthen_fetch_server andthen_lift throw_def split: if_splits outcome.splits)
  with run s obtain q where
    1: "andthen (lift (throw_if_lacking_channel_permission (acting_permissions E w u s) BanMembers)) (\<lambda>_.
     andthen (attempt (on_db (fetch_member (server_id s) uid))) (\<lambda>target.
     andthen (?remove q target) (\<lambda>_. andthen ?sweep (\<lambda>_. ban_create s uid reason)))) w = (Ok b, w')"
    by (simp add: route_ban_def andthen_fetch_server andthen_lift) (erule server_permissions_OkE, simp add: andthen_lift)
  have "andthen (?remove q ?found) (\<lambda>_. andthen ?sweep (\<lambda>_. ban_create s uid reason)) w = (Ok b, w')"
    using andthen_lacking_OkE(2) [OF 1] found by (simp add: andthen_Ok)
  then obtain w1 w2 where w1: "?remove q ?found w = (Ok (), w1)" and w2: "?sweep w1 = (Ok (), w2)" and w3: "ban_create s uid reason w2 = (Ok b, w')"
    by (auto elim!: andthen_OkE)
  have gone: "map_of (db_server_members (db w1)) ?k = None \<and> db_server_bans (db w1) = db_server_bans (db w)"
  proof (cases ?found)
    case None
    with w1 show ?thesis by (simp add: ret_def)
  next
    case (Some m)
    with w1 obtain wr w0 where "member_remove E i m s Ban False wr = (Ok (), w0)" "leave_voice E uid s w0 = (Ok (), w1)" "db wr = db w"
      using db_kept_rank [of q]
      by (auto simp: db_kept_def throw_def elim!: andthen_OkE split: if_splits) (metis snd_conv)
    moreover have "db w1 = db w0" using db_kept_leave_voice [of E uid s] \<open>leave_voice E uid s w0 = (Ok (), w1)\<close>
      unfolding db_kept_def by (metis snd_conv)
    moreover have "member_id m = ?k" using wf Some by (auto simp: memberships_wf_def)
    ultimately show ?thesis using member_remove_effect [of E i m s Ban False wr w0] by simp
  qed
  have "members_kept ?sweep" by (simp add: members_kept_db split: option.split)
  note sweep = members_keptD [OF this w2]
  have w': "db w' = db_server_bans_update (AList.update ?k \<lparr>ban_id = ?k, server_ban_reason = reason\<rparr>) (db w2)"
    using w3 by (auto simp: ban_create_def Let_def insert_ban_def on_db_def table_insert_def andthen_def gets_def throw_def modify_def ret_def split: if_splits)
  have "shut_out ?k w'"
    using gone sweep wf by (auto simp: shut_out_def w' db_simps memberships_wf_def)
  from shut_out_traffic [OF traffic this] show ?thesis by (simp add: shut_out_def)
qed

text \<open>A server with an owner, a moderator and a member, for the witnesses.\<close>

definition guild :: server where
  "guild = sample_server ''S'' ''o'' [] 0"

definition guild_world :: world where
  "guild_world = sample_world (empty_db\<lparr>db_users := [(''o'', sample_user ''o''), (''a'', sample_user ''a'')],
     db_servers := [(''S'', guild)], db_server_members := [(\<lparr>key_server = ''S'', key_user = ''a''\<rparr>, sample_member ''S'' ''a'' [] None)]\<rparr>)"

lemma guild_simps [simp]:
  "server_id guild = ''S''" "server_owner guild = ''o''" "server_roles guild = []" "server_channels guild = []" "server_system_messages guild = None"
  "db_servers (db guild_world) = [(''S'', guild)]" "db_server_bans (db guild_world) = []" "db_files (db guild_world) = []"
  "db_users (db guild_world) = [(''o'', sample_user ''o''), (''a'', sample_user ''a'')]"
  "db_server_members (db guild_world) = [(\<lparr>key_server = ''S'', key_user = ''a''\<rparr>, sample_member ''S'' ''a'' [] None)]"
  "redis guild_world = Map.empty" "user_id (sample_user j) = j" "member_id (sample_member a b c d) = \<lparr>key_server = a, key_user = b\<rparr>"
  "memberships_wf (db guild_world)"
  by (auto simp: guild_def guild_world_def sample_world_def sample_defs empty_db_def memberships_wf_def split: if_splits)

lemma guild_member_remove:
  "\<exists>w'. member_remove sample_env i (sample_member ''S'' ''a'' [] None) guild r False guild_world = (Ok (), w') \<and> redis w' = Map.empty
     \<and> db_server_bans (db w') = []"
  by (simp add: member_remove_def on_db_def soft_delete_member_def in_timeout_def table_remove_def hm_contains_def andthen_def gets_def modify_def
      send_system_message_def ret_def publish_def sample_member_def [of _ _ _ None])

lemma guild_leave_voice: "redis w = Map.empty \<Longrightarrow> leave_voice sample_env ''a'' guild w = (Ok (), w)"
  by (simp add: leave_voice_def get_user_voice_channel_in_server_def query_redis_def mem_client_def as_string_def andthen_def ret_def)

theorem kick_respects_hierarchy_witness:
  "\<exists>w'. route_kick sample_env ''M'' (sample_user ''o'') ''S'' ''a'' guild_world = (Ok (), w')
     \<and> map_of (db_server_members (db w')) \<lparr>key_server = ''S'', key_user = ''a''\<rparr> = None"
proof -
  obtain w1 where "member_remove sample_env ''M'' (sample_member ''S'' ''a'' [] None) guild Kick False guild_world = (Ok (), w1)"
    and "leave_voice sample_env ''a'' guild w1 = (Ok (), w1)"
    using guild_member_remove guild_leave_voice by blast
  then have "\<exists>w'. route_kick sample_env ''M'' (sample_user ''o'') ''S'' ''a'' guild_world = (Ok (), w')"
    by (simp add: route_kick_def andthen_fetch_server andthen_Ok [OF server_permissions_owner] andthen_lift rank_or_min_run
        throw_if_lacking_channel_permission_def has_channel_permission_def pv_has_def andthen_Ok fetch_member_def on_db_def
        server_members.fetch get_ranking_def sample_member_def [of _ _ _ None])
  then obtain w' where run: "route_kick sample_env ''M'' (sample_user ''o'') ''S'' ''a'' guild_world = (Ok (), w')" by blast
  from kick_respects_hierarchy [OF _ _ run, of guild] run show ?thesis by auto
qed

theorem banned_users_stay_out_witness:
  "\<exists>b w'. route_ban sample_env (Ok ()) ''M'' (sample_user ''o'') ''S'' ''a'' None None guild_world = (Ok b, w')
     \<and> map_of (db_server_members (db (snd (member_create sample_env ''N'' guild (sample_user ''a'') None w')))) \<lparr>key_server = ''S'', key_user = ''a''\<rparr> = None"
proof -
  obtain w1 where "member_remove sample_env ''M'' (sample_member ''S'' ''a'' [] None) guild Ban False guild_world = (Ok (), w1)"
    and "leave_voice sample_env ''a'' guild w1 = (Ok (), w1)" and bans: "db_server_bans (db w1) = []"
    using guild_member_remove guild_leave_voice by blast
  moreover obtain b w2 where "ban_create guild ''a'' None w1 = (Ok b, w2)"
    by (simp add: ban_create_def Let_def insert_ban_def on_db_def table_insert_def hm_contains_def bans modify_def andthen_def gets_def ret_def)
  moreover have "attempt (on_db (fetch_member ''S'' ''a'')) guild_world = (Ok (Some (sample_member ''S'' ''a'' [] None)), guild_world)"
    by (simp add: attempt_def on_db_def fetch_member_def server_members.fetch)
  moreover have "get_ranking (sample_member ''S'' ''a'' [] None) guild = i64_max" by (simp add: get_ranking_def sample_member_def)
  ultimately have "\<exists>b w'. route_ban sample_env (Ok ()) ''M'' (sample_user ''o'') ''S'' ''a'' None None guild_world = (Ok b, w')"
    by (simp add: route_ban_def andthen_fetch_server andthen_Ok [OF server_permissions_owner] andthen_lift rank_or_min_run
        throw_if_lacking_channel_permission_def has_channel_permission_def pv_has_def andthen_Ok)
  then obtain b w' where run: "route_ban sample_env (Ok ()) ''M'' (sample_user ''o'') ''S'' ''a'' None None guild_world = (Ok b, w')" by blast
  have "membership_traffic \<lparr>key_server = ''S'', key_user = ''a''\<rparr> w' (snd (member_create sample_env ''N'' guild (sample_user ''a'') None w'))"
    by (intro membership_traffic.join membership_traffic.start)
  with banned_users_stay_out [OF _ _ run, of guild] run show ?thesis by auto
qed

text \<open>a muted member can unmute itself. Taking the field \<open>CanPublish\<close> out is not guarded by a permission, so a member
  without any permission who edits itself gets its right to speak back.\<close>

theorem muted_member_unmutes_itself:
  assumes laws: "optional_struct_laws (env_structs E)" "redis_laws (env_redis E)"
    and s: "map_of (db_servers (db w)) sid = Some s" and user: "map_of (db_users (db w)) (user_id u) = Some u"
    and m: "map_of (db_server_members (db w)) \<lparr>key_server = server_id s, key_user = user_id u\<rparr> = Some m"
      "member_id m = \<lparr>key_server = server_id s, key_user = user_id u\<rparr>"
    and away: "redis w (user_id u @ '':'' @ server_id s) = None"
    and data: "data = \<lparr>dme_nickname = None, dme_avatar = None, dme_roles = None, dme_timeout = None, dme_remove = [MemberCanPublish],
      dme_can_publish = None, dme_can_receive = None, dme_voice_channel = None\<rparr>"
  shows "\<exists>w'. route_member_edit E (Ok ()) u sid (user_id u) data w = (Ok (m\<lparr>can_publish := True\<rparr>), w')
    \<and> map_of (db_server_members (db w')) (member_id m) = Some (m\<lparr>can_publish := True\<rparr>)"
proof -
  obtain q where q: "server_permissions E u s w = (Ok (acting_permissions E w u s, q), w)" "get_member_rank q = Ok (acting_rank w u s)"
    using server_permissions_run by blast
  obtain tp tq where tq: "query_server_permissions E (use_member m (server_query u s)) w = (Ok (tp, tq), w)"
    using query_server_permissions_total by blast
  let ?m = "m\<lparr>can_publish := True\<rparr>"
  let ?w = "w\<lparr>db := db_server_members_update (AList.update (member_id m) ?m) (db w),
      events := events w @ [(server_id s, ServerMemberUpdate (member_id m) (member_edit_partial data None) (dme_remove data))]\<rparr>"
  have found: "on_db (fetch_member (server_id s) (user_id u)) w = (Ok m, w)" "on_db (fetch_user (user_id u)) w = (Ok u, w)"
    using m(1) user by (simp_all add: on_db_def fetch_member_def server_members.fetch fetch_user_def users.fetch)
  have edited: "apply_member (env_structs E) (member_edit_partial data None) (fold member_remove_field (dme_remove data) m) = ?m"
    using optional_struct_laws.apply_member [OF laws(1)] by (simp add: data member_edit_partial_def partial_defaults)
  have upd: "on_db (update_member (env_structs E) (member_id m) (member_edit_partial data None) (dme_remove data)) w =
      (Ok (), w\<lparr>db := db_server_members_update (AList.update (member_id m) ?m) (db w)\<rparr>)"
    using m by (simp add: on_db_def update_member_def table_change_def modify_def edited)
  have voice: "get_user_voice_channel_in_server E (user_id u) (server_id s) w1 = (Ok None, w1)" if "redis w1 = redis w" for w1
    using away that redis_laws.query_run [OF laws(2) refl, of "\<lambda>R. redis_get R (user_id u @ '':'' @ server_id s)" w1 None] redis_laws.get [OF laws(2)]
    by (simp add: get_user_voice_channel_in_server_def andthen_Ok as_string_def ret_def)
  have checks: "member_edit_checks E p tp u m data w = (Ok (), w)" for p
    by (simp add: member_edit_checks_def data when_do_def ret_def)
  have "route_member_edit E (Ok ()) u sid (user_id u) data w =
      andthen (member_update E m (member_edit_partial data None) (dme_remove data)) (\<lambda>m'.
      andthen (member_edit_voice E u u s None data) (\<lambda>_. ret m')) w"
    using s m(2)
    by (simp add: route_member_edit_def andthen_fetch_server andthen_lift andthen_Ok q tq found checks resolve_voice_channel_def
        rank_or_min_run [OF q(2)]) (simp add: data when_do_def rank_or_min_run [OF q(2)] andthen_lift)
  also have "\<dots> = (Ok ?m, ?w)"
  proof -
    have "member_update E m (member_edit_partial data None) (dme_remove data) w = (Ok ?m, ?w)"
      using arg_cong [OF m(2), of key_server] by (simp add: member_update_def Let_def edited upd andthen_Ok) (simp add: ret_def)
    moreover have "member_edit_voice E u u s None data ?w = (Ok (), ?w)"
      by (simp add: member_edit_voice_def when_do_def data andthen_assoc andthen_Ok voice) (simp add: ret_def)
    ultimately show ?thesis by (simp add: andthen_Ok) (simp add: ret_def)
  qed
  finally show ?thesis by (simp add: db_simps)
qed

theorem muted_member_unmutes_itself_witness:
  "\<exists>w'. route_member_edit sample_env (Ok ()) (sample_user ''a'') ''S'' ''a'' \<lparr>dme_nickname = None, dme_avatar = None, dme_roles = None,
       dme_timeout = None, dme_remove = [MemberCanPublish], dme_can_publish = None, dme_can_receive = None, dme_voice_channel = None\<rparr>
       (guild_world\<lparr>db := (db guild_world)\<lparr>db_server_members :=
          [(\<lparr>key_server = ''S'', key_user = ''a''\<rparr>, (sample_member ''S'' ''a'' [] None)\<lparr>can_publish := False\<rparr>)]\<rparr>\<rparr>)
     = (Ok ((sample_member ''S'' ''a'' [] None)\<lparr>can_publish := True\<rparr>), w')"
  using muted_member_unmutes_itself [of sample_env "guild_world\<lparr>db := (db guild_world)\<lparr>db_server_members :=
      [(\<lparr>key_server = ''S'', key_user = ''a''\<rparr>, (sample_member ''S'' ''a'' [] None)\<lparr>can_publish := False\<rparr>)]\<rparr>\<rparr>" "''S''" guild "sample_user ''a''"
      "(sample_member ''S'' ''a'' [] None)\<lparr>can_publish := False\<rparr>", OF _ _ _ _ _ _ _ refl]
  by (simp add: sample_env_def merged.optional_struct_laws_axioms) blast

lemma take_added_roles_Ok:
  "take_added_roles k rids rs = Ok rs' \<Longrightarrow> rid \<in> set rids \<Longrightarrow> \<exists>r. map_of rs rid = Some r \<and> k < role_rank r"
proof (induction rids arbitrary: rs)
  case (Cons x xs)
  then obtain r where r: "map_of rs x = Some r" "k < role_rank r" "take_added_roles k xs (AList.delete x rs) = Ok rs'"
    by (auto split: option.splits if_splits)
  show ?case
  proof (cases "rid = x")
    case False
    with Cons.prems(2) Cons.IH [OF r(3)] show ?thesis by (auto simp: db_simps split: if_splits)
  qed (use r in simp)
qed simp

lemma andthen_fetch_user:
  "andthen (on_db (fetch_user i)) f w = (case map_of (db_users (db w)) i of Some x \<Rightarrow> f x w | None \<Rightarrow> (Err NotFound, w))"
  by (simp add: andthen_def on_db_def fetch_user_def users.fetch split: option.split)

lemma andthen_fetch_member:
  "andthen (on_db (fetch_member i j)) f w =
     (case map_of (db_server_members (db w)) \<lparr>key_server = i, key_user = j\<rparr> of Some x \<Rightarrow> f x w | None \<Rightarrow> (Err NotFound, w))"
  by (simp add: andthen_def on_db_def fetch_member_def server_members.fetch split: option.split)

lemma member_edit_checks_roles:
  assumes "member_edit_checks E p tp u m data w = (Ok (), w1)" and "dme_roles data \<noteq> None"
  shows "has_channel_permission p AssignRoles"
proof -
  from assms(1) obtain w1 w2 where
    "when_do (dme_roles data \<noteq> None \<or> MemberRoles \<in> set (dme_remove data)) (check_lacking p AssignRoles) w1 = (Ok (), w2)"
    unfolding member_edit_checks_def Let_def by (elim andthen_OkE) (rule that, simp)
  with assms(2) show ?thesis by (auto simp: when_do_def check_lacking_def lift_def throw_if_lacking_channel_permission_def split: if_splits)
qed

text \<open>C20: assigning roles cannot raise anybody above the editor. When an edit of the roles succeeds, the editor holds
  \<open>AssignRoles\<close>, stands strictly above the member it edits (or edits itself), and every role that is added exists
  and ranks strictly below the editor.\<close>

theorem role_assignment_respects_hierarchy:
  assumes s: "map_of (db_servers (db w)) sid = Some s"
    and m: "map_of (db_server_members (db w)) \<lparr>key_server = server_id s, key_user = uid\<rparr> = Some m"
    and roles: "dme_roles data = Some roles" and run: "route_member_edit E v u sid uid data w = (Ok m', w')"
  shows "has_channel_permission (acting_permissions E w u s) AssignRoles
    \<and> (\<forall>k. acting_rank w u s = Some k \<longrightarrow> (key_user (member_id m) \<noteq> user_id u \<longrightarrow> k < get_ranking m s)
         \<and> (\<forall>rid \<in> set roles - set (member_roles m). \<exists>r. map_of (server_roles s) rid = Some r \<and> k < role_rank r))"
proof -
  let ?rank = "case acting_rank w u s of Some x \<Rightarrow> x | None \<Rightarrow> - (2 ^ 63)"
  have v: "v = Ok ()" using run by (auto simp: route_member_edit_def andthen_lift split: outcome.splits)
  obtain target where target: "map_of (db_users (db w)) uid = Some target"
    using run s by (auto simp: route_member_edit_def andthen_lift v andthen_fetch_server andthen_fetch_user split: option.splits)
  let ?rest = "\<lambda>new_channel rs.
     andthen (when_do (MemberAvatar \<in> set (dme_remove data))
       (case member_avatar m of Some f \<Rightarrow> on_db (mark_attachment_as_deleted (file_id f)) | None \<Rightarrow> ret ())) (\<lambda>_.
     andthen (case dme_avatar data of
                Some i \<Rightarrow> andthen (on_db (use_user_avatar i (user_id u) (user_id u))) (\<lambda>f. ret (Some f))
              | None \<Rightarrow> ret None) (\<lambda>avatar.
     andthen (member_update E m (member_edit_partial data avatar) (dme_remove data)) (\<lambda>m'.
     andthen (member_edit_voice E u target (s\<lparr>server_roles := rs\<rparr>) new_channel data) (\<lambda>_.
     ret m'))))"
  let ?ranked = "\<lambda>q new_channel. andthen (rank_or_min q) (\<lambda>our_ranking.
       if key_user (member_id m) \<noteq> user_id u \<and> get_ranking m s \<le> our_ranking then throw NotElevated
       else andthen (lift (take_added_roles our_ranking (added_roles roles m) (server_roles s))) (?rest new_channel))"
  obtain q where q: "get_member_rank q = Ok (acting_rank w u s)" and
    1: "andthen (query_server_permissions E (use_member m (server_query target s))) (\<lambda>(tp, _).
     andthen (member_edit_checks E (acting_permissions E w u s) tp u m data) (\<lambda>_.
     andthen (resolve_voice_channel E q s target m (dme_voice_channel data)) (?ranked q))) w = (Ok m', w')"
    using run s m roles v target
    by (simp add: route_member_edit_def andthen_fetch_server andthen_fetch_user andthen_fetch_member andthen_lift [of "Ok ()"])
      (erule server_permissions_OkE, simp cong: if_cong)
  obtain tp tq where "query_server_permissions E (use_member m (server_query target s)) w = (Ok (tp, tq), w)"
    using query_server_permissions_total by blast
  from andthen_step [OF 1 this, unfolded prod.case] obtain x w1 where
    "member_edit_checks E (acting_permissions E w u s) tp u m data w = (Ok x, w1)"
    and 2: "andthen (resolve_voice_channel E q s target m (dme_voice_channel data)) (?ranked q) w1 = (Ok m', w')"
    by (rule andthen_OkE)
  then have checks: "member_edit_checks E (acting_permissions E w u s) tp u m data w = (Ok (), w1)" by simp
  from 2 obtain nc w2 where 2: "?ranked q nc w2 = (Ok m', w')" by (rule andthen_OkE)
  have elevated: "\<not> (key_user (member_id m) \<noteq> user_id u \<and> get_ranking m s \<le> ?rank)"
    using 2 by (auto simp: rank_or_min_run [OF q] throw_def split: if_splits)
  with 2 obtain rs where "take_added_roles ?rank (added_roles roles m) (server_roles s) = Ok rs"
    by (auto simp: rank_or_min_run [OF q] andthen_lift split: outcome.splits)
  from take_added_roles_Ok [OF this] have added: "\<exists>r. map_of (server_roles s) rid = Some r \<and> ?rank < role_rank r"
    if "rid \<in> set roles - set (member_roles m)" for rid using that by (simp add: added_roles_def)
  have "has_channel_permission (acting_permissions E w u s) AssignRoles"
    using member_edit_checks_roles [OF checks] roles by simp
  with elevated added show ?thesis by auto
qed

text \<open>A server in which a moderator may assign roles.\<close>

definition staffed :: server where
  "staffed = sample_server ''S'' ''o'' [(''mod'', sample_role ''mod'' 0 512 0), (''b'', sample_role ''b'' 1 0 0)] 0"

definition staffed_world :: world where
  "staffed_world = sample_world (empty_db\<lparr>db_users := [(''m'', sample_user ''m''), (''a'', sample_user ''a'')], db_servers := [(''S'', staffed)],
     db_server_members := [(\<lparr>key_server = ''S'', key_user = ''m''\<rparr>, sample_member ''S'' ''m'' [''mod''] None),
       (\<lparr>key_server = ''S'', key_user = ''a''\<rparr>, sample_member ''S'' ''a'' [] None)]\<rparr>)"

definition give_role :: data_member_edit where
  "give_role = \<lparr>dme_nickname = None, dme_avatar = None, dme_roles = Some [''b''], dme_timeout = None, dme_remove = [],
     dme_can_publish = None, dme_can_receive = None, dme_voice_channel = None\<rparr>"

lemma staffed_simps [simp]:
  "server_id staffed = ''S''" "server_owner staffed = ''o''"
  "server_roles staffed = [(''mod'', sample_role ''mod'' 0 512 0), (''b'', sample_role ''b'' 1 0 0)]"
  "db_servers (db staffed_world) = [(''S'', staffed)]" "db_users (db staffed_world) = [(''m'', sample_user ''m''), (''a'', sample_user ''a'')]"
  "db_server_members (db staffed_world) = [(\<lparr>key_server = ''S'', key_user = ''m''\<rparr>, sample_member ''S'' ''m'' [''mod''] None),
     (\<lparr>key_server = ''S'', key_user = ''a''\<rparr>, sample_member ''S'' ''a'' [] None)]"
  "\<not> privileged (sample_user j)" "get_ranking (sample_member ''S'' ''m'' [''mod''] None) staffed = 0"
  "get_ranking (sample_member ''S'' ''a'' [] None) staffed = i64_max" "acting_rank staffed_world (sample_user ''m'') staffed = Some 0"
  by (simp_all add: staffed_def staffed_world_def sample_world_def sample_defs get_ranking_def acting_rank_def)

lemma staffed_permission: "has_channel_permission (acting_permissions sample_env staffed_world (sample_user ''m'') staffed) AssignRoles"
proof -
  have "bit (acting_permissions sample_env staffed_world (sample_user ''m'') staffed) 9"
    by (simp add: acting_permissions_def query_server_answers_def resolved_member_def resolved_roles_def bit_server_spec_member query_build)
      (simp add: server_role_overrides_def by_descending_rank_def staffed_def sample_defs field_to_override_def apply_all_def
        bit_pv_apply as_u64_def in_timeout_def)
  then show ?thesis by (simp add: has_channel_permission_iff)
qed

theorem role_assignment_respects_hierarchy_witness:
  "\<exists>m' w'. route_member_edit sample_env (Ok ()) (sample_user ''m'') ''S'' ''a'' give_role staffed_world = (Ok m', w')
     \<and> (\<exists>r. map_of (server_roles staffed) ''b'' = Some r \<and> 0 < role_rank r)"
proof -
  let ?E = sample_env and ?w = staffed_world and ?u = "sample_user ''m''" and ?m = "sample_member ''S'' ''a'' [] None"
  obtain q where q: "server_permissions ?E ?u staffed ?w = (Ok (acting_permissions ?E ?w ?u staffed, q), ?w)" "get_member_rank q = Ok (Some 0)"
    using server_permissions_run [of ?E ?u staffed ?w] by auto
  obtain tp tq where tq: "query_server_permissions ?E (use_member ?m (server_query (sample_user ''a'') staffed)) ?w = (Ok (tp, tq), ?w)"
    using query_server_permissions_total by blast
  have checks: "member_edit_checks ?E (acting_permissions ?E ?w ?u staffed) tp ?u ?m give_role ?w = (Ok (), ?w)"
    using staffed_permission
    by (simp add: member_edit_checks_def give_role_def when_do_def check_lacking_def andthen_lift throw_if_lacking_channel_permission_def ret_def)
  have g: "dme_roles give_role = Some [''b'']" "dme_remove give_role = []" "dme_avatar give_role = None" "dme_voice_channel give_role = None"
      "dme_can_publish give_role = None" "dme_can_receive give_role = None" "added_roles [''b''] ?m = [''b'']"
    by (simp_all add: give_role_def added_roles_def sample_member_def)
  have edited: "member_id (apply_member (env_structs ?E) (member_edit_partial give_role None) ?m) = member_id ?m"
    by (simp add: sample_env_def merged.apply_member member_edit_partial_def partial_defaults)
  have "\<exists>m' w'. route_member_edit ?E (Ok ()) ?u ''S'' ''a'' give_role ?w = (Ok m', w')"
    by (simp add: route_member_edit_def andthen_fetch_server andthen_fetch_user andthen_fetch_member andthen_lift andthen_Ok q(1) tq checks
        resolve_voice_channel_def rank_or_min_run [OF q(2)] g sample_role_def when_do_def member_update_def Let_def andthen_assoc
        update_member_def table_change_def on_db_def modify_def edited member_edit_voice_def)
      (simp add: ret_def)
  then obtain m' w' where run: "route_member_edit ?E (Ok ()) ?u ''S'' ''a'' give_role ?w = (Ok m', w')" by blast
  from role_assignment_respects_hierarchy [OF _ _ _ run, of staffed ?m "[''b'']"] run show ?thesis by (auto simp: give_role_def sample_member_def)
qed

text \<open>The request that takes a member out of its voice channel.\<close>

definition disconnect :: data_member_edit where
  "disconnect = \<lparr>dme_nickname = None, dme_avatar = None, dme_roles = None, dme_timeout = None, dme_remove = [MemberVoiceChannel],
     dme_can_publish = None, dme_can_receive = None, dme_voice_channel = None\<rparr>"

lemma member_update_frame:
  assumes "member_update E m partial remove w = (Ok m', w')"
  shows "redis w' = redis w" and "livekit w' = livekit w"
  using assms unfolding member_update_def Let_def
  by (auto simp: on_db_def ret_def publish_def modify_def elim!: andthen_OkE split: prod.splits)

text \<open>taking a member out of its voice channel takes out the wrong user. When the request succeeds, the one call to
  the LiveKit server removes the acting user from the room the target is in, and the target stays connected.\<close>

theorem disconnect_hits_moderator:
  assumes laws: "redis_laws (env_redis E)" and s: "map_of (db_servers (db w)) sid = Some s"
    and target: "map_of (db_users (db w)) uid = Some target" "user_id target = uid"
    and m: "map_of (db_server_members (db w)) \<lparr>key_server = server_id s, key_user = uid\<rparr> = Some m"
    and connected: "redis w (uid @ '':'' @ server_id s) = Some (RString cid)" "redis w (''node:'' @ cid) = Some (RString node)"
    and run: "route_member_edit E v u sid uid disconnect w = (Ok m', w')"
  shows "livekit w' = livekit w @ [RemoveParticipant node cid (user_id u)] \<and> redis w' = redis w"
proof -
  let ?p = "acting_permissions E w u s"
  have v: "v = Ok ()" using run by (auto simp: route_member_edit_def andthen_lift split: outcome.splits)
  have d: "dme_voice_channel disconnect = None" "dme_roles disconnect = None" "dme_avatar disconnect = None" "dme_remove disconnect = [MemberVoiceChannel]"
    "dme_can_publish disconnect = None" "dme_can_receive disconnect = None" by (simp_all add: disconnect_def)
  obtain q where q: "server_permissions E u s w = (Ok (?p, q), w)" "get_member_rank q = Ok (acting_rank w u s)"
    using server_permissions_run by blast
  obtain tp tq where tq: "query_server_permissions E (use_member m (server_query target s)) w = (Ok (tp, tq), w)"
    using query_server_permissions_total by blast
  have checks: "snd (member_edit_checks E ?p tp u m disconnect w) = w"
    by (simp add: member_edit_checks_def disconnect_def when_do_def check_lacking_def lift_def throw_def ret_def)
  have "andthen (member_edit_checks E ?p tp u m disconnect) (\<lambda>_. andthen (rank_or_min q) (\<lambda>our_ranking.
      if key_user (member_id m) \<noteq> user_id u \<and> get_ranking m s \<le> our_ranking then throw NotElevated
      else andthen (lift (Ok (server_roles s))) (\<lambda>rs. andthen (member_update E m (member_edit_partial disconnect None) [MemberVoiceChannel]) (\<lambda>m'.
           andthen (member_edit_voice E u target (s\<lparr>server_roles := rs\<rparr>) None disconnect) (\<lambda>_. ret m'))))) w = (Ok m', w')"
    using run s target m v
    by (simp add: route_member_edit_def andthen_fetch_server andthen_fetch_user andthen_fetch_member andthen_lift [of "Ok ()"] andthen_Ok q tq d
        resolve_voice_channel_def when_do_def cong: if_cong)
  note ranked = this
  obtain x where "member_edit_checks E ?p tp u m disconnect w = (Ok x, w)"
    using andthen_OkE [OF ranked] checks by (metis snd_conv)
  from andthen_step [OF ranked this] have "andthen (member_update E m (member_edit_partial disconnect None) [MemberVoiceChannel]) (\<lambda>m'.
      andthen (member_edit_voice E u target s None disconnect) (\<lambda>_. ret m')) w = (Ok m', w')"
    by (simp add: rank_or_min_run [OF q(2)] throw_def andthen_lift split: if_splits)
  then obtain w1 where upd: "member_update E m (member_edit_partial disconnect None) [MemberVoiceChannel] w = (Ok m', w1)"
    and voice: "member_edit_voice E u target s None disconnect w1 = (Ok (), w')"
    by (auto elim!: andthen_OkE simp: ret_def)
  note frame = member_update_frame [OF upd]
  have "get_user_voice_channel_in_server E uid (server_id s) w1 = (Ok (Some cid), w1)" "get_channel_node E cid w1 = (Ok (Some node), w1)"
    using connected frame
    by (simp_all add: get_user_voice_channel_in_server_def get_channel_node_def redis_laws.get_run [OF laws refl] as_string_def ret_def)
  then have "remove_user E node (user_id u) cid w1 = (Ok (), w')"
    using voice target(2) by (simp add: member_edit_voice_def d when_do_def andthen_Ok unwrap_def)
  then show ?thesis using frame
    by (auto simp: remove_user_def call_livekit_def andthen_def lift_def get_node_def split: if_splits)
qed

theorem disconnect_hits_moderator_witness:
  "\<exists>m' w'. route_member_edit sample_env (Ok ()) (sample_user ''o'') ''S'' ''a'' disconnect
      (guild_world\<lparr>redis := [''a:S'' \<mapsto> RString ''C'', ''node:C'' \<mapsto> RString ''n'']\<rparr>) = (Ok m', w')
    \<and> livekit w' = [RemoveParticipant ''n'' ''C'' ''o'']"
proof -
  let ?E = sample_env and ?u = "sample_user ''o''" and ?m = "sample_member ''S'' ''a'' [] None"
  let ?w = "guild_world\<lparr>redis := [''a:S'' \<mapsto> RString ''C'', ''node:C'' \<mapsto> RString ''n'']\<rparr>"
  obtain tp tq where tq: "query_server_permissions ?E (use_member ?m (server_query (sample_user ''a'') guild)) ?w = (Ok (tp, tq), ?w)"
    using query_server_permissions_total by blast
  have checks: "member_edit_checks ?E (channel_permission_bits GrantAllSafe) tp ?u ?m disconnect ?w = (Ok (), ?w)"
    by (simp add: member_edit_checks_def disconnect_def when_do_def check_lacking_def throw_if_lacking_channel_permission_def has_channel_permission_def
        pv_has_def voice_is_enabled_def sample_env_def lift_def)
  have d: "dme_voice_channel disconnect = None" "dme_roles disconnect = None" "dme_avatar disconnect = None" "dme_remove disconnect = [MemberVoiceChannel]"
    "dme_can_publish disconnect = None" "dme_can_receive disconnect = None" by (simp_all add: disconnect_def)
  have edited: "member_id (apply_member (env_structs ?E) (member_edit_partial disconnect None) ?m) = member_id ?m"
    by (simp add: sample_env_def merged.apply_member member_edit_partial_def partial_defaults disconnect_def)
  have rank: "get_ranking ?m guild = i64_max" by (simp add: get_ranking_def sample_member_def)
  have voice: "get_user_voice_channel_in_server ?E ''a'' ''S'' w1 = (Ok (Some ''C''), w1)" "get_channel_node ?E ''C'' w1 = (Ok (Some ''n''), w1)"
    if "redis w1 = redis ?w" for w1
    using that by (simp_all add: get_user_voice_channel_in_server_def get_channel_node_def mem_client.get_run as_string_def ret_def)
  have "\<exists>m' w'. route_member_edit ?E (Ok ()) ?u ''S'' ''a'' disconnect ?w = (Ok m', w')"
    by (simp add: route_member_edit_def andthen_fetch_server andthen_fetch_user andthen_fetch_member andthen_lift andthen_Ok [OF server_permissions_owner]
        andthen_Ok tq checks [unfolded channel_permission_bits.simps] resolve_voice_channel_def rank_or_min_run d rank when_do_def member_update_def Let_def andthen_assoc
        update_member_def table_change_def on_db_def modify_def edited member_edit_voice_def voice unwrap_def remove_user_def call_livekit_def)
      (simp add: andthen_def sample_env_def get_node_def lift_def ret_def)
  then obtain m' w' where run: "route_member_edit ?E (Ok ()) ?u ''S'' ''a'' disconnect ?w = (Ok m', w')" by blast
  have "livekit w' = livekit ?w @ [RemoveParticipant ''n'' ''C'' (user_id ?u)]"
    using disconnect_hits_moderator [OF _ _ _ _ _ _ _ run, of guild "sample_user ''a''" ?m "''C''" "''n''"] by simp
  then show ?thesis using run by (simp add: guild_world_def sample_world_def)
qed

section \<open>The number of servers\<close>

definition server_count :: "world \<Rightarrow> string \<Rightarrow> nat" where
  "server_count w uid = length (filter (\<lambda>m. key_user (member_id m) = uid) (hm_values (db_server_members (db w))))"

lemma update_new: "map_of al k = None \<Longrightarrow> AList.update k v al = al @ [(k, v)]"
  by (induction al) (auto split: if_splits)

text \<open>the limit on the number of servers is off by one: a user who already is in as many servers as allowed passes the
  check, joins, and then is in one more.\<close>

theorem server_limit_off_by_one:
  assumes "user_limits E u w = (Ok lims, w)" and full: "server_count w (user_id u) = limit_servers lims"
    and join: "member_create E i s u cs w = (Ok r, w')"
  shows "can_acquire_server E u w = (Ok (), w) \<and> server_count w' (user_id u) = limit_servers lims + 1"
proof
  show "can_acquire_server E u w = (Ok (), w)"
    using assms(1) full by (simp add: can_acquire_server_def fetch_server_count_def andthen_Ok server_count_def ret_def)
  let ?k = "\<lparr>key_server = server_id s, key_user = user_id u\<rparr>" and ?m = "member_new (env_now E) \<lparr>key_server = server_id s, key_user = user_id u\<rparr>"
  have "attempt (on_db (fetch_ban (server_id s) (user_id u))) w = (Ok (map_of (db_server_bans (db w)) ?k), w)"
    and "attempt (on_db (fetch_member (server_id s) (user_id u))) w = (Ok (map_of (db_server_members (db w)) ?k), w)"
    by (simp_all add: attempt_def on_db_def fetch_ban_def server_bans.fetch fetch_member_def server_members.fetch split: option.split)
  with join have new: "map_of (db_server_members (db w)) ?k = None" and
    rest: "andthen (on_db (insert_or_merge_member ?m)) (\<lambda>updated. let m = (case updated of Some x \<Rightarrow> x | None \<Rightarrow> ?m) in
     andthen (case cs of Some cs \<Rightarrow> ret cs
              | None \<Rightarrow> andthen (on_db (fetch_channels (server_channels s))) (\<lambda>existing. visible_channels E (server_query u s) existing)) (\<lambda>cs.
     andthen (on_db (fetch_emoji_by_parent_id (server_id s))) (\<lambda>emojis.
     andthen (voice_states_of E cs) (\<lambda>voice_states.
     andthen (publish (ServerMemberJoin (server_id s) (user_id u) m) (server_id s)) (\<lambda>_.
     andthen (publish_private (ServerCreate (server_id s) s cs emojis voice_states) (user_id u)) (\<lambda>_.
     andthen (send_system_message i (Option.bind (server_system_messages s) smc_user_joined) (SysUserJoined (user_id u))) (\<lambda>_.
     ret (m, cs)))))))) w = (Ok r, w')"
    by (auto simp: member_create_def andthen_Ok throw_def Let_def split: if_splits)
  have ins: "on_db (insert_or_merge_member ?m) w = (Ok None, w\<lparr>db := db_server_members_update (AList.update ?k ?m) (db w)\<rparr>)"
    using new by (simp add: on_db_def insert_or_merge_member_def table_insert_def hm_contains_def member_new_def andthen_def gets_def modify_def ret_def)
  let ?tail = "andthen (case cs of Some cs \<Rightarrow> ret cs
              | None \<Rightarrow> andthen (on_db (fetch_channels (server_channels s))) (\<lambda>existing. visible_channels E (server_query u s) existing)) (\<lambda>cs.
     andthen (on_db (fetch_emoji_by_parent_id (server_id s))) (\<lambda>emojis.
     andthen (voice_states_of E cs) (\<lambda>voice_states.
     andthen (publish (ServerMemberJoin (server_id s) (user_id u) ?m) (server_id s)) (\<lambda>_.
     andthen (publish_private (ServerCreate (server_id s) s cs emojis voice_states) (user_id u)) (\<lambda>_.
     andthen (send_system_message i (Option.bind (server_system_messages s) smc_user_joined) (SysUserJoined (user_id u))) (\<lambda>_.
     ret (?m, cs)))))))"
  have "members_kept ?tail"
    by (cases cs) (auto intro!: members_kept_andthen simp: members_kept_db publish_private_def)
  moreover have "?tail (w\<lparr>db := db_server_members_update (AList.update ?k ?m) (db w)\<rparr>) = (Ok r, w')"
    using andthen_step [OF rest ins] by (simp add: Let_def)
  ultimately have "db_server_members (db w') = AList.update ?k ?m (db_server_members (db w))"
    by (simp add: members_keptD(1))
  then show "server_count w' (user_id u) = limit_servers lims + 1"
    using full update_new [OF new] by (simp add: server_count_def member_new_def)
qed

definition full_world :: world where
  "full_world = sample_world (empty_db\<lparr>db_server_members := map (\<lambda>s. (\<lparr>key_server = s, key_user = ''a''\<rparr>, sample_member s ''a'' [] None)) [''P'', ''Q'']\<rparr>)"

theorem server_limit_off_by_one_witness:
  "\<exists>r w'. member_create sample_env ''M'' guild (sample_user ''a'') (Some []) full_world = (Ok r, w') \<and> server_count w' ''a'' = 3"
proof -
  have "\<exists>r w'. member_create sample_env ''M'' guild (sample_user ''a'') (Some []) full_world = (Ok r, w')"
    by (simp add: member_create_def Let_def attempt_def on_db_def fetch_ban_def server_bans.fetch fetch_member_def server_members.fetch
        insert_or_merge_member_def table_insert_def hm_contains_def fetch_emoji_by_parent_id_def send_system_message_def
        full_world_def sample_world_def empty_db_def member_new_def andthen_def gets_def modify_def ret_def publish_private_def publish_def)
  then obtain r w' where join: "member_create sample_env ''M'' guild (sample_user ''a'') (Some []) full_world = (Ok r, w')" by blast
  have "user_limits sample_env (sample_user ''a'') full_world = (Ok (env_default sample_env), full_world)"
    by (simp add: user_limits_def sample_env_def ret_def)
  moreover have "server_count full_world ''a'' = 2" "limit_servers (env_default sample_env) = 2"
    by (simp_all add: server_count_def full_world_def sample_world_def sample_env_def)
  ultimately have "server_count w' (user_id (sample_user ''a'')) = limit_servers (env_default sample_env) + 1"
    using server_limit_off_by_one [OF _ _ join, of "env_default sample_env"] by simp
  then show ?thesis using join by (simp add: sample_env_def)
qed

end
