(* ===== verification/Relationships.thy ===== *)
theory Relationships
  imports World
begin

text \<open>
  Friendship and blocking: the operations of \<open>User\<close> in
  \<open>crates/core/database/src/models/users/model.rs\<close> (\<open>relationship_with\<close> to \<open>unblock_user\<close>) and the
  routes that call them (\<open>crates/delta/src/routes/users\<close>). Each user stores an own list of
  relationships, so one friendship is two entries in two documents; the theorems show that the two
  stay consistent, and what the handlers do as a state machine on pairs.

  The operations change the caller's copies of the two users too; they return the changed copies.
\<close>

section \<open>Operations\<close>

definition relationship_with :: "user \<Rightarrow> string \<Rightarrow> relationship_status" where
  "relationship_with u b =
     (if user_id u = b then RelUser
      else case relations u of
             Some rs \<Rightarrow> (case List.find (\<lambda>r. rel_id r = b) rs of Some r \<Rightarrow> rel_status r | None \<Rightarrow> NoRelation)
           | None \<Rightarrow> NoRelation)"

definition is_friends_with :: "user \<Rightarrow> string \<Rightarrow> bool" where
  "is_friends_with u b \<longleftrightarrow> relationship_with u b = Friend \<or> relationship_with u b = RelUser"

definition set_relationship :: "user \<Rightarrow> user \<Rightarrow> relationship_status \<Rightarrow> user world_action" where
  "set_relationship self user_b status =
     andthen (on_db (db_set_relationship (user_id self) (user_id user_b) status)) (\<lambda>_.
       ret (if status = NoRelation \<or> status = RelUser then retain_relations (user_id user_b) self
            else push_relation (user_id user_b) status self))"

definition apply_relationship ::
    "user \<Rightarrow> user \<Rightarrow> relationship_status \<Rightarrow> relationship_status \<Rightarrow> (user \<times> user) world_action" where
  "apply_relationship self target local remote =
     andthen (set_relationship target self remote) (\<lambda>target.
     andthen (set_relationship self target local) (\<lambda>self.
     andthen (publish_private (UserRelationship (user_id target) self target) (user_id target)) (\<lambda>_.
     andthen (publish_private (UserRelationship (user_id self) target self) (user_id self)) (\<lambda>_.
     ret (self, target)))))"

definition outgoing_count :: "user \<Rightarrow> nat" where
  "outgoing_count u =
     (case relations u of Some rs \<Rightarrow> length (filter (\<lambda>r. rel_status r = Outgoing) rs) | None \<Rightarrow> 0)"

definition add_friend :: "env \<Rightarrow> user \<Rightarrow> user \<Rightarrow> (user \<times> user) world_action" where
  "add_friend E self target =
     (case relationship_with self (user_id target) of
        RelUser \<Rightarrow> throw NoEffect
      | Friend \<Rightarrow> throw AlreadyFriends
      | Outgoing \<Rightarrow> throw AlreadySentRequest
      | Blocked \<Rightarrow> throw BlockedErr
      | BlockedOther \<Rightarrow> throw BlockedByOther
      | Incoming \<Rightarrow>
          andthen (friend_request_accepted self target) (\<lambda>_.
          apply_relationship self target Friend Friend)
      | NoRelation \<Rightarrow>
          andthen (user_limits E self) (\<lambda>limits.
            if outgoing_count self \<ge> outgoing_friend_requests limits
            then throw (TooManyPendingFriendRequests (outgoing_friend_requests limits))
            else
              andthen (friend_request_received target self) (\<lambda>_.
              apply_relationship self target Outgoing Incoming)))"

definition remove_friend :: "user \<Rightarrow> user \<Rightarrow> (user \<times> user) world_action" where
  "remove_friend self target =
     (if relationship_with self (user_id target) \<in> {Friend, Outgoing, Incoming}
      then apply_relationship self target NoRelation NoRelation
      else throw NoEffect)"

definition block_user :: "user \<Rightarrow> user \<Rightarrow> (user \<times> user) world_action" where
  "block_user self target =
     (case relationship_with self (user_id target) of
        RelUser \<Rightarrow> throw NoEffect
      | Blocked \<Rightarrow> throw NoEffect
      | BlockedOther \<Rightarrow> apply_relationship self target Blocked Blocked
      | _ \<Rightarrow> apply_relationship self target Blocked BlockedOther)"

definition unblock_user :: "user \<Rightarrow> user \<Rightarrow> (user \<times> user) world_action" where
  "unblock_user self target =
     (if relationship_with self (user_id target) = Blocked then
        (case relationship_with target (user_id self) of
           Blocked \<Rightarrow> apply_relationship self target BlockedOther Blocked
         | BlockedOther \<Rightarrow> apply_relationship self target NoRelation NoRelation
         | _ \<Rightarrow> throw InternalError)
      else throw NoEffect)"

section \<open>Routes\<close>

text \<open>The handlers, called with the authenticated user and the id in the path. The answer is the target as
  it is rendered for the user; the handlers return both copies.\<close>

definition route_add_friend :: "env \<Rightarrow> user \<Rightarrow> string \<Rightarrow> (user \<times> user) world_action" where
  "route_add_friend E u target_id =
     andthen (on_db (fetch_user target_id)) (\<lambda>target.
       if user_bot u \<noteq> None \<or> user_bot target \<noteq> None then throw IsBot
       else add_friend E u target)"

definition route_send_friend_request :: "env \<Rightarrow> user \<Rightarrow> string \<Rightarrow> (user \<times> user) world_action" where
  "route_send_friend_request E u target_id =
     andthen (on_db (fetch_user target_id)) (\<lambda>target.
       if user_id target = user_id u then throw InvalidOperation
       else if user_bot u \<noteq> None \<or> user_bot target \<noteq> None then throw IsBot
       else add_friend E u target)"

definition route_remove_friend :: "user \<Rightarrow> string \<Rightarrow> (user \<times> user) world_action" where
  "route_remove_friend u target_id =
     andthen (on_db (fetch_user target_id)) (\<lambda>target.
       if user_bot u \<noteq> None \<or> user_bot target \<noteq> None then throw IsBot
       else remove_friend u target)"

definition route_block_user :: "user \<Rightarrow> string \<Rightarrow> (user \<times> user) world_action" where
  "route_block_user u target_id =
     andthen (on_db (fetch_user target_id)) (\<lambda>target. block_user u target)"

definition route_unblock_user :: "user \<Rightarrow> string \<Rightarrow> (user \<times> user) world_action" where
  "route_unblock_user u target_id =
     andthen (on_db (fetch_user target_id)) (\<lambda>target. unblock_user u target)"

text \<open>One request: the guard reads the user, then the route runs.\<close>

datatype rel_route = AddFriend | SendFriendRequest | RemoveFriend | BlockUser | UnblockUser

primrec rel_handler :: "env \<Rightarrow> rel_route \<Rightarrow> user \<Rightarrow> string \<Rightarrow> (user \<times> user) world_action" where
  "rel_handler E AddFriend = route_add_friend E"
| "rel_handler E SendFriendRequest = route_send_friend_request E"
| "rel_handler E RemoveFriend = route_remove_friend"
| "rel_handler E BlockUser = route_block_user"
| "rel_handler E UnblockUser = route_unblock_user"

definition rel_request :: "env \<Rightarrow> rel_route \<Rightarrow> string \<Rightarrow> string \<Rightarrow> (user \<times> user) world_action" where
  "rel_request E route me target_id =
     andthen (on_db (fetch_user me)) (\<lambda>u. rel_handler E route u target_id)"

section \<open>The relation between two stored users\<close>

definition rel :: "ref_db \<Rightarrow> string \<Rightarrow> string \<Rightarrow> relationship_status" where
  "rel d a b = (case map_of (db_users d) a of Some u \<Rightarrow> relationship_with u b | None \<Rightarrow> NoRelation)"

definition users_wf :: "ref_db \<Rightarrow> bool" where
  "users_wf d \<longleftrightarrow> (\<forall>i u. map_of (db_users d) i = Some u \<longrightarrow> user_id u = i)"

definition set_rel :: "string \<Rightarrow> relationship_status \<Rightarrow> user \<Rightarrow> user" where
  "set_rel b status u =
     (if status = NoRelation \<or> status = RelUser then retain_relations b u else push_relation b status u)"

lemma set_rel_id [simp]: "user_id (set_rel b s u) = user_id u"
  by (auto simp: set_rel_def retain_relations_def push_relation_def Let_def split: option.split)

lemma find_filter_other: "a \<noteq> b \<Longrightarrow> List.find (\<lambda>r. rel_id r = a) (filter (\<lambda>r. rel_id r \<noteq> b) rs) = List.find (\<lambda>r. rel_id r = a) rs"
  by (induction rs) auto

lemma find_filter_same: "List.find (\<lambda>r. rel_id r = b) (filter (\<lambda>r. rel_id r \<noteq> b) rs) = None"
  by (induction rs) auto

lemma find_append: "List.find P (xs @ ys) = (case List.find P xs of Some x \<Rightarrow> Some x | None \<Rightarrow> List.find P ys)"
  by (induction xs) auto

lemma relationship_with_set_rel:
  "relationship_with (set_rel b s u) c =
     (if user_id u = c then RelUser
      else if c = b then (if s = RelUser then NoRelation else s)
      else relationship_with u c)"
  by (auto simp: relationship_with_def set_rel_def retain_relations_def push_relation_def Let_def
      find_filter_other find_filter_same find_append split: option.split)

lemma db_set_relationship_eq:
  assumes "map_of (db_users d) a = Some u"
  shows "db_set_relationship a b s d = (Ok (), db_users_update (AList.update a (set_rel b s u)) d)"
  using assms
  by (auto simp: db_set_relationship_def pull_relationship_def table_change_def set_rel_def modify_def)

lemma set_relationship_eq:
  assumes "map_of (db_users (db w)) (user_id self) = Some u"
  shows "set_relationship self other s w =
    (Ok (set_rel (user_id other) s self),
     w\<lparr>db := db_users_update (AList.update (user_id self) (set_rel (user_id other) s u)) (db w)\<rparr>)"
  using on_db_Ok [of "db_set_relationship (user_id self) (user_id other) s", OF db_set_relationship_eq [OF assms]]
  by (simp add: set_relationship_def andthen_Ok ret_def set_rel_def)

text \<open>The effect of \<open>apply_relationship\<close> on the users.\<close>

definition paired :: "string \<Rightarrow> string \<Rightarrow> relationship_status \<Rightarrow> relationship_status \<Rightarrow> ref_db \<Rightarrow> ref_db \<Rightarrow> bool" where
  "paired a b l r d d' \<longleftrightarrow>
     (\<forall>x y. rel d' x y = (if x = a \<and> y = b then l else if x = b \<and> y = a then r else rel d x y))
     \<and> users_wf d' \<and> dom (map_of (db_users d')) = dom (map_of (db_users d))"

lemma apply_relationship_eq:
  assumes wf: "users_wf (db w)" and a: "map_of (db_users (db w)) a = Some ua" and b: "map_of (db_users (db w)) b = Some ub"
    and ids: "user_id self = a" "user_id target = b" and "a \<noteq> b" and "l \<noteq> RelUser" "r \<noteq> RelUser"
  shows "\<exists>w'. apply_relationship self target l r w = (Ok (set_rel b l self, set_rel a r target), w')
    \<and> paired a b l r (db w) (db w')"
proof -
  let ?d1 = "db_users_update (AList.update b (set_rel a r ub)) (db w)"
  let ?d2 = "db_users_update (AList.update a (set_rel b l ua)) ?d1"
  have s1: "set_relationship target self r w = (Ok (set_rel a r target), w\<lparr>db := ?d1\<rparr>)"
    using set_relationship_eq [of w target ub self r] b ids by simp
  have "map_of (db_users ?d1) a = Some ua" using a \<open>a \<noteq> b\<close> by (simp add: db_simps)
  then have s2: "set_relationship self (set_rel a r target) l (w\<lparr>db := ?d1\<rparr>) = (Ok (set_rel b l self), w\<lparr>db := ?d2\<rparr>)"
    using set_relationship_eq [of "w\<lparr>db := ?d1\<rparr>" self ua "set_rel a r target" l] ids by simp
  have "\<exists>ev. apply_relationship self target l r w = (Ok (set_rel b l self, set_rel a r target), w\<lparr>db := ?d2, events := ev\<rparr>)"
    using ids by (simp add: apply_relationship_def andthen_Ok s1 s2 ret_def) blast
  moreover have "relationship_with ua a = RelUser" "relationship_with ub b = RelUser"
    using wf a b by (auto simp: users_wf_def relationship_with_def)
  then have "paired a b l r (db w) ?d2"
    using wf a b assms(6-8)
    by (auto simp: paired_def rel_def users_wf_def db_simps relationship_with_set_rel split: option.split)
  ultimately show ?thesis by auto
qed

section \<open>The state machine on pairs\<close>

text \<open>What a request does to the statuses \<open>l\<close> (of the user towards the target) and \<open>r\<close> (back): an error, or
  the new pair. \<open>full\<close> says that the user has reached the limit \<open>limit\<close> of outgoing requests.\<close>

fun spec_add :: "bool \<Rightarrow> nat \<Rightarrow> relationship_status \<Rightarrow> error_type + relationship_status \<times> relationship_status" where
  "spec_add full limit NoRelation =
     (if full then Inl (TooManyPendingFriendRequests limit) else Inr (Outgoing, Incoming))"
| "spec_add full limit RelUser = Inl NoEffect"
| "spec_add full limit Friend = Inl AlreadyFriends"
| "spec_add full limit Outgoing = Inl AlreadySentRequest"
| "spec_add full limit Incoming = Inr (Friend, Friend)"
| "spec_add full limit Blocked = Inl BlockedErr"
| "spec_add full limit BlockedOther = Inl BlockedByOther"

fun spec_rel ::
    "rel_route \<Rightarrow> bool \<Rightarrow> nat \<Rightarrow> relationship_status \<Rightarrow> relationship_status
     \<Rightarrow> error_type + relationship_status \<times> relationship_status" where
  "spec_rel AddFriend full limit l r = spec_add full limit l"
| "spec_rel SendFriendRequest full limit l r = spec_add full limit l"
| "spec_rel RemoveFriend full limit l r =
     (if l \<in> {Friend, Outgoing, Incoming} then Inr (NoRelation, NoRelation) else Inl NoEffect)"
| "spec_rel BlockUser full limit l r =
     (if l \<in> {RelUser, Blocked} then Inl NoEffect
      else Inr (Blocked, if l = BlockedOther then Blocked else BlockedOther))"
| "spec_rel UnblockUser full limit l r =
     (if l \<noteq> Blocked then Inl NoEffect
      else if r = Blocked then Inr (BlockedOther, Blocked)
      else if r = BlockedOther then Inr (NoRelation, NoRelation)
      else Inl InternalError)"

text \<open>The outcome of a request refines an answer of the machine.\<close>

definition refines_rel ::
    "string \<Rightarrow> string \<Rightarrow> error_type + relationship_status \<times> relationship_status \<Rightarrow> world
     \<Rightarrow> (user \<times> user) result \<times> world \<Rightarrow> bool" where
  "refines_rel a b ans w res \<longleftrightarrow>
     (case ans of
        Inl e \<Rightarrow> fst res = Err e \<and> db (snd res) = db w
      | Inr (l, r) \<Rightarrow>
          (\<exists>self target. fst res = Ok (self, target) \<and> relationship_with self b = l \<and> relationship_with target a = r)
          \<and> paired a b l r (db w) (db (snd res)))"

lemma refines_rel_Inl [simp]: "refines_rel a b (Inl e) w (throw e w)"
  by (simp add: refines_rel_def throw_def)

lemma refines_rel_apply:
  assumes wf: "users_wf (db w)" and "map_of (db_users (db w)) a = Some ua" "map_of (db_users (db w)) b = Some ub"
    and ids: "user_id self = a" "user_id target = b" and "a \<noteq> b" and "l \<noteq> RelUser" "r \<noteq> RelUser" and "db w0 = db w"
  shows "refines_rel a b (Inr (l, r)) w0 (apply_relationship self target l r w)"
proof -
  from apply_relationship_eq [OF assms(1-8)] obtain w' where
    "apply_relationship self target l r w = (Ok (set_rel b l self, set_rel a r target), w')"
    and "paired a b l r (db w) (db w')" by blast
  with assms show ?thesis by (simp add: refines_rel_def relationship_with_set_rel)
qed

lemma not_self_status: "user_id u \<noteq> b \<Longrightarrow> users_wf d \<Longrightarrow> map_of (db_users d) a = Some u \<Longrightarrow> rel d a b = relationship_with u b"
  by (simp add: rel_def)

lemma add_friend_refines:
  assumes wf: "users_wf (db w)" and a: "map_of (db_users (db w)) a = Some u" and b: "map_of (db_users (db w)) b = Some v"
    and "a \<noteq> b" and lim: "relationship_with u b = NoRelation \<Longrightarrow> user_limits E u w = (Ok lims, w)"
  shows "refines_rel a b
    (spec_add (outgoing_count u \<ge> outgoing_friend_requests lims) (outgoing_friend_requests lims) (relationship_with u b)) w
    (add_friend E u v w)"
proof -
  have ids: "user_id u = a" "user_id v = b" using wf a b by (simp_all add: users_wf_def)
  note app = refines_rel_apply [OF _ _ _ ids \<open>a \<noteq> b\<close>]
  show ?thesis
    using wf a b lim
    by (cases "relationship_with u b")
      (auto simp: add_friend_def ids andthen_Ok friend_request_accepted_def friend_request_received_def intro!: app)
qed

lemma rel_request_eq:
  assumes "map_of (db_users (db w)) a = Some u"
  shows "rel_request E route a b w = rel_handler E route u b w"
  using assms on_db_Ok [of "fetch_user a" w] by (simp add: rel_request_def andthen_def fetch_user_def users.fetch)

lemma fetch_target:
  assumes "map_of (db_users (db w)) b = Some v"
  shows "andthen (on_db (fetch_user b)) f w = f v w"
  using assms on_db_Ok [of "fetch_user b" w] by (simp add: andthen_def fetch_user_def users.fetch)

lemmas route_defs = route_add_friend_def route_send_friend_request_def route_remove_friend_def
  route_block_user_def route_unblock_user_def

lemma handler_refines:
  assumes wf: "users_wf (db w)" and a: "map_of (db_users (db w)) a = Some u" and b: "map_of (db_users (db w)) b = Some v"
    and "a \<noteq> b" and bots: "route \<in> {BlockUser, UnblockUser} \<or> user_bot u = None \<and> user_bot v = None"
    and lim: "route \<in> {AddFriend, SendFriendRequest} \<Longrightarrow> rel (db w) a b = NoRelation \<Longrightarrow> user_limits E u w = (Ok lims, w)"
  shows "refines_rel a b
    (spec_rel route (outgoing_count u \<ge> outgoing_friend_requests lims) (outgoing_friend_requests lims) (rel (db w) a b) (rel (db w) b a))
    w (rel_handler E route u b w)"
proof -
  have ids: "user_id u = a" "user_id v = b" using wf a b by (simp_all add: users_wf_def)
  note app = refines_rel_apply [OF wf a b ids \<open>a \<noteq> b\<close>]
  have rel: "rel (db w) a b = relationship_with u b" "rel (db w) b a = relationship_with v a" using a b by (simp_all add: rel_def)
  note add = add_friend_refines [OF wf a b \<open>a \<noteq> b\<close>]
  show ?thesis
  proof (cases route)
    case RemoveFriend
    then show ?thesis using bots by (auto simp: route_defs fetch_target [OF b] rel remove_friend_def ids intro!: app)
  next
    case BlockUser
    then show ?thesis
      by (cases "relationship_with u b") (auto simp: route_defs fetch_target [OF b] rel block_user_def ids intro!: app)
  next
    case UnblockUser
    then show ?thesis
      by (cases "relationship_with v a") (auto simp: route_defs fetch_target [OF b] rel unblock_user_def ids intro!: app)
  qed (use add lim bots \<open>a \<noteq> b\<close> ids in \<open>simp_all add: route_defs fetch_target [OF b] rel\<close>)
qed

text \<open>Every other request leaves the database alone: one to oneself, to a missing user, from or to a bot,
  and one that panics in \<open>limits\<close>.\<close>

definition idle_request :: "env \<Rightarrow> rel_route \<Rightarrow> user \<Rightarrow> string \<Rightarrow> string \<Rightarrow> world \<Rightarrow> bool" where
  "idle_request E route u a b w \<longleftrightarrow>
     a = b \<or> map_of (db_users (db w)) b = None
     \<or> route \<notin> {BlockUser, UnblockUser} \<and> (user_bot u \<noteq> None \<or> user_bot (the (map_of (db_users (db w)) b)) \<noteq> None)
     \<or> route \<in> {AddFriend, SendFriendRequest} \<and> relationship_with u b = NoRelation \<and> user_limits E u w = (Panic, w)"

lemma user_limits_cases: "(\<exists>lims. user_limits E u w = (Ok lims, w)) \<or> user_limits E u w = (Panic, w)"
  by (auto simp: user_limits_def ret_def panic_def split: option.split)

lemma handler_unchanged:
  assumes wf: "users_wf (db w)" and a: "map_of (db_users (db w)) a = Some u" and idle: "idle_request E route u a b w"
  shows "db (snd (rel_handler E route u b w)) = db w"
proof (cases "map_of (db_users (db w)) b")
  case None
  then have "on_db (fetch_user b) w = (Err NotFound, w)" by (simp add: on_db_def fetch_user_def users.fetch)
  then show ?thesis by (cases route) (simp_all add: route_defs andthen_Err)
next
  case (Some v)
  have ids: "user_id u = a" "user_id v = b" using wf a Some by (simp_all add: users_wf_def)
  have self: "relationship_with u b = RelUser" if "a = b" using that ids by (simp add: relationship_with_def)
  have pan: "andthen (user_limits E u) f w = (Panic, w)" if "user_limits E u w = (Panic, w)" for f :: "features_limits \<Rightarrow> (user \<times> user) world_action"
    using that by (rule andthen_Panic)
  show ?thesis
    using idle self
    by (cases route) (auto simp: idle_request_def route_defs fetch_target [OF Some] Some ids throw_def add_friend_def
        remove_friend_def block_user_def unblock_user_def pan)
qed

text \<open>So a request either leaves the database alone or makes a step of the machine between two users.\<close>

lemma rel_request_cases:
  assumes wf: "users_wf (db w)"
  obtains "db (snd (rel_request E route a b w)) = db w"
  | l r full limit where "a \<noteq> b" and "map_of (db_users (db w)) a \<noteq> None" and "map_of (db_users (db w)) b \<noteq> None"
      and "spec_rel route full limit (rel (db w) a b) (rel (db w) b a) = Inr (l, r)"
      and "paired a b l r (db w) (db (snd (rel_request E route a b w)))"
proof (cases "map_of (db_users (db w)) a")
  case None
  then have "on_db (fetch_user a) w = (Err NotFound, w)" by (simp add: on_db_def fetch_user_def users.fetch)
  then have "db (snd (rel_request E route a b w)) = db w" by (simp add: rel_request_def andthen_Err)
  then show ?thesis by (rule that(1))
next
  case (Some u)
  note req = rel_request_eq [OF Some, of E route b]
  show ?thesis
  proof (cases "idle_request E route u a b w")
    case True
    then show ?thesis using that(1) handler_unchanged [OF wf Some True] by (simp add: req)
  next
    case False
    then obtain v where b: "map_of (db_users (db w)) b = Some v" and "a \<noteq> b"
      and bots: "route \<in> {BlockUser, UnblockUser} \<or> user_bot u = None \<and> user_bot v = None"
      by (auto simp: idle_request_def)
    have "\<exists>lims. route \<in> {AddFriend, SendFriendRequest} \<longrightarrow> rel (db w) a b = NoRelation \<longrightarrow> user_limits E u w = (Ok lims, w)"
      using False user_limits_cases [of E u w] Some by (auto simp: idle_request_def rel_def)
    then obtain lims where
      "route \<in> {AddFriend, SendFriendRequest} \<Longrightarrow> rel (db w) a b = NoRelation \<Longrightarrow> user_limits E u w = (Ok lims, w)" by blast
    from handler_refines [OF wf Some b \<open>a \<noteq> b\<close> bots this]
    have step: "refines_rel a b (spec_rel route (outgoing_count u \<ge> outgoing_friend_requests lims) (outgoing_friend_requests lims)
        (rel (db w) a b) (rel (db w) b a)) w (rel_request E route a b w)" by (simp add: req)
    show ?thesis
    proof (cases "spec_rel route (outgoing_count u \<ge> outgoing_friend_requests lims) (outgoing_friend_requests lims)
        (rel (db w) a b) (rel (db w) b a)")
      case (Inl e)
      with step that(1) show ?thesis by (simp add: refines_rel_def)
    next
      case (Inr p)
      with step that(2) [OF \<open>a \<noteq> b\<close>] Some b show ?thesis by (cases p) (auto simp: refines_rel_def)
    qed
  qed
qed

section \<open>Properties\<close>

text \<open>C2: a request about another user answers and changes the two lists of relationships exactly as the
  machine on pairs says, and no other relationship changes; an error leaves the database as it was.\<close>

theorem relationship_requests_refine:
  assumes "users_wf (db w)" and "map_of (db_users (db w)) a = Some u" and "map_of (db_users (db w)) b = Some v"
    and "a \<noteq> b" and "user_bot u = None" and "user_bot v = None" and "user_limits E u w = (Ok lims, w)"
  shows "refines_rel a b
    (spec_rel route (outgoing_count u \<ge> outgoing_friend_requests lims) (outgoing_friend_requests lims)
       (rel (db w) a b) (rel (db w) b a))
    w (rel_request E route a b w)"
  using handler_refines [OF assms(1-4)] assms(5-) by (simp add: rel_request_eq [OF assms(2)])

definition two_users :: ref_db where
  "two_users = empty_db\<lparr>db_users := [(''A'', sample_user ''A''), (''B'', sample_user ''B'')]\<rparr>"

lemmas two_users_defs = two_users_def empty_db_def sample_world_def sample_user_def user_default_def

lemma two_users_wf: "users_wf two_users"
  by (auto simp: users_wf_def two_users_defs split: if_splits)

theorem relationship_requests_refine_witness:
  "refines_rel ''A'' ''B'' (Inr (Outgoing, Incoming)) (sample_world two_users)
     (rel_request sample_env SendFriendRequest ''A'' ''B'' (sample_world two_users))"
  using relationship_requests_refine [of "sample_world two_users" "''A''" "sample_user ''A''" "''B''" "sample_user ''B''"
      sample_env "env_default sample_env" SendFriendRequest] two_users_wf
  by (simp add: two_users_defs rel_def relationship_with_def outgoing_count_def sample_env_def user_limits_def ret_def)

text \<open>The pairs of statuses that two users can have.\<close>

definition consistent_pairs :: "(relationship_status \<times> relationship_status) set" where
  "consistent_pairs =
     {(NoRelation, NoRelation), (Friend, Friend), (Outgoing, Incoming), (Incoming, Outgoing),
      (Blocked, BlockedOther), (BlockedOther, Blocked), (Blocked, Blocked)}"

definition rel_consistent :: "ref_db \<Rightarrow> bool" where
  "rel_consistent d \<longleftrightarrow>
     users_wf d
     \<and> (\<forall>a b. a \<noteq> b \<longrightarrow> map_of (db_users d) a \<noteq> None \<longrightarrow> map_of (db_users d) b \<noteq> None
          \<longrightarrow> (rel d a b, rel d b a) \<in> consistent_pairs)"

lemma rel_consistentD:
  "rel_consistent d \<Longrightarrow> a \<noteq> b \<Longrightarrow> map_of (db_users d) a \<noteq> None \<Longrightarrow> map_of (db_users d) b \<noteq> None
   \<Longrightarrow> (rel d a b, rel d b a) \<in> consistent_pairs"
  by (simp add: rel_consistent_def)

lemma spec_rel_consistent:
  assumes "spec_rel route full limit l r = Inr (l', r')" and "(l, r) \<in> consistent_pairs"
  shows "(l', r') \<in> consistent_pairs \<and> (r', l') \<in> consistent_pairs"
  using assms by (cases route; cases l) (auto simp: consistent_pairs_def split: if_splits)

lemma spec_rel_keeps_block:
  assumes "spec_rel route full limit l r = Inr (l', r')" and "(l, r) \<in> consistent_pairs"
  shows "(r = Blocked \<longrightarrow> r' = Blocked) \<and> (l = Blocked \<longrightarrow> route \<noteq> UnblockUser \<longrightarrow> l' = Blocked)"
  using assms by (cases route; cases l) (auto simp: consistent_pairs_def split: if_splits)

lemma rel_request_keeps_consistent:
  assumes "rel_consistent (db w)"
  shows "rel_consistent (db (snd (rel_request E route a b w)))"
proof -
  let ?d = "db (snd (rel_request E route a b w))"
  have wf: "users_wf (db w)" using assms by (simp add: rel_consistent_def)
  then show ?thesis
  proof (cases rule: rel_request_cases [where E = E and route = route and a = a and b = b])
    case 1
    with assms show ?thesis by simp
  next
    case (2 l r full limit)
    note pair = rel_consistentD [OF assms]
    have new: "rel ?d x y = (if x = a \<and> y = b then l else if x = b \<and> y = a then r else rel (db w) x y)" for x y
      using 2(5) by (simp add: paired_def)
    have dom: "map_of (db_users ?d) x \<noteq> None \<longleftrightarrow> map_of (db_users (db w)) x \<noteq> None" for x
      using 2(5) by (auto simp: paired_def dom_def set_eq_iff)
    note step = spec_rel_consistent [OF 2(4) pair [OF 2(1-3)]] 
    have "users_wf ?d" using 2(5) by (simp add: paired_def)
    moreover have "(rel ?d x y, rel ?d y x) \<in> consistent_pairs"
      if "x \<noteq> y" "map_of (db_users ?d) x \<noteq> None" "map_of (db_users ?d) y \<noteq> None" for x y
    proof -
      consider "x = a" "y = b" | "x = b" "y = a" | "\<not> (x = a \<and> y = b)" "\<not> (x = b \<and> y = a)" by blast
      then show ?thesis
      proof cases
        case 3
        then have c: "(x = a \<and> y = b) = False" "(x = b \<and> y = a) = False" "(y = a \<and> x = b) = False" "(y = b \<and> x = a) = False"
          by blast+
        have "rel ?d x y = rel (db w) x y" by (simp only: new c if_False)
        moreover have "rel ?d y x = rel (db w) y x" by (simp only: new c if_False)
        ultimately show ?thesis using pair [of x y] that unfolding dom by simp
      qed (use step 2(1) in \<open>simp_all add: new\<close>)
    qed
    ultimately show ?thesis by (simp add: rel_consistent_def)
  qed
qed

text \<open>C26: the two lists never disagree: whatever request is made, by whomever and however it ends, every
  pair of users stays in one of the seven consistent states, such as friends on both sides, or
  outgoing on one side and incoming on the other.\<close>

theorem relationships_stay_consistent:
  assumes "rel_consistent (db w)"
  shows "rel_consistent (db (snd (rel_request E route a b w)))"
  using assms by (rule rel_request_keeps_consistent)

lemma two_users_consistent: "rel_consistent two_users"
  by (simp add: rel_consistent_def two_users_wf)
    (simp add: two_users_defs rel_def relationship_with_def consistent_pairs_def)

theorem relationships_stay_consistent_witness:
  "rel_consistent (db (snd (rel_request sample_env BlockUser ''A'' ''B'' (sample_world two_users))))"
  by (rule relationships_stay_consistent) (simp add: sample_world_def two_users_consistent)

text \<open>A sequence of requests.\<close>

fun rel_run :: "(env \<times> rel_route \<times> string \<times> string) list \<Rightarrow> world \<Rightarrow> world" where
  "rel_run [] w = w"
| "rel_run ((E, route, a, b) # rs) w = rel_run rs (snd (rel_request E route a b w))"

text \<open>C27: a block holds until its owner lifts it: through any sequence of requests of all users in which the
  blocking user does not unblock, the status stays \<open>Blocked\<close>, and so the blocked user cannot become a
  friend or have a request pending.\<close>

theorem block_persists:
  assumes "rel_consistent (db w)" and "map_of (db_users (db w)) a \<noteq> None" and "map_of (db_users (db w)) b \<noteq> None"
    and "a \<noteq> b" and "rel (db w) a b = Blocked" and "\<forall>E. (E, UnblockUser, a, b) \<notin> set rs"
  shows "rel (db (rel_run rs w)) a b = Blocked \<and> rel (db (rel_run rs w)) b a \<in> {Blocked, BlockedOther}"
  using assms
proof (induction rs arbitrary: w)
  case Nil
  with rel_consistentD [of "db w" a b] have "(rel (db w) a b, rel (db w) b a) \<in> consistent_pairs" by blast
  with Nil show ?case by (auto simp: consistent_pairs_def)
next
  case (Cons q rs)
  obtain E route x y where q: "q = (E, route, x, y)" by (cases q)
  let ?w = "snd (rel_request E route x y w)"
  have wf: "users_wf (db w)" using Cons.prems(1) by (simp add: rel_consistent_def)
  have "map_of (db_users (db ?w)) a \<noteq> None \<and> map_of (db_users (db ?w)) b \<noteq> None \<and> rel (db ?w) a b = Blocked"
    using wf
  proof (cases rule: rel_request_cases [where E = E and route = route and a = x and b = y])
    case 1
    with Cons.prems show ?thesis by simp
  next
    case (2 l r full limit)
    have dom: "map_of (db_users (db ?w)) z \<noteq> None \<longleftrightarrow> map_of (db_users (db w)) z \<noteq> None" for z
      using 2(5) by (auto simp: paired_def dom_def set_eq_iff)
    have "(rel (db w) x y, rel (db w) y x) \<in> consistent_pairs"
      by (rule rel_consistentD [OF Cons.prems(1) 2(1-3)])
    note keep = spec_rel_keeps_block [OF 2(4) this]
    have "rel (db ?w) a b = Blocked"
      using 2(1,5) keep Cons.prems(5,6) q by (auto simp: paired_def)
    with dom Cons.prems(2,3) show ?thesis by simp
  qed
  with Cons.IH [OF rel_request_keeps_consistent [OF Cons.prems(1)]] Cons.prems(4,6) show ?case by (simp add: q)
qed

definition blocked_users :: ref_db where
  "blocked_users = empty_db\<lparr>db_users :=
     [(''A'', (sample_user ''A'')\<lparr>relations := Some [\<lparr>rel_id = ''B'', rel_status = Blocked\<rparr>]\<rparr>),
      (''B'', (sample_user ''B'')\<lparr>relations := Some [\<lparr>rel_id = ''A'', rel_status = BlockedOther\<rparr>]\<rparr>)]\<rparr>"

lemmas blocked_users_defs = blocked_users_def empty_db_def sample_world_def sample_user_def user_default_def

lemma blocked_users_consistent: "rel_consistent blocked_users"
proof -
  have "users_wf blocked_users" by (auto simp: users_wf_def blocked_users_defs split: if_splits)
  then show ?thesis
    by (simp add: rel_consistent_def) (simp add: blocked_users_defs rel_def relationship_with_def consistent_pairs_def)
qed

theorem block_persists_witness:
  "rel (db (rel_run [(sample_env, SendFriendRequest, ''B'', ''A''), (sample_env, BlockUser, ''B'', ''A'')] (sample_world blocked_users))) ''A'' ''B''
   = Blocked"
  using block_persists [of "sample_world blocked_users" "''A''" "''B''"
      "[(sample_env, SendFriendRequest, ''B'', ''A''), (sample_env, BlockUser, ''B'', ''A'')]"] blocked_users_consistent
  by (simp add: blocked_users_defs rel_def relationship_with_def)

text \<open>the handlers decide on the copies they read at their start. When \<open>B\<close>'s friend request runs on copies
  read before \<open>A\<close> blocked \<open>B\<close>, it overwrites the block: afterwards \<open>A\<close> has an incoming request of \<open>B\<close> and no
  block.\<close>

theorem stale_request_lifts_block:
  assumes "users_wf (db w)" and "map_of (db_users (db w)) a \<noteq> None" and "map_of (db_users (db w)) b \<noteq> None"
    and "a \<noteq> b" and "rel (db w) a b = Blocked"
    and "user_id old_a = a" and "user_id old_b = b" and "relationship_with old_b a = NoRelation"
    and "user_limits E old_b w = (Ok lims, w)" and "outgoing_count old_b < outgoing_friend_requests lims"
  shows "rel (db (snd (add_friend E old_b old_a w))) a b = Incoming
    \<and> rel (db (snd (add_friend E old_b old_a w))) b a = Outgoing"
proof -
  let ?w = "w\<lparr>amqp := amqp w @ [FRReceivedPayload old_b a]\<rparr>"
  have "add_friend E old_b old_a w = apply_relationship old_b old_a Outgoing Incoming ?w"
    using assms by (simp add: add_friend_def andthen_Ok friend_request_received_def)
  moreover obtain ub ua where "map_of (db_users (db ?w)) b = Some ub" "map_of (db_users (db ?w)) a = Some ua"
    using assms(2,3) by auto
  from apply_relationship_eq [OF _ this, of old_b old_a Outgoing Incoming] assms
  obtain w' u v where "apply_relationship old_b old_a Outgoing Incoming ?w = (Ok (u, v), w')" "paired b a Outgoing Incoming (db ?w) (db w')"
    by auto
  ultimately show ?thesis using \<open>a \<noteq> b\<close> by (auto simp: paired_def)
qed

theorem stale_request_lifts_block_witness:
  "rel (db (snd (add_friend sample_env (sample_user ''B'') (sample_user ''A'') (sample_world blocked_users)))) ''A'' ''B'' = Incoming"
  using stale_request_lifts_block [of "sample_world blocked_users" "''A''" "''B''" "sample_user ''A''" "sample_user ''B''"
      sample_env "env_default sample_env"] blocked_users_consistent
  by (simp add: rel_consistent_def)
    (simp add: blocked_users_defs rel_def relationship_with_def outgoing_count_def sample_env_def user_limits_def ret_def)

end
