(* ===== verification/Channels.thy ===== *)
theory Channels
  imports Members Relationships
begin

text \<open>
  Groups, direct messages and invites: the operations of \<open>crates/core/database/src/models/channels/model.rs\<close>
  and \<open>channel_invites/model.rs\<close> that change the state, and the routes \<open>crates/delta/src/routes/channels\<close>
  and \<open>routes/invites\<close> that call them (group membership, closing and editing a channel, permission
  overrides of a channel, acknowledging, creating, using and deleting an invite).

  New ids and the outcome of the validation of a request are arguments.
\<close>

section \<open>Channels\<close>

text \<open>A system message whose failure is ignored, \<open>.into_message(..).send(..).await.ok()\<close>.\<close>

definition system_notice :: "string \<Rightarrow> system_message \<Rightarrow> channel \<Rightarrow> unit world_action" where
  "system_notice new_id sys c =
     andthen (attempt (send (into_message new_id sys (channel_id c)) system_author c False)) (\<lambda>_. ret ())"

text \<open>The hash set of users is a list without repetition; its order is the iteration order.\<close>

record data_create_group =
  dcg_name :: string
  dcg_description :: "string option"
  dcg_icon :: "string option"
  dcg_users :: "string list"
  dcg_nsfw :: "bool option"

definition create_group :: "env \<Rightarrow> string \<Rightarrow> data_create_group \<Rightarrow> string \<Rightarrow> channel world_action" where
  "create_group E new_id data owner_id =
     (let users = remdups (List.insert owner_id (dcg_users data)) in
      if length users > group_size (env_global E) then throw (GroupTooLarge (group_size (env_global E)))
      else
        andthen (case dcg_icon data of
                   Some i \<Rightarrow> andthen (on_db (use_channel_icon i new_id owner_id)) (\<lambda>f. ret (Some f))
                 | None \<Rightarrow> ret None) (\<lambda>icon.
          let c = Group new_id
                    \<lparr>grp_name = dcg_name data, grp_owner = owner_id, grp_description = dcg_description data,
                     grp_recipients = users, grp_icon = icon, grp_last_message_id = None, grp_permissions = None,
                     grp_nsfw = (case dcg_nsfw data of Some b \<Rightarrow> b | None \<Rightarrow> False)\<rparr> in
        andthen (on_db (insert_channel c)) (\<lambda>_.
        andthen (for_each (publish_private (ChannelCreate c)) users) (\<lambda>_.
        ret c))))"

definition create_dm :: "string \<Rightarrow> user \<Rightarrow> user \<Rightarrow> channel world_action" where
  "create_dm new_id a b =
     andthen (attempt (on_db (find_direct_message_channel (user_id a) (user_id b)))) (\<lambda>found.
       case found of
         Some c \<Rightarrow> ret c
       | None \<Rightarrow>
           let c = (if user_id a = user_id b then SavedMessages new_id (user_id a)
                    else DirectMessage new_id True [user_id a, user_id b] None) in
           andthen (on_db (insert_channel c)) (\<lambda>_.
           andthen (when_do (is_direct_dm c)
             (andthen (publish_private (ChannelCreate c) (user_id a)) (\<lambda>_. publish_private (ChannelCreate c) (user_id b)))) (\<lambda>_.
           ret c)))"

text \<open>The changed channel is the answer.\<close>

definition add_user_to_group :: "env \<Rightarrow> string \<Rightarrow> channel \<Rightarrow> user \<Rightarrow> string \<Rightarrow> channel world_action" where
  "add_user_to_group E message_id self u by_id =
     (case self of
        Group i g \<Rightarrow>
          if user_id u \<in> set (grp_recipients g) then throw AlreadyInGroup
          else if length (grp_recipients g) \<ge> group_size (env_global E) then throw (GroupTooLarge (group_size (env_global E)))
          else
            let c = Group i (g\<lparr>grp_recipients := grp_recipients g @ [user_id u]\<rparr>) in
            andthen (on_db (db_add_user_to_group i (user_id u))) (\<lambda>_.
            andthen (publish (ChannelGroupJoin i (user_id u)) i) (\<lambda>_.
            andthen (system_notice message_id (SysUserAdded (user_id u) by_id) c) (\<lambda>_.
            andthen (publish_private (ChannelCreate c) (user_id u)) (\<lambda>_.
            ret c))))
      | _ \<Rightarrow> throw InvalidOperation)"

definition channel_set_role_permission :: "channel \<Rightarrow> string \<Rightarrow> override_field \<Rightarrow> channel world_action" where
  "channel_set_role_permission self rid permissions =
     (case self of
        TextChannel i t \<Rightarrow>
          andthen (on_db (set_channel_role_permission i rid permissions)) (\<lambda>_.
            let rps = AList.update rid permissions (txt_role_permissions t) in
            andthen (publish (ChannelUpdate i (partial_channel_default\<lparr>pc_role_permissions := Some rps\<rparr>) []) (txt_server t)) (\<lambda>_.
            ret (TextChannel i (t\<lparr>txt_role_permissions := rps\<rparr>))))
      | _ \<Rightarrow> throw InvalidOperation)"

definition channel_update :: "channel \<Rightarrow> partial_channel \<Rightarrow> fields_channel list \<Rightarrow> channel world_action" where
  "channel_update self partial remove =
     (let c = channel_apply_options partial (fold channel_remove_field remove self) in
      andthen (on_db (update_channel (channel_id c) partial remove)) (\<lambda>_.
      andthen (publish (ChannelUpdate (channel_id c) partial remove)
        (case c of TextChannel i t \<Rightarrow> txt_server t | _ \<Rightarrow> channel_id c)) (\<lambda>_.
      ret c)))"

definition channel_ack :: "channel \<Rightarrow> string \<Rightarrow> string \<Rightarrow> unit world_action" where
  "channel_ack self uid mid =
     andthen (publish_private (ChannelAck (channel_id self) uid mid) uid) (\<lambda>_.
     queue_task (TaskAck (channel_id self) uid mid))"

text \<open>\<open>Channel::delete\<close>.\<close>

definition channel_delete :: "channel \<Rightarrow> unit world_action" where
  "channel_delete self =
     andthen (publish (ChannelDelete (channel_id self)) (channel_id self)) (\<lambda>_. on_db (delete_channel self))"

text \<open>The last two ids are those of the two system messages.\<close>

definition remove_user_from_group ::
    "string \<Rightarrow> string \<Rightarrow> channel \<Rightarrow> user \<Rightarrow> string option \<Rightarrow> bool \<Rightarrow> unit world_action" where
  "remove_user_from_group owner_message_id message_id self u by_id silent =
     (case self of
        Group i g \<Rightarrow>
          let leave =
            andthen (on_db (db_remove_user_from_group i (user_id u))) (\<lambda>_.
            andthen (publish (ChannelGroupLeave i (user_id u)) i) (\<lambda>_.
            when_do (\<not> silent) (system_notice message_id
              (case by_id of Some by \<Rightarrow> SysUserRemove (user_id u) by | None \<Rightarrow> SysUserLeft (user_id u)) self))) in
          if user_id u = grp_owner g
          then (case List.find (\<lambda>x. x \<noteq> user_id u) (grp_recipients g) of
                  Some new_owner \<Rightarrow>
                    andthen (on_db (update_channel i (partial_channel_default\<lparr>pc_owner := Some new_owner\<rparr>) [])) (\<lambda>_.
                    andthen (system_notice owner_message_id (SysChannelOwnershipChanged (grp_owner g) new_owner) self) (\<lambda>_.
                    leave))
                | None \<Rightarrow> channel_delete self)
          else leave
      | _ \<Rightarrow> throw InvalidOperation)"

section \<open>Invites\<close>

definition create_channel_invite :: "string \<Rightarrow> user \<Rightarrow> channel \<Rightarrow> invite world_action" where
  "create_channel_invite code creator c =
     andthen (case c of
                Group i g \<Rightarrow> ret (GroupInvite code (user_id creator) i)
              | TextChannel i t \<Rightarrow> ret (ServerInvite code (txt_server t) (user_id creator) i)
              | _ \<Rightarrow> throw InvalidOperation) (\<lambda>link.
     andthen (on_db (insert_invite link)) (\<lambda>_.
     ret link))"

definition invite_to_first_channel :: "string \<Rightarrow> server \<Rightarrow> invite option" where
  "invite_to_first_channel code s =
     (case server_channels s of
        c # cs \<Rightarrow> Some (ServerInvite code (server_id s) (server_owner s) c)
      | [] \<Rightarrow> None)"

definition invite_find :: "string \<Rightarrow> invite world_action" where
  "invite_find code =
     andthen (attempt (on_db (fetch_invite code))) (\<lambda>found.
       case found of
         Some link \<Rightarrow> ret link
       | None \<Rightarrow>
           andthen (attempt (on_db (fetch_server code))) (\<lambda>srv.
             case srv of
               Some s \<Rightarrow>
                 if server_discoverable s
                 then (case invite_to_first_channel code s of Some link \<Rightarrow> ret link | None \<Rightarrow> throw NotFound)
                 else throw NotFound
             | None \<Rightarrow> throw NotFound))"

text \<open>\<open>Reference::as_invite\<close>: a text that parses as an ULID names a server.\<close>

definition as_invite :: "env \<Rightarrow> string \<Rightarrow> invite world_action" where
  "as_invite E i =
     (if env_ulid_datetime E i \<noteq> None
      then andthen (on_db (fetch_server i)) (\<lambda>s.
             if \<not> server_discoverable s then throw NotFound
             else (case invite_to_first_channel i s of Some link \<Rightarrow> ret link | None \<Rightarrow> throw NotFound))
      else on_db (fetch_invite i))"

section \<open>Routes on groups\<close>

text \<open>\<open>calculate_channel_permissions(&mut query).await.throw_if_lacking_channel_permission(..)?\<close> for a query on
  the channel; the permissions and the query go on.\<close>

definition channel_guard ::
    "env \<Rightarrow> user \<Rightarrow> channel \<Rightarrow> channel_permission \<Rightarrow> (u64 \<times> database_permission_query) world_action" where
  "channel_guard E u c perm =
     andthen (channel_permissions E (channel_query u c)) (\<lambda>(p, q).
     andthen (check_lacking p perm) (\<lambda>_. ret (p, q)))"

definition route_create_group ::
    "env \<Rightarrow> unit result \<Rightarrow> string \<Rightarrow> user \<Rightarrow> data_create_group \<Rightarrow> channel world_action" where
  "route_create_group E validation new_id u data =
     (if user_bot u \<noteq> None then throw IsBot
      else
        andthen (lift validation) (\<lambda>_.
          if \<not> list_all (\<lambda>target. relationship_with u target = Friend \<or> relationship_with u target = RelUser) (dcg_users data)
          then throw NotFriends
          else create_group E new_id data (user_id u)))"

definition route_group_add_member :: "env \<Rightarrow> string \<Rightarrow> user \<Rightarrow> string \<Rightarrow> string \<Rightarrow> unit world_action" where
  "route_group_add_member E message_id u gid mid =
     (if user_bot u \<noteq> None then throw IsBot
      else
        andthen (on_db (fetch_channel gid)) (\<lambda>c.
        andthen (channel_guard E u c InviteOthers) (\<lambda>_.
          case c of
            Group i g \<Rightarrow>
              andthen (on_db (fetch_user mid)) (\<lambda>m.
                if \<not> is_friends_with u (user_id m) then throw NotFriends
                else andthen (add_user_to_group E message_id c m (user_id u)) (\<lambda>_. ret ()))
          | _ \<Rightarrow> throw InvalidOperation)))"

text \<open>The end of the two routes that take a user out of a group: the user is taken out of its call.\<close>

definition leave_group_call :: "env \<Rightarrow> channel \<Rightarrow> string \<Rightarrow> unit world_action" where
  "leave_group_call E c uid =
     andthen (is_in_voice_channel E uid (uvc_from_channel c)) (\<lambda>present.
     when_do present (remove_user_from_voice_channel E (uvc_from_channel c) uid))"

definition route_group_remove_member :: "env \<Rightarrow> string \<Rightarrow> string \<Rightarrow> user \<Rightarrow> string \<Rightarrow> string \<Rightarrow> unit world_action" where
  "route_group_remove_member E owner_message_id message_id u gid mid =
     (if user_bot u \<noteq> None then throw IsBot
      else
        andthen (on_db (fetch_channel gid)) (\<lambda>c.
          case c of
            Group i g \<Rightarrow>
              if user_id u \<noteq> grp_owner g then throw (MissingPermission ''ManageChannel'')
              else
                andthen (on_db (fetch_user mid)) (\<lambda>m.
                  if user_id u = user_id m then throw CannotRemoveYourself
                  else if user_id m \<notin> set (grp_recipients g) then throw NotInGroup
                  else
                    andthen (remove_user_from_group owner_message_id message_id c m (Some (user_id u)) False) (\<lambda>_.
                    leave_group_call E c mid))
          | _ \<Rightarrow> throw InvalidOperation))"

text \<open>\<open>DELETE /channels/<target>\<close>.\<close>

definition route_channel_delete :: "env \<Rightarrow> string \<Rightarrow> string \<Rightarrow> user \<Rightarrow> string \<Rightarrow> bool option \<Rightarrow> unit world_action" where
  "route_channel_delete E owner_message_id message_id u target leave_silently =
     andthen (on_db (fetch_channel target)) (\<lambda>c.
     andthen (channel_guard E u c ViewChannel) (\<lambda>(p, q).
       case c of
         SavedMessages _ _ \<Rightarrow> throw NoEffect
       | DirectMessage _ _ _ _ \<Rightarrow>
           andthen (channel_update c (partial_channel_default\<lparr>pc_active := Some False\<rparr>) []) (\<lambda>_. ret ())
       | Group i g \<Rightarrow>
           andthen (remove_user_from_group owner_message_id message_id c u None
             (case leave_silently of Some b \<Rightarrow> b | None \<Rightarrow> False)) (\<lambda>_.
           leave_group_call E c (user_id u))
       | TextChannel i t \<Rightarrow>
           andthen (check_lacking p ManageChannel) (\<lambda>_.
           andthen (channel_delete c) (\<lambda>_.
           delete_voice_channel E (uvc_from_channel c)))))"

section \<open>Editing a channel\<close>

record data_edit_channel =
  dec_name :: "string option"
  dec_description :: "string option"
  dec_owner :: "string option"
  dec_icon :: "string option"
  dec_nsfw :: "bool option"
  dec_archived :: "bool option"
  dec_voice :: "voice_information option"
  dec_slowmode :: "u64 option"
  dec_remove :: "fields_channel list"

definition edit_is_empty :: "data_edit_channel \<Rightarrow> bool" where
  "edit_is_empty data \<longleftrightarrow> dec_name data = None \<and> dec_description data = None \<and> dec_icon data = None \<and> dec_nsfw data = None
     \<and> dec_owner data = None \<and> dec_voice data = None \<and> dec_slowmode data = None \<and> dec_remove data = []"

text \<open>``Transfer group ownership''. The answer is the channel with its new owner and the partial channel.\<close>

definition edit_owner ::
    "string \<Rightarrow> user \<Rightarrow> channel \<Rightarrow> string option \<Rightarrow> (channel \<times> partial_channel) world_action" where
  "edit_owner message_id u c new_owner =
     (case new_owner of
        None \<Rightarrow> ret (c, partial_channel_default)
      | Some o' \<Rightarrow>
          (case c of
             Group i g \<Rightarrow>
               if grp_owner g \<noteq> user_id u then throw NotOwner
               else if o' \<notin> set (grp_recipients g) then throw NotInGroup
               else
                 let c' = Group i (g\<lparr>grp_owner := o'\<rparr>) in
                 andthen (system_notice message_id (SysChannelOwnershipChanged (grp_owner g) o') c') (\<lambda>_.
                 ret (c', partial_channel_default\<lparr>pc_owner := Some o'\<rparr>))
           | _ \<Rightarrow> throw InvalidOperation))"

text \<open>The icon that is removed and the icon that is put in place.\<close>

definition edit_icon :: "user \<Rightarrow> string \<Rightarrow> stored_file option \<Rightarrow> data_edit_channel \<Rightarrow> stored_file option world_action" where
  "edit_icon u cid old data =
     andthen (when_do (ChannelIcon \<in> set (dec_remove data))
       (case old of Some f \<Rightarrow> on_db (mark_attachment_as_deleted (file_id f)) | None \<Rightarrow> ret ())) (\<lambda>_.
     case dec_icon data of
       Some i \<Rightarrow> andthen (on_db (use_channel_icon i cid (user_id u))) (\<lambda>f. ret (Some f))
     | None \<Rightarrow> ret None)"

text \<open>The changes made to the channel object before it is stored: the fields to remove, then the new values.\<close>

definition edit_group_fields :: "data_edit_channel \<Rightarrow> stored_file option \<Rightarrow> group_channel \<Rightarrow> group_channel" where
  "edit_group_fields data icon g =
     (let removes = (\<lambda>f. f \<in> set (dec_remove data)) in
      g\<lparr>grp_name := set_if (dec_name data) (grp_name g),
        grp_description := replace_if (dec_description data) (if removes ChannelDescription then None else grp_description g),
        grp_icon := replace_if icon (if removes ChannelIcon then None else grp_icon g),
        grp_nsfw := set_if (dec_nsfw data) (grp_nsfw g)\<rparr>)"

definition edit_text_fields :: "data_edit_channel \<Rightarrow> stored_file option \<Rightarrow> text_channel \<Rightarrow> text_channel" where
  "edit_text_fields data icon t =
     (let removes = (\<lambda>f. f \<in> set (dec_remove data)) in
      t\<lparr>txt_name := set_if (dec_name data) (txt_name t),
        txt_description := replace_if (dec_description data) (if removes ChannelDescription then None else txt_description t),
        txt_icon := replace_if icon (if removes ChannelIcon then None else txt_icon t),
        txt_nsfw := set_if (dec_nsfw data) (txt_nsfw t),
        txt_voice := replace_if (dec_voice data) (if removes ChannelVoice then None else txt_voice t),
        txt_slowmode := replace_if (dec_slowmode data) (txt_slowmode t)\<rparr>)"

definition edit_fields ::
    "string \<Rightarrow> string \<Rightarrow> string \<Rightarrow> user \<Rightarrow> data_edit_channel \<Rightarrow> channel \<times> partial_channel \<Rightarrow> (channel \<times> partial_channel) world_action" where
  "edit_fields name_id description_id icon_id u data = (\<lambda>(c, partial).
     case c of
       Group i g \<Rightarrow>
         andthen (edit_icon u i (grp_icon g) data) (\<lambda>icon.
           let c' = Group i (edit_group_fields data icon g);
               partial' = partial\<lparr>pc_icon := icon, pc_name := dec_name data, pc_description := dec_description data,
                 pc_nsfw := dec_nsfw data\<rparr> in
         andthen (case dec_name data of
                    Some n \<Rightarrow> system_notice name_id (SysChannelRenamed n (user_id u)) c' | None \<Rightarrow> ret ()) (\<lambda>_.
         andthen (when_do (dec_description data \<noteq> None)
           (system_notice description_id (SysChannelDescriptionChanged (user_id u)) c')) (\<lambda>_.
         andthen (when_do (icon \<noteq> None) (system_notice icon_id (SysChannelIconChanged (user_id u)) c')) (\<lambda>_.
         ret (c', partial')))))
     | TextChannel i t \<Rightarrow>
         andthen (edit_icon u i (txt_icon t) data) (\<lambda>icon.
           ret (TextChannel i (edit_text_fields data icon t),
             partial\<lparr>pc_icon := icon, pc_name := dec_name data, pc_description := dec_description data,
               pc_nsfw := dec_nsfw data, pc_voice := dec_voice data, pc_slowmode := dec_slowmode data\<rparr>))
     | _ \<Rightarrow> throw InvalidOperation)"

text \<open>\<open>PATCH /channels/<target>\<close>. The record \<open>ids\<close> holds the ids of the system messages.\<close>

record edit_message_ids =
  owner_notice :: string
  name_notice :: string
  description_notice :: string
  icon_notice :: string

definition route_channel_edit ::
    "env \<Rightarrow> unit result \<Rightarrow> edit_message_ids \<Rightarrow> user \<Rightarrow> string \<Rightarrow> data_edit_channel \<Rightarrow> channel world_action" where
  "route_channel_edit E validation ids u target data =
     andthen (lift validation) (\<lambda>_.
     andthen (on_db (fetch_channel target)) (\<lambda>c.
     andthen (channel_guard E u c ManageChannel) (\<lambda>_.
       if edit_is_empty data then ret c
       else
         andthen (edit_owner (owner_notice ids) u c (dec_owner data)) (\<lambda>r.
         andthen (edit_fields (name_notice ids) (description_notice ids) (icon_notice ids) u data r) (\<lambda>(c', partial).
         andthen (channel_update c' partial (dec_remove data)) (\<lambda>c''.
         andthen (when_do (channel_voice c'' = None) (delete_voice_channel E (uvc_from_channel c''))) (\<lambda>_.
         ret c'')))))))"

section \<open>Permission overrides of a channel\<close>

definition route_set_channel_role_permissions :: "env \<Rightarrow> user \<Rightarrow> string \<Rightarrow> string \<Rightarrow> override \<Rightarrow> channel world_action" where
  "route_set_channel_role_permissions E u target rid v =
     andthen (on_db (fetch_channel target)) (\<lambda>c.
     andthen (channel_guard E u c ManagePermissions) (\<lambda>(p, q).
       case pq_server q of
         None \<Rightarrow> throw InvalidOperation
       | Some s \<Rightarrow>
           (case map_of (server_roles s) rid of
              None \<Rightarrow> throw NotFound
            | Some r \<Rightarrow>
                andthen (rank_or_min q) (\<lambda>member_rank.
                  if role_rank r \<le> member_rank then throw NotElevated
                  else
                    andthen (lift (throw_permission_override p (Some (field_to_override (role_permissions r))) v)) (\<lambda>_.
                    andthen (channel_set_role_permission c rid (override_to_field v)) (\<lambda>c'.
                    andthen (sync_voice_permissions E c' (Some s) (Some rid)) (\<lambda>_.
                    ret c')))))))"

datatype default_channel_permissions = PermissionsValue u64 | PermissionsField override

definition server_of_channel :: "channel \<Rightarrow> server option world_action" where
  "server_of_channel c =
     (case channel_server c of
        Some sid \<Rightarrow> andthen (on_db (fetch_server sid)) (\<lambda>s. ret (Some s))
      | None \<Rightarrow> ret None)"

definition route_set_default_channel_permissions ::
    "env \<Rightarrow> user \<Rightarrow> string \<Rightarrow> default_channel_permissions \<Rightarrow> channel world_action" where
  "route_set_default_channel_permissions E u target data =
     andthen (on_db (fetch_channel target)) (\<lambda>c.
     andthen (channel_guard E u c ManagePermissions) (\<lambda>(p, q).
     andthen (case (c, data) of
                (Group i g, PermissionsValue v) \<Rightarrow>
                  channel_update c (partial_channel_default\<lparr>pc_permissions := Some (as_i64 v)\<rparr>) []
              | (TextChannel i t, PermissionsField f) \<Rightarrow>
                  andthen (lift (throw_permission_override p (map_option field_to_override (txt_default_permissions t)) f)) (\<lambda>_.
                  channel_update c (partial_channel_default\<lparr>pc_default_permissions := Some (override_to_field f)\<rparr>) [])
              | _ \<Rightarrow> throw InvalidOperation) (\<lambda>c'.
     andthen (server_of_channel c') (\<lambda>s.
     andthen (sync_voice_permissions E c' s None) (\<lambda>_.
     ret c')))))"

section \<open>Routes on invites, and acknowledging\<close>

definition route_create_invite :: "env \<Rightarrow> string \<Rightarrow> user \<Rightarrow> string \<Rightarrow> invite world_action" where
  "route_create_invite E code u target =
     (if user_bot u \<noteq> None then throw IsBot
      else
        andthen (on_db (fetch_channel target)) (\<lambda>c.
        andthen (channel_guard E u c InviteOthers) (\<lambda>_.
        create_channel_invite code u c)))"

definition route_channel_ack :: "env \<Rightarrow> user \<Rightarrow> string \<Rightarrow> string \<Rightarrow> unit world_action" where
  "route_channel_ack E u target mid =
     (if user_bot u \<noteq> None then throw IsBot
      else
        andthen (on_db (fetch_channel target)) (\<lambda>c.
        andthen (channel_guard E u c ViewChannel) (\<lambda>_.
        channel_ack c (user_id u) mid)))"

text \<open>The answer of a join: the server with its visible channels, or the group with its users.\<close>

datatype join_response = JoinServer server "channel list" | JoinGroup channel "user list"

definition route_invite_join :: "env \<Rightarrow> string \<Rightarrow> user \<Rightarrow> string \<Rightarrow> join_response world_action" where
  "route_invite_join E message_id u target =
     (if user_bot u \<noteq> None then throw IsBot
      else
        andthen (can_acquire_server E u) (\<lambda>_.
        andthen (as_invite E target) (\<lambda>link.
          case link of
            ServerInvite code sid creator cid \<Rightarrow>
              andthen (on_db (fetch_server sid)) (\<lambda>s.
              andthen (member_create E message_id s u None) (\<lambda>(m, cs).
              ret (JoinServer s cs)))
          | GroupInvite code creator cid \<Rightarrow>
              andthen (on_db (fetch_channel cid)) (\<lambda>c.
              andthen (add_user_to_group E message_id c u creator) (\<lambda>c'.
                case c' of
                  Group i g \<Rightarrow>
                    andthen (on_db (fetch_users (grp_recipients g))) (\<lambda>us.
                    ret (JoinGroup c' us))
                | _ \<Rightarrow> panic)))))"

definition route_invite_delete :: "env \<Rightarrow> user \<Rightarrow> string \<Rightarrow> unit world_action" where
  "route_invite_delete E u target =
     andthen (as_invite E target) (\<lambda>link.
       if user_id u = invite_creator link then on_db (delete_invite (invite_code link))
       else
         (case link of
            ServerInvite code sid creator cid \<Rightarrow>
              andthen (on_db (fetch_server sid)) (\<lambda>s.
              andthen (server_permissions E u s) (\<lambda>(p, q).
              andthen (check_lacking p ManageServer) (\<lambda>_.
              on_db (delete_invite code))))
          | GroupInvite _ _ _ \<Rightarrow> panic))"

section \<open>What the requests leave alone\<close>

text \<open>The steps of the requests that do not touch the collection of channels.\<close>

abbreviation stored_channels :: "world \<Rightarrow> (string, channel) hashmap" where
  "stored_channels w \<equiv> db_channels (db w)"

lemma channels_db_kept: "db_kept m \<Longrightarrow> unchanged stored_channels m"
  by (simp add: db_kept_def unchanged_def)

lemma channels_kept_writes [simp]:
  "unchanged stored_channels (on_db (insert_message m))" "unchanged stored_channels (queue_task t)"
  "unchanged stored_channels (on_db (use_channel_icon i a b))" "unchanged stored_channels (on_db (mark_attachment_as_deleted i))"
  "unchanged stored_channels (on_db (insert_or_merge_member x))" "unchanged stored_channels (publish ev topic)"
  "unchanged stored_channels (publish_private ev i)" "unchanged stored_channels (on_db (insert_invite l))"
  "unchanged stored_channels (on_db (db_remove_user_from_group i j))" "unchanged stored_channels (on_db (delete_invite code))"
  "unchanged stored_channels (on_db (fetch_server i))" "unchanged stored_channels (on_db (fetch_invite code))"
  "unchanged stored_channels (on_db (fetch_users ids))"
  by (auto simp: unchanged_def on_db_def insert_message_def table_insert_def throw_def modify_def queue_task_def use_channel_icon_def
      find_and_use_attachment_def mark_attachment_as_deleted_def table_change_def insert_or_merge_member_def publish_def
      publish_private_def insert_invite_def db_remove_user_from_group_def Let_def gets_def andthen_def lift_def ret_def
      delete_invite_def table_remove_def fetch_server_def servers.fetch fetch_invite_def channel_invites.fetch
      fetch_users_def split: option.split outcome.split)

lemma when_do_simps [simp]: "when_do True m = m" "when_do False m = ret ()"
  by (simp_all add: when_do_def)

lemma unchanged_when [simp]: "unchanged f m \<Longrightarrow> unchanged f (when_do b m)"
  by (simp add: when_do_def)

lemma channels_kept_steps [simp]:
  "unchanged stored_channels (system_notice i sys c)" "unchanged stored_channels (channel_permissions E q)"
  "unchanged stored_channels (server_permissions E u s)"
  "unchanged stored_channels (check_lacking p perm)" "unchanged stored_channels (channel_guard E u c perm)"
  "unchanged stored_channels (leave_group_call E c i)" "unchanged stored_channels (delete_voice_channel E uvc)"
  "unchanged stored_channels (sync_voice_permissions E c srv rid)" "unchanged stored_channels (rank_or_min q)"
  "unchanged stored_channels (edit_icon u i old data)" "unchanged stored_channels (edit_owner i u c no)"
  "unchanged stored_channels (edit_fields i1 i2 i3 u data r)"
  "unchanged stored_channels (on_db (fetch_user i))" "unchanged stored_channels (on_db (fetch_channel i))"
proof -
  show notice: "unchanged stored_channels (system_notice i sys c)" for i c sys
    unfolding system_notice_def send_def send_without_notifications_def
    by (intro unchanged_andthen unchanged_attempt) (simp_all split: option.split)
  show check: "unchanged stored_channels (check_lacking p perm)" for p perm by (simp add: check_lacking_def)
  show perm: "unchanged stored_channels (channel_permissions E q)" for q by (simp add: channels_db_kept)
  then show "unchanged stored_channels (channel_guard E u c perm)"
    unfolding channel_guard_def by (auto intro!: unchanged_andthen simp: check)
  show "unchanged stored_channels (leave_group_call E c i)"
    unfolding leave_group_call_def is_in_voice_channel_def by (intro unchanged_andthen) (simp_all add: channels_db_kept)
  show icon: "unchanged stored_channels (edit_icon u i old data)" for i old
    unfolding edit_icon_def when_do_def by (intro unchanged_andthen) (auto intro!: unchanged_andthen split: option.split)
  show "unchanged stored_channels (edit_owner i u c no)"
    unfolding edit_owner_def by (auto intro!: unchanged_andthen simp: notice Let_def split: option.split channel.split)
  show "unchanged stored_channels (edit_fields i1 i2 i3 u data r)"
    unfolding edit_fields_def when_do_def by (cases r)
      (auto intro!: unchanged_andthen simp: notice icon Let_def split: option.split channel.split)
qed (simp_all add: channels_db_kept db_kept_sync_voice)

section \<open>The shape of groups\<close>

text \<open>A group has an owner among its recipients, no recipient twice and at most \<open>limit\<close> recipients.\<close>

fun group_ok :: "nat \<Rightarrow> channel \<Rightarrow> bool" where
  "group_ok limit (Group i g) \<longleftrightarrow>
     grp_owner g \<in> set (grp_recipients g) \<and> distinct (grp_recipients g) \<and> length (grp_recipients g) \<le> limit"
| "group_ok limit _ \<longleftrightarrow> True"

definition channels_ok :: "nat \<Rightarrow> (string, channel) hashmap \<Rightarrow> bool" where
  "channels_ok limit t \<longleftrightarrow> (\<forall>k c. map_of t k = Some c \<longrightarrow> channel_id c = k \<and> group_ok limit c)"

abbreviation groups_ok :: "nat \<Rightarrow> world \<Rightarrow> bool" where
  "groups_ok limit w \<equiv> channels_ok limit (stored_channels w)"

lemma channels_okI: "(\<And>k c. map_of t k = Some c \<Longrightarrow> channel_id c = k \<and> group_ok limit c) \<Longrightarrow> channels_ok limit t"
  by (simp add: channels_ok_def)

lemma channels_okD: "channels_ok limit t \<Longrightarrow> map_of t k = Some c \<Longrightarrow> channel_id c = k \<and> group_ok limit c"
  by (simp add: channels_ok_def)

lemma channels_ok_update:
  "channels_ok limit t \<Longrightarrow> channel_id c = k \<Longrightarrow> group_ok limit c \<Longrightarrow> channels_ok limit (AList.update k c t)"
  by (simp add: channels_ok_def db_simps)

lemma channels_ok_delete: "channels_ok limit t \<Longrightarrow> channels_ok limit (AList.delete k t)"
  by (simp add: channels_ok_def db_simps)

text \<open>A change of a group keeps its shape if a new owner is a recipient.\<close>

fun owner_fits :: "partial_channel \<Rightarrow> channel \<Rightarrow> bool" where
  "owner_fits p (Group i g) \<longleftrightarrow> (case pc_owner p of Some o' \<Rightarrow> o' \<in> set (grp_recipients g) | None \<Rightarrow> True)"
| "owner_fits p _ \<longleftrightarrow> True"

lemma owner_fits_None [simp]: "pc_owner p = None \<Longrightarrow> owner_fits p c"
  by (cases c) simp_all

lemma group_ok_apply: "group_ok limit c \<Longrightarrow> owner_fits p c \<Longrightarrow> group_ok limit (channel_apply_options p c)"
  by (cases c; cases "pc_owner p") auto

lemma group_ok_remove_field: "group_ok limit (channel_remove_field f c) = group_ok limit c"
  by (cases f; cases c) simp_all

lemma group_ok_remove: "group_ok limit (channel_remove_fields fs c) = group_ok limit c"
  unfolding channel_remove_fields_def by (induction fs arbitrary: c) (simp_all add: group_ok_remove_field)

lemma groups_ok_update_channel:
  assumes "groups_ok limit w" and "\<And>c. map_of (stored_channels w) i = Some c \<Longrightarrow> owner_fits p c"
  shows "groups_ok limit (snd (on_db (update_channel i p fs) w))"
proof (cases "map_of (stored_channels w) i")
  case (Some c)
  with assms have "group_ok limit c" "owner_fits p c" "channel_id c = i" by (auto simp: channels_ok_def)
  with assms(1) Some show ?thesis
    by (simp add: on_db_def update_channel_def table_change_def modify_def channels_ok_update group_ok_apply group_ok_remove)
qed (use assms(1) in \<open>simp add: on_db_def update_channel_def table_change_def throw_def\<close>)

lemma keeps_groups_insert:
  "group_ok limit c \<Longrightarrow> keeps (groups_ok limit) (on_db (insert_channel c))"
  by (auto simp: keeps_def on_db_def insert_channel_def table_insert_def modify_def throw_def channels_ok_update)

lemma keeps_groups_delete: "keeps (groups_ok limit) (on_db (delete_channel c))"
  by (auto simp: keeps_def on_db_def delete_channel_def table_remove_def modify_def throw_def channels_ok_delete)

lemma keeps_groups_role_permission: "keeps (groups_ok limit) (on_db (set_channel_role_permission i rid p))"
proof (rule keepsI)
  fix w assume ok: "groups_ok limit w"
  show "groups_ok limit (snd (on_db (set_channel_role_permission i rid p) w))"
  proof (cases "map_of (stored_channels w) i")
    case (Some c)
    with ok have "channel_id c = i" by (simp add: channels_ok_def)
    with ok Some show ?thesis
      by (cases c) (simp_all add: on_db_def set_channel_role_permission_def throw_def modify_def channels_ok_update)
  qed (use ok in \<open>simp add: on_db_def set_channel_role_permission_def throw_def\<close>)
qed

lemma keeps_groups_unchanged: "unchanged stored_channels m \<Longrightarrow> keeps (groups_ok limit) m"
  by (rule keeps_unchanged)

lemma keeps_groups_after:
  "unchanged stored_channels m \<Longrightarrow> (\<And>x. keeps (groups_ok limit) (f x)) \<Longrightarrow> keeps (groups_ok limit) (andthen m f)"
  using keeps_andthen keeps_groups_unchanged by blast

lemma keeps_groups_last:
  "keeps (groups_ok limit) m \<Longrightarrow> (\<And>x. unchanged stored_channels (f x)) \<Longrightarrow> keeps (groups_ok limit) (andthen m f)"
  using keeps_andthen keeps_groups_unchanged by blast

lemmas keeps_groups_insert_then = keeps_groups_last [OF keeps_groups_insert]

lemma keeps_groups_create:
  "group_size (env_global E) = limit \<Longrightarrow> keeps (groups_ok limit) (create_group E i data owner)"
  unfolding create_group_def Let_def
  by (auto intro!: keeps_groups_after keeps_groups_insert_then unchanged_andthen unchanged_for_each split: option.split)

lemma keeps_groups_dm: "keeps (groups_ok limit) (create_dm i a b)"
proof -
  have "unchanged stored_channels (attempt (on_db (find_direct_message_channel (user_id a) (user_id b))))"
    by (intro unchanged_attempt)
      (auto simp: unchanged_def on_db_def find_direct_message_channel_def ret_def throw_def split: option.split)
  then show ?thesis
    unfolding create_dm_def when_do_def Let_def
    by (auto intro!: keeps_groups_after keeps_groups_insert_then unchanged_andthen split: option.split)
qed

text \<open>\<open>with_copy limit c m\<close>: from a state with groups in shape in which \<open>c\<close> is stored under its id, \<open>m\<close> ends in a state
  with groups in shape. A request that has read a channel and has not yet written runs in such a state.\<close>

definition with_copy :: "nat \<Rightarrow> channel \<Rightarrow> 'a world_action \<Rightarrow> bool" where
  "with_copy limit c m \<longleftrightarrow>
     (\<forall>w. groups_ok limit w \<longrightarrow> map_of (stored_channels w) (channel_id c) = Some c \<longrightarrow> groups_ok limit (snd (m w)))"

lemma with_copy_keeps: "keeps (groups_ok limit) m \<Longrightarrow> with_copy limit c m"
  by (simp add: with_copy_def keeps_def)

lemma with_copy_plain [simp]: "with_copy limit c (throw e)" "with_copy limit c (ret x)" "with_copy limit c panic"
  by (simp_all add: with_copy_keeps)

lemma with_copy_after:
  assumes "unchanged stored_channels m" and "\<And>x. with_copy limit c (f x)"
  shows "with_copy limit c (andthen m f)"
proof (unfold with_copy_def, intro allI impI)
  fix w assume "groups_ok limit w" and "map_of (stored_channels w) (channel_id c) = Some c"
  with assms(2) show "groups_ok limit (snd (andthen m f w))"
    by (intro snd_andthen_unchanged [OF assms(1), where P = "groups_ok limit"]) (simp_all add: with_copy_def)
qed

lemma with_copy_then:
  "with_copy limit c m \<Longrightarrow> (\<And>x. keeps (groups_ok limit) (f x)) \<Longrightarrow> with_copy limit c (andthen m f)"
  unfolding with_copy_def by (intro allI impI snd_andthen_keeps [where P = "groups_ok limit"]) simp_all

lemma with_copy_last: "with_copy limit c m \<Longrightarrow> (\<And>x. unchanged stored_channels (f x)) \<Longrightarrow> with_copy limit c (andthen m f)"
  by (rule with_copy_then) (simp_all add: keeps_groups_unchanged)

lemma keeps_groups_fetch:
  assumes "\<And>c. channel_id c = i \<Longrightarrow> with_copy limit c (f c)"
  shows "keeps (groups_ok limit) (andthen (on_db (fetch_channel i)) f)"
proof (rule keepsI)
  fix w assume ok: "groups_ok limit w"
  show "groups_ok limit (snd (andthen (on_db (fetch_channel i)) f w))"
  proof (cases "map_of (stored_channels w) i")
    case (Some c)
    then have "on_db (fetch_channel i) w = (Ok c, w)" by (simp add: on_db_def fetch_channel_def channels.fetch)
    with Some channels_okD [OF ok Some] assms [of c] ok show ?thesis by (simp add: andthen_Ok with_copy_def)
  qed (use ok in \<open>simp add: andthen_def on_db_def fetch_channel_def channels.fetch\<close>)
qed

lemma with_copy_update:
  "owner_fits p c \<Longrightarrow> channel_id c = i \<Longrightarrow> with_copy limit c (on_db (update_channel i p fs))"
  unfolding with_copy_def by (auto intro!: groups_ok_update_channel)

lemma with_copy_db_add:
  "user_id u \<notin> set (grp_recipients g) \<Longrightarrow> length (grp_recipients g) < limit \<Longrightarrow>
   with_copy limit (Group j g) (on_db (db_add_user_to_group j (user_id u)))"
  unfolding with_copy_def
  by (auto dest: channels_okD simp: on_db_def db_add_user_to_group_def modify_def intro!: channels_ok_update)

lemma with_copy_add_user:
  "group_size (env_global E) = limit \<Longrightarrow> with_copy limit c (add_user_to_group E i c u by_id)"
  by (cases c) (auto simp: add_user_to_group_def Let_def intro!: with_copy_last with_copy_db_add unchanged_andthen)

lemma with_copy_remove_user: "with_copy limit c (remove_user_from_group i j c u by_id silent)"
proof (cases c)
  case (Group k g)
  let ?leave = "andthen (on_db (db_remove_user_from_group k (user_id u))) (\<lambda>_.
      andthen (publish (ChannelGroupLeave k (user_id u)) k) (\<lambda>_.
      when_do (\<not> silent) (system_notice j
        (case by_id of Some by \<Rightarrow> SysUserRemove (user_id u) by | None \<Rightarrow> SysUserLeft (user_id u)) (Group k g))))"
  have leave: "unchanged stored_channels ?leave"
    by (intro unchanged_andthen) simp_all
  have "with_copy limit c (channel_delete c)"
    unfolding channel_delete_def by (intro with_copy_keeps keeps_groups_after keeps_groups_delete) simp
  moreover have "with_copy limit c (andthen (on_db (update_channel k (partial_channel_default\<lparr>pc_owner := Some x\<rparr>) [])) (\<lambda>_.
      andthen (system_notice i (SysChannelOwnershipChanged (grp_owner g) x) (Group k g)) (\<lambda>_. ?leave)))"
    if "x \<in> set (grp_recipients g)" for x
    using that leave Group by (intro with_copy_last with_copy_update unchanged_andthen) (simp_all add: partial_defaults)
  moreover have "with_copy limit c ?leave" using leave by (intro with_copy_keeps keeps_groups_unchanged)
  ultimately show ?thesis
    using Group by (auto simp: remove_user_from_group_def Let_def find_Some_iff split: option.split)
qed (simp_all add: remove_user_from_group_def)

text \<open>The routes.\<close>

lemma keeps_groups_add_member:
  "group_size (env_global E) = limit \<Longrightarrow> keeps (groups_ok limit) (route_group_add_member E i u gid mid)"
  unfolding route_group_add_member_def
  by (cases "user_bot u")
    (auto intro!: keeps_groups_fetch with_copy_after with_copy_last [OF with_copy_add_user] split: channel.split)

lemma keeps_groups_route_create:
  "group_size (env_global E) = limit \<Longrightarrow> keeps (groups_ok limit) (route_create_group E v i u data)"
  unfolding route_create_group_def by (auto intro!: keeps_groups_after keeps_groups_create)

lemma keeps_groups_remove_member: "keeps (groups_ok limit) (route_group_remove_member E i j u gid mid)"
  unfolding route_group_remove_member_def
  by (cases "user_bot u")
    (auto intro!: keeps_groups_fetch with_copy_after with_copy_last [OF with_copy_remove_user] split: channel.split)

lemma with_copy_channel_update:
  "channel_id c' = channel_id c \<Longrightarrow> owner_fits p c \<Longrightarrow> with_copy limit c (channel_update c' p fs)"
proof -
  assume a: "channel_id c' = channel_id c" "owner_fits p c"
  have "channel_id (fold channel_remove_field fs c') = channel_id c'"
    using channel_remove_fields_id [of fs c'] by (simp add: channel_remove_fields_def)
  with a show ?thesis
    unfolding channel_update_def Let_def by (intro with_copy_last with_copy_update unchanged_andthen) simp_all
qed

lemma keeps_groups_close: "keeps (groups_ok limit) (route_channel_delete E i j u target silent)"
proof -
  have delete: "keeps (groups_ok limit) (channel_delete c)" for c
    unfolding channel_delete_def by (intro keeps_groups_after keeps_groups_delete) simp
  have close: "with_copy limit c (andthen (channel_update c (partial_channel_default\<lparr>pc_active := Some False\<rparr>) []) (\<lambda>_. ret ()))" for c
    by (rule with_copy_last [OF with_copy_channel_update]) (simp_all add: partial_defaults)
  show ?thesis
    unfolding route_channel_delete_def
    by (auto intro!: keeps_groups_fetch with_copy_after with_copy_last [OF with_copy_remove_user] close
        with_copy_last [OF with_copy_keeps [OF delete]] split: channel.split)
qed

text \<open>An edit of a group puts only a recipient in the place of the owner.\<close>

lemma with_copy_after_Ok:
  assumes "unchanged stored_channels m" and "\<And>x w w'. m w = (Ok x, w') \<Longrightarrow> with_copy limit c (f x)"
  shows "with_copy limit c (andthen m f)"
proof (unfold with_copy_def, intro allI impI)
  fix w assume ok: "groups_ok limit w" and c: "map_of (stored_channels w) (channel_id c) = Some c"
  obtain r w' where m: "m w = (r, w')" by (cases "m w")
  with unchangedD [OF assms(1)] have "stored_channels w' = stored_channels w" by blast
  with ok c assms(2) m show "groups_ok limit (snd (andthen m f w))"
    by (cases r) (simp_all add: andthen_def with_copy_def)
qed

lemma edit_owner_fits:
  assumes "edit_owner i u c no w = (Ok (c', p), w')"
  shows "channel_id c' = channel_id c" "owner_fits p c"
  using assms by (auto simp: edit_owner_def ret_def throw_def Let_def elim!: andthen_OkE split: option.splits channel.splits if_splits)
    (auto simp: partial_defaults)

lemma edit_fields_fits:
  assumes "edit_fields i j k u data (c', p) w = (Ok (c'', p'), w')"
  shows "channel_id c'' = channel_id c'" "pc_owner p' = pc_owner p"
  using assms by (auto simp: edit_fields_def ret_def throw_def Let_def elim!: andthen_OkE split: channel.splits)

lemma owner_fits_cong: "pc_owner p = pc_owner p' \<Longrightarrow> owner_fits p c = owner_fits p' c"
  by (cases c) simp_all

lemma keeps_groups_edit: "keeps (groups_ok limit) (route_channel_edit E v ids u target data)"
proof -
  have update: "with_copy limit c (andthen (channel_update c' p fs) (\<lambda>c''.
      andthen (when_do (channel_voice c'' = None) (delete_voice_channel E (uvc_from_channel c''))) (\<lambda>_. ret c'')))"
    if "channel_id c' = channel_id c" "owner_fits p c" for c c' p fs
    using that by (intro with_copy_last [OF with_copy_channel_update] unchanged_andthen) simp_all
  have "with_copy limit c (andthen (edit_owner (owner_notice ids) u c (dec_owner data)) (\<lambda>r.
      andthen (edit_fields (name_notice ids) (description_notice ids) (icon_notice ids) u data r) (\<lambda>(c', partial).
      andthen (channel_update c' partial (dec_remove data)) (\<lambda>c''.
      andthen (when_do (channel_voice c'' = None) (delete_voice_channel E (uvc_from_channel c''))) (\<lambda>_. ret c'')))))" for c
  proof (rule with_copy_after_Ok, simp, clarify, rule with_copy_after_Ok, simp, clarify, rule update)
    fix w c1 p1 w1 w2 c2 p2 w3
    assume "edit_owner (owner_notice ids) u c (dec_owner data) w = (Ok (c1, p1), w1)"
      and "edit_fields (name_notice ids) (description_notice ids) (icon_notice ids) u data (c1, p1) w2 = (Ok (c2, p2), w3)"
    then show "channel_id c2 = channel_id c" "owner_fits p2 c"
      using edit_owner_fits edit_fields_fits owner_fits_cong by metis+
  qed
  then show ?thesis
    unfolding route_channel_edit_def by (auto intro!: keeps_groups_after keeps_groups_fetch with_copy_after)
qed

lemma keeps_groups_role_permissions: "keeps (groups_ok limit) (route_set_channel_role_permissions E u target rid v)"
proof -
  have set: "keeps (groups_ok limit) (channel_set_role_permission c rid p)" for c p
    unfolding channel_set_role_permission_def Let_def
    by (cases c) (auto intro!: keeps_groups_last [OF keeps_groups_role_permission] unchanged_andthen)
  show ?thesis
    unfolding route_set_channel_role_permissions_def
    by (auto intro!: keeps_groups_after keeps_groups_last [OF set] unchanged_andthen split: option.split)
qed

lemma unchanged_server_of [simp]: "unchanged stored_channels (server_of_channel c)"
  unfolding server_of_channel_def by (auto intro!: unchanged_andthen split: option.split)

lemma keeps_groups_default_permissions: "keeps (groups_ok limit) (route_set_default_channel_permissions E u target data)"
proof -
  let ?sync = "\<lambda>c'. andthen (server_of_channel c') (\<lambda>s. andthen (sync_voice_permissions E c' s None) (\<lambda>_. ret c'))"
  have sync: "unchanged stored_channels (?sync c')" for c' by (intro unchanged_andthen) simp_all
  have copy: "with_copy limit c (andthen (case (c, data) of
                (Group i g, PermissionsValue v) \<Rightarrow> channel_update c (partial_channel_default\<lparr>pc_permissions := Some (as_i64 v)\<rparr>) []
              | (TextChannel i t, PermissionsField f) \<Rightarrow>
                  andthen (lift (throw_permission_override p (map_option field_to_override (txt_default_permissions t)) f)) (\<lambda>_.
                  channel_update c (partial_channel_default\<lparr>pc_default_permissions := Some (override_to_field f)\<rparr>) [])
              | _ \<Rightarrow> throw InvalidOperation) ?sync)" for c p
    by (rule with_copy_last [OF _ sync], cases c; cases data)
      (auto intro!: with_copy_channel_update with_copy_after simp: partial_defaults)
  show ?thesis
    unfolding route_set_default_channel_permissions_def
    by (rule keeps_groups_fetch, rule with_copy_after, simp) (auto simp only: prod.case copy [unfolded prod.case] split: prod.split)
qed

lemma unchanged_member_create [simp]: "unchanged stored_channels (member_create E i s u cs)"
proof -
  have notice: "unchanged stored_channels (send_system_message i x sys)" for x sys
    unfolding send_system_message_def send_without_notifications_def
    by (auto intro!: unchanged_andthen unchanged_attempt split: option.split)
  have reads: "unchanged stored_channels (on_db (fetch_ban a b))" "unchanged stored_channels (on_db (fetch_channels ids))"
    "unchanged stored_channels (on_db (fetch_emoji_by_parent_id a))" "unchanged stored_channels (on_db (fetch_member a b))" for a b ids
    by (auto simp: unchanged_def on_db_def fetch_ban_def server_bans.fetch fetch_channels_def fetch_emoji_by_parent_id_def gets_def
        andthen_def lift_def fetch_member_def server_members.fetch)
  show ?thesis
    unfolding member_create_def Let_def
    by (auto intro!: unchanged_andthen unchanged_attempt simp: reads notice channels_db_kept split: option.split)
qed

lemma unchanged_acquire [simp]:
  "unchanged stored_channels (can_acquire_server E u)" "unchanged stored_channels (as_invite E i)"
proof -
  show "unchanged stored_channels (can_acquire_server E u)"
    unfolding can_acquire_server_def fetch_server_count_def
    by (intro unchanged_andthen) (simp_all add: channels_db_kept)
  show "unchanged stored_channels (as_invite E i)"
    unfolding as_invite_def by (auto intro!: unchanged_andthen split: option.split)
qed

lemma keeps_groups_join:
  assumes "group_size (env_global E) = limit"
  shows "keeps (groups_ok limit) (route_invite_join E i u target)"
proof -
  have copy: "with_copy limit c (andthen (add_user_to_group E i c u creator) (\<lambda>c'. case c' of
        Group i g \<Rightarrow> andthen (on_db (fetch_users (grp_recipients g))) (\<lambda>us. ret (JoinGroup c' us)) | _ \<Rightarrow> panic))" for c creator
    by (rule with_copy_last [OF with_copy_add_user [OF assms]]) (auto intro!: unchanged_andthen split: channel.split)
  show ?thesis
    unfolding route_invite_join_def
    by (auto intro!: keeps_groups_fetch copy keeps_groups_after split: invite.split)
qed

section \<open>Properties\<close>

text \<open>What users can do to groups, direct messages and server channels.\<close>

inductive channel_traffic :: "nat \<Rightarrow> world \<Rightarrow> world \<Rightarrow> bool" for limit where
  start: "channel_traffic limit w w"
| create_group: "channel_traffic limit w w' \<Longrightarrow> group_size (env_global E) = limit \<Longrightarrow>
    channel_traffic limit w (snd (route_create_group E v i u data w'))"
| open_dm: "channel_traffic limit w w' \<Longrightarrow> channel_traffic limit w (snd (create_dm i a b w'))"
| add_member: "channel_traffic limit w w' \<Longrightarrow> group_size (env_global E) = limit \<Longrightarrow>
    channel_traffic limit w (snd (route_group_add_member E i u gid mid w'))"
| remove_member: "channel_traffic limit w w' \<Longrightarrow> channel_traffic limit w (snd (route_group_remove_member E i j u gid mid w'))"
| close: "channel_traffic limit w w' \<Longrightarrow> channel_traffic limit w (snd (route_channel_delete E i j u target silent w'))"
| edit: "channel_traffic limit w w' \<Longrightarrow> channel_traffic limit w (snd (route_channel_edit E v ids u target changes w'))"
| role_permissions: "channel_traffic limit w w' \<Longrightarrow>
    channel_traffic limit w (snd (route_set_channel_role_permissions E u target rid ov w'))"
| default_permissions: "channel_traffic limit w w' \<Longrightarrow>
    channel_traffic limit w (snd (route_set_default_channel_permissions E u target perms w'))"
| join: "channel_traffic limit w w' \<Longrightarrow> group_size (env_global E) = limit \<Longrightarrow>
    channel_traffic limit w (snd (route_invite_join E i u code w'))"

text \<open>C25: groups keep their shape. Through any sequence of requests by anybody, successful or not, every stored group has an
  owner who is one of its recipients, no recipient twice, and no more recipients than the configured limit.\<close>

theorem groups_keep_their_shape:
  assumes "channel_traffic limit w w'" and "groups_ok limit w"
  shows "groups_ok limit w'"
  using assms
  by (induction rule: channel_traffic.induct)
    (auto intro: keepsD [OF keeps_groups_route_create] keepsD [OF keeps_groups_dm] keepsD [OF keeps_groups_add_member]
      keepsD [OF keeps_groups_remove_member] keepsD [OF keeps_groups_close] keepsD [OF keeps_groups_edit]
      keepsD [OF keeps_groups_role_permissions] keepsD [OF keeps_groups_default_permissions] keepsD [OF keeps_groups_join])

lemma insert_channel_run:
  "map_of (stored_channels w) (channel_id c) = None \<Longrightarrow>
   on_db (insert_channel c) w = (Ok (), w\<lparr>db := db_channels_update (AList.update (channel_id c) c) (db w)\<rparr>)"
  by (simp add: on_db_def insert_channel_def channels.insert_new)

text \<open>A group of two users who are friends.\<close>

definition friendly :: "string \<Rightarrow> string \<Rightarrow> user" where
  "friendly i j = (sample_user i)\<lparr>relations := Some [\<lparr>rel_id = j, rel_status = Friend\<rparr>]\<rparr>"

definition sample_group_data :: data_create_group where
  "sample_group_data = \<lparr>dcg_name = ''x'', dcg_description = None, dcg_icon = None, dcg_users = [''b''], dcg_nsfw = None\<rparr>"

theorem groups_keep_their_shape_witness:
  "\<exists>g w'. route_create_group sample_env (Ok ()) ''g'' (friendly ''a'' ''b'') sample_group_data (sample_world empty_db) = (Ok (Group ''g'' g), w')
     \<and> grp_recipients g = [''a'', ''b''] \<and> groups_ok 3 w'"
proof -
  let ?w = "sample_world empty_db"
  let ?run = "route_create_group sample_env (Ok ()) ''g'' (friendly ''a'' ''b'') sample_group_data ?w"
  have "group_size (env_global sample_env) = 3" by (simp add: sample_env_def)
  then have run: "\<exists>g w'. ?run = (Ok (Group ''g'' g), w') \<and> grp_recipients g = [''a'', ''b'']"
    by (simp add: route_create_group_def friendly_def sample_user_def user_default_def sample_group_data_def andthen_lift
        relationship_with_def create_group_def List.insert_def Let_def andthen_Ok [OF insert_channel_run] sample_world_def empty_db_def
        andthen_assoc) (simp add: ret_def)
  have "channel_traffic 3 ?w (snd ?run)"
    by (intro channel_traffic.create_group channel_traffic.start) (simp add: sample_env_def)
  then have "groups_ok 3 (snd ?run)"
    by (rule groups_keep_their_shape) (simp add: sample_world_def empty_db_def channels_ok_def)
  with run show ?thesis by auto
qed

text \<open>What a route that is guarded by a permission of the channel has found out.\<close>

definition may :: "env \<Rightarrow> world \<Rightarrow> user \<Rightarrow> channel \<Rightarrow> channel_permission \<Rightarrow> bool" where
  "may E w u c perm = (case fst (channel_permissions E (channel_query u c) w) of Ok (p, q) \<Rightarrow> has_channel_permission p perm | _ \<Rightarrow> False)"

lemma channel_permissions_state: "channel_permissions E q w = (r, w') \<Longrightarrow> w' = w"
  by (cases "calculate_channel_permissions (db_query (reads_of (env_now E) (db w))) q";
      cases "fst (calculate_channel_permissions (db_query (reads_of (env_now E) (db w))) q)") (auto simp: channel_permissions_def)

lemma channel_guard_OkE:
  assumes "andthen (channel_guard E u c perm) f w = (Ok x, w')"
  obtains p q where "channel_permissions E (channel_query u c) w = (Ok (p, q), w)" and "may E w u c perm" and "f (p, q) w = (Ok x, w')"
proof -
  from assms obtain y w1 where 1: "channel_permissions E (channel_query u c) w = (Ok y, w1)"
    and 2: "andthen (case y of (p, q) \<Rightarrow> andthen (check_lacking p perm) (\<lambda>_. ret (p, q))) f w1 = (Ok x, w')"
    by (auto simp: channel_guard_def andthen_assoc elim: andthen_OkE)
  moreover obtain p q where y: "y = (p, q)" by fastforce
  moreover have "w1 = w" using channel_permissions_state [OF 1] .
  ultimately have "has_channel_permission p perm" "f (p, q) w = (Ok x, w')"
    using andthen_lacking_OkE [of p perm "\<lambda>_. f (p, q)" w x w'] by (simp_all add: andthen_assoc check_lacking_def)
  with that 1 y \<open>w1 = w\<close> show ?thesis by (simp add: may_def)
qed

lemma channel_guard_run:
  "channel_permissions E (channel_query u c) w = (Ok (p, q), w) \<Longrightarrow> has_channel_permission p perm \<Longrightarrow>
   andthen (channel_guard E u c perm) f w = f (p, q) w"
  by (simp add: channel_guard_def andthen_assoc andthen_Ok check_lacking_def andthen_lift throw_if_lacking_channel_permission_def)

text \<open>A member in a channel of its server: the permissions, and the query they leave behind.\<close>

definition member_answers :: "env \<Rightarrow> server \<Rightarrow> member \<Rightarrow> server_answers" where
  "member_answers E s m =
     \<lparr>an_owner = False, an_member = True, an_default = as_u64 (server_default_permissions s),
      an_roles = server_role_overrides s (member_roles m), an_timed_out = in_timeout (env_now E) m,
      an_publish = can_publish m, an_receive = can_receive m\<rparr>"

lemma reads_of_server [simp]:
  "rd_fetch_server (reads_of now d) sid = (case map_of (db_servers d) sid of Some s \<Rightarrow> Ok s | None \<Rightarrow> Err NotFound)"
  "rd_now (reads_of now d) = now"
  by (simp_all add: reads_of_def fetch_server_def servers.fetch)

lemma member_channel_permissions:
  assumes s: "map_of (db_servers (db w)) (txt_server t) = Some s"
    and m: "map_of (db_server_members (db w)) \<lparr>key_server = server_id s, key_user = user_id u\<rparr> = Some m"
    and plain: "\<not> privileged u" "server_owner s \<noteq> user_id u"
  shows "\<exists>q. channel_permissions E (channel_query u (TextChannel cid t)) w =
      (Ok (server_channel_spec (member_answers E s m) (channel_default_override (TextChannel cid t))
             (channel_role_overrides s (txt_role_permissions t) (member_roles m)), q), w)
    \<and> pq_server q = Some s \<and> get_member_rank q = Ok (Some (get_ranking m s))"
proof -
  let ?D = "reads_of (env_now E) (db w)"
  let ?run = "calculate_channel_permissions (db_query ?D) (channel_query u (TextChannel cid t))"
  have "fst ?run = Ok (server_channel_spec (member_answers E s m) (channel_default_override (TextChannel cid t))
             (channel_role_overrides s (txt_role_permissions t) (member_roles m)))"
    using plain m by (subst server_channel_query_spec [where srv = s]) (simp_all add: s member_answers_def split: option.split)
  moreover have "pq_server (snd ?run) = Some s \<and> get_member_rank (snd ?run) = Ok (Some (get_ranking m s))"
    using plain s m
    by (simp add: calculate_channel_permissions_def calculate_server_permissions_def or_else_def db_query_def query_defs query_build
        q_are_we_a_member_def q_set_server_from_channel_def andthen_def gets_def ret_def get_member_rank_def Let_def)
  ultimately show ?thesis
    by (cases ?run) (simp add: channel_permissions_def)
qed

lemma andthen_fetch_channel:
  "andthen (on_db (fetch_channel i)) f w =
     (case map_of (stored_channels w) i of Some c \<Rightarrow> f c w | None \<Rightarrow> (Err NotFound, w))"
  by (simp add: andthen_def on_db_def fetch_channel_def channels.fetch split: option.split)

lemma andthen_update_channel:
  "andthen (on_db (update_channel i p fs)) f w =
     (case map_of (stored_channels w) i of
        Some c \<Rightarrow> f () (w\<lparr>db := db_channels_update (AList.update i (channel_remove_fields fs (channel_apply_options p c))) (db w)\<rparr>)
      | None \<Rightarrow> (Err NotFound, w))"
  by (simp add: andthen_def on_db_def update_channel_def table_change_def modify_def throw_def gets_def split: option.split)

lemma may_cases:
  assumes "may E w u c perm"
  obtains p q where "channel_permissions E (channel_query u c) w = (Ok (p, q), w)" and "has_channel_permission p perm"
proof -
  obtain r w' where run: "channel_permissions E (channel_query u c) w = (r, w')" by fastforce
  with assms that channel_permissions_state [OF run] show ?thesis
    by (auto simp: may_def split: outcome.splits prod.splits)
qed

text \<open>The request that takes the default override of a channel away.\<close>

definition clear_default :: data_edit_channel where
  "clear_default = \<lparr>dec_name = None, dec_description = None, dec_owner = None, dec_icon = None, dec_nsfw = None, dec_archived = None,
     dec_voice = None, dec_slowmode = None, dec_remove = [ChannelDefaultPermissions]\<rparr>"

text \<open>the default override of a channel can be taken away without the permission to manage permissions. The route made for
  it refuses a user who lacks \<open>ManagePermissions\<close>, but editing the channel needs only \<open>ManageChannel\<close> and passes the list of fields
  to remove on, \<open>DefaultPermissions\<close> included; what the override denied is granted again.\<close>

theorem default_override_cleared_by_edit:
  assumes c: "map_of (stored_channels w) cid = Some (TextChannel cid t)"
    and manage: "may E w u (TextChannel cid t) ManageChannel" and lacks: "\<not> may E w u (TextChannel cid t) ManagePermissions"
  shows "map_of (stored_channels (snd (route_channel_edit E (Ok ()) ids u cid clear_default w))) cid
      = Some (TextChannel cid (t\<lparr>txt_default_permissions := None\<rparr>))
    \<and> route_set_default_channel_permissions E u cid perms w = (Err (MissingPermission ''ManagePermissions''), w)"
proof -
  let ?c = "TextChannel cid t" and ?c' = "TextChannel cid (t\<lparr>txt_default_permissions := None\<rparr>)"
  obtain p q where p: "channel_permissions E (channel_query u ?c) w = (Ok (p, q), w)" "has_channel_permission p ManageChannel"
    using manage by (rule may_cases)
  have perms: "andthen (channel_permissions E (channel_query u ?c)) f w = f (p, q) w" for f
    using p(1) by (simp add: andthen_Ok)
  have "\<not> has_channel_permission p ManagePermissions" using lacks p(1) by (simp add: may_def)
  then have refused: "route_set_default_channel_permissions E u cid perms w = (Err (MissingPermission ''ManagePermissions''), w)"
    by (simp add: route_set_default_channel_permissions_def andthen_fetch_channel c channel_guard_def andthen_assoc
        perms check_lacking_def andthen_lift throw_if_lacking_channel_permission_def)
  let ?finish = "\<lambda>c''. andthen (when_do (channel_voice c'' = None) (delete_voice_channel E (uvc_from_channel c''))) (\<lambda>_. ret c'')"
  have finish: "unchanged stored_channels (?finish x)" for x by (intro unchanged_andthen) simp_all
  let ?w1 = "w\<lparr>db := db_channels_update (AList.update cid ?c') (db w),
      events := events w @ [(txt_server t, ChannelUpdate cid partial_channel_default [ChannelDefaultPermissions])]\<rparr>"
  have "route_channel_edit E (Ok ()) ids u cid clear_default w = ?finish ?c' ?w1"
    by (simp add: route_channel_edit_def andthen_lift andthen_fetch_channel c channel_guard_run [OF p] clear_default_def
        edit_is_empty_def edit_owner_def edit_fields_def edit_icon_def edit_text_fields_def channel_update_def Let_def
        andthen_assoc andthen_update_channel channel_remove_fields_def partial_defaults)
  moreover have "stored_channels (snd (?finish ?c' ?w1)) = stored_channels ?w1"
    using finish [of ?c'] unfolding unchanged_def by blast
  ultimately show ?thesis using refused by (simp add: db_simps)
qed

text \<open>A server whose members may view and manage channels, with a channel that denies sending to everybody.\<close>

definition hushed :: text_channel where
  "hushed = \<lparr>txt_server = ''S'', txt_name = ''C'', txt_description = None, txt_icon = None, txt_last_message_id = None,
     txt_default_permissions = Some \<lparr>field_a = 0, field_d = 4194304\<rparr>, txt_role_permissions = [(''b'', \<lparr>field_a = 0, field_d = 4194304\<rparr>)],
     txt_nsfw = False, txt_voice = None, txt_slowmode = None\<rparr>"

definition hushed_world :: "i64 \<Rightarrow> world" where
  "hushed_world defaults = sample_world (empty_db\<lparr>
     db_servers := [(''S'', sample_server ''S'' ''o'' [(''a'', sample_role ''a'' 0 0 0), (''b'', sample_role ''b'' 1 4194304 0)] defaults)],
     db_server_members := [(\<lparr>key_server = ''S'', key_user = ''m''\<rparr>, sample_member ''S'' ''m'' [''a'', ''b''] None)],
     db_channels := [(''C'', TextChannel ''C'' hushed)]\<rparr>)"

lemma hushed_permissions:
  assumes "d = 1048577 \<or> d = 1048580"
  shows "\<exists>p q. channel_permissions sample_env (channel_query (sample_user ''m'') (TextChannel ''C'' hushed)) (hushed_world d)
       = (Ok (p, q), hushed_world d)
     \<and> p = as_u64 d"
proof -
  let ?w = "hushed_world d" and ?u = "sample_user ''m''"
  let ?s = "sample_server ''S'' ''o'' [(''a'', sample_role ''a'' 0 0 0), (''b'', sample_role ''b'' 1 4194304 0)] d"
  let ?m = "sample_member ''S'' ''m'' [''a'', ''b''] None"
  have 1: "map_of (db_servers (db ?w)) (txt_server hushed) = Some ?s"
    "map_of (db_server_members (db ?w)) \<lparr>key_server = server_id ?s, key_user = user_id ?u\<rparr> = Some ?m"
    "\<not> privileged ?u" "server_owner ?s \<noteq> user_id ?u"
    by (simp_all add: hushed_world_def hushed_def sample_world_def sample_defs)
  have "server_channel_spec (member_answers sample_env ?s ?m) (channel_default_override (TextChannel ''C'' hushed))
             (channel_role_overrides ?s (txt_role_permissions hushed) (member_roles ?m)) = as_u64 d"
    using assms
    by (auto simp: server_channel_spec_def member_answers_def server_role_overrides_def by_descending_rank_def sample_defs
        channel_role_overrides_def List.map_filter_def hushed_def field_to_override_def as_u64_def in_timeout_def apply_all_def pv_apply_def
        server_spec_def Let_def has_channel_permission_def pv_has_def voice_mask_def
        pv_revoke_def pv_allow_def)
  with member_channel_permissions [OF 1, of sample_env "''C''"] show ?thesis by auto
qed

definition sample_ids :: edit_message_ids where
  "sample_ids = \<lparr>owner_notice = ''1'', name_notice = ''2'', description_notice = ''3'', icon_notice = ''4''\<rparr>"

theorem default_override_cleared_by_edit_witness:
  "map_of (stored_channels (snd (route_channel_edit sample_env (Ok ()) sample_ids (sample_user ''m'') ''C'' clear_default (hushed_world 1048577)))) ''C''
      = Some (TextChannel ''C'' (hushed\<lparr>txt_default_permissions := None\<rparr>))"
proof -
  let ?w = "hushed_world 1048577" and ?u = "sample_user ''m''"
  obtain p q where p: "channel_permissions sample_env (channel_query ?u (TextChannel ''C'' hushed)) ?w = (Ok (p, q), ?w)" "p = as_u64 1048577"
    using hushed_permissions [of 1048577] by auto
  have "map_of (stored_channels ?w) ''C'' = Some (TextChannel ''C'' hushed)" by (simp add: hushed_world_def sample_world_def)
  moreover have "may sample_env ?w ?u (TextChannel ''C'' hushed) ManageChannel" "\<not> may sample_env ?w ?u (TextChannel ''C'' hushed) ManagePermissions"
    by (simp_all add: may_def p has_channel_permission_def pv_has_def as_u64_def)
  ultimately show ?thesis using default_override_cleared_by_edit by blast
qed

text \<open>The permissions of a user in a channel, as the query calculates them.\<close>

definition rights :: "env \<Rightarrow> world \<Rightarrow> user \<Rightarrow> channel \<Rightarrow> u64" where
  "rights E w u c = (case fst (channel_permissions E (channel_query u c) w) of Ok (p, q) \<Rightarrow> p | _ \<Rightarrow> 0)"

lemma set_channel_role_permission_run:
  "map_of (stored_channels w) cid = Some (TextChannel cid t) \<Longrightarrow> map_of (txt_role_permissions t) rid = Some cur \<Longrightarrow>
   on_db (set_channel_role_permission cid rid v) w =
     (Ok (), w\<lparr>db := db_channels_update (AList.update cid (TextChannel cid (t\<lparr>txt_role_permissions :=
        AList.update rid v (AList.delete rid (txt_role_permissions t))\<rparr>))) (db w)\<rparr>)"
  by (simp add: on_db_def set_channel_role_permission_def hm_contains_def modify_def)

text \<open>Setting an override to what it is passes the check of everybody.\<close>

lemma override_check_same: "throw_permission_override p (Some v) v = Ok ()"
  by (simp add: throw_permission_override_def pv_has_def allows_def denies_def)

text \<open>the check on a new override of a role in a channel compares with the wrong value. It looks at the permissions the role has
  in the server, not at the override that is set in the channel. So an editor can always set the override to the permissions the role
  has in the server, even where the present override denies them and the editor itself lacks them.\<close>

theorem channel_override_checked_against_server_role:
  assumes c: "map_of (stored_channels w) cid = Some (TextChannel cid t)"
    and s: "map_of (db_servers (db w)) (txt_server t) = Some s"
    and m: "map_of (db_server_members (db w)) \<lparr>key_server = server_id s, key_user = user_id u\<rparr> = Some m"
    and plain: "\<not> privileged u" "server_owner s \<noteq> user_id u"
    and manage: "may E w u (TextChannel cid t) ManagePermissions"
    and r: "map_of (server_roles s) rid = Some r" "get_ranking m s < role_rank r"
    and cur: "map_of (txt_role_permissions t) rid = Some cur"
    and lacks: "newly_grants (field_to_override cur) (field_to_override (role_permissions r)) n" "\<not> bit (rights E w u (TextChannel cid t)) n"
  shows "\<exists>t' new. map_of (stored_channels (snd (route_set_channel_role_permissions E u cid rid (field_to_override (role_permissions r)) w))) cid
      = Some (TextChannel cid t')
    \<and> map_of (txt_role_permissions t') rid = Some new \<and> newly_grants (field_to_override cur) (field_to_override new) n"
proof -
  let ?c = "TextChannel cid t" and ?v = "field_to_override (role_permissions r)"
  let ?rps = "AList.update rid (override_to_field ?v) (txt_role_permissions t)"
  let ?t = "t\<lparr>txt_role_permissions := AList.update rid (override_to_field ?v) (AList.delete rid (txt_role_permissions t))\<rparr>"
  let ?c' = "TextChannel cid (t\<lparr>txt_role_permissions := ?rps\<rparr>)"
  let ?finish = "andthen (sync_voice_permissions E ?c' (Some s) (Some rid)) (\<lambda>_. ret ?c')"
  let ?w = "w\<lparr>db := db_channels_update (AList.update cid (TextChannel cid ?t)) (db w),
      events := events w @ [(txt_server t, ChannelUpdate cid (partial_channel_default\<lparr>pc_role_permissions := Some ?rps\<rparr>) [])]\<rparr>"
  obtain p q where q: "channel_permissions E (channel_query u ?c) w = (Ok (p, q), w)" "pq_server q = Some s"
      "get_member_rank q = Ok (Some (get_ranking m s))"
    using member_channel_permissions [OF s m plain, of E cid] by blast
  with manage have p: "has_channel_permission p ManagePermissions" by (simp add: may_def)
  have "route_set_channel_role_permissions E u cid rid ?v w = ?finish ?w"
    using r(2) by (simp add: route_set_channel_role_permissions_def andthen_fetch_channel c channel_guard_run [OF q(1) p] q(2) r(1)
        rank_or_min_run [OF q(3)] andthen_lift override_check_same channel_set_role_permission_def andthen_assoc Let_def
        andthen_Ok [OF set_channel_role_permission_run] cur)
  moreover have "unchanged stored_channels ?finish" by (intro unchanged_andthen) simp_all
  then have "stored_channels (snd (?finish ?w)) = stored_channels ?w" unfolding unchanged_def by blast
  ultimately show ?thesis
    using lacks(1) by (simp add: db_simps override_to_field_def field_to_override_def)
qed

theorem channel_override_checked_against_server_role_witness:
  "\<exists>t' new. map_of (stored_channels (snd (route_set_channel_role_permissions sample_env (sample_user ''m'') ''C'' ''b''
        \<lparr>allow = 4194304, deny = 0\<rparr> (hushed_world 1048580)))) ''C'' = Some (TextChannel ''C'' t')
    \<and> map_of (txt_role_permissions t') ''b'' = Some new
    \<and> newly_grants \<lparr>allow = 0, deny = 4194304\<rparr> (field_to_override new) 22"
proof -
  let ?w = "hushed_world 1048580" and ?u = "sample_user ''m''" and ?c = "TextChannel ''C'' hushed"
  let ?s = "sample_server ''S'' ''o'' [(''a'', sample_role ''a'' 0 0 0), (''b'', sample_role ''b'' 1 4194304 0)] 1048580"
  let ?m = "sample_member ''S'' ''m'' [''a'', ''b''] None" and ?r = "sample_role ''b'' 1 4194304 0"
  obtain p q where p: "channel_permissions sample_env (channel_query ?u ?c) ?w = (Ok (p, q), ?w)" "p = as_u64 1048580"
    using hushed_permissions [of 1048580] by auto
  have 1: "map_of (stored_channels ?w) ''C'' = Some ?c" "map_of (db_servers (db ?w)) (txt_server hushed) = Some ?s"
    "map_of (db_server_members (db ?w)) \<lparr>key_server = server_id ?s, key_user = user_id ?u\<rparr> = Some ?m"
    "\<not> privileged ?u" "server_owner ?s \<noteq> user_id ?u"
    by (simp_all add: hushed_world_def hushed_def sample_world_def sample_defs)
  have 2: "may sample_env ?w ?u ?c ManagePermissions" "\<not> bit (rights sample_env ?w ?u ?c) 22"
    by (simp_all add: may_def rights_def p has_channel_permission_def pv_has_def as_u64_def)
  have 3: "map_of (server_roles ?s) ''b'' = Some ?r" "get_ranking ?m ?s < role_rank ?r"
    "map_of (txt_role_permissions hushed) ''b'' = Some \<lparr>field_a = 0, field_d = 4194304\<rparr>"
    by (simp_all add: sample_defs get_ranking_def hushed_def)
  have "field_to_override (role_permissions ?r) = \<lparr>allow = 4194304, deny = 0\<rparr>"
    "field_to_override \<lparr>field_a = 0, field_d = 4194304\<rparr> = \<lparr>allow = 0, deny = 4194304\<rparr>"
    by (simp_all add: sample_role_def field_to_override_def as_u64_def)
  moreover have "newly_grants \<lparr>allow = 0, deny = 4194304\<rparr> \<lparr>allow = 4194304, deny = 0\<rparr> 22"
    by (simp add: newly_grants_iff)
  ultimately show ?thesis
    using channel_override_checked_against_server_role [OF 1 2(1) 3(1,2,3) _ 2(2)] by simp
qed

end
