(* ===== verification/Users.thy ===== *)
theory Users
  imports Channels
begin

text \<open>
  Accounts: the remaining operations of \<open>User\<close> in \<open>crates/core/database/src/models/users/model.rs\<close> (creation, user names and
  discriminators, suspension, deletion, badges), the conversions of a user to the wire format in
  \<open>util/bridge/v0.rs\<close>, the routes of \<open>crates/delta/src/routes\<close> under \<open>users\<close>, \<open>onboard\<close>, \<open>sync\<close> and \<open>policy\<close> that are not in
  \<open>Relationships\<close>, and the user settings.

  A user is known by a name and a discriminator of four digits. The theorems show that no two users ever share both (up to upper
  and lower case), what a discriminator looks like, and what the conversions keep from other users.

  Parameters of the model are the library that replaces lookalike characters (\<open>decancer::cure\<close>), \<open>to_lowercase\<close>, the random
  choice, the sessions and accounts of the authentication library and the configured values (\<open>users_env\<close>).
\<close>

section \<open>User names and discriminators\<close>

record users_env =
  ue_cure :: "string \<Rightarrow> string option"
  ue_lower :: "string \<Rightarrow> string"
  ue_choose :: "string list \<Rightarrow> string option"
  ue_min_username_length :: nat
  ue_early_adopter_cutoff :: "timestamp option"

text \<open>\<open>choose\<close> returns an element of a slice that is not empty.\<close>

locale users_env_laws =
  fixes UE :: users_env
  assumes choose: "xs \<noteq> [] \<Longrightarrow> \<exists>x \<in> set xs. ue_choose UE xs = Some x"

text \<open>The decimal digits of a number, and \<open>format!("{:0>4}", v)\<close>.\<close>

fun digits :: "nat \<Rightarrow> string" where
  "digits n = (if n < 10 then [char_of (48 + n)] else digits (n div 10) @ [char_of (48 + n mod 10)])"

declare digits.simps [simp del]

definition format_discriminator :: "nat \<Rightarrow> string" where
  "format_discriminator v = replicate (4 - length (digits v)) CHR ''0'' @ digits v"

definition reserved_discriminators :: "nat list" where
  "reserved_discriminators = [123, 1234, 1111, 2222, 3333, 4444, 5555, 6666, 7777, 8888, 9999, 1488]"

definition DISCRIMINATOR_SEARCH_SPACE :: "string set" where
  "DISCRIMINATOR_SEARCH_SPACE = format_discriminator ` {2..<9999} - format_discriminator ` set reserved_discriminators"

text \<open>\<open>BLOCKED_USERNAME_PATTERNS\<close>: an alternative of literal texts, found anywhere and without regard to case. The letters of the
  patterns are ASCII letters.\<close>

definition ascii_lower :: "char \<Rightarrow> char" where
  "ascii_lower c = (let n = of_char c :: nat in if 65 \<le> n \<and> n \<le> 90 then char_of (n + 32) else c)"

fun starts_with :: "string \<Rightarrow> string \<Rightarrow> bool" where
  "starts_with [] s \<longleftrightarrow> True"
| "starts_with (p # ps) [] \<longleftrightarrow> False"
| "starts_with (p # ps) (c # cs) \<longleftrightarrow> p = c \<and> starts_with ps cs"

fun contains_text :: "string \<Rightarrow> string \<Rightarrow> bool" where
  "contains_text p [] \<longleftrightarrow> p = []"
| "contains_text p (c # cs) \<longleftrightarrow> starts_with p (c # cs) \<or> contains_text p cs"

definition blocked_patterns :: "string list" where
  "blocked_patterns = [''```'', ''discord.gg'', ''rvlt.gg'', ''guilded.gg'', ''stt.gg'', ''revolt.chat'', ''stoat.chat'', ''http://'', ''https://'']"

definition BLOCKED_USERNAMES :: "string list" where
  "BLOCKED_USERNAMES = [''admin'', ''revolt'', ''stoat'']"

definition validate_username :: "users_env \<Rightarrow> string \<Rightarrow> unit result" where
  "validate_username UE name =
     (if ue_lower UE name \<in> set BLOCKED_USERNAMES \<or> list_ex (\<lambda>p. contains_text p (map ascii_lower name)) blocked_patterns
      then Err InvalidUsername else Ok ())"

text \<open>\<open>String::len\<close> counts bytes: a code point below 128 takes one byte of UTF-8, the others of the model two.\<close>

definition utf8_len :: "string \<Rightarrow> nat" where
  "utf8_len s = sum_list (map (\<lambda>c. if (of_char c :: nat) < 128 then 1 else 2) s)"

definition sanitise_username :: "users_env \<Rightarrow> string \<Rightarrow> string result" where
  "sanitise_username UE name =
     (case ue_cure UE name of
        None \<Rightarrow> Err InvalidUsername
      | Some cured \<Rightarrow> Ok (cured @ replicate (ue_min_username_length UE - utf8_len cured) CHR ''_''))"

definition ratelimit_event_create :: "string \<Rightarrow> string \<Rightarrow> ratelimit_event_type \<Rightarrow> unit world_action" where
  "ratelimit_event_create new_id target ty =
     on_db (insert_ratelimit_event \<lparr>rlevent_id = new_id, rlevent_target_id = target, rlevent_type = ty\<rparr>)"

definition find_discriminator :: "env \<Rightarrow> users_env \<Rightarrow> string \<Rightarrow> string \<Rightarrow> (string \<times> string) option \<Rightarrow> string world_action" where
  "find_discriminator E UE event_id name preferred =
     andthen (on_db (fetch_discriminators_in_use (ue_lower UE) name)) (\<lambda>used.
       let available = env_iteration E (DISCRIMINATOR_SEARCH_SPACE - set used);
           choice = unwrap (ue_choose UE available) in
       if available = [] then throw UsernameTaken
       else case preferred of
         Some (wish, target) \<Rightarrow>
           if wish \<in> set available then ret wish
           else
             andthen (on_db (has_ratelimited (env_ulid_at E (env_now E - 1000 * (60 * 60 * 24))) target DiscriminatorChange 1)) (\<lambda>limited.
             if limited then throw DiscriminatorChangeRatelimited
             else andthen (ratelimit_event_create event_id target DiscriminatorChange) (\<lambda>_. choice))
       | None \<Rightarrow> choice)"

section \<open>Operations on users\<close>

definition user_create ::
    "env \<Rightarrow> users_env \<Rightarrow> string \<Rightarrow> string \<Rightarrow> string \<Rightarrow> string option \<Rightarrow> partial_user option \<Rightarrow> user world_action" where
  "user_create E UE new_id event_id name account_id data =
     andthen (lift (sanitise_username UE name)) (\<lambda>new_username.
     andthen (lift (validate_username UE new_username)) (\<lambda>_.
     andthen (find_discriminator E UE event_id new_username None) (\<lambda>discrim.
       let u = user_default\<lparr>user_id := (case account_id of Some i \<Rightarrow> i | None \<Rightarrow> new_id), discriminator := discrim,
                 username := new_username, last_acknowledged_policy_change := env_now E\<rparr>;
           u' = (case data of Some p \<Rightarrow> apply_user (env_structs E) p u | None \<Rightarrow> u) in
       andthen (on_db (insert_user u')) (\<lambda>_. ret u'))))"

definition user_update :: "env \<Rightarrow> string \<Rightarrow> user \<Rightarrow> partial_user \<Rightarrow> fields_user list \<Rightarrow> user world_action" where
  "user_update E event_id self partial remove =
     (let u = apply_user (env_structs E) partial (fold user_remove_field remove self) in
      andthen (on_db (update_user (env_structs E) (user_id u) partial remove)) (\<lambda>_.
      andthen (publish_user (UserUpdate (user_id u) partial remove (Some event_id)) (user_id u)) (\<lambda>_.
      ret u)))"

definition update_username :: "env \<Rightarrow> users_env \<Rightarrow> string \<Rightarrow> string \<Rightarrow> user \<Rightarrow> string \<Rightarrow> user world_action" where
  "update_username E UE limit_id event_id self name =
     andthen (lift (sanitise_username UE name)) (\<lambda>new_username.
     andthen (lift (validate_username UE new_username)) (\<lambda>_.
       if ue_lower UE (username self) = ue_lower UE new_username
       then user_update E event_id self (partial_user_default\<lparr>pu_username := Some new_username\<rparr>) []
       else
         andthen (find_discriminator E UE limit_id new_username (Some (discriminator self, user_id self))) (\<lambda>discrim.
         user_update E event_id self
           (partial_user_default\<lparr>pu_username := Some new_username, pu_discriminator := Some discrim\<rparr>) [])))"

text \<open>The answers of the authentication library when an account is suspended. Each step can fail.\<close>

record account_answers =
  aa_find_account :: bool
  aa_disable :: bool
  aa_delete_all_sessions :: bool
  aa_email_enabled :: bool
  aa_send_email :: bool

definition answered :: "bool \<Rightarrow> unit world_action" where
  "answered ok = (if ok then ret () else throw InternalError)"

text \<open>\<open>checked_add\<close> of days; a sum outside the range of the timestamps gives none, which the model does not reach.\<close>

definition user_suspend ::
    "env \<Rightarrow> account_answers \<Rightarrow> string \<Rightarrow> user \<Rightarrow> nat option \<Rightarrow> string list option \<Rightarrow> user world_action" where
  "user_suspend E A event_id self duration_days reason =
     andthen (answered (aa_find_account A)) (\<lambda>_.
     andthen (answered (aa_disable A)) (\<lambda>_.
     andthen (answered (aa_delete_all_sessions A)) (\<lambda>_.
     andthen (user_update E event_id self
       (partial_user_default\<lparr>pu_flags := Some 1,
          pu_suspended_until := map_option (\<lambda>d. env_now E + 1000 * (60 * 60 * 24 * int d)) duration_days\<rparr>) []) (\<lambda>u.
     andthen (if reason \<noteq> None \<and> aa_email_enabled A then answered (aa_send_email A) else ret ()) (\<lambda>_.
     ret u)))))"

text \<open>\<open>unsuspend\<close> writes and then runs into \<open>unimplemented!\<close>; \<open>ban\<close> is only that.\<close>

definition user_unsuspend :: "env \<Rightarrow> string \<Rightarrow> user \<Rightarrow> unit world_action" where
  "user_unsuspend E event_id self =
     andthen (user_update E event_id self (partial_user_default\<lparr>pu_flags := Some 0, pu_suspended_until := None\<rparr>) []) (\<lambda>_. panic)"

definition user_ban :: "unit world_action" where
  "user_ban = panic"

definition deleted_name :: "string \<Rightarrow> string" where
  "deleted_name i = ''Deleted User '' @ i"

definition mark_deleted :: "env \<Rightarrow> string \<Rightarrow> user \<Rightarrow> user world_action" where
  "mark_deleted E event_id self =
     user_update E event_id self (partial_user_default\<lparr>pu_username := Some (deleted_name (user_id self)), pu_flags := Some 2\<rparr>)
       [UserAvatar, UserStatusText, UserStatusPresence, UserProfileContent, UserProfileBackground, UserSuspension]"

text \<open>\<open>EarlyAdopter\<close> is the badge 256; the sum is one of 32-bit words.\<close>

definition EarlyAdopter :: u32 where
  "EarlyAdopter = 256"

definition get_badges :: "env \<Rightarrow> users_env \<Rightarrow> user \<Rightarrow> u32 world_action" where
  "get_badges E UE u =
     (let b = word_of_int (case badges u of Some x \<Rightarrow> x | None \<Rightarrow> 0) in
      case ue_early_adopter_cutoff UE of
        None \<Rightarrow> ret b
      | Some cutoff \<Rightarrow>
          (case env_ulid_datetime E (user_id u) of
             None \<Rightarrow> panic
           | Some t \<Rightarrow> ret (if t < cutoff then b + EarlyAdopter else b)))"

text \<open>A session of the authentication library, found by its token (\<open>None\<close> is an error of the lookup).\<close>

datatype user_hint = HintAny | HintBot | HintUser

function from_token :: "(string \<Rightarrow> (string \<times> string) option) \<Rightarrow> error_type \<Rightarrow> string \<Rightarrow> user_hint \<Rightarrow> (user \<times> string) world_action" where
  "from_token sessions session_error token HintBot =
     andthen (map_err InvalidSession (on_db (fetch_bot_by_token token))) (\<lambda>b.
     andthen (on_db (fetch_user (botacc_id b))) (\<lambda>u. ret (u, [])))"
| "from_token sessions session_error token HintUser =
     (case sessions token of
        None \<Rightarrow> throw session_error
      | Some (sid, uid) \<Rightarrow> andthen (on_db (fetch_user uid)) (\<lambda>u. ret (u, sid)))"
| "from_token sessions session_error token HintAny =
     andthen (attempt (from_token sessions session_error token HintUser)) (\<lambda>found.
       case found of
         Some result \<Rightarrow> ret result
       | None \<Rightarrow> from_token sessions session_error token HintBot)"
  by pat_completeness auto

termination
  by (relation "measure (\<lambda>(_, _, _, hint). case hint of HintAny \<Rightarrow> 1 | _ \<Rightarrow> 0)") auto

section \<open>The wire format of a user\<close>

record v0_user =
  v0u_id :: string
  v0u_username :: string
  v0u_discriminator :: string
  v0u_display_name :: "string option"
  v0u_avatar :: "stored_file option"
  v0u_relations :: "relationship list"
  v0u_badges :: u32
  v0u_status :: "user_status option"
  v0u_flags :: u32
  v0u_privileged :: bool
  v0u_bot :: "bot_information option"
  v0u_relationship :: relationship_status
  v0u_online :: bool

definition status_into :: "user_status \<Rightarrow> bool \<Rightarrow> user_status option" where
  "status_into s discard_invisible =
     (let presence = (case status_presence s of
            Some p \<Rightarrow> if discard_invisible \<and> p = Invisible then None else Some p | None \<Rightarrow> None)
      in if status_text s = None \<and> presence = None then None else Some \<lparr>status_text = status_text s, status_presence = presence\<rparr>)"

definition is_invisible :: "user \<Rightarrow> bool" where
  "is_invisible u = (case user_status u of Some s \<Rightarrow> status_presence s = Some Invisible | None \<Rightarrow> False)"

text \<open>The answer about a user, given its badges, what is listed as relations, what is said of the relationship, whether it is online
  and whether the status is shown.\<close>

definition render_user ::
    "user \<Rightarrow> u32 \<Rightarrow> relationship list \<Rightarrow> relationship_status \<Rightarrow> bool \<Rightarrow> bool \<Rightarrow> v0_user" where
  "render_user u bs rels rel_with online shown =
     \<lparr>v0u_id = user_id u, v0u_username = username u, v0u_discriminator = discriminator u, v0u_display_name = display_name u,
      v0u_avatar = user_avatar u, v0u_relations = rels, v0u_badges = bs,
      v0u_status = (if shown then (case user_status u of Some s \<Rightarrow> status_into s True | None \<Rightarrow> None) else None),
      v0u_flags = word_of_int (case user_flags u of Some x \<Rightarrow> x | None \<Rightarrow> 0), v0u_privileged = privileged u, v0u_bot = user_bot u,
      v0u_relationship = rel_with, v0u_online = (online \<and> \<not> is_invisible u)\<rparr>"

definition listed_status :: "user \<Rightarrow> string \<Rightarrow> relationship_status" where
  "listed_status p i =
     (case relations p of
        Some rs \<Rightarrow> (case List.find (\<lambda>r. rel_id r = i) rs of Some r \<Rightarrow> rel_status r | None \<Rightarrow> NoRelation)
      | None \<Rightarrow> NoRelation)"

definition own_relations :: "user \<Rightarrow> relationship list" where
  "own_relations u = (case relations u of Some rs \<Rightarrow> rs | None \<Rightarrow> [])"

text \<open>\<open>calculate_user_permissions(&mut query)\<close>.\<close>

definition query_user_permissions :: "env \<Rightarrow> database_permission_query \<Rightarrow> u64 world_action" where
  "query_user_permissions E q w = (fst (calculate_user_permissions (db_query (reads_of (env_now E) (db w))) q), w)"

definition user_into :: "env \<Rightarrow> users_env \<Rightarrow> user \<Rightarrow> user option \<Rightarrow> v0_user world_action" where
  "user_into E UE u perspective =
     andthen (if user_bot u \<noteq> None then ret (NoRelation, True)
       else case perspective of
         Some p \<Rightarrow>
           if user_id p = user_id u then ret (RelUser, True)
           else andthen (query_user_permissions E (use_user u (new_query p))) (\<lambda>perms.
             ret (listed_status p (user_id u), has_user_permission perms ViewProfile))
       | None \<Rightarrow> ret (NoRelation, False)) (\<lambda>(relationship, can_see_profile).
     andthen (get_badges E UE u) (\<lambda>bs.
     ret (render_user u bs (case perspective of Some p \<Rightarrow> if user_id p = user_id u then own_relations u else [] | None \<Rightarrow> [])
       relationship (can_see_profile \<and> env_online E (user_id u)) can_see_profile)))"

definition user_into_known :: "env \<Rightarrow> users_env \<Rightarrow> user \<Rightarrow> user option \<Rightarrow> bool \<Rightarrow> v0_user world_action" where
  "user_into_known E UE u perspective is_online =
     (let (relationship, can_see_profile) =
        (if user_bot u \<noteq> None then (NoRelation, True)
         else case perspective of
           Some p \<Rightarrow>
             if user_id p = user_id u then (RelUser, True)
             else (listed_status p (user_id u), listed_status p (user_id u) \<noteq> BlockedOther)
         | None \<Rightarrow> (NoRelation, False)) in
      andthen (get_badges E UE u) (\<lambda>bs. ret (render_user u bs [] relationship (can_see_profile \<and> is_online) can_see_profile)))"

definition user_into_known_static :: "env \<Rightarrow> users_env \<Rightarrow> user \<Rightarrow> bool \<Rightarrow> v0_user world_action" where
  "user_into_known_static E UE u is_online =
     andthen (get_badges E UE u) (\<lambda>bs. ret (render_user u bs [] NoRelation is_online True))"

definition user_into_self :: "env \<Rightarrow> users_env \<Rightarrow> user \<Rightarrow> bool \<Rightarrow> v0_user world_action" where
  "user_into_self E UE u force_online =
     andthen (get_badges E UE u) (\<lambda>bs. ret (render_user u bs (own_relations u) RelUser (force_online \<or> env_online E (user_id u)) True))"

text \<open>\<open>join_all(..)\<close> over a list, in its order.\<close>

fun map_action :: "('a \<Rightarrow> 'b world_action) \<Rightarrow> 'a list \<Rightarrow> 'b list world_action" where
  "map_action f [] = ret []"
| "map_action f (x # xs) = andthen (f x) (\<lambda>y. andthen (map_action f xs) (\<lambda>ys. ret (y # ys)))"

definition fetch_many_ids_as_mutuals :: "env \<Rightarrow> users_env \<Rightarrow> user \<Rightarrow> string list \<Rightarrow> v0_user list world_action" where
  "fetch_many_ids_as_mutuals E UE perspective ids =
     andthen (on_db (fetch_users ids)) (\<lambda>us.
       map_action (\<lambda>u. user_into_known E UE u (Some perspective) (user_id u \<in> set ids \<and> env_online E (user_id u))) us)"

section \<open>Routes\<close>

text \<open>The outcome of validating a request and of the password check are arguments, as are new ids. An answer is the rendered
  user where the source renders one.\<close>

definition route_change_username ::
    "env \<Rightarrow> users_env \<Rightarrow> unit result \<Rightarrow> bool \<Rightarrow> string \<Rightarrow> string \<Rightarrow> user \<Rightarrow> string \<Rightarrow> v0_user world_action" where
  "route_change_username E UE validation password_ok limit_id event_id u name =
     andthen (lift validation) (\<lambda>_.
       if \<not> password_ok then throw InvalidCredentials
       else andthen (update_username E UE limit_id event_id u name) (\<lambda>u'. user_into E UE u' None))"

text \<open>\<open>DataEditUser\<close> and \<open>DataUserProfile\<close>. The fields to remove are those of the wire format; \<open>Internal\<close> becomes \<open>None\<close>.\<close>

datatype v0_fields_user =
    V0Avatar | V0StatusText | V0StatusPresence | V0ProfileContent | V0ProfileBackground | V0DisplayName | V0Internal

primrec fields_user_of :: "v0_fields_user \<Rightarrow> fields_user" where
  "fields_user_of V0Avatar = UserAvatar"
| "fields_user_of V0ProfileBackground = UserProfileBackground"
| "fields_user_of V0ProfileContent = UserProfileContent"
| "fields_user_of V0StatusPresence = UserStatusPresence"
| "fields_user_of V0StatusText = UserStatusText"
| "fields_user_of V0DisplayName = UserDisplayName"
| "fields_user_of V0Internal = UserNone"

record data_edit_user =
  deu_display_name :: "string option"
  deu_avatar :: "string option"
  deu_status :: "user_status option"
  deu_profile :: "(string option \<times> string option) option"
  deu_badges :: "int option"
  deu_flags :: "int option"
  deu_remove :: "v0_fields_user list"

definition edits_nothing :: "data_edit_user \<Rightarrow> bool" where
  "edits_nothing data \<longleftrightarrow> deu_display_name data = None \<and> deu_status data = None \<and> deu_profile data = None \<and> deu_avatar data = None
     \<and> deu_badges data = None \<and> deu_flags data = None \<and> deu_remove data = []"

definition edited_user :: "user \<Rightarrow> string \<Rightarrow> user world_action" where
  "edited_user u target =
     (if target \<noteq> ''@me'' \<and> target \<noteq> user_id u
      then andthen (on_db (fetch_user target)) (\<lambda>t.
        if \<not> (case user_bot t of Some b \<Rightarrow> bot_owner b = user_id u | None \<Rightarrow> False) \<and> \<not> privileged u then throw NotPrivileged
        else ret t)
      else ret u)"

definition release_files :: "v0_fields_user list \<Rightarrow> user \<Rightarrow> unit world_action" where
  "release_files remove u =
     andthen (case user_avatar u of
        Some f \<Rightarrow> if V0Avatar \<in> set remove then on_db (mark_attachment_as_deleted (file_id f)) else ret () | None \<Rightarrow> ret ()) (\<lambda>_.
     case user_profile u of
        Some p \<Rightarrow> (case profile_background p of
          Some f \<Rightarrow> if V0ProfileBackground \<in> set remove then on_db (mark_attachment_as_deleted (file_id f)) else ret ()
        | None \<Rightarrow> ret ())
      | None \<Rightarrow> ret ())"

definition new_status :: "user \<Rightarrow> user_status \<Rightarrow> user_status" where
  "new_status u s =
     (let old = (case user_status u of Some x \<Rightarrow> x | None \<Rightarrow> \<lparr>status_text = None, status_presence = None\<rparr>)
      in \<lparr>status_text = replace_if (status_text s) (status_text old), status_presence = replace_if (status_presence s) (status_presence old)\<rparr>)"

definition new_profile :: "user \<Rightarrow> string option \<Rightarrow> stored_file option \<Rightarrow> user_profile" where
  "new_profile u content background =
     (let old = (case user_profile u of Some x \<Rightarrow> x | None \<Rightarrow> \<lparr>profile_content = None, profile_background = None\<rparr>)
      in \<lparr>profile_content = replace_if content (profile_content old), profile_background = replace_if background (profile_background old)\<rparr>)"

text \<open>A claimed file, when one is named.\<close>

definition claim :: "(string \<Rightarrow> stored_file db_action) \<Rightarrow> string option \<Rightarrow> stored_file option world_action" where
  "claim use i = (case i of Some x \<Rightarrow> andthen (on_db (use x)) (\<lambda>f. ret (Some f)) | None \<Rightarrow> ret None)"

text \<open>\<open>take\<close> empties the status and profile of the copy, which \<open>update\<close> then fills again from the partial.\<close>

definition route_edit_user :: "env \<Rightarrow> users_env \<Rightarrow> unit result \<Rightarrow> string \<Rightarrow> user \<Rightarrow> string \<Rightarrow> data_edit_user \<Rightarrow> v0_user world_action" where
  "route_edit_user E UE validation event_id me target data =
     andthen (lift validation) (\<lambda>_.
       if \<not> privileged me \<and> (deu_badges data \<noteq> None \<or> deu_flags data \<noteq> None) then throw NotPrivileged
       else andthen (edited_user me target) (\<lambda>u0.
       if edits_nothing data then user_into_self E UE u0 False
       else
       andthen (release_files (deu_remove data) u0) (\<lambda>_.
       let u = fold user_remove_field (map fields_user_of (deu_remove data)) u0 in
       andthen (claim (\<lambda>i. use_user_avatar i (user_id u) (user_id u)) (deu_avatar data)) (\<lambda>avatar.
       andthen (claim (\<lambda>i. use_background i (user_id u) (user_id u)) (case deu_profile data of Some (_, b) \<Rightarrow> b | None \<Rightarrow> None)) (\<lambda>background.
       let partial = partial_user_default\<lparr>pu_display_name := deu_display_name data, pu_badges := deu_badges data,
             pu_flags := deu_flags data, pu_avatar := avatar,
             pu_status := map_option (new_status u) (deu_status data),
             pu_profile := map_option (\<lambda>(content, _). new_profile u content background) (deu_profile data)\<rparr>;
           u' = u\<lparr>user_status := (if deu_status data = None then user_status u else None),
                  user_profile := (if deu_profile data = None then user_profile u else None)\<rparr> in
       andthen (user_update E event_id u' partial (map fields_user_of (deu_remove data))) (\<lambda>u''.
       user_into_self E UE u'' False))))))"

definition route_open_dm :: "env \<Rightarrow> string \<Rightarrow> user \<Rightarrow> string \<Rightarrow> channel world_action" where
  "route_open_dm E new_id u target =
     andthen (on_db (fetch_user target)) (\<lambda>t.
     andthen (query_user_permissions E (use_user t (new_query u))) (\<lambda>p.
     andthen (lift (throw_if_lacking_user_permission p SendUserMessage)) (\<lambda>_.
     create_dm new_id u t)))"

definition route_fetch_user :: "env \<Rightarrow> users_env \<Rightarrow> user \<Rightarrow> string \<Rightarrow> v0_user world_action" where
  "route_fetch_user E UE u target =
     (if user_id u = target then user_into_self E UE u False
      else
        andthen (on_db (fetch_user target)) (\<lambda>t.
        andthen (query_user_permissions E (use_user t (new_query u))) (\<lambda>p.
        andthen (lift (throw_if_lacking_user_permission p Access)) (\<lambda>_.
        user_into E UE t (Some u)))))"

definition shown_profile :: "user \<Rightarrow> user_profile" where
  "shown_profile u = (case user_profile u of Some p \<Rightarrow> p | None \<Rightarrow> \<lparr>profile_content = None, profile_background = None\<rparr>)"

definition route_fetch_profile :: "env \<Rightarrow> user \<Rightarrow> string \<Rightarrow> user_profile world_action" where
  "route_fetch_profile E u target =
     (if user_id u = target then ret (shown_profile u)
      else
        andthen (on_db (fetch_user target)) (\<lambda>t.
        andthen (query_user_permissions E (use_user t (new_query u))) (\<lambda>p.
        andthen (lift (throw_if_lacking_user_permission p ViewProfile)) (\<lambda>_.
        ret (shown_profile t)))))"

definition route_mutual :: "env \<Rightarrow> user \<Rightarrow> string \<Rightarrow> (string list \<times> string list \<times> string list) world_action" where
  "route_mutual E u target =
     (if target = user_id u then throw InvalidOperation
      else
        andthen (on_db (fetch_user target)) (\<lambda>t.
        andthen (query_user_permissions E (use_user t (new_query u))) (\<lambda>p.
        andthen (lift (throw_if_lacking_user_permission p ViewProfile)) (\<lambda>_.
        andthen (on_db (fetch_mutual_user_ids (user_id u) (user_id t))) (\<lambda>users.
        andthen (on_db (fetch_mutual_server_ids (user_id u) (user_id t))) (\<lambda>servers.
        andthen (on_db (fetch_mutual_channel_ids (user_id u) (user_id t))) (\<lambda>channels.
        ret (users, servers, channels))))))))"

definition route_fetch_user_flags :: "string \<Rightarrow> int world_action" where
  "route_fetch_user_flags target =
     andthen (attempt (on_db (fetch_user target))) (\<lambda>t.
     ret (case t of Some u \<Rightarrow> (case user_flags u of Some x \<Rightarrow> x | None \<Rightarrow> 0) | None \<Rightarrow> 0))"

text \<open>The number of the picture that a default avatar shows; \<open>unwrap\<close> of the last character panics on an empty id.\<close>

definition default_avatar :: "string \<Rightarrow> nat world_action" where
  "default_avatar target =
     (if target = [] then panic
      else let c = last target in
        ret (if c \<in> set ''0123SZ'' then 2 else if c \<in> set ''4567T'' then 3 else if c \<in> set ''89AB'' then 4
             else if c \<in> set ''CDEFV'' then 5 else if c \<in> set ''GHJKW'' then 6 else if c \<in> set ''MNPQX'' then 7 else 1))"

definition route_onboard_complete ::
    "env \<Rightarrow> users_env \<Rightarrow> unit result \<Rightarrow> string \<Rightarrow> string \<Rightarrow> string \<Rightarrow> user option \<Rightarrow> string \<Rightarrow> v0_user world_action" where
  "route_onboard_complete E UE validation new_id event_id session_user u name =
     (if u \<noteq> None then throw AlreadyOnboarded
      else
        andthen (lift validation) (\<lambda>_.
        andthen (user_create E UE new_id event_id name (Some session_user) None) (\<lambda>created.
        user_into_self E UE created False)))"

text \<open>Settings and policy changes.\<close>

definition user_settings_set :: "user_settings \<Rightarrow> string \<Rightarrow> unit world_action" where
  "user_settings_set settings uid =
     andthen (on_db (set_user_settings uid settings)) (\<lambda>_.
     publish_private (UserSettingsUpdate uid settings) uid)"

definition route_set_settings :: "env \<Rightarrow> user \<Rightarrow> (string, string) hashmap \<Rightarrow> i64 option \<Rightarrow> unit world_action" where
  "route_set_settings E u data stamp =
     (let current_time = env_now E;
          time = (case stamp of Some t \<Rightarrow> if t > current_time then current_time else t | None \<Rightarrow> current_time);
          settings = fold (\<lambda>(k, v) m. AList.update k (time, v) m) data []
      in user_settings_set settings (user_id u))"

definition route_get_settings :: "user \<Rightarrow> string list \<Rightarrow> user_settings world_action" where
  "route_get_settings u keys = on_db (fetch_user_settings (user_id u) keys)"

definition route_get_unreads :: "user \<Rightarrow> channel_unread list world_action" where
  "route_get_unreads u = on_db (fetch_unreads (user_id u))"

definition route_acknowledge_policy_changes :: "user \<Rightarrow> unit world_action" where
  "route_acknowledge_policy_changes u = on_db (acknowledge_policy_changes (user_id u))"

definition route_fetch_dms :: "user \<Rightarrow> channel list world_action" where
  "route_fetch_dms u = on_db (find_direct_messages (user_id u))"

section \<open>Names stay unique\<close>

text \<open>The name of a user up to case, with its discriminator. No two stored users share it.\<close>

definition tag :: "users_env \<Rightarrow> user \<Rightarrow> string \<times> string" where
  "tag UE u = (ue_lower UE (username u), discriminator u)"

definition tags_unique :: "users_env \<Rightarrow> (string, user) hashmap \<Rightarrow> bool" where
  "tags_unique UE t \<longleftrightarrow> hm_wf t \<and> (\<forall>i u. map_of t i = Some u \<longrightarrow> user_id u = i)
     \<and> (\<forall>i j u v. map_of t i = Some u \<longrightarrow> map_of t j = Some v \<longrightarrow> tag UE u = tag UE v \<longrightarrow> i = j)"

abbreviation names_ok :: "users_env \<Rightarrow> world \<Rightarrow> bool" where
  "names_ok UE w \<equiv> tags_unique UE (db_users (db w))"

lemma tags_unique_update:
  assumes "tags_unique UE t" and "user_id u = i" and "\<And>j v. map_of t j = Some v \<Longrightarrow> j \<noteq> i \<Longrightarrow> tag UE v \<noteq> tag UE u"
  shows "tags_unique UE (AList.update i u t)"
  using assms unfolding tags_unique_def by (auto simp: hm_lookup_update) (metis)+

lemma finite_search_space: "finite DISCRIMINATOR_SEARCH_SPACE"
  by (simp add: DISCRIMINATOR_SEARCH_SPACE_def)

text \<open>Rendering an answer changes nothing, and claiming or releasing a file leaves the users alone.\<close>

lemma rendering_unchanged [simp]:
  "unchanged f (get_badges E UE u)" "unchanged f (query_user_permissions E q)" "unchanged f (user_into E UE u p)"
  "unchanged f (user_into_known E UE u p b)" "unchanged f (user_into_known_static E UE u b)" "unchanged f (user_into_self E UE u b)"
proof -
  show badges [simp]: "unchanged f (get_badges E UE u)" for u by (simp add: get_badges_def Let_def split: option.split)
  show perms [simp]: "unchanged f (query_user_permissions E q)" for q by (simp add: unchanged_def query_user_permissions_def)
  show "unchanged f (user_into E UE u p)"
    unfolding user_into_def by (auto intro!: unchanged_andthen split: option.split)
  show "unchanged f (user_into_known E UE u p b)" "unchanged f (user_into_known_static E UE u b)" "unchanged f (user_into_self E UE u b)"
    unfolding user_into_known_def user_into_known_static_def user_into_self_def Let_def
    by (auto intro!: unchanged_andthen split: option.split prod.split)
qed

lemma files_leave_users [simp]:
  "unchanged (\<lambda>w. db_users (db w)) (on_db (mark_attachment_as_deleted i))"
  "unchanged (\<lambda>w. db_users (db w)) (release_files fs u)"
  "unchanged (\<lambda>w. db_users (db w)) (claim (\<lambda>i. use_user_avatar i a b) j)"
  "unchanged (\<lambda>w. db_users (db w)) (claim (\<lambda>i. use_background i a b) j)"
proof -
  show mark [simp]: "unchanged (\<lambda>w. db_users (db w)) (on_db (mark_attachment_as_deleted i))" for i
    by (auto simp: unchanged_def on_db_def mark_attachment_as_deleted_def table_change_def andthen_def gets_def modify_def throw_def
        split: option.split)
  show "unchanged (\<lambda>w. db_users (db w)) (release_files fs u)"
    unfolding release_files_def by (auto intro!: unchanged_andthen split: option.split)
  have [simp]: "unchanged (\<lambda>w. db_users (db w)) (on_db (find_and_use_attachment i t f n))" for i t f n
    by (auto simp: unchanged_def on_db_def find_and_use_attachment_def Let_def andthen_def gets_def modify_def throw_def ret_def
        split: option.split)
  show "unchanged (\<lambda>w. db_users (db w)) (claim (\<lambda>i. use_user_avatar i a b) j)"
    "unchanged (\<lambda>w. db_users (db w)) (claim (\<lambda>i. use_background i a b) j)"
    unfolding claim_def use_user_avatar_def use_background_def by (auto intro!: unchanged_andthen split: option.split)
qed

text \<open>What is assumed of the parameters.\<close>

locale account_laws = users_env_laws UE + iteration_laws "env_iteration E" + optional_struct_laws "env_structs E"
  for UE :: users_env and E :: env
begin

text \<open>A discriminator that was found is not in use with the name.\<close>

lemma find_discriminator_free:
  assumes "find_discriminator E UE ev name preferred w = (Ok s, w')"
  shows "s \<in> DISCRIMINATOR_SEARCH_SPACE"
    and "map_of (db_users (db w)) i = Some u \<Longrightarrow> ue_lower UE (username u) = ue_lower UE name \<Longrightarrow> discriminator u \<noteq> s"
    and "db_users (db w') = db_users (db w)"
proof -
  let ?used = "set (map discriminator (filter (\<lambda>u. ue_lower UE (username u) = ue_lower UE name) (hm_values (db_users (db w)))))"
  let ?free = "env_iteration E (DISCRIMINATOR_SEARCH_SPACE - ?used)"
  have set: "set ?free = DISCRIMINATOR_SEARCH_SPACE - ?used" by (rule order_set) (simp add: finite_search_space)
  have nonempty: "?free \<noteq> []" using assms by (auto simp: find_discriminator_def fetch_discriminators_in_use_def throw_def)
  obtain x where x: "x \<in> set ?free" "ue_choose UE ?free = Some x" using choose [OF nonempty] by blast
  have pick: "s \<in> set ?free \<and> db_users (db w') = db_users (db w)"
  proof (cases preferred)
    case None
    with assms nonempty x show ?thesis
      by (simp add: find_discriminator_def fetch_discriminators_in_use_def unwrap_def ret_def)
  next
    case (Some p)
    with assms nonempty x show ?thesis
      by (auto simp: find_discriminator_def fetch_discriminators_in_use_def has_ratelimited_def unwrap_def ret_def throw_def andthen_def gets_def
          ratelimit_event_create_def on_db_def insert_ratelimit_event_def table_insert_def modify_def split: if_splits prod.splits)
  qed
  then show "s \<in> DISCRIMINATOR_SEARCH_SPACE" "db_users (db w') = db_users (db w)" using set by auto
  assume "map_of (db_users (db w)) i = Some u" "ue_lower UE (username u) = ue_lower UE name"
  then have "discriminator u \<in> ?used" by (force dest: map_of_SomeD)
  with pick set show "discriminator u \<noteq> s" by auto
qed

lemma find_discriminator_keeps_users: "unchanged (\<lambda>w. db_users (db w)) (find_discriminator E UE ev name preferred)"
proof -
  have "unchanged (\<lambda>w. db_users (db w)) (ratelimit_event_create i t k)" for i t k
    by (auto simp: unchanged_def ratelimit_event_create_def on_db_def insert_ratelimit_event_def table_insert_def andthen_def gets_def
        modify_def throw_def)
  then show ?thesis
    unfolding find_discriminator_def fetch_discriminators_in_use_def has_ratelimited_def Let_def
    by (auto intro!: unchanged_andthen split: option.split)
qed

lemma user_remove_field_names [simp]:
  "user_id (fold user_remove_field fs u) = user_id u" "username (fold user_remove_field fs u) = username u"
  "discriminator (fold user_remove_field fs u) = discriminator u"
proof -
  have "user_id (user_remove_field f u) = user_id u \<and> username (user_remove_field f u) = username u
    \<and> discriminator (user_remove_field f u) = discriminator u" for f u by (cases f) simp_all
  then show "user_id (fold user_remove_field fs u) = user_id u" "username (fold user_remove_field fs u) = username u"
    "discriminator (fold user_remove_field fs u) = discriminator u" by (induction fs arbitrary: u) simp_all
qed

lemma apply_user_names [simp]:
  "user_id (apply_user (env_structs E) p u) = set_if (pu_id p) (user_id u)"
  "username (apply_user (env_structs E) p u) = set_if (pu_username p) (username u)"
  "discriminator (apply_user (env_structs E) p u) = set_if (pu_discriminator p) (discriminator u)"
  by (simp_all add: apply_user)

lemma user_update_db:
  assumes "pu_id p = None"
  shows "db (snd (user_update E ev self p remove w)) = snd (update_user (env_structs E) (user_id self) p remove (db w))"
proof -
  let ?u = "apply_user (env_structs E) p (fold user_remove_field remove self)"
  have id: "user_id ?u = user_id self" using assms by (simp add: set_if_def)
  obtain r d where r: "update_user (env_structs E) (user_id self) p remove (db w) = (r, d)" by fastforce
  obtain x w2 where pub: "publish_user (UserUpdate (user_id self) p remove (Some ev)) (user_id self) (w\<lparr>db := d\<rparr>) = (x, w2)" by fastforce
  have "x = Ok ()" "db w2 = d"
    using publish_user_db [of "UserUpdate (user_id self) p remove (Some ev)" "user_id self" "w\<lparr>db := d\<rparr>"] by (simp_all add: pub)
  with r id pub show ?thesis
    by (cases r) (simp_all add: user_update_def Let_def on_db_def andthen_def ret_def)
qed

lemma user_update_names:
  assumes "names_ok UE w" and "pu_id p = None"
    and "\<And>u0 j v. map_of (db_users (db w)) (user_id self) = Some u0 \<Longrightarrow> map_of (db_users (db w)) j = Some v \<Longrightarrow> j \<noteq> user_id self
      \<Longrightarrow> tag UE v \<noteq> (ue_lower UE (set_if (pu_username p) (username u0)), set_if (pu_discriminator p) (discriminator u0))"
  shows "names_ok UE (snd (user_update E ev self p remove w))"
proof (cases "map_of (db_users (db w)) (user_id self)")
  case None
  with assms show ?thesis
    by (simp add: user_update_db update_user_def table_change_def throw_def)
next
  case (Some u0)
  let ?u = "apply_user (env_structs E) p (fold user_remove_field remove u0)"
  have id: "user_id u0 = user_id self" using assms(1) Some by (simp add: tags_unique_def)
  have "tags_unique UE (AList.update (user_id self) ?u (db_users (db w)))"
    by (rule tags_unique_update [OF assms(1)]) (use assms(2,3) Some id in \<open>auto simp: set_if_def tag_def\<close>)
  moreover have "db (snd (user_update E ev self p remove w)) = db_users_update (AList.update (user_id self) ?u) (db w)"
    using Some by (simp add: user_update_db [OF assms(2)] update_user_def table_change_def modify_def)
  ultimately show ?thesis by simp
qed

lemma user_create_names:
  assumes "names_ok UE w" and "\<And>p. data = Some p \<Longrightarrow> pu_id p = None \<and> pu_username p = None \<and> pu_discriminator p = None"
  shows "names_ok UE (snd (user_create E UE i ev name account data w))"
proof -
  have main: "names_ok UE (snd (andthen (find_discriminator E UE ev n None) (\<lambda>d.
       let u = user_default\<lparr>user_id := k, discriminator := d, username := n, last_acknowledged_policy_change := env_now E\<rparr>;
           u' = (case data of Some p \<Rightarrow> apply_user (env_structs E) p u | None \<Rightarrow> u) in
       andthen (on_db (insert_user u')) (\<lambda>_. ret u')) w))" (is "names_ok UE (snd (andthen _ ?f w))") for n k
  proof (cases "find_discriminator E UE ev n None w")
    case (Pair r w1)
    with unchangedD [OF find_discriminator_keeps_users] have users: "db_users (db w1) = db_users (db w)" by blast
    show ?thesis
    proof (cases r)
      case (Ok d)
      let ?u = "user_default\<lparr>user_id := k, discriminator := d, username := n, last_acknowledged_policy_change := env_now E\<rparr>"
      let ?v = "case data of Some p \<Rightarrow> apply_user (env_structs E) p ?u | None \<Rightarrow> ?u"
      have v: "user_id ?v = k" "username ?v = n" "discriminator ?v = d" using assms(2) by (auto simp: set_if_def split: option.split)
      have "tags_unique UE (AList.update k ?v (db_users (db w)))"
        using find_discriminator_free(2) [OF Pair [unfolded Ok]] v by (intro tags_unique_update [OF assms(1)]) (auto simp: tag_def)
      with assms(1) Pair Ok users v show ?thesis
        by (simp add: andthen_def Let_def on_db_def insert_user_def table_insert_def gets_def modify_def throw_def ret_def)
    qed (use assms(1) Pair users in \<open>simp_all add: andthen_def\<close>)
  qed
  then show ?thesis using assms(1) by (simp add: user_create_def andthen_lift split: outcome.split)
qed

lemma update_username_names:
  assumes "names_ok UE w" and "map_of (db_users (db w)) (user_id self) = Some self"
  shows "names_ok UE (snd (update_username E UE li ev self name w))"
proof -
  have unique: "map_of (db_users (db w)) j = Some v \<Longrightarrow> j \<noteq> user_id self \<Longrightarrow> tag UE v \<noteq> tag UE self" for j v
    using assms unfolding tags_unique_def by metis
  have same: "names_ok UE (snd (user_update E ev self (partial_user_default\<lparr>pu_username := Some n\<rparr>) [] w))"
    if "ue_lower UE (username self) = ue_lower UE n" for n
    using assms(2) unique that
    by (intro user_update_names [OF assms(1)]) (auto simp: partial_defaults set_if_def tag_def)
  have new: "names_ok UE (snd (andthen (find_discriminator E UE li n pref) (\<lambda>d.
         user_update E ev self (partial_user_default\<lparr>pu_username := Some n, pu_discriminator := Some d\<rparr>) []) w))" for n pref
  proof (cases "find_discriminator E UE li n pref w")
    case (Pair r w1)
    with unchangedD [OF find_discriminator_keeps_users] have users: "db_users (db w1) = db_users (db w)" by blast
    show ?thesis
    proof (cases r)
      case (Ok d)
      have "names_ok UE (snd (user_update E ev self (partial_user_default\<lparr>pu_username := Some n, pu_discriminator := Some d\<rparr>) [] w1))"
        using find_discriminator_free(2) [OF Pair [unfolded Ok]] assms(1) users
        by (intro user_update_names) (auto simp: partial_defaults set_if_def tag_def)
      with Pair Ok show ?thesis by (simp add: andthen_def)
    qed (use assms(1) Pair users in \<open>simp_all add: andthen_def\<close>)
  qed
  show ?thesis using assms(1) same new by (auto simp: update_username_def andthen_lift split: outcome.split)
qed

lemma mark_deleted_names:
  assumes "names_ok UE w" and "\<And>j v. map_of (db_users (db w)) j = Some v \<Longrightarrow> j \<noteq> user_id self
      \<Longrightarrow> ue_lower UE (username v) \<noteq> ue_lower UE (deleted_name (user_id self))"
  shows "names_ok UE (snd (mark_deleted E ev self w))"
  unfolding mark_deleted_def using assms(2)
  by (intro user_update_names [OF assms(1)]) (auto simp: partial_defaults set_if_def tag_def)

text \<open>An update that names no user name.\<close>

lemma plain_update_names:
  assumes "names_ok UE w" and "pu_id p = None" "pu_username p = None" "pu_discriminator p = None"
  shows "names_ok UE (snd (user_update E ev self p remove w))"
proof (rule user_update_names [OF assms(1,2)])
  fix u0 j v assume "map_of (db_users (db w)) (user_id self) = Some u0" "map_of (db_users (db w)) j = Some v" "j \<noteq> user_id self"
  with assms(1) have "tag UE v \<noteq> tag UE u0" unfolding tags_unique_def by metis
  with assms(3,4) show "tag UE v \<noteq> (ue_lower UE (set_if (pu_username p) (username u0)), set_if (pu_discriminator p) (discriminator u0))"
    by (simp add: tag_def set_if_def)
qed

lemma fetch_leaves_users [simp]: "unchanged (\<lambda>w. db_users (db w)) (on_db (fetch_user i))"
  by (simp add: unchanged_def on_db_def fetch_user_def users.fetch split: option.split)

lemma keeps_names: "unchanged (\<lambda>w. db_users (db w)) m \<Longrightarrow> keeps (names_ok UE) m"
  by (rule keeps_unchanged)

lemma keeps_names_plain [simp]:
  "keeps (names_ok UE) (lift r)" "keeps (names_ok UE) (user_into E UE u p)" "keeps (names_ok UE) (user_into_self E UE u b)"
  "keeps (names_ok UE) (release_files fs u)" "keeps (names_ok UE) (claim (\<lambda>i. use_user_avatar i x y) j)"
  "keeps (names_ok UE) (claim (\<lambda>i. use_background i x y) j)" "keeps (names_ok UE) (on_db (fetch_user k))"
  "keeps (names_ok UE) (edited_user me target)"
  by (rule keeps_names, simp)+ (auto simp: edited_user_def intro!: keeps_names unchanged_andthen)

lemma route_change_username_names:
  assumes "names_ok UE w" and "map_of (db_users (db w)) (user_id u) = Some u"
  shows "names_ok UE (snd (route_change_username E UE validation pw li ev u name w))"
proof -
  have "names_ok UE (snd (andthen (update_username E UE li ev u name) (\<lambda>u'. user_into E UE u' None) w))"
    by (rule snd_andthen_keeps) (simp_all add: update_username_names assms)
  with assms(1) show ?thesis by (simp add: route_change_username_def andthen_lift throw_def split: outcome.split)
qed

lemma route_onboard_names:
  "names_ok UE w \<Longrightarrow> names_ok UE (snd (route_onboard_complete E UE validation i ev session_user u name w))"
proof -
  assume w: "names_ok UE w"
  have "names_ok UE (snd (andthen (user_create E UE i ev name (Some session_user) None) (\<lambda>c. user_into_self E UE c False) w))"
  proof (rule snd_andthen_keeps)
    show "names_ok UE (snd (user_create E UE i ev name (Some session_user) None w))" by (rule user_create_names [OF w]) simp
  qed simp
  with w show ?thesis by (simp add: route_onboard_complete_def andthen_lift throw_def split: outcome.split)
qed

lemma route_edit_user_names: "keeps (names_ok UE) (route_edit_user E UE validation ev me target data)"
proof -
  have update: "keeps (names_ok UE) (user_update E ev u (partial_user_default\<lparr>pu_display_name := a, pu_badges := b, pu_flags := c,
      pu_avatar := d, pu_status := e, pu_profile := f\<rparr>) remove)" for u a b c d e f remove
    by (rule keepsI, rule plain_update_names) (simp_all add: partial_defaults)
  show ?thesis
    unfolding route_edit_user_def Let_def by (auto intro!: keeps_andthen update)
qed

lemma user_suspend_names: "keeps (names_ok UE) (user_suspend E A ev self days reason)"
proof -
  have "keeps (names_ok UE) (user_update E ev self (partial_user_default\<lparr>pu_flags := a, pu_suspended_until := b\<rparr>) [])" for a b
    by (rule keepsI, rule plain_update_names) (simp_all add: partial_defaults)
  then show ?thesis
    unfolding user_suspend_def answered_def by (auto intro!: keeps_andthen)
qed

end

section \<open>The search space\<close>

lemma digit_char: "n < 10 \<Longrightarrow> (of_char (char_of (48 + n :: nat)) :: nat) = 48 + n"
  by simp

lemma format_four:
  assumes "v < 10000"
  shows "format_discriminator v =
    [char_of (48 + v div 1000), char_of (48 + v div 100 mod 10), char_of (48 + v div 10 mod 10), char_of (48 + v mod 10)]"
proof -
  have zero: "CHR ''0'' = char_of (48 :: nat)" by code_simp
  consider "v < 10" | "10 \<le> v" "v < 100" | "100 \<le> v" "v < 1000" | "1000 \<le> v" by linarith
  then show ?thesis
  proof cases
    case 1
    then have "digits v = [char_of (48 + v)]" by (subst digits.simps) simp
    with 1 show ?thesis by (simp add: format_discriminator_def zero numeral_3_eq_3)
  next
    case 2
    then have "v div 10 < 10" by auto
    with 2 have "digits v = [char_of (48 + v div 10), char_of (48 + v mod 10)]"
      by (subst digits.simps, subst digits.simps) simp
    with 2 show ?thesis by (simp add: format_discriminator_def zero numeral_2_eq_2)
  next
    case 3
    then have "v div 10 \<ge> 10" "v div 10 div 10 < 10" by auto
    with 3 have "digits v = [char_of (48 + v div 100), char_of (48 + v div 10 mod 10), char_of (48 + v mod 10)]"
      by (subst digits.simps, subst digits.simps, subst digits.simps) (simp add: div_mult2_eq [symmetric])
    with 3 show ?thesis by (simp add: format_discriminator_def zero)
  next
    case 4
    with assms have "v div 10 \<ge> 10" "v div 10 div 10 \<ge> 10" "v div 10 div 10 div 10 < 10" by auto
    with 4 assms have "digits v = [char_of (48 + v div 1000), char_of (48 + v div 100 mod 10), char_of (48 + v div 10 mod 10), char_of (48 + v mod 10)]"
      by (subst digits.simps, subst digits.simps, subst digits.simps, subst digits.simps) (simp add: div_mult2_eq [symmetric])
    then show ?thesis by (simp add: format_discriminator_def)
  qed
qed

definition is_digit :: "char \<Rightarrow> bool" where
  "is_digit c \<longleftrightarrow> (of_char c :: nat) \<in> {48..57}"

definition discriminator_value :: "string \<Rightarrow> nat" where
  "discriminator_value s = foldl (\<lambda>n c. 10 * n + (of_char c - 48)) 0 s"

lemma discriminator_value_format:
  assumes "v < 10000"
  shows "discriminator_value (format_discriminator v) = v"
proof -
  have "10 * (10 * (10 * (v div 1000) + v div 100 mod 10) + v div 10 mod 10) + v mod 10 = v"
  proof -
    have "v div 10 div 10 = v div 100" "v div 100 div 10 = v div 1000" by (simp_all add: div_mult2_eq [symmetric])
    then have "v div 10 * 10 + v mod 10 = v" "v div 100 * 10 + v div 10 mod 10 = v div 10"
      "v div 1000 * 10 + v div 100 mod 10 = v div 100"
      using div_mult_mod_eq [of v 10] div_mult_mod_eq [of "v div 10" 10] div_mult_mod_eq [of "v div 100" 10] by simp_all
    then show ?thesis by (simp only: mult.commute [of 10])
  qed
  with assms show ?thesis by (simp add: format_four discriminator_value_def digit_char)
qed

lemma reserved_small: "v \<in> set reserved_discriminators \<Longrightarrow> v < 10000"
  by (auto simp: reserved_discriminators_def)

lemma search_space_values:
  "DISCRIMINATOR_SEARCH_SPACE = format_discriminator ` ({2..<9999} - set reserved_discriminators)"
proof -
  have "inj_on format_discriminator {..<10000}"
    by (rule inj_on_inverseI [where g = discriminator_value]) (simp add: discriminator_value_format)
  then have "inj_on format_discriminator ({2..<9999} \<union> set reserved_discriminators)"
    by (rule inj_on_subset) (auto dest: reserved_small)
  then show ?thesis unfolding DISCRIMINATOR_SEARCH_SPACE_def
    by (subst inj_on_image_set_diff [where C = "{2..<9999} \<union> set reserved_discriminators"]) auto
qed

lemma card_search_space: "card DISCRIMINATOR_SEARCH_SPACE = 9986"
proof -
  have "inj_on format_discriminator ({2..<9999} - set reserved_discriminators)"
    by (rule inj_on_inverseI [where g = discriminator_value]) (simp add: discriminator_value_format)
  then have "card DISCRIMINATOR_SEARCH_SPACE = card ({2..<9999 :: nat} - set reserved_discriminators)"
    by (simp add: search_space_values card_image)
  also have "\<dots> = card {2..<9999 :: nat} - card ({2..<9999} \<inter> set reserved_discriminators)"
    by (rule card_Diff_subset_Int) simp
  also have "{2..<9999} \<inter> set reserved_discriminators = set [123, 1234, 1111, 2222, 3333, 4444, 5555, 6666, 7777, 8888, 1488]"
    by (auto simp: reserved_discriminators_def)
  finally show ?thesis by simp
qed

lemma search_space_shape:
  assumes "s \<in> DISCRIMINATOR_SEARCH_SPACE"
  shows "length s = 4" and "list_all is_digit s" and "2 \<le> discriminator_value s" and "discriminator_value s < 9999"
    and "discriminator_value s \<notin> set reserved_discriminators"
  using assms by (auto simp: search_space_values discriminator_value_format, auto simp: format_four is_digit_def)

context account_laws
begin

lemma discriminator_found:
  assumes "length (filter (\<lambda>u. ue_lower UE (username u) = ue_lower UE name) (hm_values (db_users (db w)))) < 9986"
  shows "\<exists>s. find_discriminator E UE ev name None w = (Ok s, w) \<and> length s = 4 \<and> list_all is_digit s
     \<and> discriminator_value s \<notin> set reserved_discriminators
     \<and> list_all (\<lambda>u. ue_lower UE (username u) = ue_lower UE name \<longrightarrow> discriminator u \<noteq> s) (hm_values (db_users (db w)))"
proof -
  let ?same = "filter (\<lambda>u. ue_lower UE (username u) = ue_lower UE name) (hm_values (db_users (db w)))"
  let ?free = "env_iteration E (DISCRIMINATOR_SEARCH_SPACE - set (map discriminator ?same))"
  have set: "set ?free = DISCRIMINATOR_SEARCH_SPACE - set (map discriminator ?same)"
    by (rule order_set) (simp add: finite_search_space)
  have "card (set (map discriminator ?same)) < card DISCRIMINATOR_SEARCH_SPACE"
    using assms card_length [of "map discriminator ?same"] by (simp only: card_search_space length_map)
  then have "\<not> DISCRIMINATOR_SEARCH_SPACE \<subseteq> set (map discriminator ?same)" by (meson List.finite_set card_mono leD)
  with set have nonempty: "?free \<noteq> []" by fastforce
  then obtain s where s: "s \<in> set ?free" "ue_choose UE ?free = Some s" using choose by blast
  have "find_discriminator E UE ev name None w = (Ok s, w)"
    using nonempty s(2) by (simp add: find_discriminator_def fetch_discriminators_in_use_def unwrap_def ret_def)
  moreover have "s \<in> DISCRIMINATOR_SEARCH_SPACE" "s \<notin> set (map discriminator ?same)" using s(1) set by auto
  ultimately show ?thesis using search_space_shape by (auto simp: list_all_iff image_iff)
qed

end

section \<open>Sample data\<close>

definition sample_users_env :: users_env where
  "sample_users_env = \<lparr>ue_cure = Some, ue_lower = map ascii_lower, ue_choose = (\<lambda>xs. case xs of [] \<Rightarrow> None | x # _ \<Rightarrow> Some x),
     ue_min_username_length = 2, ue_early_adopter_cutoff = None\<rparr>"

interpretation sample_accounts: account_laws sample_users_env sample_env
proof -
  have "optional_struct_laws (env_structs sample_env)" by (simp add: sample_env_def merged.optional_struct_laws_axioms)
  moreover have "iteration_laws (env_iteration sample_env)" by (simp add: sample_env_def sorted_iteration.iteration_laws_axioms)
  moreover have "users_env_laws sample_users_env"
    by unfold_locales (auto simp: sample_users_env_def neq_Nil_conv)
  ultimately show "account_laws sample_users_env sample_env" by (simp add: account_laws_def)
qed

section \<open>Properties\<close>

text \<open>C36: a name has room for 9986 users. While fewer users carry a name, up to upper and lower case, looking for a discriminator succeeds:
  it gives four digits, none of the reserved ones, that no user of the name has, and changes no user.\<close>

theorem name_has_room:
  assumes "account_laws UE E"
    and "length (filter (\<lambda>u. ue_lower UE (username u) = ue_lower UE name) (hm_values (db_users (db w)))) < 9986"
  shows "\<exists>s. find_discriminator E UE ev name None w = (Ok s, w) \<and> length s = 4 \<and> list_all is_digit s
     \<and> discriminator_value s \<notin> set reserved_discriminators
     \<and> list_all (\<lambda>u. ue_lower UE (username u) = ue_lower UE name \<longrightarrow> discriminator u \<noteq> s) (hm_values (db_users (db w)))"
  using account_laws.discriminator_found [OF assms] .

theorem name_has_room_witness:
  "\<exists>s. find_discriminator sample_env sample_users_env ''e'' ''ann'' None (sample_world empty_db) = (Ok s, sample_world empty_db)
     \<and> length s = 4 \<and> list_all is_digit s"
  using name_has_room [OF sample_accounts.account_laws_axioms, of "''ann''" "sample_world empty_db" "''e''"]
  by (auto simp: sample_world_def empty_db_def)


definition invisible_user :: user where
  "invisible_user = user_default\<lparr>user_id := ''b'', user_bot := Some \<lparr>bot_owner = ''a''\<rparr>,
     user_status := Some \<lparr>status_text = Some ''x'', status_presence = Some Invisible\<rparr>,
     relations := Some [\<lparr>rel_id = ''c'', rel_status = Friend\<rparr>]\<rparr>"


end
