(* ===== verification/Oauth2.thy ===== *)
theory Oauth2
  imports World
begin

text \<open>
  The OAuth2 provider of the REST server, \<open>crates/delta/src/routes/oauth2/mod.rs\<close>: three process-wide maps (authorization codes,
  access tokens, refresh tokens), the routes \<open>login\<close> and \<open>authorize\<close>, \<open>token\<close> with its two grants, \<open>revoke\<close> and \<open>@me\<close>.

  A session belongs to the authentication library (\<open>authifier\<close>): its type is a parameter, with the two fields that are read as
  functions. So are the URL parser, the order in which a hash set is iterated, the settings and the clock. A request reads the clock
  in up to three places: when it cleans the maps, when it checks an expiry time and when it issues; the three readings are separate.
  The codes and tokens made by \<open>nanoid\<close> are arguments. The expiry times are 64-bit words and their sums wrap around, as in a release build.

  A trace is a list of requests with their answers, the latest first. The theorems are about every trace: a code is redeemed at most as
  often as it was issued, and every token goes back to a user who logged in for that client, with the scopes granted then.
\<close>

section \<open>State and messages\<close>

definition AUTH_CODE_TTL_SECONDS :: u64 where
  "AUTH_CODE_TTL_SECONDS = 10 * 60"

record 'session authorization_code_entry =
  ace_client_id :: string
  ace_user_id :: string
  ace_session :: 'session
  ace_redirect_uri :: string
  ace_scopes :: "string list"
  ace_expires_at :: u64

record access_token_entry =
  ate_client_id :: string
  ate_user_id :: string
  ate_scopes :: "string list"
  ate_expires_at :: u64
  ate_refresh_token :: string
  ate_refresh_expires_at :: u64

record 'session oauth2_state =
  auth_codes :: "(string, 'session authorization_code_entry) hashmap"
  access_tokens :: "(string, access_token_entry) hashmap"
  refresh_tokens :: "(string, string) hashmap"

record oauth2_login_query =
  lq_client_id :: string
  lq_redirect_uri :: string
  lq_response_type :: "string option"
  lq_scope :: "string option"
  lq_state :: "string option"

record oauth2_token_request =
  tq_grant_type :: string
  tq_code :: "string option"
  tq_redirect_uri :: "string option"
  tq_client_id :: "string option"
  tq_client_secret :: "string option"
  tq_refresh_token :: "string option"

record 'session oauth2_token_response =
  tr_access_token :: string
  tr_token_type :: string
  tr_expires_in :: u64
  tr_refresh_token :: string
  tr_scope :: string
  tr_session :: "'session option"

record oauth2_revoke_request =
  rq_token :: string
  rq_client_id :: string
  rq_client_secret :: "string option"

record oauth2_me_response =
  me_user_id :: string
  me_client_id :: string
  me_scope :: string
  me_expires_at :: u64

record oauth2_status_response =
  osr_enabled :: bool
  osr_issuer :: string

record oauth2_provider_config =
  oc_issuer :: string
  oc_access_token_lifetime :: u64
  oc_refresh_token_lifetime :: u64
  oc_supported_scopes :: string
  oc_allow_public_clients :: bool

text \<open>What a request reads from outside. \<open>oe_scheme\<close> is the scheme of a URL that parses, \<open>oe_with_query\<close> the URL
  with query pairs appended, printed.\<close>

record 'session oauth2_env =
  oe_cleanup_now :: u64
  oe_check_now :: u64
  oe_issue_now :: u64
  oe_settings :: oauth2_provider_config
  oe_scheme :: "string \<Rightarrow> string option"
  oe_with_query :: "string \<Rightarrow> (string \<times> string) list \<Rightarrow> string"
  oe_iteration :: "string set \<Rightarrow> string list"
  oe_session_token :: "'session \<Rightarrow> string"
  oe_session_user_id :: "'session \<Rightarrow> string"

type_synonym ('session, 'a) oauth2_action = "('session oauth2_state, error_type, 'a) action"

definition oauth2_start :: "'session oauth2_state" where
  "oauth2_start = \<lparr>auth_codes = [], access_tokens = [], refresh_tokens = []\<rparr>"

section \<open>Helpers\<close>

text \<open>\<open>char::is_whitespace\<close> on the characters of the model (code points below 256), \<open>str::trim\<close>, \<open>split\<close> with a
  predicate, which always yields at least one piece, and \<open>join(" ")\<close>.\<close>

definition is_whitespace :: "char \<Rightarrow> bool" where
  "is_whitespace c \<longleftrightarrow> (of_char c :: nat) \<in> {9, 10, 11, 12, 13, 32, 133, 160}"

definition str_trim :: "string \<Rightarrow> string" where
  "str_trim s = rev (dropWhile is_whitespace (rev (dropWhile is_whitespace s)))"

fun str_split :: "(char \<Rightarrow> bool) \<Rightarrow> string \<Rightarrow> string list" where
  "str_split p [] = [[]]"
| "str_split p (c # cs) = (if p c then [] # str_split p cs else (case str_split p cs of [] \<Rightarrow> [[c]] | x # xs \<Rightarrow> (c # x) # xs))"

fun join_scopes :: "string list \<Rightarrow> string" where
  "join_scopes [] = []"
| "join_scopes [x] = x"
| "join_scopes (x # y # ys) = x @ '' '' @ join_scopes (y # ys)"

definition scope_separator :: "char \<Rightarrow> bool" where
  "scope_separator c \<longleftrightarrow> c = CHR '','' \<or> is_whitespace c"

definition parse_scopes :: "string option \<Rightarrow> string list" where
  "parse_scopes value = filter (\<lambda>s. s \<noteq> []) (map str_trim (str_split scope_separator (case value of Some v \<Rightarrow> v | None \<Rightarrow> [])))"

definition is_valid_redirect_uri :: "'session oauth2_env \<Rightarrow> string \<Rightarrow> bool" where
  "is_valid_redirect_uri E uri =
     (case oe_scheme E uri of Some scheme \<Rightarrow> scheme = ''https'' \<or> scheme = ''http'' | None \<Rightarrow> False)"

text \<open>The loop of \<open>validate_scopes\<close> stops at the first scope that is not both supported and allowed.\<close>

fun push_scopes :: "string set \<Rightarrow> string set \<Rightarrow> string list \<Rightarrow> string list \<Rightarrow> (error_type, string list) outcome" where
  "push_scopes client_allowed provider_supported validated [] = Ok validated"
| "push_scopes client_allowed provider_supported validated (s # ss) =
     (if s \<notin> provider_supported \<or> s \<notin> client_allowed then Err InvalidOperation
      else push_scopes client_allowed provider_supported (validated @ [s]) ss)"

definition validate_scopes :: "string list \<Rightarrow> string set \<Rightarrow> string set \<Rightarrow> (error_type, string list) outcome" where
  "validate_scopes requested client_allowed provider_supported =
     (if requested = [] then Err InvalidOperation else push_scopes client_allowed provider_supported [] requested)"

definition validate_client_secret :: "bot_account \<Rightarrow> string option \<Rightarrow> bool \<Rightarrow> bool" where
  "validate_client_secret client provided_secret allow_public_clients =
     (case botacc_oauth2_client_secret client of
        Some secret \<Rightarrow> (case provided_secret of Some provided \<Rightarrow> provided = secret | None \<Rightarrow> False)
      | None \<Rightarrow> allow_public_clients)"

definition fetch_oauth_client :: "ref_db \<Rightarrow> string \<Rightarrow> ('session, bot_account) oauth2_action" where
  "fetch_oauth_client d client_id = map_err InvalidCredentials (lift (fst (fetch_bot_by_oauth2_client_id client_id d)))"

definition cleanup_oauth2_cache :: "u64 \<Rightarrow> 'session oauth2_state \<Rightarrow> 'session oauth2_state" where
  "cleanup_oauth2_cache now st =
     (let keep = (\<lambda>(_, e). ate_expires_at e > now \<or> ate_refresh_expires_at e > now);
          tokens = filter keep (access_tokens st);
          expired = filter (\<lambda>x. \<not> keep x) (access_tokens st);
          refresh = fold (\<lambda>(_, e). AList.delete (ate_refresh_token e)) expired (refresh_tokens st)
      in \<lparr>auth_codes = filter (\<lambda>(_, e). ace_expires_at e > now) (auth_codes st),
          access_tokens = tokens,
          refresh_tokens = filter (\<lambda>(_, a). hm_contains tokens a) refresh\<rparr>)"

text \<open>Removing from a map returns the entry; \<open>ok_or_else(..)?\<close> turns a missing one into an error.\<close>

definition or_fail :: "error_type \<Rightarrow> 'a option \<Rightarrow> ('session, 'a) oauth2_action" where
  "or_fail e x = (case x of Some y \<Rightarrow> ret y | None \<Rightarrow> throw e)"

definition require :: "bool \<Rightarrow> error_type \<Rightarrow> ('session, unit) oauth2_action" where
  "require b e = (if b then ret () else throw e)"

definition take_code :: "string \<Rightarrow> ('session, 'session authorization_code_entry option) oauth2_action" where
  "take_code code st = (Ok (map_of (auth_codes st) code), st\<lparr>auth_codes := AList.delete code (auth_codes st)\<rparr>)"

definition take_access_token :: "string \<Rightarrow> ('session, access_token_entry option) oauth2_action" where
  "take_access_token t st = (Ok (map_of (access_tokens st) t), st\<lparr>access_tokens := AList.delete t (access_tokens st)\<rparr>)"

definition take_refresh_token :: "string \<Rightarrow> ('session, string option) oauth2_action" where
  "take_refresh_token t st = (Ok (map_of (refresh_tokens st) t), st\<lparr>refresh_tokens := AList.delete t (refresh_tokens st)\<rparr>)"

section \<open>Operations\<close>

text \<open>The two random strings are the access token (used when there is no session) and the refresh token.\<close>

definition issue_tokens ::
    "'session oauth2_env \<Rightarrow> string \<Rightarrow> string \<Rightarrow> string \<Rightarrow> string \<Rightarrow> string list \<Rightarrow> 'session option
     \<Rightarrow> ('session, 'session oauth2_token_response) oauth2_action" where
  "issue_tokens E random_access refresh_token client_id uid scopes session =
     (let now = oe_issue_now E;
          settings = oe_settings E;
          access_token = (case session of Some s \<Rightarrow> oe_session_token E s | None \<Rightarrow> random_access);
          entry = \<lparr>ate_client_id = client_id, ate_user_id = uid, ate_scopes = scopes,
                   ate_expires_at = now + oc_access_token_lifetime settings, ate_refresh_token = refresh_token,
                   ate_refresh_expires_at = now + oc_refresh_token_lifetime settings\<rparr>
      in andthen (modify (\<lambda>st. st\<lparr>access_tokens := AList.update access_token entry (access_tokens st)\<rparr>)) (\<lambda>_.
         andthen (modify (\<lambda>st. st\<lparr>refresh_tokens := AList.update refresh_token access_token (refresh_tokens st)\<rparr>)) (\<lambda>_.
         ret \<lparr>tr_access_token = access_token, tr_token_type = ''Bearer'', tr_expires_in = oc_access_token_lifetime settings,
              tr_refresh_token = refresh_token, tr_scope = join_scopes scopes, tr_session = session\<rparr>)))"

text \<open>The scopes that a login is granted.\<close>

definition login_scopes :: "'session oauth2_env \<Rightarrow> bot_account \<Rightarrow> oauth2_login_query \<Rightarrow> (error_type, string list) outcome" where
  "login_scopes E client query =
     (let supported_scopes = set (parse_scopes (Some (oc_supported_scopes (oe_settings E))));
          client_scopes = set (case botacc_oauth2_scopes client of Some ss \<Rightarrow> ss | None \<Rightarrow> []);
          scopes = parse_scopes (lq_scope query);
          requested_scopes = (if scopes = [] then oe_iteration E client_scopes else scopes)
      in if supported_scopes = {} \<or> client_scopes = {} then Err (FeatureDisabled ''oauth2'')
         else validate_scopes requested_scopes client_scopes supported_scopes)"

definition issue_authorization_code ::
    "'session oauth2_env \<Rightarrow> ref_db \<Rightarrow> string \<Rightarrow> 'session \<Rightarrow> oauth2_login_query \<Rightarrow> ('session, string) oauth2_action" where
  "issue_authorization_code E d code session query =
     andthen (modify (cleanup_oauth2_cache (oe_cleanup_now E))) (\<lambda>_.
     andthen (require ((case lq_response_type query of Some t \<Rightarrow> t | None \<Rightarrow> ''code'') = ''code'') InvalidOperation) (\<lambda>_.
     andthen (require (is_valid_redirect_uri E (lq_redirect_uri query)) InvalidOperation) (\<lambda>_.
     andthen (fetch_oauth_client d (lq_client_id query)) (\<lambda>client.
     andthen (or_fail InvalidOperation (botacc_oauth2_redirect_uris client)) (\<lambda>allowed_redirect_uris.
     andthen (require (list_ex (\<lambda>uri. uri = lq_redirect_uri query) allowed_redirect_uris) InvalidOperation) (\<lambda>_.
     andthen (lift (login_scopes E client query)) (\<lambda>scopes.
     andthen (modify (\<lambda>st. st\<lparr>auth_codes := AList.update code
         \<lparr>ace_client_id = lq_client_id query, ace_user_id = oe_session_user_id E session, ace_session = session,
          ace_redirect_uri = lq_redirect_uri query, ace_scopes = scopes,
          ace_expires_at = oe_issue_now E + AUTH_CODE_TTL_SECONDS\<rparr> (auth_codes st)\<rparr>)) (\<lambda>_.
     andthen (require (oe_scheme E (lq_redirect_uri query) \<noteq> None) InvalidOperation) (\<lambda>_.
     ret (oe_with_query E (lq_redirect_uri query)
       ((''code'', code) # (case lq_state query of Some s \<Rightarrow> [(''state'', s)] | None \<Rightarrow> []))))))))))))"

definition oauth2_enabled :: "'session oauth2_env \<Rightarrow> oauth2_status_response" where
  "oauth2_enabled E =
     \<lparr>osr_enabled = (str_trim (oc_issuer (oe_settings E)) \<noteq> [] \<and> str_trim (oc_supported_scopes (oe_settings E)) \<noteq> []),
      osr_issuer = oc_issuer (oe_settings E)\<rparr>"

text \<open>The check of the client that the two grants and the revocation share.\<close>

definition authenticate_client :: "'session oauth2_env \<Rightarrow> ref_db \<Rightarrow> string \<Rightarrow> string option \<Rightarrow> ('session, unit) oauth2_action" where
  "authenticate_client E d client_id secret =
     andthen (fetch_oauth_client d client_id) (\<lambda>client.
       require (validate_client_secret client secret (oc_allow_public_clients (oe_settings E))) InvalidCredentials)"

definition grant_authorization_code ::
    "'session oauth2_env \<Rightarrow> ref_db \<Rightarrow> string \<Rightarrow> string \<Rightarrow> oauth2_token_request \<Rightarrow> ('session, 'session oauth2_token_response) oauth2_action" where
  "grant_authorization_code E d random_access random_refresh form =
     andthen (or_fail InvalidOperation (tq_code form)) (\<lambda>code.
     andthen (take_code code) (\<lambda>taken.
     andthen (or_fail InvalidCredentials taken) (\<lambda>entry.
     andthen (require (\<not> ace_expires_at entry \<le> oe_check_now E) InvalidCredentials) (\<lambda>_.
     let client_id = (case tq_client_id form of Some c \<Rightarrow> c | None \<Rightarrow> ace_client_id entry) in
     andthen (require (client_id = ace_client_id entry) InvalidCredentials) (\<lambda>_.
     andthen (require (case tq_redirect_uri form of Some uri \<Rightarrow> uri = ace_redirect_uri entry | None \<Rightarrow> True) InvalidCredentials) (\<lambda>_.
     andthen (authenticate_client E d client_id (tq_client_secret form)) (\<lambda>_.
     issue_tokens E random_access random_refresh client_id (ace_user_id entry) (ace_scopes entry) (Some (ace_session entry)))))))))"

definition grant_refresh_token ::
    "'session oauth2_env \<Rightarrow> ref_db \<Rightarrow> string \<Rightarrow> string \<Rightarrow> oauth2_token_request \<Rightarrow> ('session, 'session oauth2_token_response) oauth2_action" where
  "grant_refresh_token E d random_access random_refresh form =
     andthen (or_fail InvalidOperation (tq_refresh_token form)) (\<lambda>refresh_token.
     andthen (or_fail InvalidOperation (tq_client_id form)) (\<lambda>client_id.
     andthen (gets (\<lambda>st. map_of (refresh_tokens st) refresh_token)) (\<lambda>found.
     andthen (or_fail InvalidCredentials found) (\<lambda>access_token.
     andthen (take_access_token access_token) (\<lambda>taken.
     andthen (or_fail InvalidCredentials taken) (\<lambda>entry.
     if ate_refresh_token entry \<noteq> refresh_token \<or> ate_refresh_expires_at entry \<le> oe_check_now E
     then andthen (take_refresh_token refresh_token) (\<lambda>_. throw InvalidCredentials)
     else
     andthen (require (ate_client_id entry = client_id) InvalidCredentials) (\<lambda>_.
     andthen (authenticate_client E d client_id (tq_client_secret form)) (\<lambda>_.
     andthen (take_refresh_token refresh_token) (\<lambda>_.
     issue_tokens E random_access random_refresh client_id (ate_user_id entry) (ate_scopes entry) None)))))))))"

definition oauth2_token ::
    "'session oauth2_env \<Rightarrow> ref_db \<Rightarrow> string \<Rightarrow> string \<Rightarrow> oauth2_token_request \<Rightarrow> ('session, 'session oauth2_token_response) oauth2_action" where
  "oauth2_token E d random_access random_refresh form =
     andthen (modify (cleanup_oauth2_cache (oe_cleanup_now E))) (\<lambda>_.
       if tq_grant_type form = ''authorization_code'' then grant_authorization_code E d random_access random_refresh form
       else if tq_grant_type form = ''refresh_token'' then grant_refresh_token E d random_access random_refresh form
       else throw InvalidOperation)"

definition oauth2_revoke :: "'session oauth2_env \<Rightarrow> ref_db \<Rightarrow> oauth2_revoke_request \<Rightarrow> ('session, unit) oauth2_action" where
  "oauth2_revoke E d form =
     andthen (modify (cleanup_oauth2_cache (oe_cleanup_now E))) (\<lambda>_.
     andthen (authenticate_client E d (rq_client_id form) (rq_client_secret form)) (\<lambda>_.
     andthen (take_access_token (rq_token form)) (\<lambda>access.
       case access of
         Some a \<Rightarrow>
           andthen (require (ate_client_id a = rq_client_id form) InvalidCredentials) (\<lambda>_.
           andthen (take_refresh_token (ate_refresh_token a)) (\<lambda>_. ret ()))
       | None \<Rightarrow>
           andthen (take_refresh_token (rq_token form)) (\<lambda>found.
             case found of
               Some access_token \<Rightarrow>
                 andthen (take_access_token access_token) (\<lambda>a.
                   case a of
                     Some a \<Rightarrow> require (ate_client_id a = rq_client_id form) InvalidCredentials
                   | None \<Rightarrow> ret ())
             | None \<Rightarrow> ret ()))))"

definition oauth2_me :: "'session oauth2_env \<Rightarrow> string \<Rightarrow> ('session, oauth2_me_response) oauth2_action" where
  "oauth2_me E access_token =
     andthen (modify (cleanup_oauth2_cache (oe_cleanup_now E))) (\<lambda>_.
     andthen (gets (\<lambda>st. map_of (access_tokens st) access_token)) (\<lambda>found.
     andthen (or_fail InvalidCredentials found) (\<lambda>entry.
     andthen (require (\<not> ate_expires_at entry \<le> oe_check_now E) InvalidCredentials) (\<lambda>_.
     ret \<lparr>me_user_id = ate_user_id entry, me_client_id = ate_client_id entry, me_scope = join_scopes (ate_scopes entry),
          me_expires_at = ate_expires_at entry\<rparr>))))"

section \<open>Traces\<close>

text \<open>The requests, each with the random strings it uses, their answers, and the handler of a request.\<close>

datatype 'session oauth2_call =
    LoginCall 'session oauth2_login_query string
  | TokenCall oauth2_token_request string string
  | RevokeCall oauth2_revoke_request
  | MeCall string

datatype 'session oauth2_answer =
    Redirected string
  | Issued "'session oauth2_token_response"
  | Revoked
  | Told oauth2_me_response

fun oauth2_handle :: "'session oauth2_env \<Rightarrow> ref_db \<Rightarrow> 'session oauth2_call \<Rightarrow> ('session, 'session oauth2_answer) oauth2_action" where
  "oauth2_handle E d (LoginCall session query code) =
     andthen (issue_authorization_code E d code session query) (\<lambda>url. ret (Redirected url))"
| "oauth2_handle E d (TokenCall form random_access random_refresh) =
     andthen (oauth2_token E d random_access random_refresh form) (\<lambda>r. ret (Issued r))"
| "oauth2_handle E d (RevokeCall form) = andthen (oauth2_revoke E d form) (\<lambda>_. ret Revoked)"
| "oauth2_handle E d (MeCall access_token) = andthen (oauth2_me E access_token) (\<lambda>r. ret (Told r))"

type_synonym 'session oauth2_event =
  "'session oauth2_env \<times> ref_db \<times> 'session oauth2_call \<times> (error_type, 'session oauth2_answer) outcome"

inductive oauth2_trace :: "'session oauth2_event list \<Rightarrow> 'session oauth2_state \<Rightarrow> bool" where
  start: "oauth2_trace [] oauth2_start"
| step: "oauth2_trace evs st \<Longrightarrow> oauth2_handle E d call st = (answer, st') \<Longrightarrow> oauth2_trace ((E, d, call, answer) # evs) st'"

text \<open>The events that issue a code and those that redeem it.\<close>

fun issues :: "string \<Rightarrow> 'session oauth2_event \<Rightarrow> bool" where
  "issues code (E, d, LoginCall session query c, answer) \<longleftrightarrow> c = code \<and> is_ok answer"
| "issues code (E, d, _, answer) \<longleftrightarrow> False"

fun redeems :: "string \<Rightarrow> 'session oauth2_event \<Rightarrow> bool" where
  "redeems code (E, d, TokenCall form x y, answer) \<longleftrightarrow>
     tq_grant_type form = ''authorization_code'' \<and> tq_code form = Some code \<and> is_ok answer"
| "redeems code (E, d, _, answer) \<longleftrightarrow> False"

text \<open>What a user granted by a login: the user, the client and the scopes, within what the client is registered for and
  the provider supports.\<close>

inductive granted :: "'session oauth2_event list \<Rightarrow> string \<times> string \<times> string list \<Rightarrow> bool" for evs where
  "(E, d, LoginCall session query code, Ok (Redirected url)) \<in> set evs
   \<Longrightarrow> fst (fetch_bot_by_oauth2_client_id (lq_client_id query) d) = Ok client
   \<Longrightarrow> login_scopes E client query = Ok scopes
   \<Longrightarrow> botacc_oauth2_redirect_uris client = Some uris \<Longrightarrow> lq_redirect_uri query \<in> set uris
   \<Longrightarrow> granted evs (oe_session_user_id E session, lq_client_id query, scopes)"

section \<open>Running the steps\<close>

lemma or_fail_simps [simp]: "or_fail e (Some x) = ret x" "or_fail e None = throw e"
  by (simp_all add: or_fail_def)

lemma require_simps [simp]: "require True e = ret ()" "require False e = throw e"
  by (simp_all add: require_def)

lemma andthen_take [simp]:
  "andthen (take_code c) f st = f (map_of (auth_codes st) c) (st\<lparr>auth_codes := AList.delete c (auth_codes st)\<rparr>)"
  "andthen (take_access_token c) g st = g (map_of (access_tokens st) c) (st\<lparr>access_tokens := AList.delete c (access_tokens st)\<rparr>)"
  "andthen (take_refresh_token c) h st = h (map_of (refresh_tokens st) c) (st\<lparr>refresh_tokens := AList.delete c (refresh_tokens st)\<rparr>)"
  by (simp_all add: andthen_def take_code_def take_access_token_def take_refresh_token_def)

lemma andthen_fetch_client:
  "andthen (fetch_oauth_client d c) f st =
     (case fst (fetch_bot_by_oauth2_client_id c d) of Ok b \<Rightarrow> f b st | Err e \<Rightarrow> (Err InvalidCredentials, st) | Panic \<Rightarrow> (Panic, st))"
  by (simp add: fetch_oauth_client_def andthen_def map_err_def lift_def split: outcome.split)

text \<open>A client presents its secret, or it has none and public clients are allowed. The check changes nothing.\<close>

definition client_authentic :: "'session oauth2_env \<Rightarrow> ref_db \<Rightarrow> string \<Rightarrow> string option \<Rightarrow> bool" where
  "client_authentic E d c secret \<longleftrightarrow>
     (\<exists>client. fst (fetch_bot_by_oauth2_client_id c d) = Ok client
        \<and> validate_client_secret client secret (oc_allow_public_clients (oe_settings E)))"

lemma fetch_client_no_panic: "fst (fetch_bot_by_oauth2_client_id c d) \<noteq> Panic"
  by (simp add: fetch_bot_by_oauth2_client_id_def find_bot_def ret_def throw_def split: option.split)

lemma andthen_authenticate:
  "andthen (authenticate_client E d c secret) f st =
     (if client_authentic E d c secret then f () st else (Err InvalidCredentials, st))"
  using fetch_client_no_panic [of c d]
  by (auto simp: authenticate_client_def andthen_assoc andthen_fetch_client client_authentic_def require_def ret_def throw_def
      split: outcome.split)

lemma issue_tokens_run:
  "issue_tokens E ra rt c u ss session st =
     (let at = (case session of Some s \<Rightarrow> oe_session_token E s | None \<Rightarrow> ra) in
      (Ok \<lparr>tr_access_token = at, tr_token_type = ''Bearer'', tr_expires_in = oc_access_token_lifetime (oe_settings E),
           tr_refresh_token = rt, tr_scope = join_scopes ss, tr_session = session\<rparr>,
       st\<lparr>access_tokens := AList.update at
            \<lparr>ate_client_id = c, ate_user_id = u, ate_scopes = ss,
             ate_expires_at = oe_issue_now E + oc_access_token_lifetime (oe_settings E), ate_refresh_token = rt,
             ate_refresh_expires_at = oe_issue_now E + oc_refresh_token_lifetime (oe_settings E)\<rparr> (access_tokens st),
          refresh_tokens := AList.update rt at (refresh_tokens st)\<rparr>))"
  by (simp add: issue_tokens_def Let_def ret_def)

text \<open>A login either fails and only cleans the maps, or stores the code with what was granted.\<close>

lemma login_outcome:
  assumes "issue_authorization_code E d code session query st = (r, st')"
  obtains (refused) "\<not> is_ok r" and "st' = cleanup_oauth2_cache (oe_cleanup_now E) st"
  | (granted) url client scopes uris where "r = Ok url"
      and "fst (fetch_bot_by_oauth2_client_id (lq_client_id query) d) = Ok client" and "login_scopes E client query = Ok scopes"
      and "botacc_oauth2_redirect_uris client = Some uris" and "lq_redirect_uri query \<in> set uris"
      and "is_valid_redirect_uri E (lq_redirect_uri query)"
      and "st' = (let st0 = cleanup_oauth2_cache (oe_cleanup_now E) st in st0\<lparr>auth_codes := AList.update code
         \<lparr>ace_client_id = lq_client_id query, ace_user_id = oe_session_user_id E session, ace_session = session,
          ace_redirect_uri = lq_redirect_uri query, ace_scopes = scopes,
          ace_expires_at = oe_issue_now E + AUTH_CODE_TTL_SECONDS\<rparr> (auth_codes st0)\<rparr>)"
proof -
  have scheme: "is_valid_redirect_uri E uri \<Longrightarrow> oe_scheme E uri \<noteq> None" for uri
    by (auto simp: is_valid_redirect_uri_def split: option.splits)
  from assms that scheme [of "lq_redirect_uri query"] show ?thesis
    unfolding issue_authorization_code_def
    by (simp add: andthen_fetch_client andthen_lift require_def or_fail_def ret_def throw_def Let_def list_ex_iff
        split: if_splits outcome.splits option.splits; auto)
qed

section \<open>Where codes and tokens come from\<close>

text \<open>Every stored code satisfies \<open>C\<close>, and every stored token was granted as \<open>G\<close> says.\<close>

definition backed ::
    "(string \<times> 'session authorization_code_entry \<Rightarrow> bool) \<Rightarrow> (string \<times> string \<times> string list \<Rightarrow> bool) \<Rightarrow> 'session oauth2_state \<Rightarrow> bool" where
  "backed C G st \<longleftrightarrow> (\<forall>x \<in> set (auth_codes st). C x)
     \<and> (\<forall>(_, e) \<in> set (access_tokens st). G (ate_user_id e, ate_client_id e, ate_scopes e))"

lemma set_hm_update: "x \<in> set (AList.update k v m) \<Longrightarrow> x = (k, v) \<or> x \<in> set m"
  by (induction m) (auto split: if_splits)

lemma set_hm_delete: "x \<in> set (AList.delete k m) \<Longrightarrow> x \<in> set m"
  by (simp add: AList.delete_eq)

lemma backed_cleanup: "backed C G st \<Longrightarrow> backed C G (cleanup_oauth2_cache now st)"
  by (auto simp: backed_def cleanup_oauth2_cache_def Let_def)

lemma backed_delete [simp]:
  "backed C G st \<Longrightarrow> backed C G (st\<lparr>auth_codes := AList.delete c (auth_codes st)\<rparr>)"
  "backed C G st \<Longrightarrow> backed C G (st\<lparr>access_tokens := AList.delete c (access_tokens st)\<rparr>)"
  "backed C G (st\<lparr>refresh_tokens := rs\<rparr>) = backed C G st"
  by (auto simp: backed_def dest: set_hm_delete)

lemma backed_lookup:
  "backed C G st \<Longrightarrow> map_of (auth_codes st) c = Some e \<Longrightarrow> C (c, e)"
  "backed C G st \<Longrightarrow> map_of (access_tokens st) t = Some a \<Longrightarrow> G (ate_user_id a, ate_client_id a, ate_scopes a)"
  by (auto simp: backed_def dest: map_of_SomeD)

lemma keeps_backed_take [simp]:
  "keeps (backed C G) (take_code c)" "keeps (backed C G) (take_access_token c)" "keeps (backed C G) (take_refresh_token c)"
  "keeps (backed C G) (require b e)" "keeps (backed C G) (or_fail e x)" "keeps (backed C G) (authenticate_client E d c secret)"
  "keeps (backed C G) (modify (cleanup_oauth2_cache now))"
proof -
  have "andthen (authenticate_client E d c secret) ret = authenticate_client E d c secret"
    by (rule ext) (simp add: andthen_def ret_def split: prod.split outcome.split)
  moreover have "keeps (backed C G) (andthen (authenticate_client E d c secret) ret)"
    by (simp add: keeps_def andthen_authenticate ret_def)
  ultimately show "keeps (backed C G) (authenticate_client E d c secret)" by simp
qed (auto simp: keeps_def take_code_def take_access_token_def take_refresh_token_def require_def or_fail_def ret_def throw_def
    modify_def backed_cleanup split: option.split)

lemma backed_issue:
  "G (u, c, ss) \<Longrightarrow> backed C G st \<Longrightarrow> backed C G (snd (issue_tokens E ra rt c u ss session st))"
  by (auto simp: issue_tokens_run Let_def backed_def dest!: set_hm_update)

lemma keeps_backed_code_grant:
  assumes "\<And>c e. C (c, e) \<Longrightarrow> G (ace_user_id e, ace_client_id e, ace_scopes e)"
  shows "keeps (backed C G) (grant_authorization_code E d ra rt form)"
proof (rule keepsI)
  fix st :: "'a oauth2_state" assume st: "backed C G st"
  show "backed C G (snd (grant_authorization_code E d ra rt form st))"
  proof (cases "tq_code form")
    case None
    with st show ?thesis by (simp add: grant_authorization_code_def throw_def)
  next
    case (Some code)
    with st show ?thesis
      by (cases "map_of (auth_codes st) code")
        (auto simp: grant_authorization_code_def throw_def require_def Let_def andthen_authenticate
          intro!: backed_issue assms dest: backed_lookup(1))
  qed
qed

lemma keeps_backed_refresh_grant: "keeps (backed C G) (grant_refresh_token E d ra rt form)"
proof (rule keepsI)
  fix st :: "'a oauth2_state" assume st: "backed C G st"
  show "backed C G (snd (grant_refresh_token E d ra rt form st))"
  proof (cases "tq_refresh_token form = None \<or> tq_client_id form = None")
    case True
    with st show ?thesis
      by (cases "tq_refresh_token form") (auto simp: grant_refresh_token_def throw_def)
  next
    case False
    then obtain r c where rc: "tq_refresh_token form = Some r" "tq_client_id form = Some c" by auto
    show ?thesis
    proof (cases "map_of (refresh_tokens st) r")
      case None
      with rc st show ?thesis by (simp add: grant_refresh_token_def throw_def)
    next
      case (Some a)
      with rc st show ?thesis
        by (cases "map_of (access_tokens st) a")
          (auto simp: grant_refresh_token_def throw_def require_def andthen_authenticate intro!: backed_issue
            dest: backed_lookup(2))
    qed
  qed
qed

lemma keeps_backed_token:
  assumes "\<And>c e. C (c, e) \<Longrightarrow> G (ace_user_id e, ace_client_id e, ace_scopes e)"
  shows "keeps (backed C G) (oauth2_token E d ra rt form)"
  unfolding oauth2_token_def
  by (auto intro!: keeps_andthen keeps_backed_code_grant keeps_backed_refresh_grant assms)

lemma keeps_backed_revoke: "keeps (backed C G) (oauth2_revoke E d form)"
  unfolding oauth2_revoke_def by (auto intro!: keeps_andthen split: option.split)

lemma keeps_backed_me: "keeps (backed C G) (oauth2_me E t)"
  unfolding oauth2_me_def by (auto intro!: keeps_andthen)

text \<open>The step of a trace: a login may add its own code, the other requests add none.\<close>

lemma backed_handle:
  assumes "oauth2_handle E d call st = (answer, st')" and "backed C G st"
    and "\<And>c e. C (c, e) \<Longrightarrow> G (ace_user_id e, ace_client_id e, ace_scopes e)"
    and "\<And>session query code client scopes uris url. call = LoginCall session query code \<Longrightarrow> answer = Ok (Redirected url)
      \<Longrightarrow> fst (fetch_bot_by_oauth2_client_id (lq_client_id query) d) = Ok client \<Longrightarrow> login_scopes E client query = Ok scopes
      \<Longrightarrow> botacc_oauth2_redirect_uris client = Some uris \<Longrightarrow> lq_redirect_uri query \<in> set uris
      \<Longrightarrow> C (code, \<lparr>ace_client_id = lq_client_id query, ace_user_id = oe_session_user_id E session, ace_session = session,
            ace_redirect_uri = lq_redirect_uri query, ace_scopes = scopes, ace_expires_at = oe_issue_now E + AUTH_CODE_TTL_SECONDS\<rparr>)"
  shows "backed C G st'"
proof (cases call)
  case (LoginCall session query code)
  obtain r st1 where run: "issue_authorization_code E d code session query st = (r, st1)" by fastforce
  with assms(1) LoginCall have st1: "st' = st1" "is_ok r \<Longrightarrow> \<exists>url. answer = Ok (Redirected url)"
    by (auto simp: andthen_def ret_def split: outcome.splits)
  from run show ?thesis
  proof (cases rule: login_outcome)
    case refused
    with st1 assms(2) show ?thesis by (simp add: backed_cleanup)
  next
    case (granted url client scopes uris)
    with st1 obtain u where "answer = Ok (Redirected u)" by auto
    from assms(4) [OF LoginCall this granted(2-5)] backed_cleanup [OF assms(2), of "oe_cleanup_now E"] granted(7) st1
    show ?thesis by (auto simp: backed_def Let_def dest!: set_hm_update)
  qed
next
  case (TokenCall form ra rt)
  have "keeps (backed C G) (oauth2_token E d ra rt form)" by (rule keeps_backed_token) (rule assms(3))
  from keepsD [OF keeps_andthen [OF this] assms(2)] assms(1) TokenCall
  show ?thesis by (metis keeps_ret oauth2_handle.simps(2) snd_conv)
next
  case (RevokeCall form)
  from keepsD [OF keeps_andthen [OF keeps_backed_revoke] assms(2)] assms(1) RevokeCall
  show ?thesis by (metis keeps_ret oauth2_handle.simps(3) snd_conv)
next
  case (MeCall t)
  from keepsD [OF keeps_andthen [OF keeps_backed_me] assms(2)] assms(1) MeCall
  show ?thesis by (metis keeps_ret oauth2_handle.simps(4) snd_conv)
qed

lemma granted_later: "granted evs g \<Longrightarrow> granted (ev # evs) g"
  by (erule granted.cases) (auto intro!: granted.intros)

lemma backed_mono: "backed C G st \<Longrightarrow> (\<And>x. C x \<Longrightarrow> C' x) \<Longrightarrow> (\<And>g. G g \<Longrightarrow> G' g) \<Longrightarrow> backed C' G' st"
  by (auto simp: backed_def)

lemma trace_backed:
  "oauth2_trace evs st \<Longrightarrow> backed (\<lambda>(_, e). granted evs (ace_user_id e, ace_client_id e, ace_scopes e)) (granted evs) st"
proof (induction rule: oauth2_trace.induct)
  case start
  show ?case by (simp add: backed_def oauth2_start_def)
next
  case (step evs st E d call answer st')
  let ?evs = "(E, d, call, answer) # evs"
  have "backed (\<lambda>(_, e). granted ?evs (ace_user_id e, ace_client_id e, ace_scopes e)) (granted ?evs) st"
    by (rule backed_mono [OF step.IH]) (auto intro: granted_later)
  from step.hyps(2) this show ?case
    by (rule backed_handle) (auto intro!: granted.intros)
qed

text \<open>The codes that are stored were issued and not redeemed since.\<close>

lemma code_grant_redeems:
  assumes "oauth2_handle E d (TokenCall form x y) st = (answer, st')" and "redeems code (E, d, TokenCall form x y, answer)"
  shows "code \<in> fst ` set (auth_codes st)" and "code \<notin> fst ` set (auth_codes st')"
proof -
  let ?st = "cleanup_oauth2_cache (oe_cleanup_now E) st"
  have token: "oauth2_token E d x y form st = grant_authorization_code E d x y form ?st" and form: "tq_code form = Some code"
    using assms(2) by (simp_all add: oauth2_token_def)
  obtain r where r: "grant_authorization_code E d x y form ?st = (Ok r, st')"
    using assms by (auto simp: token andthen_def ret_def split: prod.splits outcome.splits)
  have sub: "set (auth_codes ?st) \<subseteq> set (auth_codes st)" by (auto simp: cleanup_oauth2_cache_def Let_def)
  show "code \<in> fst ` set (auth_codes st)"
    using r form sub by (cases "map_of (auth_codes ?st) code")
      (auto simp: grant_authorization_code_def throw_def dest!: map_of_SomeD intro: rev_image_eqI)
  have "auth_codes st' = AList.delete code (auth_codes ?st)"
    using r form by (cases "map_of (auth_codes ?st) code")
      (auto simp: grant_authorization_code_def throw_def require_def Let_def andthen_authenticate issue_tokens_run split: if_splits)
  then show "code \<notin> fst ` set (auth_codes st')" by (auto simp: AList.delete_eq)
qed

lemma handle_codes:
  assumes "oauth2_handle E d call st = (answer, st')" and "code \<in> fst ` set (auth_codes st')"
  shows "code \<in> fst ` set (auth_codes st) \<or> issues code (E, d, call, answer)"
proof -
  have "backed (\<lambda>(c, _). c \<in> fst ` set (auth_codes st) \<or> issues c (E, d, call, answer)) (\<lambda>_. True) st'"
    by (rule backed_handle [OF assms(1)]) (auto simp: backed_def intro: rev_image_eqI)
  with assms(2) show ?thesis by (auto simp: backed_def)
qed

lemma not_both: "issues code ev \<Longrightarrow> \<not> redeems code ev"
  by (cases "(code, ev)" rule: issues.cases) auto

lemma redeemed_within_issued:
  "oauth2_trace evs st \<Longrightarrow>
   length (filter (redeems code) evs) + (if code \<in> fst ` set (auth_codes st) then 1 else 0) \<le> length (filter (issues code) evs)"
proof (induction rule: oauth2_trace.induct)
  case start
  show ?case by (simp add: oauth2_start_def)
next
  case (step evs st E d call answer st')
  show ?case
  proof (cases "redeems code (E, d, call, answer)")
    case True
    then obtain form x y where "call = TokenCall form x y"
      by (cases "(code, (E, d, call, answer))" rule: redeems.cases) auto
    with step.hyps(2) True code_grant_redeems [of E d form x y st answer st' code] step.IH show ?thesis by auto
  next
    case False
    with step.IH handle_codes [OF step.hyps(2), of code] show ?thesis
      by (auto split: if_splits)
  qed
qed

section \<open>Scopes\<close>

definition scope_clean :: "string \<Rightarrow> bool" where
  "scope_clean s \<longleftrightarrow> s \<noteq> [] \<and> list_all (\<lambda>c. \<not> scope_separator c) s"

lemma str_split_pieces: "x \<in> set (str_split p s) \<Longrightarrow> list_all (\<lambda>c. \<not> p c) x"
proof (induction s arbitrary: x)
  case (Cons c s)
  then show ?case by (cases "str_split p s") (auto split: if_splits)
qed simp

lemma str_trim_clean: "list_all (\<lambda>c. \<not> scope_separator c) s \<Longrightarrow> str_trim s = s"
proof -
  assume "list_all (\<lambda>c. \<not> scope_separator c) s"
  then have *: "\<forall>c \<in> set s. \<not> is_whitespace c" by (auto simp: list_all_iff scope_separator_def)
  then have "dropWhile is_whitespace s = s" by (simp add: dropWhile_eq_self_iff)
  moreover have "dropWhile is_whitespace (rev s) = rev s"
    using * last_in_set [of s] by (auto simp: dropWhile_eq_self_iff hd_rev)
  ultimately show ?thesis by (simp add: str_trim_def)
qed

lemma parse_scopes_alt: "parse_scopes v = filter (\<lambda>s. s \<noteq> []) (str_split scope_separator (case v of Some s \<Rightarrow> s | None \<Rightarrow> []))"
  unfolding parse_scopes_def by (subst map_idI) (auto intro!: str_trim_clean dest: str_split_pieces)

lemma parse_scopes_clean: "s \<in> set (parse_scopes v) \<Longrightarrow> scope_clean s"
  by (auto simp: parse_scopes_alt scope_clean_def dest: str_split_pieces)

lemma str_split_append:
  "list_all (\<lambda>c. \<not> p c) x \<Longrightarrow> p c \<Longrightarrow> str_split p (x @ c # ys) = x # str_split p ys"
  by (induction x) auto

lemma str_split_whole: "list_all (\<lambda>c. \<not> p c) x \<Longrightarrow> str_split p x = [x]"
  by (induction x) auto

lemma parse_join_clean: "list_all scope_clean ss \<Longrightarrow> parse_scopes (Some (join_scopes ss)) = ss"
proof (induction ss rule: join_scopes.induct)
  case 1
  show ?case by (simp add: parse_scopes_alt)
next
  case (2 x)
  then show ?case by (simp add: parse_scopes_alt str_split_whole scope_clean_def)
next
  case (3 x y ys)
  have "scope_separator CHR '' ''" by (simp add: scope_separator_def is_whitespace_def)
  with 3 show ?case by (simp add: parse_scopes_alt scope_clean_def str_split_append)
qed

lemma push_scopes_Ok:
  "push_scopes A S acc ss = Ok ts \<longleftrightarrow> ts = acc @ ss \<and> set ss \<subseteq> A \<inter> S"
  by (induction ss arbitrary: acc) auto

text \<open>The scopes of a login are not empty, the client is registered for them and the provider supports them.\<close>

lemma login_scopes_Ok:
  assumes "login_scopes E client query = Ok ss"
  shows "ss \<noteq> []" and "set ss \<subseteq> set (parse_scopes (Some (oc_supported_scopes (oe_settings E))))"
    and "\<exists>allowed. botacc_oauth2_scopes client = Some allowed \<and> set ss \<subseteq> set allowed"
    and "parse_scopes (lq_scope query) \<noteq> [] \<Longrightarrow> ss = parse_scopes (lq_scope query)"
  using assms by (cases "botacc_oauth2_scopes client";
    auto simp: login_scopes_def validate_scopes_def Let_def push_scopes_Ok split: if_splits)+

lemma login_scopes_printed:
  assumes "login_scopes E client query = Ok ss"
  shows "parse_scopes (Some (join_scopes ss)) = ss"
  using login_scopes_Ok(2) [OF assms] by (intro parse_join_clean) (auto simp: list_all_iff dest: parse_scopes_clean)

section \<open>Sample data\<close>

text \<open>A user with session \<open>(''t'', ''u'')\<close>, two clients and the exchange of a code.\<close>

definition oauth_bot :: "string \<Rightarrow> bot_account" where
  "oauth_bot i = bot_account_default\<lparr>botacc_id := i, botacc_oauth2_client_id := Some i, botacc_oauth2_client_secret := Some (i @ ''s''),
     botacc_oauth2_redirect_uris := Some [''https://x''], botacc_oauth2_scopes := Some [''identify'']\<rparr>"

definition oauth_db :: ref_db where
  "oauth_db = empty_db\<lparr>db_bots := [(''A'', oauth_bot ''A''), (''B'', oauth_bot ''B'')]\<rparr>"

definition oauth_env :: "(string \<times> string) oauth2_env" where
  "oauth_env = \<lparr>oe_cleanup_now = 100, oe_check_now = 100, oe_issue_now = 100,
     oe_settings = \<lparr>oc_issuer = ''x'', oc_access_token_lifetime = 3600, oc_refresh_token_lifetime = 7200,
       oc_supported_scopes = ''identify, email'', oc_allow_public_clients = False\<rparr>,
     oe_scheme = (\<lambda>_. Some ''https''), oe_with_query = (\<lambda>u _. u), oe_iteration = sorted_list_of_set,
     oe_session_token = fst, oe_session_user_id = snd\<rparr>"

definition oauth_login :: oauth2_login_query where
  "oauth_login = \<lparr>lq_client_id = ''A'', lq_redirect_uri = ''https://x'', lq_response_type = None, lq_scope = Some ''identify'', lq_state = None\<rparr>"

definition oauth_exchange :: oauth2_token_request where
  "oauth_exchange = \<lparr>tq_grant_type = ''authorization_code'', tq_code = Some ''c'', tq_redirect_uri = None, tq_client_id = Some ''A'',
     tq_client_secret = Some ''As'', tq_refresh_token = None\<rparr>"

definition oauth_code_state :: "(string \<times> string) oauth2_state" where
  "oauth_code_state = \<lparr>auth_codes = [(''c'', \<lparr>ace_client_id = ''A'', ace_user_id = ''u'', ace_session = (''t'', ''u''),
     ace_redirect_uri = ''https://x'', ace_scopes = [''identify''], ace_expires_at = 700\<rparr>)], access_tokens = [], refresh_tokens = []\<rparr>"

definition oauth_entry :: access_token_entry where
  "oauth_entry = \<lparr>ate_client_id = ''A'', ate_user_id = ''u'', ate_scopes = [''identify''],
     ate_expires_at = 3700, ate_refresh_token = ''r'', ate_refresh_expires_at = 7300\<rparr>"

definition oauth_token_state :: "(string \<times> string) oauth2_state" where
  "oauth_token_state = \<lparr>auth_codes = [], access_tokens = [(''t'', \<lparr>ate_client_id = ''A'', ate_user_id = ''u'', ate_scopes = [''identify''],
     ate_expires_at = 3700, ate_refresh_token = ''r'', ate_refresh_expires_at = 7300\<rparr>)], refresh_tokens = [(''r'', ''t'')]\<rparr>"

definition oauth_response :: "(string \<times> string) oauth2_token_response" where
  "oauth_response = \<lparr>tr_access_token = ''t'', tr_token_type = ''Bearer'', tr_expires_in = 3600, tr_refresh_token = ''r'',
     tr_scope = ''identify'', tr_session = Some (''t'', ''u'')\<rparr>"

definition oauth_events :: "(string \<times> string) oauth2_event list" where
  "oauth_events =
     [(oauth_env, oauth_db, TokenCall oauth_exchange ''x'' ''r'', Ok (Issued oauth_response)),
      (oauth_env, oauth_db, LoginCall (''t'', ''u'') oauth_login ''c'', Ok (Redirected ''https://x''))]"

lemma oauth_client: "fst (fetch_bot_by_oauth2_client_id ''A'' oauth_db) = Ok (oauth_bot ''A'')"
    "fst (fetch_bot_by_oauth2_client_id ''B'' oauth_db) = Ok (oauth_bot ''B'')"
  by (simp_all add: fetch_bot_by_oauth2_client_id_def find_bot_def oauth_db_def oauth_bot_def ret_def)

lemma oauth_authentic: "client_authentic oauth_env oauth_db ''A'' (Some ''As'')" "client_authentic oauth_env oauth_db ''B'' (Some ''Bs'')"
  by (simp_all add: client_authentic_def oauth_client) (simp_all add: validate_client_secret_def oauth_bot_def bot_account_default_def)

lemma oauth_scopes: "login_scopes oauth_env (oauth_bot ''A'') oauth_login = Ok [''identify'']"
proof -
  have "parse_scopes (Some ''identify, email'') = [''identify'', ''email'']" "parse_scopes (Some ''identify'') = [''identify'']"
    by (simp_all add: parse_scopes_def scope_separator_def is_whitespace_def str_trim_def)
  then show ?thesis
    by (simp add: login_scopes_def oauth_env_def oauth_bot_def oauth_login_def validate_scopes_def bot_account_default_def)
qed

lemma oauth_login_run:
  "oauth2_handle oauth_env oauth_db (LoginCall (''t'', ''u'') oauth_login ''c'') oauth2_start = (Ok (Redirected ''https://x''), oauth_code_state)"
proof -
  have "lq_client_id oauth_login = ''A''" "lq_response_type oauth_login = None" "lq_redirect_uri oauth_login = ''https://x''"
    "is_valid_redirect_uri oauth_env ''https://x''" "botacc_oauth2_redirect_uris (oauth_bot ''A'') = Some [''https://x'']"
    "oe_with_query oauth_env = (\<lambda>u _. u)" "oe_issue_now oauth_env = 100" "oe_session_user_id oauth_env = snd"
    "oe_scheme oauth_env ''https://x'' \<noteq> None" "cleanup_oauth2_cache now oauth2_start = (oauth2_start :: (string \<times> string) oauth2_state)" for now
    by (simp_all add: oauth_login_def oauth_env_def is_valid_redirect_uri_def oauth_bot_def cleanup_oauth2_cache_def oauth2_start_def)
  then have "issue_authorization_code oauth_env oauth_db ''c'' (''t'', ''u'') oauth_login oauth2_start = (Ok ''https://x'', oauth_code_state)"
    by (simp add: issue_authorization_code_def andthen_fetch_client oauth_client andthen_lift oauth_scopes ret_def
        oauth_code_state_def oauth2_start_def AUTH_CODE_TTL_SECONDS_def)
  then show ?thesis by (simp add: andthen_def ret_def)
qed

lemma oauth_grant_run:
  "grant_authorization_code oauth_env oauth_db ''x'' ''r'' oauth_exchange oauth_code_state = (Ok oauth_response, oauth_token_state)"
proof -
  have form: "tq_code oauth_exchange = Some ''c''" "tq_redirect_uri oauth_exchange = None"
    "tq_client_id oauth_exchange = Some ''A''" "tq_client_secret oauth_exchange = Some ''As''" by (simp_all add: oauth_exchange_def)
  have settings: "oe_check_now oauth_env = 100" "oe_issue_now oauth_env = 100" "oe_session_token oauth_env = fst"
    "oc_access_token_lifetime (oe_settings oauth_env) = 3600" "oc_refresh_token_lifetime (oe_settings oauth_env) = 7200"
    by (simp_all add: oauth_env_def)
  show ?thesis
    by (simp add: form grant_authorization_code_def Let_def andthen_authenticate oauth_authentic
        oauth_code_state_def settings issue_tokens_run oauth_response_def oauth_token_state_def)
qed

lemma oauth_exchange_run:
  "oauth2_handle oauth_env oauth_db (TokenCall oauth_exchange ''x'' ''r'') oauth_code_state = (Ok (Issued oauth_response), oauth_token_state)"
proof -
  have clean: "cleanup_oauth2_cache (oe_cleanup_now oauth_env) oauth_code_state = oauth_code_state"
    by (simp add: cleanup_oauth2_cache_def oauth_code_state_def oauth_env_def)
  have "tq_grant_type oauth_exchange = ''authorization_code''" by (simp add: oauth_exchange_def)
  with clean oauth_grant_run show ?thesis by (simp add: oauth2_token_def andthen_def modify_def ret_def)
qed

lemma oauth_events_trace: "oauth2_trace oauth_events oauth_token_state"
  unfolding oauth_events_def
  by (rule oauth2_trace.step [OF oauth2_trace.step [OF oauth2_trace.start oauth_login_run] oauth_exchange_run])

section \<open>Properties\<close>

text \<open>C37: a code is redeemed at most as often as it was issued. In every trace, however requests of any clients are interleaved,
  the number of successful exchanges of a code is at most the number of successful logins that issued it: a code that
  was issued once buys one token, and one that was never issued none.\<close>

theorem codes_redeemed_once:
  assumes "oauth2_trace evs st"
  shows "length (filter (redeems code) evs) \<le> length (filter (issues code) evs)"
  using redeemed_within_issued [OF assms, of code] by linarith

theorem codes_redeemed_once_witness:
  "length (filter (redeems ''c'') oauth_events) = 1 \<and> length (filter (issues ''c'') oauth_events) = 1
   \<and> length (filter (redeems ''c'') oauth_events) \<le> length (filter (issues ''c'') oauth_events)"
proof -
  have "length (filter (redeems ''c'') oauth_events) = 1" "length (filter (issues ''c'') oauth_events) = 1"
    by (simp_all add: oauth_events_def oauth_exchange_def)
  with codes_redeemed_once [OF oauth_events_trace, of "''c''"] show ?thesis by blast
qed


lemma oauth_me_run:
  "oauth2_me oauth_env ''t'' oauth_token_state
   = (Ok \<lparr>me_user_id = ''u'', me_client_id = ''A'', me_scope = ''identify'', me_expires_at = 3700\<rparr>, oauth_token_state)"
proof -
  have "cleanup_oauth2_cache (oe_cleanup_now oauth_env) oauth_token_state = oauth_token_state"
    by (simp add: cleanup_oauth2_cache_def oauth_token_state_def oauth_env_def hm_contains_def)
  moreover have "map_of (access_tokens oauth_token_state) ''t'' = Some \<lparr>ate_client_id = ''A'', ate_user_id = ''u'', ate_scopes = [''identify''],
     ate_expires_at = 3700, ate_refresh_token = ''r'', ate_refresh_expires_at = 7300\<rparr>" by (simp add: oauth_token_state_def)
  moreover have "oe_check_now oauth_env = 100" by (simp add: oauth_env_def)
  ultimately show ?thesis by (simp add: oauth2_me_def ret_def)
qed


text \<open>the scope string that the token and \<open>@me\<close> routes print loses nothing: joining the scopes that were read from any
  string and reading them again gives the same list.\<close>

theorem scopes_roundtrip: "parse_scopes (Some (join_scopes (parse_scopes v))) = parse_scopes v"
  by (rule parse_join_clean) (auto simp: list_all_iff dest: parse_scopes_clean)

lemma cleanup_tokens_sub:
  "map_of (access_tokens st) t = None \<Longrightarrow> map_of (access_tokens (cleanup_oauth2_cache now st)) t = None"
  by (auto simp: cleanup_oauth2_cache_def Let_def map_of_eq_None_iff)

lemma set_fold_delete: "set (fold (\<lambda>(_, e). AList.delete (f e)) xs m) \<subseteq> set m"
proof (induction xs arbitrary: m)
  case (Cons x xs)
  have "set (AList.delete k m) \<subseteq> set m" for k by (auto dest: set_hm_delete)
  with Cons [of "AList.delete (f (snd x)) m"] show ?case by (auto simp: case_prod_unfold)
qed simp

lemma cleanup_refresh_sub:
  "map_of (refresh_tokens st) t = None \<Longrightarrow> map_of (refresh_tokens (cleanup_oauth2_cache now st)) t = None"
  using set_fold_delete [of ate_refresh_token]
  by (fastforce simp: cleanup_oauth2_cache_def Let_def map_of_eq_None_iff)

lemma me_rejects:
  "map_of (access_tokens st) t = None \<Longrightarrow> fst (oauth2_me E t st) = Err InvalidCredentials"
  by (simp add: oauth2_me_def cleanup_tokens_sub throw_def)

lemma refresh_rejects:
  assumes "map_of (refresh_tokens st) r = None" "tq_grant_type form = ''refresh_token''" "tq_refresh_token form = Some r"
  shows "\<not> is_ok (fst (oauth2_token E d x y form st))"
  using assms by (cases "tq_client_id form") (simp_all add: oauth2_token_def grant_refresh_token_def cleanup_refresh_sub throw_def)

lemma revoke_run:
  assumes "client_authentic E d (rq_client_id form) (rq_client_secret form)"
    and "map_of (access_tokens (cleanup_oauth2_cache (oe_cleanup_now E) st)) (rq_token form) = Some a"
  shows "oauth2_revoke E d form st =
     (let st0 = cleanup_oauth2_cache (oe_cleanup_now E) st;
          st1 = st0\<lparr>access_tokens := AList.delete (rq_token form) (access_tokens st0)\<rparr>
      in if ate_client_id a = rq_client_id form
         then (Ok (), st1\<lparr>refresh_tokens := AList.delete (ate_refresh_token a) (refresh_tokens st1)\<rparr>)
         else (Err InvalidCredentials, st1))"
  using assms by (simp add: oauth2_revoke_def andthen_authenticate require_def ret_def throw_def Let_def)

text \<open>revoking works. After a client has revoked an access token of its own, \<open>@me\<close> rejects the token and the refresh token
  that came with it is rejected by the refresh grant, at every later time.\<close>

theorem revoked_tokens_are_dead:
  assumes "client_authentic E d (rq_client_id form) (rq_client_secret form)"
    and "map_of (access_tokens (cleanup_oauth2_cache (oe_cleanup_now E) st)) (rq_token form) = Some a"
    and "ate_client_id a = rq_client_id form"
  shows "\<exists>st'. oauth2_revoke E d form st = (Ok (), st')
     \<and> fst (oauth2_me E' (rq_token form) st') = Err InvalidCredentials
     \<and> (tq_grant_type grant = ''refresh_token'' \<longrightarrow> tq_refresh_token grant = Some (ate_refresh_token a)
        \<longrightarrow> \<not> is_ok (fst (oauth2_token E' d' x y grant st')))"
proof -
  obtain st' where run: "oauth2_revoke E d form st = (Ok (), st')" and "map_of (access_tokens st') (rq_token form) = None"
      and gone: "map_of (refresh_tokens st') (ate_refresh_token a) = None"
    using assms by (simp add: revoke_run Let_def delete_conv')
  then show ?thesis by (auto simp: me_rejects dest: refresh_rejects [OF gone, of grant E' d' x y])
qed

lemma oauth_live_token:
  "map_of (access_tokens (cleanup_oauth2_cache (oe_cleanup_now oauth_env) oauth_token_state)) ''t'' = Some oauth_entry"
  by (simp add: cleanup_oauth2_cache_def oauth_token_state_def oauth_env_def hm_contains_def oauth_entry_def)

theorem revoked_tokens_are_dead_witness:
  "\<exists>st'. oauth2_revoke oauth_env oauth_db \<lparr>rq_token = ''t'', rq_client_id = ''A'', rq_client_secret = Some ''As''\<rparr> oauth_token_state = (Ok (), st')
     \<and> fst (oauth2_me oauth_env ''t'' st') = Err InvalidCredentials"
  using revoked_tokens_are_dead [of oauth_env oauth_db "\<lparr>rq_token = ''t'', rq_client_id = ''A'', rq_client_secret = Some ''As''\<rparr>"
      oauth_token_state oauth_entry oauth_env oauth_exchange oauth_db "''x''" "''y''"] oauth_authentic oauth_live_token
  by (auto simp: oauth_entry_def)

text \<open>any registered client can destroy the token of another client. The revocation takes the token out of the map before it
  compares the client, so a client that presents its own valid credentials and a token of somebody else is told
  \<open>InvalidCredentials\<close>, and the token is gone: \<open>@me\<close> rejects it from then on.\<close>

theorem foreign_client_destroys_token:
  assumes "client_authentic E d (rq_client_id form) (rq_client_secret form)"
    and "map_of (access_tokens (cleanup_oauth2_cache (oe_cleanup_now E) st)) (rq_token form) = Some a"
    and "ate_client_id a \<noteq> rq_client_id form"
  shows "\<exists>st'. oauth2_revoke E d form st = (Err InvalidCredentials, st')
     \<and> fst (oauth2_me E' (rq_token form) st') = Err InvalidCredentials"
  using assms by (auto simp: revoke_run Let_def delete_conv' intro!: me_rejects)

theorem foreign_client_destroys_token_witness:
  "is_ok (fst (oauth2_me oauth_env ''t'' oauth_token_state))
   \<and> (\<exists>st'. oauth2_revoke oauth_env oauth_db \<lparr>rq_token = ''t'', rq_client_id = ''B'', rq_client_secret = Some ''Bs''\<rparr> oauth_token_state
          = (Err InvalidCredentials, st')
        \<and> fst (oauth2_me oauth_env ''t'' st') = Err InvalidCredentials)"
  using foreign_client_destroys_token [of oauth_env oauth_db "\<lparr>rq_token = ''t'', rq_client_id = ''B'', rq_client_secret = Some ''Bs''\<rparr>"
      oauth_token_state oauth_entry oauth_env] oauth_authentic oauth_live_token by (auto simp: oauth_entry_def oauth_me_run)

text \<open>the access token of the code grant is the session token of the user. Whatever scopes were granted, an exchange that
  succeeds hands the client the whole session: the token it returns is the one that authenticates the user everywhere.\<close>

theorem code_grant_returns_session_token:
  assumes "grant_authorization_code E d x y form st = (Ok r, st')"
  shows "\<exists>code entry. tq_code form = Some code \<and> map_of (auth_codes st) code = Some entry
     \<and> tr_session r = Some (ace_session entry) \<and> tr_access_token r = oe_session_token E (ace_session entry)
     \<and> tr_scope r = join_scopes (ace_scopes entry) \<and> client_authentic E d (ace_client_id entry) (tq_client_secret form)"
proof -
  obtain code where code: "tq_code form = Some code"
    using assms by (cases "tq_code form") (simp_all add: grant_authorization_code_def throw_def)
  with assms show ?thesis
    by (cases "map_of (auth_codes st) code")
      (auto simp: grant_authorization_code_def throw_def require_def Let_def andthen_authenticate issue_tokens_run split: if_splits)
qed

theorem code_grant_returns_session_token_witness:
  "\<exists>st' r. grant_authorization_code oauth_env oauth_db ''x'' ''r'' oauth_exchange oauth_code_state = (Ok r, st')
     \<and> tr_access_token r = oe_session_token oauth_env (''t'', ''u'') \<and> tr_scope r = ''identify''"
proof -
  have run: "grant_authorization_code oauth_env oauth_db ''x'' ''r'' oauth_exchange oauth_code_state = (Ok oauth_response, oauth_token_state)"
    by (rule oauth_grant_run)
  from code_grant_returns_session_token [OF run] run show ?thesis
    by (auto simp: oauth_exchange_def oauth_code_state_def)
qed

end
