(* ===== verification/Bots.thy ===== *)
theory Bots
  imports Users Oauth2
begin

text \<open>
  Bots: the operations of \<open>Bot\<close> in \<open>crates/core/database/src/models/bots/model.rs\<close> and the routes of
  \<open>crates/delta/src/routes/bots\<close>. A bot is an account of its own, owned by a user; its document holds the token it
  authenticates with and the credentials of an OAuth2 client.

  The theorems show that no two users ever share a name and a discriminator, through all routes that create, rename, edit and delete
  users and bots; that a bot is only changed by its owner; that nobody owns more bots than the limit; and that
  resetting the client secret locks the old one out of the OAuth2 provider.
\<close>

section \<open>Operations\<close>

text \<open>New strings: the id and token of a new bot.\<close>

definition bot_create ::
    "env \<Rightarrow> users_env \<Rightarrow> string \<Rightarrow> string \<Rightarrow> string \<Rightarrow> string \<Rightarrow> user \<Rightarrow> partial_bot option \<Rightarrow> (bot_account \<times> user) world_action" where
  "bot_create E UE new_id event_id token name owner data =
     (if user_bot owner \<noteq> None then throw IsBot
      else
        andthen (on_db (get_number_of_bots_by_user (user_id owner))) (\<lambda>n.
        andthen (user_limits E owner) (\<lambda>limits.
        if n \<ge> limit_bots limits then throw ReachedMaximumBots
        else
        andthen (user_create E UE new_id event_id name (Some new_id)
          (Some (partial_user_default\<lparr>pu_bot := Some \<lparr>bot_owner = user_id owner\<rparr>\<rparr>))) (\<lambda>u.
        let b0 = bot_account_default\<lparr>botacc_id := new_id, botacc_owner := user_id owner, botacc_token := token\<rparr>;
            b = (case data of Some p \<Rightarrow> apply_bot (env_structs E) p b0 | None \<Rightarrow> b0) in
        andthen (on_db (insert_bot b)) (\<lambda>_. ret (b, u))))))"

text \<open>\<open>Bot::update\<close>. Every random token is an argument: the one that is written, and those that \<open>remove_field\<close> makes
  for the copy and for the stored document, which the written one replaces.\<close>

definition bot_update ::
    "env \<Rightarrow> string \<Rightarrow> string \<Rightarrow> string \<Rightarrow> bot_account \<Rightarrow> partial_bot \<Rightarrow> fields_bot list \<Rightarrow> bot_account world_action" where
  "bot_update E token copy_token db_token self partial remove =
     (let partial = (if BotToken \<in> set remove then partial\<lparr>pb_token := Some token\<rparr> else partial);
          self = fold (bot_remove_field copy_token) remove self in
      andthen (on_db (update_bot (env_structs E) db_token (botacc_id self) partial remove)) (\<lambda>_.
      andthen (if pb_token partial \<noteq> None then publish_private Logout (botacc_id self) else ret ()) (\<lambda>_.
      ret (apply_bot (env_structs E) partial self))))"

definition bot_delete :: "env \<Rightarrow> string \<Rightarrow> bot_account \<Rightarrow> unit world_action" where
  "bot_delete E event_id self =
     andthen (on_db (fetch_user (botacc_id self))) (\<lambda>u.
     andthen (mark_deleted E event_id u) (\<lambda>_.
     on_db (delete_bot (botacc_id self))))"

section \<open>Wire format\<close>

record public_bot =
  pub_id :: string
  pub_username :: string
  pub_avatar :: string
  pub_description :: string

text \<open>The assertion that the ids agree is compiled in debug builds only.\<close>

definition into_public_bot :: "bot_account \<Rightarrow> user \<Rightarrow> public_bot" where
  "into_public_bot b u =
     \<lparr>pub_id = botacc_id b, pub_username = username u,
      pub_avatar = (case user_avatar u of Some f \<Rightarrow> file_id f | None \<Rightarrow> []),
      pub_description = (case user_profile u of Some p \<Rightarrow> (case profile_content p of Some c \<Rightarrow> c | None \<Rightarrow> []) | None \<Rightarrow> [])\<rparr>"

section \<open>Routes\<close>

text \<open>The routes read the URL parser and the settings of the OAuth2 provider, and no sessions.\<close>

definition valid_redirect_uri :: "unit oauth2_env \<Rightarrow> string \<Rightarrow> bool" where
  "valid_redirect_uri OE uri = (case oe_scheme OE uri of Some scheme \<Rightarrow> scheme = ''http'' \<or> scheme = ''https'' | None \<Rightarrow> False)"

text \<open>The checks of the OAuth2 fields that creating and editing share.\<close>

definition check_oauth2_fields :: "unit oauth2_env \<Rightarrow> string list option \<Rightarrow> string list option \<Rightarrow> unit world_action" where
  "check_oauth2_fields OE redirect_uris scopes =
     andthen (case redirect_uris of
        Some uris \<Rightarrow> if \<not> list_all (valid_redirect_uri OE) uris then throw InvalidOperation else ret ()
      | None \<Rightarrow> ret ()) (\<lambda>_.
     case scopes of
        Some requested \<Rightarrow>
          let supported = set (parse_scopes (Some (oc_supported_scopes (oe_settings OE)))) in
          if requested = [] \<or> list_ex (\<lambda>s. s \<notin> supported) requested then throw InvalidOperation else ret ()
      | None \<Rightarrow> ret ())"

record data_create_bot =
  dcb_name :: string
  dcb_oauth2_redirect_uris :: "string list option"
  dcb_oauth2_scopes :: "string list option"

text \<open>New strings for a request: ids, the tokens, client id and client secret.\<close>

record bot_secrets =
  bs_id :: string
  bs_event :: string
  bs_limit :: string
  bs_token :: string
  bs_copy_token :: string
  bs_db_token :: string
  bs_client_id :: string
  bs_client_secret :: string

definition route_create_bot ::
    "env \<Rightarrow> users_env \<Rightarrow> unit oauth2_env \<Rightarrow> unit result \<Rightarrow> bot_secrets \<Rightarrow> user \<Rightarrow> data_create_bot
     \<Rightarrow> (bot_account \<times> v0_user) world_action" where
  "route_create_bot E UE OE validation N me info =
     andthen (lift validation) (\<lambda>_.
     andthen (check_oauth2_fields OE (dcb_oauth2_redirect_uris info) (dcb_oauth2_scopes info)) (\<lambda>_.
       let client = dcb_oauth2_redirect_uris info \<noteq> None \<or> dcb_oauth2_scopes info \<noteq> None;
           partial = partial_bot_default\<lparr>
             pb_oauth2_client_id := (if client then Some (bs_client_id N) else None),
             pb_oauth2_client_secret := (if client then Some (bs_client_secret N) else None),
             pb_oauth2_redirect_uris := dcb_oauth2_redirect_uris info, pb_oauth2_scopes := dcb_oauth2_scopes info\<rparr> in
     andthen (bot_create E UE (bs_id N) (bs_limit N) (bs_token N) (dcb_name info) me (Some partial)) (\<lambda>(b, u).
     andthen (user_into_self E UE u False) (\<lambda>v. ret (b, v)))))"

record data_edit_bot =
  deb_name :: "string option"
  deb_public :: "bool option"
  deb_analytics :: "bool option"
  deb_interactions_url :: "string option"
  deb_remove :: "fields_bot list"
  deb_oauth2_redirect_uris :: "string list option"
  deb_oauth2_scopes :: "string list option"

definition edits_no_bot_field :: "data_edit_bot \<Rightarrow> bool" where
  "edits_no_bot_field data \<longleftrightarrow> deb_public data = None \<and> deb_analytics data = None \<and> deb_interactions_url data = None
     \<and> deb_oauth2_redirect_uris data = None \<and> deb_oauth2_scopes data = None \<and> deb_remove data = []"

text \<open>When an OAuth2 field is set, the client id and secret are made unless they exist.\<close>

definition edit_bot_partial :: "bot_secrets \<Rightarrow> bot_account \<Rightarrow> data_edit_bot \<Rightarrow> partial_bot" where
  "edit_bot_partial N b data =
     (let client = deb_oauth2_redirect_uris data \<noteq> None \<or> deb_oauth2_scopes data \<noteq> None;
          or_new = (\<lambda>old new. case old of Some x \<Rightarrow> Some x | None \<Rightarrow> if client then Some new else None)
      in partial_bot_default\<lparr>pb_public := deb_public data, pb_analytics := deb_analytics data,
           pb_interactions_url := deb_interactions_url data,
           pb_oauth2_client_id := or_new (botacc_oauth2_client_id b) (bs_client_id N),
           pb_oauth2_client_secret := or_new (botacc_oauth2_client_secret b) (bs_client_secret N),
           pb_oauth2_redirect_uris := deb_oauth2_redirect_uris data, pb_oauth2_scopes := deb_oauth2_scopes data\<rparr>)"

definition edit_bot_fields ::
    "env \<Rightarrow> users_env \<Rightarrow> unit oauth2_env \<Rightarrow> bot_secrets \<Rightarrow> bot_account \<Rightarrow> data_edit_bot \<Rightarrow> user \<Rightarrow> (bot_account \<times> v0_user) world_action" where
  "edit_bot_fields E UE OE N b data u =
     andthen (check_oauth2_fields OE (deb_oauth2_redirect_uris data) (deb_oauth2_scopes data)) (\<lambda>_.
       if edits_no_bot_field data then andthen (user_into_self E UE u False) (\<lambda>v. ret (b, v))
       else
     andthen (bot_update E (bs_token N) (bs_copy_token N) (bs_db_token N) b (edit_bot_partial N b data) (deb_remove data)) (\<lambda>b'.
     andthen (user_into_self E UE u False) (\<lambda>v. ret (b', v))))"

definition route_edit_bot ::
    "env \<Rightarrow> users_env \<Rightarrow> unit oauth2_env \<Rightarrow> unit result \<Rightarrow> bot_secrets \<Rightarrow> user \<Rightarrow> string \<Rightarrow> data_edit_bot
     \<Rightarrow> (bot_account \<times> v0_user) world_action" where
  "route_edit_bot E UE OE validation N me bot_id data =
     andthen (lift validation) (\<lambda>_.
     andthen (on_db (fetch_bot bot_id)) (\<lambda>b.
       if botacc_owner b \<noteq> user_id me then throw NotFound
       else
     andthen (on_db (fetch_user (botacc_id b))) (\<lambda>u0.
     andthen (case deb_name data of Some name \<Rightarrow> update_username E UE (bs_limit N) (bs_event N) u0 name | None \<Rightarrow> ret u0)
       (edit_bot_fields E UE OE N b data))))"

definition route_delete_bot :: "env \<Rightarrow> string \<Rightarrow> user \<Rightarrow> string \<Rightarrow> unit world_action" where
  "route_delete_bot E event_id me bot_id =
     andthen (on_db (fetch_bot bot_id)) (\<lambda>b.
       if botacc_owner b \<noteq> user_id me then throw NotFound
       else
     andthen (bot_delete E event_id b) (\<lambda>_.
     remove_user_from_voice_channels E (botacc_id b)))"

datatype invite_bot_destination = ToServer string | ToGroup string

definition route_invite_bot :: "env \<Rightarrow> string \<Rightarrow> user \<Rightarrow> string \<Rightarrow> invite_bot_destination \<Rightarrow> unit world_action" where
  "route_invite_bot E message_id me target dest =
     (if user_bot me \<noteq> None then throw IsBot
      else
     andthen (on_db (fetch_bot target)) (\<lambda>b.
       if \<not> botacc_public b \<and> botacc_owner b \<noteq> user_id me then throw BotIsPrivate
       else
     andthen (on_db (fetch_user (botacc_id b))) (\<lambda>bot_user.
       case dest of
         ToServer sid \<Rightarrow>
           andthen (on_db (fetch_server sid)) (\<lambda>srv.
           andthen (server_permissions E me srv) (\<lambda>(p, _).
           andthen (lift (throw_if_lacking_channel_permission p ManageServer)) (\<lambda>_.
           andthen (member_create E message_id srv bot_user None) (\<lambda>_. ret ()))))
       | ToGroup gid \<Rightarrow>
           andthen (on_db (fetch_channel gid)) (\<lambda>c.
           andthen (channel_permissions E (channel_query me c)) (\<lambda>(p, _).
           andthen (lift (throw_if_lacking_channel_permission p InviteOthers)) (\<lambda>_.
           andthen (add_user_to_group E message_id c bot_user (user_id me)) (\<lambda>_. ret ())))))))"

definition route_fetch_bot :: "env \<Rightarrow> users_env \<Rightarrow> user \<Rightarrow> string \<Rightarrow> (bot_account \<times> v0_user) world_action" where
  "route_fetch_bot E UE me bot_id =
     (if user_bot me \<noteq> None then throw IsBot
      else
     andthen (on_db (fetch_bot bot_id)) (\<lambda>b.
       if botacc_owner b \<noteq> user_id me then throw NotFound
       else
     andthen (on_db (fetch_user (botacc_id b))) (\<lambda>u.
     andthen (user_into E UE u None) (\<lambda>v. ret (b, v)))))"

text \<open>The two lists of the answer are sorted by id, so that they match up.\<close>

definition route_fetch_owned_bots :: "env \<Rightarrow> users_env \<Rightarrow> user \<Rightarrow> (v0_user list \<times> bot_account list) world_action" where
  "route_fetch_owned_bots E UE me =
     andthen (on_db (fetch_bots_by_user (user_id me))) (\<lambda>bs.
     andthen (on_db (fetch_users (map botacc_id bs))) (\<lambda>us.
     andthen (map_action (\<lambda>u. user_into_self E UE u False) (sort_key user_id us)) (\<lambda>vs.
     ret (vs, sort_key botacc_id bs))))"

definition route_fetch_public_bot :: "user option \<Rightarrow> string \<Rightarrow> public_bot world_action" where
  "route_fetch_public_bot me target =
     andthen (on_db (fetch_bot target)) (\<lambda>b.
       if \<not> botacc_public b \<and> (case me of Some u \<Rightarrow> user_id u \<noteq> botacc_owner b | None \<Rightarrow> True) then throw NotFound
       else andthen (on_db (fetch_user (botacc_id b))) (\<lambda>u. ret (into_public_bot b u)))"

definition reset_oauth2_fields :: "env \<Rightarrow> users_env \<Rightarrow> bot_secrets \<Rightarrow> bot_account \<Rightarrow> (bot_account \<times> v0_user) world_action" where
  "reset_oauth2_fields E UE N b0 =
     (let b = (if botacc_oauth2_client_id b0 = None then b0\<lparr>botacc_oauth2_client_id := Some (bs_client_id N)\<rparr> else b0);
          partial = partial_bot_default\<lparr>pb_oauth2_client_id := botacc_oauth2_client_id b,
            pb_oauth2_client_secret := Some (bs_client_secret N)\<rparr> in
     andthen (bot_update E (bs_token N) (bs_copy_token N) (bs_db_token N) b partial []) (\<lambda>b'.
     andthen (on_db (fetch_user (botacc_id b'))) (\<lambda>u.
     andthen (user_into_self E UE u False) (\<lambda>v. ret (b', v)))))"

definition route_reset_oauth2_secret ::
    "env \<Rightarrow> users_env \<Rightarrow> bot_secrets \<Rightarrow> user \<Rightarrow> string \<Rightarrow> (bot_account \<times> v0_user) world_action" where
  "route_reset_oauth2_secret E UE N me bot_id =
     (if user_bot me \<noteq> None then throw IsBot
      else
     andthen (on_db (fetch_bot bot_id)) (\<lambda>b.
       if botacc_owner b \<noteq> user_id me then throw NotFound else reset_oauth2_fields E UE N b))"

section \<open>Names stay unique\<close>

lemma db_kept_leave_all [simp]: "db_kept (remove_user_from_voice_channels E i)"
proof -
  have "db_kept (get_user_voice_channels E i)"
    unfolding get_user_voice_channels_def by (auto intro!: db_kept_andthen)
  then show ?thesis
    unfolding remove_user_from_voice_channels_def by (intro db_kept_andthen db_kept_for_each) simp_all
qed

lemma bots_leave_users [simp]:
  "unchanged (\<lambda>w. db_users (db w)) (on_db (fetch_bot i))" "unchanged (\<lambda>w. db_users (db w)) (on_db (insert_bot b))"
  "unchanged (\<lambda>w. db_users (db w)) (on_db (delete_bot i))" "unchanged (\<lambda>w. db_users (db w)) (bot_update E t t' t'' b p fs)"
  "unchanged (\<lambda>w. db_users (db w)) (on_db (get_number_of_bots_by_user i))" "unchanged f (user_limits E u)"
  "unchanged f (check_oauth2_fields OE uris scopes)" "unchanged (\<lambda>w. db_users (db w)) (remove_user_from_voice_channels E i)"
proof -
  have [simp]: "unchanged (\<lambda>w. db_users (db w)) (publish_private ev i)" for ev i
    by (simp add: unchanged_def publish_private_def publish_def modify_def)
  have [simp]: "unchanged (\<lambda>w. db_users (db w)) (on_db (update_bot OS t i p fs))" for OS t i p fs
    by (auto simp: unchanged_def on_db_def update_bot_def table_change_def andthen_def gets_def modify_def throw_def split: option.split)
  show "unchanged (\<lambda>w. db_users (db w)) (bot_update E t t' t'' b p fs)"
    unfolding bot_update_def Let_def by (auto intro!: unchanged_andthen)
  show "unchanged f (check_oauth2_fields OE uris scopes)"
    unfolding check_oauth2_fields_def Let_def by (auto intro!: unchanged_andthen split: option.split)
  show "unchanged (\<lambda>w. db_users (db w)) (remove_user_from_voice_channels E i)"
    using db_kept_leave_all [of E i] unfolding db_kept_unchanged by (rule unchanged_part)
qed (auto simp: unchanged_def on_db_def fetch_bot_def table_fetch_def insert_bot_def table_insert_def delete_bot_def table_remove_def
    get_number_of_bots_by_user_def user_limits_def andthen_def gets_def modify_def throw_def ret_def panic_def split: option.split)

context account_laws
begin

lemma keeps_names_bots [simp]:
  "keeps (names_ok UE) (on_db (fetch_bot i))" "keeps (names_ok UE) (on_db (insert_bot b))" "keeps (names_ok UE) (on_db (delete_bot i))"
  "keeps (names_ok UE) (bot_update E t t' t'' b p fs)" "keeps (names_ok UE) (on_db (get_number_of_bots_by_user i))"
  "keeps (names_ok UE) (user_limits E u)" "keeps (names_ok UE) (check_oauth2_fields OE uris scopes)"
  "keeps (names_ok UE) (remove_user_from_voice_channels E i)"
  by (rule keeps_names, simp)+

lemma bot_create_names: "keeps (names_ok UE) (bot_create E UE i ev token name owner data)"
proof -
  have "keeps (names_ok UE) (user_create E UE i ev name (Some i) (Some (partial_user_default\<lparr>pu_bot := Some x\<rparr>)))" for x
    by (rule keepsI, rule user_create_names) (auto simp: partial_defaults)
  then show ?thesis unfolding bot_create_def Let_def by (auto intro!: keeps_andthen)
qed

lemma route_create_bot_names: "keeps (names_ok UE) (route_create_bot E UE OE validation N me info)"
  unfolding route_create_bot_def Let_def by (auto intro!: keeps_andthen bot_create_names)

lemma fetch_user_then:
  assumes "\<And>u w. names_ok UE w \<Longrightarrow> map_of (db_users (db w)) (user_id u) = Some u \<Longrightarrow> user_id u = i \<Longrightarrow> names_ok UE (snd (f u w))"
  shows "keeps (names_ok UE) (andthen (on_db (fetch_user i)) f)"
proof (rule keepsI)
  fix w assume w: "names_ok UE w"
  show "names_ok UE (snd (andthen (on_db (fetch_user i)) f w))"
  proof (cases "map_of (db_users (db w)) i")
    case (Some u)
    with w have "user_id u = i" by (simp add: tags_unique_def)
    with Some w assms [of w u] show ?thesis by (simp add: andthen_def on_db_def fetch_user_def users.fetch)
  qed (use w in \<open>simp add: andthen_def on_db_def fetch_user_def users.fetch\<close>)
qed

lemma rename_request_names:
  "keeps (names_ok UE) (andthen (on_db (fetch_user i)) (\<lambda>u. route_change_username E UE validation pw li ev u name))"
  by (rule fetch_user_then) (rule route_change_username_names)

lemma route_edit_bot_names: "keeps (names_ok UE) (route_edit_bot E UE OE validation N me i data)"
proof -
  have rest: "keeps (names_ok UE) (edit_bot_fields E UE OE N b data u)" for b u
    unfolding edit_bot_fields_def by (auto intro!: keeps_andthen)
  have "keeps (names_ok UE) (andthen (on_db (fetch_user k)) (\<lambda>u0.
      andthen (case deb_name data of Some name \<Rightarrow> update_username E UE (bs_limit N) (bs_event N) u0 name | None \<Rightarrow> ret u0)
        (edit_bot_fields E UE OE N b data)))" for k b
    by (rule fetch_user_then, rule snd_andthen_keeps) (auto simp: rest update_username_names ret_def split: option.split)
  then show ?thesis unfolding route_edit_bot_def by (auto intro!: keeps_andthen)
qed

lemma bot_delete_names:
  assumes "names_ok UE w" and "\<And>j v. map_of (db_users (db w)) j = Some v \<Longrightarrow> j \<noteq> botacc_id b
      \<Longrightarrow> ue_lower UE (username v) \<noteq> ue_lower UE (deleted_name (botacc_id b))"
  shows "names_ok UE (snd (bot_delete E ev b w))"
proof (cases "map_of (db_users (db w)) (botacc_id b)")
  case (Some u)
  with assms(1) have "user_id u = botacc_id b" by (simp add: tags_unique_def)
  with assms have "names_ok UE (snd (mark_deleted E ev u w))" by (intro mark_deleted_names) simp_all
  then have "names_ok UE (snd (andthen (mark_deleted E ev u) (\<lambda>_. on_db (delete_bot (botacc_id b))) w))"
    by (rule snd_andthen_keeps) simp
  with Some show ?thesis by (simp add: bot_delete_def andthen_def on_db_def fetch_user_def users.fetch)
qed (use assms(1) in \<open>simp add: bot_delete_def andthen_def on_db_def fetch_user_def users.fetch\<close>)

end

section \<open>Bots change by their owners\<close>

text \<open>The stored bots that do not belong to a user.\<close>

definition foreign_bots :: "string \<Rightarrow> world \<Rightarrow> string \<rightharpoonup> bot_account" where
  "foreign_bots uid w i = (case map_of (db_bots (db w)) i of Some b \<Rightarrow> if botacc_owner b \<noteq> uid then Some b else None | None \<Rightarrow> None)"

text \<open>\<open>foreign_kept uid w m\<close>: from \<open>w\<close>, every bot of others is still there afterwards, as it was.\<close>

definition foreign_kept :: "string \<Rightarrow> world \<Rightarrow> world \<Rightarrow> bool" where
  "foreign_kept uid w w' \<longleftrightarrow> foreign_bots uid w \<subseteq>\<^sub>m foreign_bots uid w'"

lemma foreign_kept_same: "db_bots (db w') = db_bots (db w) \<Longrightarrow> foreign_kept uid w w'"
  by (simp add: foreign_kept_def foreign_bots_def map_le_def)

lemma foreign_kept_trans: "foreign_kept uid w w' \<Longrightarrow> foreign_kept uid w' w'' \<Longrightarrow> foreign_kept uid w w''"
  unfolding foreign_kept_def by (rule map_le_trans)

lemma bots_kept_andthen:
  assumes "unchanged (\<lambda>w. db_bots (db w)) m" and "\<And>x w'. db_bots (db w') = db_bots (db w) \<Longrightarrow> foreign_kept uid w' (snd (f x w'))"
  shows "foreign_kept uid w (snd (andthen m f w))"
  using assms(1)
  by (rule snd_andthen_unchanged) (auto intro: foreign_kept_same foreign_kept_trans assms(2))

lemma then_bots_kept:
  assumes "foreign_kept uid w (snd (m w))" and "\<And>x. unchanged (\<lambda>w. db_bots (db w)) (f x)"
  shows "foreign_kept uid w (snd (andthen m f w))"
proof (rule snd_andthen_keeps)
  show "foreign_kept uid w (snd (m w))" by (rule assms(1))
  show "keeps (foreign_kept uid w) (f x)" for x
    using assms(2) [of x] by (auto intro!: keepsI foreign_kept_same elim!: foreign_kept_trans simp: unchanged_def)
qed

text \<open>The operations on users do not touch the bots.\<close>

lemma users_leave_bots [simp]:
  "unchanged (\<lambda>w. db_bots (db w)) (on_db (fetch_user i))" "unchanged (\<lambda>w. db_bots (db w)) (on_db (insert_user u))"
  "unchanged (\<lambda>w. db_bots (db w)) (on_db (fetch_bot i))" "unchanged (\<lambda>w. db_bots (db w)) (on_db (get_number_of_bots_by_user i))"
  "unchanged (\<lambda>w. db_bots (db w)) (find_discriminator E UE ev n pref)" "unchanged (\<lambda>w. db_bots (db w)) (user_update E ev u p fs)"
  "unchanged (\<lambda>w. db_bots (db w)) (remove_user_from_voice_channels E i)"
proof -
  have [simp]: "unchanged (\<lambda>w. db_bots (db w)) (ratelimit_event_create i t k)" for i t k
    by (auto simp: unchanged_def ratelimit_event_create_def on_db_def insert_ratelimit_event_def table_insert_def andthen_def gets_def
        modify_def throw_def)
  show "unchanged (\<lambda>w. db_bots (db w)) (find_discriminator E UE ev n pref)"
    unfolding find_discriminator_def fetch_discriminators_in_use_def has_ratelimited_def Let_def
    by (auto intro!: unchanged_andthen split: option.split)
  have [simp]: "unchanged (\<lambda>w. db_bots (db w)) (publish_user e i)" for e i by (simp add: unchanged_def)
  have [simp]: "unchanged (\<lambda>w. db_bots (db w)) (on_db (update_user OS i p fs))" for OS i p fs
    by (auto simp: unchanged_def on_db_def update_user_def table_change_def andthen_def gets_def modify_def throw_def split: option.split)
  show "unchanged (\<lambda>w. db_bots (db w)) (user_update E ev u p fs)"
    unfolding user_update_def Let_def by (auto intro!: unchanged_andthen)
  show "unchanged (\<lambda>w. db_bots (db w)) (remove_user_from_voice_channels E i)"
    using db_kept_leave_all [of E i] unfolding db_kept_unchanged by (rule unchanged_part)
qed (auto simp: unchanged_def on_db_def fetch_bot_def table_fetch_def fetch_user_def insert_user_def table_insert_def
    get_number_of_bots_by_user_def andthen_def gets_def modify_def throw_def ret_def split: option.split)

lemma renaming_leaves_bots [simp]:
  "unchanged (\<lambda>w. db_bots (db w)) (user_create E UE i ev n a data)" "unchanged (\<lambda>w. db_bots (db w)) (update_username E UE li ev u n)"
  "unchanged (\<lambda>w. db_bots (db w)) (mark_deleted E ev u)"
  unfolding user_create_def update_username_def mark_deleted_def Let_def by (auto intro!: unchanged_andthen)

lemma insert_bot_kept: "foreign_kept uid w (snd (on_db (insert_bot b) w))"
  by (auto simp: foreign_kept_def foreign_bots_def map_le_def on_db_def insert_bot_def table_insert_def andthen_def gets_def modify_def
      throw_def hm_contains_def update_conv' split: option.split)

text \<open>A write to the bot with id \<open>i\<close>, which belongs to \<open>uid\<close>.\<close>

definition owns :: "world \<Rightarrow> string \<Rightarrow> string \<Rightarrow> bool" where
  "owns w uid i = (case map_of (db_bots (db w)) i of Some b \<Rightarrow> botacc_owner b = uid | None \<Rightarrow> True)"

lemma change_own_kept:
  assumes "owns w uid i"
  shows "foreign_kept uid w (snd (on_db (update_bot OS t i p fs) w))" and "foreign_kept uid w (snd (on_db (delete_bot i) w))"
  using assms
  by (auto simp: owns_def foreign_kept_def foreign_bots_def map_le_def on_db_def update_bot_def table_change_def delete_bot_def
      table_remove_def andthen_def gets_def modify_def throw_def update_conv' delete_conv' split: option.splits if_splits)

lemma bot_remove_fields_id [simp]: "botacc_id (fold (bot_remove_field t) fs b) = botacc_id b"
proof (induction fs arbitrary: b)
  case (Cons f fs)
  then show ?case by (cases f) simp_all
qed simp

lemma bot_update_kept: "owns w uid (botacc_id b) \<Longrightarrow> foreign_kept uid w (snd (bot_update E t t' t'' b p fs w))"
  unfolding bot_update_def Let_def
  by (rule then_bots_kept) (auto intro!: change_own_kept unchanged_andthen
    simp: unchanged_def publish_private_def publish_def modify_def andthen_def ret_def)

text \<open>A route reads the bot and goes on only for its owner.\<close>

lemma own_bot_then:
  assumes wf: "\<And>j b. map_of (db_bots (db w)) j = Some b \<Longrightarrow> botacc_id b = j"
    and "\<And>b. owns w (user_id me) (botacc_id b) \<Longrightarrow> foreign_kept (user_id me) w (snd (f b w))"
  shows "foreign_kept (user_id me) w (snd (andthen (on_db (fetch_bot i)) (\<lambda>b. if botacc_owner b \<noteq> user_id me then throw NotFound else f b) w))"
proof (cases "map_of (db_bots (db w)) i")
  case None
  then show ?thesis by (simp add: andthen_def on_db_def fetch_bot_def bots.fetch foreign_kept_same)
next
  case (Some b)
  with wf have "botacc_owner b = user_id me \<Longrightarrow> owns w (user_id me) (botacc_id b)" by (auto simp: owns_def split: option.split)
  with Some assms(2) [of b] show ?thesis
    by (auto simp: andthen_def on_db_def fetch_bot_def bots.fetch throw_def foreign_kept_same)
qed

text \<open>Bots are stored under their ids.\<close>

definition bots_keyed :: "world \<Rightarrow> bool" where
  "bots_keyed w \<longleftrightarrow> (\<forall>i b. map_of (db_bots (db w)) i = Some b \<longrightarrow> botacc_id b = i)"

lemma create_bot_kept: "foreign_kept uid w (snd (route_create_bot E UE OE validation N me info w))"
proof -
  have insert: "foreign_kept uid w (snd (andthen (on_db (insert_bot b)) (\<lambda>_. ret x) w))" for w b x
    by (rule then_bots_kept) (simp_all add: insert_bot_kept)
  have create: "foreign_kept uid w (snd (bot_create E UE i ev t n me data w))" for w i ev t n data
  proof (cases "user_bot me")
    case None
    then show ?thesis
      unfolding bot_create_def Let_def
      by (auto intro!: bots_kept_andthen insert simp: throw_def foreign_kept_same)
  qed (simp add: bot_create_def throw_def foreign_kept_same)
  show ?thesis
    unfolding route_create_bot_def Let_def
    by (intro bots_kept_andthen then_bots_kept create) (auto intro!: unchanged_andthen)
qed

lemma bots_keyed_same: "bots_keyed w \<Longrightarrow> db_bots (db w') = db_bots (db w) \<Longrightarrow> bots_keyed w'"
  by (simp add: bots_keyed_def)

lemma owns_same: "owns w uid i \<Longrightarrow> db_bots (db w') = db_bots (db w) \<Longrightarrow> owns w' uid i"
  by (simp add: owns_def)

lemma edit_bot_fields_kept:
  assumes "owns w uid (botacc_id b)"
  shows "foreign_kept uid w (snd (edit_bot_fields E UE OE N b data u w))"
proof -
  have update: "owns w uid (botacc_id b) \<Longrightarrow> foreign_kept uid w (snd (andthen (bot_update E t t' t'' b p fs) (\<lambda>b'.
     andthen (user_into_self E UE u False) (\<lambda>v. ret (b', v))) w))" for w t t' t'' p fs
    by (intro then_bots_kept bot_update_kept) (auto intro!: unchanged_andthen)
  have plain: "foreign_kept uid w (snd (andthen (user_into_self E UE u False) (\<lambda>v. ret (b, v)) w))" for w
    by (rule bots_kept_andthen) (simp_all add: ret_def foreign_kept_same)
  show ?thesis
    unfolding edit_bot_fields_def
    by (rule bots_kept_andthen, simp) (cases "edits_no_bot_field data"; simp add: plain update owns_same [OF assms])
qed

lemma edit_bot_kept:
  assumes "bots_keyed w"
  shows "foreign_kept (user_id me) w (snd (route_edit_bot E UE OE validation N me i data w))"
  unfolding route_edit_bot_def
proof (rule bots_kept_andthen, simp, rule own_bot_then)
  show "\<And>j b. map_of (db_bots (db w')) j = Some b \<Longrightarrow> botacc_id b = j" if "db_bots (db w') = db_bots (db w)" for w'
    using assms that by (simp add: bots_keyed_def)
  fix w' and b :: bot_account assume own: "owns w' (user_id me) (botacc_id b)"
  show "foreign_kept (user_id me) w' (snd (andthen (on_db (fetch_user (botacc_id b))) (\<lambda>u0.
     andthen (case deb_name data of Some name \<Rightarrow> update_username E UE (bs_limit N) (bs_event N) u0 name | None \<Rightarrow> ret u0)
       (edit_bot_fields E UE OE N b data)) w'))"
  proof (rule bots_kept_andthen, simp, rule bots_kept_andthen)
    fix u0 show "unchanged (\<lambda>w. db_bots (db w)) (case deb_name data of Some name \<Rightarrow> update_username E UE (bs_limit N) (bs_event N) u0 name | None \<Rightarrow> ret u0)"
      by (simp split: option.split)
  qed (use own in \<open>auto intro!: edit_bot_fields_kept elim!: owns_same\<close>)
qed

lemma delete_bot_kept:
  assumes "bots_keyed w"
  shows "foreign_kept (user_id me) w (snd (route_delete_bot E ev me i w))"
  unfolding route_delete_bot_def
proof (rule own_bot_then)
  show "\<And>j b. map_of (db_bots (db w)) j = Some b \<Longrightarrow> botacc_id b = j" using assms by (simp add: bots_keyed_def)
  fix b :: bot_account assume own: "owns w (user_id me) (botacc_id b)"
  have "foreign_kept (user_id me) w (snd (bot_delete E ev b w))"
    unfolding bot_delete_def by (intro bots_kept_andthen change_own_kept) (use own in \<open>auto elim!: owns_same\<close>)
  then show "foreign_kept (user_id me) w (snd (andthen (bot_delete E ev b) (\<lambda>_. remove_user_from_voice_channels E (botacc_id b)) w))"
    by (rule then_bots_kept) simp
qed

lemma reset_secret_kept:
  assumes "bots_keyed w"
  shows "foreign_kept (user_id me) w (snd (route_reset_oauth2_secret E UE N me i w))"
proof (cases "user_bot me")
  case None
  have "foreign_kept (user_id me) w (snd (reset_oauth2_fields E UE N b w))" if "owns w (user_id me) (botacc_id b)" for b
    unfolding reset_oauth2_fields_def Let_def
    by (intro then_bots_kept bot_update_kept) (use that in \<open>auto intro!: unchanged_andthen\<close>)
  then have "foreign_kept (user_id me) w (snd (andthen (on_db (fetch_bot i)) (\<lambda>b.
      if botacc_owner b \<noteq> user_id me then throw NotFound else reset_oauth2_fields E UE N b) w))"
    by (intro own_bot_then) (use assms in \<open>simp_all add: bots_keyed_def\<close>)
  with None show ?thesis by (simp add: route_reset_oauth2_secret_def)
qed (simp add: route_reset_oauth2_secret_def throw_def foreign_kept_same)

section \<open>Properties\<close>

text \<open>What happens to accounts: onboarding, changes of names, edits, suspension, and the routes of bots. A request for the own account
  reads the user first, as the guard of the route does. Nobody else may carry the name that a deleted bot gets.\<close>

inductive account_traffic :: "users_env \<Rightarrow> world \<Rightarrow> world \<Rightarrow> bool" for UE where
  start: "account_traffic UE w w"
| onboard: "account_traffic UE w w' \<Longrightarrow> account_laws UE E \<Longrightarrow>
    account_traffic UE w (snd (route_onboard_complete E UE validation i ev session_user u name w'))"
| rename: "account_traffic UE w w' \<Longrightarrow> account_laws UE E \<Longrightarrow>
    account_traffic UE w (snd (andthen (on_db (fetch_user i)) (\<lambda>u. route_change_username E UE validation pw li ev u name) w'))"
| edit: "account_traffic UE w w' \<Longrightarrow> account_laws UE E \<Longrightarrow>
    account_traffic UE w (snd (route_edit_user E UE validation ev me target data w'))"
| suspend: "account_traffic UE w w' \<Longrightarrow> account_laws UE E \<Longrightarrow>
    account_traffic UE w (snd (user_suspend E A ev u days reason w'))"
| create_bot: "account_traffic UE w w' \<Longrightarrow> account_laws UE E \<Longrightarrow>
    account_traffic UE w (snd (route_create_bot E UE OE validation N me info w'))"
| edit_bot: "account_traffic UE w w' \<Longrightarrow> account_laws UE E \<Longrightarrow>
    account_traffic UE w (snd (route_edit_bot E UE OE validation N me i changes w'))"
| delete_bot: "account_traffic UE w w' \<Longrightarrow> account_laws UE E \<Longrightarrow>
    (\<And>j v. map_of (db_users (db w')) j = Some v \<Longrightarrow> j \<noteq> botacc_id b \<Longrightarrow> ue_lower UE (username v) \<noteq> ue_lower UE (deleted_name (botacc_id b))) \<Longrightarrow>
    account_traffic UE w (snd (bot_delete E ev b w'))"

text \<open>C32: no two users share a name and a discriminator. Through every sequence of these requests by anybody, successful or not, any two
  stored users differ in their names, compared without regard to case, or in their discriminators.\<close>

theorem names_stay_unique:
  assumes "account_traffic UE w w'" and "names_ok UE w"
  shows "names_ok UE w'"
  using assms
proof (induction rule: account_traffic.induct)
  case (delete_bot w w' E b ev)
  then show ?case using account_laws.bot_delete_names [of UE E w' b ev] by blast
qed (auto intro: account_laws.route_onboard_names keepsD [OF account_laws.rename_request_names]
    keepsD [OF account_laws.route_edit_user_names] keepsD [OF account_laws.user_suspend_names]
    keepsD [OF account_laws.route_create_bot_names] keepsD [OF account_laws.route_edit_bot_names])

definition two_anns :: world where
  "two_anns = snd (route_onboard_complete sample_env sample_users_env (Ok ()) ''x'' ''e'' ''2'' None ''Ann''
     (snd (route_onboard_complete sample_env sample_users_env (Ok ()) ''x'' ''e'' ''1'' None ''ann'' (sample_world empty_db))))"

lemma sample_onboard:
  assumes "account_traffic sample_users_env w w'"
  shows "account_traffic sample_users_env w (snd (route_onboard_complete sample_env sample_users_env (Ok ()) ''x'' ''e'' i None name w'))"
  using assms sample_accounts.account_laws_axioms by (rule account_traffic.onboard)

theorem names_stay_unique_witness: "names_ok sample_users_env two_anns"
proof (rule names_stay_unique)
  show "account_traffic sample_users_env (sample_world empty_db) two_anns"
    unfolding two_anns_def by (intro sample_onboard account_traffic.start)
  show "names_ok sample_users_env (sample_world empty_db)" by (simp add: sample_world_def empty_db_def tags_unique_def)
qed

text \<open>The requests of a user about bots, each with any outcome.\<close>

inductive bot_step :: "user \<Rightarrow> world \<Rightarrow> world \<Rightarrow> bool" for me where
  create: "bot_step me w (snd (route_create_bot E UE OE validation N me info w))"
| edit: "bot_step me w (snd (route_edit_bot E UE OE validation N me i changes w))"
| delete: "bot_step me w (snd (route_delete_bot E ev me i w))"
| reset: "bot_step me w (snd (route_reset_oauth2_secret E UE N me i w))"

text \<open>C33: a bot changes only by its owner. Whatever a user asks of the routes that create, edit, delete and reset bots, and however it
  ends, the bots of all others are stored as before.\<close>

theorem bots_obey_their_owners:
  assumes "bot_step me w w'" and "bots_keyed w" and "map_of (db_bots (db w)) i = Some b" and "botacc_owner b \<noteq> user_id me"
  shows "map_of (db_bots (db w')) i = Some b"
proof -
  have "foreign_kept (user_id me) w w'"
    using assms(1,2) by (induction rule: bot_step.induct) (auto intro: create_bot_kept edit_bot_kept delete_bot_kept reset_secret_kept)
  with assms(3,4) show ?thesis
    by (auto simp: foreign_kept_def foreign_bots_def map_le_def dom_def split: option.splits if_splits)
qed

definition bot_world :: world where
  "bot_world = sample_world (empty_db\<lparr>db_bots := [(''B'', (oauth_bot ''B'')\<lparr>botacc_owner := ''a''\<rparr>)],
     db_users := [(''B'', user_default\<lparr>user_id := ''B'', username := ''bot'', discriminator := ''0007''\<rparr>)]\<rparr>)"

lemma bot_world_lookups [simp]:
  "map_of (db_bots (db bot_world)) i = (if i = ''B'' then Some ((oauth_bot ''B'')\<lparr>botacc_owner := ''a''\<rparr>) else None)"
  "map_of (db_users (db bot_world)) i
     = (if i = ''B'' then Some (user_default\<lparr>user_id := ''B'', username := ''bot'', discriminator := ''0007''\<rparr>) else None)"
  by (simp_all add: bot_world_def sample_world_def)

lemma bot_world_keyed: "bots_keyed bot_world"
  by (simp add: bots_keyed_def oauth_bot_def)

theorem bots_obey_their_owners_witness:
  "map_of (db_bots (db (snd (route_delete_bot sample_env ''e'' (sample_user ''c'') ''B'' bot_world)))) ''B''
     = Some ((oauth_bot ''B'')\<lparr>botacc_owner := ''a''\<rparr>)"
  by (rule bots_obey_their_owners [OF bot_step.delete bot_world_keyed]) (simp_all add: sample_user_def)

definition bots_owned :: "world \<Rightarrow> string \<Rightarrow> nat" where
  "bots_owned w uid = length (filter (\<lambda>b. botacc_owner b = uid) (hm_values (db_bots (db w))))"

lemma andthen_number_of_bots: "andthen (on_db (get_number_of_bots_by_user i)) f w = f (bots_owned w i) w"
  by (simp add: get_number_of_bots_by_user_def bots_owned_def)

lemma hm_update_new: "map_of m k = None \<Longrightarrow> AList.update k v m = m @ [(k, v)]"
  by (induction m) (auto split: if_splits)

lemma insert_bot_run:
  assumes "on_db (insert_bot b) w = (Ok (), w')"
  shows "db_bots (db w') = db_bots (db w) @ [(botacc_id b, b)]"
  using assms
  by (auto simp: on_db_def insert_bot_def table_insert_def andthen_def gets_def modify_def throw_def hm_contains_def hm_update_new
      split: if_splits)

lemma bot_create_run:
  assumes "bot_create E UE i ev t n me data w = (Ok (b, u), w')"
  obtains limits where "user_bot me = None" and "user_limits E me w = (Ok limits, w)"
    and "bots_owned w (user_id me) < limit_bots limits"
    and "db_bots (db w') = db_bots (db w) @ [(botacc_id b, b)]"
    and "b = (let b0 = bot_account_default\<lparr>botacc_id := i, botacc_owner := user_id me, botacc_token := t\<rparr>
              in case data of Some p \<Rightarrow> apply_bot (env_structs E) p b0 | None \<Rightarrow> b0)"
proof -
  have bot: "user_bot me = None" using assms by (auto simp: bot_create_def throw_def split: if_splits)
  let ?b0 = "bot_account_default\<lparr>botacc_id := i, botacc_owner := user_id me, botacc_token := t\<rparr>"
  let ?b = "case data of Some p \<Rightarrow> apply_bot (env_structs E) p ?b0 | None \<Rightarrow> ?b0"
  let ?rest = "\<lambda>limits. if limit_bots limits \<le> bots_owned w (user_id me) then throw ReachedMaximumBots
       else andthen (user_create E UE i ev n (Some i) (Some (partial_user_default\<lparr>pu_bot := Some \<lparr>bot_owner = user_id me\<rparr>\<rparr>))) (\<lambda>u.
         andthen (on_db (insert_bot ?b)) (\<lambda>_. ret (?b, u)))"
  have "andthen (user_limits E me) ?rest w = (Ok (b, u), w')"
    using assms bot unfolding bot_create_def Let_def by (simp add: andthen_number_of_bots)
  then obtain limits w1 where limits: "user_limits E me w = (Ok limits, w1)" and rest: "?rest limits w1 = (Ok (b, u), w')"
    by (rule andthen_OkE)
  have "w1 = w" using unchangedD [where f = "\<lambda>x. x", OF bots_leave_users(6) limits] by simp
  moreover from rest have less: "bots_owned w (user_id me) < limit_bots limits"
    by (auto simp: throw_def split: if_splits)
  ultimately obtain u' w2 w3 where create: "user_create E UE i ev n (Some i) (Some (partial_user_default\<lparr>pu_bot := Some \<lparr>bot_owner = user_id me\<rparr>\<rparr>)) w = (Ok u', w2)"
    and insert: "on_db (insert_bot ?b) w2 = (Ok (), w3)" and ret: "b = ?b" "w' = w3"
    using rest by (auto simp: ret_def elim!: andthen_OkE)
  have "db_bots (db w2) = db_bots (db w)" by (rule unchangedD [OF renaming_leaves_bots(1) create])
  with insert_bot_run [OF insert] ret have "db_bots (db w') = db_bots (db w) @ [(botacc_id b, b)]" by simp
  with that bot limits \<open>w1 = w\<close> less ret show ?thesis by (simp add: Let_def)
qed

text \<open>nobody creates more bots than allowed. When a bot was created, the number of bots that the user owns is within the limit for
  the user, the new bot belongs to the user and is stored under the id of its account, and bots themselves can own none.\<close>

theorem bots_within_limit:
  assumes "optional_struct_laws (env_structs E)" and "route_create_bot E UE OE validation N me info w = (Ok (b, v), w')"
  shows "\<exists>limits. user_limits E me w = (Ok limits, w) \<and> user_bot me = None
     \<and> bots_owned w' (user_id me) \<le> limit_bots limits
     \<and> botacc_owner b = user_id me \<and> botacc_token b = bs_token N \<and> db_bots (db w') = db_bots (db w) @ [(bs_id N, b)]"
proof -
  obtain data u w1 where create: "bot_create E UE (bs_id N) (bs_limit N) (bs_token N) (dcb_name info) me (Some data) w = (Ok (b, u), w1)"
    and data: "pb_id data = None" "pb_owner data = None" "pb_token data = None" and into: "user_into_self E UE u False w1 = (Ok v, w')"
  proof -
    from assms(2) obtain y where check: "check_oauth2_fields OE (dcb_oauth2_redirect_uris info) (dcb_oauth2_scopes info) w = (Ok y, w)"
      using unchangedD [where f = "\<lambda>x. x", OF bots_leave_users(7)]
      by (fastforce simp: route_create_bot_def andthen_lift split: outcome.splits elim!: andthen_OkE)
    then have checked: "andthen (check_oauth2_fields OE (dcb_oauth2_redirect_uris info) (dcb_oauth2_scopes info)) f w = f y w" for f
      by (simp add: andthen_def)
    let ?client = "dcb_oauth2_redirect_uris info \<noteq> None \<or> dcb_oauth2_scopes info \<noteq> None"
    let ?data = "partial_bot_default\<lparr>pb_oauth2_client_id := (if ?client then Some (bs_client_id N) else None),
             pb_oauth2_client_secret := (if ?client then Some (bs_client_secret N) else None),
             pb_oauth2_redirect_uris := dcb_oauth2_redirect_uris info, pb_oauth2_scopes := dcb_oauth2_scopes info\<rparr>"
    have data: "pb_id ?data = None" "pb_owner ?data = None" "pb_token ?data = None" by (simp_all add: partial_defaults)
    have run: "andthen (bot_create E UE (bs_id N) (bs_limit N) (bs_token N) (dcb_name info) me (Some ?data)) (\<lambda>(b, u).
        andthen (user_into_self E UE u False) (\<lambda>v. ret (b, v))) w = (Ok (b, v), w')"
      using assms(2) by (cases validation) (simp_all add: route_create_bot_def andthen_lift Let_def checked split del: if_split)
    from run show ?thesis by (rule andthen_OkE) (auto simp: ret_def intro: that [OF _ data] elim!: andthen_OkE)
  qed
  have same: "db w' = db w1" using unchangedD [where f = db, OF rendering_unchanged(6) into] .
  from create show ?thesis
  proof (rule bot_create_run)
    fix limits assume *: "user_bot me = None" "user_limits E me w = (Ok limits, w)"
      "bots_owned w (user_id me) < limit_bots limits"
      "db_bots (db w1) = db_bots (db w) @ [(botacc_id b, b)]"
      "b = (let b0 = bot_account_default\<lparr>botacc_id := bs_id N, botacc_owner := user_id me, botacc_token := bs_token N\<rparr>
            in case Some data of Some p \<Rightarrow> apply_bot (env_structs E) p b0 | None \<Rightarrow> b0)"
    then have b: "botacc_id b = bs_id N" "botacc_owner b = user_id me" "botacc_token b = bs_token N"
      by (simp_all add: optional_struct_laws.apply_bot [OF assms(1)] data set_if_def Let_def)
    with * same show ?thesis by (auto simp: bots_owned_def)
  qed
qed

definition sample_secrets :: bot_secrets where
  "sample_secrets = \<lparr>bs_id = ''B'', bs_event = ''e'', bs_limit = ''l'', bs_token = ''t'', bs_copy_token = ''t1'', bs_db_token = ''t2'',
     bs_client_id = ''B'', bs_client_secret = ''new''\<rparr>"

definition sample_client_env :: "unit oauth2_env" where
  "sample_client_env = \<lparr>oe_cleanup_now = 100, oe_check_now = 100, oe_issue_now = 100, oe_settings = oe_settings oauth_env,
     oe_scheme = (\<lambda>_. Some ''https''), oe_with_query = (\<lambda>u _. u), oe_iteration = sorted_list_of_set,
     oe_session_token = (\<lambda>_. []), oe_session_user_id = (\<lambda>_. [])\<rparr>"

lemma empty_world_tables [simp]: "db_users (db (sample_world empty_db)) = []" "db_bots (db (sample_world empty_db)) = []"
  by (simp_all add: sample_world_def empty_db_def)

lemma andthen_insert_user:
  "map_of (db_users (db w)) (user_id u) = None \<Longrightarrow>
   andthen (on_db (insert_user u)) f w = f () (w\<lparr>db := db_users_update (AList.update (user_id u) u) (db w)\<rparr>)"
  by (simp add: andthen_def on_db_def insert_user_def users.insert_new)

lemma andthen_insert_bot:
  "map_of (db_bots (db w)) (botacc_id b) = None \<Longrightarrow>
   andthen (on_db (insert_bot b)) f w = f () (w\<lparr>db := db_bots_update (AList.update (botacc_id b) b) (db w)\<rparr>)"
  by (simp add: andthen_def on_db_def insert_bot_def bots.insert_new)

lemma sample_create_user:
  "\<exists>u w'. user_create sample_env sample_users_env i ev ''bot'' (Some k) data (sample_world empty_db) = (Ok u, w') \<and> db_bots (db w') = []"
proof -
  have name: "sanitise_username sample_users_env ''bot'' = Ok ''bot''"
    by (simp add: sanitise_username_def sample_users_env_def utf8_len_def)
  have valid: "validate_username sample_users_env ''bot'' = Ok ()"
    by (simp add: validate_username_def sample_users_env_def BLOCKED_USERNAMES_def blocked_patterns_def ascii_lower_def Let_def)
  obtain s where find: "find_discriminator sample_env sample_users_env ev ''bot'' None (sample_world empty_db) = (Ok s, sample_world empty_db)"
    using sample_accounts.discriminator_found [of "''bot''" "sample_world empty_db" ev] by auto
  then have found: "andthen (find_discriminator sample_env sample_users_env ev ''bot'' None) f (sample_world empty_db) = f s (sample_world empty_db)" for f
    by (simp add: andthen_def)
  show ?thesis by (simp add: user_create_def andthen_lift name valid Let_def found andthen_insert_user ret_def)
qed

theorem bots_within_limit_witness:
  "\<exists>b v w'. route_create_bot sample_env sample_users_env sample_client_env (Ok ()) sample_secrets (sample_user ''a'')
       \<lparr>dcb_name = ''bot'', dcb_oauth2_redirect_uris = None, dcb_oauth2_scopes = None\<rparr> (sample_world empty_db) = (Ok (b, v), w')
     \<and> bots_owned w' ''a'' \<le> 5 \<and> botacc_owner b = ''a''"
proof -
  let ?info = "\<lparr>dcb_name = ''bot'', dcb_oauth2_redirect_uris = None, dcb_oauth2_scopes = None\<rparr>"
  let ?run = "route_create_bot sample_env sample_users_env sample_client_env (Ok ()) sample_secrets (sample_user ''a'') ?info (sample_world empty_db)"
  have limits: "user_limits sample_env (sample_user ''a'') w = (Ok (env_default sample_env), w)" for w
    by (simp add: user_limits_def sample_env_def ret_def)
  have five: "limit_bots (env_default sample_env) = 5" by (simp add: sample_env_def)
  obtain u w1 where create: "user_create sample_env sample_users_env ''B'' ''l'' ''bot'' (Some ''B'')
      (Some (partial_user_default\<lparr>pu_bot := Some \<lparr>bot_owner = ''a''\<rparr>\<rparr>)) (sample_world empty_db) = (Ok u, w1)"
      and none: "db_bots (db w1) = []" using sample_create_user by blast
  have limited: "andthen (user_limits sample_env (sample_user ''a'')) f w = f (env_default sample_env) w" for f w
    using limits by (simp add: andthen_def)
  have created: "andthen (user_create sample_env sample_users_env ''B'' ''l'' ''bot'' (Some ''B'')
      (Some (partial_user_default\<lparr>pu_bot := Some \<lparr>bot_owner = ''a''\<rparr>\<rparr>))) f (sample_world empty_db) = f u w1" for f
    using create by (simp add: andthen_def)
  have none_owned: "bots_owned (sample_world empty_db) i = 0" for i by (simp add: bots_owned_def)
  have "user_bot (sample_user ''a'') = None" "user_id (sample_user ''a'') = ''a''" by (simp_all add: sample_user_def user_default_def)
  moreover have "get_badges sample_env sample_users_env u w = (Ok (word_of_int (case badges u of Some x \<Rightarrow> x | None \<Rightarrow> 0)), w)" for w
    by (simp add: get_badges_def sample_users_env_def ret_def)
  ultimately have "\<exists>b v w'. ?run = (Ok (b, v), w')"
    by (simp add: route_create_bot_def andthen_lift check_oauth2_fields_def Let_def bot_create_def andthen_assoc andthen_number_of_bots limited five none_owned
        sample_secrets_def created andthen_insert_bot none user_into_self_def) (simp add: andthen_def ret_def)
  then obtain b v w' where run: "?run = (Ok (b, v), w')" by blast
  have "optional_struct_laws (env_structs sample_env)" by (rule sample_accounts.optional_struct_laws_axioms)
  from bots_within_limit [OF this run] limits five run show ?thesis by (auto simp: sample_user_def)
qed

lemma find_unique_value:
  assumes "hm_wf t" and "map_of t i = Some x" and "P x" and "\<And>j y. map_of t j = Some y \<Longrightarrow> P y \<Longrightarrow> j = i"
  shows "List.find P (hm_values t) = Some x"
proof -
  have "x \<in> set (hm_values t)" using assms(2) by (force dest: map_of_SomeD)
  then obtain y where y: "List.find P (hm_values t) = Some y" using assms(3) by (cases "List.find P (hm_values t)") (auto simp: find_None_iff)
  then have "y \<in> set (hm_values t)" "P y" by (metis find_Some_iff nth_mem)+
  then obtain k where "(k, y) \<in> set t" "P y" by auto
  with assms show ?thesis using y by (metis hm_wf_map_of_iff option.inject)
qed

lemma bot_update_run:
  assumes "map_of (db_bots (db w)) (botacc_id b) = Some c" and "pb_token p = None"
  shows "bot_update E t t' t'' b p [] w
    = (Ok (apply_bot (env_structs E) p b), w\<lparr>db := db_bots_update (AList.update (botacc_id b) (apply_bot (env_structs E) p c)) (db w)\<rparr>)"
  using assms by (simp add: bot_update_def andthen_def on_db_def update_bot_def table_change_def gets_def modify_def ret_def)

text \<open>resetting the client secret locks the old one out. After a reset, the client of the bot is accepted by the OAuth2 provider
  with the new secret and with nothing else, as long as no other bot has the same client id; every other bot keeps its secret.\<close>

theorem reset_locks_out_old_secret:
  assumes laws: "optional_struct_laws (env_structs E)" and wf: "bots_keyed w" "hm_wf (db_bots (db w))"
    and reset: "route_reset_oauth2_secret E UE N me i w = (Ok (b, v), w')"
    and alone: "\<And>j c. map_of (db_bots (db w)) j = Some c \<Longrightarrow> j \<noteq> i \<Longrightarrow> botacc_oauth2_client_id c \<noteq> botacc_oauth2_client_id b"
  shows "\<exists>client_id. botacc_oauth2_client_id b = Some client_id
     \<and> (client_authentic OE (db w') client_id secret \<longleftrightarrow> secret = Some (bs_client_secret N))"
proof -
  from reset have me: "user_bot me = None" by (auto simp: route_reset_oauth2_secret_def throw_def split: if_splits)
  with reset obtain b0 where b0: "map_of (db_bots (db w)) i = Some b0"
    by (cases "map_of (db_bots (db w)) i") (auto simp: route_reset_oauth2_secret_def andthen_def on_db_def fetch_bot_def bots.fetch)
  have id: "botacc_id b0 = i" using wf(1) b0 by (simp add: bots_keyed_def)
  let ?b = "if botacc_oauth2_client_id b0 = None then b0\<lparr>botacc_oauth2_client_id := Some (bs_client_id N)\<rparr> else b0"
  let ?p = "partial_bot_default\<lparr>pb_oauth2_client_id := botacc_oauth2_client_id ?b, pb_oauth2_client_secret := Some (bs_client_secret N)\<rparr>"
  let ?stored = "apply_bot (env_structs E) ?p b0"
  have fields: "reset_oauth2_fields E UE N b0 w = (Ok (b, v), w')"
    using reset me b0 by (auto simp: route_reset_oauth2_secret_def andthen_def on_db_def fetch_bot_def bots.fetch throw_def split: if_splits)
  have update: "bot_update E t t' t'' ?b ?p [] w
      = (Ok (apply_bot (env_structs E) ?p ?b), w\<lparr>db := db_bots_update (AList.update i ?stored) (db w)\<rparr>)" for t t' t''
    using bot_update_run [of w ?b b0 ?p] b0 id by (simp add: partial_defaults)
  obtain b1 w1 where run: "bot_update E (bs_token N) (bs_copy_token N) (bs_db_token N) ?b ?p [] w = (Ok b1, w1)"
    and rest: "andthen (on_db (fetch_user (botacc_id b1))) (\<lambda>u. andthen (user_into_self E UE u False) (\<lambda>v. ret (b1, v))) w1 = (Ok (b, v), w')"
    using fields unfolding reset_oauth2_fields_def Let_def by (rule andthen_OkE)
  have "unchanged db (andthen (on_db (fetch_user (botacc_id b1))) (\<lambda>u. andthen (user_into_self E UE u False) (\<lambda>v. ret (b1, v))))"
    by (intro unchanged_andthen) (simp_all add: db_kept_unchanged [symmetric])
  from unchangedD [OF this rest] run update have db': "db w' = db_bots_update (AList.update i ?stored) (db w)" by auto
  have b: "b = apply_bot (env_structs E) ?p ?b" using rest run update by (auto simp: ret_def elim!: andthen_OkE)
  obtain cid where cid: "botacc_oauth2_client_id ?b = Some cid" by (cases "botacc_oauth2_client_id b0") auto
  have client: "botacc_oauth2_client_id b = Some cid" "botacc_oauth2_client_id ?stored = Some cid"
      "botacc_oauth2_client_secret ?stored = Some (bs_client_secret N)"
    using cid by (auto simp: b optional_struct_laws.apply_bot [OF laws] partial_defaults replace_if_def split: if_splits option.splits)
  have "List.find (\<lambda>b. botacc_oauth2_client_id b = Some cid) (hm_values (AList.update i ?stored (db_bots (db w)))) = Some ?stored"
    using wf(2) client alone by (intro find_unique_value) (auto simp: update_conv' split: if_splits)
  then have "fst (fetch_bot_by_oauth2_client_id cid (db w')) = Ok ?stored"
    by (simp add: fetch_bot_by_oauth2_client_id_def find_bot_def db' ret_def)
  with client show ?thesis by (auto simp: client_authentic_def validate_client_secret_def split: option.splits)
qed

lemma sample_reset_run:
  "\<exists>v w'. route_reset_oauth2_secret sample_env sample_users_env sample_secrets (sample_user ''a'') ''B'' bot_world
     = (Ok ((oauth_bot ''B'')\<lparr>botacc_owner := ''a'', botacc_oauth2_client_secret := Some ''new''\<rparr>, v), w')"
proof -
  let ?b = "(oauth_bot ''B'')\<lparr>botacc_owner := ''a''\<rparr>"
  let ?p = "partial_bot_default\<lparr>pb_oauth2_client_id := Some ''B'', pb_oauth2_client_secret := Some ''new''\<rparr>"
  have fetch: "andthen (on_db (fetch_bot ''B'')) f bot_world = f ?b bot_world" for f
    by (simp add: andthen_def on_db_def fetch_bot_def bots.fetch)
  have me: "user_bot (sample_user ''a'') = None" "user_id (sample_user ''a'') = ''a''" by (simp_all add: sample_user_def user_default_def)
  have b: "botacc_id ?b = ''B''" "botacc_oauth2_client_id ?b = Some ''B''" by (simp_all add: oauth_bot_def)
  have applied: "apply_bot (env_structs sample_env) ?p ?b = ?b\<lparr>botacc_oauth2_client_secret := Some ''new''\<rparr>"
    by (simp add: optional_struct_laws.apply_bot [OF sample_accounts.optional_struct_laws_axioms] partial_defaults set_if_def replace_if_def
        oauth_bot_def bot_account_default_def)
  let ?w = "bot_world\<lparr>db := db_bots_update (AList.update ''B'' (?b\<lparr>botacc_oauth2_client_secret := Some ''new''\<rparr>)) (db bot_world)\<rparr>"
  have update: "bot_update sample_env t t' t'' ?b ?p [] bot_world = (Ok (?b\<lparr>botacc_oauth2_client_secret := Some ''new''\<rparr>), ?w)" for t t' t''
    using bot_update_run [of bot_world ?b ?b ?p] b applied by (simp add: partial_defaults)
  then have updated: "andthen (bot_update sample_env t t' t'' ?b ?p []) f bot_world = f (?b\<lparr>botacc_oauth2_client_secret := Some ''new''\<rparr>) ?w" for t t' t'' f
    by (simp add: andthen_def)
  have user: "andthen (on_db (fetch_user ''B'')) f ?w = f (user_default\<lparr>user_id := ''B'', username := ''bot'', discriminator := ''0007''\<rparr>) ?w" for f
    by (simp add: andthen_def on_db_def fetch_user_def users.fetch)
  have "get_badges sample_env sample_users_env u w = (Ok (word_of_int (case badges u of Some x \<Rightarrow> x | None \<Rightarrow> 0)), w)" for u w
    by (simp add: get_badges_def sample_users_env_def ret_def)
  then have badges: "andthen (get_badges sample_env sample_users_env u) f w = f (word_of_int (case badges u of Some x \<Rightarrow> x | None \<Rightarrow> 0)) w" for u f w
    by (simp add: andthen_def)
  have secret: "bs_client_secret sample_secrets = ''new''" by (simp add: sample_secrets_def)
  show ?thesis
    using b by (simp add: route_reset_oauth2_secret_def me fetch reset_oauth2_fields_def Let_def secret updated user user_into_self_def
        andthen_assoc badges ret_def)
qed

theorem reset_locks_out_old_secret_witness:
  "\<exists>b v w'. route_reset_oauth2_secret sample_env sample_users_env sample_secrets (sample_user ''a'') ''B'' bot_world = (Ok (b, v), w')
     \<and> client_authentic sample_client_env (db bot_world) ''B'' (Some ''Bs'')
     \<and> \<not> client_authentic sample_client_env (db w') ''B'' (Some ''Bs'') \<and> client_authentic sample_client_env (db w') ''B'' (Some ''new'')"
proof -
  let ?b = "(oauth_bot ''B'')\<lparr>botacc_owner := ''a'', botacc_oauth2_client_secret := Some ''new''\<rparr>"
  obtain v w' where run: "route_reset_oauth2_secret sample_env sample_users_env sample_secrets (sample_user ''a'') ''B'' bot_world = (Ok (?b, v), w')"
    using sample_reset_run by blast
  have "hm_wf (db_bots (db bot_world))" by (simp add: bot_world_def sample_world_def hm_wf_def)
  moreover have "botacc_oauth2_client_id ?b = Some ''B''" by (simp add: oauth_bot_def)
  moreover have "map_of (db_bots (db bot_world)) j = Some c \<Longrightarrow> j \<noteq> ''B'' \<Longrightarrow> botacc_oauth2_client_id c \<noteq> botacc_oauth2_client_id ?b" for j c
    by (simp split: if_splits)
  ultimately have after: "client_authentic sample_client_env (db w') ''B'' secret \<longleftrightarrow> secret = Some (bs_client_secret sample_secrets)" for secret
    using reset_locks_out_old_secret [OF sample_accounts.optional_struct_laws_axioms bot_world_keyed _ run, of sample_client_env secret]
    by (metis option.inject)
  have "fst (fetch_bot_by_oauth2_client_id ''B'' (db bot_world)) = Ok ((oauth_bot ''B'')\<lparr>botacc_owner := ''a''\<rparr>)"
    by (simp add: fetch_bot_by_oauth2_client_id_def find_bot_def bot_world_def sample_world_def ret_def) (simp add: oauth_bot_def)
  then have "client_authentic sample_client_env (db bot_world) ''B'' (Some ''Bs'')"
    by (simp add: client_authentic_def validate_client_secret_def) (simp add: oauth_bot_def)
  with run after show ?thesis by (simp add: sample_secrets_def)
qed

end
