(* ===== verification/Wire.thy ===== *)
theory Wire
  imports Users
begin

text \<open>
  The wire format: the structs of \<open>crates/core/models/src/v0\<close> that the API and the gateway exchange, and the conversions between them
  and the models of the database in \<open>crates/core/database/src/util/bridge/v0.rs\<close>, in both directions where the code has both.

  What the two formats share is one type here: \<open>OverrideField\<close> is of the permission crate, \<open>Embed\<close> and \<open>MessageWebhook\<close> are types of
  the wire that the database stores. \<open>Partial\<close> structs of the wire are generated from their structs, with every field optional. The
  user itself, \<open>v0_user\<close>, and the functions that render it for a perspective are in \<open>Users\<close>.
\<close>

section \<open>Files\<close>

text \<open>Widths and heights are \<open>isize\<close> in the database and \<open>usize\<close> on the wire; the casts keep the bits.\<close>

datatype v0_metadata = V0File | V0Text | V0Image u64 u64 "nat list option" "bool option" | V0Video u64 u64 | V0Audio

primrec metadata_to_wire :: "metadata \<Rightarrow> v0_metadata" where
  "metadata_to_wire FileMeta = V0File"
| "metadata_to_wire TextMeta = V0Text"
| "metadata_to_wire (ImageMeta w h thumbhash animated) = V0Image (as_u64 w) (as_u64 h) thumbhash animated"
| "metadata_to_wire (VideoMeta w h) = V0Video (as_u64 w) (as_u64 h)"
| "metadata_to_wire AudioMeta = V0Audio"

primrec metadata_from_wire :: "v0_metadata \<Rightarrow> metadata" where
  "metadata_from_wire V0File = FileMeta"
| "metadata_from_wire V0Text = TextMeta"
| "metadata_from_wire (V0Image w h thumbhash animated) = ImageMeta (as_i64 w) (as_i64 h) thumbhash animated"
| "metadata_from_wire (V0Video w h) = VideoMeta (as_i64 w) (as_i64 h)"
| "metadata_from_wire V0Audio = AudioMeta"

record v0_file =
  v0f_id :: string
  v0f_tag :: string
  v0f_filename :: string
  v0f_metadata :: v0_metadata
  v0f_content_type :: string
  v0f_size :: int
  v0f_deleted :: "bool option"
  v0f_reported :: "bool option"
  v0f_message_id :: "string option"
  v0f_user_id :: "string option"
  v0f_server_id :: "string option"
  v0f_object_id :: "string option"

definition file_to_wire :: "stored_file \<Rightarrow> v0_file" where
  "file_to_wire f =
     \<lparr>v0f_id = file_id f, v0f_tag = file_tag f, v0f_filename = file_filename f, v0f_metadata = metadata_to_wire (file_metadata f),
      v0f_content_type = file_content_type f, v0f_size = file_size f, v0f_deleted = file_deleted f, v0f_reported = file_reported f,
      v0f_message_id = file_message_id f, v0f_user_id = file_user_id f, v0f_server_id = file_server_id f, v0f_object_id = file_object_id f\<rparr>"

definition file_from_wire :: "v0_file \<Rightarrow> stored_file" where
  "file_from_wire f =
     \<lparr>file_id = v0f_id f, file_tag = v0f_tag f, file_filename = v0f_filename f, file_hash = None, file_uploaded_at = None,
      file_uploader_id = None, file_used_for = None, file_deleted = v0f_deleted f, file_reported = v0f_reported f,
      file_metadata = metadata_from_wire (v0f_metadata f), file_content_type = v0f_content_type f, file_size = v0f_size f,
      file_message_id = v0f_message_id f, file_user_id = v0f_user_id f, file_server_id = v0f_server_id f, file_object_id = v0f_object_id f\<rparr>"

section \<open>Servers and roles\<close>

record v0_role =
  v0r_id :: string
  v0r_name :: string
  v0r_permissions :: override_field
  v0r_colour :: "string option"
  v0r_hoist :: bool
  v0r_rank :: i64

definition role_to_wire :: "role \<Rightarrow> v0_role" where
  "role_to_wire r =
     \<lparr>v0r_id = role_id r, v0r_name = role_name r, v0r_permissions = role_permissions r, v0r_colour = role_colour r, v0r_hoist = role_hoist r,
      v0r_rank = role_rank r\<rparr>"

definition role_from_wire :: "v0_role \<Rightarrow> role" where
  "role_from_wire r =
     \<lparr>role_id = v0r_id r, role_name = v0r_name r, role_permissions = v0r_permissions r, role_colour = v0r_colour r, role_hoist = v0r_hoist r,
      role_rank = v0r_rank r\<rparr>"

record v0_partial_role =
  v0pr_id :: "string option"
  v0pr_name :: "string option"
  v0pr_permissions :: "override_field option"
  v0pr_colour :: "string option"
  v0pr_hoist :: "bool option"
  v0pr_rank :: "i64 option"

definition partial_role_to_wire :: "partial_role \<Rightarrow> v0_partial_role" where
  "partial_role_to_wire p =
     \<lparr>v0pr_id = pr_id p, v0pr_name = pr_name p, v0pr_permissions = pr_permissions p, v0pr_colour = pr_colour p, v0pr_hoist = pr_hoist p,
      v0pr_rank = pr_rank p\<rparr>"

definition partial_role_from_wire :: "v0_partial_role \<Rightarrow> partial_role" where
  "partial_role_from_wire p =
     \<lparr>pr_id = v0pr_id p, pr_name = v0pr_name p, pr_permissions = v0pr_permissions p, pr_colour = v0pr_colour p, pr_hoist = v0pr_hoist p,
      pr_rank = v0pr_rank p\<rparr>"

datatype v0_fields_role = V0RoleColour

primrec fields_role_to_wire :: "fields_role \<Rightarrow> v0_fields_role" where
  "fields_role_to_wire RoleColour = V0RoleColour"

primrec fields_role_from_wire :: "v0_fields_role \<Rightarrow> fields_role" where
  "fields_role_from_wire V0RoleColour = RoleColour"

record v0_category =
  v0c_id :: string
  v0c_title :: string
  v0c_channels :: "string list"

definition category_to_wire :: "category \<Rightarrow> v0_category" where
  "category_to_wire c =
     \<lparr>v0c_id = category_id c, v0c_title = category_title c, v0c_channels = category_channels c\<rparr>"

definition category_from_wire :: "v0_category \<Rightarrow> category" where
  "category_from_wire c =
     \<lparr>category_id = v0c_id c, category_title = v0c_title c, category_channels = v0c_channels c\<rparr>"

record v0_system_message_channels =
  v0smc_user_joined :: "string option"
  v0smc_user_left :: "string option"
  v0smc_user_kicked :: "string option"
  v0smc_user_banned :: "string option"

definition system_message_channels_to_wire :: "system_message_channels \<Rightarrow> v0_system_message_channels" where
  "system_message_channels_to_wire c =
     \<lparr>v0smc_user_joined = smc_user_joined c, v0smc_user_left = smc_user_left c, v0smc_user_kicked = smc_user_kicked c,
      v0smc_user_banned = smc_user_banned c\<rparr>"

definition system_message_channels_from_wire :: "v0_system_message_channels \<Rightarrow> system_message_channels" where
  "system_message_channels_from_wire c =
     \<lparr>smc_user_joined = v0smc_user_joined c, smc_user_left = v0smc_user_left c, smc_user_kicked = v0smc_user_kicked c,
      smc_user_banned = v0smc_user_banned c\<rparr>"

text \<open>Casts between \<open>i32\<close> and \<open>u32\<close> keep the bits.\<close>

definition as_u32 :: "int \<Rightarrow> u32" where
  "as_u32 i = word_of_int i"

definition as_i32 :: "u32 \<Rightarrow> int" where
  "as_i32 w = sint w"

text \<open>\<open>unwrap_or_default\<close> on a number and on a list.\<close>

definition or_zero :: "int option \<Rightarrow> int" where
  "or_zero x = (case x of Some i \<Rightarrow> i | None \<Rightarrow> 0)"

definition or_nil :: "'a list option \<Rightarrow> 'a list" where
  "or_nil x = (case x of Some xs \<Rightarrow> xs | None \<Rightarrow> [])"

text \<open>\<open>into_iter().map(|(k, v)| (k, v.into())).collect()\<close> over a map.\<close>

definition map_entries :: "('a \<Rightarrow> 'b) \<Rightarrow> ('k, 'a) hashmap \<Rightarrow> ('k, 'b) hashmap" where
  "map_entries f = map (\<lambda>(k, v). (k, f v))"

record v0_server =
  v0s_id :: string
  v0s_owner :: string
  v0s_name :: string
  v0s_description :: "string option"
  v0s_channels :: "string list"
  v0s_categories :: "v0_category list option"
  v0s_system_messages :: "v0_system_message_channels option"
  v0s_roles :: "(string, v0_role) hashmap"
  v0s_default_permissions :: i64
  v0s_icon :: "v0_file option"
  v0s_banner :: "v0_file option"
  v0s_flags :: u32
  v0s_nsfw :: bool
  v0s_analytics :: bool
  v0s_discoverable :: bool

definition server_to_wire :: "server \<Rightarrow> v0_server" where
  "server_to_wire s =
     \<lparr>v0s_id = server_id s, v0s_owner = server_owner s, v0s_name = server_name s, v0s_description = server_description s,
      v0s_channels = server_channels s, v0s_categories = map_option (map category_to_wire) (server_categories s),
      v0s_system_messages = map_option system_message_channels_to_wire (server_system_messages s),
      v0s_roles = map_entries role_to_wire (server_roles s), v0s_default_permissions = server_default_permissions s,
      v0s_icon = map_option file_to_wire (server_icon s), v0s_banner = map_option file_to_wire (server_banner s),
      v0s_flags = as_u32 (or_zero (server_flags s)), v0s_nsfw = server_nsfw s, v0s_analytics = server_analytics s,
      v0s_discoverable = server_discoverable s\<rparr>"

definition server_from_wire :: "v0_server \<Rightarrow> server" where
  "server_from_wire s =
     \<lparr>server_id = v0s_id s, server_owner = v0s_owner s, server_name = v0s_name s, server_description = v0s_description s,
      server_channels = v0s_channels s, server_categories = map_option (map category_from_wire) (v0s_categories s),
      server_system_messages = map_option system_message_channels_from_wire (v0s_system_messages s),
      server_roles = map_entries role_from_wire (v0s_roles s), server_default_permissions = v0s_default_permissions s,
      server_icon = map_option file_from_wire (v0s_icon s), server_banner = map_option file_from_wire (v0s_banner s),
      server_flags = Some (as_i32 (v0s_flags s)), server_nsfw = v0s_nsfw s, server_analytics = v0s_analytics s,
      server_discoverable = v0s_discoverable s\<rparr>"

record v0_partial_server =
  v0ps_id :: "string option"
  v0ps_owner :: "string option"
  v0ps_name :: "string option"
  v0ps_description :: "string option"
  v0ps_channels :: "string list option"
  v0ps_categories :: "v0_category list option"
  v0ps_system_messages :: "v0_system_message_channels option"
  v0ps_roles :: "(string, v0_role) hashmap option"
  v0ps_default_permissions :: "i64 option"
  v0ps_icon :: "v0_file option"
  v0ps_banner :: "v0_file option"
  v0ps_flags :: "u32 option"
  v0ps_nsfw :: "bool option"
  v0ps_analytics :: "bool option"
  v0ps_discoverable :: "bool option"

definition partial_server_to_wire :: "partial_server \<Rightarrow> v0_partial_server" where
  "partial_server_to_wire p =
     \<lparr>v0ps_id = ps_id p, v0ps_owner = ps_owner p, v0ps_name = ps_name p, v0ps_description = ps_description p, v0ps_channels = ps_channels p,
      v0ps_categories = map_option (map category_to_wire) (ps_categories p),
      v0ps_system_messages = map_option system_message_channels_to_wire (ps_system_messages p),
      v0ps_roles = map_option (map_entries role_to_wire) (ps_roles p), v0ps_default_permissions = ps_default_permissions p,
      v0ps_icon = map_option file_to_wire (ps_icon p), v0ps_banner = map_option file_to_wire (ps_banner p),
      v0ps_flags = map_option as_u32 (ps_flags p), v0ps_nsfw = ps_nsfw p, v0ps_analytics = ps_analytics p, v0ps_discoverable = ps_discoverable p\<rparr>"

definition partial_server_from_wire :: "v0_partial_server \<Rightarrow> partial_server" where
  "partial_server_from_wire p =
     \<lparr>ps_id = v0ps_id p, ps_owner = v0ps_owner p, ps_name = v0ps_name p, ps_description = v0ps_description p, ps_channels = v0ps_channels p,
      ps_categories = map_option (map category_from_wire) (v0ps_categories p),
      ps_system_messages = map_option system_message_channels_from_wire (v0ps_system_messages p),
      ps_roles = map_option (map_entries role_from_wire) (v0ps_roles p), ps_default_permissions = v0ps_default_permissions p,
      ps_icon = map_option file_from_wire (v0ps_icon p), ps_banner = map_option file_from_wire (v0ps_banner p),
      ps_flags = map_option as_i32 (v0ps_flags p), ps_nsfw = v0ps_nsfw p, ps_analytics = v0ps_analytics p, ps_discoverable = v0ps_discoverable p\<rparr>"

datatype v0_fields_server = V0ServerDescription | V0ServerCategories | V0ServerSystemMessages | V0ServerIcon | V0ServerBanner

primrec fields_server_to_wire :: "fields_server \<Rightarrow> v0_fields_server" where
  "fields_server_to_wire ServerBanner = V0ServerBanner"
| "fields_server_to_wire ServerCategories = V0ServerCategories"
| "fields_server_to_wire ServerDescription = V0ServerDescription"
| "fields_server_to_wire ServerIcon = V0ServerIcon"
| "fields_server_to_wire ServerSystemMessages = V0ServerSystemMessages"

primrec fields_server_from_wire :: "v0_fields_server \<Rightarrow> fields_server" where
  "fields_server_from_wire V0ServerBanner = ServerBanner"
| "fields_server_from_wire V0ServerCategories = ServerCategories"
| "fields_server_from_wire V0ServerDescription = ServerDescription"
| "fields_server_from_wire V0ServerIcon = ServerIcon"
| "fields_server_from_wire V0ServerSystemMessages = ServerSystemMessages"

section \<open>Members and bans\<close>

record v0_member_composite_key =
  v0k_server :: string
  v0k_user :: string

definition member_key_to_wire :: "member_composite_key \<Rightarrow> v0_member_composite_key" where
  "member_key_to_wire k =
     \<lparr>v0k_server = key_server k, v0k_user = key_user k\<rparr>"

definition member_key_from_wire :: "v0_member_composite_key \<Rightarrow> member_composite_key" where
  "member_key_from_wire k =
     \<lparr>key_server = v0k_server k, key_user = v0k_user k\<rparr>"

record v0_member =
  v0m_id :: v0_member_composite_key
  v0m_joined_at :: timestamp
  v0m_nickname :: "string option"
  v0m_avatar :: "v0_file option"
  v0m_roles :: "string list"
  v0m_timeout :: "timestamp option"
  v0m_can_publish :: bool
  v0m_can_receive :: bool

definition member_to_wire :: "member \<Rightarrow> v0_member" where
  "member_to_wire m =
     \<lparr>v0m_id = member_key_to_wire (member_id m), v0m_joined_at = joined_at m, v0m_nickname = nickname m,
      v0m_avatar = map_option file_to_wire (member_avatar m), v0m_roles = member_roles m, v0m_timeout = member_timeout m,
      v0m_can_publish = can_publish m, v0m_can_receive = can_receive m\<rparr>"

definition member_from_wire :: "v0_member \<Rightarrow> member" where
  "member_from_wire m =
     \<lparr>member_id = member_key_from_wire (v0m_id m), joined_at = v0m_joined_at m, nickname = v0m_nickname m,
      member_avatar = map_option file_from_wire (v0m_avatar m), member_roles = v0m_roles m, member_timeout = v0m_timeout m,
      can_publish = v0m_can_publish m, can_receive = v0m_can_receive m\<rparr>"

record v0_partial_member =
  v0pm_id :: "v0_member_composite_key option"
  v0pm_joined_at :: "timestamp option"
  v0pm_nickname :: "string option"
  v0pm_avatar :: "v0_file option"
  v0pm_roles :: "string list option"
  v0pm_timeout :: "timestamp option"
  v0pm_can_publish :: "bool option"
  v0pm_can_receive :: "bool option"

definition partial_member_to_wire :: "partial_member \<Rightarrow> v0_partial_member" where
  "partial_member_to_wire p =
     \<lparr>v0pm_id = map_option member_key_to_wire (pm_id p), v0pm_joined_at = pm_joined_at p, v0pm_nickname = pm_nickname p,
      v0pm_avatar = map_option file_to_wire (pm_avatar p), v0pm_roles = pm_roles p, v0pm_timeout = pm_timeout p, v0pm_can_publish = pm_can_publish p,
      v0pm_can_receive = pm_can_receive p\<rparr>"

definition partial_member_from_wire :: "v0_partial_member \<Rightarrow> partial_member" where
  "partial_member_from_wire p =
     \<lparr>pm_id = map_option member_key_from_wire (v0pm_id p), pm_joined_at = v0pm_joined_at p, pm_nickname = v0pm_nickname p,
      pm_avatar = map_option file_from_wire (v0pm_avatar p), pm_roles = v0pm_roles p, pm_timeout = v0pm_timeout p,
      pm_can_publish = v0pm_can_publish p, pm_can_receive = v0pm_can_receive p\<rparr>"

datatype v0_fields_member =
    V0MemberNickname | V0MemberAvatar | V0MemberRoles | V0MemberTimeout
  | V0MemberCanReceive | V0MemberCanPublish | V0MemberJoinedAt | V0MemberVoiceChannel

primrec fields_member_to_wire :: "fields_member \<Rightarrow> v0_fields_member" where
  "fields_member_to_wire MemberAvatar = V0MemberAvatar"
| "fields_member_to_wire MemberNickname = V0MemberNickname"
| "fields_member_to_wire MemberRoles = V0MemberRoles"
| "fields_member_to_wire MemberTimeout = V0MemberTimeout"
| "fields_member_to_wire MemberCanReceive = V0MemberCanReceive"
| "fields_member_to_wire MemberCanPublish = V0MemberCanPublish"
| "fields_member_to_wire MemberJoinedAt = V0MemberJoinedAt"
| "fields_member_to_wire MemberVoiceChannel = V0MemberVoiceChannel"

primrec fields_member_from_wire :: "v0_fields_member \<Rightarrow> fields_member" where
  "fields_member_from_wire V0MemberAvatar = MemberAvatar"
| "fields_member_from_wire V0MemberNickname = MemberNickname"
| "fields_member_from_wire V0MemberRoles = MemberRoles"
| "fields_member_from_wire V0MemberTimeout = MemberTimeout"
| "fields_member_from_wire V0MemberCanReceive = MemberCanReceive"
| "fields_member_from_wire V0MemberCanPublish = MemberCanPublish"
| "fields_member_from_wire V0MemberJoinedAt = MemberJoinedAt"
| "fields_member_from_wire V0MemberVoiceChannel = MemberVoiceChannel"

datatype v0_removal_intention = V0Leave | V0Kick | V0Ban

primrec removal_intention_to_wire :: "removal_intention \<Rightarrow> v0_removal_intention" where
  "removal_intention_to_wire Ban = V0Ban"
| "removal_intention_to_wire Kick = V0Kick"
| "removal_intention_to_wire Leave = V0Leave"

record v0_server_ban =
  v0ban_id :: v0_member_composite_key
  v0ban_reason :: "string option"

definition server_ban_to_wire :: "server_ban \<Rightarrow> v0_server_ban" where
  "server_ban_to_wire b =
     \<lparr>v0ban_id = member_key_to_wire (ban_id b), v0ban_reason = server_ban_reason b\<rparr>"

section \<open>Channels\<close>

record v0_voice_information =
  v0v_max_users :: "nat option"

definition voice_information_to_wire :: "voice_information \<Rightarrow> v0_voice_information" where
  "voice_information_to_wire v =
     \<lparr>v0v_max_users = max_users v\<rparr>"

definition voice_information_from_wire :: "v0_voice_information \<Rightarrow> voice_information" where
  "voice_information_from_wire v =
     \<lparr>max_users = v0v_max_users v\<rparr>"

text \<open>As in the models, a variant with many fields carries them in a record.\<close>

record v0_group_channel =
  v0g_name :: string
  v0g_owner :: string
  v0g_description :: "string option"
  v0g_recipients :: "string list"
  v0g_icon :: "v0_file option"
  v0g_last_message_id :: "string option"
  v0g_permissions :: "i64 option"
  v0g_nsfw :: bool

record v0_text_channel =
  v0t_server :: string
  v0t_name :: string
  v0t_description :: "string option"
  v0t_icon :: "v0_file option"
  v0t_last_message_id :: "string option"
  v0t_default_permissions :: "override_field option"
  v0t_role_permissions :: "(string, override_field) hashmap"
  v0t_nsfw :: bool
  v0t_voice :: "v0_voice_information option"
  v0t_slowmode :: "u64 option"

datatype v0_channel =
    V0SavedMessages string string | V0DirectMessage string bool "string list" "string option" | V0Group string v0_group_channel | V0TextChannel string v0_text_channel

definition group_to_wire :: "group_channel \<Rightarrow> v0_group_channel" where
  "group_to_wire g =
     \<lparr>v0g_name = grp_name g, v0g_owner = grp_owner g, v0g_description = grp_description g, v0g_recipients = grp_recipients g,
      v0g_icon = map_option file_to_wire (grp_icon g), v0g_last_message_id = grp_last_message_id g, v0g_permissions = grp_permissions g,
      v0g_nsfw = grp_nsfw g\<rparr>"

definition group_from_wire :: "v0_group_channel \<Rightarrow> group_channel" where
  "group_from_wire g =
     \<lparr>grp_name = v0g_name g, grp_owner = v0g_owner g, grp_description = v0g_description g, grp_recipients = v0g_recipients g,
      grp_icon = map_option file_from_wire (v0g_icon g), grp_last_message_id = v0g_last_message_id g, grp_permissions = v0g_permissions g,
      grp_nsfw = v0g_nsfw g\<rparr>"

definition text_channel_to_wire :: "text_channel \<Rightarrow> v0_text_channel" where
  "text_channel_to_wire t =
     \<lparr>v0t_server = txt_server t, v0t_name = txt_name t, v0t_description = txt_description t, v0t_icon = map_option file_to_wire (txt_icon t),
      v0t_last_message_id = txt_last_message_id t, v0t_default_permissions = txt_default_permissions t,
      v0t_role_permissions = txt_role_permissions t, v0t_nsfw = txt_nsfw t, v0t_voice = map_option voice_information_to_wire (txt_voice t),
      v0t_slowmode = txt_slowmode t\<rparr>"

definition text_channel_from_wire :: "v0_text_channel \<Rightarrow> text_channel" where
  "text_channel_from_wire t =
     \<lparr>txt_server = v0t_server t, txt_name = v0t_name t, txt_description = v0t_description t,
      txt_icon = map_option file_from_wire (v0t_icon t), txt_last_message_id = v0t_last_message_id t,
      txt_default_permissions = v0t_default_permissions t, txt_role_permissions = v0t_role_permissions t, txt_nsfw = v0t_nsfw t,
      txt_voice = map_option voice_information_from_wire (v0t_voice t), txt_slowmode = v0t_slowmode t\<rparr>"

primrec channel_to_wire :: "channel \<Rightarrow> v0_channel" where
  "channel_to_wire (SavedMessages i u) = V0SavedMessages i u"
| "channel_to_wire (DirectMessage i active recipients l) = V0DirectMessage i active recipients l"
| "channel_to_wire (Group i g) = V0Group i (group_to_wire g)"
| "channel_to_wire (TextChannel i t) = V0TextChannel i (text_channel_to_wire t)"

primrec channel_from_wire :: "v0_channel \<Rightarrow> channel" where
  "channel_from_wire (V0SavedMessages i u) = SavedMessages i u"
| "channel_from_wire (V0DirectMessage i active recipients l) = DirectMessage i active recipients l"
| "channel_from_wire (V0Group i g) = Group i (group_from_wire g)"
| "channel_from_wire (V0TextChannel i t) = TextChannel i (text_channel_from_wire t)"

record v0_partial_channel =
  v0pc_name :: "string option"
  v0pc_owner :: "string option"
  v0pc_description :: "string option"
  v0pc_icon :: "v0_file option"
  v0pc_nsfw :: "bool option"
  v0pc_active :: "bool option"
  v0pc_permissions :: "i64 option"
  v0pc_role_permissions :: "(string, override_field) hashmap option"
  v0pc_default_permissions :: "override_field option"
  v0pc_last_message_id :: "string option"
  v0pc_voice :: "v0_voice_information option"
  v0pc_slowmode :: "u64 option"

definition partial_channel_to_wire :: "partial_channel \<Rightarrow> v0_partial_channel" where
  "partial_channel_to_wire p =
     \<lparr>v0pc_name = pc_name p, v0pc_owner = pc_owner p, v0pc_description = pc_description p, v0pc_icon = map_option file_to_wire (pc_icon p),
      v0pc_nsfw = pc_nsfw p, v0pc_active = pc_active p, v0pc_permissions = pc_permissions p, v0pc_role_permissions = pc_role_permissions p,
      v0pc_default_permissions = pc_default_permissions p, v0pc_last_message_id = pc_last_message_id p,
      v0pc_voice = map_option voice_information_to_wire (pc_voice p), v0pc_slowmode = pc_slowmode p\<rparr>"

definition partial_channel_from_wire :: "v0_partial_channel \<Rightarrow> partial_channel" where
  "partial_channel_from_wire p =
     \<lparr>pc_name = v0pc_name p, pc_owner = v0pc_owner p, pc_description = v0pc_description p, pc_icon = map_option file_from_wire (v0pc_icon p),
      pc_nsfw = v0pc_nsfw p, pc_active = v0pc_active p, pc_permissions = v0pc_permissions p, pc_role_permissions = v0pc_role_permissions p,
      pc_default_permissions = v0pc_default_permissions p, pc_last_message_id = v0pc_last_message_id p,
      pc_voice = map_option voice_information_from_wire (v0pc_voice p), pc_slowmode = v0pc_slowmode p\<rparr>"

datatype v0_fields_channel = V0ChannelDescription | V0ChannelIcon | V0ChannelDefaultPermissions | V0ChannelVoice

primrec fields_channel_to_wire :: "fields_channel \<Rightarrow> v0_fields_channel" where
  "fields_channel_to_wire ChannelDescription = V0ChannelDescription"
| "fields_channel_to_wire ChannelIcon = V0ChannelIcon"
| "fields_channel_to_wire ChannelDefaultPermissions = V0ChannelDefaultPermissions"
| "fields_channel_to_wire ChannelVoice = V0ChannelVoice"

primrec fields_channel_from_wire :: "v0_fields_channel \<Rightarrow> fields_channel" where
  "fields_channel_from_wire V0ChannelDescription = ChannelDescription"
| "fields_channel_from_wire V0ChannelIcon = ChannelIcon"
| "fields_channel_from_wire V0ChannelDefaultPermissions = ChannelDefaultPermissions"
| "fields_channel_from_wire V0ChannelVoice = ChannelVoice"

datatype v0_invite = V0ServerInvite string string string string | V0GroupInvite string string string

primrec invite_to_wire :: "invite \<Rightarrow> v0_invite" where
  "invite_to_wire (GroupInvite code creator c) = V0GroupInvite code creator c"
| "invite_to_wire (ServerInvite code srv creator c) = V0ServerInvite code srv creator c"

section \<open>Messages\<close>

datatype v0_system_message =
    V0Text string | V0UserAdded string string | V0UserRemove string string | V0UserJoined string
  | V0UserLeft string | V0UserKicked string | V0UserBanned string | V0ChannelRenamed string string
  | V0ChannelDescriptionChanged string | V0ChannelIconChanged string | V0ChannelOwnershipChanged string string | V0MessagePinned string string
  | V0MessageUnpinned string string | V0CallStarted string "timestamp option"

primrec system_message_to_wire :: "system_message \<Rightarrow> v0_system_message" where
  "system_message_to_wire (SysText content) = V0Text content"
| "system_message_to_wire (SysUserAdded i b) = V0UserAdded i b"
| "system_message_to_wire (SysUserRemove i b) = V0UserRemove i b"
| "system_message_to_wire (SysUserJoined i) = V0UserJoined i"
| "system_message_to_wire (SysUserLeft i) = V0UserLeft i"
| "system_message_to_wire (SysUserKicked i) = V0UserKicked i"
| "system_message_to_wire (SysUserBanned i) = V0UserBanned i"
| "system_message_to_wire (SysChannelRenamed name b) = V0ChannelRenamed name b"
| "system_message_to_wire (SysChannelDescriptionChanged b) = V0ChannelDescriptionChanged b"
| "system_message_to_wire (SysChannelIconChanged b) = V0ChannelIconChanged b"
| "system_message_to_wire (SysChannelOwnershipChanged a b) = V0ChannelOwnershipChanged a b"
| "system_message_to_wire (SysMessagePinned i b) = V0MessagePinned i b"
| "system_message_to_wire (SysMessageUnpinned i b) = V0MessageUnpinned i b"
| "system_message_to_wire (SysCallStarted b finished_at) = V0CallStarted b finished_at"

record v0_interactions =
  v0i_reactions :: "string list option"
  v0i_restrict_reactions :: bool

definition interactions_to_wire :: "interactions \<Rightarrow> v0_interactions" where
  "interactions_to_wire x =
     \<lparr>v0i_reactions = inter_reactions x, v0i_restrict_reactions = restrict_reactions x\<rparr>"

definition interactions_from_wire :: "v0_interactions \<Rightarrow> interactions" where
  "interactions_from_wire x =
     \<lparr>inter_reactions = v0i_reactions x, restrict_reactions = v0i_restrict_reactions x\<rparr>"

record v0_masquerade =
  v0q_name :: "string option"
  v0q_avatar :: "string option"
  v0q_colour :: "string option"

definition masquerade_to_wire :: "masquerade \<Rightarrow> v0_masquerade" where
  "masquerade_to_wire q =
     \<lparr>v0q_name = masq_name q, v0q_avatar = masq_avatar q, v0q_colour = masq_colour q\<rparr>"

definition masquerade_from_wire :: "v0_masquerade \<Rightarrow> masquerade" where
  "masquerade_from_wire q =
     \<lparr>masq_name = v0q_name q, masq_avatar = v0q_avatar q, masq_colour = v0q_colour q\<rparr>"

record v0_message =
  v0msg_id :: string
  v0msg_nonce :: "string option"
  v0msg_channel :: string
  v0msg_author :: string
  v0msg_user :: "v0_user option"
  v0msg_member :: "v0_member option"
  v0msg_webhook :: "message_webhook option"
  v0msg_content :: "string option"
  v0msg_system :: "v0_system_message option"
  v0msg_attachments :: "v0_file list option"
  v0msg_edited :: "timestamp option"
  v0msg_embeds :: "embed list option"
  v0msg_mentions :: "string list option"
  v0msg_role_mentions :: "string list option"
  v0msg_replies :: "string list option"
  v0msg_reactions :: "(string, string list) hashmap"
  v0msg_interactions :: v0_interactions
  v0msg_masquerade :: "v0_masquerade option"
  v0msg_pinned :: "bool option"
  v0msg_flags :: u32

definition message_into_model :: "message \<Rightarrow> v0_user option \<Rightarrow> v0_member option \<Rightarrow> v0_message" where
  "message_into_model m u mem =
     \<lparr>v0msg_id = msg_id m, v0msg_nonce = msg_nonce m, v0msg_channel = msg_channel m, v0msg_author = msg_author m, v0msg_user = u,
      v0msg_member = mem, v0msg_webhook = msg_webhook m, v0msg_content = msg_content m,
      v0msg_system = map_option system_message_to_wire (msg_system m), v0msg_attachments = map_option (map file_to_wire) (msg_attachments m),
      v0msg_edited = msg_edited m, v0msg_embeds = msg_embeds m, v0msg_mentions = msg_mentions m, v0msg_role_mentions = msg_role_mentions m,
      v0msg_replies = msg_replies m, v0msg_reactions = msg_reactions m, v0msg_interactions = interactions_to_wire (msg_interactions m),
      v0msg_masquerade = map_option masquerade_to_wire (msg_masquerade m), v0msg_pinned = msg_pinned m,
      v0msg_flags = (case msg_flags m of Some x \<Rightarrow> x | None \<Rightarrow> 0)\<rparr>"

record v0_partial_message =
  v0pg_id :: "string option"
  v0pg_nonce :: "string option"
  v0pg_channel :: "string option"
  v0pg_author :: "string option"
  v0pg_user :: "v0_user option"
  v0pg_member :: "v0_member option"
  v0pg_webhook :: "message_webhook option"
  v0pg_content :: "string option"
  v0pg_system :: "v0_system_message option"
  v0pg_attachments :: "v0_file list option"
  v0pg_edited :: "timestamp option"
  v0pg_embeds :: "embed list option"
  v0pg_mentions :: "string list option"
  v0pg_role_mentions :: "string list option"
  v0pg_replies :: "string list option"
  v0pg_reactions :: "(string, string list) hashmap option"
  v0pg_interactions :: "v0_interactions option"
  v0pg_masquerade :: "v0_masquerade option"
  v0pg_pinned :: "bool option"
  v0pg_flags :: "u32 option"

definition partial_message_to_wire :: "partial_message \<Rightarrow> v0_partial_message" where
  "partial_message_to_wire p =
     \<lparr>v0pg_id = pg_id p, v0pg_nonce = pg_nonce p, v0pg_channel = pg_channel p, v0pg_author = pg_author p, v0pg_user = None,
      v0pg_member = None, v0pg_webhook = pg_webhook p, v0pg_content = pg_content p, v0pg_system = map_option system_message_to_wire (pg_system p),
      v0pg_attachments = map_option (map file_to_wire) (pg_attachments p), v0pg_edited = pg_edited p, v0pg_embeds = pg_embeds p,
      v0pg_mentions = pg_mentions p, v0pg_role_mentions = pg_role_mentions p, v0pg_replies = pg_replies p, v0pg_reactions = pg_reactions p,
      v0pg_interactions = map_option interactions_to_wire (pg_interactions p), v0pg_masquerade = map_option masquerade_to_wire (pg_masquerade p),
      v0pg_pinned = pg_pinned p, v0pg_flags = pg_flags p\<rparr>"

datatype v0_fields_message = V0Pinned

primrec fields_message_to_wire :: "fields_message \<Rightarrow> v0_fields_message" where
  "fields_message_to_wire MessagePinned = V0Pinned"

primrec fields_message_from_wire :: "v0_fields_message \<Rightarrow> fields_message" where
  "fields_message_from_wire V0Pinned = MessagePinned"

record v0_append_message =
  v0app_embeds :: "embed list option"

text \<open>\<open>AppendMessage\<close> of the database has this one field.\<close>

record appended_message =
  append_embeds :: "embed list option"

definition append_message_to_wire :: "appended_message \<Rightarrow> v0_append_message" where
  "append_message_to_wire a =
     \<lparr>v0app_embeds = append_embeds a\<rparr>"

section \<open>Users\<close>

text \<open>The record of a user on the wire is \<open>v0_user\<close>, with the functions that make it; the status is converted by \<open>status_into\<close>.\<close>

datatype v0_relationship_status = V0RelNone | V0RelUser | V0RelFriend | V0RelOutgoing | V0RelIncoming | V0RelBlocked | V0RelBlockedOther

primrec relationship_status_to_wire :: "relationship_status \<Rightarrow> v0_relationship_status" where
  "relationship_status_to_wire NoRelation = V0RelNone"
| "relationship_status_to_wire RelUser = V0RelUser"
| "relationship_status_to_wire Friend = V0RelFriend"
| "relationship_status_to_wire Outgoing = V0RelOutgoing"
| "relationship_status_to_wire relationship_status.Incoming = V0RelIncoming"
| "relationship_status_to_wire Blocked = V0RelBlocked"
| "relationship_status_to_wire BlockedOther = V0RelBlockedOther"

record v0_relationship =
  v0rel_user_id :: string
  v0rel_status :: v0_relationship_status

definition relationship_to_wire :: "relationship \<Rightarrow> v0_relationship" where
  "relationship_to_wire r =
     \<lparr>v0rel_user_id = rel_id r, v0rel_status = relationship_status_to_wire (rel_status r)\<rparr>"

datatype v0_presence = V0Online | V0Idle | V0Focus | V0Busy | V0Invisible

primrec presence_to_wire :: "presence \<Rightarrow> v0_presence" where
  "presence_to_wire Online = V0Online"
| "presence_to_wire Idle = V0Idle"
| "presence_to_wire Focus = V0Focus"
| "presence_to_wire Busy = V0Busy"
| "presence_to_wire Invisible = V0Invisible"

primrec presence_from_wire :: "v0_presence \<Rightarrow> presence" where
  "presence_from_wire V0Online = Online"
| "presence_from_wire V0Idle = Idle"
| "presence_from_wire V0Focus = Focus"
| "presence_from_wire V0Busy = Busy"
| "presence_from_wire V0Invisible = Invisible"

record v0_user_status =
  v0st_text :: "string option"
  v0st_presence :: "v0_presence option"

definition user_status_from_wire :: "v0_user_status \<Rightarrow> user_status" where
  "user_status_from_wire s =
     \<lparr>status_text = v0st_text s, status_presence = map_option presence_from_wire (v0st_presence s)\<rparr>"

definition user_status_to_wire :: "user_status \<Rightarrow> bool \<Rightarrow> v0_user_status option" where
  "user_status_to_wire s discard_invisible =
     (let status = \<lparr>v0st_text = status_text s,
        v0st_presence = (case status_presence s of
            Some p \<Rightarrow> if discard_invisible \<and> p = Invisible then None else Some (presence_to_wire p)
          | None \<Rightarrow> None)\<rparr>
      in if v0st_text status = None \<and> v0st_presence status = None then None else Some status)"

record v0_user_profile =
  v0pro_content :: "string option"
  v0pro_background :: "v0_file option"

definition user_profile_to_wire :: "user_profile \<Rightarrow> v0_user_profile" where
  "user_profile_to_wire p =
     \<lparr>v0pro_content = profile_content p, v0pro_background = map_option file_to_wire (profile_background p)\<rparr>"

definition user_profile_from_wire :: "v0_user_profile \<Rightarrow> user_profile" where
  "user_profile_from_wire p =
     \<lparr>profile_content = v0pro_content p, profile_background = map_option file_from_wire (v0pro_background p)\<rparr>"

record v0_bot_information =
  v0bi_owner_id :: string

definition bot_information_to_wire :: "bot_information \<Rightarrow> v0_bot_information" where
  "bot_information_to_wire b =
     \<lparr>v0bi_owner_id = bot_owner b\<rparr>"

definition bot_information_from_wire :: "v0_bot_information \<Rightarrow> bot_information" where
  "bot_information_from_wire b =
     \<lparr>bot_owner = v0bi_owner_id b\<rparr>"

record v0_partial_user =
  v0pu_id :: "string option"
  v0pu_username :: "string option"
  v0pu_discriminator :: "string option"
  v0pu_display_name :: "string option"
  v0pu_avatar :: "v0_file option"
  v0pu_relations :: "v0_relationship list option"
  v0pu_badges :: "u32 option"
  v0pu_status :: "v0_user_status option"
  v0pu_flags :: "u32 option"
  v0pu_privileged :: "bool option"
  v0pu_bot :: "v0_bot_information option"
  v0pu_relationship :: "v0_relationship_status option"
  v0pu_online :: "bool option"

definition partial_user_to_wire :: "partial_user \<Rightarrow> v0_partial_user" where
  "partial_user_to_wire p =
     \<lparr>v0pu_id = pu_id p, v0pu_username = pu_username p, v0pu_discriminator = pu_discriminator p, v0pu_display_name = pu_display_name p,
      v0pu_avatar = map_option file_to_wire (pu_avatar p), v0pu_relations = map_option (map relationship_to_wire) (pu_relations p),
      v0pu_badges = map_option as_u32 (pu_badges p), v0pu_status = Option.bind (pu_status p) (\<lambda>s. user_status_to_wire s False),
      v0pu_flags = map_option as_u32 (pu_flags p), v0pu_privileged = pu_privileged p, v0pu_bot = map_option bot_information_to_wire (pu_bot p),
      v0pu_relationship = None, v0pu_online = None\<rparr>"

text \<open>\<open>FieldsUser\<close>: the database also removes suspensions; on the wire that is \<open>Internal\<close>.\<close>

primrec fields_user_to_wire :: "fields_user \<Rightarrow> v0_fields_user" where
  "fields_user_to_wire UserAvatar = V0Avatar"
| "fields_user_to_wire UserProfileBackground = V0ProfileBackground"
| "fields_user_to_wire UserProfileContent = V0ProfileContent"
| "fields_user_to_wire UserStatusPresence = V0StatusPresence"
| "fields_user_to_wire UserStatusText = V0StatusText"
| "fields_user_to_wire UserDisplayName = V0DisplayName"
| "fields_user_to_wire UserSuspension = V0Internal"
| "fields_user_to_wire UserNone = V0Internal"

section \<open>Bots, webhooks, emojis, unreads, policy changes\<close>

record v0_bot =
  v0b_id :: string
  v0b_owner_id :: string
  v0b_token :: string
  v0b_public :: bool
  v0b_analytics :: bool
  v0b_discoverable :: bool
  v0b_interactions_url :: string
  v0b_terms_of_service_url :: string
  v0b_privacy_policy_url :: string
  v0b_flags :: u32
  v0b_oauth2_client_id :: "string option"
  v0b_oauth2_client_secret :: "string option"
  v0b_oauth2_redirect_uris :: "string list option"
  v0b_oauth2_scopes :: "string list option"

definition bot_to_wire :: "bot_account \<Rightarrow> v0_bot" where
  "bot_to_wire b =
     \<lparr>v0b_id = botacc_id b, v0b_owner_id = botacc_owner b, v0b_token = botacc_token b, v0b_public = botacc_public b,
      v0b_analytics = botacc_analytics b, v0b_discoverable = botacc_discoverable b, v0b_interactions_url = botacc_interactions_url b,
      v0b_terms_of_service_url = botacc_terms_of_service_url b, v0b_privacy_policy_url = botacc_privacy_policy_url b,
      v0b_flags = as_u32 (or_zero (botacc_flags b)), v0b_oauth2_client_id = botacc_oauth2_client_id b,
      v0b_oauth2_client_secret = botacc_oauth2_client_secret b, v0b_oauth2_redirect_uris = botacc_oauth2_redirect_uris b,
      v0b_oauth2_scopes = botacc_oauth2_scopes b\<rparr>"

datatype v0_fields_bot = V0BotToken | V0BotInteractionsURL

primrec fields_bot_to_wire :: "fields_bot \<Rightarrow> v0_fields_bot" where
  "fields_bot_to_wire BotInteractionsURL = V0BotInteractionsURL"
| "fields_bot_to_wire BotToken = V0BotToken"

primrec fields_bot_from_wire :: "v0_fields_bot \<Rightarrow> fields_bot" where
  "fields_bot_from_wire V0BotInteractionsURL = BotInteractionsURL"
| "fields_bot_from_wire V0BotToken = BotToken"

record v0_webhook =
  v0w_id :: string
  v0w_name :: string
  v0w_avatar :: "v0_file option"
  v0w_creator_id :: string
  v0w_channel_id :: string
  v0w_permissions :: u64
  v0w_token :: "string option"

definition webhook_to_wire :: "webhook \<Rightarrow> v0_webhook" where
  "webhook_to_wire h =
     \<lparr>v0w_id = webhook_id h, v0w_name = webhook_name h, v0w_avatar = map_option file_to_wire (webhook_avatar h),
      v0w_creator_id = webhook_creator_id h, v0w_channel_id = webhook_channel_id h, v0w_permissions = webhook_permissions h,
      v0w_token = webhook_token h\<rparr>"

record v0_partial_webhook =
  v0pw_id :: "string option"
  v0pw_name :: "string option"
  v0pw_avatar :: "v0_file option"
  v0pw_creator_id :: "string option"
  v0pw_channel_id :: "string option"
  v0pw_permissions :: "u64 option"
  v0pw_token :: "string option"

definition partial_webhook_to_wire :: "partial_webhook \<Rightarrow> v0_partial_webhook" where
  "partial_webhook_to_wire p =
     \<lparr>v0pw_id = pw_id p, v0pw_name = pw_name p, v0pw_avatar = map_option file_to_wire (pw_avatar p), v0pw_creator_id = pw_creator_id p,
      v0pw_channel_id = pw_channel_id p, v0pw_permissions = pw_permissions p, v0pw_token = pw_token p\<rparr>"

datatype v0_fields_webhook = V0WebhookAvatar

primrec fields_webhook_to_wire :: "fields_webhook \<Rightarrow> v0_fields_webhook" where
  "fields_webhook_to_wire WebhookAvatar = V0WebhookAvatar"

primrec fields_webhook_from_wire :: "v0_fields_webhook \<Rightarrow> fields_webhook" where
  "fields_webhook_from_wire V0WebhookAvatar = WebhookAvatar"

datatype v0_emoji_parent = V0EmojiServer string | V0EmojiDetached

primrec emoji_parent_to_wire :: "emoji_parent \<Rightarrow> v0_emoji_parent" where
  "emoji_parent_to_wire EmojiDetached = V0EmojiDetached"
| "emoji_parent_to_wire (EmojiServer i) = V0EmojiServer i"

primrec emoji_parent_from_wire :: "v0_emoji_parent \<Rightarrow> emoji_parent" where
  "emoji_parent_from_wire V0EmojiDetached = EmojiDetached"
| "emoji_parent_from_wire (V0EmojiServer i) = EmojiServer i"

record v0_emoji =
  v0e_id :: string
  v0e_parent :: v0_emoji_parent
  v0e_creator_id :: string
  v0e_name :: string
  v0e_animated :: bool
  v0e_nsfw :: bool

definition emoji_to_wire :: "emoji \<Rightarrow> v0_emoji" where
  "emoji_to_wire e =
     \<lparr>v0e_id = emoji_id e, v0e_parent = emoji_parent_to_wire (emoji_parent e), v0e_creator_id = emoji_creator_id e, v0e_name = emoji_name e,
      v0e_animated = emoji_animated e, v0e_nsfw = emoji_nsfw e\<rparr>"

record v0_channel_composite_key =
  v0ck_channel :: string
  v0ck_user :: string

definition channel_key_to_wire :: "channel_composite_key \<Rightarrow> v0_channel_composite_key" where
  "channel_key_to_wire k =
     \<lparr>v0ck_channel = ckey_channel k, v0ck_user = ckey_user k\<rparr>"

record v0_channel_unread =
  v0un_id :: v0_channel_composite_key
  v0un_last_id :: "string option"
  v0un_mentions :: "string list"

definition channel_unread_to_wire :: "channel_unread \<Rightarrow> v0_channel_unread" where
  "channel_unread_to_wire u =
     \<lparr>v0un_id = channel_key_to_wire (unread_id u), v0un_last_id = unread_last_id u, v0un_mentions = or_nil (unread_mentions u)\<rparr>"

record v0_policy_change =
  v0pol_created_time :: timestamp
  v0pol_effective_time :: timestamp
  v0pol_description :: string
  v0pol_url :: string

definition policy_change_to_wire :: "policy_change \<Rightarrow> v0_policy_change" where
  "policy_change_to_wire p =
     \<lparr>v0pol_created_time = policy_created_time p, v0pol_effective_time = policy_effective_time p, v0pol_description = policy_description p,
      v0pol_url = policy_url p\<rparr>"

end
