(* ===== verification/Bulk_Permission_Query.thy ===== *)
theory Bulk_Permission_Query
  imports Database_Permission_Query
begin

text \<open>
  \<open>crates/core/database/src/util/bulk_permissions.rs\<close>: the calculation of the permissions of many
  members of a server at once, used to find out who may see a channel. It is a second, separately
  written implementation of the rules of \<open>impl.rs\<close>; the theory shows that both agree on who can see
  a channel.
\<close>

section \<open>State and operations\<close>

record bulk_query =
  bq_server :: server
  bq_channel :: "channel option"
  bq_users :: "user list option"
  bq_members :: "member list option"
  bq_cached_users :: "user list option"
  bq_cached_members :: "member list option"
  bq_cached_member_perms :: "(string, u64) hashmap option"

type_synonym 'a bulk = "(bulk_query, error_type, 'a) action"

definition new_bulk :: "server \<Rightarrow> bulk_query" where
  "new_bulk srv =
     \<lparr>bq_server = srv, bq_channel = None, bq_users = None, bq_members = None,
      bq_cached_users = None, bq_cached_members = None, bq_cached_member_perms = None\<rparr>"

text \<open>\<open>from_server_id\<close> and \<open>from_channel_id\<close> panic when the read fails.\<close>

definition bulk_from_server_id :: "db_reads \<Rightarrow> string \<Rightarrow> bulk_query result" where
  "bulk_from_server_id D sid =
     (case rd_fetch_server D sid of Ok srv \<Rightarrow> Ok (new_bulk srv) | _ \<Rightarrow> Panic)"

definition bulk_channel :: "channel \<Rightarrow> bulk_query \<Rightarrow> bulk_query" where
  "bulk_channel c q = q\<lparr>bq_channel := Some c\<rparr>"

definition bulk_from_channel_id :: "db_reads \<Rightarrow> string \<Rightarrow> bulk_query \<Rightarrow> bulk_query result" where
  "bulk_from_channel_id D cid q =
     (case rd_fetch_channel D cid of Ok c \<Rightarrow> Ok (q\<lparr>bq_channel := Some c\<rparr>) | _ \<Rightarrow> Panic)"

definition bulk_members :: "member list \<Rightarrow> bulk_query \<Rightarrow> bulk_query" where
  "bulk_members ms q =
     q\<lparr>bq_members := Some ms, bq_cached_member_perms := None, bq_users := None,
       bq_cached_members := None, bq_cached_users := None\<rparr>"

definition bulk_users :: "user list \<Rightarrow> bulk_query \<Rightarrow> bulk_query" where
  "bulk_users us q =
     q\<lparr>bq_users := Some us, bq_cached_member_perms := None, bq_members := None,
       bq_cached_members := None, bq_cached_users := None\<rparr>"

text \<open>The private \<open>calculate_server_permissions\<close> of the module.\<close>

definition bulk_server_permissions :: "timestamp \<Rightarrow> server \<Rightarrow> user \<Rightarrow> member \<Rightarrow> u64" where
  "bulk_server_permissions now srv u m =
     (if privileged u \<or> server_owner srv = user_id u then channel_permission_bits GrantAllSafe
      else let p = apply_all (server_role_overrides srv (member_roles m))
                     (as_u64 (server_default_permissions srv))
           in if in_timeout now m then pv_restrict p ALLOW_IN_TIMEOUT else p)"

text \<open>The body of the loop over the users: the value inserted for one user.\<close>

definition bulk_user_permissions ::
    "timestamp \<Rightarrow> server \<Rightarrow> text_channel \<Rightarrow> (string \<rightharpoonup> member) \<Rightarrow> user \<Rightarrow> u64" where
  "bulk_user_permissions now srv t members u =
     (case members (user_id u) of
        None \<Rightarrow> 0
      | Some m \<Rightarrow>
          if privileged u then channel_permission_bits GrantAllSafe
          else if user_id u = server_owner srv then channel_permission_bits GrantAllSafe
          else let p = bulk_server_permissions now srv u m;
                   q = (case txt_default_permissions t of
                          Some f \<Rightarrow> pv_apply p (field_to_override f)
                        | None \<Rightarrow> p)
               in apply_all (channel_role_overrides srv (txt_role_permissions t) (member_roles m)) q)"

definition load_users :: "db_reads \<Rightarrow> user list bulk" where
  "load_users D q =
     (case bq_users q of
        Some us \<Rightarrow> (Ok us, q)
      | None \<Rightarrow>
          (case bq_members q of
             None \<Rightarrow> (Panic, q)
           | Some ms \<Rightarrow>
               (case rd_fetch_users D (map (\<lambda>m. key_user (member_id m)) ms) of
                  Ok us \<Rightarrow> (Ok us, q\<lparr>bq_cached_users := Some us, bq_users := Some us\<rparr>)
                | _ \<Rightarrow> (Panic, q))))"

definition load_members :: "db_reads \<Rightarrow> user list \<Rightarrow> member list bulk" where
  "load_members D us q =
     (case bq_members q of
        Some ms \<Rightarrow> (Ok ms, q)
      | None \<Rightarrow>
          (case rd_fetch_members D (server_id (bq_server q)) (map user_id us) of
             Ok ms \<Rightarrow> (Ok ms, q\<lparr>bq_cached_members := Some ms, bq_members := Some ms\<rparr>)
           | _ \<Rightarrow> (Panic, q)))"

text \<open>\<open>HashMap::from_iter\<close>: of two members with the same user the later one stays.\<close>

definition members_by_user :: "member list \<Rightarrow> (string \<rightharpoonup> member)" where
  "members_by_user ms = map_of (rev (map (\<lambda>m. (key_user (member_id m), m)) ms))"

definition calculate_members_permissions :: "db_reads \<Rightarrow> (string, u64) hashmap bulk" where
  "calculate_members_permissions D q =
     (case bq_channel q of
        Some (TextChannel _ t) \<Rightarrow>
          andthen (load_users D) (\<lambda>us.
          andthen (load_members D us) (\<lambda>ms.
          ret (fold (\<lambda>u resp.
                 AList.update (user_id u)
                   (bulk_user_permissions (rd_now D) (bq_server q) t (members_by_user ms) u) resp)
               us []))) q
      | _ \<Rightarrow> (Panic, q))"

definition members_can_see_channel :: "db_reads \<Rightarrow> (string, bool) hashmap bulk" where
  "members_can_see_channel D q =
     (case bq_cached_member_perms q of
        Some perms \<Rightarrow> (Ok (map (\<lambda>(k, p). (k, has_channel_permission p ViewChannel)) perms), q)
      | None \<Rightarrow>
          andthen (calculate_members_permissions D) (\<lambda>perms.
            ret (map (\<lambda>(k, p). (k, has_channel_permission p ViewChannel)) perms)) q)"

section \<open>Agreement with the single query\<close>

lemma map_of_fold_update:
  assumes "distinct (map f us)"
  shows "map_of (fold (\<lambda>u resp. AList.update (f u) (g u) resp) us resp0) =
         (\<lambda>k. case find (\<lambda>u. f u = k) us of Some u \<Rightarrow> Some (g u) | None \<Rightarrow> map_of resp0 k)"
  using assms
proof (induction us arbitrary: resp0)
  case Nil
  then show ?case by simp
next
  case (Cons u us)
  have "find (\<lambda>v. f v = f u) us = None" 
    using Cons.prems by (auto simp: find_None_iff) (metis imageI)
  with Cons show ?case
    by (auto simp: fun_eq_iff update_conv' split: option.splits)
qed

lemma find_unique:
  "distinct (map f us) \<Longrightarrow> u \<in> set us \<Longrightarrow> find (\<lambda>v. f v = f u) us = Some u"
  by (induction us) auto

lemma apply_channel_default:
  "(case txt_default_permissions t of Some f \<Rightarrow> pv_apply p (field_to_override f) | None \<Rightarrow> p)
   = pv_apply p (channel_default_override (TextChannel cid t))"
proof -
  have "field_to_override override_field_default = override_default"
    by (simp add: field_to_override_def override_field_default_def override_default_def)
  then show ?thesis by (simp split: option.split)
qed

text \<open>The two implementations grant the view permission to the same members: the voice masks and the
  timeout, which the two treat differently, never touch that bit.\<close>

lemma bulk_view_agrees:
  assumes "\<not> privileged u" and "server_owner srv \<noteq> user_id u"
  shows "bit (apply_all os (pv_apply (bulk_server_permissions now srv u m) v)) 20 \<longleftrightarrow>
    bit (server_channel_spec
      \<lparr>an_owner = False, an_member = True, an_default = as_u64 (server_default_permissions srv),
       an_roles = server_role_overrides srv (member_roles m),
       an_timed_out = in_timeout now m, an_publish = can_publish m, an_receive = can_receive m\<rparr> v os) 20"
  using assms
  by (simp add: server_channel_spec_def bulk_server_permissions_def Let_def bit_apply_all bit_pv_apply
      bit_server_spec_member bit_ViewChannel bit_pv_restrict bit_ALLOW_IN_TIMEOUT split: option.split)

text \<open>For one user: the value of the loop and the single query.\<close>

lemma bulk_user_view:
  assumes "members_by_user ms (user_id u) = Some m"
    and "rd_fetch_member D (server_id srv) (user_id u) = Ok m"
    and "rd_fetch_server D (txt_server t) = Ok srv"
    and "\<forall>sid. rd_fetch_member D sid (user_id u) \<noteq> Panic" and "\<forall>sid. rd_fetch_server D sid \<noteq> Panic"
  shows "\<exists>p. fst (calculate_channel_permissions (db_query D) (channel_query u (TextChannel cid t))) = Ok p
    \<and> has_channel_permission (bulk_user_permissions (rd_now D) srv t (members_by_user ms) u) ViewChannel = has_channel_permission p ViewChannel"
proof -
  let ?v = "bulk_user_permissions (rd_now D) srv t (members_by_user ms) u"
  obtain p where p: "fst (calculate_channel_permissions (db_query D) (channel_query u (TextChannel cid t))) = Ok p"
    by (simp add: server_channel_query_spec [OF assms(4,5,3)])
  have "has_channel_permission ?v ViewChannel = has_channel_permission p ViewChannel"
  proof (cases "privileged u \<or> server_owner srv = user_id u")
    case True
    with p assms(1) have "p = channel_permission_bits GrantAllSafe" and "?v = channel_permission_bits GrantAllSafe"
      by (auto simp: server_channel_query_spec [OF assms(4,5,3)] bulk_user_permissions_def
          simp del: channel_permission_bits.simps)
    then show ?thesis by simp
  next
    case False
    let ?os = "channel_role_overrides srv (txt_role_permissions t) (member_roles m)"
    let ?d = "channel_default_override (TextChannel cid t)"
    have "?v = apply_all ?os (pv_apply (bulk_server_permissions (rd_now D) srv u m) ?d)"
      using False assms(1)
      by (auto simp: bulk_user_permissions_def Let_def apply_channel_default [where cid = cid]
          simp del: channel_default_override.simps)
    with False p assms(2) bulk_view_agrees [of u srv ?os "rd_now D" m ?d] show ?thesis
      by (simp add: server_channel_query_spec [OF assms(4,5,3)] bit_ViewChannel
          del: channel_default_override.simps)
  qed
  with p show ?thesis by blast
qed

lemma bulk_lookup:
  assumes "distinct (map user_id us)" and "u \<in> set us"
  shows "map_of (map (\<lambda>(k, p). (k, has_channel_permission p ViewChannel))
      (fold (\<lambda>u resp. AList.update (user_id u) (f u) resp) us [])) (user_id u) = Some (has_channel_permission (f u) ViewChannel)"
  by (simp add: map_of_map map_of_fold_update [OF assms(1)] find_unique [OF assms])

text \<open>C24: for a channel of a server, the bulk query and the single query agree on which members can see
  the channel.\<close>

theorem bulk_visibility_agrees:
  assumes "distinct (map user_id us)" and "u \<in> set us"
    and "members_by_user ms (user_id u) = Some m"
    and "rd_fetch_member D (server_id srv) (user_id u) = Ok m"
    and "rd_fetch_server D (txt_server t) = Ok srv"
    and "\<forall>sid. rd_fetch_member D sid (user_id u) \<noteq> Panic" and "\<forall>sid. rd_fetch_server D sid \<noteq> Panic"
  shows "\<exists>visible p.
     fst (members_can_see_channel D ((bulk_channel (TextChannel cid t) (new_bulk srv))
            \<lparr>bq_users := Some us, bq_members := Some ms\<rparr>)) = Ok visible
     \<and> fst (calculate_channel_permissions (db_query D) (channel_query u (TextChannel cid t))) = Ok p
     \<and> map_of visible (user_id u) = Some (has_channel_permission p ViewChannel)"
proof -
  let ?v = "\<lambda>u. bulk_user_permissions (rd_now D) srv t (members_by_user ms) u"
  have bulk: "fst (members_can_see_channel D ((bulk_channel (TextChannel cid t) (new_bulk srv))
            \<lparr>bq_users := Some us, bq_members := Some ms\<rparr>)) =
        Ok (map (\<lambda>(k, p). (k, has_channel_permission p ViewChannel))
             (fold (\<lambda>u resp. AList.update (user_id u) (?v u) resp) us []))"
    by (simp add: members_can_see_channel_def calculate_members_permissions_def load_users_def
        load_members_def bulk_channel_def new_bulk_def andthen_def ret_def)
  with bulk_user_view [OF assms(3-7), of cid] bulk_lookup [OF assms(1,2), of ?v] show ?thesis by auto
qed

theorem bulk_visibility_agrees_witness:
  "\<exists>visible p.
     fst (members_can_see_channel
            (sample_reads (sample_server ''S'' ''o'' [] 0) (sample_member ''S'' ''me'' [] None) 0)
            ((bulk_channel (sample_text_channel ''C'' ''S'' []) (new_bulk (sample_server ''S'' ''o'' [] 0)))
            \<lparr>bq_users := Some [sample_user ''me''], bq_members := Some [sample_member ''S'' ''me'' [] None]\<rparr>)) = Ok visible
     \<and> fst (calculate_channel_permissions
            (db_query (sample_reads (sample_server ''S'' ''o'' [] 0) (sample_member ''S'' ''me'' [] None) 0))
            (channel_query (sample_user ''me'') (sample_text_channel ''C'' ''S'' []))) = Ok p
     \<and> map_of visible ''me'' = Some (has_channel_permission p ViewChannel)"
proof -
  let ?srv = "sample_server ''S'' ''o'' [] 0"
  let ?m = "sample_member ''S'' ''me'' [] None"
  let ?u = "sample_user ''me''"
  obtain t where t: "sample_text_channel ''C'' ''S'' [] = TextChannel ''C'' t" and s: "txt_server t = server_id ?srv"
    by (simp add: sample_defs)
  have u: "user_id ?u = ''me''" by (simp add: sample_defs)
  have f: "rd_fetch_member (sample_reads ?srv ?m 0) (server_id ?srv) (user_id ?u) = Ok ?m"
    using sample_reads_simps(4) [of ?srv ?m 0] by (simp add: sample_defs)
  have "rd_fetch_server (sample_reads ?srv ?m 0) (txt_server t) = Ok ?srv" unfolding s by simp
  moreover have "members_by_user [?m] (user_id ?u) = Some ?m"
    by (simp add: members_by_user_def sample_defs)
  ultimately show ?thesis
    using bulk_visibility_agrees [of "[?u]" ?u "[?m]" ?m, OF _ _ _ f, of t "''C''"] by (simp add: u t)
qed

end
