(* ===== verification/Messaging.thy ===== *)
theory Messaging
  imports Channels Bulk_Permission_Query
begin

text \<open>
  Sending and moderating messages: \<open>Message::create_from_api\<close> and \<open>create_embed\<close> of
  \<open>crates/core/database/src/models/messages/model.rs\<close>, the idempotency keys (\<open>util/idempotency.rs\<close>), and the routes
  \<open>crates/delta/src/routes/channels/message_*.rs\<close> that send, edit, delete, pin and react. The parser, the permission queries and the
  reference database are those of the other theories.

  Left out is what only renders the answer: the conversion of the author to the wire format and whether it is online.
\<close>

section \<open>Idempotency keys\<close>

text \<open>The cache of the last 1000 keys, least recently used first. \<open>LruCache::get\<close> makes an entry the most recent one.\<close>

definition token_cache_size :: nat where
  "token_cache_size = 1000"

definition lru_get :: "string \<Rightarrow> string list \<Rightarrow> string list" where
  "lru_get v cache = (if v \<in> set cache then removeAll v cache @ [v] else cache)"

definition lru_put :: "string \<Rightarrow> string list \<Rightarrow> string list" where
  "lru_put v cache = (let c = removeAll v cache @ [v] in drop (length c - token_cache_size) c)"

definition remember_key :: "string \<Rightarrow> unit world_action" where
  "remember_key v =
     andthen (gets nonce_cache) (\<lambda>cache.
       if v \<in> set cache
       then andthen (modify (nonce_cache_update (lru_get v))) (\<lambda>_. throw DuplicateNonce)
       else modify (nonce_cache_update (lru_put v)))"

text \<open>\<open>IdempotencyKey::consume_nonce\<close>: the answer is the key.\<close>

definition consume_nonce :: "string \<Rightarrow> string option \<Rightarrow> string world_action" where
  "consume_nonce key v =
     (case v of
        Some v' \<Rightarrow> andthen (remember_key v') (\<lambda>_. ret v')
      | None \<Rightarrow> ret key)"

text \<open>The request guard: the header \<open>Idempotency-Key\<close>, or a fresh key.\<close>

definition idempotency_from_request :: "string \<Rightarrow> string option \<Rightarrow> string world_action" where
  "idempotency_from_request fresh header =
     (case header of
        Some key \<Rightarrow>
          if length key > 64 then throw (FailedValidation ''idempotency key too long'')
          else andthen (remember_key key) (\<lambda>_. ret key)
      | None \<Rightarrow> ret fresh)"

section \<open>Messages made from a request\<close>

record reply_intent =
  reply_to :: string
  reply_mention :: bool
  reply_fail_if_not_exists :: "bool option"

text \<open>An embed of a request is the text embed without its media and the id of the file that becomes its media.\<close>

type_synonym sendable_embed = "text_embed \<times> string option"

record data_message_send =
  dms_nonce :: "string option"
  dms_content :: "string option"
  dms_attachments :: "string list option"
  dms_replies :: "reply_intent list option"
  dms_embeds :: "sendable_embed list option"
  dms_masquerade :: "masquerade option"
  dms_interactions :: "interactions option"
  dms_flags :: "u32 option"

datatype message_author = AuthorUser user | AuthorWebhook webhook | AuthorSystem

primrec author_id :: "message_author \<Rightarrow> string" where
  "author_id (AuthorUser u) = user_id u"
| "author_id (AuthorWebhook h) = webhook_id h"
| "author_id AuthorSystem = system_author"

definition or_empty :: "'a list option \<Rightarrow> 'a list" where
  "or_empty xs = (case xs of Some ys \<Rightarrow> ys | None \<Rightarrow> [])"

definition request_is_empty :: "data_message_send \<Rightarrow> bool" where
  "request_is_empty data \<longleftrightarrow> or_empty (dms_content data) = [] \<and> or_empty (dms_attachments data) = [] \<and> or_empty (dms_embeds data) = []"

text \<open>``Ensure restrict_reactions is not specified without reactions list''.\<close>

definition restriction_without_list :: "interactions option \<Rightarrow> bool" where
  "restriction_without_list i =
     (case i of
        Some x \<Rightarrow> restrict_reactions x \<and> or_empty (inter_reactions x) = []
      | None \<Rightarrow> False)"

definition hook_of_author :: "message_author \<Rightarrow> message_webhook option" where
  "hook_of_author a =
     (case a of
        AuthorWebhook h \<Rightarrow> Some \<lparr>hook_name = webhook_name h, hook_avatar = map_option file_id (webhook_avatar h)\<rparr>
      | _ \<Rightarrow> None)"

definition message_skeleton :: "string \<Rightarrow> channel \<Rightarrow> data_message_send \<Rightarrow> message_author \<Rightarrow> message" where
  "message_skeleton new_id c data author =
     message_default\<lparr>msg_id := new_id, msg_channel := channel_id c, msg_masquerade := dms_masquerade data,
       msg_interactions := (case dms_interactions data of Some i \<Rightarrow> i | None \<Rightarrow> interactions_default),
       msg_author := author_id author, msg_webhook := hook_of_author author, msg_flags := dms_flags data\<rparr>"

text \<open>\<open>expect\<close> on a result panics on an error.\<close>

definition expect :: "'a world_action \<Rightarrow> 'a world_action" where
  "expect m w = (case m w of (Err e, w') \<Rightarrow> (Panic, w') | r \<Rightarrow> r)"

definition known_roles :: "channel \<Rightarrow> bool \<Rightarrow> string set \<Rightarrow> string set world_action" where
  "known_roles c allow_mass roles =
     (case channel_server c of
        Some sid \<Rightarrow>
          if allow_mass \<and> roles \<noteq> {}
          then andthen (expect (on_db (fetch_server sid))) (\<lambda>s. ret {r \<in> roles. hm_contains (server_roles s) r})
          else ret roles
      | None \<Rightarrow> ret roles)"

text \<open>The author is converted to the wire format and back before its permissions are calculated; of the fields that the query reads
  this loses the relationships.\<close>

definition through_wire :: "user \<Rightarrow> user" where
  "through_wire u = u\<lparr>relations := None, user_profile := None, suspended_until := None, suspension_reason := None, ban_reason := None,
     last_acknowledged_policy_change := 0\<rparr>"

text \<open>``Validate the user can perform a mass mention''.\<close>

definition check_mass_mentions ::
    "env \<Rightarrow> message_author \<Rightarrow> channel \<Rightarrow> bool \<times> bool \<times> string set \<Rightarrow> (bool \<times> bool \<times> string set) world_action" where
  "check_mass_mentions E author c = (\<lambda>(everyone, online, roles).
     if \<not> env_mass_mentions E \<and> (everyone \<or> online \<or> roles \<noteq> {}) then ret (False, False, {})
     else if everyone \<or> online \<or> roles \<noteq> {} then
       (case author of
          AuthorWebhook h \<Rightarrow> ret (everyone, online, roles)
        | AuthorSystem \<Rightarrow> throw InvalidProperty
        | AuthorUser u \<Rightarrow>
            andthen (channel_permissions E (channel_query (through_wire u) c)) (\<lambda>(p, _).
              if (everyone \<or> online) \<and> \<not> has_channel_permission p Permissions.MentionEveryone
              then throw (MissingPermission ''MentionEveryone'')
              else if roles \<noteq> {} \<and> \<not> has_channel_permission p MentionRoles
              then throw (MissingPermission ''MentionRoles'')
              else ret (everyone, online, roles)))
     else ret (everyone, online, roles))"

text \<open>The outcome of a step as a value.\<close>

definition outcome_of :: "'a world_action \<Rightarrow> (error_type + 'a) world_action" where
  "outcome_of m w =
     (case m w of
        (Ok x, w') \<Rightarrow> (Ok (Inr x), w')
      | (Err e, w') \<Rightarrow> (Ok (Inl e), w')
      | (Panic, w') \<Rightarrow> (Panic, w'))"

text \<open>``Verify replies are valid'': the loop over the entries.\<close>

fun collect_replies ::
    "bool \<Rightarrow> reply_intent list \<Rightarrow> string set \<Rightarrow> string list \<Rightarrow> (string set \<times> string list) world_action" where
  "collect_replies allow_mentions [] mentioned replies = ret (mentioned, replies)"
| "collect_replies allow_mentions (r # rs) mentioned replies =
     andthen (outcome_of (on_db (fetch_message (reply_to r)))) (\<lambda>found.
       case found of
         Inr m \<Rightarrow>
           collect_replies allow_mentions rs
             (if reply_mention r \<and> allow_mentions then insert (msg_author m) mentioned else mentioned)
             (if msg_id m \<in> set replies then replies else replies @ [msg_id m])
       | Inl e \<Rightarrow>
           if e \<noteq> NotFound \<or> (case reply_fail_if_not_exists r of Some b \<Rightarrow> b | None \<Rightarrow> True) then throw e
           else collect_replies allow_mentions rs mentioned replies)"

definition check_replies ::
    "env \<Rightarrow> bool \<Rightarrow> reply_intent list option \<Rightarrow> string set \<Rightarrow> (string set \<times> string list) world_action" where
  "check_replies E allow_mentions entries mentioned =
     (case entries of
        Some rs \<Rightarrow>
          if length rs > message_replies (env_global E) then throw (TooManyReplies (message_replies (env_global E)))
          else collect_replies allow_mentions rs mentioned []
      | None \<Rightarrow> ret (mentioned, []))"

text \<open>\<open>BulkDatabasePermissionQuery::from_server_id(..).channel(..).members(..).members_can_see_channel()\<close>.\<close>

definition bulk_visible :: "env \<Rightarrow> channel \<Rightarrow> string \<Rightarrow> member list \<Rightarrow> (string, bool) hashmap world_action" where
  "bulk_visible E c sid ms w =
     (let D = reads_of (env_now E) (db w) in
      case bulk_from_server_id D sid of
        Ok q \<Rightarrow> (fst (members_can_see_channel D (bulk_members ms (bulk_channel c q))), w)
      | Err e \<Rightarrow> (Err e, w)
      | Panic \<Rightarrow> (Panic, w))"

text \<open>``Validate the mentions go to users in the channel/server''. The answer are the users and the roles.\<close>

definition check_user_mentions :: "env \<Rightarrow> channel \<Rightarrow> string set \<Rightarrow> string set \<Rightarrow> (string set \<times> string set) world_action" where
  "check_user_mentions E c mentioned roles =
     (if mentioned = {} then ret (mentioned, roles)
      else
        (case c of
           DirectMessage _ _ recipients _ \<Rightarrow> ret ({u \<in> mentioned. u \<in> set recipients}, {})
         | Group _ g \<Rightarrow> ret ({u \<in> mentioned. u \<in> set (grp_recipients g)}, {})
         | TextChannel _ t \<Rightarrow>
             andthen (attempt (on_db (fetch_members (txt_server t) (env_iteration E mentioned)))) (\<lambda>found.
               case found of
                 None \<Rightarrow> throw InternalError
               | Some ms \<Rightarrow>
                   let valid = {u \<in> mentioned. u \<in> set (map (\<lambda>m. key_user (member_id m)) ms)} in
                   if valid = {} then ret (valid, roles)
                   else
                     andthen (bulk_visible E c (txt_server t) ms) (\<lambda>sees.
                     ret ({u \<in> valid. map_of sees u = Some True}, roles)))
         | SavedMessages _ _ \<Rightarrow> ret ({}, roles)))"

fun use_attachments :: "string list \<Rightarrow> string \<Rightarrow> string \<Rightarrow> stored_file list world_action" where
  "use_attachments [] parent uploader = ret []"
| "use_attachments (i # is) parent uploader =
     andthen (on_db (use_attachment i parent uploader)) (\<lambda>f.
     andthen (use_attachments is parent uploader) (\<lambda>fs.
     ret (f # fs)))"

fun attach_embeds :: "message \<Rightarrow> sendable_embed list \<Rightarrow> message world_action" where
  "attach_embeds m [] = ret m"
| "attach_embeds m ((emb, media) # es) = andthen (attach_sendable_embed m emb media) (\<lambda>m'. attach_embeds m' es)"

definition some_unless_empty :: "'a list \<Rightarrow> 'a list option" where
  "some_unless_empty xs = (if xs = [] then None else Some xs)"

text \<open>The parts of the message that the checks on mentions and replies find out.\<close>

definition resolve_mentions ::
    "env \<Rightarrow> channel \<Rightarrow> data_message_send \<Rightarrow> message_author \<Rightarrow> bool \<Rightarrow> bool \<Rightarrow> bool
     \<Rightarrow> (string set \<times> string set \<times> string list \<times> bool \<times> bool) world_action" where
  "resolve_mentions E c data author allow_mentions flag_everyone flag_online =
     (let parsed = (case dms_content data of
                      Some text \<Rightarrow> parse_message (env_lexer E) text
                    | None \<Rightarrow> message_results_default);
          allow_mass = (allow_mentions \<and> env_mass_mentions E);
          everyone = (mentions_everyone parsed \<or> flag_everyone);
          online = (mentions_online parsed \<or> flag_online) in
      andthen (known_roles c allow_mass (role_mentions parsed)) (\<lambda>roles.
      andthen (check_mass_mentions E author c (everyone, online, roles)) (\<lambda>(everyone, online, roles).
      andthen (check_replies E allow_mentions (dms_replies data) (user_mentions parsed)) (\<lambda>(mentioned, replies).
      andthen (check_user_mentions E c mentioned roles) (\<lambda>(mentioned, roles).
      ret (mentioned, roles, replies, everyone, online))))))"

definition create_from_api ::
    "env \<Rightarrow> string \<Rightarrow> channel \<Rightarrow> data_message_send \<Rightarrow> message_author \<Rightarrow> user option \<Rightarrow> features_limits \<Rightarrow> string \<Rightarrow> bool \<Rightarrow> bool
     \<Rightarrow> message world_action" where
  "create_from_api E new_id c data author user_model limits key generate_embeds allow_mentions =
     andthen (lift (validate_sum (dms_content data) (map (\<lambda>(e, _). emb_description e) (or_empty (dms_embeds data)))
       (message_length limits))) (\<lambda>_.
     andthen (map_err InvalidOperation (consume_nonce key (dms_nonce data))) (\<lambda>key'.
       if request_is_empty data then throw EmptyMessage else
     andthen (lift (request_flags (dms_flags data) allow_mentions
       (case user_model of Some u \<Rightarrow> user_bot u = None | None \<Rightarrow> False))) (\<lambda>(suppress, flag_everyone, flag_online).
       if restriction_without_list (dms_interactions data) then throw InvalidProperty else
     andthen (resolve_mentions E c data author allow_mentions flag_everyone flag_online) (\<lambda>(mentioned, roles, replies, everyone, online).
       let m = (message_skeleton new_id c data author)\<lparr>
             msg_mentions := some_unless_empty (env_iteration E mentioned),
             msg_role_mentions := some_unless_empty (env_iteration E roles),
             msg_replies := some_unless_empty replies,
             msg_flags := Some (final_flags suppress everyone online)\<rparr> in
       if length (or_empty (dms_attachments data)) > message_attachments limits
       then throw (TooManyAttachments (message_attachments limits))
       else if length (or_empty (dms_embeds data)) > message_embeds (env_global E)
       then throw (TooManyEmbeds (message_embeds (env_global E)))
       else
     andthen (use_attachments (or_empty (dms_attachments data)) new_id (author_id author)) (\<lambda>files.
     andthen (attach_embeds (m\<lparr>msg_attachments := some_unless_empty files\<rparr>) (or_empty (dms_embeds data))) (\<lambda>m.
       let m = m\<lparr>msg_content := dms_content data, msg_nonce := Some key'\<rparr> in
     andthen (send m (author_id author) c generate_embeds) (\<lambda>_.
     ret m)))))))"

section \<open>Sending\<close>

text \<open>The slow mode of a channel: the key of the user is set if it is absent; if it is present, the remaining time is the error. A
  failure of the command counts as a key that is present, and a failed question for the remaining time as 0; without a
  connection there is no check.\<close>

definition slowmode_key :: "string \<Rightarrow> string \<Rightarrow> string" where
  "slowmode_key uid cid = ''slowmode:'' @ uid @ '':'' @ cid"

definition slowmode_check :: "env \<Rightarrow> user \<Rightarrow> channel \<Rightarrow> u64 \<Rightarrow> unit world_action" where
  "slowmode_check E u c p =
     (if has_channel_permission p BypassSlowmode then ret ()
      else
        (case c of
           TextChannel cid t \<Rightarrow>
             (case txt_slowmode t of
                Some delay \<Rightarrow>
                  if delay > 0 then
                    andthen (gets (\<lambda>w. redis_connect (env_redis E) (redis w))) (\<lambda>connected.
                      if \<not> connected then ret ()
                      else
                        andthen (gets (\<lambda>w. redis_set_nx (env_redis E) (slowmode_key (user_id u) cid) (RString ''1'') (unat delay) (redis w)))
                          (\<lambda>(answer, s).
                        andthen (modify (redis_update (\<lambda>_. s))) (\<lambda>_.
                          if answer = Some True then ret ()
                          else
                            andthen (gets (\<lambda>w. redis_ttl (env_redis E) (slowmode_key (user_id u) cid) (redis w))) (\<lambda>n.
                              let ttl = (case n of Some x \<Rightarrow> x | None \<Rightarrow> 0) in
                              if ttl > 0 then throw (InSlowmode (word_of_int ttl)) else ret ()))))
                  else ret ()
              | None \<Rightarrow> ret ())
         | _ \<Rightarrow> ret ()))"

text \<open>``Disallow mentions for new users (TRUST-0: <12 hours age) in public servers''.\<close>

definition mentions_allowed :: "env \<Rightarrow> user \<Rightarrow> server option \<Rightarrow> bool world_action" where
  "mentions_allowed E u srv =
     (case srv of
        Some s \<Rightarrow>
          if server_discoverable s
          then (case env_ulid_datetime E (user_id u) of
                  None \<Rightarrow> panic
                | Some t \<Rightarrow> if t > env_now E then panic else ret (env_now E - t \<ge> 12 * 3600 * 1000))
          else ret True
      | None \<Rightarrow> ret True)"

definition send_checks :: "u64 \<Rightarrow> data_message_send \<Rightarrow> unit world_action" where
  "send_checks p data =
     andthen (check_lacking p SendMessage) (\<lambda>_.
     andthen (case dms_masquerade data of
                Some masq \<Rightarrow>
                  andthen (check_lacking p Masquerade) (\<lambda>_. when_do (masq_colour masq \<noteq> None) (check_lacking p ManageRole))
              | None \<Rightarrow> ret ()) (\<lambda>_.
     andthen (when_do (or_empty (dms_embeds data) \<noteq> []) (check_lacking p SendEmbeds)) (\<lambda>_.
     when_do (or_empty (dms_attachments data) \<noteq> []) (check_lacking p UploadFiles))))"

definition route_message_send ::
    "env \<Rightarrow> unit result \<Rightarrow> string \<Rightarrow> string \<Rightarrow> user \<Rightarrow> string \<Rightarrow> data_message_send \<Rightarrow> message world_action" where
  "route_message_send E validation new_id key u target data =
     andthen (lift validation) (\<lambda>_.
     andthen (on_db (fetch_channel target)) (\<lambda>c.
     andthen (channel_permissions E (channel_query u c)) (\<lambda>(p, q).
     andthen (send_checks p data) (\<lambda>_.
     andthen (slowmode_check E u c p) (\<lambda>_.
     andthen (case dms_interactions data of Some i \<Rightarrow> interactions_validate E p i | None \<Rightarrow> ret ()) (\<lambda>_.
     andthen (mentions_allowed E u (pq_server q)) (\<lambda>allow_mentions.
     andthen (user_limits E u) (\<lambda>limits.
     create_from_api E new_id c data (AuthorUser u) (Some u) limits key (has_channel_permission p SendEmbeds) allow_mentions))))))))"

section \<open>Reactions, pins, edits and deletion\<close>

text \<open>\<open>Reference::as_message_in_channel\<close>.\<close>

definition as_message_in_channel :: "string \<Rightarrow> string \<Rightarrow> message world_action" where
  "as_message_in_channel i cid =
     andthen (on_db (fetch_message i)) (\<lambda>m. if msg_channel m \<noteq> cid then throw NotFound else ret m)"

definition route_react :: "env \<Rightarrow> user \<Rightarrow> string \<Rightarrow> string \<Rightarrow> string \<Rightarrow> unit world_action" where
  "route_react E u target mid emoji =
     andthen (on_db (fetch_channel target)) (\<lambda>c.
     andthen (channel_guard E u c React) (\<lambda>_.
     andthen (as_message_in_channel mid (channel_id c)) (\<lambda>m.
     add_reaction E m u emoji)))"

definition route_unreact ::
    "env \<Rightarrow> user \<Rightarrow> string \<Rightarrow> string \<Rightarrow> string \<Rightarrow> string option \<Rightarrow> bool option \<Rightarrow> unit world_action" where
  "route_unreact E u target mid emoji other remove_all =
     (let all = (case remove_all of Some b \<Rightarrow> b | None \<Rightarrow> False) in
      andthen (on_db (fetch_channel target)) (\<lambda>c.
      andthen (channel_guard E u c React) (\<lambda>(p, _).
      andthen (when_do (other \<noteq> None \<or> all) (check_lacking p ManageMessages)) (\<lambda>_.
      andthen (as_message_in_channel mid (channel_id c)) (\<lambda>m.
        if all then clear_reaction m emoji
        else remove_reaction m (case other of Some i \<Rightarrow> i | None \<Rightarrow> user_id u) emoji)))))"

definition route_clear_reactions :: "env \<Rightarrow> user \<Rightarrow> string \<Rightarrow> string \<Rightarrow> unit world_action" where
  "route_clear_reactions E u target mid =
     andthen (on_db (fetch_channel target)) (\<lambda>c.
     andthen (channel_guard E u c ManageMessages) (\<lambda>_.
     andthen (as_message_in_channel mid (channel_id c)) (\<lambda>m.
     andthen (message_update E m (partial_message_default\<lparr>pg_reactions := Some []\<rparr>) []) (\<lambda>_. ret ()))))"

text \<open>The age of every message is checked before anything else.\<close>

fun recent_ids :: "env \<Rightarrow> string list \<Rightarrow> unit world_action" where
  "recent_ids E [] = ret ()"
| "recent_ids E (i # is) =
     (case env_ulid_datetime E i of
        None \<Rightarrow> throw InvalidOperation
      | Some t \<Rightarrow>
          if t > env_now E then panic
          else if env_now E - t > 7 * 24 * 3600 * 1000 then throw InvalidOperation
          else recent_ids E is)"

definition route_bulk_delete :: "env \<Rightarrow> unit result \<Rightarrow> user \<Rightarrow> string \<Rightarrow> string list \<Rightarrow> unit world_action" where
  "route_bulk_delete E validation u target ids =
     andthen (lift validation) (\<lambda>_.
     andthen (recent_ids E ids) (\<lambda>_.
     andthen (on_db (fetch_channel target)) (\<lambda>c.
     andthen (channel_guard E u c ManageMessages) (\<lambda>_.
     bulk_delete target ids))))"

definition route_message_delete :: "env \<Rightarrow> user \<Rightarrow> string \<Rightarrow> string \<Rightarrow> unit world_action" where
  "route_message_delete E u target mid =
     andthen (as_message_in_channel mid target) (\<lambda>m.
     andthen (when_do (msg_author m \<noteq> user_id u)
       (andthen (on_db (fetch_channel target)) (\<lambda>c.
        andthen (channel_guard E u c ManageMessages) (\<lambda>_. ret ())))) (\<lambda>_.
     message_delete m))"

text \<open>A direct message is not guarded by a permission.\<close>

definition pin_guard :: "env \<Rightarrow> user \<Rightarrow> channel \<Rightarrow> unit world_action" where
  "pin_guard E u c = when_do (\<not> is_direct_dm c) (andthen (channel_guard E u c ManageMessages) (\<lambda>_. ret ()))"

definition is_pinned :: "message \<Rightarrow> bool" where
  "is_pinned m = (case msg_pinned m of Some b \<Rightarrow> b | None \<Rightarrow> False)"

definition route_message_pin :: "env \<Rightarrow> string \<Rightarrow> user \<Rightarrow> string \<Rightarrow> string \<Rightarrow> unit world_action" where
  "route_message_pin E notice_id u target mid =
     andthen (on_db (fetch_channel target)) (\<lambda>c.
     andthen (pin_guard E u c) (\<lambda>_.
     andthen (as_message_in_channel mid (channel_id c)) (\<lambda>m.
       if is_pinned m then throw AlreadyPinned
       else
         andthen (message_update E m (partial_message_default\<lparr>pg_pinned := Some True\<rparr>) []) (\<lambda>m'.
         send (into_message notice_id (SysMessagePinned (msg_id m') (user_id u)) (channel_id c)) system_author c False))))"

definition route_message_unpin :: "env \<Rightarrow> string \<Rightarrow> user \<Rightarrow> string \<Rightarrow> string \<Rightarrow> unit world_action" where
  "route_message_unpin E notice_id u target mid =
     andthen (on_db (fetch_channel target)) (\<lambda>c.
     andthen (pin_guard E u c) (\<lambda>_.
     andthen (as_message_in_channel mid (channel_id c)) (\<lambda>m.
       if \<not> is_pinned m then throw NotPinned
       else
         andthen (message_update E m partial_message_default [MessagePinned]) (\<lambda>m'.
         send (into_message notice_id (SysMessageUnpinned (msg_id m') (user_id u)) (channel_id c)) system_author c False))))"

text \<open>\<open>Message::create_embed\<close>; the outcome of the validation of the embed is an argument.\<close>

definition create_embed :: "message \<Rightarrow> unit result \<times> sendable_embed \<Rightarrow> embed world_action" where
  "create_embed m = (\<lambda>(validation, emb, media_id).
     andthen (lift validation) (\<lambda>_.
     andthen (case media_id of
                Some i \<Rightarrow> andthen (on_db (use_attachment i (msg_id m) (msg_author m))) (\<lambda>f. ret (Some f))
              | None \<Rightarrow> ret None) (\<lambda>media.
     ret (EmbedText (emb\<lparr>emb_media := media\<rparr>)))))"

fun create_embeds :: "message \<Rightarrow> (unit result \<times> sendable_embed) list \<Rightarrow> embed list world_action" where
  "create_embeds m [] = ret []"
| "create_embeds m (e # es) = andthen (create_embed m e) (\<lambda>x. andthen (create_embeds m es) (\<lambda>xs. ret (x # xs)))"

fun is_text_embed :: "embed \<Rightarrow> bool" where
  "is_text_embed (EmbedText _) = True"
| "is_text_embed (EmbedOther _) = False"

definition route_message_edit ::
    "env \<Rightarrow> unit result \<Rightarrow> user \<Rightarrow> string \<Rightarrow> string \<Rightarrow> string option \<Rightarrow> (unit result \<times> sendable_embed) list option \<Rightarrow> message world_action" where
  "route_message_edit E validation u target mid content embeds =
     andthen (lift validation) (\<lambda>_.
     andthen (user_limits E u) (\<lambda>limits.
     andthen (lift (validate_sum content (map (\<lambda>(_, e, _). emb_description e) (or_empty embeds)) (message_length limits))) (\<lambda>_.
     andthen (on_db (fetch_channel target)) (\<lambda>c.
     andthen (channel_guard E u c SendMessage) (\<lambda>(p, _).
     andthen (as_message_in_channel mid (channel_id c)) (\<lambda>m.
       if msg_author m \<noteq> user_id u then throw CannotEditMessage
       else
         let m = m\<lparr>msg_edited := Some (env_now E)\<rparr> in
         andthen (case embeds of
                    Some es \<Rightarrow> andthen (check_lacking p SendEmbeds) (\<lambda>_. create_embeds m es)
                  | None \<Rightarrow> ret (filter is_text_embed (or_empty (msg_embeds m)))) (\<lambda>new_embeds.
         andthen (message_update E m (partial_message_default\<lparr>pg_edited := Some (env_now E), pg_content := content,
           pg_embeds := Some new_embeds\<rparr>) []) (\<lambda>m'.
         andthen (case content of
                    Some text \<Rightarrow>
                      when_do (has_channel_permission p SendEmbeds) (queue_task (TaskProcessEmbeds (msg_channel m') (msg_id m') text))
                  | None \<Rightarrow> ret ()) (\<lambda>_.
         ret m')))))))))"

end
