(* ===== verification/Message_Safety.thy ===== *)
theory Message_Safety
  imports Messaging
begin

text \<open>
  What the routes on messages guarantee: who may send, whom a message mentions, that a nonce is used once, who may delete, and
  where the guards fail.
\<close>

section \<open>Which steps leave the database alone\<close>

lemma db_kept_gets [simp]: "db_kept (gets f)"
  by (simp add: db_kept_def gets_def)

lemma db_kept_if: "db_kept m \<Longrightarrow> db_kept n \<Longrightarrow> db_kept (if b then m else n)"
  by simp

lemma db_kept_option: "(\<And>x. db_kept (f x)) \<Longrightarrow> db_kept n \<Longrightarrow> db_kept (case y of Some x \<Rightarrow> f x | None \<Rightarrow> n)"
  by (simp split: option.split)

lemmas db_kept_rules = db_kept_andthen db_kept_if db_kept_option db_kept_attempt db_kept_map_err

lemma db_kept_fetches [simp]:
  "db_kept (on_db (fetch_server i))"
  "db_kept (on_db (fetch_emoji i))" "db_kept (on_db (fetch_message i))" "db_kept (on_db (fetch_members sid ids))"
  by (simp_all add: db_kept_def on_db_def fetch_server_def servers.fetch fetch_emoji_def emojis.fetch fetch_message_def messages.fetch fetch_members_def gets_def)

lemma db_kept_outcome: "db_kept m \<Longrightarrow> db_kept (outcome_of m)"
  by (simp add: db_kept_def outcome_of_def split: prod.split outcome.split) (metis snd_conv)

lemma db_kept_expect: "db_kept m \<Longrightarrow> db_kept (expect m)"
  by (simp add: db_kept_def expect_def split: prod.split outcome.split) (metis snd_conv)

lemma db_kept_nonce [simp]: "db_kept (consume_nonce key v)" "db_kept (remember_key k)"
proof -
  have "db_kept (modify (nonce_cache_update f))" for f by (simp add: db_kept_def modify_def)
  then show remember: "db_kept (remember_key k)" for k unfolding remember_key_def by (auto intro!: db_kept_rules)
  show "db_kept (consume_nonce key v)" unfolding consume_nonce_def by (auto intro!: db_kept_rules simp: remember)
qed

lemma db_kept_replies [simp]: "db_kept (collect_replies allowed rs mentioned replies)" "db_kept (check_replies E allowed entries mentioned)"
proof -
  show *: "db_kept (collect_replies allowed rs mentioned replies)" for rs mentioned replies
  proof (induction rs arbitrary: mentioned replies)
    case (Cons r rs)
    have "db_kept (outcome_of (on_db (fetch_message (reply_to r))))" by (simp add: db_kept_outcome)
    moreover have "db_kept (case found of
         Inr m \<Rightarrow>
           collect_replies allowed rs
             (if reply_mention r \<and> allowed then insert (msg_author m) mentioned else mentioned)
             (if msg_id m \<in> set replies then replies else replies @ [msg_id m])
       | Inl e \<Rightarrow>
           if e \<noteq> NotFound \<or> (case reply_fail_if_not_exists r of Some b \<Rightarrow> b | None \<Rightarrow> True) then throw e
           else collect_replies allowed rs mentioned replies)" for found :: "error_type + message"
      using Cons.IH by (cases found) (simp_all)
    ultimately show ?case unfolding collect_replies.simps by (rule db_kept_andthen)
  qed simp
  show "db_kept (check_replies E allowed entries mentioned)" unfolding check_replies_def by (simp add: * split: option.split)
qed

lemma db_kept_mass [simp]: "db_kept (known_roles c allowed roles)" "db_kept (check_mass_mentions E author c x)"
proof -
  show "db_kept (known_roles c allowed roles)" unfolding known_roles_def by (intro db_kept_rules db_kept_expect) simp_all
  show "db_kept (check_mass_mentions E author c x)"
    unfolding check_mass_mentions_def by (cases author; cases x) (auto intro!: db_kept_rules)
qed

lemma db_kept_bulk_visible [simp]: "db_kept (bulk_visible E c sid ms)"
  by (simp add: db_kept_def bulk_visible_def Let_def split: outcome.split)

lemma db_kept_user_mentions [simp]: "db_kept (check_user_mentions E c mentioned roles)"
  unfolding check_user_mentions_def Let_def by (cases c) (auto intro!: db_kept_rules)

lemma db_kept_resolve [simp]: "db_kept (resolve_mentions E c data author allowed fe fo)"
  unfolding resolve_mentions_def Let_def by (auto intro!: db_kept_andthen)

lemma db_kept_usable [simp]: "db_kept (all_usable E xs)"
  by (induction xs) (auto intro!: db_kept_andthen simp: emoji_can_use_def)

lemma db_kept_interactions [simp]: "db_kept (interactions_validate E p i)"
  unfolding interactions_validate_def by (auto intro!: db_kept_andthen split: option.split)

lemma db_kept_slowmode [simp]: "db_kept (slowmode_check E u c p)"
proof -
  have "db_kept (modify (redis_update (\<lambda>_. s)))" for s by (simp add: db_kept_def modify_def)
  then show ?thesis
    unfolding slowmode_check_def Let_def
    by (auto intro!: db_kept_andthen split: channel.split option.split)
qed

lemma db_kept_send_checks [simp]: "db_kept (send_checks p data)"
  unfolding send_checks_def by (intro db_kept_andthen) (auto intro!: db_kept_andthen split: option.split)

lemma db_kept_allowed [simp]: "db_kept (mentions_allowed E u s)" "db_kept (user_limits E u)"
  by (auto simp: mentions_allowed_def user_limits_def split: option.split)

section \<open>Whom a message mentions\<close>

text \<open>Users, members and servers are stored under their own ids, which the operations that insert them provide for.\<close>

definition keyed_by_id :: "world \<Rightarrow> bool" where
  "keyed_by_id w \<longleftrightarrow> users_wf (db w) \<and> memberships_wf (db w) \<and> (\<forall>i s. map_of (db_servers (db w)) i = Some s \<longrightarrow> server_id s = i)"

lemma lookup_all_values: "lookup_all t e ks = Ok vs \<Longrightarrow> map Some vs = map (map_of t) ks"
proof (induction ks arbitrary: vs)
  case (Cons k ks)
  from Cons.prems obtain v vs' where "map_of t k = Some v" "lookup_all t e ks = Ok vs'" "vs = v # vs'"
    by (cases "lookup_all t e ks") (auto split: option.splits)
  with Cons.IH show ?case by simp
qed simp

lemma map_of_fold_key:
  assumes "map_of (map (\<lambda>(k, p). (k, g p)) (fold (\<lambda>u resp. AList.update (f u) (h u) resp) us [])) x = Some y" and "distinct (map f us)"
  obtains u where "u \<in> set us" and "f u = x"
proof -
  from assms have "find (\<lambda>u. f u = x) us \<noteq> None"
    by (auto simp: map_of_map map_of_fold_update [OF assms(2)] split: option.splits)
  then obtain u where "u \<in> set us" "f u = x" by (auto simp: find_None_iff)
  with that show ?thesis by blast
qed

abbreviation found_members :: "ref_db \<Rightarrow> string \<Rightarrow> string list \<Rightarrow> member list" where
  "found_members d sid ids \<equiv> List.map_filter (\<lambda>i. map_of (db_server_members d) \<lparr>key_server = sid, key_user = i\<rparr>) ids"

lemma found_member:
  assumes "memberships_wf d" and "m \<in> set (found_members d sid ids)"
  shows "key_user (member_id m) \<in> set ids" and "map_of (db_server_members d) \<lparr>key_server = sid, key_user = key_user (member_id m)\<rparr> = Some m"
proof -
  from assms(2) obtain i where i: "i \<in> set ids" "map_of (db_server_members d) \<lparr>key_server = sid, key_user = i\<rparr> = Some m"
    by (auto simp: List.map_filter_def)
  with assms(1) have "key_user (member_id m) = i" unfolding memberships_wf_def by (metis member_composite_key.select_convs(2))
  with i show "key_user (member_id m) \<in> set ids" "map_of (db_server_members d) \<lparr>key_server = sid, key_user = key_user (member_id m)\<rparr> = Some m"
    by simp_all
qed

lemma found_members_distinct:
  "memberships_wf d \<Longrightarrow> distinct ids \<Longrightarrow> distinct (map (\<lambda>m. key_user (member_id m)) (found_members d sid ids))"
proof (induction ids)
  case (Cons i ids)
  show ?case
  proof (cases "map_of (db_server_members d) \<lparr>key_server = sid, key_user = i\<rparr>")
    case (Some m)
    then have "key_user (member_id m) = i" using Cons.prems(1) unfolding memberships_wf_def by (metis member_composite_key.select_convs(2))
    with Some Cons found_member(1) [OF Cons.prems(1)] show ?thesis by (fastforce simp: map_filter_simps)
  qed (use Cons in \<open>simp add: map_filter_simps\<close>)
qed (simp add: map_filter_simps)

lemma members_by_user_lookup:
  "distinct (map (\<lambda>m. key_user (member_id m)) ms) \<Longrightarrow> m \<in> set ms \<Longrightarrow> members_by_user ms (key_user (member_id m)) = Some m"
  by (simp add: members_by_user_def map_of_eq_Some_iff rev_map [symmetric] comp_def)

text \<open>Who the bulk query says can see a channel is a stored user who may view it.\<close>

lemma bulk_visible_may_view:
  assumes "keyed_by_id w" and "distinct ids"
    and ms: "ms = found_members (db w) (txt_server t) ids"
    and run: "bulk_visible E (TextChannel cid t) (txt_server t) ms w = (Ok sees, w')" and x: "map_of sees x = Some True"
  shows "\<exists>y. map_of (db_users (db w)) x = Some y \<and> may E w y (TextChannel cid t) ViewChannel"
proof -
  let ?D = "reads_of (env_now E) (db w)"
  from run obtain s where s: "map_of (db_servers (db w)) (txt_server t) = Some s"
    by (auto simp: bulk_visible_def bulk_from_server_id_def Let_def split: option.splits)
  let ?q = "bulk_members ms (bulk_channel (TextChannel cid t) (new_bulk s))"
  from run s have run': "fst (members_can_see_channel ?D ?q) = Ok sees"
    by (auto simp: bulk_visible_def bulk_from_server_id_def Let_def)
  obtain us where us: "rd_fetch_users ?D (map (\<lambda>m. key_user (member_id m)) ms) = Ok us"
    using run' by (cases "rd_fetch_users ?D (map (\<lambda>m. key_user (member_id m)) ms)")
      (simp_all add: members_can_see_channel_def calculate_members_permissions_def load_users_def bulk_members_def bulk_channel_def
        new_bulk_def andthen_def)
  let ?v = "\<lambda>u. bulk_user_permissions (rd_now ?D) s t (members_by_user ms) u"
  have sees: "sees = map (\<lambda>(k, p). (k, has_channel_permission p ViewChannel)) (fold (\<lambda>u resp. AList.update (user_id u) (?v u) resp) us [])"
    using run' us by (simp add: members_can_see_channel_def calculate_members_permissions_def load_users_def load_members_def bulk_members_def
        bulk_channel_def new_bulk_def andthen_def ret_def)
  have wf: "users_wf (db w)" "memberships_wf (db w)" "server_id s = txt_server t" using assms(1) s by (auto simp: keyed_by_id_def)
  have found: "map Some us = map (\<lambda>m. map_of (db_users (db w)) (key_user (member_id m))) ms"
    using us lookup_all_values [of "db_users (db w)" NotFound "map (\<lambda>m. key_user (member_id m)) ms" us]
    by (simp add: reads_of_def fetch_users_def lift_def andthen_def gets_def comp_def)
  then have ids: "map user_id us = map (\<lambda>m. key_user (member_id m)) ms"
    using wf(1) by (induction us arbitrary: ms) (auto simp: users_wf_def Cons_eq_map_conv)
  have distinct: "distinct (map (\<lambda>m. key_user (member_id m)) ms)" unfolding ms by (rule found_members_distinct [OF wf(2) assms(2)])
  then have distinct': "distinct (map user_id us)" unfolding ids .
  from x distinct' obtain u where u: "u \<in> set us" "user_id u = x" unfolding sees by (rule map_of_fold_key)
  have "x \<in> set (map (\<lambda>m. key_user (member_id m)) ms)" using u unfolding ids [symmetric] by auto
  then obtain m where m: "m \<in> set ms" "key_user (member_id m) = x" by auto
  have "Some u \<in> set (map Some us)" using u(1) by simp
  then have stored: "map_of (db_users (db w)) x = Some u" unfolding found using wf(1) u(2) by (auto simp: users_wf_def)
  have "members_by_user ms (user_id u) = Some m" using members_by_user_lookup [OF distinct m(1)] m(2) u(2) by simp
  moreover have "rd_fetch_member ?D (server_id s) (user_id u) = Ok m"
    using found_member(2) [OF wf(2) m(1) [unfolded ms]] m(2) u(2) wf(3) by simp
  moreover have "rd_fetch_server ?D (txt_server t) = Ok s" by (simp add: s)
  moreover have "\<forall>sid. rd_fetch_member ?D sid (user_id u) \<noteq> Panic" "\<forall>sid. rd_fetch_server ?D sid \<noteq> Panic" by (simp_all split: option.split)
  ultimately obtain p where p: "fst (calculate_channel_permissions (db_query ?D) (channel_query u (TextChannel cid t))) = Ok p"
      "has_channel_permission (?v u) ViewChannel = has_channel_permission p ViewChannel"
    by (rule bulk_user_view [THEN exE]) blast
  moreover have "has_channel_permission (?v u) ViewChannel" using x bulk_lookup [OF distinct' u(1), of ?v] unfolding sees u(2) by simp
  ultimately show ?thesis using stored
    by (cases "calculate_channel_permissions (db_query ?D) (channel_query u (TextChannel cid t))") (auto simp: may_def channel_permissions_def)
qed

text \<open>Who a mention in a channel may reach: in a channel of a server the users who may view it, in a direct message or a group the
  recipients, and nobody in the saved messages.\<close>

definition reaches :: "env \<Rightarrow> world \<Rightarrow> channel \<Rightarrow> string \<Rightarrow> bool" where
  "reaches E w c x =
     (case c of
        TextChannel _ _ \<Rightarrow> \<exists>y. map_of (db_users (db w)) x = Some y \<and> may E w y c ViewChannel
      | DirectMessage _ _ recipients _ \<Rightarrow> x \<in> set recipients
      | Group _ g \<Rightarrow> x \<in> set (grp_recipients g)
      | SavedMessages _ _ \<Rightarrow> False)"

lemma db_kept_state: "db_kept m \<Longrightarrow> m w = (r, w') \<Longrightarrow> db w' = db w"
  unfolding db_kept_def by (metis snd_conv)

lemma may_db: "db w' = db w \<Longrightarrow> may E w' y c perm = may E w y c perm"
  by (simp add: may_def channel_permissions_def split: prod.split outcome.split)

lemma reaches_db: "db w' = db w \<Longrightarrow> reaches E w' c x = reaches E w c x"
  using may_db [of w' w E] by (simp add: reaches_def split: channel.split)

lemma keyed_db: "db w' = db w \<Longrightarrow> keyed_by_id w' = keyed_by_id w"
  by (simp add: keyed_by_id_def)

lemma check_user_mentions_reach:
  assumes "keyed_by_id w" and "iteration_laws (env_iteration E)" and "finite mentioned"
    and "check_user_mentions E c mentioned roles w = (Ok (users, roles'), w')"
  shows "finite users" and "x \<in> users \<Longrightarrow> reaches E w c x"
proof -
  have "users \<subseteq> mentioned \<and> (\<forall>x \<in> users. reaches E w c x)"
  proof (cases "mentioned = {}")
    case True
    with assms(4) show ?thesis by (simp add: check_user_mentions_def ret_def)
  next
    case False
    show ?thesis
    proof (cases c)
      case (TextChannel cid t)
      let ?ids = "env_iteration E mentioned"
      let ?ms = "found_members (db w) (txt_server t) ?ids"
      let ?valid = "{u \<in> mentioned. u \<in> set (map (\<lambda>m. key_user (member_id m)) ?ms)}"
      have distinct: "distinct ?ids" using iteration_laws.order_distinct [OF assms(2,3)] .
      have run: "(if ?valid = {} then ret (?valid, roles)
          else andthen (bulk_visible E (TextChannel cid t) (txt_server t) ?ms)
            (\<lambda>sees. ret ({u \<in> ?valid. map_of sees u = Some True}, roles))) w = (Ok (users, roles'), w')"
        using assms(4) unfolding check_user_mentions_def if_not_P [OF False] TextChannel fetch_members_def
        by (simp only: channel.case on_db_gets attempt_gets andthen_gets option.case Let_def)
      show ?thesis
      proof (cases "?valid = {}")
        case True
        with run have "users = {}" unfolding if_P [OF True] by (simp only: ret_def prod.inject outcome.inject)
        then show ?thesis by simp
      next
        case False
        show ?thesis
        proof (rule andthen_OkE [OF run [unfolded if_not_P [OF False]]])
          fix sees w1 assume 1: "bulk_visible E (TextChannel cid t) (txt_server t) ?ms w = (Ok sees, w1)"
            and 2: "ret ({u \<in> ?valid. map_of sees u = Some True}, roles) w1 = (Ok (users, roles'), w')"
          from 2 have "users = {u \<in> ?valid. map_of sees u = Some True}" by (simp add: ret_def)
          with bulk_visible_may_view [OF assms(1) distinct refl 1] show ?thesis by (auto simp: reaches_def TextChannel)
        qed
      qed
    qed (use assms(4) False in \<open>auto simp: check_user_mentions_def ret_def reaches_def\<close>)
  qed
  with assms(3) show "finite users" "x \<in> users \<Longrightarrow> reaches E w c x" by (auto intro: finite_subset)
qed

lemma finite_parsed [simp]: "finite (user_mentions (parse_message lexer text))"
proof -
  have "finite (user_mentions r) \<Longrightarrow> finite (user_mentions (fold add_token ts r))" for ts r
  proof (induction ts arbitrary: r)
    case (Cons t ts)
    have "finite (user_mentions (add_token t r))" using Cons.prems by (cases t) simp_all
    with Cons.IH show ?case by simp
  qed simp
  then show ?thesis by (simp add: parse_message_def message_results_default_def)
qed

lemma finite_replies:
  "collect_replies allowed rs mentioned replies w = (Ok (mentioned', replies'), w') \<Longrightarrow> finite mentioned \<Longrightarrow> finite mentioned'"
proof (induction rs arbitrary: mentioned replies w)
  case (Cons r rs)
  show ?case
  proof (rule andthen_OkE [OF Cons.prems(1) [unfolded collect_replies.simps]])
    fix found s'
    assume rest: "(case found of
         Inr m \<Rightarrow> collect_replies allowed rs
             (if reply_mention r \<and> allowed then insert (msg_author m) mentioned else mentioned)
             (if msg_id m \<in> set replies then replies else replies @ [msg_id m])
       | Inl e \<Rightarrow>
           if e \<noteq> NotFound \<or> (case reply_fail_if_not_exists r of Some b \<Rightarrow> b | None \<Rightarrow> True) then throw e
           else collect_replies allowed rs mentioned replies) s' = (Ok (mentioned', replies'), w')"
    show "finite mentioned'"
    proof (cases found)
      case (Inr m)
      show ?thesis by (rule Cons.IH [OF rest [unfolded Inr sum.case]]) (simp add: Cons.prems(2))
    next
      case (Inl e)
      with rest Cons.prems(2) show ?thesis by (auto simp: throw_def dest: Cons.IH split: if_splits)
    qed
  qed
qed (simp add: ret_def)

lemma resolve_mentions_reach:
  assumes "keyed_by_id w" and "iteration_laws (env_iteration E)"
    and "resolve_mentions E c data author allowed fe fo w = (Ok (mentioned, rest), w')"
  shows "finite mentioned" and "x \<in> mentioned \<Longrightarrow> reaches E w c x"
proof -
  let ?parsed = "case dms_content data of Some text \<Rightarrow> parse_message (env_lexer E) text | None \<Rightarrow> message_results_default"
  from assms(3) obtain r1 w1 r2 w2 users replies w3 roles roles' where
    1: "known_roles c (allowed \<and> env_mass_mentions E) (role_mentions ?parsed) w = (Ok r1, w1)"
    and 2: "check_mass_mentions E author c (mentions_everyone ?parsed \<or> fe, mentions_online ?parsed \<or> fo, r1) w1 = (Ok r2, w2)"
    and 3: "check_replies E allowed (dms_replies data) (user_mentions ?parsed) w2 = (Ok (users, replies), w3)"
    and 4: "check_user_mentions E c users roles w3 = (Ok (mentioned, roles'), w')"
    unfolding resolve_mentions_def Let_def by (auto elim!: andthen_OkE simp: ret_def)
  have "db w1 = db w" "db w2 = db w1" "db w3 = db w2"
    by (rule db_kept_state [of "known_roles _ _ _"] db_kept_state [of "check_mass_mentions _ _ _ _"] db_kept_state [of "check_replies _ _ _ _"],
        simp, fact)+
  then have db: "db w3 = db w" by simp
  have "finite (user_mentions ?parsed)" by (simp add: message_results_default_def split: option.split)
  with 3 have "finite users" by (auto simp: check_replies_def ret_def throw_def split: option.splits if_splits intro: finite_replies)
  from check_user_mentions_reach [OF _ assms(2) this 4] assms(1) show "finite mentioned" "x \<in> mentioned \<Longrightarrow> reaches E w c x"
    by (auto simp: keyed_db [OF db] reaches_db [OF db])
qed

section \<open>What a request to send makes\<close>

abbreviation stored_messages :: "world \<Rightarrow> (string, message) hashmap" where
  "stored_messages w \<equiv> db_messages (db w)"

lemma messages_use_attachment [simp]: "unchanged stored_messages (on_db (use_attachment i a b))"
  by (auto simp: unchanged_def on_db_def use_attachment_def find_and_use_attachment_def Let_def andthen_def gets_def throw_def modify_def ret_def
      split: option.split prod.split outcome.split)

lemma messages_use_attachments [simp]: "unchanged stored_messages (use_attachments ids a b)"
  by (induction ids) (auto intro!: unchanged_andthen)

lemma messages_attach_embed [simp]: "unchanged stored_messages (attach_sendable_embed m e i)"
  unfolding attach_sendable_embed_def Let_def by (intro unchanged_andthen) (auto intro!: unchanged_andthen split: option.split)

lemma messages_attach_embeds [simp]: "unchanged stored_messages (attach_embeds m es)"
  by (induction m es rule: attach_embeds.induct) (auto intro!: unchanged_andthen)

lemma attach_embeds_Ok:
  "attach_embeds m es w = (Ok m', w') \<Longrightarrow> \<exists>embeds. m' = m\<lparr>msg_embeds := embeds\<rparr>"
proof (induction m es arbitrary: w rule: attach_embeds.induct)
  case (1 m)
  then show ?case by (intro exI [of _ "msg_embeds m"]) (simp add: ret_def)
next
  case (2 m e media es)
  from "2.prems" obtain m1 w1 where m1: "attach_sendable_embed m e media w = (Ok m1, w1)" "attach_embeds m1 es w1 = (Ok m', w')"
    by (auto elim!: andthen_OkE)
  from m1(1) have "\<exists>embeds. m1 = m\<lparr>msg_embeds := embeds\<rparr>"
    unfolding attach_sendable_embed_def Let_def by (auto elim!: andthen_OkE simp: ret_def split: option.splits)
  with "2.IH" [OF m1(2)] show ?case by auto
qed

text \<open>A request that succeeds has resolved its mentions on the database it found, and sends one message made from its data.\<close>

lemma create_from_api_OkE:
  assumes "create_from_api E i c data author um limits key generate_embeds allowed w = (Ok m, w')"
  obtains w1 w2 w3 fe fo mentioned rest
  where "db w1 = db w" and "resolve_mentions E c data author allowed fe fo w1 = (Ok (mentioned, rest), w2)"
    and "msg_mentions m = some_unless_empty (env_iteration E mentioned)" and "msg_id m = i" and "msg_channel m = channel_id c"
    and "msg_author m = author_id author" and "msg_content m = dms_content data" and "msg_masquerade m = dms_masquerade data"
    and "stored_messages w3 = stored_messages w" and "send m (author_id author) c generate_embeds w3 = (Ok (), w')"
proof -
  from assms obtain key' w1 fe fo mentioned roles replies everyone online w2 files w4 flags m1 w3 where
    1: "map_err InvalidOperation (consume_nonce key (dms_nonce data)) w = (Ok key', w1)"
    and 2: "resolve_mentions E c data author allowed fe fo w1 = (Ok (mentioned, roles, replies, everyone, online), w2)"
    and 3: "use_attachments (or_empty (dms_attachments data)) i (author_id author) w2 = (Ok files, w4)"
    and 4: "attach_embeds ((message_skeleton i c data author)\<lparr>msg_mentions := some_unless_empty (env_iteration E mentioned),
         msg_role_mentions := some_unless_empty (env_iteration E roles), msg_replies := some_unless_empty replies, msg_flags := flags,
         msg_attachments := some_unless_empty files\<rparr>) (or_empty (dms_embeds data)) w4 = (Ok m1, w3)"
    and m: "m = m1\<lparr>msg_content := dms_content data, msg_nonce := Some key'\<rparr>"
    and 5: "send m (author_id author) c generate_embeds w3 = (Ok (), w')"
    unfolding create_from_api_def Let_def
    by (auto simp: lift_def throw_def ret_def elim!: andthen_OkE split: if_splits)
  have "db_kept (map_err InvalidOperation (consume_nonce key (dms_nonce data)))" by (simp add: db_kept_map_err)
  from db_kept_state [OF this 1] have db1: "db w1 = db w" .
  moreover have "db w2 = db w1" by (rule db_kept_state [OF db_kept_resolve 2])
  moreover have "stored_messages w4 = stored_messages w2" "stored_messages w3 = stored_messages w4"
    using unchangedD [OF messages_use_attachments 3] unchangedD [OF messages_attach_embeds 4] by simp_all
  ultimately have "stored_messages w3 = stored_messages w" by simp
  then show ?thesis
    using that [OF db1 2 _ _ _ _ _ _ _ 5] attach_embeds_Ok [OF 4] m by (auto simp: message_skeleton_def)
qed

lemma send_stores:
  assumes "send m a c generate_embeds w = (Ok (), w')"
  shows "map_of (stored_messages w) (msg_id m) = None" and "map_of (stored_messages w') = (map_of (stored_messages w))(msg_id m \<mapsto> m)"
proof -
  let ?rest = "\<lambda>_. andthen (publish (MessageCreate m) (msg_channel m)) (\<lambda>_.
     andthen (queue_task (TaskLastMessageId (msg_channel m) (msg_id m) (is_direct_dm c))) (\<lambda>_.
     andthen (case msg_mentions m of
                Some us \<Rightarrow>
                  if \<not> True then queue_task (TaskAckMessage (msg_channel m) m us False (has_suppressed_notifications m)) else ret ()
              | None \<Rightarrow> ret ()) (\<lambda>_.
     andthen (case msg_content m of
        Some content \<Rightarrow> if generate_embeds then queue_task (TaskProcessEmbeds (msg_channel m) (msg_id m) content) else ret ()
      | None \<Rightarrow> ret ()) (\<lambda>_.
     if \<not> has_suppressed_notifications m \<and> (is_dm_or_group c \<or> msg_mentions m \<noteq> None \<or> contains_mass_push_mention m)
     then queue_task (TaskAckMessage (msg_channel m) m (push_recipients c a m) True False) else ret ()))))"
  have "db_kept (queue_task t)" for t by (simp add: db_kept_def queue_task_def modify_def)
  then have kept: "db_kept (?rest x)" for x by (auto intro!: db_kept_rules)
  from assms have "andthen (on_db (insert_message m)) ?rest w = (Ok (), w')"
    unfolding send_def send_without_notifications_def by (simp only: andthen_assoc)
  then obtain w1 where w1: "on_db (insert_message m) w = (Ok (), w1)" "?rest () w1 = (Ok (), w')" by (rule andthen_OkE) simp
  from db_kept_state [OF kept w1(2)] have "db w' = db w1" .
  with w1(1) show "map_of (stored_messages w) (msg_id m) = None" "map_of (stored_messages w') = (map_of (stored_messages w))(msg_id m \<mapsto> m)"
    by (auto simp: on_db_def insert_message_def table_insert_def throw_def modify_def hm_lookup_update hm_contains_def andthen_def gets_def
        split: if_splits option.splits)
qed

lemma andthen_check:
  "andthen (check_lacking p perm) f w =
     (if has_channel_permission p perm then f () w else (Err (MissingPermission (channel_permission_to_string perm)), w))"
  by (simp add: check_lacking_def andthen_lift throw_if_lacking_channel_permission_def)

lemma andthen_when: "andthen (when_do b m) f w = (if b then andthen m f w else f () w)"
  by (cases b) simp_all

lemma check_last: "check_lacking p perm = andthen (check_lacking p perm) ret"
  by (rule ext) (simp add: andthen_def ret_def split: prod.split outcome.split)

lemma send_checks_Ok:
  assumes "send_checks p data w = (Ok (), w')"
  shows "has_channel_permission p SendMessage"
    and "dms_masquerade data = Some masq \<Longrightarrow> has_channel_permission p Masquerade \<and> (masq_colour masq \<noteq> None \<longrightarrow> has_channel_permission p ManageRole)"
    and "or_empty (dms_embeds data) \<noteq> [] \<Longrightarrow> has_channel_permission p SendEmbeds"
    and "or_empty (dms_attachments data) \<noteq> [] \<Longrightarrow> has_channel_permission p UploadFiles"
    and "w' = w"
proof -
  have last: "when_do b (check_lacking p perm) w'' = (if b \<and> \<not> has_channel_permission p perm
      then (Err (MissingPermission (channel_permission_to_string perm)), w'') else (Ok (), w''))" for b perm w''
    using andthen_check [of p perm ret w''] by (cases b) (auto simp: check_last [symmetric] ret_def)
  let ?tail = "andthen (when_do (or_empty (dms_embeds data) \<noteq> []) (check_lacking p SendEmbeds))
     (\<lambda>_. when_do (or_empty (dms_attachments data) \<noteq> []) (check_lacking p UploadFiles))"
  have tail: "?tail w'' = (Ok (), w3) \<Longrightarrow> (or_empty (dms_embeds data) \<noteq> [] \<longrightarrow> has_channel_permission p SendEmbeds)
      \<and> (or_empty (dms_attachments data) \<noteq> [] \<longrightarrow> has_channel_permission p UploadFiles) \<and> w3 = w''" for w'' w3
    by (simp only: andthen_when andthen_check last split: if_splits) auto
  have sends: "has_channel_permission p SendMessage" and masq: "andthen (case dms_masquerade data of
                Some masq \<Rightarrow> andthen (check_lacking p Masquerade) (\<lambda>_. when_do (masq_colour masq \<noteq> None) (check_lacking p ManageRole))
              | None \<Rightarrow> ret ()) (\<lambda>_. ?tail) w = (Ok (), w')"
    using assms unfolding send_checks_def andthen_check by (auto split: if_splits)
  from masq have "(dms_masquerade data = Some masq \<longrightarrow> has_channel_permission p Masquerade
      \<and> (masq_colour masq \<noteq> None \<longrightarrow> has_channel_permission p ManageRole)) \<and> ?tail w = (Ok (), w')"
    by (cases "dms_masquerade data") (simp_all only: option.case andthen_ret andthen_assoc andthen_check andthen_when split: if_splits, auto)
  with sends tail show "has_channel_permission p SendMessage"
    and "dms_masquerade data = Some masq \<Longrightarrow> has_channel_permission p Masquerade \<and> (masq_colour masq \<noteq> None \<longrightarrow> has_channel_permission p ManageRole)"
    and "or_empty (dms_embeds data) \<noteq> [] \<Longrightarrow> has_channel_permission p SendEmbeds"
    and "or_empty (dms_attachments data) \<noteq> [] \<Longrightarrow> has_channel_permission p UploadFiles"
    and "w' = w" by blast+
qed

lemma route_message_send_OkE:
  assumes "route_message_send E v i key u target data w = (Ok m, w')"
  obtains c p q w1 limits allowed
  where "map_of (stored_channels w) target = Some c" and "channel_permissions E (channel_query u c) w = (Ok (p, q), w)"
    and "send_checks p data w = (Ok (), w)" and "db w1 = db w"
    and "create_from_api E i c data (AuthorUser u) (Some u) limits key (has_channel_permission p SendEmbeds) allowed w1 = (Ok m, w')"
proof -
  from assms obtain c where c: "map_of (stored_channels w) target = Some c"
    and 1: "andthen (channel_permissions E (channel_query u c)) (\<lambda>(p, q).
     andthen (send_checks p data) (\<lambda>_.
     andthen (slowmode_check E u c p) (\<lambda>_.
     andthen (case dms_interactions data of Some i \<Rightarrow> interactions_validate E p i | None \<Rightarrow> ret ()) (\<lambda>_.
     andthen (mentions_allowed E u (pq_server q)) (\<lambda>allow_mentions.
     andthen (user_limits E u) (\<lambda>limits.
     create_from_api E i c data (AuthorUser u) (Some u) limits key (has_channel_permission p SendEmbeds) allow_mentions)))))) w = (Ok m, w')"
    unfolding route_message_send_def by (auto simp: andthen_lift andthen_fetch_channel split: outcome.splits option.splits)
  from 1 obtain p q w0 where p: "channel_permissions E (channel_query u c) w = (Ok (p, q), w0)"
    and 2: "andthen (send_checks p data) (\<lambda>_.
     andthen (slowmode_check E u c p) (\<lambda>_.
     andthen (case dms_interactions data of Some i \<Rightarrow> interactions_validate E p i | None \<Rightarrow> ret ()) (\<lambda>_.
     andthen (mentions_allowed E u (pq_server q)) (\<lambda>allow_mentions.
     andthen (user_limits E u) (\<lambda>limits.
     create_from_api E i c data (AuthorUser u) (Some u) limits key (has_channel_permission p SendEmbeds) allow_mentions))))) w0 = (Ok m, w')"
    by (rule andthen_OkE) (auto split: prod.splits)
  have w0: "w0 = w" using channel_permissions_state [OF p] .
  from 2 obtain w1 w2 w3 w4 w5 allowed limits where send: "send_checks p data w0 = (Ok (), w1)"
    and slow: "slowmode_check E u c p w1 = (Ok (), w2)"
    and inter: "(case dms_interactions data of Some i \<Rightarrow> interactions_validate E p i | None \<Rightarrow> ret ()) w2 = (Ok (), w3)"
    and allow: "mentions_allowed E u (pq_server q) w3 = (Ok allowed, w4)" and limits: "user_limits E u w4 = (Ok limits, w5)"
    and create: "create_from_api E i c data (AuthorUser u) (Some u) limits key (has_channel_permission p SendEmbeds) allowed w5 = (Ok m, w')"
    by (auto elim!: andthen_OkE)
  have "db_kept (case dms_interactions data of Some i \<Rightarrow> interactions_validate E p i | None \<Rightarrow> ret ())" by (simp add: db_kept_option)
  from db_kept_state [OF this inter] db_kept_state [OF db_kept_slowmode slow] db_kept_state [OF db_kept_allowed(1) allow]
    db_kept_state [OF db_kept_allowed(2) limits] send_checks_Ok(5) [OF send] w0
  have "db w5 = db w" "w1 = w" by simp_all
  with that c p send create w0 show ?thesis by blast
qed

section \<open>A text sent to a group by its owner\<close>

definition text_request :: "string \<Rightarrow> data_message_send" where
  "text_request text = \<lparr>dms_nonce = None, dms_content = Some text, dms_attachments = None, dms_replies = None, dms_embeds = None,
     dms_masquerade = None, dms_interactions = None, dms_flags = None\<rparr>"

lemma group_owner_permissions:
  assumes "grp_owner g = user_id u"
  shows "\<exists>q. channel_permissions E (channel_query u (Group cid g)) w = (Ok (channel_permission_bits GrantAllSafe, q), w) \<and> pq_server q = None"
  using assms
  by (cases "privileged u")
    (simp_all add: channel_permissions_def calculate_channel_permissions_def or_else_def db_query_def query_defs query_build
      andthen_def gets_def ret_def)

lemma grants_all:
  "has_channel_permission (channel_permission_bits GrantAllSafe) SendMessage"
  "has_channel_permission (channel_permission_bits GrantAllSafe) SendEmbeds"
  "has_channel_permission (channel_permission_bits GrantAllSafe) Permissions.MentionEveryone"
  by (simp_all add: has_channel_permission_def pv_has_def)

definition group_message :: "env \<Rightarrow> string \<Rightarrow> string \<Rightarrow> user \<Rightarrow> string \<Rightarrow> group_channel \<Rightarrow> string \<Rightarrow> message" where
  "group_message E i key u cid g text =
     (let parsed = parse_message (env_lexer E) text in
      message_default\<lparr>msg_id := i, msg_channel := cid, msg_author := user_id u, msg_interactions := interactions_default,
        msg_mentions := some_unless_empty (env_iteration E {x \<in> user_mentions parsed. x \<in> set (grp_recipients g)}),
        msg_flags := Some (final_flags False (mentions_everyone parsed) (mentions_online parsed)),
        msg_content := Some text, msg_nonce := Some key\<rparr>)"

lemma not_suppressed: "msg_flags m = Some (final_flags suppress everyone online) \<Longrightarrow> \<not> has_suppressed_notifications m"
proof
  assume "msg_flags m = Some (final_flags suppress everyone online)" "has_suppressed_notifications m"
  then have "final_flags suppress everyone online AND 1 = 1" by (simp add: has_suppressed_notifications_def)
  then have "bit (final_flags suppress everyone online AND 1) 0" by (simp add: bit_simps)
  with final_flags_bit0 show False by (simp add: bit_simps)
qed

lemma everyone_flag: "flags_has (final_flags suppress everyone online) MentionsEveryone = everyone"
  by (cases suppress; cases everyone; cases online)
    (simp_all add: flags_has_def flags_has_value_def final_flags_def flags_set_def flags_set_value_def)

lemma through_wire_id [simp]: "user_id (through_wire u) = user_id u"
  by (simp add: through_wire_def)

lemma group_owner_resolves:
  assumes owner: "grp_owner g = user_id u" and mass: "env_mass_mentions E" and roles: "role_mentions (parse_message (env_lexer E) text) = {}"
  shows "andthen (resolve_mentions E (Group cid g) (text_request text) (AuthorUser u) True False False) f w =
     (let parsed = parse_message (env_lexer E) text in
      f ({x \<in> user_mentions parsed. x \<in> set (grp_recipients g)}, {}, [], mentions_everyone parsed, mentions_online parsed) w)"
proof -
  let ?c = "Group cid g" and ?all = "channel_permission_bits GrantAllSafe"
  obtain q where "channel_permissions E (channel_query (through_wire u) ?c) w = (Ok (?all, q), w)"
    using group_owner_permissions [of g "through_wire u" E cid w] owner by (auto simp del: channel_permission_bits.simps)
  then have perm: "andthen (channel_permissions E (channel_query (through_wire u) ?c)) f w = f (?all, q) w" for f
    by (simp add: andthen_def)
  have mass': "andthen (check_mass_mentions E (AuthorUser u) ?c (ev, on, {})) f w = f (ev, on, {}) w" for ev on f
    using mass by (simp add: check_mass_mentions_def andthen_assoc perm grants_all del: channel_permission_bits.simps)
  have users: "check_user_mentions E ?c us {} = ret ({x \<in> us. x \<in> set (grp_recipients g)}, {})" for us
    by (auto simp: check_user_mentions_def)
  show ?thesis
    unfolding resolve_mentions_def
    by (simp add: text_request_def known_roles_def roles mass' check_replies_def users andthen_assoc Let_def)
qed

lemma group_owner_creates:
  assumes owner: "grp_owner g = user_id u" and mass: "env_mass_mentions E" and roles: "role_mentions (parse_message (env_lexer E) text) = {}"
    and order: "env_iteration E {} = []" and content: "text \<noteq> []" "length text \<le> message_length limits"
  shows "create_from_api E i (Group cid g) (text_request text) (AuthorUser u) (Some u) limits key True True w =
     (let m = group_message E i key u cid g text in andthen (send m (user_id u) (Group cid g) True) (\<lambda>_. ret m) w)"
proof -
  have nonce: "andthen (map_err InvalidOperation (consume_nonce key None)) f w = f key w" for f
    by (simp add: consume_nonce_def map_err_def andthen_def ret_def)
  note resolve = group_owner_resolves [OF assms(1-3)]
  show ?thesis
    using content
    by (simp add: create_from_api_def text_request_def andthen_lift validate_sum_def nonce request_is_empty_def or_empty_def
        request_flags_def restriction_without_list_def resolve [unfolded text_request_def] Let_def some_unless_empty_def order
        group_message_def message_skeleton_def message_default_def hook_of_author_def interactions_default_def)
qed

lemma group_owner_sends:
  assumes c: "map_of (stored_channels w) cid = Some (Group cid g)" and owner: "grp_owner g = user_id u"
    and limits: "user_limits E u w = (Ok limits, w)" and content: "text \<noteq> []" "length text \<le> message_length limits"
    and mass: "env_mass_mentions E" and roles: "role_mentions (parse_message (env_lexer E) text) = {}"
    and order: "env_iteration E {} = []" and fresh: "map_of (stored_messages w) i = None"
  shows "route_message_send E (Ok ()) i key u cid (text_request text) w =
     (let m = group_message E i key u cid g text in
      (Ok m, w\<lparr>db := db_messages_update (AList.update i m) (db w), events := events w @ [(cid, MessageCreate m)],
         tasks := tasks w @ [TaskLastMessageId cid i False, TaskProcessEmbeds cid i text,
           TaskAckMessage cid m (filter (\<lambda>x. x \<noteq> user_id u) (grp_recipients g)) True False]\<rparr>))"
proof -
  let ?c = "Group cid g" and ?all = "channel_permission_bits GrantAllSafe" and ?m = "group_message E i key u cid g text"
  obtain q where q: "channel_permissions E (channel_query u ?c) w = (Ok (?all, q), w)" "pq_server q = None"
    using group_owner_permissions [OF owner] by blast
  have perm: "andthen (channel_permissions E (channel_query u ?c)) f w = f (?all, q) w" for f
    using q(1) by (simp add: andthen_def)
  have "send_checks ?all (text_request text) w = (Ok (), w)"
    by (simp add: send_checks_def text_request_def or_empty_def andthen_check grants_all del: channel_permission_bits.simps) (simp add: ret_def)
  then have checks: "andthen (send_checks ?all (text_request text)) f w = f () w" for f by (simp add: andthen_def)
  have slow: "slowmode_check E u ?c ?all = ret ()" by (simp add: slowmode_check_def)
  have lim: "andthen (user_limits E u) f w = f limits w" for f using limits by (simp add: andthen_def)
  have "route_message_send E (Ok ()) i key u cid (text_request text) w
     = create_from_api E i ?c (text_request text) (AuthorUser u) (Some u) limits key True True w"
    unfolding route_message_send_def
    by (simp add: andthen_lift andthen_fetch_channel c perm checks slow lim q(2) mentions_allowed_def grants_all del: channel_permission_bits.simps)
      (simp add: text_request_def lim)
  also have "\<dots> = andthen (send ?m (user_id u) ?c True) (\<lambda>_. ret ?m) w"
    by (simp only: group_owner_creates [OF owner mass roles order content] Let_def)
  also have "\<dots> = (Ok ?m, w\<lparr>db := db_messages_update (AList.update i ?m) (db w), events := events w @ [(cid, MessageCreate ?m)],
         tasks := tasks w @ [TaskLastMessageId cid i False, TaskProcessEmbeds cid i text,
           TaskAckMessage cid ?m (filter (\<lambda>x. x \<noteq> user_id u) (grp_recipients g)) True False]\<rparr>)"
  proof -
    have m: "msg_id ?m = i" "msg_channel ?m = cid" "msg_content ?m = Some text" "\<not> has_suppressed_notifications ?m"
      by (simp_all add: group_message_def Let_def not_suppressed)
    have insert: "andthen (on_db (insert_message ?m)) f w = f () (w\<lparr>db := db_messages_update (AList.update i ?m) (db w)\<rparr>)" for f
      using fresh by (simp add: andthen_def on_db_def insert_message_def messages.insert_new m(1))
    show ?thesis
      by (cases "msg_mentions ?m") (simp_all add: send_def send_without_notifications_def andthen_assoc m insert, simp_all add: ret_def)
  qed
  finally show ?thesis by (simp add: Let_def)
qed

section \<open>Sending\<close>

lemma may_has: "channel_permissions E (channel_query u c) w = (Ok (p, q), w) \<Longrightarrow> may E w u c perm = has_channel_permission p perm"
  by (simp add: may_def)


definition chat_group :: group_channel where
  "chat_group = \<lparr>grp_name = ''G'', grp_owner = ''a'', grp_description = None, grp_recipients = [''a'', ''b''], grp_icon = None,
     grp_last_message_id = None, grp_permissions = None, grp_nsfw = False\<rparr>"

definition chat_world :: world where
  "chat_world = sample_world (empty_db\<lparr>db_channels := [(''G'', Group ''G'' chat_group)]\<rparr>)"

lemma chat_world_simps [simp]:
  "stored_channels chat_world = [(''G'', Group ''G'' chat_group)]" "stored_messages chat_world = []" "events chat_world = []"
  "tasks chat_world = []" "grp_owner chat_group = ''a''" "grp_recipients chat_group = [''a'', ''b'']" "user_id (sample_user i) = i"
  by (simp_all add: chat_world_def sample_world_def empty_db_def chat_group_def sample_user_def)

lemma sample_everyone: "parse_message (env_lexer sample_env) ''@everyone'' = message_results_default\<lparr>mentions_everyone := True\<rparr>"
  by (simp add: sample_env_def parse_message_def parse_message_iter_def collect_tokens.simps parser_next_def flatten_def)

lemma sample_limits: "user_limits sample_env u w = (Ok (env_default sample_env), w)"
  by (simp add: user_limits_def sample_env_def ret_def)

lemma chat_message_sent:
  "route_message_send sample_env (Ok ()) ''m'' ''k'' (sample_user ''a'') ''G'' (text_request ''@everyone'') chat_world =
     (let m = group_message sample_env ''m'' ''k'' (sample_user ''a'') ''G'' chat_group ''@everyone'' in
      (Ok m, chat_world\<lparr>db := db_messages_update (AList.update ''m'' m) (db chat_world), events := [(''G'', MessageCreate m)],
         tasks := [TaskLastMessageId ''G'' ''m'' False, TaskProcessEmbeds ''G'' ''m'' ''@everyone'', TaskAckMessage ''G'' m [''b''] True False]\<rparr>))"
proof -
  have "length ''@everyone'' \<le> message_length (env_default sample_env)" "env_mass_mentions sample_env" "env_iteration sample_env {} = []"
    by (simp_all add: sample_env_def)
  then show ?thesis
    by (subst group_owner_sends [where g = chat_group, OF _ _ sample_limits])
      (simp_all add: sample_everyone message_results_default_def Let_def)
qed


text \<open>C4: a message mentions only users who can see it. Whatever the text, the replies and the flags of a request ask for, every user
  in the list of mentions of the message that is made is, in a channel of a server, a stored user who may view the channel, and in a
  direct message or a group one of the recipients.\<close>

theorem mentions_reach_only_viewers:
  assumes "keyed_by_id w" and "iteration_laws (env_iteration E)"
    and "route_message_send E v i key u target data w = (Ok m, w')" and "msg_mentions m = Some us" and "x \<in> set us"
  shows "\<exists>c. map_of (stored_channels w) target = Some c \<and> reaches E w c x"
proof -
  from assms(3) obtain c p q w1 limits allowed where c: "map_of (stored_channels w) target = Some c" and w1: "db w1 = db w"
    and create: "create_from_api E i c data (AuthorUser u) (Some u) limits key (has_channel_permission p SendEmbeds) allowed w1 = (Ok m, w')"
    by (rule route_message_send_OkE)
  from create obtain w0 fe fo mentioned rest w2 where w0: "db w0 = db w1"
    and run: "resolve_mentions E c data (AuthorUser u) allowed fe fo w0 = (Ok (mentioned, rest), w2)"
    and m: "msg_mentions m = some_unless_empty (env_iteration E mentioned)" by (rule create_from_api_OkE)
  have db: "db w0 = db w" using w0 w1 by simp
  note reach = resolve_mentions_reach [OF _ assms(2) run, unfolded keyed_db [OF db] reaches_db [OF db], OF assms(1)]
  have "x \<in> set (env_iteration E mentioned)" using m assms(4,5) by (auto simp: some_unless_empty_def split: if_splits)
  then have "x \<in> mentioned" using iteration_laws.order_set [OF assms(2) reach(1)] by simp
  with reach(2) c show ?thesis by blast
qed

definition mention_env :: env where
  "mention_env = sample_env\<lparr>env_lexer := (\<lambda>_. [Inr (UserMention ''b''), Inr (UserMention ''c'')])\<rparr>"

theorem mentions_reach_only_viewers_witness:
  "\<exists>m w' c. route_message_send mention_env (Ok ()) ''m'' ''k'' (sample_user ''a'') ''G'' (text_request ''hi'') chat_world = (Ok m, w')
     \<and> msg_mentions m = Some [''b''] \<and> map_of (stored_channels chat_world) ''G'' = Some c \<and> reaches mention_env chat_world c ''b''"
proof -
  let ?m = "group_message mention_env ''m'' ''k'' (sample_user ''a'') ''G'' chat_group ''hi''"
  have parsed: "parse_message (env_lexer mention_env) ''hi'' = message_results_default\<lparr>user_mentions := {''b'', ''c''}\<rparr>"
    by (simp add: mention_env_def parse_message_def parse_message_iter_def collect_tokens.simps parser_next_def flatten_def
        message_results_default_def insert_commute)
  have limits: "user_limits mention_env u w = (Ok (env_default mention_env), w)" for u w
    by (simp add: user_limits_def mention_env_def sample_env_def ret_def)
  have env: "length ''hi'' \<le> message_length (env_default mention_env)" "env_mass_mentions mention_env" "env_iteration mention_env = sorted_list_of_set"
    by (simp_all add: mention_env_def sample_env_def)
  then have "\<exists>w'. route_message_send mention_env (Ok ()) ''m'' ''k'' (sample_user ''a'') ''G'' (text_request ''hi'') chat_world = (Ok ?m, w')"
    by (subst group_owner_sends [where g = chat_group, OF _ _ limits]) (simp_all add: parsed message_results_default_def Let_def)
  then obtain w' where run: "route_message_send mention_env (Ok ()) ''m'' ''k'' (sample_user ''a'') ''G'' (text_request ''hi'') chat_world = (Ok ?m, w')"
    by blast
  have "{x. (x = ''b'' \<or> x = ''c'') \<and> (x = ''a'' \<or> x = ''b'')} = {''b''}" by auto
  then have m: "msg_mentions ?m = Some [''b'']"
    by (simp add: group_message_def Let_def parsed message_results_default_def env some_unless_empty_def)
  have "keyed_by_id chat_world"
    by (simp add: keyed_by_id_def users_wf_def memberships_wf_def chat_world_def sample_world_def empty_db_def)
  moreover have "iteration_laws (env_iteration mention_env)" unfolding env by (rule sorted_iteration.iteration_laws_axioms)
  ultimately have "\<exists>c. map_of (stored_channels chat_world) ''G'' = Some c \<and> reaches mention_env chat_world c ''b''"
    by (rule mentions_reach_only_viewers [OF _ _ run m]) simp
  with run m show ?thesis by blast
qed

section \<open>Nonces\<close>

text \<open>A key is among the most recent ones: at most \<open>n\<close> keys follow it in the cache.\<close>

definition recent :: "nat \<Rightarrow> string \<Rightarrow> string list \<Rightarrow> bool" where
  "recent n v cache \<longleftrightarrow> (\<exists>xs ys. cache = xs @ v # ys \<and> length ys \<le> n)"

lemma recent_in: "recent n v cache \<Longrightarrow> v \<in> set cache"
  by (auto simp: recent_def)

lemma recent_drop:
  assumes "recent n v cache" and "n < token_cache_size"
  shows "recent n v (drop (length cache - token_cache_size) cache)"
proof -
  obtain xs ys where c: "cache = xs @ v # ys" "length ys \<le> n" using assms(1) by (auto simp: recent_def)
  then have "length cache - token_cache_size \<le> length xs" using assms(2) by simp
  then have "drop (length cache - token_cache_size) cache = drop (length cache - token_cache_size) xs @ v # ys" by (simp add: c(1))
  with c(2) show ?thesis unfolding recent_def by blast
qed

lemma recent_moved:
  assumes "recent n v cache"
  shows "recent (Suc n) v (removeAll k cache @ [k])"
proof -
  obtain xs ys where c: "cache = xs @ v # ys" "length ys \<le> n" using assms by (auto simp: recent_def)
  show ?thesis
  proof (cases "k = v")
    case True
    then show ?thesis unfolding recent_def by (intro exI [of _ "removeAll k cache"] exI [of _ "[]"]) simp
  next
    case False
    have "length (removeAll k ys @ [k]) \<le> Suc n"
      using le_trans [OF length_filter_le c(2)] by (simp add: removeAll_filter_not_eq)
    moreover have "removeAll k cache @ [k] = removeAll k xs @ v # (removeAll k ys @ [k])" using False c(1) by simp
    ultimately show ?thesis unfolding recent_def by blast
  qed
qed

lemma recent_put_same: "recent 0 v (lru_put v cache)"
proof -
  have "recent 0 v (removeAll v cache @ [v])" by (auto simp: recent_def)
  from recent_drop [OF this] show ?thesis by (simp add: lru_put_def Let_def token_cache_size_def)
qed

lemma remember_key_cache:
  "nonce_cache (snd (remember_key k w)) = (if k \<in> set (nonce_cache w) then lru_get k (nonce_cache w) else lru_put k (nonce_cache w))"
  by (simp add: remember_key_def) (simp add: modify_def throw_def)

text \<open>As long as fewer than 1000 other keys have been used, a key stays in the cache.\<close>

lemma recent_kept:
  "recent n v (nonce_cache w) \<Longrightarrow> n + length keys < token_cache_size \<Longrightarrow>
   recent (n + length keys) v (nonce_cache (fold (\<lambda>k w. snd (remember_key k w)) keys w))"
proof (induction keys arbitrary: n w)
  case (Cons k keys)
  have "recent (Suc n) v (nonce_cache (snd (remember_key k w)))"
    using recent_moved [OF Cons.prems(1), of k] recent_drop [of "Suc n" v "removeAll k (nonce_cache w) @ [k]"] Cons.prems(2)
    by (auto simp: remember_key_cache lru_get_def lru_put_def Let_def)
  from Cons.IH [OF this] Cons.prems(2) show ?case by simp
qed simp

abbreviation data_and_nonces :: "world \<Rightarrow> ref_db \<times> string list" where
  "data_and_nonces w \<equiv> (db w, nonce_cache w)"

lemma unchanged_if: "unchanged f m \<Longrightarrow> unchanged f n \<Longrightarrow> unchanged f (if b then m else n)"
  by simp

lemma unchanged_option: "(\<And>x. unchanged f (g x)) \<Longrightarrow> unchanged f n \<Longrightarrow> unchanged f (case y of Some x \<Rightarrow> g x | None \<Rightarrow> n)"
  by (simp split: option.split)

lemmas unchanged_rules = unchanged_andthen unchanged_if unchanged_option unchanged_attempt unchanged_map_err

lemma nonces_kept [simp]:
  "unchanged data_and_nonces (channel_permissions E q)" "unchanged data_and_nonces (send_checks p data)"
  "unchanged data_and_nonces (slowmode_check E u c p)" "unchanged data_and_nonces (interactions_validate E p i)"
  "unchanged data_and_nonces (mentions_allowed E u s)" "unchanged data_and_nonces (user_limits E u)"
proof -
  show "unchanged data_and_nonces (channel_permissions E q)"
    using channel_permissions_state [of E q] unfolding unchanged_def by (metis surjective_pairing)
  have check: "unchanged data_and_nonces (check_lacking p perm)" for perm by (simp add: check_lacking_def)
  then show "unchanged data_and_nonces (send_checks p data)" unfolding send_checks_def by (auto intro!: unchanged_rules)
  have redis: "unchanged data_and_nonces (modify (redis_update f))" for f by (simp add: unchanged_def modify_def)
  show "unchanged data_and_nonces (slowmode_check E u c p)"
    unfolding slowmode_check_def Let_def by (cases c) (auto intro!: unchanged_rules redis)
  have "unchanged data_and_nonces (emoji_can_use E x)" for x
    by (auto simp: emoji_can_use_def unchanged_def on_db_def fetch_emoji_def emojis.fetch andthen_def ret_def split: option.split)
  then have "unchanged data_and_nonces (all_usable E xs)" for xs by (induction xs) (auto intro!: unchanged_rules)
  then show "unchanged data_and_nonces (interactions_validate E p i)" unfolding interactions_validate_def by (auto intro!: unchanged_rules)
qed (auto simp: mentions_allowed_def user_limits_def intro!: unchanged_rules)

lemma channels_read [simp]: "unchanged data_and_nonces (on_db (fetch_channel i))"
  by (simp add: unchanged_def on_db_def fetch_channel_def channels.fetch)

lemma create_rejects_nonce:
  assumes "dms_nonce data = Some v" and "v \<in> set (nonce_cache w)"
  shows "\<exists>e w'. create_from_api E i c data author um limits key ge allowed w = (Err e, w') \<and> db w' = db w"
proof -
  have nonce: "andthen (map_err InvalidOperation (consume_nonce key (dms_nonce data))) f w = (Err InvalidOperation, w\<lparr>nonce_cache := lru_get v (nonce_cache w)\<rparr>)" for f
    using assms by (simp add: consume_nonce_def remember_key_def andthen_def map_err_def modify_def throw_def gets_def)
  show ?thesis
    unfolding create_from_api_def by (simp add: andthen_lift validate_sum_def Let_def nonce)
qed

text \<open>From every state with this database and these nonces, the computation fails and leaves the database as it is.\<close>

definition refuses :: "ref_db \<times> string list \<Rightarrow> 'a world_action \<Rightarrow> bool" where
  "refuses F m \<longleftrightarrow> (\<forall>w. data_and_nonces w = F \<longrightarrow> \<not> is_ok (fst (m w)) \<and> db (snd (m w)) = fst F)"

lemma refuses_andthen:
  assumes "unchanged data_and_nonces m" and "\<And>x. refuses F (g x)"
  shows "refuses F (andthen m g)"
  unfolding refuses_def
proof (intro allI impI)
  fix w assume w: "data_and_nonces w = F"
  obtain r w' where m: "m w = (r, w')" by fastforce
  with unchangedD [OF assms(1)] w have "data_and_nonces w' = F" by simp
  with m assms(2) show "\<not> is_ok (fst (andthen m g w)) \<and> db (snd (andthen m g w)) = fst F"
    by (cases r) (auto simp: andthen_def refuses_def)
qed

text \<open>C22: a nonce is used once. After a request has used up a nonce, every other request with it is refused, by whomever and in
  whichever channel, and stores nothing, as long as fewer than 1000 further keys have been used since; the cache holds 1000 keys.\<close>

theorem nonces_are_used_once:
  assumes "consume_nonce key (Some v) w = (Ok k, w1)" and "length keys < token_cache_size"
    and "nonce_cache w2 = nonce_cache (fold (\<lambda>k w. snd (remember_key k w)) keys w1)" and "dms_nonce data = Some v"
  shows "\<not> is_ok (fst (route_message_send E val i key' u target data w2))
    \<and> db (snd (route_message_send E val i key' u target data w2)) = db w2"
proof -
  have "nonce_cache w1 = lru_put v (nonce_cache w)"
    using assms(1) by (auto simp: consume_nonce_def remember_key_def andthen_def gets_def modify_def throw_def ret_def split: if_splits)
  then have "recent 0 v (nonce_cache w1)" by (simp only: recent_put_same)
  from recent_kept [OF this, of keys] assms(2) have "recent (length keys) v (nonce_cache w2)" unfolding assms(3) by simp
  then have seen: "v \<in> set (nonce_cache w2)" by (rule recent_in)
  have "refuses (data_and_nonces w2) (create_from_api E i c data a um limits key' ge allowed)" for c a um limits ge allowed
    unfolding refuses_def
  proof (intro allI impI)
    fix s assume s: "data_and_nonces s = data_and_nonces w2"
    with seen have "v \<in> set (nonce_cache s)" by simp
    from create_rejects_nonce [OF assms(4) this] s
    show "\<not> is_ok (fst (create_from_api E i c data a um limits key' ge allowed s))
       \<and> db (snd (create_from_api E i c data a um limits key' ge allowed s)) = fst (data_and_nonces w2)"
      by (metis fst_conv is_ok.simps(2) snd_conv)
  qed
  then have "refuses (data_and_nonces w2) (route_message_send E val i key' u target data)"
    unfolding route_message_send_def
    by (intro refuses_andthen) (auto intro!: refuses_andthen unchanged_rules simp: channels_read split: prod.split)
  then show ?thesis by (simp add: refuses_def)
qed

theorem nonces_are_used_once_witness:
  "\<exists>w1. consume_nonce ''k'' (Some ''n'') chat_world = (Ok ''n'', w1)
     \<and> \<not> is_ok (fst (route_message_send sample_env (Ok ()) ''m'' ''k'' (sample_user ''a'') ''G'' ((text_request ''hi'')\<lparr>dms_nonce := Some ''n''\<rparr>)
          (snd (remember_key ''o'' w1))))"
proof -
  have run: "consume_nonce ''k'' (Some ''n'') chat_world = (Ok ''n'', chat_world\<lparr>nonce_cache := lru_put ''n'' (nonce_cache chat_world)\<rparr>)"
    by (simp add: consume_nonce_def remember_key_def chat_world_def sample_world_def andthen_def gets_def modify_def ret_def)
  with nonces_are_used_once [OF run, of "[''o'']" "snd (remember_key ''o'' (chat_world\<lparr>nonce_cache := lru_put ''n'' (nonce_cache chat_world)\<rparr>))"
      "(text_request ''hi'')\<lparr>dms_nonce := Some ''n''\<rparr>"] show ?thesis by (simp add: token_cache_size_def)
qed

section \<open>Deleting and pinning\<close>

lemma andthen_message_in_channel:
  "andthen (as_message_in_channel i cid) f w =
     (case map_of (stored_messages w) i of
        Some m \<Rightarrow> if msg_channel m = cid then f m w else (Err NotFound, w)
      | None \<Rightarrow> (Err NotFound, w))"
  by (simp add: as_message_in_channel_def andthen_assoc andthen_def on_db_def fetch_message_def messages.fetch throw_def ret_def split: option.split)

lemma andthen_delete_message:
  "andthen (on_db (delete_message i)) f w =
     (case map_of (stored_messages w) i of
        Some m \<Rightarrow> f () (w\<lparr>db := db_messages_update (AList.delete i) (db w)\<rparr>)
      | None \<Rightarrow> (Err NotFound, w))"
  by (simp add: andthen_def on_db_def delete_message_def table_remove_def hm_contains_def modify_def throw_def gets_def split: option.split)

lemma andthen_update_message:
  "andthen (on_db (update_message OS i p fs)) f w =
     (case map_of (stored_messages w) i of
        Some m \<Rightarrow> f () (w\<lparr>db := db_messages_update (AList.update i (fold message_remove_field fs (apply_message OS p m))) (db w)\<rparr>)
      | None \<Rightarrow> (Err NotFound, w))"
  by (simp add: andthen_def on_db_def update_message_def table_change_def modify_def throw_def gets_def split: option.split)

lemma andthen_insert_message:
  "andthen (on_db (insert_message m)) f w =
     (case map_of (stored_messages w) (msg_id m) of
        None \<Rightarrow> f () (w\<lparr>db := db_messages_update (AList.update (msg_id m) m) (db w)\<rparr>)
      | Some _ \<Rightarrow> (Err (DatabaseError ''insert'' ''message''), w))"
  by (simp add: andthen_def on_db_def insert_message_def table_insert_def hm_contains_def modify_def throw_def gets_def split: option.split)

lemma message_delete_Ok:
  assumes "message_delete m w = (Ok (), w')"
  shows "map_of (stored_messages w') = (map_of (stored_messages w))(msg_id m := None)" and "stored_channels w' = stored_channels w"
proof -
  let ?files = "case msg_attachments m of Some fs \<Rightarrow> map file_id fs | None \<Rightarrow> []"
  let ?tables = "\<lambda>w. (stored_messages w, stored_channels w)"
  from assms obtain w1 w2 where 1: "(if ?files \<noteq> [] then on_db (mark_attachments_as_deleted ?files) else ret ()) w = (Ok (), w1)"
    and 2: "on_db (delete_message (msg_id m)) w1 = (Ok (), w2)" and 3: "publish (MessageDelete (msg_id m) (msg_channel m)) (msg_channel m) w2 = (Ok (), w')"
    unfolding message_delete_def Let_def by (auto elim!: andthen_OkE)
  have "unchanged ?tables (if ?files \<noteq> [] then on_db (mark_attachments_as_deleted ?files) else ret ())"
    by (auto intro!: unchanged_if simp: unchanged_def on_db_def mark_attachments_as_deleted_def andthen_def gets_def modify_def throw_def
        ret_def split: prod.split)
  from unchangedD [OF this 1] have "?tables w1 = ?tables w" .
  with 2 3 show "map_of (stored_messages w') = (map_of (stored_messages w))(msg_id m := None)" "stored_channels w' = stored_channels w"
    by (auto simp: on_db_def delete_message_def table_remove_def hm_lookup_delete publish_def modify_def throw_def andthen_def gets_def
        split: option.splits if_splits)
qed

text \<open>C23: a message is deleted by its author, or by a user who may manage messages in its channel, and by nobody else; the deletion
  removes this message and no other.\<close>

theorem message_deletion_authorised:
  assumes "\<forall>i m. map_of (stored_messages w) i = Some m \<longrightarrow> msg_id m = i" and "route_message_delete E u target mid w = (Ok (), w')"
  shows "\<exists>m. map_of (stored_messages w) mid = Some m \<and> msg_channel m = target
     \<and> (msg_author m = user_id u \<or> (\<exists>c. map_of (stored_channels w) target = Some c \<and> may E w u c ManageMessages))
     \<and> map_of (stored_messages w') = (map_of (stored_messages w))(mid := None) \<and> stored_channels w' = stored_channels w"
proof -
  let ?guard = "andthen (on_db (fetch_channel target)) (\<lambda>c. andthen (channel_guard E u c ManageMessages) (\<lambda>_. ret ()))"
  from assms(2) obtain m where m: "map_of (stored_messages w) mid = Some m" "msg_channel m = target"
    and rest: "andthen (when_do (msg_author m \<noteq> user_id u) ?guard) (\<lambda>_. message_delete m) w = (Ok (), w')"
    unfolding route_message_delete_def andthen_message_in_channel by (auto split: option.splits if_splits)
  have "message_delete m w = (Ok (), w') \<and> (msg_author m = user_id u \<or> (\<exists>c. map_of (stored_channels w) target = Some c \<and> may E w u c ManageMessages))"
  proof (cases "msg_author m = user_id u")
    case False
    with rest obtain c where c: "map_of (stored_channels w) target = Some c"
      and rest': "andthen (channel_guard E u c ManageMessages) (\<lambda>_. message_delete m) w = (Ok (), w')"
      by (auto simp: andthen_assoc andthen_fetch_channel split: option.splits)
    from rest' c show ?thesis by (auto elim!: channel_guard_OkE)
  qed (use rest in simp)
  with m assms(1) message_delete_Ok [of m w w'] show ?thesis by auto
qed

definition posted_world :: "channel \<Rightarrow> world" where
  "posted_world c = sample_world (empty_db\<lparr>db_channels := [(channel_id c, c)],
     db_messages := [(''m'', message_default\<lparr>msg_id := ''m'', msg_channel := channel_id c, msg_author := ''b''\<rparr>)]\<rparr>)"

lemma posted_world_simps [simp]:
  "stored_channels (posted_world c) = [(channel_id c, c)]"
  "stored_messages (posted_world c) = [(''m'', message_default\<lparr>msg_id := ''m'', msg_channel := channel_id c, msg_author := ''b''\<rparr>)]"
  by (simp_all add: posted_world_def sample_world_def)

theorem message_deletion_authorised_witness:
  "\<exists>w'. route_message_delete sample_env (sample_user ''b'') ''G'' ''m'' (posted_world (Group ''G'' chat_group)) = (Ok (), w')
     \<and> map_of (stored_messages w') ''m'' = None"
proof -
  let ?w = "posted_world (Group ''G'' chat_group)"
  obtain w' where run: "route_message_delete sample_env (sample_user ''b'') ''G'' ''m'' ?w = (Ok (), w')"
    by (simp add: route_message_delete_def andthen_message_in_channel message_default_def message_delete_def andthen_delete_message)
      (simp add: publish_def modify_def)
  have "\<forall>i m. map_of (stored_messages ?w) i = Some m \<longrightarrow> msg_id m = i" by (auto split: if_splits)
  with message_deletion_authorised [OF this run] run show ?thesis by auto
qed

text \<open>pins in a direct message are not guarded. Any user, also one outside the conversation who may not even view it, can pin a
  message of a direct message between two others: the message is marked as pinned and a notice in the name of that user is stored in
  the conversation.\<close>

theorem outsider_pins_direct_message:
  assumes "map_of (stored_channels w) cid = Some (DirectMessage cid active recipients latest)" and "user_id u \<notin> set recipients"
    and "map_of (stored_messages w) mid = Some m" and "msg_id m = mid" and "msg_channel m = cid" and "\<not> is_pinned m"
    and "map_of (stored_messages w) notice = None" and "optional_struct_laws (env_structs E)"
  shows "\<exists>w' m' n. route_message_pin E notice u cid mid w = (Ok (), w') \<and> map_of (stored_messages w') mid = Some m' \<and> is_pinned m'
     \<and> map_of (stored_messages w') notice = Some n \<and> msg_channel n = cid \<and> msg_system n = Some (SysMessagePinned mid (user_id u))"
proof -
  let ?c = "DirectMessage cid active recipients latest" and ?pin = "partial_message_default\<lparr>pg_pinned := Some True\<rparr>"
  let ?m = "apply_message (env_structs E) ?pin m" and ?notice = "into_message notice (SysMessagePinned mid (user_id u)) cid"
  let ?w = "w\<lparr>db := db_messages_update (AList.update mid ?m) (db w), events := events w @ [(cid, MessageUpdate mid cid ?pin [])]\<rparr>"
  have m: "msg_id ?m = mid" "msg_channel ?m = cid" "is_pinned ?m"
    using assms(4,5) by (simp_all add: optional_struct_laws.apply_message [OF assms(8)] partial_defaults is_pinned_def)
  have "route_message_pin E notice u cid mid w = send ?notice system_author ?c False ?w"
    using assms(3-6) m
    by (simp add: route_message_pin_def andthen_fetch_channel assms(1) pin_guard_def andthen_message_in_channel message_update_def Let_def
        andthen_assoc andthen_update_message)
  moreover have "mid \<noteq> notice" using assms(3,7) by auto
  then have "map_of (stored_messages ?w) notice = None" using assms(7) by (simp add: db_simps)
  then have "\<exists>w'. send ?notice system_author ?c False ?w = (Ok (), w')"
    by (simp add: send_def send_without_notifications_def andthen_assoc andthen_insert_message into_message_def message_default_def
        queue_task_def modify_def) (simp add: ret_def)
  ultimately obtain w' where run: "route_message_pin E notice u cid mid w = (Ok (), w')" "send ?notice system_author ?c False ?w = (Ok (), w')"
    by auto
  from send_stores(2) [OF run(2)] \<open>mid \<noteq> notice\<close>
  have "map_of (stored_messages w') mid = Some ?m" "map_of (stored_messages w') notice = Some ?notice"
    by (simp_all add: db_simps into_message_def)
  moreover have "msg_channel ?notice = cid" "msg_system ?notice = Some (SysMessagePinned mid (user_id u))" by (simp_all add: into_message_def)
  ultimately show ?thesis using run(1) m(3) by blast
qed

theorem outsider_pins_direct_message_witness:
  "\<exists>w' m'. route_message_pin sample_env ''n'' (sample_user ''z'') ''D'' ''m'' (posted_world (DirectMessage ''D'' True [''a'', ''b''] None)) = (Ok (), w')
     \<and> map_of (stored_messages w') ''m'' = Some m' \<and> is_pinned m'"
proof -
  let ?w = "posted_world (DirectMessage ''D'' True [''a'', ''b''] None)"
  have "optional_struct_laws (env_structs sample_env)" by (simp add: sample_env_def merged.optional_struct_laws_axioms)
  then have "\<exists>w' m' n. route_message_pin sample_env ''n'' (sample_user ''z'') ''D'' ''m'' ?w = (Ok (), w')
     \<and> map_of (stored_messages w') ''m'' = Some m' \<and> is_pinned m' \<and> map_of (stored_messages w') ''n'' = Some n
     \<and> msg_channel n = ''D'' \<and> msg_system n = Some (SysMessagePinned ''m'' (user_id (sample_user ''z'')))"
    by (rule outsider_pins_direct_message [rotated -1, where recipients = "[''a'', ''b'']"
          and m = "message_default\<lparr>msg_id := ''m'', msg_channel := ''D'', msg_author := ''b''\<rparr>"]) (simp_all add: is_pinned_def message_default_def)
  then show ?thesis by blast
qed

end
