(* ===== verification/Webhooks.thy ===== *)
theory Webhooks
  imports Message_Safety Users
begin

text \<open>
  Webhooks: the operations of \<open>Webhook\<close> in \<open>crates/core/database/src/models/channel_webhooks/model.rs\<close> and the routes that create, read,
  edit, delete and execute them (\<open>crates/delta/src/routes/webhooks\<close> and the two routes under \<open>channels\<close>), with the text
  shortening of the route for GitHub events.

  A webhook is used either by a member who may manage webhooks or by whoever knows its token. The theorems show that a message is only
  sent with the token and the permissions of the webhook, into its channel and in its name, and that the token is never published
  in an event.
\<close>

section \<open>Operations\<close>

definition webhook_create :: "webhook \<Rightarrow> unit world_action" where
  "webhook_create self =
     andthen (on_db (insert_webhook self)) (\<lambda>_.
     publish (WebhookCreate (self\<lparr>webhook_token := None\<rparr>)) (webhook_channel_id self))"

definition webhook_update :: "env \<Rightarrow> webhook \<Rightarrow> partial_webhook \<Rightarrow> fields_webhook list \<Rightarrow> webhook world_action" where
  "webhook_update E self0 partial remove =
     (let self = apply_webhook (env_structs E) partial (fold webhook_remove_field remove self0) in
      andthen (on_db (update_webhook (env_structs E) (webhook_id self) partial remove)) (\<lambda>_.
      andthen (publish (WebhookUpdate (webhook_id self) (partial\<lparr>pw_token := None\<rparr>) remove) (webhook_channel_id self)) (\<lambda>_.
      ret self)))"

definition webhook_delete :: "webhook \<Rightarrow> unit world_action" where
  "webhook_delete self =
     andthen (on_db (delete_webhook (webhook_id self))) (\<lambda>_.
     publish (WebhookDelete (webhook_id self)) (webhook_channel_id self))"

section \<open>Routes\<close>

text \<open>\<open>ResponseWebhook\<close>: what a viewer of the channel is told. The token and the creator are left out.\<close>

record response_webhook =
  rw_id :: string
  rw_name :: string
  rw_avatar :: "string option"
  rw_channel_id :: string
  rw_permissions :: u64

definition response_of_webhook :: "webhook \<Rightarrow> response_webhook" where
  "response_of_webhook h =
     \<lparr>rw_id = webhook_id h, rw_name = webhook_name h, rw_avatar = map_option file_id (webhook_avatar h),
      rw_channel_id = webhook_channel_id h, rw_permissions = webhook_permissions h\<rparr>"

definition route_create_webhook ::
    "env \<Rightarrow> unit result \<Rightarrow> string \<Rightarrow> string \<Rightarrow> user \<Rightarrow> string \<Rightarrow> string \<Rightarrow> string option \<Rightarrow> webhook world_action" where
  "route_create_webhook E validation new_id token u target name avatar =
     andthen (lift validation) (\<lambda>_.
     andthen (on_db (fetch_channel target)) (\<lambda>c.
       case c of
         SavedMessages _ _ \<Rightarrow> throw InvalidOperation
       | DirectMessage _ _ _ _ \<Rightarrow> throw InvalidOperation
       | _ \<Rightarrow>
     andthen (channel_guard E u c ManageWebhooks) (\<lambda>_.
     andthen (claim (\<lambda>i. use_webhook_avatar i new_id (user_id u)) avatar) (\<lambda>f.
       let h = \<lparr>webhook_id = new_id, webhook_name = name, webhook_avatar = f, webhook_creator_id = user_id u,
                webhook_channel_id = channel_id c, webhook_permissions = DEFAULT_WEBHOOK_PERMISSIONS, webhook_token = Some token\<rparr> in
     andthen (webhook_create h) (\<lambda>_.
     ret h)))))"

definition route_fetch_webhooks :: "env \<Rightarrow> user \<Rightarrow> string \<Rightarrow> webhook list world_action" where
  "route_fetch_webhooks E u target =
     andthen (on_db (fetch_channel target)) (\<lambda>c.
     andthen (channel_guard E u c ManageWebhooks) (\<lambda>_.
     on_db (fetch_webhooks_for_channel (channel_id c))))"

text \<open>The webhook, for a user with a permission in its channel, and for whoever has the token.\<close>

definition webhook_for :: "env \<Rightarrow> user \<Rightarrow> channel_permission \<Rightarrow> string \<Rightarrow> webhook world_action" where
  "webhook_for E u perm i =
     andthen (on_db (fetch_webhook i)) (\<lambda>h.
     andthen (on_db (fetch_channel (webhook_channel_id h))) (\<lambda>c.
     andthen (channel_guard E u c perm) (\<lambda>_. ret h)))"

definition webhook_by_token :: "string \<Rightarrow> string \<Rightarrow> webhook world_action" where
  "webhook_by_token i token =
     andthen (on_db (fetch_webhook i)) (\<lambda>h.
     andthen (lift (assert_token h token)) (\<lambda>_. ret h))"

record data_edit_webhook =
  dew_name :: "string option"
  dew_avatar :: "string option"
  dew_permissions :: "u64 option"
  dew_remove :: "fields_webhook list"

definition edit_webhook_fields :: "env \<Rightarrow> data_edit_webhook \<Rightarrow> webhook \<Rightarrow> webhook world_action" where
  "edit_webhook_fields E data h =
     (if dew_name data = None \<and> dew_avatar data = None \<and> dew_remove data = [] then ret h
      else
        andthen (claim (\<lambda>i. use_webhook_avatar i (webhook_id h) (webhook_creator_id h)) (dew_avatar data)) (\<lambda>f.
        webhook_update E h (partial_webhook_default\<lparr>pw_name := dew_name data, pw_permissions := dew_permissions data, pw_avatar := f\<rparr>)
          (dew_remove data)))"

definition route_webhook_edit :: "env \<Rightarrow> unit result \<Rightarrow> user \<Rightarrow> string \<Rightarrow> data_edit_webhook \<Rightarrow> webhook world_action" where
  "route_webhook_edit E validation u i data =
     andthen (lift validation) (\<lambda>_. andthen (webhook_for E u ManageWebhooks i) (edit_webhook_fields E data))"

definition route_webhook_edit_token :: "env \<Rightarrow> unit result \<Rightarrow> string \<Rightarrow> string \<Rightarrow> data_edit_webhook \<Rightarrow> webhook world_action" where
  "route_webhook_edit_token E validation i token data =
     andthen (lift validation) (\<lambda>_. andthen (webhook_by_token i token) (edit_webhook_fields E data))"

definition route_webhook_delete :: "env \<Rightarrow> user \<Rightarrow> string \<Rightarrow> unit world_action" where
  "route_webhook_delete E u i = andthen (webhook_for E u ManageWebhooks i) webhook_delete"

definition route_webhook_delete_token :: "string \<Rightarrow> string \<Rightarrow> unit world_action" where
  "route_webhook_delete_token i token = andthen (webhook_by_token i token) webhook_delete"

definition route_webhook_fetch :: "env \<Rightarrow> user \<Rightarrow> string \<Rightarrow> response_webhook world_action" where
  "route_webhook_fetch E u i = andthen (webhook_for E u ViewChannel i) (\<lambda>h. ret (response_of_webhook h))"

definition route_webhook_fetch_token :: "string \<Rightarrow> string \<Rightarrow> webhook world_action" where
  "route_webhook_fetch_token i token = webhook_by_token i token"

text \<open>The permissions a request needs, each checked against those of the webhook.\<close>

definition webhook_checks :: "u64 \<Rightarrow> data_message_send \<Rightarrow> unit world_action" where
  "webhook_checks p data =
     andthen (check_lacking p SendMessage) (\<lambda>_.
     andthen (when_do (or_empty (dms_attachments data) \<noteq> []) (check_lacking p UploadFiles)) (\<lambda>_.
     andthen (when_do (or_empty (dms_embeds data) \<noteq> []) (check_lacking p SendEmbeds)) (\<lambda>_.
     andthen (when_do (dms_masquerade data \<noteq> None) (check_lacking p Masquerade)) (\<lambda>_.
     when_do (dms_interactions data \<noteq> None) (check_lacking p React)))))"

definition route_webhook_execute ::
    "env \<Rightarrow> unit result \<Rightarrow> string \<Rightarrow> string \<Rightarrow> string \<Rightarrow> string \<Rightarrow> data_message_send \<Rightarrow> message world_action" where
  "route_webhook_execute E validation new_id key i token data =
     andthen (lift validation) (\<lambda>_.
     andthen (webhook_by_token i token) (\<lambda>h.
     andthen (webhook_checks (webhook_permissions h) data) (\<lambda>_.
     andthen (on_db (fetch_channel (webhook_channel_id h))) (\<lambda>c.
     create_from_api E new_id c data (AuthorWebhook h) None (env_default E) key True True))))"

section \<open>Shortening the texts of GitHub events\<close>

text \<open>Slicing a string counts bytes of UTF-8; a cut that is not between two characters panics (\<open>None\<close>). So does the
  subtraction \<open>- 3\<close> below zero: the wrapped index lies behind the end.\<close>

fun byte_prefix :: "nat \<Rightarrow> string \<Rightarrow> string option" where
  "byte_prefix 0 s = Some []"
| "byte_prefix (Suc n) [] = None"
| "byte_prefix (Suc n) (c # cs) =
     (let k = (if (of_char c :: nat) < 128 then 1 else 2) in if Suc n < k then None else map_option ((#) c) (byte_prefix (Suc n - k) cs))"

definition shorten_to :: "nat \<Rightarrow> string \<Rightarrow> string option" where
  "shorten_to n s = (if n < 3 then None else map_option (\<lambda>x. x @ ''...'') (byte_prefix (n - 3) s))"

definition shorten_single_line_text :: "string \<Rightarrow> nat \<Rightarrow> string option" where
  "shorten_single_line_text s len =
     (if CHR 0x0A \<in> set s
      then let line = takeWhile (\<lambda>c. c \<noteq> CHR 0x0A) s in shorten_to (min (utf8_len line) len) line
      else if utf8_len s > len then shorten_to len s
      else Some s)"

definition shorten_text :: "string \<Rightarrow> nat \<Rightarrow> string option" where
  "shorten_text s len = (if utf8_len s \<ge> len then shorten_to len s else Some s)"

section \<open>Who can use a webhook\<close>

abbreviation stored_webhooks :: "world \<Rightarrow> (string, webhook) hashmap" where
  "stored_webhooks w \<equiv> db_channel_webhooks (db w)"

lemma andthen_fetch_webhook:
  "andthen (on_db (fetch_webhook i)) f w = (case map_of (stored_webhooks w) i of Some h \<Rightarrow> f h w | None \<Rightarrow> (Err NotFound, w))"
  by (simp add: andthen_def on_db_def fetch_webhook_def channel_webhooks.fetch split: option.split)

lemma andthen_webhook_by_token:
  "andthen (webhook_by_token i token) f w =
     (case map_of (stored_webhooks w) i of
        Some h \<Rightarrow> if webhook_token h = Some token then f h w else (Err NotAuthenticated, w)
      | None \<Rightarrow> (Err NotFound, w))"
  unfolding webhook_by_token_def andthen_assoc andthen_fetch_webhook
  by (simp add: andthen_lift assert_token_def split: option.split)

lemma andthen_webhook_for:
  "andthen (webhook_for E u perm i) f w =
     (case map_of (stored_webhooks w) i of
        Some h \<Rightarrow> (case map_of (stored_channels w) (webhook_channel_id h) of
            Some c \<Rightarrow> andthen (channel_guard E u c perm) (\<lambda>_. f h) w
          | None \<Rightarrow> (Err NotFound, w))
      | None \<Rightarrow> (Err NotFound, w))"
  unfolding webhook_for_def andthen_assoc andthen_fetch_webhook andthen_fetch_channel
  by (simp split: option.split)

lemma webhook_checks_Ok:
  assumes "webhook_checks p data w = (Ok (), w')"
  shows "has_channel_permission p SendMessage \<and> (or_empty (dms_attachments data) \<noteq> [] \<longrightarrow> has_channel_permission p UploadFiles)
     \<and> (or_empty (dms_embeds data) \<noteq> [] \<longrightarrow> has_channel_permission p SendEmbeds)
     \<and> (dms_masquerade data \<noteq> None \<longrightarrow> has_channel_permission p Masquerade)
     \<and> (dms_interactions data \<noteq> None \<longrightarrow> has_channel_permission p React) \<and> w' = w"
proof -
  have last: "when_do b (check_lacking p perm) w'' = (if b \<and> \<not> has_channel_permission p perm
      then (Err (MissingPermission (channel_permission_to_string perm)), w'') else (Ok (), w''))" for b perm w''
    using andthen_check [of p perm ret w''] by (cases b) (auto simp: check_last [symmetric] ret_def)
  from assms show ?thesis
    unfolding webhook_checks_def andthen_check andthen_when last by (auto split: if_splits)
qed


definition hook :: webhook where
  "hook = \<lparr>webhook_id = ''h'', webhook_name = ''Hook'', webhook_avatar = None, webhook_creator_id = ''a'', webhook_channel_id = ''G'',
     webhook_permissions = DEFAULT_WEBHOOK_PERMISSIONS, webhook_token = Some ''secret''\<rparr>"

definition hook_world :: world where
  "hook_world = sample_world (empty_db\<lparr>db_channels := [(''G'', Group ''G'' chat_group)], db_channel_webhooks := [(''h'', hook)]\<rparr>)"

lemma hook_world_simps [simp]:
  "stored_channels hook_world = [(''G'', Group ''G'' chat_group)]" "stored_webhooks hook_world = [(''h'', hook)]" "stored_messages hook_world = []"
  "events hook_world = []" "webhook_id hook = ''h''" "webhook_token hook = Some ''secret''" "webhook_channel_id hook = ''G''"
  by (simp_all add: hook_world_def sample_world_def empty_db_def hook_def)

lemma hook_may_send: "has_channel_permission (webhook_permissions hook) SendMessage"
  by (simp add: hook_def DEFAULT_WEBHOOK_PERMISSIONS_def has_channel_permission_def pv_has_def perm_add_def perm_plus_def)

lemma hook_resolves:
  "andthen (resolve_mentions sample_env (Group ''G'' chat_group) (text_request ''hi'') (AuthorWebhook hook) True False False) f hook_world =
     f ({}, {}, [], False, False) hook_world"
proof -
  have "parse_message (env_lexer sample_env) ''hi'' = message_results_default"
    by (simp add: sample_env_def parse_message_def parse_message_iter_def collect_tokens.simps parser_next_def flatten_def)
  then show ?thesis
    unfolding resolve_mentions_def
    by (simp add: text_request_def message_results_default_def known_roles_def check_mass_mentions_def check_replies_def check_user_mentions_def
        andthen_assoc Let_def)
qed

lemma hook_message_sent:
  "\<exists>m w'. route_webhook_execute sample_env (Ok ()) ''m'' ''k'' ''h'' ''secret'' (text_request ''hi'') hook_world = (Ok m, w')"
proof -
  let ?c = "Group ''G'' chat_group" and ?data = "text_request ''hi''"
  let ?m = "(message_skeleton ''m'' ?c ?data (AuthorWebhook hook))\<lparr>msg_flags := Some (final_flags False False False),
     msg_content := Some ''hi'', msg_nonce := Some ''k''\<rparr>"
  have nonce: "andthen (map_err InvalidOperation (consume_nonce ''k'' None)) f w = f ''k'' w" for f :: "string \<Rightarrow> message world_action" and w
    by (simp add: consume_nonce_def map_err_def andthen_def ret_def)
  have checks: "andthen (webhook_checks (webhook_permissions hook) ?data) f w = f () w" for f :: "unit \<Rightarrow> message world_action" and w
    by (simp add: webhook_checks_def text_request_def or_empty_def andthen_assoc andthen_check hook_may_send)
  have "env_iteration sample_env {} = []" "message_length (env_default sample_env) = 2000" by (simp_all add: sample_env_def)
  then have "create_from_api sample_env ''m'' ?c ?data (AuthorWebhook hook) None (env_default sample_env) ''k'' True True hook_world
     = andthen (send ?m ''h'' ?c True) (\<lambda>_. ret ?m) hook_world"
    by (simp add: create_from_api_def text_request_def andthen_lift validate_sum_def nonce request_is_empty_def or_empty_def
        request_flags_def restriction_without_list_def hook_resolves [unfolded text_request_def] Let_def some_unless_empty_def
        message_skeleton_def message_default_def hook_of_author_def interactions_default_def)
  moreover have "\<exists>w'. send ?m ''h'' ?c True hook_world = (Ok (), w')"
  proof -
    have insert: "andthen (on_db (insert_message m)) f hook_world = f () (hook_world\<lparr>db := db_messages_update (AList.update (msg_id m) m) (db hook_world)\<rparr>)"
      for f :: "unit \<Rightarrow> unit world_action" and m
      by (simp add: andthen_def on_db_def insert_message_def messages.insert_new)
    have "msg_mentions ?m = None" by (simp add: message_skeleton_def message_default_def)
    then show ?thesis
      by (simp add: send_def send_without_notifications_def andthen_assoc insert not_suppressed) (simp add: queue_task_def modify_def)
  qed
  ultimately show ?thesis
    by (auto simp: route_webhook_execute_def andthen_lift andthen_webhook_by_token checks andthen_fetch_channel) (simp add: andthen_def ret_def)
qed


section \<open>Changes of a webhook\<close>

text \<open>Somebody who asks for a change: a user, or whoever presents a token. A webhook obeys a user who may manage the webhooks of its
  channel, and its token.\<close>

datatype actor = ByUser user | ByToken string

definition obeys :: "env \<Rightarrow> world \<Rightarrow> webhook \<Rightarrow> actor \<Rightarrow> bool" where
  "obeys E w h a =
     (case a of
        ByUser u \<Rightarrow> (case map_of (stored_channels w) (webhook_channel_id h) of Some c \<Rightarrow> may E w u c ManageWebhooks | None \<Rightarrow> False)
      | ByToken t \<Rightarrow> webhook_token h = Some t)"

inductive webhook_step :: "env \<Rightarrow> actor \<Rightarrow> string \<Rightarrow> world \<Rightarrow> world \<Rightarrow> bool" for E where
  edit: "webhook_step E (ByUser u) i w (snd (route_webhook_edit E v u i data w))"
| edit_token: "webhook_step E (ByToken t) i w (snd (route_webhook_edit_token E v i t data w))"
| delete: "webhook_step E (ByUser u) i w (snd (route_webhook_delete E u i w))"
| delete_token: "webhook_step E (ByToken t) i w (snd (route_webhook_delete_token i t w))"

text \<open>An event with the token of a webhook, and what a request may leave behind: only the named webhook is touched, and no event
  gives a token away.\<close>

definition reveals_token :: "event_v1 \<Rightarrow> bool" where
  "reveals_token ev = (case ev of WebhookCreate h \<Rightarrow> webhook_token h \<noteq> None | WebhookUpdate _ p _ \<Rightarrow> pw_token p \<noteq> None | _ \<Rightarrow> False)"

definition touches_only :: "string \<Rightarrow> world \<Rightarrow> world \<Rightarrow> bool" where
  "touches_only i w w' \<longleftrightarrow> (\<forall>j. j \<noteq> i \<longrightarrow> map_of (stored_webhooks w') j = map_of (stored_webhooks w) j)
     \<and> (\<exists>new. events w' = events w @ new \<and> (\<forall>(t, ev) \<in> set new. \<not> reveals_token ev))"

definition webhooks_keyed :: "world \<Rightarrow> bool" where
  "webhooks_keyed w \<longleftrightarrow> (\<forall>i h. map_of (stored_webhooks w) i = Some h \<longrightarrow> webhook_id h = i)"

lemma touches_refl [simp]: "touches_only i w w"
  by (simp add: touches_only_def)

lemma touches_cong: "stored_webhooks w1 = stored_webhooks w \<Longrightarrow> events w1 = events w \<Longrightarrow> touches_only i w1 w' = touches_only i w w'"
  by (simp add: touches_only_def)

lemma claim_leaves_hooks [simp]:
  "unchanged (\<lambda>w. (stored_webhooks w, events w)) (claim (\<lambda>i. use_webhook_avatar i a b) j)"
proof -
  have [simp]: "unchanged (\<lambda>w. (stored_webhooks w, events w)) (on_db (find_and_use_attachment i t f n))" for i t f n
    by (auto simp: unchanged_def on_db_def find_and_use_attachment_def Let_def andthen_def gets_def modify_def throw_def ret_def
        split: option.split)
  show ?thesis unfolding claim_def use_webhook_avatar_def by (auto intro!: unchanged_andthen split: option.split)
qed

text \<open>A permission check leaves the state alone, so a guarded change happens only for those who hold the permission.\<close>

lemma guarded_change:
  "snd (andthen (channel_guard E u c perm) (\<lambda>_. f) w) = w \<or> may E w u c perm \<and> snd (andthen (channel_guard E u c perm) (\<lambda>_. f) w) = snd (f w)"
proof (cases "fst (andthen (channel_guard E u c perm) ret w)")
  case (Ok y)
  then obtain w' where "andthen (channel_guard E u c perm) ret w = (Ok y, w')" by (metis prod.collapse)
  then obtain p q where p: "channel_permissions E (channel_query u c) w = (Ok (p, q), w)" and m: "may E w u c perm"
    by (rule channel_guard_OkE)
  from m have "has_channel_permission p perm" by (simp add: may_has [OF p])
  from channel_guard_run [OF p this, of "\<lambda>_. f"] m show ?thesis by simp
qed (auto simp: channel_guard_def andthen_def check_lacking_def lift_def ret_def throw_if_lacking_channel_permission_def
      channel_permissions_def split: prod.split outcome.split if_split)

context optional_struct_laws
begin

lemma webhook_applied:
  "webhook_id (apply_webhook OS (partial_webhook_default\<lparr>pw_name := a, pw_permissions := b, pw_avatar := c\<rparr>) (fold webhook_remove_field fs h)) = webhook_id h"
proof -
  have "webhook_id (fold webhook_remove_field fs h) = webhook_id h"
  proof (induction fs arbitrary: h)
    case (Cons f fs) then show ?case by (cases f) simp
  qed simp
  then show ?thesis by (simp add: apply_webhook partial_webhook_default_def)
qed

lemma edit_touches:
  assumes E: "env_structs E = OS" and h: "webhook_id h = i"
  shows "touches_only i w (snd (edit_webhook_fields E data h w))"
proof (cases "dew_name data = None \<and> dew_avatar data = None \<and> dew_remove data = []")
  case False
  let ?claim = "claim (\<lambda>i. use_webhook_avatar i (webhook_id h) (webhook_creator_id h)) (dew_avatar data)"
  have "touches_only i w' (snd (webhook_update E h (partial_webhook_default\<lparr>pw_name := a, pw_permissions := b, pw_avatar := f\<rparr>) fs w'))" for w' a b f fs
    unfolding webhook_update_def Let_def E webhook_applied h
    by (auto simp: touches_only_def andthen_def on_db_def update_webhook_def table_change_def publish_def gets_def modify_def throw_def ret_def
        reveals_token_def hm_lookup_update partial_webhook_default_def split: option.split)
  then have update: "touches_only i w (snd (webhook_update E h (partial_webhook_default\<lparr>pw_name := a, pw_permissions := b, pw_avatar := f\<rparr>) fs w'))"
    if "(stored_webhooks w', events w') = (stored_webhooks w, events w)" for w' a b f fs
    using that touches_cong by (metis prod.inject)
  show ?thesis
    unfolding edit_webhook_fields_def if_not_P [OF False]
    by (rule snd_andthen_unchanged [where P = "touches_only i w", OF claim_leaves_hooks]) (erule update, auto simp: touches_only_def)
qed (simp add: edit_webhook_fields_def ret_def)

end

lemma delete_touches: "webhook_id h = i \<Longrightarrow> touches_only i w (snd (webhook_delete h w))"
  by (auto simp: webhook_delete_def touches_only_def andthen_def on_db_def delete_webhook_def table_remove_def publish_def gets_def modify_def
      throw_def reveals_token_def hm_lookup_delete)

text \<open>webhooks change only at the request of those they obey. Whatever is asked and however it ends, a request to edit or delete a
  webhook leaves the state as it was unless it comes from a user who may manage the webhooks of its channel or presents its
  token; it touches no other webhook, and no event it publishes carries a token.\<close>

theorem webhook_changes_authorised:
  assumes "webhook_step E a i w w'" and "webhooks_keyed w" and "optional_struct_laws (env_structs E)"
  shows "w' = w \<or> (\<exists>h. map_of (stored_webhooks w) i = Some h \<and> obeys E w h a \<and> touches_only i w w')"
proof -
  note edits = optional_struct_laws.edit_touches [OF assms(3) refl]
  have key: "webhook_id h = i" if "map_of (stored_webhooks w) i = Some h" for h using assms(2) that by (simp add: webhooks_keyed_def)
  have by_user: "w' = w \<or> (\<exists>h. map_of (stored_webhooks w) i = Some h \<and> obeys E w h a \<and> touches_only i w w')"
    if "w' = snd (andthen (webhook_for E u ManageWebhooks i) f w)" "a = ByUser u"
      "\<And>h. webhook_id h = i \<Longrightarrow> touches_only i w (snd (f h w))" for u and f :: "webhook \<Rightarrow> 'b world_action"
    using that key guarded_change [of E u _ ManageWebhooks "f _" w]
    by (auto simp: andthen_webhook_for obeys_def split: option.splits) metis
  have by_token: "w' = w \<or> (\<exists>h. map_of (stored_webhooks w) i = Some h \<and> obeys E w h a \<and> touches_only i w w')"
    if "w' = snd (andthen (webhook_by_token i t) g w)" "a = ByToken t"
      "\<And>h. webhook_id h = i \<Longrightarrow> touches_only i w (snd (g h w))" for t and g :: "webhook \<Rightarrow> 'c world_action"
    using that key by (auto simp: andthen_webhook_by_token obeys_def split: option.splits if_splits)
  from assms(1) show ?thesis
  proof cases
    case (edit u v data)
    then have "w' = w \<or> w' = snd (andthen (webhook_for E u ManageWebhooks i) (edit_webhook_fields E data) w)"
      by (cases v) (simp_all add: route_webhook_edit_def andthen_lift)
    with by_user [where f = "edit_webhook_fields E data" and u = u] edit(1) edits show ?thesis by blast
  next
    case (edit_token t v data)
    then have "w' = w \<or> w' = snd (andthen (webhook_by_token i t) (edit_webhook_fields E data) w)"
      by (cases v) (simp_all add: route_webhook_edit_token_def andthen_lift)
    with by_token [of t "edit_webhook_fields E data"] edit_token(1) edits show ?thesis by blast
  next
    case (delete u)
    then show ?thesis by (intro by_user [where f = webhook_delete and u = u]) (simp_all add: route_webhook_delete_def delete_touches)
  next
    case (delete_token t)
    then show ?thesis by (intro by_token [of t webhook_delete]) (simp_all add: route_webhook_delete_token_def delete_touches)
  qed
qed

text \<open>A request with a new name and all permissions, by somebody who knows the token.\<close>

definition take_over :: data_edit_webhook where
  "take_over = \<lparr>dew_name = Some ''Hook'', dew_avatar = None, dew_permissions = Some (- 1), dew_remove = []\<rparr>"

lemma token_edit:
  assumes h: "map_of (stored_webhooks w) i = Some h" "webhook_token h = Some t" "webhook_id h = i"
    and laws: "optional_struct_laws (env_structs E)" and data: "dew_name data = Some name" "dew_avatar data = None" "dew_remove data = []"
  shows "\<exists>w' h'. route_webhook_edit_token E (Ok ()) i t data w = (Ok h', w') \<and> map_of (stored_webhooks w') i = Some h'
     \<and> h' = h\<lparr>webhook_name := name, webhook_permissions := set_if (dew_permissions data) (webhook_permissions h)\<rparr>"
  using h data
  by (simp add: route_webhook_edit_token_def andthen_lift andthen_webhook_by_token edit_webhook_fields_def claim_def webhook_update_def
      optional_struct_laws.apply_webhook [OF laws] partial_webhook_default_def Let_def update_webhook_def)
    (simp add: andthen_def on_db_def table_change_def gets_def modify_def publish_def ret_def hm_lookup_update set_if_def replace_if_def)

theorem webhook_changes_authorised_witness:
  "\<exists>w'. webhook_step sample_env (ByToken ''secret'') ''h'' hook_world w' \<and> w' \<noteq> hook_world \<and> obeys sample_env hook_world hook (ByToken ''secret'')
     \<and> touches_only ''h'' hook_world w'"
proof -
  have laws: "optional_struct_laws (env_structs sample_env)" by (simp add: sample_env_def merged.optional_struct_laws_axioms)
  have data: "dew_name take_over = Some ''Hook''" "dew_avatar take_over = None" "dew_remove take_over = []" by (simp_all add: take_over_def)
  obtain w' h' where run: "route_webhook_edit_token sample_env (Ok ()) ''h'' ''secret'' take_over hook_world = (Ok h', w')"
    and h': "map_of (stored_webhooks w') ''h'' = Some h'" "h' = hook\<lparr>webhook_name := ''Hook'', webhook_permissions := - 1\<rparr>"
    using token_edit [of hook_world "''h''" hook "''secret''", OF _ _ _ laws data] by (auto simp: take_over_def set_if_def)
  have step: "webhook_step sample_env (ByToken ''secret'') ''h'' hook_world w'"
    using webhook_step.edit_token [of sample_env "''secret''" "''h''" hook_world "Ok ()" take_over] run by simp
  have "webhook_permissions hook \<noteq> - 1"
    by (simp add: hook_def DEFAULT_WEBHOOK_PERMISSIONS_def perm_add_def perm_plus_def)
  then have "h' \<noteq> hook" using h'(2) by (metis webhook.select_convs(6) webhook.surjective webhook.update_convs(6))
  with h'(1) have "w' \<noteq> hook_world" by auto
  moreover have "webhooks_keyed hook_world" by (simp add: webhooks_keyed_def)
  ultimately show ?thesis using webhook_changes_authorised [OF step _ laws] step by auto
qed

text \<open>A request that only sets the permissions changes nothing: the early exit does not look at them.\<close>

lemma permissions_alone_ignored:
  assumes "dew_name data = None" and "dew_avatar data = None" and "dew_remove data = []"
  shows "edit_webhook_fields E data h w = (Ok h, w)"
  using assms by (simp add: edit_webhook_fields_def ret_def)

text \<open>the token of a webhook is enough to raise its permissions. Whoever presents the token together with any new name gives the
  webhook every permission it asks for, the permission to mention and to masquerade included; no permission of any user is
  needed.\<close>

theorem token_raises_permissions:
  assumes "map_of (stored_webhooks w) i = Some h" and "webhook_token h = Some t" and "webhook_id h = i"
    and "optional_struct_laws (env_structs E)"
    and "data = \<lparr>dew_name = Some name, dew_avatar = None, dew_permissions = Some p, dew_remove = []\<rparr>"
  shows "\<exists>w' h'. route_webhook_edit_token E (Ok ()) i t data w = (Ok h', w') \<and> map_of (stored_webhooks w') i = Some h'
     \<and> webhook_permissions h' = p"
  using token_edit [OF assms(1-4), of data name] assms(5) by (auto simp: set_if_def)

theorem token_raises_permissions_witness:
  "\<exists>w' h'. route_webhook_edit_token sample_env (Ok ()) ''h'' ''secret'' take_over hook_world = (Ok h', w')
     \<and> map_of (stored_webhooks w') ''h'' = Some h' \<and> webhook_permissions h' = - 1"
proof -
  have laws: "optional_struct_laws (env_structs sample_env)" by (simp add: sample_env_def merged.optional_struct_laws_axioms)
  show ?thesis
    using token_raises_permissions [of hook_world "''h''" hook "''secret''", OF _ _ _ laws take_over_def] by simp
qed

section \<open>Shortened texts\<close>

lemma byte_prefix_length: "byte_prefix n s = Some p \<Longrightarrow> utf8_len p = n"
  by (induction n s arbitrary: p rule: byte_prefix.induct) (auto simp: utf8_len_def Let_def split: if_splits)

text \<open>A text that is returned is as short as asked for.\<close>

lemma shortened_bound:
  "shorten_text s len = Some x \<Longrightarrow> utf8_len x \<le> len" "shorten_single_line_text s len = Some x \<Longrightarrow> utf8_len x \<le> len"
proof -
  have dots: "utf8_len (p @ ''...'') = utf8_len p + 3" for p by (simp add: utf8_len_def)
  have to: "shorten_to n s = Some x \<Longrightarrow> utf8_len x = n" for n s
    by (auto simp: shorten_to_def dots byte_prefix_length split: if_splits)
  show "shorten_text s len = Some x \<Longrightarrow> utf8_len x \<le> len"
    using to by (auto simp: shorten_text_def split: if_splits)
  show "shorten_single_line_text s len = Some x \<Longrightarrow> utf8_len x \<le> len"
    using to by (fastforce simp: shorten_single_line_text_def Let_def split: if_splits)
qed

text \<open>The shortening itself can panic: a commit message of which the first line has fewer than three bytes, as in an empty title.\<close>

lemma short_title_panics: "shorten_single_line_text ''ok\<newline>more'' 50 = None"
  by (simp add: shorten_single_line_text_def shorten_to_def utf8_len_def)

end
