(* ===== verification/Gateway.thy ===== *)
theory Gateway
  imports Webhooks Oauth2
begin

text \<open>
  The gateway (\<open>crates/bonfire\<close>): one websocket connection of a user. \<open>events/state.rs\<close> keeps the cache of the connection and the topics
  it is subscribed to; \<open>events/impl.rs\<close> fills the cache, answers whether a channel can be viewed, and follows the events that arrive;
  \<open>websocket.rs\<close> runs the listener, which carries changes of the subscriptions to Redis and events to the client, and the worker,
  which reads the client; \<open>config.rs\<close> reads the parameters of the connection.

  The cache is filled from the database and then only follows events. The theorems show that what Redis is subscribed to is what the
  state says, that the first payload subscribes only to channels the user may view, that a log out ends the connection, and where the
  cache goes wrong.

  Parameters are the answers of the publish and subscribe client, the entries of the timed cache of active servers (\<open>lru_time_cache\<close>),
  and the decoded messages of the client.
\<close>

section \<open>State of a connection\<close>

datatype subscription_state_change = NoChange | Reset | Change "string list" "string list"

record gateway_cache =
  gc_user_id :: string
  gc_is_bot :: bool
  gc_users :: "(string, user) hashmap"
  gc_channels :: "(string, channel) hashmap"
  gc_members :: "(string, member) hashmap"
  gc_servers :: "(string, server) hashmap"
  gc_seen_events :: "string list"

record client_state =
  cs_cache :: gateway_cache
  cs_session_id :: string
  cs_private_topic :: string
  cs_state :: subscription_state_change
  cs_subscribed :: "string set"

type_synonym 'a gateway_action = "(client_state, error_type, 'a) action"

abbreviation on_cache :: "(gateway_cache \<Rightarrow> gateway_cache) \<Rightarrow> unit gateway_action" where
  "on_cache f \<equiv> modify (cs_cache_update f)"

definition cache_default :: gateway_cache where
  "cache_default = \<lparr>gc_user_id = [], gc_is_bot = False, gc_users = [], gc_channels = [], gc_members = [], gc_servers = [], gc_seen_events = []\<rparr>"

definition state_from :: "user \<Rightarrow> string \<Rightarrow> client_state" where
  "state_from u sid =
     \<lparr>cs_cache = cache_default\<lparr>gc_user_id := user_id u, gc_users := [(user_id u, u)]\<rparr>, cs_session_id = sid,
      cs_private_topic = user_id u @ ''!'', cs_state = Reset, cs_subscribed = {user_id u @ ''!'', user_id u}\<rparr>"

definition clone_user :: "user gateway_action" where
  "clone_user = andthen (gets cs_cache) (\<lambda>c. unwrap (map_of (gc_users c) (gc_user_id c)))"

definition reset_state :: "unit gateway_action" where
  "reset_state = modify (\<lambda>s. s\<lparr>cs_state := Reset, cs_subscribed := {}\<rparr>)"

definition insert_subscription :: "string \<Rightarrow> unit gateway_action" where
  "insert_subscription x =
     andthen (gets cs_subscribed) (\<lambda>subscribed.
       if x \<in> subscribed then ret ()
       else modify (\<lambda>s. s\<lparr>cs_state := (case cs_state s of NoChange \<Rightarrow> Change [x] [] | Change add remove \<Rightarrow> Change (add @ [x]) remove | Reset \<Rightarrow> Reset),
                          cs_subscribed := insert x subscribed\<rparr>))"

definition remove_subscription :: "string \<Rightarrow> unit gateway_action" where
  "remove_subscription x =
     andthen (gets (\<lambda>s. (cs_subscribed s, cs_state s))) (\<lambda>(subscribed, change).
       if x \<notin> subscribed then ret ()
       else case change of
         NoChange \<Rightarrow> modify (\<lambda>s. s\<lparr>cs_state := Change [] [x], cs_subscribed := subscribed - {x}\<rparr>)
       | Change add remove \<Rightarrow> modify (\<lambda>s. s\<lparr>cs_state := Change add (remove @ [x]), cs_subscribed := subscribed - {x}\<rparr>)
       | Reset \<Rightarrow> panic)"

text \<open>An entry that the timed cache of active servers reports: valid, or expired.\<close>

datatype timed_entry = Valid string | Expired string

primrec follow_entry :: "timed_entry \<Rightarrow> unit gateway_action" where
  "follow_entry (Valid k) = insert_subscription (k @ ''u'')"
| "follow_entry (Expired k) = remove_subscription (k @ ''u'')"

definition apply_state :: "timed_entry list \<Rightarrow> subscription_state_change gateway_action" where
  "apply_state entries =
     andthen (gets (\<lambda>s. gc_is_bot (cs_cache s))) (\<lambda>is_bot.
     andthen (if \<not> is_bot then for_each follow_entry entries else ret ()) (\<lambda>_.
     andthen (gets cs_state) (\<lambda>change.
     andthen (modify (\<lambda>s. s\<lparr>cs_state := NoChange,
        cs_subscribed := (case change of Change add remove \<Rightarrow> (cs_subscribed s \<union> set add) - set remove | _ \<Rightarrow> cs_subscribed s)\<rparr>)) (\<lambda>_.
     ret change))))"

section \<open>The cache\<close>

text \<open>The query for the permissions of the user in a channel of a server: the cached user, member and server are used where they are
  known.\<close>

definition cached_query :: "gateway_cache \<Rightarrow> user \<Rightarrow> channel \<Rightarrow> string \<Rightarrow> database_permission_query" where
  "cached_query cache u c sid =
     (let q = channel_query u c;
          q = (case map_of (gc_members cache) sid of Some m \<Rightarrow> use_member m q | None \<Rightarrow> q)
      in case map_of (gc_servers cache) sid of Some s \<Rightarrow> use_server s q | None \<Rightarrow> q)"

definition can_view_channel :: "env \<Rightarrow> world \<Rightarrow> gateway_cache \<Rightarrow> channel \<Rightarrow> bool result" where
  "can_view_channel E w cache c =
     (case c of
        TextChannel _ t \<Rightarrow>
          (case map_of (gc_users cache) (gc_user_id cache) of
             None \<Rightarrow> Panic
           | Some u \<Rightarrow> outcome_bind (fst (channel_permissions E (cached_query cache u c (txt_server t)) w))
               (\<lambda>(p, _). Ok (has_channel_permission p ViewChannel)))
      | _ \<Rightarrow> Ok True)"

fun filter_accessible_channels :: "env \<Rightarrow> world \<Rightarrow> gateway_cache \<Rightarrow> channel list \<Rightarrow> channel list result" where
  "filter_accessible_channels E w cache [] = Ok []"
| "filter_accessible_channels E w cache (c # cs) =
     outcome_bind (can_view_channel E w cache c) (\<lambda>visible.
     outcome_bind (filter_accessible_channels E w cache cs) (\<lambda>rest.
     Ok (if visible then c # rest else rest)))"

fun recipients_contain :: "string \<Rightarrow> channel \<Rightarrow> bool" where
  "recipients_contain i (DirectMessage _ _ recipients _) \<longleftrightarrow> i \<in> set recipients"
| "recipients_contain i (Group _ g) \<longleftrightarrow> i \<in> set (grp_recipients g)"
| "recipients_contain i _ \<longleftrightarrow> False"

definition can_subscribe_to_user :: "gateway_cache \<Rightarrow> string \<Rightarrow> bool" where
  "can_subscribe_to_user cache i =
     (case map_of (gc_users cache) (gc_user_id cache) of
        None \<Rightarrow> False
      | Some u \<Rightarrow>
          relationship_with u i \<in> {Friend, Incoming, Outgoing, RelUser} \<or> (\<exists>c \<in> set (hm_values (gc_channels cache)). recipients_contain i c))"

section \<open>Events of the gateway\<close>

text \<open>\<open>ReadyPayloadFields\<close> and the payload. The conversions of servers, channels and members to the wire format keep their fields.\<close>

record ready_payload_fields =
  rf_users :: bool
  rf_servers :: bool
  rf_channels :: bool
  rf_members :: bool
  rf_emojis :: bool
  rf_voice_states :: bool
  rf_user_settings :: "string list"
  rf_channel_unreads :: bool
  rf_policy_changes :: bool

record ready_payload =
  ready_users :: "v0_user list option"
  ready_servers :: "server list option"
  ready_channels :: "channel list option"
  ready_members :: "member list option"
  ready_emojis :: "emoji list option"
  ready_voice_states :: "(string \<times> user_voice_state list) list option"
  ready_user_settings :: "user_settings option"
  ready_channel_unreads :: "channel_unread list option"
  ready_policy_changes :: "policy_change list option"

definition ready_payload_fields_default :: ready_payload_fields where
  "ready_payload_fields_default =
     \<lparr>rf_users = True, rf_servers = True, rf_channels = True, rf_members = True, rf_emojis = True, rf_voice_states = True,
      rf_user_settings = [], rf_channel_unreads = False, rf_policy_changes = True\<rparr>"

datatype ping = PingBinary "nat list" | PingNumber nat

text \<open>What passes through a connection. \<open>Plain\<close> is an event of the models; the variants that carry users on the wire, or that only the
  gateway makes, are written out: \<open>UserRelationship\<close> with the rendered user, \<open>Message\<close> with the rendered author, the \<open>UserUpdate\<close> that
  says whether a user is online, and the rest.\<close>

datatype gateway_event =
    Plain event_v1
  | WireRelationship string v0_user
  | WireMessage message "v0_user option"
  | WirePresence string bool "string option"
  | Bulk "gateway_event list"
  | ErrorEvent error_type
  | Authenticated
  | Ready ready_payload
  | Pong ping
  | ChannelStartTyping string string
  | ChannelStopTyping string string

text \<open>\<open>From<v0::User> for User\<close>: the casts to \<open>i32\<close> are written as such, the last acknowledged change is the epoch.\<close>

definition user_from_wire :: "v0_user \<Rightarrow> user" where
  "user_from_wire v =
     user_default\<lparr>user_id := v0u_id v, username := v0u_username v, discriminator := v0u_discriminator v, display_name := v0u_display_name v,
       user_avatar := v0u_avatar v, relations := None, badges := Some (sint (v0u_badges v)), user_status := v0u_status v,
       user_profile := None, user_flags := Some (sint (v0u_flags v)), privileged := v0u_privileged v, user_bot := v0u_bot v,
       suspended_until := None, suspension_reason := None, ban_reason := None, last_acknowledged_policy_change := 0\<rparr>"

section \<open>Following events\<close>

fun sort_channels :: "env \<Rightarrow> world \<Rightarrow> gateway_cache \<Rightarrow> string \<Rightarrow> (string \<times> channel) list \<Rightarrow> (string list \<times> string list) result" where
  "sort_channels E w cache sid [] = Ok ([], [])"
| "sort_channels E w cache sid ((k, c) # xs) =
     (if channel_server c = Some sid
      then outcome_bind (can_view_channel E w cache c) (\<lambda>visible.
           outcome_bind (sort_channels E w cache sid xs) (\<lambda>(added, removed).
           Ok (if visible then (k # added, removed) else (added, k # removed))))
      else sort_channels E w cache sid xs)"

definition drop_channel :: "string \<Rightarrow> unit gateway_action" where
  "drop_channel i = andthen (remove_subscription i) (\<lambda>_. on_cache (gc_channels_update (AList.delete i)))"

definition add_channel :: "channel \<Rightarrow> unit gateway_action" where
  "add_channel c =
     andthen (on_cache (gc_channels_update (AList.update (channel_id c) c))) (\<lambda>_. insert_subscription (channel_id c))"

text \<open>The channels of the server that are not cached, as far as they can be read and viewed.\<close>

definition load_channels :: "env \<Rightarrow> world \<Rightarrow> string list \<Rightarrow> channel list gateway_action" where
  "load_channels E w unknowns =
     (if unknowns = [] then ret []
      else case fst (fetch_channels unknowns (db w)) of
        Ok cs \<Rightarrow>
          andthen (gets cs_cache) (\<lambda>cache.
          andthen (lift (filter_accessible_channels E w cache cs)) (\<lambda>viewable.
          andthen (for_each add_channel viewable) (\<lambda>_.
          ret viewable)))
      | _ \<Rightarrow> ret [])"

definition recalculate_server :: "env \<Rightarrow> world \<Rightarrow> string \<Rightarrow> gateway_event \<Rightarrow> gateway_event gateway_action" where
  "recalculate_server E w sid ev =
     andthen (gets cs_cache) (\<lambda>cache.
       case map_of (gc_servers cache) sid of
         None \<Rightarrow> ret ev
       | Some server \<Rightarrow>
           andthen (lift (sort_channels E w cache sid (gc_channels cache))) (\<lambda>(added, removed).
           andthen (for_each insert_subscription added) (\<lambda>_.
           andthen (for_each drop_channel removed) (\<lambda>_.
           andthen (load_channels E w (env_iteration E (set (server_channels server) - (set added \<union> set removed)))) (\<lambda>loaded.
           let bulk = map (\<lambda>i. Plain (ChannelDelete i)) removed @ map (\<lambda>c. Plain (ChannelCreate c)) loaded in
           ret (if bulk = [] then ev else Bulk (bulk @ [ev])))))))"

text \<open>The cache of the last 20 ids of updates, least recently used first.\<close>

definition seen_events_size :: nat where
  "seen_events_size = 20"

definition see_event :: "string \<Rightarrow> string list \<Rightarrow> string list" where
  "see_event i seen = (let s = removeAll i seen @ [i] in drop (length s - seen_events_size) s)"

definition once :: "string option \<Rightarrow> gateway_event \<Rightarrow> (bool \<times> gateway_event) gateway_action" where
  "once event_id ev =
     (case event_id of
        None \<Rightarrow> ret (True, ev)
      | Some i \<Rightarrow>
          andthen (gets (\<lambda>s. gc_seen_events (cs_cache s))) (\<lambda>seen.
            if i \<in> set seen then ret (False, ev)
            else andthen (on_cache (gc_seen_events_update (see_event i))) (\<lambda>_. ret (True, ev))))"

text \<open>\<open>ChannelUpdate\<close>: the cached channel follows, and a change of its visibility becomes a creation or deletion.\<close>

definition follow_channel_update ::
    "env \<Rightarrow> world \<Rightarrow> string \<Rightarrow> partial_channel \<Rightarrow> fields_channel list \<Rightarrow> gateway_event gateway_action" where
  "follow_channel_update E w i data clear =
     andthen (gets cs_cache) (\<lambda>cache.
     andthen (case map_of (gc_channels cache) i of Some c \<Rightarrow> lift (can_view_channel E w cache c) | None \<Rightarrow> ret False) (\<lambda>could_view.
     andthen (on_cache (\<lambda>cache.
        case map_of (gc_channels cache) i of
          Some c \<Rightarrow> cache\<lparr>gc_channels := AList.update i (channel_apply_options data (channel_remove_fields clear c)) (gc_channels cache)\<rparr>
        | None \<Rightarrow> (case fst (fetch_channel i (db w)) of
            Ok c \<Rightarrow> cache\<lparr>gc_channels := AList.update i c (gc_channels cache)\<rparr> | _ \<Rightarrow> cache))) (\<lambda>_.
     andthen (gets cs_cache) (\<lambda>cache.
       case map_of (gc_channels cache) i of
         None \<Rightarrow> ret (Plain (ChannelUpdate i data clear))
       | Some c \<Rightarrow>
           andthen (lift (can_view_channel E w cache c)) (\<lambda>can_view.
             if could_view = can_view then ret (Plain (ChannelUpdate i data clear))
             else if can_view then andthen (insert_subscription i) (\<lambda>_. ret (Plain (ChannelCreate c)))
             else andthen (remove_subscription i) (\<lambda>_. ret (Plain (ChannelDelete i))))))))"

text \<open>Leaving a server, or its deletion.\<close>

definition forget_server :: "string \<Rightarrow> unit gateway_action" where
  "forget_server sid =
     andthen (remove_subscription sid) (\<lambda>_.
     andthen (gets (\<lambda>s. map_of (gc_servers (cs_cache s)) sid)) (\<lambda>server.
     andthen (on_cache (gc_servers_update (AList.delete sid))) (\<lambda>_.
     andthen (case server of Some s \<Rightarrow> for_each drop_channel (server_channels s) | None \<Rightarrow> ret ()) (\<lambda>_.
     on_cache (gc_members_update (AList.delete sid))))))"

definition holds_role :: "gateway_cache \<Rightarrow> string \<Rightarrow> string \<Rightarrow> bool" where
  "holds_role cache sid rid = (case map_of (gc_members cache) sid of Some m \<Rightarrow> rid \<in> set (member_roles m) | None \<Rightarrow> False)"

definition change_server :: "string \<Rightarrow> (server \<Rightarrow> server) \<Rightarrow> gateway_cache \<Rightarrow> gateway_cache" where
  "change_server sid f cache =
     (case map_of (gc_servers cache) sid of
        Some s \<Rightarrow> cache\<lparr>gc_servers := AList.update sid (f s) (gc_servers cache)\<rparr> | None \<Rightarrow> cache)"

definition change_role :: "string \<Rightarrow> (role \<Rightarrow> role) \<Rightarrow> server \<Rightarrow> server" where
  "change_role rid f s =
     (case map_of (server_roles s) rid of
        Some r \<Rightarrow> s\<lparr>server_roles := AList.update rid (f r) (server_roles s)\<rparr> | None \<Rightarrow> s)"

text \<open>The events of the models. An event that the gateway does not follow passes as it is.\<close>

definition follow :: "env \<Rightarrow> world \<Rightarrow> event_v1 \<Rightarrow> (bool \<times> gateway_event) gateway_action" where
  "follow E w ev =
     (let pass = (\<lambda>_ :: unit. ret (True, Plain ev));
          recalculate = (\<lambda>sid. andthen (recalculate_server E w sid (Plain ev)) (\<lambda>ev'. ret (True, ev'))) in
      case ev of
        ChannelCreate c \<Rightarrow>
          andthen (insert_subscription (channel_id c)) (\<lambda>_.
          andthen (on_cache (gc_channels_update (AList.update (channel_id c) c))) pass)
      | ChannelUpdate i data clear \<Rightarrow> andthen (follow_channel_update E w i data clear) (\<lambda>ev'. ret (True, ev'))
      | ChannelDelete i \<Rightarrow> andthen (drop_channel i) pass
      | ChannelGroupJoin i u \<Rightarrow> andthen (insert_subscription u) pass
      | ChannelGroupLeave i u \<Rightarrow>
          andthen (gets cs_cache) (\<lambda>cache.
            if u = gc_user_id cache then andthen (remove_subscription i) pass
            else if \<not> can_subscribe_to_user cache u then andthen (remove_subscription u) pass
            else pass ())
      | ServerCreate sid server cs _ _ \<Rightarrow>
          andthen (insert_subscription sid) (\<lambda>_.
          andthen (gets (\<lambda>s. gc_is_bot (cs_cache s))) (\<lambda>is_bot.
          andthen (if is_bot then insert_subscription (sid @ ''u'') else ret ()) (\<lambda>_.
          andthen (on_cache (\<lambda>cache. cache\<lparr>
             gc_servers := AList.update sid server (gc_servers cache),
             gc_members := AList.update sid (member_new (env_now E) \<lparr>key_server = server_id server, key_user = gc_user_id cache\<rparr>) (gc_members cache),
             gc_channels := fold (\<lambda>c. AList.update (channel_id c) c) cs (gc_channels cache)\<rparr>)) (\<lambda>_.
          recalculate sid))))
      | ServerUpdate sid data clear \<Rightarrow>
          andthen (on_cache (change_server sid (\<lambda>s. apply_server (env_structs E) data (fold server_remove_field clear s)))) (\<lambda>_.
          if ps_default_permissions data \<noteq> None then recalculate sid else pass ())
      | ServerMemberLeave sid u _ \<Rightarrow>
          andthen (gets (\<lambda>s. gc_user_id (cs_cache s))) (\<lambda>me. if u = me then andthen (forget_server sid) pass else pass ())
      | ServerDelete sid \<Rightarrow> andthen (forget_server sid) pass
      | ServerMemberUpdate k data clear \<Rightarrow>
          andthen (gets (\<lambda>s. gc_user_id (cs_cache s))) (\<lambda>me.
            if key_user k = me then
              andthen (on_cache (\<lambda>cache.
                 case map_of (gc_members cache) (key_server k) of
                   Some m \<Rightarrow> cache\<lparr>gc_members :=
                     AList.update (key_server k) (apply_member (env_structs E) data (fold member_remove_field clear m)) (gc_members cache)\<rparr>
                 | None \<Rightarrow> cache)) (\<lambda>_.
              if pm_roles data \<noteq> None \<or> MemberRoles \<in> set clear then recalculate (key_server k) else pass ())
            else pass ())
      | ServerRoleUpdate sid rid data clear \<Rightarrow>
          andthen (on_cache (change_server sid (change_role rid (\<lambda>r. apply_role (env_structs E) data (fold role_remove_field clear r))))) (\<lambda>_.
          andthen (gets cs_cache) (\<lambda>cache.
            if (pr_rank data \<noteq> None \<or> pr_permissions data \<noteq> None) \<and> holds_role cache sid rid then recalculate sid else pass ()))
      | ServerRoleDelete sid rid \<Rightarrow>
          andthen (on_cache (change_server sid (\<lambda>s. s\<lparr>server_roles := AList.delete rid (server_roles s)\<rparr>))) (\<lambda>_.
          andthen (gets cs_cache) (\<lambda>cache. if holds_role cache sid rid then recalculate sid else pass ()))
      | UserUpdate i data clear event_id \<Rightarrow> once event_id (Plain (UserUpdate i data clear None))
      | _ \<Rightarrow> pass ())"

definition handle_incoming_event_v1 :: "env \<Rightarrow> world \<Rightarrow> gateway_event \<Rightarrow> (bool \<times> gateway_event) gateway_action" where
  "handle_incoming_event_v1 E w ev =
     (case ev of
        Plain e \<Rightarrow> follow E w e
      | WirePresence i online event_id \<Rightarrow> once event_id (WirePresence i online None)
      | WireRelationship i v \<Rightarrow>
          andthen (on_cache (gc_users_update (AList.update i (user_from_wire v)))) (\<lambda>_.
          andthen (gets cs_cache) (\<lambda>cache.
          andthen (if can_subscribe_to_user cache i then insert_subscription i else remove_subscription i) (\<lambda>_.
          ret (True, ev))))
      | WireMessage m (Some v) \<Rightarrow>
          andthen clone_user (\<lambda>me. ret (True, WireMessage m (Some (v\<lparr>v0u_relationship := relationship_with me (msg_author m)\<rparr>))))
      | _ \<Rightarrow> ret (True, ev))"

text \<open>\<open>broadcast_presence_change\<close>: the topics and events that are published, or none when events are disabled or the user is invisible.
  The \<open>unwrap\<close> of the own user can panic.\<close>

definition broadcast_presence_change :: "bool \<Rightarrow> string \<Rightarrow> bool \<Rightarrow> gateway_cache \<Rightarrow> (string \<times> gateway_event) list result" where
  "broadcast_presence_change disabled event_id target cache =
     (if disabled then Ok []
      else case map_of (gc_users cache) (gc_user_id cache) of
        None \<Rightarrow> Panic
      | Some u \<Rightarrow>
          let ev = WirePresence (gc_user_id cache) target (Some event_id) in
          Ok (if is_invisible u then []
              else map (\<lambda>sid. (sid, ev)) (map fst (gc_servers cache)) @ [(gc_user_id cache, ev)]))"

section \<open>The first payload\<close>

text \<open>Reading the world without changing it.\<close>

definition reading :: "world \<Rightarrow> 'a world_action \<Rightarrow> 'a gateway_action" where
  "reading w m = lift (fst (m w))"

definition shown_when :: "bool \<Rightarrow> 'a gateway_action \<Rightarrow> 'a option gateway_action" where
  "shown_when b m = (if b then andthen m (\<lambda>x. ret (Some x)) else ret None)"

fun recipients_of :: "channel \<Rightarrow> string list" where
  "recipients_of (DirectMessage _ _ recipients _) = recipients"
| "recipients_of (Group _ g) = grp_recipients g"
| "recipients_of _ = []"

text \<open>The voice states of the channels that can have one, and their participants; a failed read counts as no state.\<close>

fun voice_states_of :: "env \<Rightarrow> world \<Rightarrow> channel list \<Rightarrow> (channel \<times> string \<times> user_voice_state list) list" where
  "voice_states_of E w [] = []"
| "voice_states_of E w (c # cs) =
     (if channel_voice c \<noteq> None
      then case fst (get_channel_voice_state E (uvc_from_channel c) w) of
             Ok (Some state) \<Rightarrow> (c, state) # voice_states_of E w cs
           | _ \<Rightarrow> voice_states_of E w cs
      else voice_states_of E w cs)"

definition participants :: "string \<times> user_voice_state list \<Rightarrow> string set" where
  "participants state = vs_id ` set (snd state)"

text \<open>The members that take part in the calls of a server, server by server.\<close>

definition voice_servers :: "env \<Rightarrow> (channel \<times> string \<times> user_voice_state list) list \<Rightarrow> string list" where
  "voice_servers E states = env_iteration E {sid. \<exists>(c, state) \<in> set states. channel_server c = Some sid}"

fun voice_members :: "env \<Rightarrow> world \<Rightarrow> (channel \<times> string \<times> user_voice_state list) list \<Rightarrow> string list \<Rightarrow> member list gateway_action" where
  "voice_members E w states [] = ret []"
| "voice_members E w states (sid # sids) =
     andthen (reading w (on_db (fetch_members sid
       (env_iteration E (\<Union>(c, state) \<in> set states. if channel_server c = Some sid then participants state else {}))))) (\<lambda>ms.
     andthen (voice_members E w states sids) (\<lambda>rest.
     ret (ms @ rest)))"

definition keyed :: "('a \<Rightarrow> 'k) \<Rightarrow> 'a list \<Rightarrow> ('k, 'a) hashmap" where
  "keyed key xs = fold (\<lambda>x. AList.update (key x) x) xs []"

text \<open>The subscriptions that go with a payload, after a reset.\<close>

definition subscribe_all :: "bool \<Rightarrow> v0_user list \<Rightarrow> server list \<Rightarrow> channel list \<Rightarrow> unit gateway_action" where
  "subscribe_all is_bot users servers channels =
     andthen reset_state (\<lambda>_.
     andthen (gets cs_private_topic) (\<lambda>topic.
     andthen (insert_subscription topic) (\<lambda>_.
     andthen (for_each (\<lambda>u. insert_subscription (v0u_id u)) users) (\<lambda>_.
     andthen (for_each (\<lambda>s. andthen (insert_subscription (server_id s)) (\<lambda>_.
        if is_bot then insert_subscription (server_id s @ ''u'') else ret ())) servers) (\<lambda>_.
     for_each (\<lambda>c. insert_subscription (channel_id c)) channels)))))"

definition generate_ready_payload :: "env \<Rightarrow> users_env \<Rightarrow> world \<Rightarrow> ready_payload_fields \<Rightarrow> gateway_event gateway_action" where
  "generate_ready_payload E UE w want =
     andthen clone_user (\<lambda>me.
     andthen (on_cache (gc_is_bot_update (\<lambda>_. user_bot me \<noteq> None))) (\<lambda>_.
     andthen (shown_when (\<not> (user_bot me \<noteq> None \<or> \<not> rf_policy_changes want)) (andthen (reading w (on_db fetch_policy_changes)) (\<lambda>ps.
        ret (filter (\<lambda>p. policy_created_time p > last_acknowledged_policy_change me) ps)))) (\<lambda>policy_changes.
     andthen (reading w (on_db (fetch_all_memberships (user_id me)))) (\<lambda>memberships.
     andthen (reading w (on_db (fetch_servers (map (\<lambda>m. key_server (member_id m)) memberships)))) (\<lambda>servers.
     andthen (on_cache (gc_servers_update (\<lambda>_. keyed server_id servers))) (\<lambda>_.
     andthen (reading w (on_db (find_direct_messages (user_id me)))) (\<lambda>dms.
     andthen (reading w (on_db (fetch_channels (concat (map server_channels servers))))) (\<lambda>server_chans.
     andthen (gets cs_cache) (\<lambda>cache.
     andthen (lift (filter_accessible_channels E w cache (dms @ server_chans))) (\<lambda>channels.
     let states = (if rf_voice_states want then voice_states_of E w channels else []);
         user_ids = rel_id ` set (own_relations me) \<union> \<Union>(set ` recipients_of ` set channels) \<union> (\<Union>(c, state) \<in> set states. participants state) in
     andthen (voice_members E w states (voice_servers E states)) (\<lambda>others.
     let members = memberships @ others in
     andthen (reading w (on_db (fetch_users (env_iteration E (user_ids - {user_id me}))))) (\<lambda>users.
     andthen (on_cache (gc_members_update (\<lambda>_. keyed (\<lambda>m. key_server (member_id m)) members))) (\<lambda>_.
     andthen (shown_when (rf_emojis want) (reading w (on_db (fetch_emoji_by_parent_ids (map server_id servers))))) (\<lambda>emojis.
     andthen (shown_when (rf_user_settings want \<noteq> []) (reading w (on_db (fetch_user_settings (user_id me) (rf_user_settings want))))) (\<lambda>settings.
     andthen (shown_when (rf_channel_unreads want) (reading w (on_db (fetch_unreads (user_id me))))) (\<lambda>unreads.
     andthen (on_cache (\<lambda>cache. cache\<lparr>gc_users := AList.update (gc_user_id cache) me (keyed user_id users), gc_channels := keyed channel_id channels\<rparr>)) (\<lambda>_.
     andthen (reading w (map_action (\<lambda>u. user_into_known E UE u (Some me) (user_id u \<in> user_ids \<and> env_online E (user_id u))) users)) (\<lambda>others_shown.
     andthen (reading w (user_into_self E UE me True)) (\<lambda>me_shown.
     let shown = others_shown @ [me_shown] in
     andthen (subscribe_all (user_bot me \<noteq> None) shown servers channels) (\<lambda>_.
     ret (Ready \<lparr>ready_users = (if rf_users want then Some shown else None), ready_servers = (if rf_servers want then Some servers else None),
        ready_channels = (if rf_channels want then Some channels else None), ready_members = (if rf_members want then Some members else None),
        ready_emojis = emojis, ready_voice_states = (if rf_voice_states want then Some (map snd states) else None),
        ready_user_settings = settings, ready_channel_unreads = unreads, ready_policy_changes = policy_changes\<rparr>)))))))))))))))))))))"

section \<open>The listener\<close>

text \<open>A call to the subscriber of Redis. A call that fails (\<open>accepts\<close>) ends the listener.\<close>

datatype pubsub_call = UnsubscribeAll | Subscribe string | Unsubscribe string

primrec pubsub_effect :: "pubsub_call \<Rightarrow> string set \<Rightarrow> string set" where
  "pubsub_effect UnsubscribeAll topics = {}"
| "pubsub_effect (Subscribe x) topics = insert x topics"
| "pubsub_effect (Unsubscribe x) topics = topics - {x}"

fun run_calls :: "(pubsub_call \<Rightarrow> bool) \<Rightarrow> pubsub_call list \<Rightarrow> string set \<Rightarrow> bool \<times> string set" where
  "run_calls accepts [] topics = (True, topics)"
| "run_calls accepts (c # cs) topics = (if accepts c then run_calls accepts cs (pubsub_effect c topics) else (False, topics))"

definition calls_for :: "env \<Rightarrow> subscription_state_change \<Rightarrow> string set \<Rightarrow> pubsub_call list" where
  "calls_for E change subscribed =
     (case change of
        Reset \<Rightarrow> UnsubscribeAll # map Subscribe (env_iteration E subscribed)
      | Change add remove \<Rightarrow> map Unsubscribe remove @ map Subscribe add
      | NoChange \<Rightarrow> [])"

text \<open>What the listener waits for: a message of Redis, the signal of the worker, the end of the connection or of Redis, a message
  that is lost or cannot be read. Events of the authentication library are about sessions.\<close>

datatype auth_event = DeleteSession string | DeleteAllSessions "string option" | OtherAuth

datatype incoming = TopicSignal | EndSignal | BadMessage | Incoming gateway_event | AuthEvent auth_event

datatype outgoing = Sent gateway_event | SentAuth auth_event | SentLogout

record connection =
  con_state :: client_state
  con_topics :: "string set"
  con_sent :: "outgoing list"
  con_open :: bool

definition logs_out :: "string \<Rightarrow> auth_event \<Rightarrow> bool" where
  "logs_out sid a =
     (case a of
        DeleteSession i \<Rightarrow> sid = i
      | DeleteAllSessions (Some excluded) \<Rightarrow> sid \<noteq> excluded
      | DeleteAllSessions None \<Rightarrow> True
      | OtherAuth \<Rightarrow> False)"

text \<open>The first half of a round: the queued changes are carried to Redis.\<close>

definition listener_sync :: "env \<Rightarrow> (pubsub_call \<Rightarrow> bool) \<Rightarrow> timed_entry list \<Rightarrow> connection \<Rightarrow> connection result" where
  "listener_sync E accepts entries con =
     (case apply_state entries (con_state con) of
        (Ok change, st) \<Rightarrow>
          (case run_calls accepts (calls_for E change (cs_subscribed st)) (con_topics con) of
             (ok, topics) \<Rightarrow> Ok (con\<lparr>con_state := st, con_topics := topics, con_open := ok\<rparr>))
      | (Err e, st) \<Rightarrow> Err e
      | (Panic, st) \<Rightarrow> Panic)"

text \<open>The second half: one message. An event is sent to the client (\<open>delivered\<close> says whether that works), and a log out ends the
  loop.\<close>

definition send_out :: "bool \<Rightarrow> outgoing \<Rightarrow> connection \<Rightarrow> connection" where
  "send_out delivered ev con =
     (if delivered then con\<lparr>con_sent := con_sent con @ [ev], con_open := (ev \<noteq> SentLogout)\<rparr> else con\<lparr>con_open := False\<rparr>)"

definition listener_receive :: "env \<Rightarrow> world \<Rightarrow> bool \<Rightarrow> incoming \<Rightarrow> connection \<Rightarrow> connection result" where
  "listener_receive E w delivered input con =
     (case input of
        TopicSignal \<Rightarrow> Ok con
      | EndSignal \<Rightarrow> Ok (con\<lparr>con_open := False\<rparr>)
      | BadMessage \<Rightarrow> Ok (con\<lparr>con_open := False\<rparr>)
      | AuthEvent a \<Rightarrow> Ok (send_out delivered (if logs_out (cs_session_id (con_state con)) a then SentLogout else SentAuth a) con)
      | Incoming ev \<Rightarrow>
          (case handle_incoming_event_v1 E w ev (con_state con) of
             (Ok (should_send, ev'), st) \<Rightarrow>
               let con' = con\<lparr>con_state := st\<rparr> in
               Ok (if should_send then send_out delivered (if ev' = Plain Logout then SentLogout else Sent ev') con' else con')
           | (Err e, st) \<Rightarrow> Err e
           | (Panic, st) \<Rightarrow> Panic))"

definition listener_round ::
    "env \<Rightarrow> world \<Rightarrow> (pubsub_call \<Rightarrow> bool) \<Rightarrow> timed_entry list \<Rightarrow> bool \<Rightarrow> incoming \<Rightarrow> connection \<Rightarrow> connection result" where
  "listener_round E w accepts entries delivered input con =
     outcome_bind (listener_sync E accepts entries con) (\<lambda>con'.
       if con_open con' then listener_receive E w delivered input con' else Ok con')"

section \<open>The worker\<close>

datatype client_message =
    Authenticate string
  | BeginTyping string
  | EndTyping string
  | SubscribeServer string
  | PingMessage ping bool

text \<open>One decoded message of the client: what is published, what is answered, the server to insert into the timed cache of active
  servers, which pokes the listener when it was not there.\<close>

datatype worker_effect = Publish string gateway_event | Answer gateway_event | Activate string | Nothing

definition worker_step :: "bool \<Rightarrow> string set \<Rightarrow> string \<Rightarrow> client_message \<Rightarrow> worker_effect" where
  "worker_step disabled subscribed uid msg =
     (case msg of
        BeginTyping c \<Rightarrow> if disabled \<or> c \<notin> subscribed then Nothing else Publish c (ChannelStartTyping c uid)
      | EndTyping c \<Rightarrow> if disabled \<or> c \<notin> subscribed then Nothing else Publish c (ChannelStopTyping c uid)
      | SubscribeServer sid \<Rightarrow> Activate sid
      | PingMessage data responded \<Rightarrow> if responded then Nothing else Answer (Pong data)
      | Authenticate _ \<Rightarrow> Nothing)"

section \<open>Parameters of a connection\<close>

datatype protocol_format = Json | Msgpack

record protocol_configuration =
  pc_version :: int
  pc_format :: protocol_format
  pc_session_token :: "string option"
  pc_ready_fields :: ready_payload_fields

definition digit_value :: "char \<Rightarrow> nat option" where
  "digit_value c = (let n = of_char c :: nat in if 48 \<le> n \<and> n \<le> 57 then Some (n - 48) else None)"

fun digits_value :: "nat \<Rightarrow> string \<Rightarrow> nat option" where
  "digits_value acc [] = Some acc"
| "digits_value acc (c # cs) = (case digit_value c of Some d \<Rightarrow> digits_value (10 * acc + d) cs | None \<Rightarrow> None)"

text \<open>\<open>str::parse::<i32>\<close>: an optional sign, at least one digit, and a value in range.\<close>

definition parse_i32 :: "string \<Rightarrow> int option" where
  "parse_i32 s =
     (let (sign, ds) = (case s of c # cs \<Rightarrow> if c = CHR ''-'' then (-1, cs) else if c = CHR ''+'' then (1, cs) else (1, s) | [] \<Rightarrow> (1, []))
      in if ds = [] then None
         else case digits_value 0 ds of
           Some n \<Rightarrow> let v = sign * int n in if - (2 ^ 31) \<le> v \<and> v < 2 ^ 31 then Some v else None
         | None \<Rightarrow> None)"

text \<open>The expression \<open>^(\w+)(?:\[(\S+)\])?$\<close>: the whole match and the first group. A character of \<open>\w\<close> is a letter, a digit or an
  underscore.\<close>

definition is_word :: "char \<Rightarrow> bool" where
  "is_word c = (let n = of_char c :: nat in
     48 \<le> n \<and> n \<le> 57 \<or> 65 \<le> n \<and> n \<le> 90 \<or> n = 95 \<or> 97 \<le> n \<and> n \<le> 122 \<or> n = 170 \<or> n = 181 \<or> n = 186
     \<or> 192 \<le> n \<and> n \<noteq> 215 \<and> n \<noteq> 247)"

definition ready_field_captures :: "string \<Rightarrow> (string \<times> string) option" where
  "ready_field_captures v =
     (let word = takeWhile is_word v; rest = dropWhile is_word v in
      if word = [] then None
      else if rest = [] then Some (v, word)
      else if hd rest = CHR ''['' \<and> length rest > 2 \<and> last rest = CHR '']'' \<and> list_all (\<lambda>c. \<not> is_whitespace c) (butlast (tl rest))
      then Some (v, word)
      else None)"

definition enable_field :: "string \<Rightarrow> ready_payload_fields \<Rightarrow> ready_payload_fields" where
  "enable_field v f =
     (case ready_field_captures v of
        None \<Rightarrow> f
      | Some (whole, word) \<Rightarrow>
          if whole = ''users'' then f\<lparr>rf_users := True\<rparr>
          else if whole = ''servers'' then f\<lparr>rf_servers := True\<rparr>
          else if whole = ''channels'' then f\<lparr>rf_channels := True\<rparr>
          else if whole = ''members'' then f\<lparr>rf_members := True\<rparr>
          else if whole = ''emojis'' then f\<lparr>rf_emojis := True\<rparr>
          else if whole = ''voice_states'' then f\<lparr>rf_voice_states := True\<rparr>
          else if whole = ''channel_unreads'' then f\<lparr>rf_channel_unreads := True\<rparr>
          else if whole = ''user_settings'' then f\<lparr>rf_user_settings := rf_user_settings f @ [word]\<rparr>
          else if whole = ''policy_changes'' then f\<lparr>rf_policy_changes := True\<rparr>
          else f)"

definition no_fields :: ready_payload_fields where
  "no_fields = \<lparr>rf_users = False, rf_servers = False, rf_channels = False, rf_members = False, rf_emojis = False, rf_voice_states = False,
     rf_user_settings = [], rf_channel_unreads = False, rf_policy_changes = False\<rparr>"

definition apply_param :: "string \<times> string \<Rightarrow> protocol_configuration \<Rightarrow> protocol_configuration" where
  "apply_param = (\<lambda>(key, v) c.
     if key = ''version'' then (case parse_i32 v of Some n \<Rightarrow> c\<lparr>pc_version := n\<rparr> | None \<Rightarrow> c)
     else if key = ''format'' then (if v = ''json'' then c\<lparr>pc_format := Json\<rparr> else if v = ''msgpack'' then c\<lparr>pc_format := Msgpack\<rparr> else c)
     else if key = ''token'' then c\<lparr>pc_session_token := Some v\<rparr>
     else if key = ''ready'' then c\<lparr>pc_ready_fields := enable_field v (pc_ready_fields c)\<rparr>
     else c)"

text \<open>\<open>on_request\<close>, on the parameters of the address in their order.\<close>

definition on_request :: "(string \<times> string) list \<Rightarrow> protocol_configuration" where
  "on_request params =
     fold apply_param params \<lparr>pc_version = 1, pc_format = Json, pc_session_token = None,
       pc_ready_fields = (if list_ex (\<lambda>(k, _). k = ''ready'') params then no_fields else ready_payload_fields_default)\<rparr>"

section \<open>The start of a connection\<close>

text \<open>The token of the address, or that of the first message that authenticates (\<open>None\<close> is a message that cannot be decoded).\<close>

fun first_token :: "client_message option list \<Rightarrow> string option" where
  "first_token [] = None"
| "first_token (Some (Authenticate token) # _) = Some token"
| "first_token (_ # msgs) = first_token msgs"

definition token_of :: "protocol_configuration \<Rightarrow> client_message option list \<Rightarrow> string option" where
  "token_of config msgs = (case pc_session_token config of Some t \<Rightarrow> Some t | None \<Rightarrow> first_token msgs)"

text \<open>What is sent until the connection is ready, and its state if it becomes so; every write succeeds.\<close>

definition client_start ::
    "env \<Rightarrow> users_env \<Rightarrow> world \<Rightarrow> (string \<Rightarrow> (string \<times> string) option) \<Rightarrow> error_type \<Rightarrow> protocol_configuration \<Rightarrow> client_message option list
     \<Rightarrow> gateway_event list \<times> client_state option" where
  "client_start E UE w sessions session_error config msgs =
     (case token_of config msgs of
        None \<Rightarrow> ([ErrorEvent InvalidSession], None)
      | Some token \<Rightarrow>
          (case fst (from_token sessions session_error token HintAny w) of
             Err e \<Rightarrow> ([ErrorEvent e], None)
           | Panic \<Rightarrow> ([], None)
           | Ok (u, sid) \<Rightarrow>
               (case generate_ready_payload E UE w (pc_ready_fields config) (state_from u sid) of
                  (Ok ev, st) \<Rightarrow> ([Authenticated, ev], Some st)
                | _ \<Rightarrow> ([Authenticated], None))))"

text \<open>Around the listener and the worker: the first session of a user announces that the user is online, and the end of the last one that
  it is not (\<open>changed\<close> is the answer of \<open>create_session\<close> or \<open>delete_session\<close>).\<close>

definition presence_notice :: "bool \<Rightarrow> string \<Rightarrow> bool \<Rightarrow> bool \<Rightarrow> client_state \<Rightarrow> (string \<times> gateway_event) list result" where
  "presence_notice disabled event_id target changed st =
     (if changed then broadcast_presence_change disabled event_id target (cs_cache st) else Ok [])"

section \<open>Subscriptions stay in step\<close>

text \<open>What Redis is subscribed to (\<open>base\<close>) and a queue of changes give what the state says, and no topic is queued in both directions.\<close>

definition queue_ok :: "string set \<Rightarrow> client_state \<Rightarrow> bool" where
  "queue_ok base s =
     (case cs_state s of
        NoChange \<Rightarrow> cs_subscribed s = base
      | Change add remove \<Rightarrow> set add \<inter> set remove = {} \<and> cs_subscribed s = (base - set remove) \<union> set add
      | Reset \<Rightarrow> False)"

text \<open>The same, where only topics of \<open>I\<close> were added and only topics of \<open>R\<close> removed.\<close>

definition moving :: "string set \<Rightarrow> string set \<Rightarrow> string set \<Rightarrow> client_state \<Rightarrow> bool" where
  "moving I R base s \<longleftrightarrow> queue_ok base s
     \<and> (case cs_state s of Change add remove \<Rightarrow> set add \<subseteq> I \<and> set remove \<subseteq> R | _ \<Rightarrow> True)"

lemma moving_mono: "moving I R base s \<Longrightarrow> I \<subseteq> I' \<Longrightarrow> R \<subseteq> R' \<Longrightarrow> moving I' R' base s"
  by (auto simp: moving_def split: subscription_state_change.splits)

lemma moving_queue: "moving I R base s \<Longrightarrow> queue_ok base s"
  by (simp add: moving_def)

lemma moving_cache [simp]: "moving I R base (cs_cache_update f s) = moving I R base s"
  by (simp add: moving_def queue_ok_def split: subscription_state_change.split)

lemma keeps_on_cache [simp]: "keeps (moving I R base) (on_cache f)"
  by (rule keeps_modify) simp

lemma insert_moving: "x \<in> I \<Longrightarrow> I \<inter> R = {} \<Longrightarrow> keeps (moving I R base) (insert_subscription x)"
  by (rule keepsI)
    (auto simp: moving_def queue_ok_def insert_subscription_def andthen_def gets_def modify_def ret_def split: subscription_state_change.splits)

lemma remove_moving: "x \<in> R \<Longrightarrow> I \<inter> R = {} \<Longrightarrow> keeps (moving I R base) (remove_subscription x)"
  by (rule keepsI)
    (auto simp: moving_def queue_ok_def remove_subscription_def andthen_def gets_def modify_def ret_def split: subscription_state_change.splits)

text \<open>The panic of \<open>remove_subscription\<close> is not reached after the first round.\<close>

lemma remove_no_panic: "queue_ok base s \<Longrightarrow> fst (remove_subscription x s) = Ok ()"
  by (auto simp: queue_ok_def remove_subscription_def andthen_def gets_def modify_def ret_def split: subscription_state_change.splits)

lemma for_each_moving: "(\<And>x. x \<in> set xs \<Longrightarrow> keeps P (f x)) \<Longrightarrow> keeps P (for_each f xs)"
  by (induction xs) (auto intro: keeps_andthen)

lemma keeps_lift [simp]: "keeps P (lift r)"
  by (simp add: keeps_def lift_def)

lemmas moving_rules = keeps_andthen for_each_moving insert_moving remove_moving

lemma drop_channel_moving: "x \<in> R \<Longrightarrow> I \<inter> R = {} \<Longrightarrow> keeps (moving I R base) (drop_channel x)"
  unfolding drop_channel_def by (auto intro!: moving_rules)

lemma add_channel_moving: "channel_id c \<in> I \<Longrightarrow> I \<inter> R = {} \<Longrightarrow> keeps (moving I R base) (add_channel c)"
  unfolding add_channel_def by (auto intro!: moving_rules)

lemma sort_channels_disjoint:
  assumes "sort_channels E w cache sid xs = Ok (added, removed)" and "distinct (map fst xs)"
  shows "set added \<union> set removed \<subseteq> set (map fst xs)" and "set added \<inter> set removed = {}"
proof -
  have "set added \<union> set removed \<subseteq> set (map fst xs) \<and> set added \<inter> set removed = {}"
    using assms
  proof (induction xs arbitrary: added removed)
    case (Cons x xs)
    obtain k c where x: "x = (k, c)" by (cases x)
    show ?case
    proof (cases "channel_server c = Some sid")
      case True
      then obtain v a r where "can_view_channel E w cache c = Ok v" and rest: "sort_channels E w cache sid xs = Ok (a, r)"
        and "(added, removed) = (if v then (k # a, r) else (a, k # r))"
        using Cons.prems x by (cases "can_view_channel E w cache c"; cases "sort_channels E w cache sid xs") auto
      moreover have "k \<notin> set (map fst xs)" using Cons.prems(2) x by simp
      ultimately show ?thesis using Cons.IH [OF rest] Cons.prems(2) x by (cases v) auto
    qed (use Cons x in auto)
  qed simp
  then show "set added \<union> set removed \<subseteq> set (map fst xs)" and "set added \<inter> set removed = {}" by auto
qed

definition channels_keyed :: "world \<Rightarrow> bool" where
  "channels_keyed w \<longleftrightarrow> (\<forall>i c. map_of (stored_channels w) i = Some c \<longrightarrow> channel_id c = i)"

lemma fetched_ids:
  assumes "channels_keyed w" and "fst (fetch_channels ids (db w)) = Ok cs"
  shows "channel_id ` set cs \<subseteq> set ids"
proof -
  have "lookup_all (stored_channels w) NotFound ids = Ok cs"
    using assms(2) by (simp add: fetch_channels_def lift_def)
  then have "map Some cs = map (map_of (stored_channels w)) ids" by (rule lookup_all_values)
  then have "\<exists>i \<in> set ids. map_of (stored_channels w) i = Some c" if "c \<in> set cs" for c
    using that by (metis (no_types, lifting) image_eqI image_iff list.set_map)
  with assms(1) show ?thesis by (fastforce simp: channels_keyed_def)
qed

lemma accessible_subset: "filter_accessible_channels E w cache cs = Ok vs \<Longrightarrow> set vs \<subseteq> set cs"
proof (induction cs arbitrary: vs)
  case (Cons c cs)
  then show ?case
    by (cases "can_view_channel E w cache c"; cases "filter_accessible_channels E w cache cs") (auto split: if_splits)
qed simp

lemma load_channels_moving:
  assumes "channels_keyed w" and "set ids \<subseteq> I" and "I \<inter> R = {}"
  shows "keeps (moving I R base) (load_channels E w ids)"
proof (cases "fst (fetch_channels ids (db w))")
  case (Ok cs)
  have ids: "channel_id ` set cs \<subseteq> I" using fetched_ids [OF assms(1) Ok] assms(2) by blast
  have add: "keeps (moving I R base) (for_each add_channel vs)" if "set vs \<subseteq> set cs" for vs
    using ids that assms(3) by (intro for_each_moving add_channel_moving) auto
  have "keeps (moving I R base) (andthen (lift (filter_accessible_channels E w cache cs)) (\<lambda>viewable.
      andthen (for_each add_channel viewable) (\<lambda>_. ret viewable)))" for cache
  proof (cases "filter_accessible_channels E w cache cs")
    case (Ok vs)
    with add [OF accessible_subset [OF Ok]] show ?thesis
      by (auto simp: andthen_def lift_def keeps_def ret_def split: prod.splits outcome.splits)
  qed (simp_all add: andthen_def lift_def keeps_def)
  then have "keeps (moving I R base) (andthen (gets cs_cache) (\<lambda>cache. andthen (lift (filter_accessible_channels E w cache cs)) (\<lambda>viewable.
      andthen (for_each add_channel viewable) (\<lambda>_. ret viewable))))" by (rule keeps_andthen [OF keeps_gets])
  then show ?thesis using Ok by (simp add: load_channels_def)
qed (simp_all add: load_channels_def)

text \<open>A recalculation adds channels that can be viewed, removes cached channels that cannot, and nothing both ways.\<close>

lemma recalculate_moving:
  assumes "moving J {} base s" and "hm_wf (gc_channels (cs_cache s))" and "\<forall>k \<in> set (map fst (gc_channels (cs_cache s))). k \<notin> J"
    and "channels_keyed w" and "iteration_laws (env_iteration E)"
  shows "queue_ok base (snd (recalculate_server E w sid ev s))"
proof (cases "map_of (gc_servers (cs_cache s)) sid")
  case None
  then show ?thesis using assms(1) by (simp add: recalculate_server_def ret_def moving_queue)
next
  case (Some server)
  let ?cache = "cs_cache s"
  show ?thesis
  proof (cases "sort_channels E w ?cache sid (gc_channels ?cache)")
    case (Ok y)
    obtain added removed where y: "y = (added, removed)" by (cases y)
    note sorted = sort_channels_disjoint [OF Ok [unfolded y], folded hm_wf_def, OF assms(2)]
    let ?unknown = "set (server_channels server) - (set added \<union> set removed)"
    let ?I = "J \<union> set added \<union> ?unknown" and ?R = "set removed"
    have apart: "?I \<inter> ?R = {}" using sorted assms(3) by auto
    have ids: "set (env_iteration E ?unknown) \<subseteq> ?I" using iteration_laws.order_set [OF assms(5), of ?unknown] by simp
    let ?rest = "andthen (for_each insert_subscription added) (\<lambda>_. andthen (for_each drop_channel removed) (\<lambda>_.
       andthen (load_channels E w (env_iteration E ?unknown)) (\<lambda>loaded.
         let bulk = map (\<lambda>i. Plain (ChannelDelete i)) removed @ map (\<lambda>c. Plain (ChannelCreate c)) loaded in
         ret (if bulk = [] then ev else Bulk (bulk @ [ev])))))"
    have "keeps (moving ?I ?R base) ?rest"
      using apart load_channels_moving [OF assms(4) ids apart]
      by (auto simp: Let_def intro!: keeps_andthen for_each_moving insert_moving drop_channel_moving)
    moreover have "moving ?I ?R base s" using assms(1) by (rule moving_mono) auto
    ultimately have "moving ?I ?R base (snd (?rest s))" by (rule keepsD)
    then show ?thesis using Some Ok y by (simp add: recalculate_server_def andthen_lift moving_queue)
  qed (use Some assms(1) in \<open>simp_all add: recalculate_server_def andthen_lift moving_queue\<close>)
qed

lemma channel_update_queue:
  assumes "moving {} {} base s"
  shows "queue_ok base (snd (follow_channel_update E w i data clear s))"
proof -
  have ins: "queue_ok base (snd (insert_subscription i s'))" and rem: "queue_ok base (snd (remove_subscription i s'))"
    if "moving {} {} base s'" for s'
  proof -
    have "moving {i} {} base s'" "moving {} {i} base s'" using moving_mono [OF that] by auto
    then show "queue_ok base (snd (insert_subscription i s'))" "queue_ok base (snd (remove_subscription i s'))"
      using keepsD [OF insert_moving [of i "{i}" "{}" base]] keepsD [OF remove_moving [of i "{i}" "{}" base]] by (auto intro: moving_queue)
  qed
  have ends: "queue_ok base (snd (andthen (insert_subscription i) (\<lambda>_. ret x) s'))" "queue_ok base (snd (andthen (remove_subscription i) (\<lambda>_. ret y) s'))"
      "queue_ok base (snd (ret z s'))" "queue_ok base s'"
    if "moving {} {} base s'" for s' and x y z :: gateway_event
    using ins [OF that] rem [OF that] moving_queue [OF that] by (auto simp: andthen_def ret_def split: prod.split outcome.split)
  let ?step = "\<lambda>cache. case map_of (gc_channels cache) i of
          Some c \<Rightarrow> cache\<lparr>gc_channels := AList.update i (channel_apply_options data (channel_remove_fields clear c)) (gc_channels cache)\<rparr>
        | None \<Rightarrow> (case fst (fetch_channel i (db w)) of
            Ok c \<Rightarrow> cache\<lparr>gc_channels := AList.update i c (gc_channels cache)\<rparr> | _ \<Rightarrow> cache)"
  define s' where "s' = cs_cache_update ?step s"
  have s': "moving {} {} base s'" using assms by (simp add: s'_def)
  define rest where "rest could_view = andthen (gets cs_cache) (\<lambda>cache.
       case map_of (gc_channels cache) i of
         None \<Rightarrow> ret (Plain (ChannelUpdate i data clear))
       | Some c \<Rightarrow>
           andthen (lift (can_view_channel E w cache c)) (\<lambda>can_view.
             if could_view = can_view then ret (Plain (ChannelUpdate i data clear))
             else if can_view then andthen (insert_subscription i) (\<lambda>_. ret (Plain (ChannelCreate c)))
             else andthen (remove_subscription i) (\<lambda>_. ret (Plain (ChannelDelete i)))))" for could_view
  have "queue_ok base (snd (rest could_view s'))" for could_view
    using ends [OF s'] by (auto simp: rest_def andthen_lift split: option.split outcome.split)
  moreover have "snd (follow_channel_update E w i data clear s) = s \<or> (\<exists>v. snd (follow_channel_update E w i data clear s) = snd (rest v s'))"
  proof -
    let ?view = "case map_of (gc_channels (cs_cache s)) i of Some c \<Rightarrow> lift (can_view_channel E w (cs_cache s) c) | None \<Rightarrow> ret False"
    have pure: "snd (?view s) = s" by (simp add: lift_def ret_def split: option.split)
    have "follow_channel_update E w i data clear s = andthen ?view (\<lambda>v. andthen (on_cache ?step) (\<lambda>_. rest v)) s"
      by (simp add: follow_channel_update_def rest_def)
    with pure show ?thesis
      by (cases "?view s"; cases "fst (?view s)") (auto simp: andthen_def modify_def s'_def)
  qed
  ultimately show ?thesis using ends(4) [OF assms] by metis
qed

lemma snd_andthen_ret: "snd (andthen m (\<lambda>x. ret (f x)) s) = snd (m s)"
  by (simp add: andthen_def ret_def split: prod.split outcome.split)

lemma change_server_channels [simp]: "gc_channels (change_server sid f cache) = gc_channels cache"
  by (simp add: change_server_def split: option.split)

text \<open>Ids of channels are not those of servers, nor of their topics for members.\<close>

definition apart :: "gateway_event \<Rightarrow> client_state \<Rightarrow> bool" where
  "apart ev s =
     (case ev of
        Plain (ServerCreate sid _ cs _ _) \<Rightarrow>
          (\<forall>k \<in> set (map fst (gc_channels (cs_cache s))) \<union> channel_id ` set cs. k \<noteq> sid \<and> k \<noteq> sid @ ''u'')
      | _ \<Rightarrow> True)"

lemma keys_fold_update:
  "set (map fst (fold (\<lambda>c. AList.update (channel_id c) c) cs m)) = set (map fst m) \<union> channel_id ` set cs"
proof (induction cs arbitrary: m)
  case (Cons c cs)
  have "set (map fst (AList.update (channel_id c) c m)) = insert (channel_id c) (set (map fst m))"
    by (simp add: dom_map_of_conv_image_fst [symmetric] hm_lookup_update)
  with Cons show ?case by simp
qed simp

lemma wf_fold_update: "hm_wf m \<Longrightarrow> hm_wf (fold (\<lambda>c. AList.update (channel_id c) c) cs m)"
  by (induction cs arbitrary: m) (simp_all add: hm_wf_def distinct_update)

lemma server_create_queue:
  assumes "moving {} {} base s" and "hm_wf (gc_channels (cs_cache s))" and "apart (Plain (ServerCreate sid server cs es vs)) s"
    and "channels_keyed w" and "iteration_laws (env_iteration E)"
  shows "queue_ok base (snd (follow E w (ServerCreate sid server cs es vs) s))"
proof -
  let ?J = "{sid, sid @ ''u''}"
  let ?subs = "andthen (insert_subscription sid) (\<lambda>_. andthen (gets (\<lambda>s. gc_is_bot (cs_cache s))) (\<lambda>is_bot.
     if is_bot then insert_subscription (sid @ ''u'') else ret ()))"
  let ?step = "\<lambda>cache. cache\<lparr>
     gc_servers := AList.update sid server (gc_servers cache),
     gc_members := AList.update sid (member_new (env_now E) \<lparr>key_server = server_id server, key_user = gc_user_id cache\<rparr>) (gc_members cache),
     gc_channels := fold (\<lambda>c. AList.update (channel_id c) c) cs (gc_channels cache)\<rparr>"
  have "keeps (moving ?J {} base) ?subs" by (auto intro!: moving_rules)
  moreover have "moving ?J {} base s" using assms(1) by (rule moving_mono) auto
  ultimately have moved: "moving ?J {} base (snd (?subs s))" by (rule keepsD)
  have cache: "cs_cache (snd (?subs s)) = cs_cache s" and ok: "fst (?subs s) = Ok ()"
    by (auto simp: insert_subscription_def andthen_def gets_def modify_def ret_def)
  define s' where "s' = cs_cache_update ?step (snd (?subs s))"
  have "moving ?J {} base s'" "hm_wf (gc_channels (cs_cache s'))" "\<forall>k \<in> set (map fst (gc_channels (cs_cache s'))). k \<notin> ?J"
    using moved assms(2,3) keys_fold_update [of cs "gc_channels (cs_cache s)"] by (auto simp: s'_def cache wf_fold_update apart_def)
  from recalculate_moving [OF this assms(4,5)]
  have "queue_ok base (snd (recalculate_server E w sid (Plain (ServerCreate sid server cs es vs)) s'))" .
  moreover have "follow E w (ServerCreate sid server cs es vs) s
     = andthen (recalculate_server E w sid (Plain (ServerCreate sid server cs es vs))) (\<lambda>ev'. ret (True, ev')) s'"
  proof -
    have "follow E w (ServerCreate sid server cs es vs) s = andthen ?subs (\<lambda>_. andthen (on_cache ?step) (\<lambda>_.
        andthen (recalculate_server E w sid (Plain (ServerCreate sid server cs es vs))) (\<lambda>ev'. ret (True, ev')))) s"
      by (simp add: follow_def andthen_assoc)
    also have "\<dots> = andthen (recalculate_server E w sid (Plain (ServerCreate sid server cs es vs))) (\<lambda>ev'. ret (True, ev')) s'"
      using ok by (cases "?subs s") (simp add: andthen_def [of ?subs] s'_def)
    finally show ?thesis .
  qed
  ultimately show ?thesis by (simp add: snd_andthen_ret)
qed

text \<open>Every event leaves a queue that gives what the state says.\<close>

lemma follow_queue:
  assumes idle: "moving {} {} base s" and wf: "hm_wf (gc_channels (cs_cache s))" and "apart (Plain ev) s"
    and w: "channels_keyed w" and E: "iteration_laws (env_iteration E)"
  shows "queue_ok base (snd (follow E w ev s))"
proof -
  have recalc: "queue_ok base (snd (andthen (recalculate_server E w sid e) (\<lambda>ev'. ret (True, ev')) s'))"
    if "moving {} {} base s'" "gc_channels (cs_cache s') = gc_channels (cs_cache s)" for sid e s'
    using recalculate_moving [OF that(1) _ _ w E] wf that(2) by (simp add: snd_andthen_ret)
  have one: "queue_ok base (snd (m s))" if "keeps (moving I R base) m" for I R and m :: "(bool \<times> gateway_event) gateway_action"
    using keepsD [OF that moving_mono [OF idle]] by (simp add: moving_queue)
  show ?thesis
  proof (cases ev)
    case (ServerCreate sid server cs es vs)
    with server_create_queue [OF idle wf _ w E] assms(3) show ?thesis by simp
  next
    case (ChannelUpdate i data clear)
    with channel_update_queue [OF idle] show ?thesis by (simp add: follow_def snd_andthen_ret)
  next
    case (ServerUpdate sid data clear)
    show ?thesis unfolding ServerUpdate using idle by (auto simp: follow_def recalc moving_queue ret_def)
  next
    case (ServerMemberUpdate k data clear)
    show ?thesis unfolding ServerMemberUpdate
      using idle by (auto simp: follow_def moving_queue ret_def intro!: recalc split: option.split)
  next
    case (ServerRoleUpdate sid rid data clear)
    show ?thesis unfolding ServerRoleUpdate using idle by (auto simp: follow_def recalc moving_queue ret_def)
  next
    case (ServerRoleDelete sid rid)
    show ?thesis unfolding ServerRoleDelete using idle by (auto simp: follow_def recalc moving_queue ret_def)
  next
    case (ChannelCreate c)
    show ?thesis unfolding ChannelCreate by (rule one [of "{channel_id c}" "{}"]) (auto simp: follow_def intro!: moving_rules)
  next
    case (ChannelDelete i)
    show ?thesis unfolding ChannelDelete by (rule one [of "{}" "{i}"]) (auto simp: follow_def intro!: moving_rules drop_channel_moving)
  next
    case (ChannelGroupJoin i u)
    show ?thesis unfolding ChannelGroupJoin by (rule one [of "{u}" "{}"]) (auto simp: follow_def intro!: moving_rules)
  next
    case (ChannelGroupLeave i u)
    show ?thesis unfolding ChannelGroupLeave by (rule one [of "{}" "{i, u}"]) (auto simp: follow_def Let_def simp del: andthen_gets intro!: moving_rules)
  next
    case (ServerMemberLeave sid u r)
    show ?thesis unfolding ServerMemberLeave
      by (rule one [of "{}" UNIV]) (auto simp: follow_def forget_server_def Let_def simp del: andthen_gets intro!: moving_rules drop_channel_moving split: option.split)
  next
    case (ServerDelete sid)
    show ?thesis unfolding ServerDelete
      by (rule one [of "{}" UNIV]) (auto simp: follow_def forget_server_def Let_def simp del: andthen_gets intro!: moving_rules drop_channel_moving split: option.split)
  next
    case (UserUpdate i data clear event_id)
    show ?thesis unfolding UserUpdate
      by (rule one [of "{}" "{}"]) (auto simp: follow_def once_def Let_def simp del: andthen_gets intro!: moving_rules split: option.split)
  qed (use idle in \<open>simp_all add: follow_def ret_def moving_queue\<close>)
qed

lemma handle_queue:
  assumes "moving {} {} base s" and "hm_wf (gc_channels (cs_cache s))" and "apart ev s" and "channels_keyed w" and "iteration_laws (env_iteration E)"
  shows "queue_ok base (snd (handle_incoming_event_v1 E w ev s))"
proof (cases ev)
  case (Plain e)
  with follow_queue [OF assms(1,2) _ assms(4,5)] assms(3) show ?thesis by (simp add: handle_incoming_event_v1_def)
next
  case (WireRelationship i v)
  have ins: "queue_ok base (snd (insert_subscription i s'))" and rem: "queue_ok base (snd (remove_subscription i s'))" if "moving {} {} base s'" for s'
    using keepsD [OF insert_moving [of i "{i}" "{}" base] moving_mono [OF that]] keepsD [OF remove_moving [of i "{i}" "{}" base] moving_mono [OF that]]
    by (auto intro: moving_queue)
  show ?thesis unfolding WireRelationship using assms(1) ins rem by (simp add: handle_incoming_event_v1_def snd_andthen_ret)
next
  case (WireMessage m v)
  then show ?thesis using moving_queue [OF assms(1)]
    by (cases v) (auto simp: handle_incoming_event_v1_def clone_user_def andthen_assoc snd_andthen_ret unwrap_def ret_def panic_def
        split: option.split)
next
  case (WirePresence i b event_id)
  then show ?thesis using assms(1) moving_queue [OF assms(1)]
    by (auto simp: handle_incoming_event_v1_def once_def ret_def moving_queue split: option.split)
qed (use moving_queue [OF assms(1)] in \<open>simp_all add: handle_incoming_event_v1_def ret_def\<close>)

text \<open>The keys of the cached channels stay distinct.\<close>

abbreviation cache_wf :: "client_state \<Rightarrow> bool" where
  "cache_wf s \<equiv> hm_wf (gc_channels (cs_cache s))"

lemma subscriptions_wf [simp]: "keeps cache_wf (insert_subscription x)" "keeps cache_wf (remove_subscription x)"
  by (auto simp: keeps_def insert_subscription_def remove_subscription_def andthen_def gets_def modify_def ret_def panic_def
      split: subscription_state_change.split)

lemma on_cache_wf: "(\<And>c. hm_wf (gc_channels c) \<Longrightarrow> hm_wf (gc_channels (f c))) \<Longrightarrow> keeps cache_wf (on_cache f)"
  by (rule keeps_modify) simp

lemma channel_changes_wf [simp]: "keeps cache_wf (drop_channel i)" "keeps cache_wf (add_channel c)"
  unfolding drop_channel_def add_channel_def
  by (auto intro!: keeps_andthen on_cache_wf)

lemma recalculate_wf [simp]: "keeps cache_wf (recalculate_server E w sid ev)"
  unfolding recalculate_server_def load_channels_def
  by (auto simp: Let_def simp del: andthen_gets intro!: keeps_andthen for_each_moving split: option.split outcome.split)

lemma channel_update_wf [simp]: "keeps cache_wf (follow_channel_update E w i data clear)"
  unfolding follow_channel_update_def
  by (auto simp: Let_def simp del: andthen_gets intro!: keeps_andthen on_cache_wf split: option.split outcome.split)

lemma handle_wf: "keeps cache_wf (handle_incoming_event_v1 E w ev)"
proof -
  have follow: "keeps cache_wf (follow E w e)" for e
    by (cases e) (auto simp: follow_def once_def forget_server_def Let_def wf_fold_update
        simp del: andthen_gets intro!: keeps_andthen on_cache_wf for_each_moving split: option.split)
  show ?thesis
    by (cases ev) (auto simp: handle_incoming_event_v1_def once_def clone_user_def follow unwrap_def simp del: andthen_gets
        intro!: keeps_andthen on_cache_wf split: option.split)
qed

text \<open>The entries of the timed cache name a server once, and no other change is queued for their topics.\<close>

definition entries_apart :: "timed_entry list \<Rightarrow> client_state \<Rightarrow> bool" where
  "entries_apart entries s \<longleftrightarrow> (\<forall>k. \<not> (Valid k \<in> set entries \<and> Expired k \<in> set entries))
     \<and> (case cs_state s of
          Change add remove \<Rightarrow> (\<forall>k. Expired k \<in> set entries \<longrightarrow> k @ ''u'' \<notin> set add) \<and> (\<forall>k. Valid k \<in> set entries \<longrightarrow> k @ ''u'' \<notin> set remove)
        | _ \<Rightarrow> True)"

lemma entries_queue:
  assumes "queue_ok base s" and "entries_apart entries s"
  shows "queue_ok base (snd (for_each follow_entry entries s))"
proof -
  let ?I = "(case cs_state s of Change add _ \<Rightarrow> set add | _ \<Rightarrow> {}) \<union> {k @ ''u'' | k. Valid k \<in> set entries}"
  let ?R = "(case cs_state s of Change _ remove \<Rightarrow> set remove | _ \<Rightarrow> {}) \<union> {k @ ''u'' | k. Expired k \<in> set entries}"
  have apart: "?I \<inter> ?R = {}"
  proof (cases "cs_state s")
    case (Change add remove)
    then have "set add \<inter> set remove = {}" using assms(1) by (simp add: queue_ok_def)
    moreover have "\<forall>k. Expired k \<in> set entries \<longrightarrow> k @ ''u'' \<notin> set add" "\<forall>k. Valid k \<in> set entries \<longrightarrow> k @ ''u'' \<notin> set remove"
      "\<forall>k. \<not> (Valid k \<in> set entries \<and> Expired k \<in> set entries)"
      using Change assms(2) by (simp_all add: entries_apart_def)
    ultimately show ?thesis unfolding Change subscription_state_change.case by blast
  qed (use assms(2) in \<open>auto simp: entries_apart_def\<close>)
  have "keeps (moving ?I ?R base) (follow_entry e)" if e: "e \<in> set entries" for e
  proof (cases e)
    case (Valid k)
    with e have "k @ ''u'' \<in> ?I" by blast
    from insert_moving [OF this apart] show ?thesis by (simp add: Valid)
  next
    case (Expired k)
    with e have "k @ ''u'' \<in> ?R" by blast
    from remove_moving [OF this apart] show ?thesis by (simp add: Expired)
  qed
  then have kept: "keeps (moving ?I ?R base) (for_each follow_entry entries)" by (rule for_each_moving)
  have "moving ?I ?R base s" using assms(1) by (cases "cs_state s") (simp_all add: moving_def)
  from moving_queue [OF keepsD [OF kept this]] show ?thesis .
qed

lemma calls_done:
  "run_calls accepts cs topics = (True, topics') \<Longrightarrow> topics' = fold pubsub_effect cs topics"
  by (induction cs arbitrary: topics) (auto split: if_splits)

lemma fold_unsubscribe: "fold pubsub_effect (map Unsubscribe xs) topics = topics - set xs"
  by (induction xs arbitrary: topics) auto

lemma fold_subscribe: "fold pubsub_effect (map Subscribe xs) topics = topics \<union> set xs"
  by (induction xs arbitrary: topics) auto

text \<open>A connection that has not synchronised yet, or whose queue leads from Redis to the state.\<close>

definition in_step :: "connection \<Rightarrow> bool" where
  "in_step con \<longleftrightarrow> cache_wf (con_state con)
     \<and> (cs_state (con_state con) = Reset \<and> finite (cs_subscribed (con_state con)) \<or> queue_ok (con_topics con) (con_state con))"

lemma reset_kept: "keeps (\<lambda>s. cs_state s = Reset \<and> finite (cs_subscribed s)) (for_each follow_entry entries)"
proof (rule for_each_moving)
  fix e show "keeps (\<lambda>s. cs_state s = Reset \<and> finite (cs_subscribed s)) (follow_entry e)"
    by (cases e) (auto simp: keeps_def insert_subscription_def remove_subscription_def andthen_def gets_def modify_def ret_def panic_def)
qed

lemma apply_state_Ok:
  assumes "apply_state entries s = (Ok change, s')"
  obtains s1 where "s1 = (if gc_is_bot (cs_cache s) then s else snd (for_each follow_entry entries s))" and "change = cs_state s1"
    and "s' = s1\<lparr>cs_state := NoChange, cs_subscribed := (case change of Change add remove \<Rightarrow> (cs_subscribed s1 \<union> set add) - set remove | _ \<Rightarrow> cs_subscribed s1)\<rparr>"
proof -
  let ?m = "if \<not> gc_is_bot (cs_cache s) then for_each follow_entry entries else ret ()"
  from assms have "andthen ?m (\<lambda>_. andthen (gets cs_state) (\<lambda>change.
     andthen (modify (\<lambda>s. s\<lparr>cs_state := NoChange,
        cs_subscribed := (case change of Change add remove \<Rightarrow> (cs_subscribed s \<union> set add) - set remove | _ \<Rightarrow> cs_subscribed s)\<rparr>)) (\<lambda>_.
     ret change))) s = (Ok change, s')" by (simp add: apply_state_def)
  then obtain x s1 where run: "?m s = (Ok x, s1)" and s1: "change = cs_state s1"
    and "s' = s1\<lparr>cs_state := NoChange, cs_subscribed := (case change of Change add remove \<Rightarrow> (cs_subscribed s1 \<union> set add) - set remove | _ \<Rightarrow> cs_subscribed s1)\<rparr>"
    by (rule andthen_OkE) (auto simp: ret_def)
  moreover have "s1 = (if gc_is_bot (cs_cache s) then s else snd (for_each follow_entry entries s))"
    using run by (cases "gc_is_bot (cs_cache s)") (simp_all add: ret_def)
  ultimately show ?thesis using that by blast
qed

lemma entries_wf: "keeps cache_wf (for_each follow_entry entries)"
proof (rule for_each_moving)
  fix e show "keeps cache_wf (follow_entry e)" by (cases e) simp_all
qed

lemma sync_step:
  assumes "in_step con" and "entries_apart entries (con_state con)" and "iteration_laws (env_iteration E)"
    and "listener_sync E accepts entries con = Ok con'" and "con_open con'"
  shows "con_topics con' = cs_subscribed (con_state con')" and "cs_state (con_state con') = NoChange" and "cache_wf (con_state con')"
proof -
  let ?s = "con_state con"
  from assms(4,5) obtain change s' topics where apply_s: "apply_state entries ?s = (Ok change, s')"
    and calls: "run_calls accepts (calls_for E change (cs_subscribed s')) (con_topics con) = (True, topics)"
    and con': "con' = con\<lparr>con_state := s', con_topics := topics, con_open := True\<rparr>"
    by (auto simp: listener_sync_def split: prod.splits outcome.splits)
  from apply_s obtain s1 where s1: "s1 = (if gc_is_bot (cs_cache ?s) then ?s else snd (for_each follow_entry entries ?s))"
    and change: "change = cs_state s1"
    and s': "s' = s1\<lparr>cs_state := NoChange, cs_subscribed := (case change of Change add remove \<Rightarrow> (cs_subscribed s1 \<union> set add) - set remove | _ \<Rightarrow> cs_subscribed s1)\<rparr>"
    by (rule apply_state_Ok)
  have wf: "cache_wf s1" using assms(1) keepsD [OF entries_wf] by (simp add: s1 in_step_def)
  have topics: "topics = fold pubsub_effect (calls_for E change (cs_subscribed s')) (con_topics con)" by (rule calls_done [OF calls])
  have "cs_state s1 = Reset \<and> finite (cs_subscribed s1) \<or> queue_ok (con_topics con) s1"
    using assms(1) entries_queue [OF _ assms(2)] keepsD [OF reset_kept, of ?s entries] by (auto simp: s1 in_step_def)
  then have "topics = cs_subscribed s'"
  proof
    assume "cs_state s1 = Reset \<and> finite (cs_subscribed s1)"
    then show ?thesis
      using iteration_laws.order_set [OF assms(3), of "cs_subscribed s1"] by (simp add: topics change s' calls_for_def fold_subscribe)
  next
    assume "queue_ok (con_topics con) s1"
    then show ?thesis
      by (auto simp: topics change s' calls_for_def queue_ok_def fold_subscribe fold_unsubscribe split: subscription_state_change.splits)
  qed
  then show "con_topics con' = cs_subscribed (con_state con')" "cs_state (con_state con') = NoChange" "cache_wf (con_state con')"
    using wf by (simp_all add: con' s')
qed

lemma receive_step:
  assumes "con_topics con = cs_subscribed (con_state con)" and "cs_state (con_state con) = NoChange" and "cache_wf (con_state con)"
    and "\<And>ev. input = Incoming ev \<Longrightarrow> apart ev (con_state con)" and "channels_keyed w" and "iteration_laws (env_iteration E)"
    and "listener_receive E w delivered input con = Ok con'"
  shows "in_step con'"
proof -
  have idle: "moving {} {} (con_topics con) (con_state con)" using assms(1,2) by (simp add: moving_def queue_ok_def)
  then have same: "in_step (con\<lparr>con_open := b\<rparr>)" "in_step (con\<lparr>con_sent := xs, con_open := b\<rparr>)" "in_step con" for b xs
    using assms(3) by (simp_all add: in_step_def moving_queue)
  show ?thesis
  proof (cases input)
    case (Incoming ev)
    let ?st = "snd (handle_incoming_event_v1 E w ev (con_state con))"
    have "queue_ok (con_topics con) ?st" "cache_wf ?st"
      using handle_queue [OF idle assms(3) assms(4) [OF Incoming] assms(5,6)] keepsD [OF handle_wf assms(3)] by blast+
    then have "in_step (con\<lparr>con_state := ?st\<rparr>)" "in_step (con\<lparr>con_state := ?st, con_open := b\<rparr>)"
      "in_step (con\<lparr>con_state := ?st, con_sent := xs, con_open := b\<rparr>)" for b xs by (simp_all add: in_step_def)
    then show ?thesis using assms(7) Incoming
      by (auto simp: listener_receive_def send_out_def Let_def split: prod.splits outcome.splits if_splits)
  qed (use assms(7) same in \<open>auto simp: listener_receive_def send_out_def split: if_splits\<close>)
qed

section \<open>The first payload\<close>

lemma insert_reset:
  "cs_state s = Reset \<Longrightarrow> insert_subscription x s = (Ok (), s\<lparr>cs_subscribed := insert x (cs_subscribed s)\<rparr>)"
  by (auto simp: insert_subscription_def andthen_def gets_def modify_def ret_def insert_absorb)

lemma insert_each_reset:
  "cs_state s = Reset \<Longrightarrow> for_each (\<lambda>x. insert_subscription (f x)) xs s = (Ok (), s\<lparr>cs_subscribed := cs_subscribed s \<union> f ` set xs\<rparr>)"
proof (induction xs arbitrary: s)
  case (Cons x xs)
  then show ?case by (simp add: andthen_def insert_reset insert_is_Un [symmetric] Un_commute)
qed (simp add: ret_def)

definition payload_topics :: "bool \<Rightarrow> string \<Rightarrow> v0_user list \<Rightarrow> server list \<Rightarrow> channel list \<Rightarrow> string set" where
  "payload_topics is_bot topic users servers channels =
     {topic} \<union> v0u_id ` set users \<union> server_id ` set servers \<union> (if is_bot then (\<lambda>s. server_id s @ ''u'') ` set servers else {})
     \<union> channel_id ` set channels"

lemma subscribe_all_run:
  "subscribe_all is_bot users servers channels s =
     (Ok (), s\<lparr>cs_state := Reset, cs_subscribed := payload_topics is_bot (cs_private_topic s) users servers channels\<rparr>)"
proof -
  have srv: "for_each (\<lambda>s. andthen (insert_subscription (server_id s)) (\<lambda>_. if is_bot then insert_subscription (server_id s @ ''u'') else ret ())) xs s'
     = (Ok (), s'\<lparr>cs_subscribed := cs_subscribed s' \<union> server_id ` set xs \<union> (if is_bot then (\<lambda>s. server_id s @ ''u'') ` set xs else {})\<rparr>)"
    if "cs_state s' = Reset" for xs s'
    using that
  proof (induction xs arbitrary: s')
    case (Cons x xs)
    then show ?case by (cases is_bot) (auto simp: andthen_def insert_reset ret_def intro!: arg_cong [where f = "\<lambda>t. s'\<lparr>cs_subscribed := t\<rparr>"])
  qed (simp add: ret_def)
  show ?thesis
    by (simp add: subscribe_all_def reset_state_def andthen_def [of "insert_subscription _"] andthen_def [of "for_each _ _"] insert_reset
        insert_each_reset srv payload_topics_def Un_assoc insert_is_Un [symmetric] del: insert_is_Un)
qed

lemma keyed_wf: "hm_wf (keyed f xs)"
proof -
  have "hm_wf m \<Longrightarrow> hm_wf (fold (\<lambda>x. AList.update (f x) x) xs m)" for m
    by (induction xs arbitrary: m) simp_all
  then show ?thesis by (simp add: keyed_def hm_wf_def)
qed

lemma andthen_subscribe_all:
  "andthen (subscribe_all is_bot users servers channels) f s =
     f () (s\<lparr>cs_state := Reset, cs_subscribed := payload_topics is_bot (cs_private_topic s) users servers channels\<rparr>)"
  by (simp add: andthen_def subscribe_all_run)

text \<open>Steps that only read.\<close>

lemma pure_reading [simp]: "unchanged (\<lambda>s. s) (reading w m)"
  by (simp add: reading_def)

lemma pure_steps [simp]:
  "unchanged (\<lambda>s. s) r \<Longrightarrow> unchanged (\<lambda>s. s) (shown_when b r)" "unchanged (\<lambda>s. s) (voice_members E w states sids)"
  "unchanged (\<lambda>s. s) clone_user"
proof -
  show "unchanged (\<lambda>s. s) (voice_members E w states sids)" by (induction sids) (simp_all add: unchanged_andthen)
  show "unchanged (\<lambda>s. s) (shown_when b r)" if "unchanged (\<lambda>s. s) r" using that by (simp add: shown_when_def unchanged_andthen)
  show "unchanged (\<lambda>s. s) clone_user" by (auto simp: clone_user_def simp del: andthen_gets intro: unchanged_andthen)
qed

lemma andthen_gateway_step:
  "andthen (modify g) f = (\<lambda>s. f () (g s))" "andthen (gets h) f' = (\<lambda>s. f' (h s) s)"
  "andthen (subscribe_all is_bot users servers channels) f =
     (\<lambda>s. f () (s\<lparr>cs_state := Reset, cs_subscribed := payload_topics is_bot (cs_private_topic s) users servers channels\<rparr>))"
  by (simp_all add: fun_eq_iff andthen_subscribe_all)

lemma ready_OkE:
  assumes "generate_ready_payload E UE w want s = (Ok ev, s')"
  obtains me memberships servers cs channels shown
  where "clone_user s = (Ok me, s)" and "fst (on_db (fetch_all_memberships (user_id me)) w) = Ok memberships"
    and "fst (on_db (fetch_servers (map (\<lambda>m. key_server (member_id m)) memberships)) w) = Ok servers"
    and "filter_accessible_channels E w ((cs_cache s)\<lparr>gc_is_bot := user_bot me \<noteq> None, gc_servers := keyed server_id servers\<rparr>) cs = Ok channels"
    and "cs_subscribed s' = payload_topics (user_bot me \<noteq> None) (cs_private_topic s) shown servers channels" and "cs_state s' = Reset"
    and "gc_channels (cs_cache s') = keyed channel_id channels"
  using assms unfolding generate_ready_payload_def Let_def andthen_gateway_step
  by (auto elim!: pure_OkE simp: unchanged_andthen reading_def lift_def ret_def)

text \<open>A server that the cache has from the database changes nothing in a query.\<close>

lemma query_perspective: "pq_perspective (channel_query u c) = u" "pq_perspective (use_server srv (channel_query u c)) = u"
  by (simp_all add: query_build)

lemma query_with_server:
  assumes "map_of (db_servers (db w)) (txt_server t) = Some srv" and "server_id srv = txt_server t"
    and "fst (channel_permissions E (use_server srv (channel_query u (TextChannel i t))) w) = Ok (p, q)"
  shows "has_channel_permission p perm = may E w u (TextChannel i t) perm"
proof -
  let ?D = "reads_of (env_now E) (db w)" and ?q = "channel_query u (TextChannel i t)"
  have fetch: "rd_fetch_server ?D (txt_server t) = Ok srv" using assms(1) by (simp add: reads_of_def fetch_server_def servers.fetch)
  have set_server: "q_set_server_from_channel ?D ?q = q_set_server_from_channel ?D (use_server srv ?q)"
    using assms(2) fetch by (simp add: q_set_server_from_channel_def query_build)
  obtain rest where rest: "\<And>q'. pq_channel q' = Some (TextChannel i t) \<Longrightarrow> \<not> privileged (pq_perspective q') \<Longrightarrow>
      calculate_channel_permissions (db_query ?D) q' = andthen (q_set_server_from_channel ?D) rest q'"
    unfolding calculate_channel_permissions_def db_query_def q_are_we_privileged_def q_get_channel_type_def
    by (simp only: permission_query.select_convs andthen_gets if_False option.case channel_type_of.simps channel_type.case)
  have "privileged u \<or> calculate_channel_permissions (db_query ?D) ?q = calculate_channel_permissions (db_query ?D) (use_server srv ?q)"
  proof -
    have "andthen (q_set_server_from_channel ?D) rest ?q = andthen (q_set_server_from_channel ?D) rest (use_server srv ?q)"
      by (simp only: andthen_def set_server)
    moreover have "pq_channel ?q = Some (TextChannel i t)" "pq_channel (use_server srv ?q) = Some (TextChannel i t)" "pq_perspective ?q = u"
      "pq_perspective (use_server srv ?q) = u" by (simp_all add: query_build)
    ultimately show ?thesis using rest [of ?q] rest [of "use_server srv ?q"] by metis
  qed
  moreover have "fst (calculate_channel_permissions (db_query ?D) q') = Ok (channel_permission_bits GrantAllSafe)"
    if "privileged (pq_perspective q')" for q'
    using that by (simp add: calculate_channel_permissions_def db_query_def query_defs ret_def)
  ultimately have "fst (calculate_channel_permissions (db_query ?D) ?q) = fst (calculate_channel_permissions (db_query ?D) (use_server srv ?q))"
    by (metis query_perspective)
  with assms(3) show ?thesis
    by (cases "calculate_channel_permissions (db_query ?D) ?q"; cases "calculate_channel_permissions (db_query ?D) (use_server srv ?q)")
      (auto simp: may_def channel_permissions_def split: outcome.splits)
qed

lemma keyed_lookup: "map_of (keyed f xs) k = Some x \<Longrightarrow> x \<in> set xs \<and> f x = k"
proof -
  have "map_of (fold (\<lambda>x. AList.update (f x) x) xs m) k = Some x \<Longrightarrow> x \<in> set xs \<and> f x = k \<or> map_of m k = Some x" for m
    by (induction xs arbitrary: m) (fastforce simp: hm_lookup_update split: if_splits)+
  from this [of "[]"] show "map_of (keyed f xs) k = Some x \<Longrightarrow> x \<in> set xs \<and> f x = k" by (simp add: keyed_def)
qed

lemma accessible_viewable:
  "filter_accessible_channels E w cache cs = Ok vs \<Longrightarrow> c \<in> set vs \<Longrightarrow> can_view_channel E w cache c = Ok True"
proof (induction cs arbitrary: vs)
  case (Cons d cs)
  then show ?case
    by (cases "can_view_channel E w cache d"; cases "filter_accessible_channels E w cache cs") (auto split: if_splits)
qed simp

text \<open>A cache with servers of the database and without members answers as the database does.\<close>

lemma fresh_cache_viewable:
  assumes "can_view_channel E w cache (TextChannel i t) = Ok True" and "map_of (gc_users cache) (gc_user_id cache) = Some u"
    and "gc_members cache = []" and "\<And>sid srv. map_of (gc_servers cache) sid = Some srv \<Longrightarrow> map_of (db_servers (db w)) sid = Some srv \<and> server_id srv = sid"
  shows "may E w u (TextChannel i t) ViewChannel"
proof -
  from assms(1-3) obtain p q where
    run: "fst (channel_permissions E (cached_query cache u (TextChannel i t) (txt_server t)) w) = Ok (p, q)" and p: "has_channel_permission p ViewChannel"
    by (cases "fst (channel_permissions E (cached_query cache u (TextChannel i t) (txt_server t)) w)") (auto simp: can_view_channel_def)
  show ?thesis
  proof (cases "map_of (gc_servers cache) (txt_server t)")
    case None
    with run p assms(3) show ?thesis by (simp add: cached_query_def may_def)
  next
    case (Some srv)
    with run assms(3) have "fst (channel_permissions E (use_server srv (channel_query u (TextChannel i t))) w) = Ok (p, q)"
      by (simp add: cached_query_def)
    from query_with_server [OF _ _ this] assms(4) [OF Some] p show ?thesis by simp
  qed
qed


section \<open>Connections\<close>

text \<open>The rounds of a listener. In every round the database is any with channels under their ids, every call to Redis and every write
  succeeds or fails as it likes, and any message arrives.\<close>

inductive listener_run :: "env \<Rightarrow> connection \<Rightarrow> connection \<Rightarrow> bool" for E con where
  start: "listener_run E con con"
| round: "listener_run E con con1 \<Longrightarrow> entries_apart entries (con_state con1) \<Longrightarrow> listener_sync E accepts entries con1 = Ok con2 \<Longrightarrow> con_open con2 \<Longrightarrow>
    (\<And>ev. input = Incoming ev \<Longrightarrow> apart ev (con_state con2)) \<Longrightarrow> channels_keyed w \<Longrightarrow>
    listener_receive E w delivered input con2 = Ok con3 \<Longrightarrow> listener_run E con con3"

lemma run_in_step:
  assumes "listener_run E con con'" and "in_step con" and "iteration_laws (env_iteration E)"
  shows "in_step con'"
  using assms
proof (induction rule: listener_run.induct)
  case (round con1 entries accepts con2 input w delivered con3)
  from sync_step [OF round.IH [OF round.prems] round.hyps(2) round.prems(2) round.hyps(3,4)]
  show ?case using receive_step [OF _ _ _ round.hyps(5) round.hyps(6) round.prems(2) round.hyps(7)] by blast
qed

definition open_connection :: "client_state \<Rightarrow> connection" where
  "open_connection st = \<lparr>con_state = st, con_topics = {}, con_sent = [], con_open = True\<rparr>"

lemma started_in_step:
  assumes "client_start E UE w sessions session_error config msgs = (evs, Some st)"
  shows "in_step (open_connection st)"
proof -
  from assms obtain u sid ev where "generate_ready_payload E UE w (pc_ready_fields config) (state_from u sid) = (Ok ev, st)"
    by (auto simp: client_start_def split: option.splits outcome.splits prod.splits)
  then obtain is_bot topic shown servers channels where "cs_subscribed st = payload_topics is_bot topic shown servers channels" "cs_state st = Reset"
    "gc_channels (cs_cache st) = keyed channel_id channels" by (rule ready_OkE)
  then show ?thesis by (simp add: in_step_def open_connection_def keyed_wf payload_topics_def)
qed

text \<open>C9: Redis delivers exactly the topics that the state of a connection names. However a connection was opened, and whatever events
  arrived and rounds passed since, once the listener has carried the queued changes over, the topics that Redis is subscribed to are those
  that the state holds. The ids of channels and servers differ, and the timed cache reports a server once.\<close>

theorem subscriptions_in_step:
  assumes "client_start E UE w sessions session_error config msgs = (evs, Some st)" and "iteration_laws (env_iteration E)"
    and "listener_run E (open_connection st) con" and "entries_apart entries (con_state con)"
    and "listener_sync E accepts entries con = Ok con'" and "con_open con'"
  shows "con_topics con' = cs_subscribed (con_state con')"
  by (rule sync_step(1) [OF run_in_step [OF assms(3) started_in_step [OF assms(1)] assms(2)] assms(4,2,5,6)])

definition gateway_db :: ref_db where
  "gateway_db = empty_db\<lparr>db_users := [(''a'', sample_user ''a'')]\<rparr>"

definition gateway_sessions :: "string \<Rightarrow> (string \<times> string) option" where
  "gateway_sessions token = (if token = ''t'' then Some (''s'', ''a'') else None)"

definition gateway_config :: protocol_configuration where
  "gateway_config = on_request [(''version'', ''1''), (''token'', ''t''), (''ready'', ''servers'')]"

lemma gateway_config_simps:
  "pc_session_token gateway_config = Some ''t''" "pc_ready_fields gateway_config = no_fields\<lparr>rf_servers := True\<rparr>"
  by (simp_all add: gateway_config_def on_request_def apply_param_def parse_i32_def digit_value_def enable_field_def ready_field_captures_def
      is_word_def no_fields_def Let_def)

lemma gateway_login: "fst (from_token gateway_sessions InvalidSession ''t'' HintAny (sample_world gateway_db)) = Ok (sample_user ''a'', ''s'')"
  by (simp add: from_token.simps attempt_def gateway_sessions_def andthen_def on_db_def fetch_user_def users.fetch sample_world_def gateway_db_def
      empty_db_def ret_def)

lemma gateway_ready:
  "\<exists>ev st. generate_ready_payload sample_env sample_users_env (sample_world gateway_db) (no_fields\<lparr>rf_servers := True\<rparr>)
     (state_from (sample_user ''a'') ''s'') = (Ok ev, st) \<and> cs_subscribed st = {''a!'', ''a''} \<and> cs_state st = Reset \<and> \<not> gc_is_bot (cs_cache st)"
  by (simp add: generate_ready_payload_def Let_def andthen_gateway_step state_from_def clone_user_def cache_default_def sample_user_def unwrap_def
      reading_def shown_when_def no_fields_def andthen_lift sample_world_def gateway_db_def empty_db_def on_db_def fetch_all_memberships_def
      fetch_servers_def find_direct_messages_def fetch_channels_def own_relations_def user_default_def fetch_users_def voice_servers_def
      sample_env_def user_into_self_def get_badges_def sample_users_env_def render_user_def is_invisible_def payload_topics_def del: andthen_gets)
    (simp add: andthen_def gets_def lift_def ret_def)


lemma sync_run:
  assumes "apply_state entries (con_state con) = (Ok change, st)"
  shows "\<exists>con'. listener_sync E (\<lambda>_. True) entries con = Ok con' \<and> con_open con' \<and> con_state con' = st"
proof -
  have "fst (run_calls (\<lambda>_. True) cs t)" for cs t by (induction cs arbitrary: t) simp_all
  then show ?thesis
    using assms by (cases "run_calls (\<lambda>_. True) (calls_for E change (cs_subscribed st)) (con_topics con)") (auto simp: listener_sync_def, metis fst_conv)
qed

theorem subscriptions_in_step_witness:
  "\<exists>evs st con'. client_start sample_env sample_users_env (sample_world gateway_db) gateway_sessions InvalidSession gateway_config [] = (evs, Some st)
     \<and> listener_sync sample_env (\<lambda>_. True) [Valid ''S''] (open_connection st) = Ok con' \<and> con_topics con' = {''a!'', ''a'', ''Su''}"
proof -
  obtain ev st where ready: "generate_ready_payload sample_env sample_users_env (sample_world gateway_db) (no_fields\<lparr>rf_servers := True\<rparr>)
     (state_from (sample_user ''a'') ''s'') = (Ok ev, st)" and st: "cs_subscribed st = {''a!'', ''a''}" "cs_state st = Reset" "\<not> gc_is_bot (cs_cache st)"
    using gateway_ready by blast
  have start: "client_start sample_env sample_users_env (sample_world gateway_db) gateway_sessions InvalidSession gateway_config []
     = ([Authenticated, ev], Some st)"
    using ready by (simp add: client_start_def token_of_def gateway_config_simps gateway_login del: from_token.simps)
  have "insert_subscription ''Su'' st = (Ok (), st\<lparr>cs_subscribed := insert ''Su'' {''a!'', ''a''}\<rparr>)"
    using insert_reset [OF st(2)] st(1) by simp
  then have "apply_state [Valid ''S''] st = (Ok Reset, st\<lparr>cs_state := NoChange, cs_subscribed := insert ''Su'' {''a!'', ''a''}\<rparr>)"
    using st(2,3) by (simp add: apply_state_def andthen_assoc andthen_def [of "insert_subscription _"]) (simp add: ret_def)
  then obtain con' where sync: "listener_sync sample_env (\<lambda>_. True) [Valid ''S''] (open_connection st) = Ok con'" "con_open con'"
    and con': "con_state con' = st\<lparr>cs_state := NoChange, cs_subscribed := insert ''Su'' {''a!'', ''a''}\<rparr>"
    using sync_run [of "[Valid ''S'']" "open_connection st" Reset _ sample_env] by (metis connection.select_convs(1) open_connection_def)
  have "iteration_laws (env_iteration sample_env)" by (simp add: sample_env_def sorted_iteration.iteration_laws_axioms)
  moreover have "entries_apart [Valid ''S''] (con_state (open_connection st))" using st by (simp add: entries_apart_def open_connection_def)
  ultimately have "con_topics con' = cs_subscribed (con_state con')"
    using subscriptions_in_step [OF start _ listener_run.start _ sync] by blast
  with con' have "con_topics con' = {''a!'', ''a'', ''Su''}" by auto
  with start sync(1) show ?thesis by blast
qed

lemma owner_permissions:
  assumes "pq_channel q = Some (TextChannel i t)" and "pq_server q = Some srv" and "server_id srv = txt_server t"
    and "server_owner srv = user_id (pq_perspective q)"
  shows "fst (channel_permissions E q w) = Ok (channel_permission_bits GrantAllSafe, q)"
proof -
  let ?D = "reads_of (env_now E) (db w)"
  have "andthen (q_set_server_from_channel ?D) f q = f () q" for f :: "unit \<Rightarrow> u64 dbq"
    using assms by (simp add: andthen_def q_set_server_from_channel_def)
  then have "calculate_channel_permissions (db_query ?D) q = (Ok (channel_permission_bits GrantAllSafe), q)"
    using assms unfolding calculate_channel_permissions_def db_query_def q_are_we_privileged_def q_get_channel_type_def q_are_we_server_owner_def
    by (simp add: ret_def del: channel_permission_bits.simps)
  then show ?thesis by (simp add: channel_permissions_def del: channel_permission_bits.simps)
qed

text \<open>C39: an event about a relationship makes the connection act as another user. The event reaches its receiver with the id of the
  receiver and the other user, and the cache stores the other user under the id of the own one. From then on the permissions of
  the connection are those of the other user: the channels of every server that the other user owns can be viewed, whatever the roles
  and overrides of the receiver are.\<close>

theorem relationship_swaps_identity:
  assumes "handle_incoming_event_v1 E w (WireRelationship (gc_user_id (cs_cache s)) v) s = (Ok x, s')"
    and "map_of (gc_servers (cs_cache s)) (txt_server t) = Some srv" and "server_id srv = txt_server t" and "server_owner srv = v0u_id v"
  shows "can_view_channel E w (cs_cache s') (TextChannel i t) = Ok True"
proof -
  let ?cache = "gc_users_update (AList.update (gc_user_id (cs_cache s)) (user_from_wire v)) (cs_cache s)"
  have kept: "cs_cache (snd (insert_subscription y s1)) = cs_cache s1" "cs_cache (snd (remove_subscription y s1)) = cs_cache s1" for y s1
    by (auto simp: insert_subscription_def remove_subscription_def andthen_def gets_def modify_def ret_def panic_def
        split: subscription_state_change.split)
  have "s' = snd (handle_incoming_event_v1 E w (WireRelationship (gc_user_id (cs_cache s)) v) s)" using assms(1) by simp
  then have "cs_cache s' = ?cache" by (simp add: handle_incoming_event_v1_def snd_andthen_ret kept)
  moreover have "\<exists>q. fst (channel_permissions E (cached_query ?cache (user_from_wire v) (TextChannel i t) (txt_server t)) w)
      = Ok (channel_permission_bits GrantAllSafe, q)"
    by (rule exI, rule owner_permissions [where srv = srv and i = i and t = t])
      (use assms(2-4) in \<open>simp_all add: cached_query_def query_build user_from_wire_def Let_def split: option.split\<close>)
  moreover have "has_channel_permission (channel_permission_bits GrantAllSafe) ViewChannel" by (simp add: has_channel_permission_def pv_has_def)
  ultimately show ?thesis by (auto simp: can_view_channel_def hm_lookup_update simp del: channel_permission_bits.simps)
qed

text \<open>User \<open>a\<close> is a member without any permission in the server of \<open>o\<close>, and hears that \<open>o\<close> is a new friend.\<close>

definition guest_state :: client_state where
  "guest_state = (state_from (sample_user ''a'') ''s'')\<lparr>cs_cache := cache_default\<lparr>gc_user_id := ''a'', gc_users := [(''a'', sample_user ''a'')],
     gc_servers := [(''S'', guild)], gc_members := [(''S'', sample_member ''S'' ''a'' [] None)]\<rparr>, cs_state := NoChange\<rparr>"

definition owner_shown :: v0_user where
  "owner_shown = render_user (sample_user ''o'') 0 [] Friend False False"

theorem relationship_swaps_identity_witness:
  "\<exists>x s'. handle_incoming_event_v1 sample_env guild_world (WireRelationship ''a'' owner_shown) guest_state = (Ok x, s')
     \<and> can_view_channel sample_env guild_world (cs_cache guest_state) (TextChannel ''C'' hushed) = Ok False
     \<and> can_view_channel sample_env guild_world (cs_cache s') (TextChannel ''C'' hushed) = Ok True"
proof -
  have guest: "gc_user_id (cs_cache guest_state) = ''a''" "map_of (gc_servers (cs_cache guest_state)) (txt_server hushed) = Some guild"
    "server_id guild = txt_server hushed" "server_owner guild = v0u_id owner_shown"
    by (simp_all add: guest_state_def cache_default_def hushed_def guild_def sample_server_def owner_shown_def render_user_def sample_user_def)
  have "\<exists>x s'. handle_incoming_event_v1 sample_env guild_world (WireRelationship ''a'' owner_shown) guest_state = (Ok x, s')"
    by (auto simp: handle_incoming_event_v1_def insert_subscription_def remove_subscription_def guest_state_def andthen_def gets_def modify_def ret_def)
  moreover have "can_view_channel sample_env guild_world (cs_cache guest_state) (TextChannel ''C'' hushed) = Ok False"
    by (simp add: can_view_channel_def guest_state_def cache_default_def hushed_def cached_query_def channel_permissions_def
        calculate_channel_permissions_def calculate_server_permissions_def or_else_def db_query_def query_defs query_build Let_def
        q_are_we_a_member_def q_set_server_from_channel_def guild_def sample_server_def sample_member_def sample_user_def user_default_def andthen_def gets_def ret_def
        loaded_roles_def channel_role_overrides_def server_role_overrides_def List.map_filter_def field_to_override_def as_u64_def in_timeout_def
        apply_all_def pv_apply_def pv_restrict_def pv_revoke_def pv_revoke_all_def has_channel_permission_def pv_has_def
        by_descending_rank_def pv_allow_def)
  ultimately show ?thesis using relationship_swaps_identity [of sample_env guild_world guest_state owner_shown, unfolded guest(1), OF _ guest(2-4)] by blast
qed

text \<open>anybody can follow the members of any server. A client may name any server as active: without any check the connection is
  subscribed to the topic on which the updates of the members of this server are published.\<close>

theorem any_server_can_be_followed:
  assumes "\<not> gc_is_bot (cs_cache (con_state con))" and "cs_state (con_state con) = NoChange" and "con_topics con = cs_subscribed (con_state con)"
    and "cache_wf (con_state con)" and "iteration_laws (env_iteration E)"
  shows "worker_step disabled subscribed uid (SubscribeServer sid) = Activate sid
     \<and> (\<exists>con'. listener_sync E (\<lambda>_. True) [Valid sid] con = Ok con' \<and> sid @ ''u'' \<in> con_topics con')"
proof -
  let ?s = "con_state con"
  obtain change st where run: "apply_state [Valid sid] ?s = (Ok change, st)" and st: "sid @ ''u'' \<in> cs_subscribed st"
  proof -
    have "insert_subscription (sid @ ''u'') ?s = (Ok (), if sid @ ''u'' \<in> cs_subscribed ?s then ?s
        else ?s\<lparr>cs_state := Change [sid @ ''u''] [], cs_subscribed := insert (sid @ ''u'') (cs_subscribed ?s)\<rparr>)"
      using assms(2) by (simp add: insert_subscription_def modify_def ret_def)
    then show ?thesis
      using assms(1,2) that
      by (cases "sid @ ''u'' \<in> cs_subscribed ?s") (simp_all add: apply_state_def andthen_assoc andthen_def [of "insert_subscription _"], simp_all add: ret_def)
  qed
  obtain con' where con': "listener_sync E (\<lambda>_. True) [Valid sid] con = Ok con'" "con_open con'" "con_state con' = st"
    using sync_run [OF run] by blast
  have "in_step con" using assms(2-4) by (simp add: in_step_def queue_ok_def)
  moreover have "entries_apart [Valid sid] ?s" using assms(2) by (simp add: entries_apart_def)
  ultimately have "con_topics con' = cs_subscribed (con_state con')" using sync_step(1) [OF _ _ assms(5) con'(1,2)] by blast
  with con' st show ?thesis by (auto simp: worker_step_def)
qed

theorem any_server_can_be_followed_witness:
  "\<exists>con'. listener_sync sample_env (\<lambda>_. True) [Valid ''X''] (open_connection guest_state\<lparr>con_topics := {''a!'', ''a''}\<rparr>) = Ok con'
     \<and> map_of (gc_servers (cs_cache guest_state)) ''X'' = None \<and> ''Xu'' \<in> con_topics con'"
proof -
  let ?con = "open_connection guest_state\<lparr>con_topics := {''a!'', ''a''}\<rparr>"
  have "\<not> gc_is_bot (cs_cache (con_state ?con))" "cs_state (con_state ?con) = NoChange" "con_topics ?con = cs_subscribed (con_state ?con)" "cache_wf (con_state ?con)"
    by (simp_all add: open_connection_def guest_state_def state_from_def cache_default_def hm_wf_def sample_user_def)
  moreover have "iteration_laws (env_iteration sample_env)" by (simp add: sample_env_def sorted_iteration.iteration_laws_axioms)
  ultimately have "\<exists>con'. listener_sync sample_env (\<lambda>_. True) [Valid ''X''] ?con = Ok con' \<and> ''X'' @ ''u'' \<in> con_topics con'"
    using any_server_can_be_followed [of ?con sample_env _ _ _ "''X''"] by blast
  then show ?thesis by (auto simp: guest_state_def cache_default_def)
qed

section \<open>What the cache misses\<close>

text \<open>A role that is new to the cache is not added by the event that announces it.\<close>

lemma new_role_not_cached: "map_of (server_roles s) rid = None \<Longrightarrow> change_role rid f s = s"
  by (simp add: change_role_def)

text \<open>The keys of settings that a client asks for are compared with the whole parameter: the only key that can be asked for is the
  name of the parameter itself.\<close>

lemma settings_keys: "set (rf_user_settings (pc_ready_fields (on_request params))) \<subseteq> {''user_settings''}"
proof -
  have field: "set (rf_user_settings (enable_field v f)) \<subseteq> {''user_settings''}" if "set (rf_user_settings f) \<subseteq> {''user_settings''}" for v f
  proof -
    have "w' = takeWhile is_word v \<and> whole = v" if "ready_field_captures v = Some (whole, w')" for whole w'
      using that by (auto simp: ready_field_captures_def Let_def split: if_splits)
    moreover have "takeWhile is_word ''user_settings'' = ''user_settings''" by (simp add: is_word_def Let_def)
    ultimately show ?thesis using that by (auto simp: enable_field_def split: option.splits if_splits)
  qed
  have "set (rf_user_settings (pc_ready_fields c)) \<subseteq> {''user_settings''} \<Longrightarrow>
      set (rf_user_settings (pc_ready_fields (fold apply_param params c))) \<subseteq> {''user_settings''}" for c
  proof (induction params arbitrary: c)
    case (Cons x params)
    obtain k v where x: "x = (k, v)" by (cases x)
    have "set (rf_user_settings (pc_ready_fields (apply_param x c))) \<subseteq> {''user_settings''}"
      using Cons.prems field [of "pc_ready_fields c" v] unfolding x apply_param_def prod.case
      by (cases "k = ''version''"; cases "parse_i32 v") (auto split: if_splits)
    from Cons.IH [OF this] show ?case by simp
  qed simp
  then show ?thesis by (simp add: on_request_def no_fields_def ready_payload_fields_default_def)
qed

text \<open>The members of calls are appended to the own memberships before the cache is keyed by server: the last member of a server wins, so
  a participant of a call takes the place of the user in the cache.\<close>

lemma participant_replaces_member:
  "map_of (keyed (\<lambda>m. key_server (member_id m)) (memberships @ others @ [m])) (key_server (member_id m)) = Some m"
  by (simp add: keyed_def hm_lookup_update)

end
