(* ===== verification/Bridge.thy ===== *)
theory Bridge
  imports Wire Gateway
begin

text \<open>
  What the conversions of \<open>Wire\<close> promise. The locale \<open>wire_format\<close> states it for a pair of conversions: what comes from the wire goes
  back unchanged, and what the database sends comes back as \<open>keep\<close> says. The lemmas show which parts do not survive: where a file was
  stored and by whom, and whether flags were absent.

  The gateway works on values that came over the wire: its cache is filled with converted servers, channels and members, and every
  update event is applied to it after a conversion. The theorems at the end show that such a cache follows the database and decides
  the visibility of channels as the models of the database would.
\<close>

section \<open>The contract of a pair of conversions\<close>

locale wire_format =
  fixes to_wire :: "'a \<Rightarrow> 'w" and from_wire :: "'w \<Rightarrow> 'a" and keep :: "'a \<Rightarrow> 'a" and fits :: "'a \<Rightarrow> bool"
  assumes stable: "to_wire (from_wire v) = v"
    and returned: "fits x \<Longrightarrow> from_wire (to_wire x) = keep x"
begin

lemma resent: "fits x \<Longrightarrow> to_wire (keep x) = to_wire x"
  using stable [of "to_wire x"] by (simp add: returned)

lemma sent_once: "from_wire (to_wire (from_wire v)) = from_wire v"
  by (simp add: stable)

lemma optional: "wire_format (map_option to_wire) (map_option from_wire) (map_option keep) (pred_option fits)"
  by unfold_locales (auto simp: stable returned option.map_comp comp_def option.map_ident pred_option_def intro: option.map_cong0)

lemma listed: "wire_format (map to_wire) (map from_wire) (map keep) (list_all fits)"
  by unfold_locales (auto simp: stable returned comp_def list_all_iff)

lemma entries: "wire_format (map_entries to_wire) (map_entries from_wire) (map_entries keep) (list_all (\<lambda>(_, v). fits v))"
  by unfold_locales (auto simp: map_entries_def stable returned comp_def list_all_iff case_prod_beta)

end

text \<open>Conversions that lose nothing.\<close>

lemma map_entries_id [simp]: "map_entries (\<lambda>x. x) m = m"
  by (simp add: map_entries_def)

locale lossless_format = wire_format to_wire from_wire "\<lambda>x. x" "\<lambda>_. True" for to_wire :: "'a \<Rightarrow> 'w" and from_wire :: "'w \<Rightarrow> 'a"
begin

lemma same [simp]: "from_wire (to_wire x) = x"
  by (rule returned) simp

lemma same_parts:
  "map_option from_wire (map_option to_wire a) = a"
  "map from_wire (map to_wire xs) = xs"
  "map_option (map from_wire) (map_option (map to_wire) b) = b"
  "map_entries from_wire (map_entries to_wire m) = m"
  "map_option (map_entries from_wire) (map_option (map_entries to_wire) c) = c"
  by (simp_all add: option.map_comp comp_def option.map_ident map_entries_def case_prod_beta)

end

lemma as_u32_as_i32 [simp]: "as_u32 (as_i32 w) = w"
  by (simp add: as_u32_def as_i32_def)

definition in_i32 :: "int \<Rightarrow> bool" where
  "in_i32 i \<longleftrightarrow> - (2 ^ 31) \<le> i \<and> i < 2 ^ 31"

lemma as_i32_as_u32: "in_i32 i \<Longrightarrow> as_i32 (as_u32 i) = i"
  by (simp add: in_i32_def as_u32_def as_i32_def sint_sbintrunc' signed_take_bit_int_eq_self)

interpretation roles: lossless_format role_to_wire role_from_wire
  by unfold_locales (simp_all add: role_to_wire_def role_from_wire_def)

interpretation partial_roles: lossless_format partial_role_to_wire partial_role_from_wire
  by unfold_locales (simp_all add: partial_role_to_wire_def partial_role_from_wire_def)

interpretation categories: lossless_format category_to_wire category_from_wire
  by unfold_locales (simp_all add: category_to_wire_def category_from_wire_def)

interpretation system_channels: lossless_format system_message_channels_to_wire system_message_channels_from_wire
  by unfold_locales (simp_all add: system_message_channels_to_wire_def system_message_channels_from_wire_def)

interpretation member_keys: lossless_format member_key_to_wire member_key_from_wire
  by unfold_locales (simp_all add: member_key_to_wire_def member_key_from_wire_def)

interpretation voice: lossless_format voice_information_to_wire voice_information_from_wire
  by unfold_locales (simp_all add: voice_information_to_wire_def voice_information_from_wire_def)

interpretation interactions: lossless_format interactions_to_wire interactions_from_wire
  by unfold_locales (simp_all add: interactions_to_wire_def interactions_from_wire_def)

interpretation masquerades: lossless_format masquerade_to_wire masquerade_from_wire
  by unfold_locales (simp_all add: masquerade_to_wire_def masquerade_from_wire_def)

interpretation presences: lossless_format presence_to_wire presence_from_wire
proof
  show "presence_to_wire (presence_from_wire v) = v" for v by (cases v) simp_all
  show "presence_from_wire (presence_to_wire x) = x" for x by (cases x) simp_all
qed

interpretation emoji_parents: lossless_format emoji_parent_to_wire emoji_parent_from_wire
proof
  show "emoji_parent_to_wire (emoji_parent_from_wire v) = v" for v by (cases v) simp_all
  show "emoji_parent_from_wire (emoji_parent_to_wire x) = x" for x by (cases x) simp_all
qed

interpretation server_fields: lossless_format fields_server_to_wire fields_server_from_wire
proof
  show "fields_server_to_wire (fields_server_from_wire v) = v" for v by (cases v) simp_all
  show "fields_server_from_wire (fields_server_to_wire x) = x" for x by (cases x) simp_all
qed

interpretation member_fields: lossless_format fields_member_to_wire fields_member_from_wire
proof
  show "fields_member_to_wire (fields_member_from_wire v) = v" for v by (cases v) simp_all
  show "fields_member_from_wire (fields_member_to_wire x) = x" for x by (cases x) simp_all
qed

interpretation channel_fields: lossless_format fields_channel_to_wire fields_channel_from_wire
proof
  show "fields_channel_to_wire (fields_channel_from_wire v) = v" for v by (cases v) simp_all
  show "fields_channel_from_wire (fields_channel_to_wire x) = x" for x by (cases x) simp_all
qed

text \<open>A file keeps what describes it and loses where it is stored.\<close>

definition keep_file :: "stored_file \<Rightarrow> stored_file" where
  "keep_file f = f\<lparr>file_hash := None, file_uploaded_at := None, file_uploader_id := None, file_used_for := None\<rparr>"

fun metadata_fits :: "metadata \<Rightarrow> bool" where
  "metadata_fits (ImageMeta w h _ _) \<longleftrightarrow> in_i64 w \<and> in_i64 h"
| "metadata_fits (VideoMeta w h) \<longleftrightarrow> in_i64 w \<and> in_i64 h"
| "metadata_fits _ \<longleftrightarrow> True"

abbreviation file_fits :: "stored_file \<Rightarrow> bool" where
  "file_fits f \<equiv> metadata_fits (file_metadata f)"

interpretation metadatas: wire_format metadata_to_wire metadata_from_wire "\<lambda>x. x" metadata_fits
proof
  show "metadata_to_wire (metadata_from_wire v) = v" for v by (cases v) simp_all
  show "metadata_fits x \<Longrightarrow> metadata_from_wire (metadata_to_wire x) = x" for x by (cases x) (simp_all add: as_i64_as_u64)
qed

interpretation files: wire_format file_to_wire file_from_wire keep_file file_fits
  by unfold_locales (simp_all add: file_to_wire_def file_from_wire_def keep_file_def metadatas.stable metadatas.returned)

text \<open>The optional, listed and mapped parts of the larger structs.\<close>

lemmas wire_parts_stable = wire_format.stable [OF files.optional] wire_format.stable [OF voice.optional]
  wire_format.stable [OF wire_format.optional [OF categories.listed]] wire_format.stable [OF system_channels.optional]
  wire_format.stable [OF roles.entries] wire_format.stable [OF wire_format.optional [OF roles.entries]]
  wire_format.stable [OF member_keys.optional] member_keys.stable

lemmas wire_parts_returned = wire_format.returned [OF files.optional] voice.same_parts categories.same_parts system_channels.same_parts
  roles.same_parts member_keys.same_parts

definition keep_server :: "server \<Rightarrow> server" where
  "keep_server s = s\<lparr>server_icon := map_option keep_file (server_icon s), server_banner := map_option keep_file (server_banner s),
     server_flags := Some (or_zero (server_flags s))\<rparr>"

definition server_fits :: "server \<Rightarrow> bool" where
  "server_fits s \<longleftrightarrow> pred_option file_fits (server_icon s) \<and> pred_option file_fits (server_banner s) \<and> in_i32 (or_zero (server_flags s))"

definition keep_partial_server :: "partial_server \<Rightarrow> partial_server" where
  "keep_partial_server p = p\<lparr>ps_icon := map_option keep_file (ps_icon p), ps_banner := map_option keep_file (ps_banner p)\<rparr>"

definition partial_server_fits :: "partial_server \<Rightarrow> bool" where
  "partial_server_fits p \<longleftrightarrow> pred_option file_fits (ps_icon p) \<and> pred_option file_fits (ps_banner p) \<and> pred_option in_i32 (ps_flags p)"

definition keep_member :: "member \<Rightarrow> member" where
  "keep_member m = m\<lparr>member_avatar := map_option keep_file (member_avatar m)\<rparr>"

definition keep_partial_member :: "partial_member \<Rightarrow> partial_member" where
  "keep_partial_member p = p\<lparr>pm_avatar := map_option keep_file (pm_avatar p)\<rparr>"

fun keep_channel :: "channel \<Rightarrow> channel" where
  "keep_channel (Group i g) = Group i (g\<lparr>grp_icon := map_option keep_file (grp_icon g)\<rparr>)"
| "keep_channel (TextChannel i t) = TextChannel i (t\<lparr>txt_icon := map_option keep_file (txt_icon t)\<rparr>)"
| "keep_channel c = c"

fun channel_fits :: "channel \<Rightarrow> bool" where
  "channel_fits (Group i g) \<longleftrightarrow> pred_option file_fits (grp_icon g)"
| "channel_fits (TextChannel i t) \<longleftrightarrow> pred_option file_fits (txt_icon t)"
| "channel_fits c \<longleftrightarrow> True"

definition keep_partial_channel :: "partial_channel \<Rightarrow> partial_channel" where
  "keep_partial_channel p = p\<lparr>pc_icon := map_option keep_file (pc_icon p)\<rparr>"

lemma flags_stable: "map_option as_u32 (map_option as_i32 w) = w"
  by (cases w) simp_all

lemma flags_returned: "pred_option in_i32 x \<Longrightarrow> map_option as_i32 (map_option as_u32 x) = x"
  by (cases x) (simp_all add: as_i32_as_u32)

lemma or_zero_Some [simp]: "or_zero (Some i) = i"
  by (simp add: or_zero_def)

interpretation servers: wire_format server_to_wire server_from_wire keep_server server_fits
  by unfold_locales (simp_all add: server_to_wire_def server_from_wire_def keep_server_def server_fits_def wire_parts_stable wire_parts_returned
    as_i32_as_u32 del: option.map_comp)

interpretation partial_servers: wire_format partial_server_to_wire partial_server_from_wire keep_partial_server partial_server_fits
  by unfold_locales (simp_all add: partial_server_to_wire_def partial_server_from_wire_def keep_partial_server_def partial_server_fits_def
    wire_parts_stable wire_parts_returned flags_stable flags_returned)

interpretation members: wire_format member_to_wire member_from_wire keep_member "\<lambda>m. pred_option file_fits (member_avatar m)"
  by unfold_locales (simp_all add: member_to_wire_def member_from_wire_def keep_member_def wire_parts_stable wire_parts_returned)

interpretation partial_members: wire_format partial_member_to_wire partial_member_from_wire keep_partial_member
    "\<lambda>p. pred_option file_fits (pm_avatar p)"
  by unfold_locales (simp_all add: partial_member_to_wire_def partial_member_from_wire_def keep_partial_member_def wire_parts_stable
    wire_parts_returned)

lemmas channel_conversions = group_to_wire_def group_from_wire_def text_channel_to_wire_def text_channel_from_wire_def

interpretation channels: wire_format channel_to_wire channel_from_wire keep_channel channel_fits
proof
  show "channel_to_wire (channel_from_wire v) = v" for v
    by (cases v) (simp_all add: channel_conversions wire_parts_stable)
  show "channel_fits x \<Longrightarrow> channel_from_wire (channel_to_wire x) = keep_channel x" for x
    by (cases x) (simp_all add: channel_conversions wire_parts_returned)
qed

interpretation partial_channels: wire_format partial_channel_to_wire partial_channel_from_wire keep_partial_channel
    "\<lambda>p. pred_option file_fits (pc_icon p)"
  by unfold_locales (simp_all add: partial_channel_to_wire_def partial_channel_from_wire_def keep_partial_channel_def wire_parts_stable
    wire_parts_returned)

interpretation profiles: wire_format user_profile_to_wire user_profile_from_wire
    "\<lambda>p. p\<lparr>profile_background := map_option keep_file (profile_background p)\<rparr>" "\<lambda>p. pred_option file_fits (profile_background p)"
  by unfold_locales (simp_all add: user_profile_to_wire_def user_profile_from_wire_def wire_parts_stable wire_parts_returned)

section \<open>Round trips\<close>

text \<open>C11: What is received over the wire is sent back unchanged, whatever it is: servers, members and channels survive a conversion
  to the models and back. In the other direction, a server, member or channel of the database whose numbers are in the ranges of
  their types (\<open>i32\<close> flags, \<open>isize\<close> dimensions) comes back with everything but the storage details of its files, and with absent
  flags turned into zero.\<close>

theorem wire_roundtrip:
  assumes "server_fits s" and "pred_option file_fits (member_avatar m)" and "channel_fits c"
  shows "server_to_wire (server_from_wire vs) = vs \<and> member_to_wire (member_from_wire vm) = vm
    \<and> channel_to_wire (channel_from_wire vc) = vc \<and> server_from_wire (server_to_wire s) = keep_server s
    \<and> member_from_wire (member_to_wire m) = keep_member m \<and> channel_from_wire (channel_to_wire c) = keep_channel c"
  using assms by (simp add: servers.stable members.stable channels.stable servers.returned members.returned channels.returned)

definition sample_image :: stored_file where
  "sample_image = \<lparr>file_id = ''f'', file_tag = ''icons'', file_filename = ''x'', file_hash = Some ''h'', file_uploaded_at = Some 1,
     file_uploader_id = Some ''u'', file_used_for = None, file_deleted = None, file_reported = None,
     file_metadata = ImageMeta 16 32 None None, file_content_type = [], file_size = 4, file_message_id = None, file_user_id = None,
     file_server_id = None, file_object_id = None\<rparr>"

definition pictured_server :: server where
  "pictured_server = (sample_server ''s'' ''u'' [] 0)\<lparr>server_icon := Some sample_image\<rparr>"

theorem wire_roundtrip_witness:
  "server_flags (server_from_wire (server_to_wire pictured_server)) = Some 0 \<and>
   map_option file_hash (server_icon (server_from_wire (server_to_wire pictured_server))) = Some None \<and>
   member_from_wire (member_to_wire (sample_member ''s'' ''u'' [''r''] None)) = sample_member ''s'' ''u'' [''r''] None"
proof -
  have "server_fits pictured_server"
    by (simp add: server_fits_def pictured_server_def sample_server_def sample_image_def in_i64_def in_i32_def or_zero_def)
  from wire_roundtrip [OF this, of "sample_member ''s'' ''u'' [''r''] None" "SavedMessages ''c'' ''u''"]
  show ?thesis
    by (simp add: sample_member_def keep_member_def keep_server_def pictured_server_def sample_server_def sample_image_def keep_file_def or_zero_def)
qed

section \<open>Updates\<close>

lemma keep_server_remove: "server_remove_field f (keep_server s) = keep_server (server_remove_field f s)"
  by (cases f) (simp_all add: keep_server_def)

lemma keep_server_remove_fields: "fold server_remove_field fs (keep_server s) = keep_server (fold server_remove_field fs s)"
  by (induction fs arbitrary: s) (simp_all add: keep_server_remove)

lemma keep_member_remove: "member_remove_field f (keep_member m) = keep_member (member_remove_field f m)"
  by (cases f) (simp_all add: keep_member_def)

lemma keep_member_remove_fields: "fold member_remove_field fs (keep_member m) = keep_member (fold member_remove_field fs m)"
  by (induction fs arbitrary: m) (simp_all add: keep_member_remove)

lemma keep_channel_remove: "channel_remove_field f (keep_channel c) = keep_channel (channel_remove_field f c)"
  by (cases f; cases c) simp_all

lemma keep_channel_remove_fields: "channel_remove_fields fs (keep_channel c) = keep_channel (channel_remove_fields fs c)"
  unfolding channel_remove_fields_def by (induction fs arbitrary: c) (simp_all add: keep_channel_remove)

lemma keep_channel_apply: "channel_apply_options (keep_partial_channel p) (keep_channel c) = keep_channel (channel_apply_options p c)"
  by (cases c) (simp_all add: keep_partial_channel_def set_if_def replace_if_def split: option.split)

lemma map_replace_if: "replace_if (map_option f x) (map_option f y) = map_option f (replace_if x y)"
  by (cases x) simp_all

lemma or_zero_replace_if: "replace_if x (Some (or_zero y)) = Some (or_zero (replace_if x y))"
  by (cases x) simp_all

context optional_struct_laws
begin

lemma keep_server_apply: "apply_server OS (keep_partial_server p) (keep_server s) = keep_server (apply_server OS p s)"
  by (simp add: apply_server keep_partial_server_def keep_server_def map_replace_if or_zero_replace_if)

lemma keep_member_apply: "apply_member OS (keep_partial_member p) (keep_member m) = keep_member (apply_member OS p m)"
  by (simp add: apply_member keep_partial_member_def keep_member_def map_replace_if)

end

text \<open>C12: Update events commute with the wire. The gateway applies an update to its cached copy after the partial struct and the
  list of removed fields went through the conversions; when the copy is what the wire keeps of the database's server, member or
  channel, the result is what the wire keeps of the updated one, so the cache follows the database through any number of updates.\<close>

theorem updates_follow_over_wire:
  assumes "optional_struct_laws OS" and "partial_server_fits ps" and "pred_option file_fits (pm_avatar pm)"
    and "pred_option file_fits (pc_icon pc)"
  shows "apply_server OS (partial_server_from_wire (partial_server_to_wire ps))
      (fold server_remove_field (map fields_server_from_wire (map fields_server_to_wire sfs)) (keep_server s)) =
      keep_server (apply_server OS ps (fold server_remove_field sfs s))
    \<and> apply_member OS (partial_member_from_wire (partial_member_to_wire pm))
      (fold member_remove_field (map fields_member_from_wire (map fields_member_to_wire mfs)) (keep_member m)) =
      keep_member (apply_member OS pm (fold member_remove_field mfs m))
    \<and> channel_apply_options (partial_channel_from_wire (partial_channel_to_wire pc))
      (channel_remove_fields (map fields_channel_from_wire (map fields_channel_to_wire cfs)) (keep_channel c)) =
      keep_channel (channel_apply_options pc (channel_remove_fields cfs c))"
  unfolding server_fields.same_parts partial_servers.returned [OF assms(2)] member_fields.same_parts partial_members.returned [OF assms(3)]
    channel_fields.same_parts partial_channels.returned [OF assms(4)]
  by (simp add: keep_server_remove_fields keep_member_remove_fields keep_channel_remove_fields keep_channel_apply
      optional_struct_laws.keep_server_apply [OF assms(1)] optional_struct_laws.keep_member_apply [OF assms(1)])

theorem updates_follow_over_wire_witness:
  "server_owner (apply_server merge_structs (partial_server_from_wire (partial_server_to_wire (partial_server_default\<lparr>ps_owner := Some ''v''\<rparr>)))
     (fold server_remove_field (map fields_server_from_wire (map fields_server_to_wire [ServerIcon])) (keep_server pictured_server))) = ''v''"
proof -
  have "partial_server_fits (partial_server_default\<lparr>ps_owner := Some ''v''\<rparr>)"
    "pred_option file_fits (pm_avatar partial_member_default)" "pred_option file_fits (pc_icon partial_channel_default)"
    by (simp_all add: partial_server_fits_def partial_defaults)
  note updates_follow_over_wire [OF merged.optional_struct_laws_axioms this, of "[ServerIcon]" pictured_server]
  then show ?thesis by (simp add: merged.apply_server keep_server_def)
qed

section \<open>Permissions over the wire\<close>

text \<open>Permission calculations read neither files nor flags: \<open>erase\<close> takes them out of what a query holds, and a computation is
  \<open>blind\<close> when it answers alike on queries that agree without them.\<close>

definition erase_server :: "server \<Rightarrow> server" where
  "erase_server s = s\<lparr>server_icon := None, server_banner := None, server_flags := None\<rparr>"

definition erase_member :: "member \<Rightarrow> member" where
  "erase_member m = m\<lparr>member_avatar := None\<rparr>"

fun erase_channel :: "channel \<Rightarrow> channel" where
  "erase_channel (Group i g) = Group i (g\<lparr>grp_icon := None\<rparr>)"
| "erase_channel (TextChannel i t) = TextChannel i (t\<lparr>txt_icon := None\<rparr>)"
| "erase_channel c = c"

definition erase :: "database_permission_query \<Rightarrow> database_permission_query" where
  "erase q = q\<lparr>pq_channel := map_option erase_channel (pq_channel q), pq_server := map_option erase_server (pq_server q),
     pq_member := map_option erase_member (pq_member q)\<rparr>"

definition blind :: "'a dbq \<Rightarrow> bool" where
  "blind m \<longleftrightarrow> (\<forall>q q'. erase q = erase q' \<longrightarrow> fst (m q) = fst (m q') \<and> erase (snd (m q)) = erase (snd (m q')))"

lemma blindD: "blind m \<Longrightarrow> erase q = erase q' \<Longrightarrow> fst (m q) = fst (m q') \<and> erase (snd (m q)) = erase (snd (m q'))"
  unfolding blind_def by blast

lemma blindI:
  assumes "\<And>q. fst (m (erase q)) = fst (m q)" and "\<And>q. erase (snd (m (erase q))) = erase (snd (m q))"
  shows "blind m"
  unfolding blind_def
proof (intro allI impI)
  fix q q' assume same: "erase q = erase q'"
  have "fst (m q) = fst (m q')" using assms(1) [of q] assms(1) [of q'] by (simp add: same)
  moreover have "erase (snd (m q)) = erase (snd (m q'))" using assms(2) [of q] assms(2) [of q'] by (simp add: same)
  ultimately show "fst (m q) = fst (m q') \<and> erase (snd (m q)) = erase (snd (m q'))" ..
qed

lemma blind_ret [simp]: "blind (ret x)"
  by (simp add: blind_def ret_def)

lemma erase_idem [simp]: "erase (erase q) = erase q"
proof -
  have "erase_channel (erase_channel c) = erase_channel c" for c by (cases c) simp_all
  moreover have "erase_server (erase_server s) = erase_server s" "erase_member (erase_member m) = erase_member m" for s m
    by (simp_all add: erase_server_def erase_member_def)
  ultimately show ?thesis by (simp add: erase_def option.map_comp comp_def)
qed

lemma blind_gets: "(\<And>q. f (erase q) = f q) \<Longrightarrow> blind (gets f)"
  by (rule blindI) (simp_all add: gets_def)

lemma blind_andthen [intro]:
  assumes "blind m" and "\<And>x. blind (f x)"
  shows "blind (andthen m f)"
  unfolding blind_def
proof (intro allI impI)
  fix q q' assume "erase q = erase q'"
  note first = blindD [OF assms(1) this]
  obtain r s s' where "m q = (r, s)" "m q' = (r, s')" "erase s = erase s'"
    using first by (cases "m q"; cases "m q'") auto
  note run = this
  show "fst (andthen m f q) = fst (andthen m f q') \<and> erase (snd (andthen m f q)) = erase (snd (andthen m f q'))"
  proof (cases r)
    case (Ok x)
    from blindD [OF assms(2) [of x] run(3)] show ?thesis unfolding andthen_def run(1,2) Ok by simp
  qed (simp_all add: andthen_def run)
qed

lemma erased_channel_simps [simp]:
  "channel_type_of (erase_channel c) = channel_type_of c" "channel_default_override (erase_channel c) = channel_default_override c"
  by (cases c; simp)+

lemma erase_selectors [simp]:
  "pq_perspective (erase q) = pq_perspective q" "pq_user (erase q) = pq_user q" "pq_channel (erase q) = map_option erase_channel (pq_channel q)"
  "pq_server (erase q) = map_option erase_server (pq_server q)" "pq_member (erase q) = map_option erase_member (pq_member q)"
  "pq_cached_mutual_connection (erase q) = pq_cached_mutual_connection q"
  "server_owner (erase_server s) = server_owner s" "server_id (erase_server s) = server_id s" "server_roles (erase_server s) = server_roles s"
  "server_default_permissions (erase_server s) = server_default_permissions s" "member_roles (erase_member m) = member_roles m"
  "member_timeout (erase_member m) = member_timeout m" "can_publish (erase_member m) = can_publish m" "can_receive (erase_member m) = can_receive m"
  by (simp_all add: erase_def erase_server_def erase_member_def)

lemma erased_roles [simp]: "loaded_roles (erase q) = loaded_roles q"
  by (simp add: loaded_roles_def split: option.split)

lemma erased_overrides [simp]:
  "server_role_overrides (erase_server s) ids = server_role_overrides s ids"
  "channel_role_overrides (erase_server s) ps ids = channel_role_overrides s ps ids"
  "in_timeout now (erase_member m) = in_timeout now m"
  by (simp_all add: server_role_overrides_def channel_role_overrides_def in_timeout_def)

lemma blind_questions [intro, simp]:
  "blind q_are_we_privileged" "blind q_are_we_a_bot" "blind q_are_the_users_same" "blind q_user_relationship" "blind q_user_is_bot"
  "blind q_are_we_server_owner" "blind q_get_default_server_permissions" "blind q_get_our_server_role_overrides"
  "blind (q_are_we_timed_out D)" "blind q_do_we_have_publish_overwrites" "blind q_do_we_have_receive_overwrites"
  "blind q_get_channel_type" "blind q_get_default_channel_permissions" "blind q_get_our_channel_role_overrides"
  "blind q_do_we_own_the_channel" "blind q_are_we_part_of_the_channel"
  unfolding query_defs by (rule blind_gets; simp split: option.split channel.split)+

lemma erase_updates [simp]:
  "erase (q\<lparr>pq_user := u\<rparr>) = erase q\<lparr>pq_user := u\<rparr>" "erase (q\<lparr>pq_cached_mutual_connection := b\<rparr>) = erase q\<lparr>pq_cached_mutual_connection := b\<rparr>"
  "erase (q\<lparr>pq_server := Some s\<rparr>) = erase q\<lparr>pq_server := Some (erase_server s)\<rparr>"
  "erase (q\<lparr>pq_member := Some m\<rparr>) = erase q\<lparr>pq_member := Some (erase_member m)\<rparr>"
  by (simp_all add: erase_def)

lemma blind_reading_questions [intro, simp]:
  "blind (q_have_mutual_connection D)" "blind (q_are_we_a_member D)" "blind (q_set_recipient_as_user D)" "blind (q_set_server_from_channel D)"
  by (rule blindI;
      simp add: q_have_mutual_connection_def q_are_we_a_member_def q_set_recipient_as_user_def q_set_server_from_channel_def
        split: option.split channel.split outcome.split)+

lemma blind_or_else: "blind m \<Longrightarrow> blind n \<Longrightarrow> blind (or_else m n)"
  unfolding or_else_def by (rule blind_andthen) simp_all

lemma blind_user_permissions: "blind (calculate_user_permissions (db_query D))"
proof -
  have mutual: "blind (user_mutual_part (db_query D) p)" for p
    unfolding user_mutual_part_def
    by (intro blind_andthen) (auto simp: db_query_def intro!: blind_or_else blind_andthen)
  show ?thesis
    unfolding calculate_user_permissions_def
    by (intro blind_andthen) (auto simp: db_query_def mutual [unfolded db_query_def] split: relationship_status.split intro!: blind_andthen)
qed

lemma blind_server_permissions: "blind (calculate_server_permissions (db_query D))"
  unfolding calculate_server_permissions_def Let_def
  by (auto simp: db_query_def intro!: blind_andthen blind_or_else)

lemma blind_channel_permissions: "blind (calculate_channel_permissions (db_query D))"
  unfolding calculate_channel_permissions_def Let_def
  by (auto simp: db_query_def intro!: blind_andthen blind_server_permissions [unfolded db_query_def] blind_user_permissions [unfolded db_query_def]
      split: channel_type.split)

text \<open>A calculation from a query with values from the wire.\<close>

lemma erase_over_wire [simp]:
  "erase_server (server_from_wire (server_to_wire s)) = erase_server s" "erase_member (member_from_wire (member_to_wire m)) = erase_member m"
  by (simp_all add: erase_server_def erase_member_def server_from_wire_def server_to_wire_def member_from_wire_def member_to_wire_def
      wire_parts_returned)

lemma erase_channel_over_wire [simp]: "erase_channel (channel_from_wire (channel_to_wire c)) = erase_channel c"
  by (cases c) (simp_all add: channel_conversions wire_parts_returned)

lemma channel_permissions_erased:
  assumes "erase q = erase q'"
  shows "outcome_bind (fst (channel_permissions E q w)) (\<lambda>(p, _). f p) = outcome_bind (fst (channel_permissions E q' w)) (\<lambda>(p, _). f p)"
  using blindD [OF blind_channel_permissions assms, of "reads_of (env_now E) (db w)"]
  by (auto simp: channel_permissions_def split: prod.split outcome.split)

definition wired_cache :: "gateway_cache \<Rightarrow> gateway_cache" where
  "wired_cache cache = cache\<lparr>gc_servers := map_entries (\<lambda>s. server_from_wire (server_to_wire s)) (gc_servers cache),
     gc_members := map_entries (\<lambda>m. member_from_wire (member_to_wire m)) (gc_members cache),
     gc_channels := map_entries (\<lambda>c. channel_from_wire (channel_to_wire c)) (gc_channels cache)\<rparr>"

lemma map_of_map_entries [simp]: "map_of (map_entries f m) k = map_option f (map_of m k)"
  by (induction m) (auto simp: map_entries_def)

lemma erase_cached_query: "erase (cached_query (wired_cache cache) u (channel_from_wire (channel_to_wire c)) sid) = erase (cached_query cache u c sid)"
  by (simp add: cached_query_def wired_cache_def Let_def query_build erase_def split: option.split)

lemma can_view_over_wire: "can_view_channel E w (wired_cache cache) (channel_from_wire (channel_to_wire c)) = can_view_channel E w cache c"
proof (cases c)
  case (TextChannel i t)
  obtain t' where t': "channel_from_wire (channel_to_wire (TextChannel i t)) = TextChannel i t'" "txt_server t' = txt_server t"
    by (simp add: channel_conversions)
  have unfold: "can_view_channel E w k (TextChannel i r) = (case map_of (gc_users k) (gc_user_id k) of None \<Rightarrow> Panic
      | Some u \<Rightarrow> outcome_bind (fst (channel_permissions E (cached_query k u (TextChannel i r) (txt_server r)) w))
          (\<lambda>(p, _). Ok (has_channel_permission p ViewChannel)))" for k r
    by (simp add: can_view_channel_def)
  have users: "gc_users (wired_cache cache) = gc_users cache" "gc_user_id (wired_cache cache) = gc_user_id cache"
    by (simp_all add: wired_cache_def)
  note same = channel_permissions_erased [OF erase_cached_query [of cache _ "TextChannel i t"], unfolded t'(1)]
  show ?thesis
    unfolding TextChannel t'(1) unfold users t'(2) same ..
qed (simp_all add: can_view_channel_def)

text \<open>C13: The gateway decides the visibility of channels on servers, members and channels that came over the wire as it would on those
  of the database: the channels that pass the filter are the same, in the same order, for every cache and every database.\<close>

theorem visibility_survives_wire:
  "filter_accessible_channels E w (wired_cache cache) (map (\<lambda>c. channel_from_wire (channel_to_wire c)) cs) =
   outcome_bind (filter_accessible_channels E w cache cs) (\<lambda>visible. Ok (map (\<lambda>c. channel_from_wire (channel_to_wire c)) visible))"
proof (induction cs)
  case (Cons c cs)
  then show ?case
    by (cases "can_view_channel E w cache c"; cases "filter_accessible_channels E w cache cs") (simp_all add: can_view_over_wire)
qed simp

section \<open>Presence in updates\<close>

text \<open>Rendering a user hides that it is invisible; the partial struct of an update event does not, since the conversion is asked
  to keep the presence.\<close>

theorem updates_reveal_invisible:
  assumes "pu_status p = Some s" and "status_presence s = Some Invisible"
  shows "\<exists>st. v0pu_status (partial_user_to_wire p) = Some st \<and> v0st_presence st = Some V0Invisible"
    and "user_status_to_wire s True = Some st \<Longrightarrow> v0st_presence st = None"
  using assms by (auto simp: partial_user_to_wire_def user_status_to_wire_def Let_def split: if_splits)

text \<open>The status functions of the two descriptions of a user agree.\<close>

lemma status_into_wire:
  "map_option user_status_from_wire (user_status_to_wire s b) = status_into s b"
  by (simp add: status_into_def user_status_to_wire_def user_status_from_wire_def Let_def split: option.split)

text \<open>The fields of a user that can be removed come back from the wire, but for the suspension, which becomes nothing.\<close>

lemma fields_user_over_wire: "fields_user_of (fields_user_to_wire f) = (if f = UserSuspension then UserNone else f)"
  by (cases f) simp_all

end
