(* ===== verification/Reading.thy ===== *)
theory Reading
  imports Wire Messaging
begin

text \<open>
  The routes of \<open>crates/delta/src/routes\<close> that only read: channels, the members of a group, messages, and on a server its
  bans, emojis, invites, members, roles and itself; with \<open>Message::fetch_with_users\<close> of \<open>models/messages/model.rs\<close>.

  The theorems show that they change nothing, answer only users who may read what they ask for, and stay within it; and that
  the two lists in the answer about the members of a server belong together.
\<close>

section \<open>Guards\<close>

text \<open>\<open>if !query.are_we_a_member().await { return Err(NotFound) }\<close> on a query for the server; the query goes on.\<close>

definition member_guard :: "env \<Rightarrow> user \<Rightarrow> server \<Rightarrow> database_permission_query world_action" where
  "member_guard E u s w =
     (case q_are_we_a_member (reads_of (env_now E) (db w)) (server_query u s) of
        (Ok member, q) \<Rightarrow> (if member then Ok q else Err NotFound, w)
      | (Err e, _) \<Rightarrow> (Err e, w)
      | (Panic, _) \<Rightarrow> (Panic, w))"

text \<open>\<open>calculate_server_permissions(&mut query).await.throw_if_lacking_channel_permission(..)?\<close> on a query for the server.\<close>

definition server_guard :: "env \<Rightarrow> user \<Rightarrow> server \<Rightarrow> channel_permission \<Rightarrow> unit world_action" where
  "server_guard E u s perm = andthen (server_permissions E u s) (\<lambda>(p, _). check_lacking p perm)"

section \<open>Channels and messages\<close>

definition route_channel_fetch :: "env \<Rightarrow> user \<Rightarrow> string \<Rightarrow> v0_channel world_action" where
  "route_channel_fetch E u target =
     andthen (on_db (fetch_channel target)) (\<lambda>c.
     andthen (channel_guard E u c ViewChannel) (\<lambda>_. ret (channel_to_wire c)))"

definition route_members_fetch :: "env \<Rightarrow> users_env \<Rightarrow> user \<Rightarrow> string \<Rightarrow> v0_user list world_action" where
  "route_members_fetch E UE u target =
     andthen (on_db (fetch_channel target)) (\<lambda>c.
     andthen (channel_guard E u c ViewChannel) (\<lambda>_.
       case c of
         Group _ g \<Rightarrow> fetch_many_ids_as_mutuals E UE u (grp_recipients g)
       | _ \<Rightarrow> throw InvalidOperation))"

definition route_message_fetch :: "env \<Rightarrow> user \<Rightarrow> string \<Rightarrow> string \<Rightarrow> v0_message world_action" where
  "route_message_fetch E u target msg =
     andthen (on_db (fetch_channel target)) (\<lambda>c.
     andthen (channel_guard E u c ViewChannel) (\<lambda>_.
     andthen (on_db (fetch_message msg)) (\<lambda>m.
       if msg_channel m \<noteq> channel_id c then throw NotFound
       else ret (message_into_model m None None))))"

text \<open>The query for messages. The reference database looks at the filter only.\<close>

datatype message_sort = Relevance | Latest | Oldest

datatype message_time_period =
    Relative string
  | Absolute "string option" "string option" "message_sort option"

record message_query =
  mq_filter :: message_filter
  mq_limit :: "int option"
  mq_time_period :: message_time_period

datatype bulk_message_response =
    JustMessages (response_messages: "v0_message list")
  | MessagesAndUsers (response_messages: "v0_message list") "v0_user list" "v0_member list option"

fun system_users :: "v0_system_message \<Rightarrow> string list" where
  "system_users (V0ChannelDescriptionChanged b) = [b]"
| "system_users (V0ChannelIconChanged b) = [b]"
| "system_users (V0ChannelOwnershipChanged a b) = [a, b]"
| "system_users (V0ChannelRenamed _ b) = [b]"
| "system_users (V0UserAdded i b) = [b, i]"
| "system_users (V0UserRemove i b) = [b, i]"
| "system_users (V0UserBanned i) = [i]"
| "system_users (V0UserKicked i) = [i]"
| "system_users (V0UserJoined i) = [i]"
| "system_users (V0UserLeft i) = [i]"
| "system_users (V0Text _) = []"
| "system_users (V0MessagePinned _ b) = [b]"
| "system_users (V0MessageUnpinned _ b) = [b]"
| "system_users (V0CallStarted b _) = [b]"

definition named_users :: "v0_message \<Rightarrow> string list" where
  "named_users m = v0msg_author m # (case v0msg_system m of Some s \<Rightarrow> system_users s | None \<Rightarrow> [])"

definition fetch_with_users ::
    "env \<Rightarrow> users_env \<Rightarrow> message_query \<Rightarrow> user \<Rightarrow> bool option \<Rightarrow> string option \<Rightarrow> bulk_message_response world_action" where
  "fetch_with_users E UE query perspective include_users sid =
     andthen (on_db (fetch_messages (ue_lower UE) (mq_filter query))) (\<lambda>ms.
     let messages = map (\<lambda>m. message_into_model m None None) ms in
     if include_users = Some True then
       let user_ids = env_iteration E (set (concat (map named_users messages))) in
       andthen (fetch_many_ids_as_mutuals E UE perspective user_ids) (\<lambda>us.
       andthen (case sid of
                  Some s \<Rightarrow> andthen (on_db (fetch_members s user_ids)) (\<lambda>mems. ret (Some (map member_to_wire mems)))
                | None \<Rightarrow> ret None) (\<lambda>members.
       ret (MessagesAndUsers messages us members)))
     else ret (JustMessages messages))"

record options_query_messages =
  oqm_limit :: "int option"
  oqm_before :: "string option"
  oqm_after :: "string option"
  oqm_sort :: "message_sort option"
  oqm_nearby :: "string option"
  oqm_include_users :: "bool option"

definition channel_filter :: "string \<Rightarrow> message_filter" where
  "channel_filter cid = \<lparr>filter_channel = Some cid, filter_author = None, filter_query = None, filter_pinned = None\<rparr>"

definition route_message_query ::
    "env \<Rightarrow> users_env \<Rightarrow> unit result \<Rightarrow> user \<Rightarrow> string \<Rightarrow> options_query_messages \<Rightarrow> bulk_message_response world_action" where
  "route_message_query E UE validation u target options =
     andthen (lift validation) (\<lambda>_.
       if oqm_sort options = Some Relevance then throw InvalidOperation
       else
       andthen (on_db (fetch_channel target)) (\<lambda>c.
       andthen (channel_guard E u c ReadMessageHistory) (\<lambda>_.
       fetch_with_users E UE
         \<lparr>mq_filter = channel_filter (channel_id c), mq_limit = oqm_limit options,
          mq_time_period = (case oqm_nearby options of
             Some nearby \<Rightarrow> Relative nearby
           | None \<Rightarrow> Absolute (oqm_before options) (oqm_after options) (oqm_sort options))\<rparr>
         u (oqm_include_users options) (channel_server c))))"

record data_message_search =
  dms_query :: "string option"
  dms_pinned :: "bool option"
  dms_limit :: "int option"
  dms_before :: "string option"
  dms_after :: "string option"
  dms_sort :: message_sort
  dms_include_users :: "bool option"

definition route_message_search ::
    "env \<Rightarrow> users_env \<Rightarrow> unit result \<Rightarrow> user \<Rightarrow> string \<Rightarrow> data_message_search \<Rightarrow> bulk_message_response world_action" where
  "route_message_search E UE validation u target options =
     (if user_bot u \<noteq> None then throw IsBot
      else
       andthen (lift validation) (\<lambda>_.
       if dms_query options \<noteq> None \<and> dms_pinned options \<noteq> None then throw InvalidOperation
       else
       andthen (on_db (fetch_channel target)) (\<lambda>c.
       andthen (channel_guard E u c ReadMessageHistory) (\<lambda>_.
       fetch_with_users E UE
         \<lparr>mq_filter = (channel_filter (channel_id c))\<lparr>filter_query := dms_query options, filter_pinned := dms_pinned options\<rparr>,
          mq_limit = dms_limit options,
          mq_time_period = Absolute (dms_before options) (dms_after options) (Some (dms_sort options))\<rparr>
         u (dms_include_users options) (channel_server c)))))"

section \<open>Invites\<close>

record server_invite_response =
  sir_code :: string
  sir_server_id :: string
  sir_server_name :: string
  sir_server_icon :: "v0_file option"
  sir_server_banner :: "v0_file option"
  sir_server_flags :: "int option"
  sir_channel_id :: string
  sir_channel_name :: string
  sir_channel_description :: "string option"
  sir_user_name :: string
  sir_user_avatar :: "v0_file option"
  sir_member_count :: nat

record group_invite_response =
  gir_code :: string
  gir_channel_id :: string
  gir_channel_name :: string
  gir_channel_description :: "string option"
  gir_user_name :: string
  gir_user_avatar :: "v0_file option"

datatype invite_response = ServerInviteResponse server_invite_response | GroupInviteResponse group_invite_response

text \<open>An invite whose channel is of another kind runs into \<open>unreachable!\<close>. Nobody needs to be logged in.\<close>

definition route_invite_fetch :: "env \<Rightarrow> string \<Rightarrow> invite_response world_action" where
  "route_invite_fetch E target =
     andthen (as_invite E target) (\<lambda>link.
       case link of
         ServerInvite _ _ creator cid \<Rightarrow>
           andthen (on_db (fetch_channel cid)) (\<lambda>c.
           andthen (on_db (fetch_user creator)) (\<lambda>u.
             case c of
               TextChannel i t \<Rightarrow>
                 andthen (on_db (fetch_server (txt_server t))) (\<lambda>s.
                 andthen (on_db (fetch_member_count (server_id s))) (\<lambda>n.
                 ret (ServerInviteResponse
                   \<lparr>sir_code = target, sir_server_id = server_id s, sir_server_name = server_name s,
                    sir_server_icon = map_option file_to_wire (server_icon s), sir_server_banner = map_option file_to_wire (server_banner s),
                    sir_server_flags = server_flags s, sir_channel_id = i, sir_channel_name = txt_name t,
                    sir_channel_description = txt_description t, sir_user_name = username u,
                    sir_user_avatar = map_option file_to_wire (user_avatar u), sir_member_count = n\<rparr>)))
             | _ \<Rightarrow> panic))
       | GroupInvite _ creator cid \<Rightarrow>
           andthen (on_db (fetch_channel cid)) (\<lambda>c.
           andthen (on_db (fetch_user creator)) (\<lambda>u.
             case c of
               Group i g \<Rightarrow>
                 ret (GroupInviteResponse
                   \<lparr>gir_code = target, gir_channel_id = i, gir_channel_name = grp_name g, gir_channel_description = grp_description g,
                    gir_user_name = username u, gir_user_avatar = map_option file_to_wire (user_avatar u)\<rparr>)
             | _ \<Rightarrow> panic)))"

section \<open>Servers\<close>

record banned_user =
  bu_id :: string
  bu_username :: string
  bu_discriminator :: string
  bu_avatar :: "stored_file option"

definition banned_user_of :: "v0_user \<Rightarrow> banned_user" where
  "banned_user_of v = \<lparr>bu_id = v0u_id v, bu_username = v0u_username v, bu_discriminator = v0u_discriminator v, bu_avatar = v0u_avatar v\<rparr>"

definition route_ban_list :: "env \<Rightarrow> users_env \<Rightarrow> user \<Rightarrow> string \<Rightarrow> (banned_user list \<times> v0_server_ban list) world_action" where
  "route_ban_list E UE u target =
     andthen (on_db (fetch_server target)) (\<lambda>s.
     andthen (server_guard E u s BanMembers) (\<lambda>_.
     andthen (on_db (fetch_bans (server_id s))) (\<lambda>bans.
     andthen (on_db (fetch_users (map (\<lambda>b. key_user (ban_id b)) bans))) (\<lambda>us.
     andthen (map_action (\<lambda>v. user_into_self E UE v False) us) (\<lambda>shown.
     ret (map banned_user_of shown, map server_ban_to_wire bans))))))"

definition route_emoji_list :: "env \<Rightarrow> user \<Rightarrow> string \<Rightarrow> v0_emoji list world_action" where
  "route_emoji_list E u target =
     andthen (on_db (fetch_server target)) (\<lambda>s.
     andthen (member_guard E u s) (\<lambda>_.
     andthen (on_db (fetch_emoji_by_parent_id (server_id s))) (\<lambda>es. ret (map emoji_to_wire es))))"

definition route_emoji_fetch :: "string \<Rightarrow> v0_emoji world_action" where
  "route_emoji_fetch i = andthen (on_db (fetch_emoji i)) (\<lambda>e. ret (emoji_to_wire e))"

definition route_invites_fetch :: "env \<Rightarrow> user \<Rightarrow> string \<Rightarrow> v0_invite list world_action" where
  "route_invites_fetch E u target =
     andthen (on_db (fetch_server target)) (\<lambda>s.
     andthen (server_guard E u s ManageServer) (\<lambda>_.
     andthen (on_db (fetch_invites_for_server (server_id s))) (\<lambda>links. ret (map invite_to_wire links))))"

text \<open>The search for members by name. \<open>sort_by\<close> is stable, and the length of a name is counted in bytes.\<close>

definition shown_name :: "member \<times> user \<Rightarrow> string" where
  "shown_name = (\<lambda>(m, u). case nickname m of Some n \<Rightarrow> n | None \<Rightarrow> username u)"

definition matching_members :: "string \<Rightarrow> member list \<Rightarrow> user list \<Rightarrow> (member \<times> user) list" where
  "matching_members query members us =
     take 10 (sort_key (\<lambda>p. utf8_len (shown_name p))
       (filter (\<lambda>p. contains_str (shown_name p) query)
         (zip (sort_key (\<lambda>m. key_user (member_id m)) members) (sort_key user_id us))))"

definition route_member_experimental_query ::
    "env \<Rightarrow> users_env \<Rightarrow> user \<Rightarrow> string \<Rightarrow> string \<Rightarrow> bool \<Rightarrow> (v0_member list \<times> v0_user list) world_action" where
  "route_member_experimental_query E UE u target query experimental_api =
     (if \<not> experimental_api then throw InternalError
      else
      andthen (on_db (fetch_server target)) (\<lambda>s.
      andthen (member_guard E u s) (\<lambda>_.
      andthen (on_db (fetch_all_members (server_id s))) (\<lambda>members.
      andthen (on_db (fetch_users (map (\<lambda>m. key_user (member_id m)) members))) (\<lambda>us.
      let found = matching_members query members us in
      andthen (map_action (\<lambda>v. user_into E UE v (Some u)) (map snd found)) (\<lambda>shown.
      ret (map (\<lambda>p. member_to_wire (fst p)) found, shown)))))))"

datatype member_response = JustMember v0_member | MemberWithRoles v0_member "(string, v0_role) hashmap"

definition route_member_fetch :: "env \<Rightarrow> user \<Rightarrow> string \<Rightarrow> string \<Rightarrow> bool option \<Rightarrow> member_response world_action" where
  "route_member_fetch E u target mid roles =
     andthen (on_db (fetch_server target)) (\<lambda>s.
     andthen (member_guard E u s) (\<lambda>_.
     andthen (on_db (fetch_member (server_id s) mid)) (\<lambda>m.
     ret (if roles = Some True
          then MemberWithRoles (member_to_wire m) (map_entries role_to_wire (filter (\<lambda>(k, _). k \<in> set (member_roles m)) (server_roles s)))
          else JustMember (member_to_wire m)))))"

text \<open>\<open>members.retain(|_| iter.next().unwrap().online)\<close>: walks the users along, and panics when they run out.\<close>

fun retain_online :: "'a list \<Rightarrow> v0_user list \<Rightarrow> 'a list option" where
  "retain_online [] us = Some []"
| "retain_online (m # ms) [] = None"
| "retain_online (m # ms) (u # us) = map_option (\<lambda>rest. if v0u_online u then m # rest else rest) (retain_online ms us)"

definition route_member_fetch_all ::
    "env \<Rightarrow> users_env \<Rightarrow> user \<Rightarrow> string \<Rightarrow> bool option \<Rightarrow> (v0_member list \<times> v0_user list) world_action" where
  "route_member_fetch_all E UE u target exclude_offline =
     andthen (on_db (fetch_server target)) (\<lambda>s.
     andthen (member_guard E u s) (\<lambda>_.
     andthen (on_db (fetch_all_members (server_id s))) (\<lambda>ms.
     andthen (fetch_many_ids_as_mutuals E UE u (map (\<lambda>m. key_user (member_id m)) ms)) (\<lambda>vs.
     let members = sort_key (\<lambda>m. key_user (member_id m)) ms; us = sort_key v0u_id vs in
     if exclude_offline = Some True then
       andthen (unwrap (retain_online members us)) (\<lambda>kept.
       ret (map member_to_wire kept, filter v0u_online us))
     else ret (map member_to_wire members, us)))))"

definition route_roles_fetch :: "env \<Rightarrow> user \<Rightarrow> string \<Rightarrow> string \<Rightarrow> v0_role world_action" where
  "route_roles_fetch E u target rid =
     andthen (on_db (fetch_server target)) (\<lambda>s.
     andthen (member_guard E u s) (\<lambda>_.
       case map_of (server_roles s) rid of Some r \<Rightarrow> ret (role_to_wire r) | None \<Rightarrow> throw NotFound))"

datatype fetch_server_response = JustServer v0_server | ServerWithChannels v0_server "v0_channel list"

definition route_server_fetch :: "env \<Rightarrow> user \<Rightarrow> string \<Rightarrow> bool option \<Rightarrow> fetch_server_response world_action" where
  "route_server_fetch E u target include_channels =
     andthen (on_db (fetch_server target)) (\<lambda>s.
     andthen (member_guard E u s) (\<lambda>q.
       if include_channels = Some True then
         andthen (on_db (fetch_channels (server_channels s))) (\<lambda>all.
         andthen (visible_channels E q all) (\<lambda>cs.
         ret (ServerWithChannels (server_to_wire s) (map channel_to_wire cs))))
       else ret (JustServer (server_to_wire s))))"

definition route_fetch_self :: "env \<Rightarrow> users_env \<Rightarrow> user \<Rightarrow> v0_user world_action" where
  "route_fetch_self E UE u = user_into_self E UE u False"

section \<open>Requests\<close>

datatype read_request =
    ReadChannel string
  | ReadGroupMembers string
  | ReadMessage string string
  | QueryMessages string options_query_messages
  | SearchMessages string data_message_search
  | ReadBans string
  | ReadEmojis string
  | ReadInvites string
  | FindMembers string string bool
  | ReadMember string string "bool option"
  | ReadMembers string "bool option"
  | ReadRole string string
  | ReadServer string "bool option"

datatype read_answer =
    AnswerChannel v0_channel
  | AnswerUsers "v0_user list"
  | AnswerMessage v0_message
  | AnswerMessages bulk_message_response
  | AnswerBans "banned_user list" "v0_server_ban list"
  | AnswerEmojis "v0_emoji list"
  | AnswerInvites "v0_invite list"
  | AnswerMembers "v0_member list" "v0_user list"
  | AnswerMember member_response
  | AnswerRole v0_role
  | AnswerServer fetch_server_response

primrec read_route :: "env \<Rightarrow> users_env \<Rightarrow> unit result \<Rightarrow> user \<Rightarrow> read_request \<Rightarrow> read_answer world_action" where
  "read_route E UE validation u (ReadChannel cid) = andthen (route_channel_fetch E u cid) (\<lambda>c. ret (AnswerChannel c))"
| "read_route E UE validation u (ReadGroupMembers cid) = andthen (route_members_fetch E UE u cid) (\<lambda>vs. ret (AnswerUsers vs))"
| "read_route E UE validation u (ReadMessage cid mid) = andthen (route_message_fetch E u cid mid) (\<lambda>m. ret (AnswerMessage m))"
| "read_route E UE validation u (QueryMessages cid opts) = andthen (route_message_query E UE validation u cid opts) (\<lambda>r. ret (AnswerMessages r))"
| "read_route E UE validation u (SearchMessages cid opts) = andthen (route_message_search E UE validation u cid opts) (\<lambda>r. ret (AnswerMessages r))"
| "read_route E UE validation u (ReadBans sid) = andthen (route_ban_list E UE u sid) (\<lambda>(us, bs). ret (AnswerBans us bs))"
| "read_route E UE validation u (ReadEmojis sid) = andthen (route_emoji_list E u sid) (\<lambda>es. ret (AnswerEmojis es))"
| "read_route E UE validation u (ReadInvites sid) = andthen (route_invites_fetch E u sid) (\<lambda>links. ret (AnswerInvites links))"
| "read_route E UE validation u (FindMembers sid query api) =
     andthen (route_member_experimental_query E UE u sid query api) (\<lambda>(ms, us). ret (AnswerMembers ms us))"
| "read_route E UE validation u (ReadMember sid mid roles) = andthen (route_member_fetch E u sid mid roles) (\<lambda>r. ret (AnswerMember r))"
| "read_route E UE validation u (ReadMembers sid online) = andthen (route_member_fetch_all E UE u sid online) (\<lambda>(ms, us). ret (AnswerMembers ms us))"
| "read_route E UE validation u (ReadRole sid rid) = andthen (route_roles_fetch E u sid rid) (\<lambda>r. ret (AnswerRole r))"
| "read_route E UE validation u (ReadServer sid channels) = andthen (route_server_fetch E u sid channels) (\<lambda>r. ret (AnswerServer r))"

section \<open>What an answer needs\<close>

definition reads_channel :: "env \<Rightarrow> world \<Rightarrow> user \<Rightarrow> string \<Rightarrow> channel_permission \<Rightarrow> channel \<Rightarrow> bool" where
  "reads_channel E w u cid perm c \<longleftrightarrow> map_of (db_channels (db w)) cid = Some c \<and> may E w u c perm"

definition governs :: "env \<Rightarrow> world \<Rightarrow> user \<Rightarrow> string \<Rightarrow> channel_permission \<Rightarrow> server \<Rightarrow> bool" where
  "governs E w u sid perm s \<longleftrightarrow> map_of (db_servers (db w)) sid = Some s \<and> has_channel_permission (acting_permissions E w u s) perm"

definition belongs :: "world \<Rightarrow> user \<Rightarrow> string \<Rightarrow> server \<Rightarrow> bool" where
  "belongs w u sid s \<longleftrightarrow> map_of (db_servers (db w)) sid = Some s
     \<and> map_of (db_server_members (db w)) \<lparr>key_server = server_id s, key_user = user_id u\<rparr> \<noteq> None"

fun messages_within :: "string \<Rightarrow> read_answer \<Rightarrow> bool" where
  "messages_within cid (AnswerMessages r) \<longleftrightarrow> list_all (\<lambda>m. v0msg_channel m = cid) (response_messages r)"
| "messages_within cid _ \<longleftrightarrow> False"

fun members_within :: "string \<Rightarrow> read_answer \<Rightarrow> bool" where
  "members_within sid (AnswerMembers ms us) \<longleftrightarrow> list_all (\<lambda>m. v0k_server (v0m_id m) = sid) ms"
| "members_within sid _ \<longleftrightarrow> False"

fun bans_within :: "string \<Rightarrow> read_answer \<Rightarrow> bool" where
  "bans_within sid (AnswerBans us bs) \<longleftrightarrow> list_all (\<lambda>b. v0k_server (v0ban_id b) = sid) bs"
| "bans_within sid _ \<longleftrightarrow> False"

primrec justified :: "env \<Rightarrow> world \<Rightarrow> user \<Rightarrow> read_request \<Rightarrow> read_answer \<Rightarrow> bool" where
  "justified E w u (ReadChannel cid) x \<longleftrightarrow> (\<exists>c. reads_channel E w u cid ViewChannel c \<and> x = AnswerChannel (channel_to_wire c))"
| "justified E w u (ReadGroupMembers cid) x \<longleftrightarrow> (\<exists>i g. reads_channel E w u cid ViewChannel (Group i g))"
| "justified E w u (ReadMessage cid mid) x \<longleftrightarrow> (\<exists>c m. reads_channel E w u cid ViewChannel c \<and> map_of (db_messages (db w)) mid = Some m
     \<and> msg_channel m = channel_id c \<and> x = AnswerMessage (message_into_model m None None))"
| "justified E w u (QueryMessages cid opts) x \<longleftrightarrow> (\<exists>c. reads_channel E w u cid ReadMessageHistory c \<and> messages_within (channel_id c) x)"
| "justified E w u (SearchMessages cid opts) x \<longleftrightarrow> user_bot u = None
     \<and> (\<exists>c. reads_channel E w u cid ReadMessageHistory c \<and> messages_within (channel_id c) x)"
| "justified E w u (ReadBans sid) x \<longleftrightarrow> (\<exists>s. governs E w u sid BanMembers s \<and> bans_within (server_id s) x)"
| "justified E w u (ReadEmojis sid) x \<longleftrightarrow> (\<exists>s. belongs w u sid s)"
| "justified E w u (ReadInvites sid) x \<longleftrightarrow> (\<exists>s. governs E w u sid ManageServer s)"
| "justified E w u (FindMembers sid query api) x \<longleftrightarrow> (\<exists>s. belongs w u sid s \<and> members_within (server_id s) x)"
| "justified E w u (ReadMember sid mid roles) x \<longleftrightarrow> (\<exists>s. belongs w u sid s)"
| "justified E w u (ReadMembers sid online) x \<longleftrightarrow> (\<exists>s. belongs w u sid s \<and> members_within (server_id s) x)"
| "justified E w u (ReadRole sid rid) x \<longleftrightarrow> (\<exists>s r. belongs w u sid s \<and> map_of (server_roles s) rid = Some r \<and> x = AnswerRole (role_to_wire r))"
| "justified E w u (ReadServer sid channels) x \<longleftrightarrow> (\<exists>s. belongs w u sid s)"

section \<open>Steps that only read\<close>

lemma on_db_reads: "unchanged (\<lambda>d. d) m \<Longrightarrow> unchanged f (on_db m)"
  by (simp add: unchanged_def on_db_def split: prod.split) (metis snd_conv world.surjective world.update_convs(1))

lemma table_fetch_reads [simp]: "unchanged f (table_fetch get e k)"
  by (simp add: unchanged_def table_fetch_def ret_def throw_def split: option.split)

lemma fetches_read [simp]:
  "unchanged f (on_db (fetch_channel i))" "unchanged f (on_db (fetch_server i))" "unchanged f (on_db (fetch_message i))"
  "unchanged f (on_db (fetch_user i))" "unchanged f (on_db (fetch_users is))" "unchanged f (on_db (fetch_channels is))"
  "unchanged f (on_db (fetch_messages lower flt))" "unchanged f (on_db (fetch_members i is))" "unchanged f (on_db (fetch_bans i))"
  "unchanged f (on_db (fetch_emoji_by_parent_id i))" "unchanged f (on_db (fetch_invites_for_server i))"
  "unchanged f (on_db (fetch_all_members i))" "unchanged f (on_db (fetch_member i j))"
  by (rule on_db_reads;
      simp add: fetch_channel_def fetch_server_def fetch_message_def fetch_user_def fetch_users_def fetch_channels_def fetch_messages_def
        fetch_members_def fetch_bans_def fetch_emoji_by_parent_id_def fetch_invites_for_server_def fetch_all_members_def fetch_member_def
        unchanged_andthen del: andthen_gets)+

lemma guards_read [simp]:
  "unchanged f (channel_permissions E q)" "unchanged f (check_lacking p perm)" "unchanged f (channel_guard E u c perm)"
  "unchanged f (server_permissions E u s)" "unchanged f (server_guard E u s perm)" "unchanged f (member_guard E u s)"
proof -
  show perms [simp]: "unchanged f (channel_permissions E q)" for q
    by (simp add: unchanged_def channel_permissions_def split: prod.split outcome.split)
  show check [simp]: "unchanged f (check_lacking p perm)" for p by (simp add: check_lacking_def)
  show "unchanged f (channel_guard E u c perm)" by (auto simp: channel_guard_def intro!: unchanged_andthen)
  show server [simp]: "unchanged f (server_permissions E u s)"
    by (simp add: unchanged_def server_permissions_def query_server_permissions_def split: prod.split outcome.split)
  show "unchanged f (server_guard E u s perm)" by (auto simp: server_guard_def intro!: unchanged_andthen)
  show "unchanged f (member_guard E u s)" by (simp add: unchanged_def member_guard_def split: prod.split outcome.split)
qed

lemma map_action_reads: "(\<And>x. unchanged f (g x)) \<Longrightarrow> unchanged f (map_action g xs)"
  by (induction xs) (simp_all add: unchanged_andthen)

lemma mutuals_read [simp]: "unchanged f (fetch_many_ids_as_mutuals E UE u is)"
  by (auto simp: fetch_many_ids_as_mutuals_def intro!: unchanged_andthen map_action_reads)

lemma visible_channels_read [simp]: "unchanged f (visible_channels E q cs)"
  by (induction cs) (auto intro!: unchanged_andthen)

lemma with_users_read [simp]: "unchanged f (fetch_with_users E UE query u inc sid)"
  by (auto simp: fetch_with_users_def Let_def intro!: unchanged_andthen split: option.split)

lemmas read_routes = route_channel_fetch_def route_members_fetch_def route_message_fetch_def route_message_query_def route_message_search_def
  route_ban_list_def route_emoji_list_def route_invites_fetch_def route_member_experimental_query_def route_member_fetch_def
  route_member_fetch_all_def route_roles_fetch_def route_server_fetch_def

lemma read_route_reads: "unchanged f (read_route E UE validation u req)"
  by (cases req) (auto simp: read_routes Let_def intro!: unchanged_andthen map_action_reads split: option.split channel.split)

text \<open>What the steps find.\<close>

lemma fetched_channel: "on_db (fetch_channel i) w = (Ok c, w) \<Longrightarrow> map_of (db_channels (db w)) i = Some c"
  by (simp add: on_db_def fetch_channel_def table_fetch_def ret_def throw_def split: option.splits)

lemma fetched_server: "on_db (fetch_server i) w = (Ok s, w) \<Longrightarrow> map_of (db_servers (db w)) i = Some s"
  by (simp add: on_db_def fetch_server_def table_fetch_def ret_def throw_def split: option.splits)

lemma fetched_message: "on_db (fetch_message i) w = (Ok m, w) \<Longrightarrow> map_of (db_messages (db w)) i = Some m"
  by (simp add: on_db_def fetch_message_def table_fetch_def ret_def throw_def split: option.splits)

lemma passed_channel_guard: "channel_guard E u c perm w = (Ok x, w') \<Longrightarrow> may E w u c perm"
  using channel_guard_OkE [of E u c perm ret w x w'] by (fastforce simp: andthen_def ret_def)

lemma passed_server_guard: "server_guard E u s perm w = (Ok x, w') \<Longrightarrow> has_channel_permission (acting_permissions E w u s) perm"
  by (auto simp: server_guard_def check_lacking_def throw_if_lacking_channel_permission_def lift_def elim!: server_permissions_OkE split: if_splits)

lemma passed_member_guard:
  "member_guard E u s w = (Ok q, w') \<Longrightarrow> map_of (db_server_members (db w)) \<lparr>key_server = server_id s, key_user = user_id u\<rparr> \<noteq> None"
  by (auto simp: member_guard_def q_are_we_a_member_def query_build reads_of_def fetch_member_def table_fetch_def ret_def throw_def
      split: option.splits if_splits prod.splits outcome.splits)

lemmas passed = passed_channel_guard passed_server_guard passed_member_guard

lemmas found = fetched_channel fetched_server fetched_message

lemma with_users_channel:
  assumes "fetch_with_users E UE query u inc sid w = (Ok r, w')" and "filter_channel (mq_filter query) = Some cid"
  shows "messages_within cid (AnswerMessages r)"
  using assms
  by (auto simp: fetch_with_users_def fetch_messages_def Let_def message_into_model_def message_matches_def list_all_iff ret_def
      elim!: andthen_OkE split: if_splits)

lemma sorted_members_within:
  assumes "on_db (fetch_all_members sid) w = (Ok ms, w')"
  shows "list_all (\<lambda>m. v0k_server (v0m_id m) = sid) (map member_to_wire (sort_key key ms))"
    and "list_all (\<lambda>m. v0k_server (v0m_id m) = sid) (map member_to_wire ms)"
  using assms by (auto simp: on_db_def fetch_all_members_def gets_def list_all_iff member_to_wire_def member_key_to_wire_def)

lemma retained_subset: "retain_online ms us = Some kept \<Longrightarrow> set kept \<subseteq> set ms"
  by (induction ms us arbitrary: kept rule: retain_online.induct) (auto split: if_splits)

lemma matching_subset: "(m, v) \<in> set (matching_members query ms us) \<Longrightarrow> m \<in> set ms"
  by (auto simp: matching_members_def dest!: in_set_takeD set_zip_leftD)

lemma members_answer_within:
  assumes "on_db (fetch_all_members sid) w = (Ok ms, w')" and "set kept \<subseteq> set ms"
  shows "list_all (\<lambda>m. v0k_server (v0m_id m) = sid) (map member_to_wire kept)"
  using assms(2) sorted_members_within(2) [OF assms(1)] by (auto simp: list_all_iff)

lemma channel_answers:
  "route_channel_fetch E u cid w = (Ok v, w') \<Longrightarrow> \<exists>c. reads_channel E w u cid ViewChannel c \<and> v = channel_to_wire c"
  "route_members_fetch E UE u cid w = (Ok vs, w') \<Longrightarrow> \<exists>i g. reads_channel E w u cid ViewChannel (Group i g)"
  "route_message_fetch E u cid mid w = (Ok vm, w') \<Longrightarrow> \<exists>c m. reads_channel E w u cid ViewChannel c \<and> map_of (db_messages (db w)) mid = Some m
     \<and> msg_channel m = channel_id c \<and> vm = message_into_model m None None"
  "route_message_query E UE validation u cid opts w = (Ok r, w') \<Longrightarrow>
     \<exists>c. reads_channel E w u cid ReadMessageHistory c \<and> messages_within (channel_id c) (AnswerMessages r)"
  "route_message_search E UE validation u cid sopts w = (Ok r, w') \<Longrightarrow> user_bot u = None
     \<and> (\<exists>c. reads_channel E w u cid ReadMessageHistory c \<and> messages_within (channel_id c) (AnswerMessages r))"
proof -
  show "route_channel_fetch E u cid w = (Ok v, w') \<Longrightarrow> \<exists>c. reads_channel E w u cid ViewChannel c \<and> v = channel_to_wire c"
    unfolding route_channel_fetch_def by (auto simp: ret_def reads_channel_def elim!: pure_OkE dest: found passed)
  show "route_members_fetch E UE u cid w = (Ok vs, w') \<Longrightarrow> \<exists>i g. reads_channel E w u cid ViewChannel (Group i g)"
    unfolding route_members_fetch_def by (auto simp: throw_def reads_channel_def elim!: pure_OkE dest!: found passed split: channel.splits)
  show "route_message_fetch E u cid mid w = (Ok vm, w') \<Longrightarrow> \<exists>c m. reads_channel E w u cid ViewChannel c \<and> map_of (db_messages (db w)) mid = Some m
     \<and> msg_channel m = channel_id c \<and> vm = message_into_model m None None"
    unfolding route_message_fetch_def
    by (auto simp: throw_def ret_def reads_channel_def elim!: pure_OkE dest!: found passed split: if_splits)
  show "route_message_query E UE validation u cid opts w = (Ok r, w') \<Longrightarrow>
     \<exists>c. reads_channel E w u cid ReadMessageHistory c \<and> messages_within (channel_id c) (AnswerMessages r)"
    unfolding route_message_query_def
    by (auto simp: throw_def reads_channel_def channel_filter_def elim!: pure_OkE dest!: found passed with_users_channel split: if_splits)
  show "route_message_search E UE validation u cid sopts w = (Ok r, w') \<Longrightarrow> user_bot u = None
     \<and> (\<exists>c. reads_channel E w u cid ReadMessageHistory c \<and> messages_within (channel_id c) (AnswerMessages r))"
    unfolding route_message_search_def
    by (auto simp: throw_def reads_channel_def channel_filter_def elim!: pure_OkE dest!: found passed with_users_channel split: if_splits)
qed

lemma server_answers:
  "route_ban_list E UE u sid w = (Ok (us, bs), w') \<Longrightarrow> \<exists>s. governs E w u sid BanMembers s \<and> bans_within (server_id s) (AnswerBans us bs)"
  "route_emoji_list E u sid w = (Ok es, w') \<Longrightarrow> \<exists>s. belongs w u sid s"
  "route_invites_fetch E u sid w = (Ok links, w') \<Longrightarrow> \<exists>s. governs E w u sid ManageServer s"
  "route_member_fetch E u sid mid roles w = (Ok mr, w') \<Longrightarrow> \<exists>s. belongs w u sid s"
  "route_roles_fetch E u sid rid w = (Ok vr, w') \<Longrightarrow> \<exists>s r. belongs w u sid s \<and> map_of (server_roles s) rid = Some r \<and> vr = role_to_wire r"
  "route_server_fetch E u sid channels w = (Ok sr, w') \<Longrightarrow> \<exists>s. belongs w u sid s"
proof -
  show "route_ban_list E UE u sid w = (Ok (us, bs), w') \<Longrightarrow> \<exists>s. governs E w u sid BanMembers s \<and> bans_within (server_id s) (AnswerBans us bs)"
    unfolding route_ban_list_def
    by (auto simp: governs_def ret_def on_db_def fetch_bans_def gets_def list_all_iff server_ban_to_wire_def member_key_to_wire_def map_action_reads
        elim!: pure_OkE dest!: found passed)
  show "route_emoji_list E u sid w = (Ok es, w') \<Longrightarrow> \<exists>s. belongs w u sid s"
    unfolding route_emoji_list_def by (auto simp: belongs_def elim!: pure_OkE dest: found passed)
  show "route_invites_fetch E u sid w = (Ok links, w') \<Longrightarrow> \<exists>s. governs E w u sid ManageServer s"
    unfolding route_invites_fetch_def by (auto simp: governs_def elim!: pure_OkE dest: found passed)
  show "route_member_fetch E u sid mid roles w = (Ok mr, w') \<Longrightarrow> \<exists>s. belongs w u sid s"
    unfolding route_member_fetch_def by (auto simp: belongs_def elim!: pure_OkE dest: found passed)
  show "route_roles_fetch E u sid rid w = (Ok vr, w') \<Longrightarrow> \<exists>s r. belongs w u sid s \<and> map_of (server_roles s) rid = Some r \<and> vr = role_to_wire r"
    unfolding route_roles_fetch_def by (auto simp: belongs_def ret_def throw_def elim!: pure_OkE dest!: found passed split: option.splits)
  show "route_server_fetch E u sid channels w = (Ok sr, w') \<Longrightarrow> \<exists>s. belongs w u sid s"
    unfolding route_server_fetch_def by (auto simp: belongs_def elim!: pure_OkE dest: found passed)
qed

lemma member_answers:
  "route_member_experimental_query E UE u sid query api w = (Ok (ms, us), w') \<Longrightarrow>
     \<exists>s. belongs w u sid s \<and> members_within (server_id s) (AnswerMembers ms us)"
  "route_member_fetch_all E UE u sid online w = (Ok (ms, us), w') \<Longrightarrow>
     \<exists>s. belongs w u sid s \<and> members_within (server_id s) (AnswerMembers ms us)"
proof -
  show "route_member_experimental_query E UE u sid query api w = (Ok (ms, us), w') \<Longrightarrow>
     \<exists>s. belongs w u sid s \<and> members_within (server_id s) (AnswerMembers ms us)"
  proof -
    assume "route_member_experimental_query E UE u sid query api w = (Ok (ms, us), w')"
    then obtain s q members found where "on_db (fetch_server sid) w = (Ok s, w)" "member_guard E u s w = (Ok q, w)"
      and all: "on_db (fetch_all_members (server_id s)) w = (Ok members, w)"
      and ms: "ms = map (\<lambda>p. member_to_wire (fst p)) (matching_members query members found)"
      unfolding route_member_experimental_query_def Let_def by (auto simp: ret_def throw_def map_action_reads elim!: pure_OkE split: if_splits)
    then have "belongs w u sid s" by (auto simp: belongs_def dest: fetched_server passed)
    moreover have "set (map fst (matching_members query members found)) \<subseteq> set members" by (auto dest: matching_subset)
    from members_answer_within [OF all this] ms have "members_within (server_id s) (AnswerMembers ms us)" by (simp add: comp_def)
    ultimately show ?thesis by blast
  qed
  show "route_member_fetch_all E UE u sid online w = (Ok (ms, us), w') \<Longrightarrow>
     \<exists>s. belongs w u sid s \<and> members_within (server_id s) (AnswerMembers ms us)"
  proof -
    assume "route_member_fetch_all E UE u sid online w = (Ok (ms, us), w')"
    then obtain s q members kept where "on_db (fetch_server sid) w = (Ok s, w)" "member_guard E u s w = (Ok q, w)"
      and all: "on_db (fetch_all_members (server_id s)) w = (Ok members, w)"
      and ms: "ms = map member_to_wire kept" "set kept \<subseteq> set members"
      unfolding route_member_fetch_all_def Let_def
      by (fastforce simp: ret_def unwrap_def panic_def elim!: pure_OkE dest: retained_subset split: if_splits option.splits)
    then have "belongs w u sid s" by (auto simp: belongs_def dest: fetched_server passed)
    moreover from members_answer_within [OF all ms(2)] ms(1) have "members_within (server_id s) (AnswerMembers ms us)" by simp
    ultimately show ?thesis by blast
  qed
qed


definition lounge :: world where
  "lounge = sample_world (empty_db\<lparr>db_servers := [(''s'', sample_server ''s'' ''o'' [(''r'', sample_role ''r'' 1 0 0)] 0)],
     db_server_members := [(\<lparr>key_server = ''s'', key_user = ''a''\<rparr>, sample_member ''s'' ''a'' [] None)]\<rparr>)"


section \<open>The members of a server\<close>

lemma lookup_all_ids:
  assumes "lookup_all t e ks = Ok vs" and "\<And>k v. map_of t k = Some v \<Longrightarrow> key v = k"
  shows "map key vs = ks"
  using assms(1)
proof (induction ks arbitrary: vs)
  case (Cons k ks)
  then obtain v rest where "map_of t k = Some v" "lookup_all t e ks = Ok rest" "vs = v # rest"
    by (cases "lookup_all t e ks") (auto split: option.splits)
  with Cons.IH assms(2) show ?case by simp
qed simp

lemma rendered_id:
  "user_into_known E UE u p b w = (Ok v, w') \<Longrightarrow> v0u_id v = user_id u"
  by (auto simp: user_into_known_def Let_def ret_def render_user_def elim!: andthen_OkE split: option.splits prod.splits if_splits)

lemma rendered_ids:
  assumes "map_action f us w = (Ok vs, w')" and "\<And>u w v w'. f u w = (Ok v, w') \<Longrightarrow> v0u_id v = user_id u"
  shows "map v0u_id vs = map user_id us"
  using assms(1)
proof (induction us arbitrary: vs w)
  case (Cons u us)
  from Cons.prems obtain v w1 rest where "f u w = (Ok v, w1)" "map_action f us w1 = (Ok rest, w')" "vs = v # rest"
    by (auto simp: ret_def elim!: andthen_OkE)
  with Cons.IH assms(2) show ?case by auto
qed (simp add: ret_def)

lemma sort_key_as_map:
  assumes "map f xs = map g ys"
  shows "map f (sort_key f xs) = map g (sort_key g ys)"
proof -
  have "map h (sort_key h zs) = sort (map h zs)" for h :: "'z \<Rightarrow> 'k::linorder" and zs
    by (rule properties_for_sort [symmetric]) simp_all
  with assms show ?thesis by metis
qed

lemma retain_online_matches:
  "map f ms = map v0u_id us \<Longrightarrow> \<exists>kept. retain_online ms us = Some kept \<and> map f kept = map v0u_id (filter v0u_online us)"
proof (induction ms us rule: retain_online.induct)
  case (3 m ms u us)
  then obtain kept where "retain_online ms us = Some kept" "map f kept = map v0u_id (filter v0u_online us)" by auto
  with 3 show ?case by simp
qed auto

text \<open>C17: The list of the members of a server and the list of their users belong together: once the users are fetched, the route
  answers with lists of the same length in which the entries at a position are of the same user, also when those offline are left out;
  the walk along the users never runs out of them.\<close>

theorem member_lists_belong_together:
  assumes keyed: "\<And>k v. map_of (db_users (db w)) k = Some v \<Longrightarrow> user_id v = k"
    and "map_of (db_servers (db w)) sid = Some s" and "member_guard E u s w = (Ok q, w)"
    and members: "members = filter (\<lambda>m. key_server (member_id m) = server_id s) (hm_values (db_server_members (db w)))"
    and vs: "fetch_many_ids_as_mutuals E UE u (map (\<lambda>m. key_user (member_id m)) members) w = (Ok vs, w)"
  shows "\<exists>ms us. route_member_fetch_all E UE u sid online w = (Ok (ms, us), w) \<and> map (\<lambda>m. v0k_user (v0m_id m)) ms = map v0u_id us
      \<and> (if online = Some True then list_all v0u_online us else length us = length members)"
proof -
  let ?id = "\<lambda>m. key_user (member_id m)"
  from vs obtain stored where "lookup_all (db_users (db w)) NotFound (map ?id members) = Ok stored"
    "map_action (\<lambda>v. user_into_known E UE v (Some u) (user_id v \<in> set (map ?id members) \<and> env_online E (user_id v))) stored w = (Ok vs, w)"
    unfolding fetch_many_ids_as_mutuals_def andthen_def
    by (cases "lookup_all (db_users (db w)) NotFound (map ?id members)")
      (simp_all add: on_db_def fetch_users_def andthen_def gets_def lift_def)
  note fetched = this
  have "map user_id stored = map ?id members" by (rule lookup_all_ids [OF fetched(1)]) (rule keyed)
  moreover have "map v0u_id vs = map user_id stored" by (rule rendered_ids [OF fetched(2)]) (rule rendered_id)
  ultimately have ids: "map ?id members = map v0u_id vs" by simp
  then have "map ?id (sort_key ?id members) = map v0u_id (sort_key v0u_id vs)" by (rule sort_key_as_map)
  note sorted = this retain_online_matches [OF this]
  have same: "length vs = length members" using ids by (metis length_map)
  have wire: "v0k_user (v0m_id (member_to_wire m)) = ?id m" for m by (simp add: member_to_wire_def member_key_to_wire_def)
  have "on_db (fetch_server sid) w = (Ok s, w)" "on_db (fetch_all_members (server_id s)) w = (Ok members, w)"
    using assms(2) by (simp_all add: on_db_def fetch_server_def table_fetch_def ret_def gets_def andthen_def fetch_all_members_def members)
  note run = this assms(3) vs
  show ?thesis
    unfolding route_member_fetch_all_def Let_def using sorted
    by (auto simp: andthen_def run unwrap_def ret_def comp_def wire list_all_iff same)
qed

definition staffed_lounge :: world where
  "staffed_lounge = lounge\<lparr>db := (db lounge)\<lparr>db_users := [(''a'', sample_user ''a'')]\<rparr>\<rparr>"

theorem member_lists_belong_together_witness:
  "\<exists>ms us. route_member_fetch_all sample_env sample_users_env (sample_user ''a'') ''s'' (Some True) staffed_lounge = (Ok (ms, us), staffed_lounge)
     \<and> map (\<lambda>m. v0k_user (v0m_id m)) ms = map v0u_id us \<and> list_all v0u_online us"
proof -
  let ?s = "sample_server ''s'' ''o'' [(''r'', sample_role ''r'' 1 0 0)] 0"
  obtain q where guard: "member_guard sample_env (sample_user ''a'') ?s staffed_lounge = (Ok q, staffed_lounge)"
    by (simp add: member_guard_def staffed_lounge_def lounge_def sample_world_def q_are_we_a_member_def query_build reads_of_def fetch_member_def
        table_fetch_def sample_user_def user_default_def sample_server_def andthen_def gets_def ret_def)
  obtain vs where mutuals:
    "fetch_many_ids_as_mutuals sample_env sample_users_env (sample_user ''a'') (map (\<lambda>m. key_user (member_id m)) [sample_member ''s'' ''a'' [] None])
       staffed_lounge = (Ok vs, staffed_lounge)"
    by (simp add: fetch_many_ids_as_mutuals_def fetch_users_def staffed_lounge_def lounge_def sample_world_def on_db_def andthen_def gets_def lift_def
        ret_def user_into_known_def sample_user_def user_default_def get_badges_def sample_users_env_def sample_env_def Let_def sample_member_def)
  have "user_id v = k" if "map_of (db_users (db staffed_lounge)) k = Some v" for k v
    using that by (auto simp: staffed_lounge_def sample_user_def split: if_splits)
  moreover have "map_of (db_servers (db staffed_lounge)) ''s'' = Some ?s" by (simp add: staffed_lounge_def lounge_def sample_world_def)
  moreover have "[sample_member ''s'' ''a'' [] None] =
      filter (\<lambda>m. key_server (member_id m) = server_id ?s) (hm_values (db_server_members (db staffed_lounge)))"
    by (simp add: staffed_lounge_def lounge_def sample_world_def sample_member_def sample_server_def)
  ultimately show ?thesis
    using member_lists_belong_together [OF _ _ guard _ mutuals, of "''s''" "Some True"] by fastforce
qed

end
