(* ===== verification/Safety.thy ===== *)
theory Safety
  imports Reading Servers
begin

text \<open>
  Routes that govern a server and the platform: \<open>servers/server_edit.rs\<close>, \<open>servers/server_ack.rs\<close>, the emojis of
  \<open>customisation\<close>, the reports of \<open>safety/report_content.rs\<close> with the snapshots of \<open>models/safety_snapshots\<close>, and the routes of
  \<open>admin/mod.rs\<close>.

  The theorems show who may edit which part of a server and that nothing else of it changes, that emojis stay within the limit and
  are deleted only by those who may, that a report keeps its evidence, and that the admin routes answer only the listed users; and
  that an edit which fails can leave a deleted icon behind.
\<close>

section \<open>Editing a server\<close>

record data_edit_server =
  des_name :: "string option"
  des_description :: "string option"
  des_icon :: "string option"
  des_banner :: "string option"
  des_categories :: "v0_category list option"
  des_system_messages :: "v0_system_message_channels option"
  des_flags :: "int option"
  des_discoverable :: "bool option"
  des_analytics :: "bool option"
  des_owner :: "string option"
  des_remove :: "v0_fields_server list"

definition server_edits_managed :: "data_edit_server \<Rightarrow> bool" where
  "server_edits_managed data \<longleftrightarrow> des_name data \<noteq> None \<or> des_description data \<noteq> None \<or> des_icon data \<noteq> None \<or> des_banner data \<noteq> None
     \<or> des_system_messages data \<noteq> None \<or> des_analytics data \<noteq> None \<or> des_remove data \<noteq> []"

definition server_edits_nothing :: "data_edit_server \<Rightarrow> bool" where
  "server_edits_nothing data \<longleftrightarrow> des_name data = None \<and> des_description data = None \<and> des_icon data = None \<and> des_banner data = None
     \<and> des_system_messages data = None \<and> des_categories data = None \<and> des_flags data = None \<and> des_analytics data = None
     \<and> des_discoverable data = None \<and> des_owner data = None \<and> des_remove data = []"

text \<open>The checks before anything is written; the ticket is the outcome of the second factor.\<close>

definition server_edit_checks :: "u64 \<Rightarrow> user \<Rightarrow> server \<Rightarrow> data_edit_server \<Rightarrow> bool \<Rightarrow> unit world_action" where
  "server_edit_checks p u s data ticket =
     andthen (if server_edits_managed data then check_lacking p ManageServer else ret ()) (\<lambda>_.
     andthen (if des_owner data \<noteq> None then
                if user_id u \<noteq> server_owner s \<and> \<not> privileged u then throw NotOwner
                else if \<not> ticket then throw InvalidCredentials else ret ()
              else ret ()) (\<lambda>_.
     andthen (if (des_flags data \<noteq> None \<or> des_discoverable data \<noteq> None) \<and> \<not> privileged u then throw NotPrivileged else ret ()) (\<lambda>_.
     if des_categories data \<noteq> None then check_lacking p ManageChannel else ret ())))"

definition release_server_files :: "v0_fields_server list \<Rightarrow> server \<Rightarrow> unit world_action" where
  "release_server_files remove s =
     andthen (case server_banner s of
                Some f \<Rightarrow> if V0ServerBanner \<in> set remove then on_db (mark_attachment_as_deleted (file_id f)) else ret ()
              | None \<Rightarrow> ret ()) (\<lambda>_.
     case server_icon s of
       Some f \<Rightarrow> if V0ServerIcon \<in> set remove then on_db (mark_attachment_as_deleted (file_id f)) else ret ()
     | None \<Rightarrow> ret ())"

text \<open>The loop over the categories: a channel in two places is refused, and channels that the server does not have are dropped.\<close>

fun repeats :: "string set \<Rightarrow> string list \<Rightarrow> bool" where
  "repeats seen [] \<longleftrightarrow> False"
| "repeats seen (c # cs) \<longleftrightarrow> c \<in> seen \<or> repeats (insert c seen) cs"

fun clean_categories :: "string list \<Rightarrow> string set \<Rightarrow> category list \<Rightarrow> category list option" where
  "clean_categories channels seen [] = Some []"
| "clean_categories channels seen (c # cs) =
     (if repeats seen (category_channels c) then None
      else map_option (Cons (c\<lparr>category_channels := filter (\<lambda>i. i \<in> set channels) (category_channels c)\<rparr>))
             (clean_categories channels (seen \<union> set (category_channels c)) cs))"

definition edited_categories :: "server \<Rightarrow> v0_category list option \<Rightarrow> category list option world_action" where
  "edited_categories s categories =
     (case map_option (map category_from_wire) categories of
        None \<Rightarrow> ret None
      | Some cs \<Rightarrow> (case clean_categories (server_channels s) {} cs of Some cs' \<Rightarrow> ret (Some cs') | None \<Rightarrow> throw InvalidOperation))"

definition check_system_channels :: "server \<Rightarrow> v0_system_message_channels option \<Rightarrow> unit world_action" where
  "check_system_channels s channels =
     (case map_option system_message_channels_from_wire channels of
        Some x \<Rightarrow> if into_channel_ids x \<subseteq> set (server_channels s) then ret () else throw NotFound
      | None \<Rightarrow> ret ())"

definition check_new_owner :: "server \<Rightarrow> string option \<Rightarrow> unit world_action" where
  "check_new_owner s owner =
     (case owner of
        Some i \<Rightarrow>
          andthen (on_db (fetch_member (server_id s) i)) (\<lambda>_.
          andthen (on_db (fetch_user i)) (\<lambda>v. if user_bot v \<noteq> None then throw InvalidOperation else ret ()))
      | None \<Rightarrow> ret ())"

text \<open>The steps from \<open>1. Remove fields from object\<close> to \<open>5. Transfer ownership\<close>, and the update.\<close>

definition edited_partial :: "data_edit_server \<Rightarrow> category list option \<Rightarrow> stored_file option \<Rightarrow> stored_file option \<Rightarrow> partial_server" where
  "edited_partial data categories icon banner =
     partial_server_default\<lparr>ps_owner := des_owner data, ps_name := des_name data, ps_description := des_description data,
       ps_categories := categories, ps_system_messages := map_option system_message_channels_from_wire (des_system_messages data),
       ps_icon := icon, ps_banner := banner, ps_flags := des_flags data, ps_analytics := des_analytics data,
       ps_discoverable := des_discoverable data\<rparr>"

definition write_server_edit :: "env \<Rightarrow> user \<Rightarrow> server \<Rightarrow> data_edit_server \<Rightarrow> server world_action" where
  "write_server_edit E u s data =
     andthen (release_server_files (des_remove data) s) (\<lambda>_.
     andthen (check_system_channels s (des_system_messages data)) (\<lambda>_.
     andthen (edited_categories s (des_categories data)) (\<lambda>categories.
     andthen (claim (\<lambda>i. use_server_icon i (server_id s) (user_id u)) (des_icon data)) (\<lambda>icon.
     andthen (claim (\<lambda>i. use_server_banner i (server_id s) (user_id u)) (des_banner data)) (\<lambda>banner.
     andthen (check_new_owner s (des_owner data)) (\<lambda>_.
     server_update E
       (s\<lparr>server_icon := replace_if icon (server_icon s), server_banner := replace_if banner (server_banner s),
          server_owner := set_if (des_owner data) (server_owner s)\<rparr>)
       (edited_partial data categories icon banner) (map fields_server_from_wire (des_remove data))))))))"

definition route_server_edit ::
    "env \<Rightarrow> unit result \<Rightarrow> user \<Rightarrow> string \<Rightarrow> data_edit_server \<Rightarrow> bool \<Rightarrow> v0_server world_action" where
  "route_server_edit E validation u target data ticket =
     andthen (lift validation) (\<lambda>_.
     andthen (on_db (fetch_server target)) (\<lambda>s.
     andthen (server_permissions E u s) (\<lambda>(p, _).
     if server_edits_nothing data then ret (server_to_wire s)
     else
     andthen (server_edit_checks p u s data ticket) (\<lambda>_.
     andthen (write_server_edit E u s data) (\<lambda>s'. ret (server_to_wire s'))))))"

text \<open>Marking a server as read; the id of the current time is an argument.\<close>

definition route_server_ack :: "env \<Rightarrow> string \<Rightarrow> user \<Rightarrow> string \<Rightarrow> unit world_action" where
  "route_server_ack E current_time u target =
     (if user_bot u \<noteq> None then throw IsBot
      else
       andthen (on_db (fetch_server target)) (\<lambda>s.
       andthen (member_guard E u s) (\<lambda>_.
       on_db (acknowledge_channels current_time (user_id u) (server_channels s)))))"

section \<open>Emojis\<close>

record data_create_emoji =
  dce_name :: string
  dce_parent :: v0_emoji_parent
  dce_nsfw :: bool

definition route_create_emoji :: "env \<Rightarrow> unit result \<Rightarrow> user \<Rightarrow> string \<Rightarrow> data_create_emoji \<Rightarrow> v0_emoji world_action" where
  "route_create_emoji E validation u i data =
     andthen (lift validation) (\<lambda>_.
     andthen (case dce_parent data of
                V0EmojiServer sid \<Rightarrow>
                  andthen (on_db (fetch_server sid)) (\<lambda>s.
                  andthen (server_guard E u s ManageCustomisation) (\<lambda>_.
                  andthen (on_db (fetch_emoji_by_parent_id (server_id s))) (\<lambda>es.
                    if length es \<ge> server_emoji (env_global E) then throw (TooManyEmoji (server_emoji (env_global E))) else ret ())))
              | V0EmojiDetached \<Rightarrow> throw InvalidOperation) (\<lambda>_.
     andthen (on_db (use_emoji i i (user_id u))) (\<lambda>f.
     let e = \<lparr>emoji_id = i, emoji_parent = emoji_parent_from_wire (dce_parent data), emoji_creator_id = user_id u, emoji_name = dce_name data,
              emoji_animated = (file_content_type f = ''image/gif''), emoji_nsfw = dce_nsfw data\<rparr>
     in andthen (emoji_create e) (\<lambda>_. ret (emoji_to_wire e)))))"

definition route_delete_emoji :: "env \<Rightarrow> user \<Rightarrow> string \<Rightarrow> unit world_action" where
  "route_delete_emoji E u i =
     andthen (on_db (fetch_emoji i)) (\<lambda>e.
       if emoji_creator_id e = user_id u then emoji_delete e
       else
         case emoji_parent e of
           EmojiServer sid \<Rightarrow>
             andthen (on_db (fetch_server sid)) (\<lambda>s.
             andthen (server_guard E u s ManageCustomisation) (\<lambda>_. emoji_delete e))
         | EmojiDetached \<Rightarrow> ret ())"

section \<open>Reports\<close>

datatype content_report_reason =
    NoneSpecified | Illegal | IllegalGoods | IllegalExtortion | IllegalPornography | IllegalHacking | ExtremeViolence | PromotesHarm
  | UnsolicitedSpam | Raid | SpamAbuse | ScamsFraud | Malware | Harassment

datatype user_report_reason =
    UserNoneSpecified | UserUnsolicitedSpam | UserSpamAbuse | InappropriateProfile | Impersonation | BanEvasion | Underage

datatype reported_content =
    ReportedMessage string content_report_reason
  | ReportedServer string content_report_reason
  | ReportedUser string user_report_reason "string option"

datatype report_status =
    ReportCreated
  | ReportRejected string "timestamp option"
  | ReportResolved "timestamp option"

text \<open>The struct has the same fields on the wire, so that the conversion is the identity.\<close>

record report =
  report_id :: string
  report_author_id :: string
  report_content :: reported_content
  report_additional_context :: string
  report_status :: report_status
  report_notes :: string

definition report_to_wire :: "report \<Rightarrow> report" where
  "report_to_wire r = \<lparr>report_id = report_id r, report_author_id = report_author_id r, report_content = report_content r,
     report_additional_context = report_additional_context r, report_status = report_status r, report_notes = report_notes r\<rparr>"

datatype snapshot_content =
    SnapshotMessage message "message list" "message list"
  | SnapshotServer server
  | SnapshotUser user

record snapshot =
  snapshot_id :: string
  snapshot_report_id :: string
  snapshot_content :: snapshot_content

text \<open>The state of a report: the world, the two collections of the database that only reports use, and what was published to everybody.\<close>

record safety_state =
  sf_world :: world
  sf_reports :: "(string, report) hashmap"
  sf_snapshots :: "(string, snapshot) hashmap"
  sf_global :: "report list"

type_synonym 'a safety_action = "(safety_state, error_type, 'a) action"

interpretation reports: table sf_reports sf_reports_update
  by unfold_locales simp_all

interpretation snapshots: table sf_snapshots sf_snapshots_update
  by unfold_locales simp_all

definition on_world :: "'a world_action \<Rightarrow> 'a safety_action" where
  "on_world m st = (case m (sf_world st) of (r, w) \<Rightarrow> (r, st\<lparr>sf_world := w\<rparr>))"

definition insert_report :: "report \<Rightarrow> unit safety_action" where
  "insert_report r = table_insert sf_reports sf_reports_update (DatabaseError ''insert'' ''report'') (report_id r) r"

definition insert_snapshot :: "snapshot \<Rightarrow> unit safety_action" where
  "insert_snapshot x = table_insert sf_snapshots sf_snapshots_update (DatabaseError ''insert'' ''snapshot'') (snapshot_id x) x"

definition files_of_message :: "message \<Rightarrow> string list" where
  "files_of_message m = (case msg_attachments m of Some fs \<Rightarrow> map file_id fs | None \<Rightarrow> [])"

definition generate_from_message :: "(string \<Rightarrow> string) \<Rightarrow> message \<Rightarrow> (snapshot_content \<times> string list) world_action" where
  "generate_from_message lower m =
     (let query = (\<lambda>period. \<lparr>mq_filter = channel_filter (msg_channel m), mq_limit = Some 15, mq_time_period = period\<rparr>) in
     andthen (on_db (fetch_messages lower (mq_filter (query (Absolute (Some (msg_id m)) None (Some Latest)))))) (\<lambda>prior.
     andthen (on_db (fetch_messages lower (mq_filter (query (Absolute None (Some (msg_id m)) (Some Oldest)))))) (\<lambda>leading.
     ret (SnapshotMessage m prior leading, files_of_message m))))"

definition generate_from_server :: "server \<Rightarrow> snapshot_content \<times> string list" where
  "generate_from_server s = (SnapshotServer s, map file_id (List.map_filter (\<lambda>x. x) [server_icon s, server_banner s]))"

definition generate_from_user :: "user \<Rightarrow> snapshot_content \<times> string list" where
  "generate_from_user u =
     (SnapshotUser u, map file_id (List.map_filter (\<lambda>x. x) [user_avatar u, Option.bind (user_profile u) profile_background]))"

text \<open>The content is looked up, nobody reports themselves, and what was found is the evidence: snapshots and the ids of files.\<close>

definition gather_evidence :: "(string \<Rightarrow> string) \<Rightarrow> user \<Rightarrow> reported_content \<Rightarrow> (snapshot_content list \<times> string list) world_action" where
  "gather_evidence lower u content =
     (case content of
        ReportedMessage i _ \<Rightarrow>
          andthen (on_db (fetch_message i)) (\<lambda>m.
            if msg_author m = user_id u then throw CannotReportYourself
            else andthen (generate_from_message lower m) (\<lambda>(x, files). ret ([x], files)))
      | ReportedServer i _ \<Rightarrow>
          andthen (on_db (fetch_server i)) (\<lambda>s.
            if server_owner s = user_id u then throw CannotReportYourself
            else case generate_from_server s of (x, files) \<Rightarrow> ret ([x], files))
      | ReportedUser i _ message_id \<Rightarrow>
          andthen (on_db (fetch_user i)) (\<lambda>v.
            if user_id v = user_id u then throw CannotReportYourself
            else
              andthen (case message_id of Some j \<Rightarrow> attempt (on_db (fetch_message j)) | None \<Rightarrow> ret None) (\<lambda>found.
              case generate_from_user v of (x, files) \<Rightarrow>
                case found of
                  Some m \<Rightarrow> andthen (generate_from_message lower m) (\<lambda>(y, more). ret ([x, y], files @ more))
                | None \<Rightarrow> ret ([x], files))))"

text \<open>The ids of the report and of its snapshots are arguments.\<close>

definition route_report_content ::
    "(string \<Rightarrow> string) \<Rightarrow> unit result \<Rightarrow> string \<Rightarrow> (nat \<Rightarrow> string) \<Rightarrow> user \<Rightarrow> reported_content \<Rightarrow> string \<Rightarrow> unit safety_action" where
  "route_report_content lower validation new_id snapshot_ids u content context =
     andthen (lift validation) (\<lambda>_.
       if user_bot u \<noteq> None then throw IsBot
       else
       andthen (on_world (gather_evidence lower u content)) (\<lambda>(snapshots, files).
       andthen (for_each (\<lambda>f. on_world (on_db (mark_attachment_as_reported f))) files) (\<lambda>_.
       andthen (for_each (\<lambda>(k, x). insert_snapshot \<lparr>snapshot_id = snapshot_ids k, snapshot_report_id = new_id, snapshot_content = x\<rparr>)
          (enumerate 0 snapshots)) (\<lambda>_.
       let r = \<lparr>report_id = new_id, report_author_id = user_id u, report_content = content, report_additional_context = context,
                report_status = ReportCreated, report_notes = []\<rparr> in
       andthen (insert_report r) (\<lambda>_.
       modify (\<lambda>st. st\<lparr>sf_global := sf_global st @ [report_to_wire r]\<rparr>))))))"

section \<open>Administration\<close>

definition ADMIN_WHITELIST :: "string list" where
  "ADMIN_WHITELIST = [''01KHDQMVMQ2M6A6Q2GFK1E53CJ'', ''01KHDSW6PQ32J2Q6A8GBGZ51A0M'']"

text \<open>The guard, given the outcome of the guard that authenticates a user.\<close>

definition admin_guard :: "user option \<Rightarrow> user world_action" where
  "admin_guard who =
     (case who of
        Some u \<Rightarrow> if user_id u \<in> set ADMIN_WHITELIST then ret u else throw NotAuthenticated
      | None \<Rightarrow> throw NotAuthenticated)"

record admin_stats =
  total_users :: int
  total_servers :: int
  total_files :: int
  total_messages :: int
  online_users :: int

definition route_admin_stats :: "admin_stats world_action" where
  "route_admin_stats = ret \<lparr>total_users = 0, total_servers = 0, total_files = 0, total_messages = 0, online_users = 0\<rparr>"

definition found_or_none :: "'a world_action \<Rightarrow> 'a list world_action" where
  "found_or_none m = andthen (attempt m) (\<lambda>x. ret (case x of Some y \<Rightarrow> [y] | None \<Rightarrow> []))"

definition admin_search_users :: "(string \<Rightarrow> string) \<Rightarrow> string \<Rightarrow> user list world_action" where
  "admin_search_users lower query =
     (if utf8_len query < 2 then ret [] else found_or_none (on_db (fetch_user_by_username lower query ''0001'')))"

definition admin_search_servers :: "string \<Rightarrow> server list world_action" where
  "admin_search_servers query = (if utf8_len query < 2 then ret [] else found_or_none (on_db (fetch_server query)))"

definition admin_search_files :: "string \<Rightarrow> stored_file list world_action" where
  "admin_search_files query = (if utf8_len query < 2 then ret [] else found_or_none (on_db (fetch_attachment ''File'' query)))"

datatype admin_request =
    AdminStats
  | AdminGetUser string
  | AdminSearchUsers string
  | AdminDeleteUser string
  | AdminGetServer string
  | AdminSearchServers string
  | AdminDeleteServer string
  | AdminGetFile string
  | AdminSearchFiles string
  | AdminDeleteFile string

datatype admin_answer =
    AdminAnswerStats admin_stats
  | AdminAnswerUsers "user list"
  | AdminAnswerServers "server list"
  | AdminAnswerFiles "stored_file list"
  | AdminDone

primrec admin_handler :: "(string \<Rightarrow> string) \<Rightarrow> admin_request \<Rightarrow> admin_answer world_action" where
  "admin_handler lower AdminStats = andthen route_admin_stats (\<lambda>x. ret (AdminAnswerStats x))"
| "admin_handler lower (AdminGetUser i) = andthen (on_db (fetch_user i)) (\<lambda>u. ret (AdminAnswerUsers [u]))"
| "admin_handler lower (AdminSearchUsers query) = andthen (admin_search_users lower query) (\<lambda>us. ret (AdminAnswerUsers us))"
| "admin_handler lower (AdminDeleteUser i) = andthen (on_db (delete_user i)) (\<lambda>_. ret AdminDone)"
| "admin_handler lower (AdminGetServer i) = andthen (on_db (fetch_server i)) (\<lambda>s. ret (AdminAnswerServers [s]))"
| "admin_handler lower (AdminSearchServers query) = andthen (admin_search_servers query) (\<lambda>ss. ret (AdminAnswerServers ss))"
| "admin_handler lower (AdminDeleteServer i) = andthen (on_db (delete_server i)) (\<lambda>_. ret AdminDone)"
| "admin_handler lower (AdminGetFile i) = andthen (on_db (fetch_attachment ''File'' i)) (\<lambda>f. ret (AdminAnswerFiles [f]))"
| "admin_handler lower (AdminSearchFiles query) = andthen (admin_search_files query) (\<lambda>fs. ret (AdminAnswerFiles fs))"
| "admin_handler lower (AdminDeleteFile i) = andthen (on_db (delete_attachment i)) (\<lambda>_. ret AdminDone)"

definition admin_route :: "(string \<Rightarrow> string) \<Rightarrow> user option \<Rightarrow> admin_request \<Rightarrow> admin_answer world_action" where
  "admin_route lower who req = andthen (admin_guard who) (\<lambda>_. admin_handler lower req)"

section \<open>Steps that only change files\<close>

definition but_files :: "world \<Rightarrow> world" where
  "but_files w = w\<lparr>db := (db w)\<lparr>db_files := []\<rparr>\<rparr>"

lemma but_filesD: "but_files w' = but_files w \<Longrightarrow> db_servers (db w') = db_servers (db w) \<and> db_emojis (db w') = db_emojis (db w)
    \<and> db_users (db w') = db_users (db w) \<and> db_server_members (db w') = db_server_members (db w) \<and> events w' = events w"
  unfolding but_files_def by (metis (no_types, lifting) ref_db.select_convs ref_db.update_convs(8) ref_db.surjective world.select_convs world.surjective world.update_convs(1))

lemma file_steps [simp]:
  "unchanged but_files (on_db (mark_attachment_as_deleted i))" "unchanged but_files (on_db (mark_attachment_as_reported i))"
  "unchanged but_files (on_db (find_and_use_attachment i t fu n))"
  by (auto simp: unchanged_def but_files_def on_db_def mark_attachment_as_deleted_def mark_attachment_as_reported_def table_change_def
      find_and_use_attachment_def Let_def andthen_def gets_def modify_def throw_def ret_def split: option.split)

lemma server_file_steps [simp]:
  "unchanged but_files (release_server_files fs s)" "unchanged but_files (claim (\<lambda>i. use_server_icon i a b) j)"
  "unchanged but_files (claim (\<lambda>i. use_server_banner i a b) j)" "unchanged but_files (on_db (use_emoji i a b))"
  unfolding release_server_files_def claim_def use_server_icon_def use_server_banner_def use_emoji_def
  by (auto intro!: unchanged_andthen split: option.split)

lemma server_checks_read [simp]:
  "unchanged f (server_edit_checks p u s data ticket)" "unchanged f (check_system_channels s cs)" "unchanged f (edited_categories s cats)"
  "unchanged f (check_new_owner s owner)"
  unfolding server_edit_checks_def check_system_channels_def edited_categories_def check_new_owner_def
  by (auto intro!: unchanged_andthen split: option.split)

lemma passed_lacking: "check_lacking p perm w = (Ok x, w') \<Longrightarrow> has_channel_permission p perm"
  by (simp add: check_lacking_def lift_def throw_if_lacking_channel_permission_def split: if_splits)

lemma server_edit_checks_passed:
  assumes "server_edit_checks p u s data ticket w = (Ok x, w')"
  shows "server_edits_managed data \<longrightarrow> has_channel_permission p ManageServer"
    and "des_categories data \<noteq> None \<longrightarrow> has_channel_permission p ManageChannel"
    and "des_owner data \<noteq> None \<longrightarrow> (user_id u = server_owner s \<or> privileged u) \<and> ticket"
    and "des_flags data \<noteq> None \<or> des_discoverable data \<noteq> None \<longrightarrow> privileged u"
  using assms unfolding server_edit_checks_def
  by (auto elim!: andthen_OkE simp: throw_def ret_def dest: passed_lacking split: if_splits)

text \<open>The categories that are kept.\<close>

lemma repeats_iff: "repeats seen cs \<longleftrightarrow> \<not> (distinct cs \<and> set cs \<inter> seen = {})"
  by (induction cs arbitrary: seen) auto

lemma clean_categories_spec:
  "clean_categories channels seen cats = Some kept \<Longrightarrow>
     distinct (concat (map category_channels kept)) \<and> set (concat (map category_channels kept)) \<subseteq> set channels - seen"
proof (induction channels seen cats arbitrary: kept rule: clean_categories.induct)
  case (2 channels seen c cs)
  then obtain rest where fresh: "distinct (category_channels c)" "set (category_channels c) \<inter> seen = {}"
    and rest: "clean_categories channels (seen \<union> set (category_channels c)) cs = Some rest"
    and kept: "kept = c\<lparr>category_channels := filter (\<lambda>i. i \<in> set channels) (category_channels c)\<rparr> # rest"
    by (auto simp: repeats_iff split: if_splits)
  from "2.IH" [OF _ rest] fresh have "distinct (concat (map category_channels rest))"
    "set (concat (map category_channels rest)) \<subseteq> set channels - (seen \<union> set (category_channels c))" by (auto simp: repeats_iff)
  with fresh show ?case unfolding kept by auto
qed simp

lemma edited_categories_found:
  assumes "edited_categories s cats w = (Ok (Some kept), w')"
  shows "distinct (concat (map category_channels kept)) \<and> set (concat (map category_channels kept)) \<subseteq> set (server_channels s)"
proof -
  from assms obtain cs where "clean_categories (server_channels s) {} cs = Some kept"
    by (auto simp: edited_categories_def ret_def throw_def split: option.splits)
  from clean_categories_spec [OF this] show ?thesis by simp
qed

lemma new_owner_member:
  "check_new_owner s (Some i) w = (Ok x, w') \<Longrightarrow> map_of (db_server_members (db w)) \<lparr>key_server = server_id s, key_user = i\<rparr> \<noteq> None"
  by (auto simp: check_new_owner_def on_db_def fetch_member_def table_fetch_def ret_def throw_def elim!: andthen_OkE split: option.splits)

lemma write_server_edit_OkE:
  assumes "write_server_edit E u s data w = (Ok s'', w')"
  obtains cats icon banner w3 where "but_files w3 = but_files w" and "des_categories data \<noteq> None \<Longrightarrow> cats \<noteq> None"
    and "\<And>kept. cats = Some kept \<Longrightarrow> distinct (concat (map category_channels kept)) \<and> set (concat (map category_channels kept)) \<subseteq> set (server_channels s)"
    and "\<And>i. des_owner data = Some i \<Longrightarrow> map_of (db_server_members (db w3)) \<lparr>key_server = server_id s, key_user = i\<rparr> \<noteq> None"
    and "server_update E (s\<lparr>server_icon := replace_if icon (server_icon s), server_banner := replace_if banner (server_banner s),
            server_owner := set_if (des_owner data) (server_owner s)\<rparr>)
         (edited_partial data cats icon banner) (map fields_server_from_wire (des_remove data)) w3 = (Ok s'', w')"
proof -
  from assms obtain r w1 x cats icon w2 banner w3 y where steps: "release_server_files (des_remove data) s w = (Ok r, w1)"
    "check_system_channels s (des_system_messages data) w1 = (Ok x, w1)" "edited_categories s (des_categories data) w1 = (Ok cats, w1)"
    "claim (\<lambda>i. use_server_icon i (server_id s) (user_id u)) (des_icon data) w1 = (Ok icon, w2)"
    "claim (\<lambda>i. use_server_banner i (server_id s) (user_id u)) (des_banner data) w2 = (Ok banner, w3)"
    "check_new_owner s (des_owner data) w3 = (Ok y, w3)"
    and up: "server_update E (s\<lparr>server_icon := replace_if icon (server_icon s), server_banner := replace_if banner (server_banner s),
            server_owner := set_if (des_owner data) (server_owner s)\<rparr>)
         (edited_partial data cats icon banner) (map fields_server_from_wire (des_remove data)) w3 = (Ok s'', w')"
    unfolding write_server_edit_def
    by (elim andthen_OkE [of "release_server_files _ _"] pure_OkE [OF _ server_checks_read(2)] pure_OkE [OF _ server_checks_read(3)]
        andthen_OkE [of "claim _ _"] pure_OkE [OF _ server_checks_read(4)])
  have "but_files w3 = but_files w"
    using unchangedD [OF server_file_steps(1) steps(1)] unchangedD [OF server_file_steps(2) steps(4)] unchangedD [OF server_file_steps(3) steps(5)]
    by simp
  then show ?thesis
  proof (rule that [OF _ _ _ _ up])
    show "des_categories data \<noteq> None \<Longrightarrow> cats \<noteq> None"
      using steps(3) by (cases cats) (auto simp: edited_categories_def ret_def throw_def split: option.splits)
  qed (use steps(3) edited_categories_found in blast, use steps(6) in \<open>simp add: new_owner_member\<close>)
qed

definition edit_justified :: "env \<Rightarrow> world \<Rightarrow> user \<Rightarrow> server \<Rightarrow> data_edit_server \<Rightarrow> bool \<Rightarrow> bool" where
  "edit_justified E w u s data ticket \<longleftrightarrow>
     (server_edits_managed data \<longrightarrow> has_channel_permission (acting_permissions E w u s) ManageServer)
     \<and> (des_categories data \<noteq> None \<longrightarrow> has_channel_permission (acting_permissions E w u s) ManageChannel)
     \<and> (des_owner data \<noteq> None \<longrightarrow> (user_id u = server_owner s \<or> privileged u) \<and> ticket)
     \<and> (des_flags data \<noteq> None \<or> des_discoverable data \<noteq> None \<longrightarrow> privileged u)"

text \<open>What an edit leaves of a server.\<close>

definition edit_kept :: "data_edit_server \<Rightarrow> server \<Rightarrow> server \<Rightarrow> bool" where
  "edit_kept data s s' \<longleftrightarrow> server_id s' = server_id s \<and> server_channels s' = server_channels s \<and> server_roles s' = server_roles s
     \<and> server_default_permissions s' = server_default_permissions s \<and> server_nsfw s' = server_nsfw s
     \<and> server_owner s' = set_if (des_owner data) (server_owner s)
     \<and> (\<forall>cs. des_categories data \<noteq> None \<and> server_categories s' = Some cs \<longrightarrow>
          distinct (concat (map category_channels cs)) \<and> set (concat (map category_channels cs)) \<subseteq> set (server_channels s))"

lemma remove_fields_keep:
  "server_id (fold server_remove_field fs s) = server_id s" "server_channels (fold server_remove_field fs s) = server_channels s"
  "server_roles (fold server_remove_field fs s) = server_roles s" "server_nsfw (fold server_remove_field fs s) = server_nsfw s"
  "server_default_permissions (fold server_remove_field fs s) = server_default_permissions s"
  "server_owner (fold server_remove_field fs s) = server_owner s"
proof -
  have "server_id (server_remove_field f s) = server_id s \<and> server_channels (server_remove_field f s) = server_channels s
      \<and> server_roles (server_remove_field f s) = server_roles s \<and> server_nsfw (server_remove_field f s) = server_nsfw s
      \<and> server_default_permissions (server_remove_field f s) = server_default_permissions s
      \<and> server_owner (server_remove_field f s) = server_owner s" for f s
    by (cases f) simp_all
  then show "server_id (fold server_remove_field fs s) = server_id s" "server_channels (fold server_remove_field fs s) = server_channels s"
    "server_roles (fold server_remove_field fs s) = server_roles s" "server_nsfw (fold server_remove_field fs s) = server_nsfw s"
    "server_default_permissions (fold server_remove_field fs s) = server_default_permissions s"
    "server_owner (fold server_remove_field fs s) = server_owner s"
    by (induction fs arbitrary: s) simp_all
qed

lemma server_update_stored:
  assumes "server_update E s partial remove w = (Ok s', w')" and "optional_struct_laws (env_structs E)" and "ps_id partial = None"
  obtains old where "map_of (db_servers (db w)) (server_id s) = Some old"
    and "db_servers (db w') = AList.update (server_id s) (apply_server (env_structs E) partial (fold server_remove_field remove old)) (db_servers (db w))"
proof -
  have "server_id (apply_server (env_structs E) partial (fold server_remove_field remove s)) = server_id s"
    using assms(3) by (simp add: optional_struct_laws.apply_server [OF assms(2)] remove_fields_keep)
  with assms(1) that show ?thesis
    by (auto simp: server_update_def Let_def on_db_def update_server_def table_change_def publish_def modify_def gets_def ret_def throw_def
        andthen_def split: option.splits)
qed


definition rename_server :: data_edit_server where
  "rename_server = \<lparr>des_name = Some ''x'', des_description = None, des_icon = None, des_banner = None, des_categories = None,
     des_system_messages = None, des_flags = None, des_discoverable = None, des_analytics = None, des_owner = None, des_remove = []\<rparr>"


text \<open>A removed icon is marked as deleted before the request is validated: when the system channels are then refused, the server
  keeps an icon whose file is deleted.\<close>

theorem failed_edit_deletes_icon:
  assumes "map_of (db_servers (db w)) target = Some s" and "server_icon s = Some f" and "server_banner s = None"
    and "map_of (db_files (db w)) (file_id f) = Some g" and "V0ServerIcon \<in> set (des_remove data)"
    and "des_system_messages data = Some x" and "\<not> into_channel_ids (system_message_channels_from_wire x) \<subseteq> set (server_channels s)"
    and "server_edit_checks (acting_permissions E w u s) u s data ticket w = (Ok (), w)"
  shows "\<exists>w'. route_server_edit E (Ok ()) u target data ticket w = (Err NotFound, w') \<and> db_servers (db w') = db_servers (db w)
    \<and> map_of (db_files (db w')) (file_id f) = Some (g\<lparr>file_deleted := Some True\<rparr>)"
proof -
  obtain q where perms: "server_permissions E u s w = (Ok (acting_permissions E w u s, q), w)" using server_permissions_run by blast
  have "\<not> server_edits_nothing data" using assms(6) by (simp add: server_edits_nothing_def)
  moreover have "on_db (fetch_server target) w = (Ok s, w)"
    using assms(1) by (simp add: on_db_def fetch_server_def table_fetch_def gets_def andthen_def ret_def)
  ultimately show ?thesis
    using assms perms
    by (simp add: route_server_edit_def write_server_edit_def release_server_files_def check_system_channels_def andthen_def lift_def ret_def
        throw_def on_db_def mark_attachment_as_deleted_def table_change_def gets_def modify_def update_conv')
qed

section \<open>Emojis of a server\<close>

definition emojis_of :: "world \<Rightarrow> string \<Rightarrow> emoji list" where
  "emojis_of w sid = filter (\<lambda>e. emoji_parent e = EmojiServer sid) (hm_values (db_emojis (db w)))"

lemma fetched_emojis: "on_db (fetch_emoji_by_parent_id sid) w = (Ok es, w') \<Longrightarrow> es = emojis_of w sid \<and> w' = w"
  by (auto simp: on_db_def fetch_emoji_by_parent_id_def gets_def emojis_of_def)

lemma update_absent: "map_of m k = None \<Longrightarrow> AList.update k v m = m @ [(k, v)]"
  by (induction m) auto

lemma emoji_created:
  assumes "emoji_create e w = (Ok x, w')"
  shows "map_of (db_emojis (db w)) (emoji_id e) = None \<and> db_emojis (db w') = db_emojis (db w) @ [(emoji_id e, e)]"
  using assms
  by (auto simp: emoji_create_def insert_emoji_def on_db_def table_insert_def hm_contains_def andthen_def gets_def modify_def throw_def publish_def
      update_absent split: if_splits)

text \<open>An emoji is created only with \<open>ManageCustomisation\<close> in a server that has room for it, and nothing else is added or changed.\<close>

theorem emoji_creation_authorised:
  assumes "route_create_emoji E validation u i data w = (Ok v, w')"
    and keyed: "\<And>k x. map_of (db_servers (db w)) k = Some x \<Longrightarrow> server_id x = k"
  shows "\<exists>sid s e. dce_parent data = V0EmojiServer sid \<and> governs E w u sid ManageCustomisation s \<and> emoji_creator_id e = user_id u
    \<and> db_emojis (db w') = db_emojis (db w) @ [(i, e)] \<and> emojis_of w' sid = emojis_of w sid @ [e]
    \<and> length (emojis_of w' sid) \<le> server_emoji (env_global E)"
proof -
  from assms(1) obtain y z w1 f where parent: "(case dce_parent data of
                V0EmojiServer sid \<Rightarrow>
                  andthen (on_db (fetch_server sid)) (\<lambda>s.
                  andthen (server_guard E u s ManageCustomisation) (\<lambda>_.
                  andthen (on_db (fetch_emoji_by_parent_id (server_id s))) (\<lambda>es.
                    if length es \<ge> server_emoji (env_global E) then throw (TooManyEmoji (server_emoji (env_global E))) else ret ())))
              | V0EmojiDetached \<Rightarrow> throw InvalidOperation) w = (Ok z, y)"
    and use: "on_db (use_emoji i i (user_id u)) y = (Ok f, w1)"
    and create: "emoji_create \<lparr>emoji_id = i, emoji_parent = emoji_parent_from_wire (dce_parent data), emoji_creator_id = user_id u,
       emoji_name = dce_name data, emoji_animated = (file_content_type f = ''image/gif''), emoji_nsfw = dce_nsfw data\<rparr> w1 = (Ok (), w')"
    unfolding route_create_emoji_def Let_def by (elim pure_OkE [OF _ unchanged_plain(5)] andthen_OkE) (auto simp: ret_def)
  obtain sid where sid: "dce_parent data = V0EmojiServer sid"
    using parent by (cases "dce_parent data") (simp_all add: throw_def)
  from parent [unfolded sid v0_emoji_parent.case] obtain s g es where steps: "on_db (fetch_server sid) w = (Ok s, w)"
      "server_guard E u s ManageCustomisation w = (Ok g, w)" "on_db (fetch_emoji_by_parent_id (server_id s)) w = (Ok es, w)"
    and last: "(if length es \<ge> server_emoji (env_global E) then throw (TooManyEmoji (server_emoji (env_global E))) else ret ()) w = (Ok z, y)"
    by (elim pure_OkE [OF _ fetches_read(2)] pure_OkE [OF _ guards_read(5)] pure_OkE [OF _ fetches_read(10)])
  from last have y: "y = w" and "length es < server_emoji (env_global E)" by (auto simp: throw_def ret_def split: if_splits)
  with steps have s: "map_of (db_servers (db w)) sid = Some s" and may: "has_channel_permission (acting_permissions E w u s) ManageCustomisation"
    and room: "length (emojis_of w (server_id s)) < server_emoji (env_global E)"
    by (auto dest: fetched_server passed_server_guard fetched_emojis)
  have id: "server_id s = sid" using keyed [OF s] .
  have same: "db_emojis (db w1) = db_emojis (db w)" using but_filesD [OF unchangedD [OF server_file_steps(4) use]] y by simp
  from emoji_created [OF create] same sid room id s may show ?thesis by (auto simp: governs_def emojis_of_def)
qed

text \<open>An emoji is deleted only by its creator or with \<open>ManageCustomisation\<close> in its server, however the request ends.\<close>

theorem emoji_deletion_authorised:
  assumes "db_emojis (db (snd (route_delete_emoji E u i w))) \<noteq> db_emojis (db w)"
  shows "\<exists>e. map_of (db_emojis (db w)) i = Some e
    \<and> (emoji_creator_id e = user_id u \<or> (\<exists>sid s. emoji_parent e = EmojiServer sid \<and> governs E w u sid ManageCustomisation s))"
proof -
  have fetch: "on_db (fetch_emoji i) w = (case map_of (db_emojis (db w)) i of Some e \<Rightarrow> Ok e | None \<Rightarrow> Err NotFound, w)"
    by (simp add: on_db_def fetch_emoji_def table_fetch_def ret_def throw_def split: option.split)
  with assms obtain e where e: "map_of (db_emojis (db w)) i = Some e"
    by (cases "map_of (db_emojis (db w)) i") (simp_all add: route_delete_emoji_def andthen_def)
  show ?thesis
  proof (cases "emoji_creator_id e = user_id u")
    case False
    with assms e fetch obtain sid where sid: "emoji_parent e = EmojiServer sid"
      and changed: "db_emojis (db (snd (andthen (on_db (fetch_server sid)) (\<lambda>s. andthen (server_guard E u s ManageCustomisation) (\<lambda>_. emoji_delete e)) w)))
        \<noteq> db_emojis (db w)"
      by (cases "emoji_parent e") (simp_all add: route_delete_emoji_def andthen_Ok [of "on_db (fetch_emoji i)"] ret_def)
    have pure: "andthen m f w = (case fst (m w) of Ok y \<Rightarrow> f y w | Err x \<Rightarrow> (Err x, w) | Panic \<Rightarrow> (Panic, w))"
      if "unchanged (\<lambda>w. w) m" for m :: "'x world_action" and f :: "'x \<Rightarrow> unit world_action"
      using unchangedD [OF that, of w] by (cases "m w") (simp add: andthen_def split: outcome.split)
    from changed obtain s x where "fst (on_db (fetch_server sid) w) = Ok s" "fst (server_guard E u s ManageCustomisation w) = Ok x"
      by (auto simp: pure split: outcome.splits)
    then have "on_db (fetch_server sid) w = (Ok s, w)" "server_guard E u s ManageCustomisation w = (Ok x, w)"
      using unchangedD [OF fetches_read(2), where f = "\<lambda>w. w"] unchangedD [OF guards_read(5), where f = "\<lambda>w. w"]
      by (metis prod.collapse)+
    with e sid show ?thesis by (auto simp: governs_def dest: fetched_server passed_server_guard)
  qed (use e in blast)
qed

section \<open>Evidence of a report\<close>

lemma gathering_reads: "unchanged f (gather_evidence lower u content)"
proof -
  have msg: "unchanged f (generate_from_message lower m)" for m
    by (simp add: generate_from_message_def Let_def unchanged_andthen)
  show ?thesis
    unfolding gather_evidence_def
    by (auto simp: generate_from_server_def generate_from_user_def msg intro!: unchanged_andthen unchanged_attempt
        split: reported_content.split option.split)
qed

definition reported :: "world \<Rightarrow> string \<Rightarrow> bool" where
  "reported w i \<longleftrightarrow> (\<exists>f. map_of (db_files (db w)) i = Some f \<and> file_reported f = Some True)"

lemma mark_reported:
  assumes "on_db (mark_attachment_as_reported i) w = (Ok x, w')"
  shows "reported w' i \<and> (\<forall>j. reported w j \<longrightarrow> reported w' j)"
  using assms
  by (auto simp: reported_def on_db_def mark_attachment_as_reported_def table_change_def andthen_def gets_def modify_def throw_def update_conv'
      split: option.splits)

lemma on_world_Ok: "on_world m st = (Ok x, st') \<Longrightarrow> \<exists>w. m (sf_world st) = (Ok x, w) \<and> st' = st\<lparr>sf_world := w\<rparr>"
  by (auto simp: on_world_def split: prod.splits)

lemma marks_reported:
  assumes "for_each (\<lambda>f. on_world (on_db (mark_attachment_as_reported f))) files st = (Ok x, st')"
  shows "(\<forall>i \<in> set files. reported (sf_world st') i) \<and> (\<forall>j. reported (sf_world st) j \<longrightarrow> reported (sf_world st') j)
    \<and> sf_reports st' = sf_reports st \<and> sf_global st' = sf_global st \<and> sf_snapshots st' = sf_snapshots st"
  using assms
proof (induction files arbitrary: st)
  case (Cons f files)
  then obtain y st1 where "on_world (on_db (mark_attachment_as_reported f)) st = (Ok y, st1)"
    and rest: "for_each (\<lambda>f. on_world (on_db (mark_attachment_as_reported f))) files st1 = (Ok x, st')"
    by (auto elim: andthen_OkE)
  then obtain w where "on_db (mark_attachment_as_reported f) (sf_world st) = (Ok y, w)" and st1: "st1 = st\<lparr>sf_world := w\<rparr>"
    by (blast dest: on_world_Ok)
  from mark_reported [OF this(1)] Cons.IH [OF rest] st1 show ?case by simp
qed (simp add: ret_def)

lemma insert_snapshot_Ok:
  assumes "insert_snapshot x st = (Ok y, st')"
  shows "map_of (sf_snapshots st) (snapshot_id x) = None \<and> map_of (sf_snapshots st') = (map_of (sf_snapshots st))(snapshot_id x \<mapsto> x)
    \<and> sf_world st' = sf_world st \<and> sf_reports st' = sf_reports st \<and> sf_global st' = sf_global st"
  using assms
  by (auto simp: insert_snapshot_def table_insert_def hm_contains_def andthen_def gets_def modify_def throw_def update_conv' split: if_splits)

definition snapshot_for :: "(nat \<Rightarrow> string) \<Rightarrow> string \<Rightarrow> nat \<Rightarrow> snapshot_content \<Rightarrow> snapshot" where
  "snapshot_for ids rid k x = \<lparr>snapshot_id = ids k, snapshot_report_id = rid, snapshot_content = x\<rparr>"

lemma snapshots_stored:
  assumes "for_each (\<lambda>(k, x). insert_snapshot (snapshot_for ids rid k x)) (enumerate n xs) st = (Ok y, st')"
  shows "(\<forall>k < length xs. map_of (sf_snapshots st') (ids (n + k)) = Some (snapshot_for ids rid (n + k) (xs ! k)))
    \<and> (\<forall>i z. map_of (sf_snapshots st) i = Some z \<longrightarrow> map_of (sf_snapshots st') i = Some z)
    \<and> sf_world st' = sf_world st \<and> sf_reports st' = sf_reports st \<and> sf_global st' = sf_global st"
  using assms
proof (induction xs arbitrary: n st)
  case (Cons x xs)
  then obtain z st1 where first: "insert_snapshot (snapshot_for ids rid n x) st = (Ok z, st1)"
    and rest: "for_each (\<lambda>(k, x). insert_snapshot (snapshot_for ids rid k x)) (enumerate (Suc n) xs) st1 = (Ok y, st')"
    by (auto elim: andthen_OkE)
  note one = insert_snapshot_Ok [OF first] and more = Cons.IH [OF rest]
  have "map_of (sf_snapshots st') (ids (n + k)) = Some (snapshot_for ids rid (n + k) ((x # xs) ! k))" if "k < length (x # xs)" for k
    using that one more by (cases k) (auto simp: snapshot_for_def)
  moreover have "map_of (sf_snapshots st') i = Some z" if "map_of (sf_snapshots st) i = Some z" for i z
  proof -
    from one that have "map_of (sf_snapshots st1) i = Some z" by auto
    with more show ?thesis by blast
  qed
  ultimately show ?case using one more by simp
qed (simp add: ret_def)


definition quiet_state :: safety_state where
  "quiet_state = \<lparr>sf_world = sample_world (empty_db\<lparr>db_users := [(''b'', sample_user ''b'')]\<rparr>), sf_reports = [], sf_snapshots = [], sf_global = []\<rparr>"


section \<open>Administrators\<close>

text \<open>Whoever is not on the list of administrators gets no answer and changes nothing.\<close>

theorem admin_needs_whitelist:
  assumes "\<not> (\<exists>u. who = Some u \<and> user_id u \<in> set ADMIN_WHITELIST)"
  shows "admin_route lower who req w = (Err NotAuthenticated, w)"
  using assms by (auto simp: admin_route_def admin_guard_def andthen_def throw_def split: option.split)

text \<open>The second entry of the list is one character longer than an ULID.\<close>

lemma second_admin_is_no_ulid: "map length ADMIN_WHITELIST = [26, 27]"
  by (simp add: ADMIN_WHITELIST_def)

end
