(* ===== verification/Spec2Isabelle.thy ===== *)
theory Spec2Isabelle
  imports Ratelimiter Presence Tasks Bots Bridge Safety
begin

text \<open>
  A verification library for the DawnChat API, the backend of a chat platform in Rust (\<open>src/crates\<close>).

  \<^bold>\<open>The program.\<close> The REST server (\<open>crates/delta\<close>) answers requests of users. A route checks the request against the permissions of
  the acting user, calls the models of \<open>crates/core/database\<close>, which change the database and publish events, and answers or fails with
  an error of \<open>crates/core/result\<close>. Permissions are calculated by \<open>crates/core/permissions\<close> from what a query over the database
  answers. Requests are admitted by \<open>crates/core/ratelimits\<close>; the text of a message is read by \<open>crates/core/parser\<close>; who is online is
  kept by \<open>crates/core/presence\<close> in Redis; calls are kept in Redis and LiveKit (\<open>database/src/voice\<close>). Work that may wait goes through
  queues to background workers (\<open>database/src/tasks\<close>).

  \<^bold>\<open>The model.\<close> A computation is a function from a state to an outcome and a state (\<open>Prelude\<close>): the outcome is a value, an error, or
  a panic, and an error does not undo what was written before. The state of the requests is the record \<open>world\<close> (theory \<open>World\<close>): the
  database, and as logs what was published, sent to RabbitMQ, queued and asked of LiveKit, the keys in Redis, and the cache of nonces.
  What a request takes from outside is the record \<open>env\<close>: the time, the configuration, the clients of Redis and LiveKit, the lexer of the
  parser, and the order in which a hash set is iterated. New ids and the outcome of the derived validators are arguments of the routes.

  \<^bold>\<open>Theories\<close>, in the order of import:
  \<^item> \<open>Prelude\<close>: machine integers, outcomes and computations, hash maps as association lists (a statement holds for every order), and the
    frame predicates \<open>keeps\<close> and \<open>unchanged\<close>.
  \<^item> \<open>Result\<close>: \<open>core/result\<close>; the errors and the two tables of HTTP statuses, which agree.
  \<^item> \<open>Permissions\<close>, \<open>Permission_Query\<close>: \<open>core/permissions\<close>; permission bits, overrides, and the three calculations over the trait
    \<open>PermissionQuery\<close>, a record of methods. The locales \<open>server_query_laws\<close>, \<open>channel_query_laws\<close> and \<open>user_query_laws\<close> state what an
    implementation of the trait has to answer, and give the calculations a closed form.
  \<^item> \<open>Models\<close>, \<open>Partials\<close>: the structs of \<open>database/src/models\<close>, their partial versions, and the functions that the crate
    \<open>revolt_optional_struct\<close> generates, a parameter with the laws \<open>optional_struct_laws\<close>.
  \<^item> \<open>Database_Permission_Query\<close>, \<open>Bulk_Permission_Query\<close>: \<open>database/src/util\<close>; the lazy query with its caches, for any database given
    by its reads, interprets the three locales; the bulk calculation agrees with it on who can see a channel.
  \<^item> \<open>Ratelimiter\<close>, \<open>Parser\<close>, \<open>Presence\<close>: the three crates. Presence refines a set of sessions, over any store that satisfies the locale
    \<open>redis_sets\<close>; the iterator of the parser equals a reference definition.
  \<^item> \<open>Reference_Db\<close>: the reference database (\<open>models/*/ops/reference.rs\<close>); its collections interpret the locale \<open>table\<close>.
  \<^item> \<open>World\<close>: state, events, configuration, permissions against the database, and the laws of Redis (\<open>redis_laws\<close>) and of iteration
    (\<open>iteration_laws\<close>).
  \<^item> \<open>Voice\<close>: voice states and LiveKit. \<open>Relationships\<close>: friends and blocks. \<open>Servers\<close>: servers, roles and their routes. \<open>Members\<close>:
    joining, editing, kicking, banning. \<open>Channels\<close>: groups, direct messages, server channels, overrides and invites.
  \<^item> \<open>Messages\<close>, \<open>Messaging\<close>, \<open>Message_Safety\<close>: messages, the routes on them, and what these guarantee.
  \<^item> \<open>Oauth2\<close>: the OAuth2 provider (\<open>delta/src/routes/oauth2\<close>) as a machine of requests over its three maps. \<open>Users\<close>: accounts, names,
    discriminators, the rendering of users and their routes. \<open>Bots\<close>: bots and their credentials. \<open>Webhooks\<close>: webhooks, by
    permission and by token.
  \<^item> \<open>Gateway\<close>: one websocket connection (\<open>crates/bonfire\<close>): its cache, the first payload, the events it follows, the rounds of the
    listener that carries subscriptions to Redis, the messages of the client and the parameters of the address.
  \<^item> \<open>Wire\<close>: the structs of the wire (\<open>core/models/src/v0\<close>) and the conversions of \<open>database/src/util/bridge/v0.rs\<close>. \<open>Bridge\<close>: the
    locale \<open>wire_format\<close> with what a pair of conversions promises, interpreted on all of them, and the gateway on values from the wire.
  \<^item> \<open>Reading\<close>: the routes that only read. \<open>Safety\<close>: edits of servers, emojis, reports with their snapshots, administration.
  \<^item> \<open>Debounce\<close>, \<open>Tasks\<close>: delayed tasks and the workers. The locale \<open>debounced\<close> has the laws of a debouncing worker; the worker for the
    latest messages and the one for mentions and acknowledgements interpret it.
  \<^item> this theory: a property of a request and a worker together.

  \<^bold>\<open>What is shown.\<close> Permissions: the highest role decides, a timeout leaves nothing but reading, outsiders have nothing, overrides cannot
  grant what the editor lacks. Hierarchy: roles are reordered, edited and assigned, and members kicked, only from a higher rank; a
  banned user stays out through every sequence of requests. Relationships: the requests refine a machine on pairs of statuses, which
  stay consistent, and a block holds until it is lifted. Groups keep their shape. Messages: only authorised users send and delete, mentions reach
  only users who can see the channel, a nonce is used once, reactions stay well-formed. Voice: a state appears and disappears as a
  whole, and synchronising never grants. Accounts: no two users share a name and a discriminator, bots change only for their owners,
  and rendering keeps what a user hides. Webhooks act only with their token or for those who manage them. OAuth2: a code is redeemed
  once, an answer about a user goes back to a login of that user with the scopes granted then, and revoked tokens stay dead.
  Gateway: Redis delivers what the state of a connection names, and the first payload opens only what the user may see. Wire: values
  survive the conversions but for the storage details of files, updates commute with them, and they do not change what the gateway
  shows. Reading changes nothing and answers only those who may read; a server is edited field by field by those who may. Rate limits and presence: exact counts and the refinement of the set of sessions. Workers:
  every queued entry is handled once, within 31 seconds. A group of theorems shows where the code does not do what it means to.

  \<^bold>\<open>Bounds.\<close> Permissions are 64-bit words, flags 32-bit words, ranks are 64-bit integers read through the casts of the source; the
  counters of the rate limiter wrap as in the source. Lengths, limits and times are natural numbers or integers. No definition uses
  fuel: the loops of the program are recursions over lists, or functions with a measure (\<open>Parser\<close>).

  \<^bold>\<open>Concurrency.\<close> A route is one step of the state. Where an interleaving matters the steps are separated: two requests on one
  bucket (\<open>Ratelimiter\<close>) and a request on stale copies (\<open>Relationships\<close>). A worker is a sequence of rounds, and the entries it
  gets in a round are arbitrary.

  \<^bold>\<open>Not modelled.\<close> The MongoDB driver and its migrations are queries in the language of another system; the reference database is the
  meaning of the same traits in this repository. Serialisation, the start of the servers, request guards of Rocket and Axum, push
  notifications, the file, proxy and GIF services and the delivery of events are input and output over external libraries.
  A user on the wire (\<open>v0_user\<close>) carries its avatar as the record of the database.
\<close>

section \<open>From a request to the worker\<close>

lemma ack_round_start:
  "ack_round E (t, [(t, d)]) [] = ret [(ack_key_of d, delayed_new t (ack_event d))]"
  by (rule ext) (simp add: ack_round_def worker_round_def due_keys_def unwrap_def)

lemma ack_round_due:
  assumes "\<forall>w'. db w' = db w \<longrightarrow> fst (handle_ack_event E (ack_event d) (ack_user d) (ack_channel d) w') = Panic"
  shows "fst (ack_round E (t + 6000, []) [(ack_key_of d, delayed_new t (ack_event d))] w) = Panic"
proof -
  have "should_run (t + 6000) (delayed_new t (ack_event d))"
    by (simp add: should_run_def elapsed_secs_def delayed_new_def SAVE_CONSTANT_def)
  moreover have "fst (commit_ack E (ack_key_of d) (ack_event d) w) = Panic"
    using assms by (cases "handle_ack_event E (ack_event d) (ack_user d) (ack_channel d) w")
      (auto simp: commit_ack_def ack_key_of_def andthen_def attempt_def split: outcome.splits)
  ultimately show ?thesis
    by (cases "commit_ack E (ack_key_of d) (ack_event d) w")
      (simp add: ack_round_def worker_round_def due_keys_def andthen_def delayed_new_def)
qed

text \<open>C40: one message stops a background worker. When the owner of a group sends a text that mentions everyone, the request succeeds
  and stores a message with the flag of a mass mention; the entry it queues makes the worker that takes it panic six seconds later,
  because the handler expects a channel of a server. The process has five such workers.\<close>

theorem mass_mention_in_group_stops_worker:
  assumes c: "map_of (stored_channels w) cid = Some (Group cid g)" and owner: "grp_owner g = user_id u"
    and limits: "user_limits E u w = (Ok limits, w)" and content: "text \<noteq> []" "length text \<le> message_length limits"
    and mass: "env_mass_mentions E" and everyone: "mentions_everyone (parse_message (env_lexer E) text)"
    and roles: "role_mentions (parse_message (env_lexer E) text) = {}"
    and order: "iteration_laws (env_iteration E)" and fresh: "map_of (stored_messages w) i = None"
  shows "\<exists>m w' d. route_message_send E (Ok ()) i key u cid (text_request text) w = (Ok m, w') \<and> queue_entry (last (tasks w')) [] = [d]
     \<and> fst (andthen (ack_round E (t, [(t, d)]) []) (ack_round E (t + 6000, [])) w') = Panic"
proof -
  let ?m = "group_message E i key u cid g text"
  have empty: "env_iteration E {} = []" using iteration_laws.order_empty [OF order, of "{}"] by simp
  obtain w' where run: "route_message_send E (Ok ()) i key u cid (text_request text) w = (Ok ?m, w')"
    and w': "stored_channels w' = stored_channels w"
      "last (tasks w') = TaskAckMessage cid ?m (filter (\<lambda>x. x \<noteq> user_id u) (grp_recipients g)) True False"
    using group_owner_sends [OF c owner limits content mass roles empty fresh] by (simp add: Let_def)
  define d where "d = \<lparr>ack_channel = cid, ack_user = None,
     ack_event = ProcessMessage [(Some ?m, ?m, filter (\<lambda>x. x \<noteq> user_id u) (grp_recipients g), False)]\<rparr>"
  have "contains_mass_push_mention ?m"
    using everyone by (simp add: contains_mass_push_mention_def group_message_def Let_def everyone_flag)
  moreover have "msg_channel ?m = cid" by (simp add: group_message_def Let_def)
  ultimately have "fst (handle_ack_event E (ack_event d) (ack_user d) (ack_channel d) w'') = Panic" if "db w'' = db w'" for w''
    using mass_mention_panics [of ?m w'' "Group cid g"] that w'(1) c by (simp add: handle_ack_event_def d_def)
  then have "fst (ack_round E (t + 6000, []) [(ack_key_of d, delayed_new t (ack_event d))] w') = Panic" by (intro ack_round_due) blast
  moreover have "queue_entry (last (tasks w')) [] = [d]" by (simp add: w'(2) queue_message_def try_push_def QUEUE_CAPACITY_def d_def)
  ultimately show ?thesis using run by (auto simp: ack_round_start)
qed

theorem mass_mention_in_group_stops_worker_witness:
  "\<exists>m w' d. route_message_send sample_env (Ok ()) ''m'' ''k'' (sample_user ''a'') ''G'' (text_request ''@everyone'') chat_world = (Ok m, w')
     \<and> queue_entry (last (tasks w')) [] = [d]
     \<and> fst (andthen (ack_round sample_env (0, [(0, d)]) []) (ack_round sample_env (0 + 6000, [])) w') = Panic"
proof -
  have "length ''@everyone'' \<le> message_length (env_default sample_env)" "env_mass_mentions sample_env"
    "iteration_laws (env_iteration sample_env)"
    by (simp_all add: sample_env_def sorted_iteration.iteration_laws_axioms)
  then show ?thesis
    by (intro mass_mention_in_group_stops_worker [where g = chat_group, OF _ _ sample_limits])
      (simp_all add: sample_everyone message_results_default_def)
qed

end
